(* ===== verification/Wolf_Prelude.thy ===== *)
theory Wolf_Prelude
  imports Main "HOL-Library.Word" "HOL-Library.AList" "HOL-Library.Sublist"
begin

text \<open>
  Shared vocabulary of the development.

  \<^item> The named collections \<open>row_simps\<close> (field-by-field behaviour of the row store),
    \<open>audit_simps\<close> (what an operation adds to the audit trail) and \<open>text_simps\<close>
    (Python string operations) collect the facts that the component proofs use.
  \<^item> \<open>pyval\<close> is the JSON-shaped Python value of the code's \<open>dict[str, Any]\<close> columns and
    arguments; a dict is an association list in insertion order with distinct keys.
  \<^item> \<open>uuid\<close> is a 128-bit word, \<open>datetime\<close> counts microseconds and remembers
    whether the Python object carries a time zone.
\<close>

named_theorems row_simps
named_theorems audit_simps
named_theorems text_simps

section \<open>Identifiers and time\<close>

type_synonym uuid = "128 word"

text \<open>\<open>Naive\<close> is a Python datetime with \<open>tzinfo is None\<close> (what SQLite hands back), \<open>Aware\<close> an
  instant in UTC; both count microseconds from the epoch.\<close>

datatype datetime = Naive int | Aware int

fun instant :: "datetime \<Rightarrow> int" where
  "instant (Naive t) = t"
| "instant (Aware t) = t"

text \<open>The idiom \<open>if d.tzinfo is None: d = d.replace(tzinfo=UTC)\<close>.\<close>

definition as_utc :: "datetime \<Rightarrow> datetime" where
  "as_utc d = Aware (instant d)"

definition plus_seconds :: "datetime \<Rightarrow> int \<Rightarrow> datetime" where
  "plus_seconds d n = (case d of Naive t \<Rightarrow> Naive (t + n * 1000000) | Aware t \<Rightarrow> Aware (t + n * 1000000))"

lemma instant_as_utc [simp]: "instant (as_utc d) = instant d"
  by (simp add: as_utc_def)

lemma instant_plus_seconds [simp]: "instant (plus_seconds d n) = instant d + n * 1000000"
  by (cases d) (simp_all add: plus_seconds_def)

section \<open>JSON-shaped Python values\<close>

datatype pyval =
    PNone
  | PBool bool
  | PInt int
  | PStr string
  | PList "pyval list"
  | PDict "(string \<times> pyval) list"

type_synonym dict = "(string \<times> pyval) list"

text \<open>\<open>d.get(k)\<close>, \<open>d.get(k, default)\<close> and the item assignment \<open>d[k] = v\<close> (which keeps the
  position of a key that is already present).\<close>

definition dget :: "dict \<Rightarrow> string \<Rightarrow> pyval" where
  "dget d k = (case map_of d k of None \<Rightarrow> PNone | Some v \<Rightarrow> v)"

definition dget_or :: "dict \<Rightarrow> string \<Rightarrow> pyval \<Rightarrow> pyval" where
  "dget_or d k v0 = (case map_of d k of None \<Rightarrow> v0 | Some v \<Rightarrow> v)"

definition dset :: "string \<Rightarrow> pyval \<Rightarrow> dict \<Rightarrow> dict" where
  "dset k v d = AList.update k v d"

lemma dget_dset [simp]: "dget (dset k v d) k' = (if k' = k then v else dget d k')"
  by (simp add: dget_def dset_def update_conv')

lemma dget_Nil [simp]: "dget [] k = PNone"
  by (simp add: dget_def)

lemma dget_Cons [simp]: "dget ((k, v) # d) k' = (if k' = k then v else dget d k')"
  by (simp add: dget_def)

lemma distinct_dset: "distinct (map fst d) \<Longrightarrow> distinct (map fst (dset k v d))"
  by (simp add: dset_def distinct_update)

text \<open>Python truth value, and the type tests of \<open>isinstance\<close>; \<open>bool\<close> is a subclass of \<open>int\<close>.\<close>

fun truthy :: "pyval \<Rightarrow> bool" where
  "truthy PNone = False"
| "truthy (PBool b) = b"
| "truthy (PInt i) = (i \<noteq> 0)"
| "truthy (PStr s) = (s \<noteq> [])"
| "truthy (PList xs) = (xs \<noteq> [])"
| "truthy (PDict d) = (d \<noteq> [])"

fun as_str :: "pyval \<Rightarrow> string option" where
  "as_str (PStr s) = Some s"
| "as_str _ = None"

fun as_int :: "pyval \<Rightarrow> int option" where
  "as_int (PInt i) = Some i"
| "as_int (PBool b) = Some (if b then 1 else 0)"
| "as_int _ = None"

fun as_dict :: "pyval \<Rightarrow> dict option" where
  "as_dict (PDict d) = Some d"
| "as_dict _ = None"

fun as_list :: "pyval \<Rightarrow> pyval list option" where
  "as_list (PList xs) = Some xs"
| "as_list _ = None"

text \<open>\<open>a or b\<close>, and \<open>a == b\<close> where one side is a number: a bool equals the int it stands for.\<close>

definition py_or :: "pyval \<Rightarrow> pyval \<Rightarrow> pyval" where
  "py_or a b = (if truthy a then a else b)"

definition py_eq :: "pyval \<Rightarrow> pyval \<Rightarrow> bool" where
  "py_eq a b \<longleftrightarrow> a = b \<or> (as_int a \<noteq> None \<and> as_int a = as_int b)"

text \<open>\<open>x if isinstance(x, dict) else {}\<close>.\<close>

definition dict_or_empty :: "pyval \<Rightarrow> dict" where
  "dict_or_empty v = (case as_dict v of Some d \<Rightarrow> d | None \<Rightarrow> [])"

lemma dict_or_empty_PDict [simp]: "dict_or_empty (PDict d) = d"
  by (simp add: dict_or_empty_def)

lemma as_str_Some_iff [simp]: "as_str v = Some s \<longleftrightarrow> v = PStr s"
  by (cases v) auto

lemma as_dict_Some_iff [simp]: "as_dict v = Some d \<longleftrightarrow> v = PDict d"
  by (cases v) auto

lemma as_list_Some_iff [simp]: "as_list v = Some xs \<longleftrightarrow> v = PList xs"
  by (cases v) auto

section \<open>Generic list lemmas\<close>

text \<open>Replacing the element with a given key is how a row update acts on a table.\<close>

definition replace_by :: "('a \<Rightarrow> 'k) \<Rightarrow> 'a \<Rightarrow> 'a list \<Rightarrow> 'a list" where
  "replace_by key x = map (\<lambda>y. if key y = key x then x else y)"

lemma length_replace_by [simp]: "length (replace_by key x xs) = length xs"
  by (simp add: replace_by_def)

lemma map_key_replace_by [simp]: "map key (replace_by key x xs) = map key xs"
  by (simp add: replace_by_def)

lemma replace_by_replace_by [simp]:
  "key x = key y \<Longrightarrow> replace_by key x (replace_by key y xs) = replace_by key x xs"
  by (simp add: replace_by_def)

lemma find_replace_by_same:
  "find (\<lambda>y. key y = k) xs = Some z \<Longrightarrow> key x = k \<Longrightarrow>
   find (\<lambda>y. key y = k) (replace_by key x xs) = Some x"
  by (induction xs) (auto simp: replace_by_def split: if_splits)

lemma find_replace_by_other:
  "key x \<noteq> k \<Longrightarrow> find (\<lambda>y. key y = k) (replace_by key x xs) = find (\<lambda>y. key y = k) xs"
  by (induction xs) (auto simp: replace_by_def)

lemma find_key_SomeD: "find (\<lambda>y. key y = k) xs = Some z \<Longrightarrow> key z = k \<and> z \<in> set xs"
  by (auto simp: find_Some_iff)

lemma set_replace_byD: "y \<in> set (replace_by key x xs) \<Longrightarrow> y = x \<or> y \<in> set xs"
  by (auto simp: replace_by_def split: if_splits)

lemma find_append: "find P (xs @ ys) = (case find P xs of Some x \<Rightarrow> Some x | None \<Rightarrow> find P ys)"
  by (induction xs) auto

text \<open>\<open>xs.sort(key=f, reverse=True)\<close> and SQL's \<open>ORDER BY \<dots> DESC\<close>: stable, largest key first.\<close>

definition sort_desc :: "('a \<Rightarrow> 'k :: linorder) \<Rightarrow> 'a list \<Rightarrow> 'a list" where
  "sort_desc f xs = rev (sort_key f (rev xs))"

lemma set_sort_desc [simp]: "set (sort_desc f xs) = set xs"
  by (simp add: sort_desc_def)

lemma sort_desc_sorted: "sorted_wrt (\<lambda>x y. f y \<le> f x) (sort_desc f xs)"
proof -
  have "sorted (map f (sort_key f (rev xs)))" by simp
  then have "sorted_wrt (\<lambda>x y. f x \<le> f y) (sort_key f (rev xs))"
    by (simp add: sorted_wrt_map)
  then show ?thesis
    by (simp add: sort_desc_def sorted_wrt_rev)
qed

end
