(* ===== verification/Py_Text.thy ===== *)
theory Py_Text
  imports Wolf_Prelude
begin

text \<open>
  The Python string operations the modelled code calls, on strings whose code points are
  below 256 (an Isabelle \<open>char\<close> is one such code point).  Character classes follow CPython's
  Unicode tables restricted to that range.
\<close>

section \<open>Character classes\<close>

definition cp :: "char \<Rightarrow> nat" where
  "cp c = of_char c"

definition is_space :: "char \<Rightarrow> bool" where
  "is_space c \<longleftrightarrow> (let n = cp c in (9 \<le> n \<and> n \<le> 13) \<or> (28 \<le> n \<and> n \<le> 32) \<or> n = 133 \<or> n = 160)"

text \<open>Decimal digits, the only ones \<open>int()\<close> and \<open>\\d\<close> accept here.\<close>

definition is_decimal :: "char \<Rightarrow> bool" where
  "is_decimal c \<longleftrightarrow> 48 \<le> cp c \<and> cp c \<le> 57"

text \<open>\<open>str.isdigit\<close> also accepts the superscripts two, three and one.\<close>

definition is_digit_char :: "char \<Rightarrow> bool" where
  "is_digit_char c \<longleftrightarrow> is_decimal c \<or> cp c = 178 \<or> cp c = 179 \<or> cp c = 185"

definition is_word :: "char \<Rightarrow> bool" where
  "is_word c \<longleftrightarrow> (let n = cp c in (48 \<le> n \<and> n \<le> 57) \<or> (65 \<le> n \<and> n \<le> 90) \<or> n = 95 \<or> (97 \<le> n \<and> n \<le> 122)
     \<or> n \<in> {170, 178, 179, 181, 185, 186, 188, 189, 190} \<or> (192 \<le> n \<and> n \<noteq> 215 \<and> n \<noteq> 247))"

definition lower_char :: "char \<Rightarrow> char" where
  "lower_char c = (let n = cp c in
     if (65 \<le> n \<and> n \<le> 90) \<or> (192 \<le> n \<and> n \<le> 222 \<and> n \<noteq> 215) then char_of (n + 32) else c)"

section \<open>Basic operations\<close>

definition py_lower :: "string \<Rightarrow> string" where
  "py_lower = map lower_char"

definition rstrip_by :: "(char \<Rightarrow> bool) \<Rightarrow> string \<Rightarrow> string" where
  "rstrip_by P s = rev (dropWhile P (rev s))"

abbreviation py_rstrip :: "string \<Rightarrow> string" where
  "py_rstrip \<equiv> rstrip_by is_space"

definition py_strip :: "string \<Rightarrow> string" where
  "py_strip s = py_rstrip (dropWhile is_space s)"

definition lstrip_char :: "char \<Rightarrow> string \<Rightarrow> string" where
  "lstrip_char c = dropWhile (\<lambda>x. x = c)"

definition startswith :: "string \<Rightarrow> string \<Rightarrow> bool" where
  "startswith s p \<longleftrightarrow> take (length p) s = p"

text \<open>The substring test \<open>p in s\<close>.\<close>

fun contains :: "string \<Rightarrow> string \<Rightarrow> bool" where
  "contains p [] = (p = [])"
| "contains p (c # s) = (startswith (c # s) p \<or> contains p s)"

text \<open>\<open>s.rfind(p)\<close> as \<open>Some\<close> position, \<open>None\<close> for \<open>-1\<close>.\<close>

fun rfind :: "string \<Rightarrow> string \<Rightarrow> nat option" where
  "rfind p [] = (if p = [] then Some 0 else None)"
| "rfind p (c # s) = (case rfind p s of Some n \<Rightarrow> Some (Suc n)
     | None \<Rightarrow> if startswith (c # s) p then Some 0 else None)"

text \<open>\<open>s.split(c)\<close> for a one-character separator: always at least one piece.\<close>

fun split_on :: "char \<Rightarrow> string \<Rightarrow> string list" where
  "split_on d [] = [[]]"
| "split_on d (c # s) = (if c = d then [] # split_on d s
     else (case split_on d s of [] \<Rightarrow> [[c]] | w # ws \<Rightarrow> (c # w) # ws))"

fun join :: "string \<Rightarrow> string list \<Rightarrow> string" where
  "join sep [] = []"
| "join sep [w] = w"
| "join sep (w # ws) = w @ sep @ join sep ws"

section \<open>Numbers as text\<close>

definition digit_char :: "nat \<Rightarrow> char" where
  "digit_char n = (if n < 10 then char_of (48 + n) else char_of (87 + n))"

fun show_nat :: "nat \<Rightarrow> string" where
  "show_nat n = (if n < 10 then [digit_char n] else show_nat (n div 10) @ [digit_char (n mod 10)])"

declare show_nat.simps [simp del]

definition show_int :: "int \<Rightarrow> string" where
  "show_int i = (if i < 0 then CHR ''-'' # show_nat (nat (- i)) else show_nat (nat i))"

definition digits_value :: "string \<Rightarrow> nat" where
  "digits_value = foldl (\<lambda>n c. n * 10 + (cp c - 48)) 0"

text \<open>\<open>int(s)\<close> on text that is already known to be made of digit characters: a non-decimal
  digit, or more than 4300 characters (CPython's conversion limit), raises \<open>ValueError\<close>.\<close>

definition py_int :: "string \<Rightarrow> nat option" where
  "py_int s = (if s \<noteq> [] \<and> list_all is_decimal s \<and> length s \<le> 4300 then Some (digits_value s) else None)"

definition py_isdigit :: "string \<Rightarrow> bool" where
  "py_isdigit s \<longleftrightarrow> s \<noteq> [] \<and> list_all is_digit_char s"

text \<open>The canonical text of a UUID, \<open>8-4-4-4-12\<close> hexadecimal digits.\<close>

definition hex_digits :: "nat \<Rightarrow> nat \<Rightarrow> string" where
  "hex_digits k n = map (\<lambda>i. digit_char (n div 16 ^ (k - Suc i) mod 16)) [0..<k]"

definition uuid_str :: "uuid \<Rightarrow> string" where
  "uuid_str u = (let h = hex_digits 32 (unat u) in
     take 8 h @ ''-'' @ take 4 (drop 8 h) @ ''-'' @ take 4 (drop 12 h) @ ''-''
       @ take 4 (drop 16 h) @ ''-'' @ drop 20 h)"

section \<open>\<open>str\<close> and \<open>repr\<close>\<close>

definition repr_char :: "char \<Rightarrow> char \<Rightarrow> string" where
  "repr_char q c = (let n = cp c in
     if c = q \<or> n = 92 then [CHR 0x5C, c]
     else if n = 9 then [CHR 0x5C, CHR ''t''] else if n = 10 then [CHR 0x5C, CHR ''n'']
     else if n = 13 then [CHR 0x5C, CHR ''r'']
     else if n < 32 \<or> (127 \<le> n \<and> n \<le> 160) \<or> n = 173 then [CHR 0x5C, CHR ''x''] @ hex_digits 2 n
     else [c])"

definition repr_str :: "string \<Rightarrow> string" where
  "repr_str s = (let q = (if CHR 0x27 \<in> set s \<and> CHR 0x22 \<notin> set s then CHR 0x22 else CHR 0x27)
     in [q] @ concat (map (repr_char q) s) @ [q])"

fun py_repr :: "pyval \<Rightarrow> string" where
  "py_repr PNone = ''None''"
| "py_repr (PBool b) = (if b then ''True'' else ''False'')"
| "py_repr (PInt i) = show_int i"
| "py_repr (PStr s) = repr_str s"
| "py_repr (PList xs) = ''['' @ join '', '' (map py_repr xs) @ '']''"
| "py_repr (PDict d) = ''{'' @ join '', '' (map (\<lambda>(k, v). repr_str k @ '': '' @ py_repr v) d) @ ''}''"

definition py_str :: "pyval \<Rightarrow> string" where
  "py_str v = (case v of PStr s \<Rightarrow> s | _ \<Rightarrow> py_repr v)"

lemma py_str_PStr [simp]: "py_str (PStr s) = s"
  by (simp add: py_str_def)

section \<open>Laws\<close>

lemma dropWhile_dropWhile [simp]: "dropWhile P (dropWhile P s) = dropWhile P s"
  by (induction s) auto

lemma rstrip_by_idem [simp]: "rstrip_by P (rstrip_by P s) = rstrip_by P s"
  by (simp add: rstrip_by_def)

lemma dropWhile_rstrip_by: "dropWhile P (rstrip_by P s) = rstrip_by P (dropWhile P s)"
proof (induction s)
  case (Cons c s)
  show ?case
  proof (cases "\<forall>x \<in> set (c # s). P x")
    case True
    then have "dropWhile P (rev (c # s)) = []" and "dropWhile P (c # s) = []"
      by (simp_all only: dropWhile_eq_Nil_conv set_rev)
    then show ?thesis by (simp only: rstrip_by_def rev.simps(1) dropWhile.simps(1))
  next
    case False
    show ?thesis
    proof (cases "\<forall>x \<in> set s. P x")
      case True
      with False have "\<not> P c" by auto
      with True show ?thesis by (auto simp: rstrip_by_def dropWhile_append)
    next
      case s: False
      then have *: "rstrip_by P (c # s) = c # rstrip_by P s"
        by (auto simp: rstrip_by_def dropWhile_append)
      with Cons.IH * show ?thesis by simp
    qed
  qed
qed (simp add: rstrip_by_def)

lemma py_strip_idem [simp]: "py_strip (py_strip s) = py_strip s"
  by (simp add: py_strip_def dropWhile_rstrip_by)

lemma py_strip_hd: "py_strip s = c # t \<Longrightarrow> \<not> is_space c"
  by (metis dropWhile_rstrip_by hd_dropWhile list.distinct(1) list.sel(1) py_strip_def)

lemma py_strip_last: "py_strip s \<noteq> [] \<Longrightarrow> \<not> is_space (last (py_strip s))"
  by (metis (no_types, lifting) hd_dropWhile last_rev py_strip_def rev_is_Nil_conv rev_rev_ident rstrip_by_def)

lemma startswith_iff: "startswith s p \<longleftrightarrow> prefix p s"
  by (metis append_take_drop_id append_eq_conv_conj prefix_def startswith_def)

lemma contains_iff: "contains p s \<longleftrightarrow> sublist p s"
proof (induction s)
  case (Cons c s)
  then show ?case
    by (auto simp: startswith_iff sublist_Cons_right simp del: contains.simps(1))
qed simp

lemma split_on_not_Nil [simp]: "split_on d s \<noteq> []"
  by (induction s) (auto split: list.splits)

lemma split_on_no_sep: "d \<notin> set s \<Longrightarrow> split_on d s = [s]"
  by (induction s) auto

lemma split_on_append_sep: "d \<notin> set s \<Longrightarrow> split_on d (s @ d # t) = s # split_on d t"
  by (induction s) auto

lemma join_split_on: "join [d] (split_on d s) = s"
proof (induction s)
  case (Cons c s)
  obtain w ws where w: "split_on d s = w # ws" by (meson neq_Nil_conv split_on_not_Nil)
  with Cons show ?case by (cases ws) auto
qed simp

lemma rfind_SomeD: "rfind p s = Some n \<Longrightarrow> \<exists>t. s = take n s @ p @ t"
proof (induction s arbitrary: n)
  case (Cons c s)
  show ?case
  proof (cases "rfind p s")
    case None
    with Cons.prems have "n = 0" "startswith (c # s) p" by (auto split: if_splits)
    then show ?thesis by (auto simp: startswith_iff prefix_def)
  next
    case (Some m)
    with Cons show ?thesis by auto
  qed
qed (auto split: if_splits)

end
