(* ===== verification/Wolf_Errors.thy ===== *)
theory Wolf_Errors
  imports Py_Text
begin

text \<open>
  The exceptions the modelled code raises.  A \<open>WolfError\<close> subclass is a constant of
  \<open>wolf_class\<close> with the HTTP status the class declares; \<open>HTTPException\<close> is FastAPI's, with its
  status code; every other Python exception carries its class name.  All carry the text that
  \<open>str(exc)\<close> shows.  Texts are those of the source with the dash and arrow characters outside
  Latin-1 written \<open>-\<close> and \<open>->\<close>.
\<close>

datatype wolf_class =
    WolfErrorBase
  | OrganizationContextError
  | OrganizationMismatchError
  | OrganizationNotFoundError
  | AuthenticationError
  | AuthorizationError
  | SessionExpiredError
  | ToolNotFoundError
  | ToolCapabilityError
  | ToolSchemaError
  | SecretNotFoundError
  | SecretBackendError
  | IllegalTransitionError
  | SeparationOfDutiesError
  | ApprovalAuthorityError
  | ProposalExpiredError
  | ContentHashMismatchError
  | ProposalStaleError
  | RulesetValidationError
  | ConfigValidationError
  | UnknownActionClassError
  | WazuhServerApiError
  | WazuhActionNotPermittedError
  | WazuhConfigMissingError
  | WazuhTopologyMissingError
  | WazuhOpenSearchError
  | GuardrailViolation
  | ModelProviderRateLimitError
  | ModelProviderPaymentRequiredError
  | ModelProviderRequestError
  | ModelProviderUnconfiguredError

fun http_status :: "wolf_class \<Rightarrow> nat" where
  "http_status WolfErrorBase = 500"
| "http_status OrganizationContextError = 400"
| "http_status OrganizationMismatchError = 500"
| "http_status OrganizationNotFoundError = 404"
| "http_status AuthenticationError = 401"
| "http_status AuthorizationError = 403"
| "http_status SessionExpiredError = 401"
| "http_status ToolNotFoundError = 404"
| "http_status ToolCapabilityError = 403"
| "http_status ToolSchemaError = 422"
| "http_status SecretNotFoundError = 404"
| "http_status SecretBackendError = 503"
| "http_status IllegalTransitionError = 409"
| "http_status SeparationOfDutiesError = 403"
| "http_status ApprovalAuthorityError = 403"
| "http_status ProposalExpiredError = 409"
| "http_status ContentHashMismatchError = 409"
| "http_status ProposalStaleError = 409"
| "http_status RulesetValidationError = 422"
| "http_status ConfigValidationError = 422"
| "http_status UnknownActionClassError = 500"
| "http_status WazuhServerApiError = 502"
| "http_status WazuhActionNotPermittedError = 403"
| "http_status WazuhConfigMissingError = 404"
| "http_status WazuhTopologyMissingError = 404"
| "http_status WazuhOpenSearchError = 502"
| "http_status GuardrailViolation = 422"
| "http_status ModelProviderRateLimitError = 429"
| "http_status ModelProviderPaymentRequiredError = 402"
| "http_status ModelProviderRequestError = 502"
| "http_status ModelProviderUnconfiguredError = 500"

text \<open>\<open>type(exc).__name__\<close>.\<close>

fun class_name :: "wolf_class \<Rightarrow> string" where
  "class_name WolfErrorBase = ''WolfError''"
| "class_name OrganizationContextError = ''OrganizationContextError''"
| "class_name OrganizationMismatchError = ''OrganizationMismatchError''"
| "class_name OrganizationNotFoundError = ''OrganizationNotFoundError''"
| "class_name AuthenticationError = ''AuthenticationError''"
| "class_name AuthorizationError = ''AuthorizationError''"
| "class_name SessionExpiredError = ''SessionExpiredError''"
| "class_name ToolNotFoundError = ''ToolNotFoundError''"
| "class_name ToolCapabilityError = ''ToolCapabilityError''"
| "class_name ToolSchemaError = ''ToolSchemaError''"
| "class_name SecretNotFoundError = ''SecretNotFoundError''"
| "class_name SecretBackendError = ''SecretBackendError''"
| "class_name IllegalTransitionError = ''IllegalTransitionError''"
| "class_name SeparationOfDutiesError = ''SeparationOfDutiesError''"
| "class_name ApprovalAuthorityError = ''ApprovalAuthorityError''"
| "class_name ProposalExpiredError = ''ProposalExpiredError''"
| "class_name ContentHashMismatchError = ''ContentHashMismatchError''"
| "class_name ProposalStaleError = ''ProposalStaleError''"
| "class_name RulesetValidationError = ''RulesetValidationError''"
| "class_name ConfigValidationError = ''ConfigValidationError''"
| "class_name UnknownActionClassError = ''UnknownActionClassError''"
| "class_name WazuhServerApiError = ''WazuhServerApiError''"
| "class_name WazuhActionNotPermittedError = ''WazuhActionNotPermittedError''"
| "class_name WazuhConfigMissingError = ''WazuhConfigMissingError''"
| "class_name WazuhTopologyMissingError = ''WazuhTopologyMissingError''"
| "class_name WazuhOpenSearchError = ''WazuhOpenSearchError''"
| "class_name GuardrailViolation = ''GuardrailViolation''"
| "class_name ModelProviderRateLimitError = ''ModelProviderRateLimitError''"
| "class_name ModelProviderPaymentRequiredError = ''ModelProviderPaymentRequiredError''"
| "class_name ModelProviderRequestError = ''ModelProviderRequestError''"
| "class_name ModelProviderUnconfiguredError = ''ModelProviderUnconfiguredError''"

datatype exn =
    Wolf wolf_class string
  | HTTPException nat string
  | PyError string string

fun exn_str :: "exn \<Rightarrow> string" where
  "exn_str (Wolf c m) = m"
| "exn_str (HTTPException n m) = m"
| "exn_str (PyError c m) = m"

fun exn_class :: "exn \<Rightarrow> string" where
  "exn_class (Wolf c m) = class_name c"
| "exn_class (HTTPException n m) = ''HTTPException''"
| "exn_class (PyError c m) = c"

text \<open>\<open>except WolfError as exc: raise HTTPException(exc.http_status, str(exc))\<close>; anything else
  propagates unchanged.\<close>

fun to_http :: "exn \<Rightarrow> exn" where
  "to_http (Wolf c m) = HTTPException (http_status c) m"
| "to_http e = e"

fun is_wolf :: "exn \<Rightarrow> bool" where
  "is_wolf (Wolf c m) = True"
| "is_wolf _ = False"

type_synonym 'a result = "exn + 'a"

text \<open>Sequencing of fallible steps, without and with a threaded state: a step that raised ends the
  function there, with the state it left.\<close>

definition rbind :: "'a result \<Rightarrow> ('a \<Rightarrow> 'b result) \<Rightarrow> 'b result" where
  "rbind r f = (case r of Inl e \<Rightarrow> Inl e | Inr x \<Rightarrow> f x)"

definition io_bind :: "('s \<Rightarrow> 'a result \<times> 's) \<Rightarrow> ('a \<Rightarrow> 's \<Rightarrow> 'b result \<times> 's) \<Rightarrow> 's \<Rightarrow> 'b result \<times> 's" where
  "io_bind m f s = (case m s of (Inl e, s) \<Rightarrow> (Inl e, s) | (Inr x, s) \<Rightarrow> f x s)"

definition io_return :: "'a result \<Rightarrow> 's \<Rightarrow> 'a result \<times> 's" where
  "io_return r s = (r, s)"

lemma rbind_simps [simp]: "rbind (Inl e) f = Inl e" "rbind (Inr x) f = f x"
  by (simp_all add: rbind_def)

lemma io_bind_Inl_iff: "io_bind m f s = (Inl e, s') \<longleftrightarrow>
    m s = (Inl e, s') \<or> (\<exists>x s1. m s = (Inr x, s1) \<and> f x s1 = (Inl e, s'))"
  by (auto simp: io_bind_def split: prod.splits sum.splits)

lemma io_bind_Inr_iff: "io_bind m f s = (Inr y, s') \<longleftrightarrow> (\<exists>x s1. m s = (Inr x, s1) \<and> f x s1 = (Inr y, s'))"
  by (auto simp: io_bind_def split: prod.splits sum.splits)

lemma io_return_iff [simp]: "io_return r s = (r', s') \<longleftrightarrow> r' = r \<and> s' = s"
  by (auto simp: io_return_def)

lemma http_status_is_error: "400 \<le> http_status c \<and> http_status c < 600"
  by (cases c) simp_all

end
