(* ===== verification/Audit_Log.thy ===== *)
theory Audit_Log
  imports Wolf_Errors
begin

text \<open>
  The append-only audit trail (\<open>audit/log.py\<close>, \<open>audit/models.py\<close>).

  \<open>audit_db\<close> is the part of the database every component shares: the audit table and the two
  sources of nondeterminism the code reads, \<open>datetime.now(UTC)\<close> and \<open>uuid.uuid4()\<close>.  Each is an
  arbitrary sequence of readings; a reading returns the head and drops it, so no monotonicity or
  uniqueness is built in.  Components extend the record with their own tables.
\<close>

record audit_event =
  ae_id :: uuid
  ae_organization_id :: "uuid option"
  ae_user_id :: "uuid option"
  ae_event_type :: string
  ae_event_data :: "dict option"
  ae_related_event_id :: "uuid option"
  ae_source_ip :: "string option"
  ae_session_id :: "string option"
  ae_created_at :: datetime

record audit_db =
  audit_events :: "audit_event list"
  clock :: "nat \<Rightarrow> int"
  uuid_source :: "nat \<Rightarrow> uuid"

definition utcnow :: "'z audit_db_scheme \<Rightarrow> datetime \<times> 'z audit_db_scheme" where
  "utcnow db = (Aware (clock db 0), db\<lparr>clock := \<lambda>n. clock db (Suc n)\<rparr>)"

definition uuid4 :: "'z audit_db_scheme \<Rightarrow> uuid \<times> 'z audit_db_scheme" where
  "uuid4 db = (uuid_source db 0, db\<lparr>uuid_source := \<lambda>n. uuid_source db (Suc n)\<rparr>)"

section \<open>Writers\<close>

definition write_event ::
  "'z audit_db_scheme \<Rightarrow> string \<Rightarrow> dict option \<Rightarrow> uuid option \<Rightarrow> uuid option \<Rightarrow> string option
    \<Rightarrow> string option \<Rightarrow> uuid option \<Rightarrow> audit_event \<times> 'z audit_db_scheme" where
  "write_event db event_type event_data organization_id user_id session_id source_ip related_event_id =
    (let (i, db1) = uuid4 db;
         (now, db2) = utcnow db1;
         event = \<lparr>ae_id = i, ae_organization_id = organization_id, ae_user_id = user_id,
           ae_event_type = event_type, ae_event_data = event_data,
           ae_related_event_id = related_event_id, ae_source_ip = source_ip,
           ae_session_id = session_id, ae_created_at = now\<rparr>
     in (event, db2\<lparr>audit_events := audit_events db2 @ [event]\<rparr>))"

text \<open>The identity a request carries (\<open>organization/context.py\<close>).\<close>

record organization_context =
  oc_organization_id :: uuid
  oc_organization_slug :: string
  oc_user_id :: uuid
  oc_user_email :: string
  oc_role :: string
  oc_session_id :: string

definition write_event_from_context ::
  "'z audit_db_scheme \<Rightarrow> organization_context \<Rightarrow> string \<Rightarrow> dict option \<Rightarrow> string option
    \<Rightarrow> uuid option \<Rightarrow> audit_event \<times> 'z audit_db_scheme" where
  "write_event_from_context db ctx event_type event_data source_ip related_event_id =
    write_event db event_type event_data (Some (oc_organization_id ctx)) (Some (oc_user_id ctx))
      (Some (oc_session_id ctx)) source_ip related_event_id"

definition write_dual_event ::
  "'z audit_db_scheme \<Rightarrow> string \<Rightarrow> dict \<Rightarrow> uuid \<Rightarrow> uuid option \<Rightarrow> string option \<Rightarrow> string option
    \<Rightarrow> audit_event \<times> 'z audit_db_scheme" where
  "write_dual_event db event_type event_data organization_id user_id session_id source_ip =
    (let (org_event, db1) = write_event db event_type (Some event_data) (Some organization_id)
           user_id session_id source_ip None;
         (_, db2) = write_event db1 event_type
           (Some (dset ''organization_id'' (PStr (uuid_str organization_id)) event_data))
           None user_id session_id source_ip (Some (ae_id org_event))
     in (org_event, db2))"

section \<open>Append-only stores\<close>

text \<open>
  The contract of the trail: whatever steps a system takes, the log of the state before is a
  prefix of the log after.  It lifts from single steps to runs, so an event once written is in
  every later state, at the same position.
\<close>

locale append_only =
  fixes log_of :: "'s \<Rightarrow> 'e list"
    and step :: "'s \<Rightarrow> 's \<Rightarrow> bool"
  assumes step_prefix: "step s t \<Longrightarrow> prefix (log_of s) (log_of t)"
begin

lemma run_prefix: "step\<^sup>*\<^sup>* s t \<Longrightarrow> prefix (log_of s) (log_of t)"
proof (induction rule: rtranclp_induct)
  case (step t u)
  from step.IH step_prefix [OF step.hyps(2)] show ?case by (rule prefix_order.trans)
qed simp

lemma run_nth:
  assumes "step\<^sup>*\<^sup>* s t" and "i < length (log_of s)"
  shows "i < length (log_of t) \<and> log_of t ! i = log_of s ! i"
proof -
  from run_prefix [OF assms(1)] obtain ys where "log_of t = log_of s @ ys" by (auto simp: prefix_def)
  with assms(2) show ?thesis by (auto simp: nth_append)
qed

lemma run_mono: "step\<^sup>*\<^sup>* s t \<Longrightarrow> set (log_of s) \<subseteq> set (log_of t)"
  using run_prefix set_mono_prefix by blast

end

section \<open>Frame facts\<close>

lemma utcnow_frame [simp]:
  "audit_events (snd (utcnow db)) = audit_events db"
  "uuid_source (snd (utcnow db)) = uuid_source db"
  "audit_db.more (snd (utcnow db)) = audit_db.more db"
  by (simp_all add: utcnow_def)

lemma uuid4_frame [simp]:
  "audit_events (snd (uuid4 db)) = audit_events db"
  "clock (snd (uuid4 db)) = clock db"
  "audit_db.more (snd (uuid4 db)) = audit_db.more db"
  by (simp_all add: uuid4_def)

lemma write_event_events [audit_simps]:
  "audit_events (snd (write_event db ty dat org usr ses ip rel)) =
     audit_events db @ [fst (write_event db ty dat org usr ses ip rel)]"
  by (simp add: write_event_def uuid4_def utcnow_def Let_def)

lemma write_event_more [audit_simps]:
  "audit_db.more (snd (write_event db ty dat org usr ses ip rel)) = audit_db.more db"
  by (simp add: write_event_def uuid4_def utcnow_def Let_def)

lemma write_event_fields [audit_simps]:
  "ae_event_type (fst (write_event db ty dat org usr ses ip rel)) = ty"
  "ae_event_data (fst (write_event db ty dat org usr ses ip rel)) = dat"
  "ae_organization_id (fst (write_event db ty dat org usr ses ip rel)) = org"
  "ae_user_id (fst (write_event db ty dat org usr ses ip rel)) = usr"
  "ae_session_id (fst (write_event db ty dat org usr ses ip rel)) = ses"
  "ae_related_event_id (fst (write_event db ty dat org usr ses ip rel)) = rel"
  "ae_id (fst (write_event db ty dat org usr ses ip rel)) = uuid_source db 0"
  by (simp_all add: write_event_def uuid4_def utcnow_def Let_def)

lemma write_event_sources [audit_simps]:
  "clock (snd (write_event db ty dat org usr ses ip rel)) = (\<lambda>n. clock db (Suc n))"
  "uuid_source (snd (write_event db ty dat org usr ses ip rel)) = (\<lambda>n. uuid_source db (Suc n))"
  by (simp_all add: write_event_def uuid4_def utcnow_def Let_def)

section \<open>Governance events are recorded twice and linked\<close>

text \<open>A governance event (\<open>write_dual_event\<close>) appends exactly two events and changes no other
  table: the organization's own event, and an install-level copy with no organization column,
  which carries the organization's id in its data and points back at the first through
  \<open>related_event_id\<close>.\<close>

theorem write_dual_event_links:
  "\<exists>org_ev install_ev.
     audit_events (snd (write_dual_event db ty dat org usr ses ip)) =
       audit_events db @ [org_ev, install_ev]
   \<and> fst (write_dual_event db ty dat org usr ses ip) = org_ev
   \<and> ae_organization_id org_ev = Some org \<and> ae_organization_id install_ev = None
   \<and> ae_related_event_id install_ev = Some (ae_id org_ev)
   \<and> ae_event_type install_ev = ae_event_type org_ev
   \<and> map_option (\<lambda>d. dget d ''organization_id'') (ae_event_data install_ev) = Some (PStr (uuid_str org))
   \<and> audit_db.more (snd (write_dual_event db ty dat org usr ses ip)) = audit_db.more db"
  by (simp add: write_dual_event_def audit_simps split_beta Let_def)

end
