(* ===== verification/Rbac.thy ===== *)
theory Rbac
  imports Audit_Log
begin

text \<open>
  Role-based access control (\<open>organization/rbac.py\<close>): the capability matrix, the membership
  tables it is evaluated over, and the last-admin guard.
\<close>

datatype capability =
    SUPERUSER_MEMBERSHIP_GRANT
  | USERS_MANAGE
  | ORG_SETTINGS_CONFIGURE
  | WOLF_PACK_DEPLOY
  | CHAT
  | AUDIT_LOG_VIEW
  | DATA_READ
  | ACTION_PROPOSE
  | ACTION_APPROVE

definition MEMBER_BASELINE :: "capability list" where
  "MEMBER_BASELINE = [CHAT, DATA_READ]"

definition ROLE_CAPABILITIES :: "(string \<times> capability list) list" where
  "ROLE_CAPABILITIES =
    [(''admin'', MEMBER_BASELINE @
       [SUPERUSER_MEMBERSHIP_GRANT, USERS_MANAGE, ORG_SETTINGS_CONFIGURE, WOLF_PACK_DEPLOY,
        AUDIT_LOG_VIEW, ACTION_PROPOSE, ACTION_APPROVE]),
     (''engineer'', MEMBER_BASELINE @
       [ORG_SETTINGS_CONFIGURE, WOLF_PACK_DEPLOY, ACTION_PROPOSE, ACTION_APPROVE]),
     (''responder'', MEMBER_BASELINE @ [AUDIT_LOG_VIEW, ACTION_PROPOSE, ACTION_APPROVE]),
     (''analyst'', MEMBER_BASELINE @ [ACTION_PROPOSE]),
     (''superuser'', MEMBER_BASELINE)]"

definition role_has_capability :: "string \<Rightarrow> capability \<Rightarrow> bool" where
  "role_has_capability role cap \<longleftrightarrow>
     (case map_of ROLE_CAPABILITIES role of None \<Rightarrow> False | Some caps \<Rightarrow> cap \<in> set caps)"

text \<open>The dependency \<open>require_capability(cap)\<close> builds; the context it layers on is its argument.\<close>

fun capability_value :: "capability \<Rightarrow> string" where
  "capability_value SUPERUSER_MEMBERSHIP_GRANT = ''superuser_membership_grant''"
| "capability_value USERS_MANAGE = ''users_manage''"
| "capability_value ORG_SETTINGS_CONFIGURE = ''org_settings_configure''"
| "capability_value WOLF_PACK_DEPLOY = ''wolf_pack_deploy''"
| "capability_value CHAT = ''chat''"
| "capability_value AUDIT_LOG_VIEW = ''audit_log_view''"
| "capability_value DATA_READ = ''data_read''"
| "capability_value ACTION_PROPOSE = ''action_propose''"
| "capability_value ACTION_APPROVE = ''action_approve''"

definition require_capability :: "capability \<Rightarrow> organization_context \<Rightarrow> organization_context result" where
  "require_capability cap ctx =
     (if \<not> role_has_capability (oc_role ctx) cap
      then Inl (HTTPException 403 (''Role '' @ repr_str (oc_role ctx) @ '' does not have the '' @ repr_str (capability_value cap)
        @ '' capability in this organization''))
      else Inr ctx)"

section \<open>Membership tables\<close>

text \<open>The tables of \<open>organization/models.py\<close>.  The \<open>updated_at\<close> columns, which nothing reads, are left out.\<close>

record organization =
  o_id :: uuid
  o_name :: string
  o_slug :: string
  o_is_active :: bool
  o_created_at :: datetime

record user =
  u_id :: uuid
  u_email :: string
  u_display_name :: string
  u_hashed_password :: "string option"
  u_oidc_sub :: "string option"
  u_is_active :: bool
  u_is_superuser :: bool
  u_verification_status :: string
  u_verification_token_hash :: "string option"
  u_verification_token_expires_at :: "datetime option"
  u_created_at :: datetime

record user_organization =
  uo_id :: uuid
  uo_user_id :: uuid
  uo_organization_id :: uuid
  uo_role :: string
  uo_created_at :: datetime
  uo_expires_at :: "datetime option"

record superuser_access_request =
  sar_id :: uuid
  sar_organization_id :: uuid
  sar_superuser_user_id :: uuid
  sar_status :: string
  sar_reason :: "string option"
  sar_requested_duration_hours :: "int option"
  sar_granted_expires_at :: "datetime option"
  sar_requested_at :: datetime
  sar_decided_at :: "datetime option"
  sar_decided_by_user_id :: "uuid option"
  sar_ended_at :: "datetime option"

text \<open>\<open>secrets.token_urlsafe\<close> is a third sequence of readings.\<close>

record org_db = audit_db +
  organizations :: "organization list"
  users :: "user list"
  user_organizations :: "user_organization list"
  access_requests :: "superuser_access_request list"
  token_source :: "nat \<Rightarrow> string"

definition token_urlsafe :: "'z org_db_scheme \<Rightarrow> string \<times> 'z org_db_scheme" where
  "token_urlsafe db = (token_source db 0, db\<lparr>token_source := \<lambda>n. token_source db (Suc n)\<rparr>)"

text \<open>A session that ends without a commit: the tables are as before, the readings taken stay taken.\<close>

definition rollback :: "'z org_db_scheme \<Rightarrow> 'z org_db_scheme \<Rightarrow> 'z org_db_scheme" where
  "rollback db0 db = db0\<lparr>clock := clock db, uuid_source := uuid_source db, token_source := token_source db\<rparr>"

section \<open>The last-admin guard\<close>

definition count_other_active_admins :: "'z org_db_scheme \<Rightarrow> uuid \<Rightarrow> uuid \<Rightarrow> nat" where
  "count_other_active_admins db organization_id excluding_user_id =
     length [(m, u). m \<leftarrow> user_organizations db, u \<leftarrow> users db,
       u_id u = uo_user_id m \<and> uo_organization_id m = organization_id \<and> uo_role m = ''admin''
         \<and> uo_user_id m \<noteq> excluding_user_id \<and> u_is_active u]"

definition ensure_not_last_admin :: "'z org_db_scheme \<Rightarrow> uuid \<Rightarrow> uuid \<Rightarrow> unit result" where
  "ensure_not_last_admin db organization_id user_id =
     (if count_other_active_admins db organization_id user_id = 0
      then Inl (HTTPException 409 ''This is the organization's last active Admin - assign another Admin first. An organization must always have at least one active Admin.'') else Inr ())"

text \<open>An active admin of an organization, the notion the guard protects.\<close>

definition active_admin :: "'z org_db_scheme \<Rightarrow> uuid \<Rightarrow> uuid \<Rightarrow> bool" where
  "active_admin db org uid \<longleftrightarrow>
     (\<exists>m \<in> set (user_organizations db). \<exists>u \<in> set (users db).
        uo_user_id m = uid \<and> u_id u = uid \<and> uo_organization_id m = org \<and> uo_role m = ''admin''
          \<and> u_is_active u)"

lemma count_other_active_admins_pos:
  "0 < count_other_active_admins db org uid \<longleftrightarrow> (\<exists>uid'. uid' \<noteq> uid \<and> active_admin db org uid')"
  by (fastforce simp: count_other_active_admins_def active_admin_def filter_empty_conv)

lemma role_has_capability_simps [simp]:
  "role_has_capability ''admin'' ACTION_APPROVE" "role_has_capability ''engineer'' ACTION_APPROVE"
  "role_has_capability ''responder'' ACTION_APPROVE"
  "\<not> role_has_capability ''analyst'' ACTION_APPROVE" "\<not> role_has_capability ''superuser'' ACTION_APPROVE"
  by (simp_all add: role_has_capability_def ROLE_CAPABILITIES_def MEMBER_BASELINE_def)

section \<open>Properties\<close>

lemma approver_roles:
  "role_has_capability r ACTION_APPROVE \<longleftrightarrow> r = ''admin'' \<or> r = ''engineer'' \<or> r = ''responder''"
  by (auto simp: role_has_capability_def ROLE_CAPABILITIES_def MEMBER_BASELINE_def split: option.splits if_splits)

lemma last_admin_guard_keeps_an_admin:
  assumes "ensure_not_last_admin db org uid = Inr ()"
  shows "\<exists>uid'. active_admin
     (db\<lparr>user_organizations := filter (\<lambda>m. \<not> (uo_user_id m = uid \<and> uo_organization_id m = org))
        (user_organizations db)\<rparr>) org uid'"
proof -
  from assms have "0 < count_other_active_admins db org uid"
    by (auto simp: ensure_not_last_admin_def split: if_splits)
  then obtain uid' where "uid' \<noteq> uid" "active_admin db org uid'"
    by (auto simp: count_other_active_admins_pos)
  then have "active_admin (db\<lparr>user_organizations := filter (\<lambda>m. \<not> (uo_user_id m = uid \<and> uo_organization_id m = org))
        (user_organizations db)\<rparr>) org uid'"
    by (auto simp: active_admin_def)
  then show ?thesis ..
qed

end
