(* ===== verification/Proposal_Models.thy ===== *)
theory Proposal_Models
  imports Rbac
begin

text \<open>
  The \<open>ActionProposal\<close> row, its lifecycle states and the forward-only state machine
  (\<open>gateway/models.py\<close>, \<open>gateway/state_machine.py\<close>), and the table of proposals with its row
  store interface.
\<close>

section \<open>Lifecycle\<close>

datatype proposal_state =
    Draft | Pending | Approved | Executing | Succeeded | Failed | Rejected | Expired | RolledBack

text \<open>The value of the string enumeration, as the \<open>state\<close> column and the audit data show it.\<close>

fun state_value :: "proposal_state \<Rightarrow> string" where
  "state_value Draft = ''draft''"
| "state_value Pending = ''pending''"
| "state_value Approved = ''approved''"
| "state_value Executing = ''executing''"
| "state_value Succeeded = ''succeeded''"
| "state_value Failed = ''failed''"
| "state_value Rejected = ''rejected''"
| "state_value Expired = ''expired''"
| "state_value RolledBack = ''rolled_back''"

definition TERMINAL_STATES :: "proposal_state list" where
  "TERMINAL_STATES = [Succeeded, Failed, Rejected, Expired]"

fun ALLOWED_TRANSITIONS :: "proposal_state \<Rightarrow> proposal_state list" where
  "ALLOWED_TRANSITIONS Draft = [Pending]"
| "ALLOWED_TRANSITIONS Pending = [Approved, Rejected, Expired]"
| "ALLOWED_TRANSITIONS Approved = [Executing, Expired]"
| "ALLOWED_TRANSITIONS Executing = [Succeeded, Failed]"
| "ALLOWED_TRANSITIONS Succeeded = [RolledBack]"
| "ALLOWED_TRANSITIONS Failed = []"
| "ALLOWED_TRANSITIONS Rejected = []"
| "ALLOWED_TRANSITIONS Expired = []"
| "ALLOWED_TRANSITIONS RolledBack = []"

definition can_transition :: "proposal_state \<Rightarrow> proposal_state \<Rightarrow> bool" where
  "can_transition current target \<longleftrightarrow> target \<in> set (ALLOWED_TRANSITIONS current)"

definition assert_transition :: "proposal_state \<Rightarrow> proposal_state \<Rightarrow> unit result" where
  "assert_transition current target =
     (if \<not> can_transition current target
      then Inl (Wolf IllegalTransitionError
        (''Proposal cannot move '' @ repr_str (state_value current) @ '' -> '' @ repr_str (state_value target)))
      else Inr ())"

section \<open>The row and the table\<close>

record action_proposal =
  ap_id :: uuid
  ap_organization_id :: uuid
  ap_action_class :: string
  ap_target :: dict
  ap_action :: string
  ap_parameters :: dict
  ap_rationale :: string
  ap_evidence :: dict
  ap_expected_effect :: string
  ap_rollback_plan :: "string option"
  ap_severity :: string
  ap_requested_by :: uuid
  ap_content_hash :: string
  ap_reverses_proposal_id :: "uuid option"
  ap_state :: proposal_state
  ap_approved_by :: "uuid option"
  ap_approved_at :: "datetime option"
  ap_executed_at :: "datetime option"
  ap_result :: "dict option"
  ap_auto_unblock_at :: "datetime option"
  ap_reversal_proposal_id :: "uuid option"
  ap_prior_state :: "dict option"
  ap_created_at :: datetime
  ap_expires_at :: datetime

record database = org_db +
  proposals :: "action_proposal list"

text \<open>\<open>db.get(ActionProposal, id)\<close>, and the write-back of a mutated row object.\<close>

definition get_row :: "'z database_scheme \<Rightarrow> uuid \<Rightarrow> action_proposal option" where
  "get_row db i = find (\<lambda>p. ap_id p = i) (proposals db)"

definition put_row :: "action_proposal \<Rightarrow> 'z database_scheme \<Rightarrow> 'z database_scheme" where
  "put_row p db = db\<lparr>proposals := replace_by ap_id p (proposals db)\<rparr>"

definition add_row :: "action_proposal \<Rightarrow> 'z database_scheme \<Rightarrow> 'z database_scheme" where
  "add_row p db = db\<lparr>proposals := proposals db @ [p]\<rparr>"

section \<open>The row store interface\<close>

text \<open>What the gateway relies on when it mutates one row object and reads others.\<close>

locale row_store =
  fixes get :: "'s \<Rightarrow> 'k \<Rightarrow> 'r option"
    and put :: "'r \<Rightarrow> 's \<Rightarrow> 's"
    and key :: "'r \<Rightarrow> 'k"
  assumes get_key: "get s k = Some r \<Longrightarrow> key r = k"
    and get_put_same: "get s (key r) \<noteq> None \<Longrightarrow> get (put r s) (key r) = Some r"
    and get_put_other: "key r \<noteq> k \<Longrightarrow> get (put r s) k = get s k"
    and get_put_None: "get s k = None \<Longrightarrow> get (put r s) k = None"
begin

lemma get_put:
  "get (put r s) k = (if key r = k \<and> get s k \<noteq> None then Some r else get s k)"
  using get_put_other get_put_same get_put_None by (cases "key r = k") auto

lemma get_put_None_iff: "get (put r s) k = None \<longleftrightarrow> get s k = None"
  by (simp add: get_put)

lemma get_put_cases:
  assumes "get (put r s) k = Some r'"
  shows "(k = key r \<and> r' = r) \<or> (k \<noteq> key r \<and> get s k = Some r')"
  using assms by (cases "key r = k") (auto simp: get_put split: if_splits)

end

interpretation rows: row_store get_row put_row ap_id
proof (unfold_locales, goal_cases)
  case (1 s k r)
  then show ?case by (auto simp: get_row_def dest: find_key_SomeD)
next
  case (2 s r)
  then show ?case by (auto simp: get_row_def put_row_def intro: find_replace_by_same)
next
  case (3 r k s)
  then show ?case by (simp add: get_row_def put_row_def find_replace_by_other)
next
  case (4 s k r)
  then show ?case
    by (cases "ap_id r = k") (auto simp: get_row_def put_row_def replace_by_def find_None_iff find_replace_by_other)
qed

lemma put_row_frame [row_simps]:
  "audit_events (put_row p db) = audit_events db" "clock (put_row p db) = clock db"
  "uuid_source (put_row p db) = uuid_source db" "users (put_row p db) = users db"
  "organizations (put_row p db) = organizations db"
  "user_organizations (put_row p db) = user_organizations db"
  "map ap_id (proposals (put_row p db)) = map ap_id (proposals db)"
  by (simp_all add: put_row_def)

lemma add_row_frame [row_simps]:
  "audit_events (add_row p db) = audit_events db" "clock (add_row p db) = clock db"
  "uuid_source (add_row p db) = uuid_source db"
  "proposals (add_row p db) = proposals db @ [p]"
  by (simp_all add: add_row_def)

lemma write_event_proposals [row_simps]:
  "proposals (snd (write_event db ty dat org usr ses ip rel)) = proposals db"
  by (simp add: write_event_def uuid4_def utcnow_def Let_def)

lemma utcnow_proposals [row_simps]: "proposals (snd (utcnow db)) = proposals db"
  by (simp add: utcnow_def)

lemma uuid4_proposals [row_simps]: "proposals (snd (uuid4 db)) = proposals db"
  by (simp add: uuid4_def)

lemma get_row_write_event [row_simps]:
  "get_row (snd (write_event db ty dat org usr ses ip rel)) i = get_row db i"
  by (simp add: get_row_def row_simps)

lemma get_row_utcnow [row_simps]: "get_row (snd (utcnow db)) i = get_row db i"
  by (simp add: get_row_def row_simps)

lemma get_row_add_row [row_simps]:
  "get_row (add_row p db) i = (case get_row db i of Some q \<Rightarrow> Some q | None \<Rightarrow> if ap_id p = i then Some p else None)"
  by (simp add: get_row_def row_simps find_append split: option.splits)

section \<open>Forward-only lifecycles\<close>

text \<open>A state machine whose edges strictly increase a rank cannot come back to a state, and its
  runs are bounded by the rank.\<close>

locale forward_lifecycle =
  fixes edge :: "'st \<Rightarrow> 'st \<Rightarrow> bool"
    and rank :: "'st \<Rightarrow> nat"
  assumes edge_rank: "edge a b \<Longrightarrow> rank a < rank b"
begin

lemma path_ranks: "successively edge xs \<Longrightarrow> sorted_wrt (<) (map rank xs)"
proof (induction xs rule: induct_list012)
  case (3 a b xs)
  then have "rank a < rank b" and ih: "sorted_wrt (<) (map rank (b # xs))"
    by (auto intro: edge_rank)
  then show ?case by (fastforce intro: less_trans)
qed simp_all

lemma path_distinct: "successively edge xs \<Longrightarrow> distinct xs"
  using path_ranks distinct_map strict_sorted_imp_sorted strict_sorted_iff
  by (metis (no_types, lifting))

lemma no_return: "edge\<^sup>+\<^sup>+ a b \<Longrightarrow> rank a < rank b"
  by (induction rule: tranclp_induct) (auto dest: edge_rank)

end

fun state_rank :: "proposal_state \<Rightarrow> nat" where
  "state_rank Draft = 0"
| "state_rank Pending = 1"
| "state_rank Approved = 2"
| "state_rank Executing = 3"
| "state_rank Succeeded = 4"
| "state_rank Failed = 4"
| "state_rank Rejected = 2"
| "state_rank Expired = 3"
| "state_rank RolledBack = 5"

interpretation lifecycle: forward_lifecycle can_transition state_rank
proof unfold_locales
  fix a b
  assume "can_transition a b"
  then show "state_rank a < state_rank b"
    by (cases a; cases b) (simp_all add: can_transition_def)
qed

lemma can_transition_simps [simp]:
  "can_transition Pending t \<longleftrightarrow> t = Approved \<or> t = Rejected \<or> t = Expired"
  "can_transition Approved t \<longleftrightarrow> t = Executing \<or> t = Expired"
  "can_transition Executing t \<longleftrightarrow> t = Succeeded \<or> t = Failed"
  "can_transition Succeeded t \<longleftrightarrow> t = RolledBack"
  "can_transition Draft t \<longleftrightarrow> t = Pending"
  "\<not> can_transition Failed t" "\<not> can_transition Rejected t" "\<not> can_transition Expired t"
  "\<not> can_transition RolledBack t"
  by (auto simp: can_transition_def)

lemma can_transition_to [simp]:
  "can_transition s Approved \<longleftrightarrow> s = Pending" "can_transition s Rejected \<longleftrightarrow> s = Pending"
  "can_transition s Executing \<longleftrightarrow> s = Approved" "can_transition s Pending \<longleftrightarrow> s = Draft"
  "can_transition s Expired \<longleftrightarrow> s = Pending \<or> s = Approved"
  "can_transition s Succeeded \<longleftrightarrow> s = Executing" "can_transition s RolledBack \<longleftrightarrow> s = Succeeded"
  by (cases s; simp)+

lemma assert_transition_Inr [simp]: "assert_transition a b = Inr u \<longleftrightarrow> can_transition a b"
  by (simp add: assert_transition_def)

lemma assert_transition_Inl: "assert_transition a b = Inl e \<Longrightarrow> \<not> can_transition a b \<and> is_wolf e"
  by (auto simp: assert_transition_def split: if_splits)

lemma path_needs_approval:
  assumes "successively can_transition xs" and "i < length xs" and "xs ! i \<in> {Executing, Succeeded, Failed, RolledBack}"
    and "hd xs \<in> {Draft, Pending}"
  shows "\<exists>j < i. xs ! j = Approved"
  using assms
proof (induction i)
  case 0
  then show ?case by (cases xs) auto
next
  case (Suc i)
  then have edge: "can_transition (xs ! i) (xs ! Suc i)"
    by (simp add: successively_conv_nth)
  show ?case
  proof (cases "xs ! i = Approved")
    case False
    with edge Suc.prems(3) have "xs ! i \<in> {Executing, Succeeded, Failed, RolledBack}"
      by (cases "xs ! i") auto
    with Suc show ?thesis by (auto intro: less_SucI)
  qed blast
qed

section \<open>Properties\<close>

text \<open>C7: The proposal state machine is forward-only and gated: along any path of allowed transitions
  no state occurs twice and there are at most six states, and a path from draft or pending that
  reaches executing, succeeded, failed or rolled_back passed through approved before.\<close>

theorem lifecycle_forward_and_gated:
  assumes "successively can_transition xs" and "hd xs \<in> {Draft, Pending}"
  shows "distinct xs \<and> length xs \<le> 6
    \<and> (\<forall>i < length xs. xs ! i \<in> {Executing, Succeeded, Failed, RolledBack} \<longrightarrow> (\<exists>j < i. xs ! j = Approved))"
proof -
  have "sorted_wrt (<) (map state_rank xs)" using assms(1) by (rule lifecycle.path_ranks)
  then have "distinct (map state_rank xs)" by (simp add: strict_sorted_iff)
  moreover have "set (map state_rank xs) \<subseteq> {..5}"
  proof
    fix n assume "n \<in> set (map state_rank xs)"
    then obtain s where "n = state_rank s" by auto
    then show "n \<in> {..5}" by (cases s) auto
  qed
  then have "card (set (map state_rank xs)) \<le> card {..5::nat}" by (intro card_mono) simp_all
  ultimately have "length xs \<le> 6" using distinct_card by fastforce
  with lifecycle.path_distinct [OF assms(1)] path_needs_approval [OF assms(1) _ _ assms(2)]
  show ?thesis by blast
qed

theorem lifecycle_forward_and_gated_witness:
  "successively can_transition [Pending, Approved, Executing, Succeeded, RolledBack]
   \<and> (\<exists>j < 2. [Pending, Approved, Executing, Succeeded, RolledBack] ! j = Approved)"
proof -
  let ?xs = "[Pending, Approved, Executing, Succeeded, RolledBack]"
  have path: "successively can_transition ?xs" by simp
  have "\<forall>i < length ?xs. ?xs ! i \<in> {Executing, Succeeded, Failed, RolledBack} \<longrightarrow> (\<exists>j < i. ?xs ! j = Approved)"
    using lifecycle_forward_and_gated [OF path] by simp
  from this [rule_format, of 2] path show ?thesis by simp
qed

end
