(* ===== verification/Py_Regex.thy ===== *)
theory Py_Regex
  imports Py_Text
begin

text \<open>
  The fragment of Python's \<open>re\<close> module the modelled code uses: a backtracking matcher that lists the
  possible ends of a match in the order the engine tries them (greedy repetitions longest first,
  lazy ones shortest first), with captured groups, back references, word boundaries, \<open>$\<close> and assertions on the neighbouring text.
  \<open>re.match\<close> takes the first end, \<open>re.fullmatch\<close> the first end that consumes everything,
  \<open>re.search\<close> the leftmost start that matches, \<open>finditer\<close> and \<open>sub\<close> iterate it.
\<close>

datatype regex =
    Eps
  | Cls "char \<Rightarrow> bool"
  | Seq regex regex
  | Alt regex regex
  | Star bool regex \<comment> \<open>\<open>True\<close> greedy \<open>*\<close>, \<open>False\<close> lazy \<open>*?\<close>\<close>
  | Upto nat regex \<comment> \<open>greedy \<open>{0,n}\<close>\<close>
  | Grp nat regex
  | Bref nat
  | WordB
  | EndNl
  | Look "char option \<Rightarrow> string \<Rightarrow> bool" \<comment> \<open>an assertion on what stands before and after\<close>

text \<open>A position: the character before it, the text after it, the groups captured so far.\<close>

type_synonym rpos = "char option \<times> string \<times> (nat \<times> string) list"

abbreviation rest_of :: "rpos \<Rightarrow> string" where
  "rest_of p \<equiv> fst (snd p)"

fun star_iter :: "bool \<Rightarrow> (rpos \<Rightarrow> rpos list) \<Rightarrow> nat \<Rightarrow> rpos \<Rightarrow> rpos list" where
  "star_iter g f 0 p = [p]"
| "star_iter g f (Suc n) p =
     (let more = concat (map (\<lambda>q. if length (rest_of q) < length (rest_of p) then star_iter g f n q else []) (f p))
      in if g then more @ [p] else p # more)"

definition eat :: "string \<Rightarrow> rpos \<Rightarrow> rpos list" where
  "eat w p = (case p of (prev, s, caps) \<Rightarrow>
     if startswith s w then [(if w = [] then prev else Some (last w), drop (length w) s, caps)] else [])"

primrec rmatch :: "regex \<Rightarrow> rpos \<Rightarrow> rpos list" where
  "rmatch Eps p = [p]"
| "rmatch (Cls P) p = (case p of (prev, s, caps) \<Rightarrow>
     (case s of [] \<Rightarrow> [] | c # t \<Rightarrow> if P c then [(Some c, t, caps)] else []))"
| "rmatch (Seq r1 r2) p = concat (map (rmatch r2) (rmatch r1 p))"
| "rmatch (Alt r1 r2) p = rmatch r1 p @ rmatch r2 p"
| "rmatch (Star g r) p = star_iter g (rmatch r) (length (rest_of p)) p"
| "rmatch (Upto n r) p = star_iter True (rmatch r) n p"
| "rmatch (Grp k r) p = map (\<lambda>(prev, s, caps).
     (prev, s, (k, take (length (rest_of p) - length s) (rest_of p)) # caps)) (rmatch r p)"
| "rmatch (Bref k) p = (case map_of (snd (snd p)) k of None \<Rightarrow> [] | Some w \<Rightarrow> eat w p)"
| "rmatch WordB p = (case p of (prev, s, caps) \<Rightarrow>
     if (case prev of None \<Rightarrow> False | Some c \<Rightarrow> is_word c) \<noteq> (case s of [] \<Rightarrow> False | c # _ \<Rightarrow> is_word c)
     then [p] else [])"
| "rmatch EndNl p = (if rest_of p = [] \<or> rest_of p = [CHR 0x0A] then [p] else [])"
| "rmatch (Look P) p = (if P (fst p) (rest_of p) then [p] else [])"

section \<open>Derived forms\<close>

fun lit :: "string \<Rightarrow> regex" where
  "lit [] = Eps"
| "lit [c] = Cls (\<lambda>x. x = c)"
| "lit (c # s) = Seq (Cls (\<lambda>x. x = c)) (lit s)"

text \<open>A literal under \<open>re.IGNORECASE\<close>.\<close>

fun lit_ci :: "string \<Rightarrow> regex" where
  "lit_ci [] = Eps"
| "lit_ci (c # s) = Seq (Cls (\<lambda>x. lower_char x = lower_char c)) (lit_ci s)"

fun seqs :: "regex list \<Rightarrow> regex" where
  "seqs [] = Eps"
| "seqs [r] = r"
| "seqs (r # rs) = Seq r (seqs rs)"

definition plus :: "regex \<Rightarrow> regex" where
  "plus r = Seq r (Star True r)"

definition opt :: "regex \<Rightarrow> regex" where
  "opt r = Alt r Eps"

text \<open>\<open>^\<close> and \<open>$\<close> under \<open>re.MULTILINE\<close>.\<close>

definition line_start :: regex where
  "line_start = Look (\<lambda>prev s. prev = None \<or> prev = Some (CHR 0x0A))"

definition line_end :: regex where
  "line_end = Look (\<lambda>prev s. s = [] \<or> hd s = CHR 0x0A)"

definition any_char :: "char \<Rightarrow> bool" where
  "any_char c = True"

section \<open>The module's functions\<close>

definition re_match :: "regex \<Rightarrow> string \<Rightarrow> rpos option" where
  "re_match r s = (case rmatch r (None, s, []) of [] \<Rightarrow> None | p # _ \<Rightarrow> Some p)"

definition re_fullmatch :: "regex \<Rightarrow> string \<Rightarrow> rpos option" where
  "re_fullmatch r s = find (\<lambda>p. rest_of p = []) (rmatch r (None, s, []))"

text \<open>A found match: the text before it, the matched text, its groups, the text after it.\<close>

type_synonym found = "string \<times> string \<times> (nat \<times> string) list \<times> string"

fun re_search_from :: "regex \<Rightarrow> char option \<Rightarrow> string \<Rightarrow> found option" where
  "re_search_from r prev s = (case rmatch r (prev, s, []) of
     q # _ \<Rightarrow> Some ([], take (length s - length (rest_of q)) s, snd (snd q), rest_of q)
   | [] \<Rightarrow> (case s of [] \<Rightarrow> None
       | c # t \<Rightarrow> map_option (\<lambda>(a, b). (c # a, b)) (re_search_from r (Some c) t)))"

declare re_search_from.simps [simp del]

definition re_search :: "regex \<Rightarrow> string \<Rightarrow> found option" where
  "re_search r s = re_search_from r None s"

text \<open>\<open>finditer\<close>: the successive matches, each with the text skipped before it, and the tail.
  A match of the empty string, which no pattern here has, would move one character on.\<close>

fun re_iter :: "nat \<Rightarrow> regex \<Rightarrow> char option \<Rightarrow> string \<Rightarrow> (string \<times> string \<times> (nat \<times> string) list) list \<times> string" where
  "re_iter 0 r prev s = ([], s)"
| "re_iter (Suc n) r prev s = (case re_search_from r prev s of
     None \<Rightarrow> ([], s)
   | Some (a, m, caps, b) \<Rightarrow>
       (if m = [] then (case b of [] \<Rightarrow> ([(a, m, caps)], [])
          | c # t \<Rightarrow> (case re_iter n r (Some c) t of
              ([], rst) \<Rightarrow> ([(a, m, caps)], c # rst)
            | ((a', m', caps') # ms, rst) \<Rightarrow> ((a, m, caps) # (c # a', m', caps') # ms, rst)))
        else (case re_iter n r (Some (last m)) b of (ms, rst) \<Rightarrow> ((a, m, caps) # ms, rst))))"

definition re_finditer :: "regex \<Rightarrow> string \<Rightarrow> (string \<times> string \<times> (nat \<times> string) list) list \<times> string" where
  "re_finditer r s = re_iter (Suc (length s)) r None s"

text \<open>\<open>findall\<close> for a pattern without groups, and \<open>sub\<close> with a constant replacement.\<close>

definition re_findall :: "regex \<Rightarrow> string \<Rightarrow> string list" where
  "re_findall r s = map (\<lambda>(a, m, caps). m) (fst (re_finditer r s))"

definition re_sub :: "regex \<Rightarrow> string \<Rightarrow> string \<Rightarrow> string" where
  "re_sub r w s = (case re_finditer r s of (ms, rst) \<Rightarrow> concat (map (\<lambda>(a, m, caps). a @ w) ms) @ rst)"

definition group :: "nat \<Rightarrow> (nat \<times> string) list \<Rightarrow> string" where
  "group k caps = (case map_of caps k of None \<Rightarrow> [] | Some w \<Rightarrow> w)"

section \<open>Laws\<close>

lemma star_iter_suffix:
  assumes f: "\<And>p q. q \<in> set (f p) \<Longrightarrow> suffix (rest_of q) (rest_of p)"
  shows "q \<in> set (star_iter g f n p) \<Longrightarrow> suffix (rest_of q) (rest_of p)"
proof (induction n arbitrary: p)
  case (Suc n)
  then show ?case
    by (auto simp: Let_def split: if_splits dest!: f intro: suffix_order.trans)
qed simp

lemma rmatch_suffix: "q \<in> set (rmatch r p) \<Longrightarrow> suffix (rest_of q) (rest_of p)"
proof (induction r arbitrary: p q)
  case (Seq r1 r2)
  from Seq.prems obtain u where "u \<in> set (rmatch r1 p)" "q \<in> set (rmatch r2 u)" by auto
  with Seq.IH show ?case by (blast intro: suffix_order.trans)
next
  case (Star g r)
  from Star.prems have "q \<in> set (star_iter g (rmatch r) (length (rest_of p)) p)" by simp
  with star_iter_suffix [where f = "rmatch r"] Star.IH show ?case by blast
next
  case (Upto n r)
  from Upto.prems have "q \<in> set (star_iter True (rmatch r) n p)" by simp
  with star_iter_suffix [where f = "rmatch r"] Upto.IH show ?case by blast
next
  case WordB
  then have "q = p" by (cases p) (simp split: if_splits)
  then show ?case by simp
next
  case (Bref k)
  then show ?case
    by (auto simp: eat_def suffix_drop split: option.splits prod.splits if_splits)
qed (auto split: prod.splits list.splits if_splits simp: suffix_def)

lemma re_search_from_split: "re_search_from r prev s = Some (a, m, caps, b) \<Longrightarrow> s = a @ m @ b"
proof (induction s arbitrary: prev a)
  case Nil
  then obtain q qs where q: "rmatch r (prev, [], []) = q # qs"
    by (auto simp: re_search_from.simps split: list.splits)
  then have "rest_of q = []" using rmatch_suffix [of q r "(prev, [], [])"] by simp
  with Nil q show ?case by (auto simp: re_search_from.simps)
next
  case (Cons c s)
  show ?case
  proof (cases "rmatch r (prev, c # s, [])")
    case Nil
    with Cons show ?thesis by (auto simp: re_search_from.simps [of r prev "c # s"])
  next
    case (Cons q qs)
    then have "suffix (rest_of q) (c # s)" using rmatch_suffix [of q r "(prev, c # s, [])"] by simp
    then obtain u where "c # s = u @ rest_of q" by (auto simp: suffix_def)
    moreover from Cons.prems Cons have "a = []" "m = take (length (c # s) - length (rest_of q)) (c # s)" "b = rest_of q"
      by (auto simp: re_search_from.simps [of r prev "c # s"])
    ultimately show ?thesis by simp
  qed
qed

lemma re_search_split: "re_search r s = Some (a, m, caps, b) \<Longrightarrow> s = a @ m @ b"
  unfolding re_search_def by (rule re_search_from_split)

lemma re_iter_split:
  "re_iter n r prev s = (ms, rst) \<Longrightarrow> concat (map (\<lambda>(a, m, caps). a @ m) ms) @ rst = s"
proof (induction n arbitrary: prev s ms rst)
  case (Suc n)
  show ?case
  proof (cases "re_search_from r prev s")
    case None
    with Suc.prems show ?thesis by auto
  next
    case (Some f)
    obtain a m caps b where f: "f = (a, m, caps, b)" by (cases f)
    from Some f have s: "s = a @ m @ b" by (auto dest: re_search_from_split)
    show ?thesis
    proof (cases "m = []")
      case False
      with Suc.prems Some f s show ?thesis by (auto split: prod.splits dest: Suc.IH)
    next
      case True
      show ?thesis
      proof (cases b)
        case Nil
        with True Suc.prems Some f s show ?thesis by auto
      next
        case (Cons c t)
        obtain ms' rst' where it: "re_iter n r (Some c) t = (ms', rst')" by (cases "re_iter n r (Some c) t")
        with Suc.IH [OF it] True Suc.prems Some f s Cons show ?thesis
          by (cases ms') auto
      qed
    qed
  qed
qed simp

lemma re_finditer_split:
  "re_finditer r s = (ms, rst) \<Longrightarrow> concat (map (\<lambda>(a, m, caps). a @ m) ms) @ rst = s"
  unfolding re_finditer_def by (rule re_iter_split)

lemma rmatch_lit: "rmatch (lit w) (prev, s, caps) =
   (if startswith s w then [(if w = [] then prev else Some (last w), drop (length w) s, caps)] else [])"
proof (induction w arbitrary: prev s rule: lit.induct)
  case (2 c)
  then show ?case by (cases s) (auto simp: startswith_def)
next
  case (3 c d w)
  then show ?case by (cases s) (auto simp: startswith_def)
qed (simp add: startswith_def)

end
