(* ===== verification/Py_Json.thy ===== *)
theory Py_Json
  imports Py_Text "HOL-Library.Char_ord" "HOL-Library.List_Lexorder"
begin

text \<open>
  The parts of Python's standard library behind the content hash: \<open>json.dumps\<close> with sorted keys,
  compact separators and ASCII output, and \<open>hashlib.sha256(\<dots>).hexdigest()\<close> (FIPS 180-4).
  The section on unique readability proves that the canonical text determines the value up to the
  order of dict entries.
\<close>

unbundle bit_operations_syntax

section \<open>SHA-256\<close>

definition rotr :: "nat \<Rightarrow> 32 word \<Rightarrow> 32 word" where
  "rotr n x = drop_bit n x OR push_bit (32 - n) x"

definition sha_k :: "32 word list" where
  "sha_k = [1116352408, 1899447441, 3049323471, 3921009573, 961987163, 1508970993, 2453635748, 2870763221,
    3624381080, 310598401, 607225278, 1426881987, 1925078388, 2162078206, 2614888103, 3248222580,
    3835390401, 4022224774, 264347078, 604807628, 770255983, 1249150122, 1555081692, 1996064986,
    2554220882, 2821834349, 2952996808, 3210313671, 3336571891, 3584528711, 113926993, 338241895,
    666307205, 773529912, 1294757372, 1396182291, 1695183700, 1986661051, 2177026350, 2456956037,
    2730485921, 2820302411, 3259730800, 3345764771, 3516065817, 3600352804, 4094571909, 275423344,
    430227734, 506948616, 659060556, 883997877, 958139571, 1322822218, 1537002063, 1747873779,
    1955562222, 2024104815, 2227730452, 2361852424, 2428436474, 2756734187, 3204031479, 3329325298]"

definition sha_h0 :: "32 word list" where
  "sha_h0 = [1779033703, 3144134277, 1013904242, 2773480762, 1359893119, 2600822924, 528734635, 1541459225]"

definition sha_ch :: "32 word \<Rightarrow> 32 word \<Rightarrow> 32 word \<Rightarrow> 32 word" where
  "sha_ch x y z = (x AND y) XOR (NOT x AND z)"

definition sha_maj :: "32 word \<Rightarrow> 32 word \<Rightarrow> 32 word \<Rightarrow> 32 word" where
  "sha_maj x y z = (x AND y) XOR (x AND z) XOR (y AND z)"

text \<open>The message schedule, built with the newest word first.\<close>

fun sha_schedule :: "nat \<Rightarrow> 32 word list \<Rightarrow> 32 word list" where
  "sha_schedule 0 rw = rev rw"
| "sha_schedule (Suc n) rw =
     (let w15 = rw ! 14; w2 = rw ! 1;
          s0 = rotr 7 w15 XOR rotr 18 w15 XOR drop_bit 3 w15;
          s1 = rotr 17 w2 XOR rotr 19 w2 XOR drop_bit 10 w2
      in sha_schedule n ((s1 + rw ! 6 + s0 + rw ! 15) # rw))"

fun sha_rounds :: "(32 word \<times> 32 word) list \<Rightarrow> 32 word list \<Rightarrow> 32 word list" where
  "sha_rounds ((k, w) # kws) [a, b, c, d, e, f, g, h] =
     (let t1 = h + (rotr 6 e XOR rotr 11 e XOR rotr 25 e) + sha_ch e f g + k + w;
          t2 = (rotr 2 a XOR rotr 13 a XOR rotr 22 a) + sha_maj a b c
      in sha_rounds kws [t1 + t2, a, b, c, d + t1, e, f, g])"
| "sha_rounds _ st = st"

definition sha_compress :: "32 word list \<Rightarrow> 32 word list \<Rightarrow> 32 word list" where
  "sha_compress hs blk = map2 (+) hs (sha_rounds (zip sha_k (sha_schedule 48 (rev blk))) hs)"

fun word_of_bytes :: "nat list \<Rightarrow> 32 word list" where
  "word_of_bytes (a # b # c # d # bs) =
     word_of_nat (((a * 256 + b) * 256 + c) * 256 + d) # word_of_bytes bs"
| "word_of_bytes _ = []"

definition sha_pad :: "nat list \<Rightarrow> nat list" where
  "sha_pad m = (let n = length m in
     m @ [128] @ replicate ((119 - n mod 64) mod 64) 0 @ map (\<lambda>i. n * 8 div 256 ^ (7 - i) mod 256) [0..<8])"

fun sha_blocks :: "nat \<Rightarrow> 32 word list \<Rightarrow> 32 word list \<Rightarrow> 32 word list" where
  "sha_blocks 0 ws hs = hs"
| "sha_blocks (Suc n) ws hs = sha_blocks n (drop 16 ws) (sha_compress hs (take 16 ws))"

definition sha256_hex :: "string \<Rightarrow> string" where
  "sha256_hex s = (let ws = word_of_bytes (sha_pad (map cp s))
     in concat (map (\<lambda>w. hex_digits 8 (unat w)) (sha_blocks (length ws div 16) ws sha_h0)))"

text \<open>\<open>text.encode("utf-8")\<close>: a code point from 128 on takes two bytes.\<close>

definition utf8 :: "string \<Rightarrow> string" where
  "utf8 s = concat (map (\<lambda>c. if cp c < 128 then [c]
     else [char_of (192 + cp c div 64), char_of (128 + cp c mod 64)]) s)"

section \<open>Canonical JSON\<close>

definition json_char :: "char \<Rightarrow> string" where
  "json_char c = (let n = cp c in
     if n = 34 then [CHR 0x5C, CHR 0x22] else if n = 92 then [CHR 0x5C, CHR 0x5C]
     else if n = 8 then [CHR 0x5C, CHR ''b''] else if n = 9 then [CHR 0x5C, CHR ''t'']
     else if n = 10 then [CHR 0x5C, CHR ''n''] else if n = 12 then [CHR 0x5C, CHR ''f'']
     else if n = 13 then [CHR 0x5C, CHR ''r'']
     else if 32 \<le> n \<and> n \<le> 126 then [c]
     else [CHR 0x5C, CHR ''u'', CHR ''0'', CHR ''0'', digit_char (n div 16), digit_char (n mod 16)])"

definition json_str :: "string \<Rightarrow> string" where
  "json_str s = CHR 0x22 # concat (map json_char s) @ [CHR 0x22]"

fun json_text :: "pyval \<Rightarrow> string" where
  "json_text PNone = ''null''"
| "json_text (PBool b) = (if b then ''true'' else ''false'')"
| "json_text (PInt i) = show_int i"
| "json_text (PStr s) = json_str s"
| "json_text (PList xs) = CHR ''['' # join '','' (map json_text xs) @ '']''"
| "json_text (PDict d) = CHR ''{'' # join '','' (map (\<lambda>(k, v). json_str k @ CHR '':'' # json_text v) d) @ ''}''"

text \<open>\<open>sort_keys=True\<close>: every dict, at every depth, in key order.\<close>

fun canon :: "pyval \<Rightarrow> pyval" where
  "canon (PList xs) = PList (map canon xs)"
| "canon (PDict d) = PDict (sort_key fst (map (\<lambda>(k, v). (k, canon v)) d))"
| "canon v = v"

definition json_dumps :: "pyval \<Rightarrow> string" where
  "json_dumps v = json_text (canon v)"

section \<open>Unique readability of the canonical text\<close>

subsection \<open>Digits\<close>

lemma cp_char_of [simp]: "cp (char_of n) = n mod 256"
  by (simp add: cp_def)

lemma char_of_cp [simp]: "char_of (cp c) = c"
  by (simp add: cp_def)

lemma cp_less [simp]: "cp c < 256"
  by (simp add: cp_def)

lemma cp_eq_iff: "cp c = cp d \<longleftrightarrow> c = d"
  by (metis char_of_cp)

definition hexval :: "char \<Rightarrow> nat" where
  "hexval c = (if cp c < 58 then cp c - 48 else cp c - 87)"

lemma hexval_digit_char: "k < 16 \<Longrightarrow> hexval (digit_char k) = k"
  by (auto simp: hexval_def digit_char_def)

lemma cp_digit_char: "k < 10 \<Longrightarrow> cp (digit_char k) = 48 + k"
  by (simp add: digit_char_def)

lemma digits_value_snoc: "digits_value (s @ [c]) = digits_value s * 10 + (cp c - 48)"
  by (simp add: digits_value_def)

lemma digits_value_show_nat: "digits_value (show_nat n) = n"
proof (induction n rule: show_nat.induct)
  case (1 n)
  show ?case
  proof (cases "n < 10")
    case True
    then show ?thesis by (subst show_nat.simps) (simp add: digits_value_def cp_digit_char)
  next
    case False
    then have "show_nat n = show_nat (n div 10) @ [digit_char (n mod 10)]"
      by (simp add: show_nat.simps [of n])
    with "1.IH" [OF False] show ?thesis by (simp add: digits_value_snoc cp_digit_char)
  qed
qed

lemma show_nat_decimal: "list_all is_decimal (show_nat n) \<and> show_nat n \<noteq> []"
proof (induction n rule: show_nat.induct)
  case (1 n)
  show ?case
  proof (cases "n < 10")
    case True
    then show ?thesis by (simp add: show_nat.simps [of n] is_decimal_def cp_digit_char)
  next
    case False
    then show ?thesis using "1.IH" [OF False]
      by (simp add: show_nat.simps [of n] is_decimal_def cp_digit_char)
  qed
qed

lemma show_nat_not_Nil [simp]: "show_nat n \<noteq> []"
  using show_nat_decimal by blast

lemma show_nat_inject [simp]: "show_nat m = show_nat n \<longleftrightarrow> m = n"
  by (metis digits_value_show_nat)

definition num_char :: "char \<Rightarrow> bool" where
  "num_char c \<longleftrightarrow> is_decimal c \<or> c = CHR ''-''"

lemma show_int_num: "list_all num_char (show_int i)"
  using show_nat_decimal by (auto simp: show_int_def num_char_def list_all_iff)

lemma show_int_not_Nil [simp]: "show_int i \<noteq> []"
  by (simp add: show_int_def)

lemma hd_show_nat: "hd (show_nat n) \<noteq> CHR ''-''"
proof -
  have "is_decimal (hd (show_nat n))"
    using show_nat_decimal [of n] by (cases "show_nat n") auto
  then show ?thesis by (auto simp: is_decimal_def cp_def)
qed

lemma show_int_inject: "show_int i = show_int j \<Longrightarrow> i = j"
  using hd_show_nat [of "nat i"] hd_show_nat [of "nat j"]
  by (auto simp: show_int_def split: if_splits dest: arg_cong [where f = hd])

subsection \<open>Strings\<close>

definition unescape :: "char \<Rightarrow> char" where
  "unescape b = (if b = CHR ''b'' then CHR 0x08 else if b = CHR ''t'' then CHR 0x09
     else if b = CHR ''n'' then CHR 0x0A else if b = CHR ''f'' then CHR 0x0C
     else if b = CHR ''r'' then CHR 0x0D else b)"

fun read_json_char :: "string \<Rightarrow> char \<times> string" where
  "read_json_char (a # b # s) = (if a \<noteq> CHR 0x5C then (a, b # s)
     else if b = CHR ''u'' then (case s of x # y # h # l # t \<Rightarrow> (char_of (hexval h * 16 + hexval l), t) | _ \<Rightarrow> (b, s))
     else (unescape b, s))"
| "read_json_char [a] = (a, [])"
| "read_json_char [] = (CHR 0x00, [])"

lemma read_plain: "a \<noteq> CHR 0x5C \<Longrightarrow> read_json_char (a # s) = (a, s)"
  by (cases s) auto

lemma read_json_char_json_char: "read_json_char (json_char c @ s) = (c, s)"
proof (cases "cp c \<in> {34, 92, 8, 9, 10, 12, 13}")
  case True
  let ?cs = "[CHR 0x22, CHR 0x5C, CHR 0x08, CHR 0x09, CHR 0x0A, CHR 0x0C, CHR 0x0D]"
  have "map cp ?cs = [34, 92, 8, 9, 10, 12, 13]" by (simp add: cp_def)
  with True have "cp c \<in> set (map cp ?cs)" by (simp only: list.set)
  then have "c \<in> set ?cs" by (simp only: set_map image_iff cp_eq_iff bex_simps) blast
  then show ?thesis by (auto simp: json_char_def cp_def unescape_def)
next
  case False
  then have bs: "c \<noteq> CHR 0x5C" by (auto simp: cp_def)
  have "cp c div 16 < 16" using cp_less [of c] by (simp add: less_mult_imp_div_less)
  then have u: "char_of (hexval (digit_char (cp c div 16)) * 16 + hexval (digit_char (cp c mod 16))) = c"
    by (simp add: hexval_digit_char)
  show ?thesis
  proof (cases "32 \<le> cp c \<and> cp c \<le> 126")
    case True
    with False bs show ?thesis by (simp add: json_char_def Let_def read_plain)
  next
    case esc: False
    with False have "json_char c = [CHR 0x5C, CHR ''u'', CHR ''0'', CHR ''0'', digit_char (cp c div 16), digit_char (cp c mod 16)]"
      by (simp add: json_char_def Let_def)
    then show ?thesis using u by simp
  qed
qed

lemma json_char_inject: "json_char c @ s = json_char d @ t \<Longrightarrow> c = d \<and> s = t"
  by (metis prod.inject read_json_char_json_char)

lemma json_char_start: "json_char c \<noteq> CHR 0x22 # xs" "CHR 0x22 # xs \<noteq> json_char c"
  by (auto simp: json_char_def Let_def cp_def split: if_splits)

lemma json_char_not_Nil [simp]: "json_char c \<noteq> []"
  by (simp add: json_char_def Let_def)

lemma json_body_inject:
  "concat (map json_char s) @ CHR 0x22 # r = concat (map json_char t) @ CHR 0x22 # r' \<Longrightarrow> s = t \<and> r = r'"
proof (induction s arbitrary: t)
  case Nil
  then show ?case
    by (cases t) (auto simp: Cons_eq_append_conv json_char_start)
next
  case (Cons c s)
  show ?case
  proof (cases t)
    case Nil
    with Cons.prems show ?thesis by (auto simp: append_eq_Cons_conv json_char_start)
  next
    case (Cons d t')
    with Cons.prems have "json_char c @ (concat (map json_char s) @ CHR 0x22 # r) =
        json_char d @ (concat (map json_char t') @ CHR 0x22 # r')" by simp
    from json_char_inject [OF this] Cons.IH Cons show ?thesis by blast
  qed
qed

lemma json_str_inject: "json_str s @ r = json_str t @ r' \<Longrightarrow> s = t \<and> r = r'"
  by (auto simp: json_str_def dest: json_body_inject)

subsection \<open>Values\<close>

definition delim :: "string \<Rightarrow> bool" where
  "delim r \<longleftrightarrow> r = [] \<or> hd r \<in> {CHR '','', CHR '']'', CHR ''}''}"

lemma delim_simps [simp]: "delim []" "delim (CHR '','' # r)" "delim (CHR '']'' # r)" "delim (CHR ''}'' # r)"
  by (simp_all add: delim_def)

lemma delim_hd: "delim (c # r) \<Longrightarrow> \<not> num_char c"
  by (auto simp: delim_def num_char_def is_decimal_def cp_def)

lemma show_int_delim_inject:
  assumes "show_int i @ r = show_int j @ r'" and "delim r" and "delim r'"
  shows "i = j \<and> r = r'"
proof -
  have tw: "takeWhile num_char (show_int k @ q) = show_int k" if "delim q" for k q
    using that show_int_num [of k] delim_hd by (cases q) (auto simp: takeWhile_append2 list_all_iff)
  from assms tw have "show_int i = show_int j" by metis
  with assms(1) show ?thesis by (auto dest: show_int_inject)
qed

lemma join_inject:
  assumes inj: "\<And>x y r r'. x \<in> set xs \<Longrightarrow> f x @ r = f y @ r' \<Longrightarrow> delim r \<Longrightarrow> delim r' \<Longrightarrow> x = y \<and> r = r'"
    and ne: "\<And>y. f y \<noteq> []" and st: "\<And>y. hd (f y) \<noteq> c" and c: "c = CHR '']'' \<or> c = CHR ''}''"
    and eq: "join '','' (map f xs) @ c # r = join '','' (map f ys) @ c # r'"
  shows "xs = ys \<and> r = r'"
  using inj eq
proof (induction xs arbitrary: ys)
  case Nil
  then show ?case
  proof (cases ys)
    case (Cons y ys')
    with Nil have "hd (f y) = c" using ne [of y] by (cases ys'; cases "f y") auto
    with st show ?thesis by blast
  qed simp
next
  case (Cons x xs)
  show ?case
  proof (cases ys)
    case Nil
    with Cons.prems(2) have "hd (f x) = c" using ne [of x] by (cases xs; cases "f x") auto
    with st show ?thesis by blast
  next
    case ys: (Cons y ys')
    define tl where "tl = (\<lambda>zs q. (case zs of [] \<Rightarrow> c # q | _ \<Rightarrow> CHR '','' # join '','' (map f zs) @ c # q))"
    have j: "join '','' (map f (z # zs)) @ c # q = f z @ tl zs q" for z zs q
      by (cases zs) (simp_all add: tl_def)
    have d: "delim (tl zs q)" for zs q using c by (auto simp: tl_def split: list.splits)
    from Cons.prems(2) ys have "f x @ tl xs r = f y @ tl ys' r'" by (simp only: j)
    from Cons.prems(1) [OF _ this d d] have xy: "x = y" and t: "tl xs r = tl ys' r'" by simp_all
    have cc: "c \<noteq> CHR '',''" using c by auto
    from t cc have "join '','' (map f xs) @ c # r = join '','' (map f ys') @ c # r'"
      by (auto simp: tl_def split: list.splits)
    with Cons.IH [OF Cons.prems(1)] have "xs = ys' \<and> r = r'" by simp
    with xy ys show ?thesis by simp
  qed
qed

fun json_head :: "pyval \<Rightarrow> nat" where
  "json_head PNone = 0" | "json_head (PBool b) = (if b then 1 else 2)" | "json_head (PInt i) = 3"
| "json_head (PStr s) = 4" | "json_head (PList xs) = 5" | "json_head (PDict d) = 6"

definition head_of :: "char \<Rightarrow> nat" where
  "head_of c = (if c = CHR ''n'' then 0 else if c = CHR ''t'' then 1 else if c = CHR ''f'' then 2
     else if num_char c then 3 else if c = CHR 0x22 then 4 else if c = CHR ''['' then 5
     else if c = CHR ''{'' then 6 else 7)"

lemma json_text_head: "json_text v \<noteq> [] \<and> head_of (hd (json_text v)) = json_head v"
proof (cases v)
  case (PInt i)
  have "num_char (hd (show_int i))" using show_int_num [of i] by (cases "show_int i") auto
  with PInt show ?thesis by (auto simp: head_of_def num_char_def is_decimal_def cp_def)
qed (auto simp: head_of_def num_char_def is_decimal_def cp_def json_str_def)

lemma json_text_not_Nil [simp]: "json_text v \<noteq> []"
  using json_text_head by blast

lemma json_text_same_head: "json_text v @ r = json_text w @ r' \<Longrightarrow> json_head v = json_head w"
  by (metis hd_append2 json_text_head)

lemma json_text_hd_closing: "hd (json_text v) \<noteq> CHR '']''"
  using json_text_head [of v] by (cases v) (auto simp: head_of_def num_char_def is_decimal_def cp_def)

lemma json_text_inject:
  "json_text v @ r = json_text w @ r' \<Longrightarrow> delim r \<Longrightarrow> delim r' \<Longrightarrow> v = w \<and> r = r'"
proof (induction v arbitrary: w r r' rule: json_text.induct)
  case 1
  from json_text_same_head [OF "1.prems"(1)] have "w = PNone" by (cases w) (auto split: if_splits)
  with 1 show ?case by simp
next
  case (2 b)
  from json_text_same_head [OF "2.prems"(1)] have "w = PBool b" by (cases w) (auto split: if_splits)
  with 2 show ?case by simp
next
  case (3 i)
  from json_text_same_head [OF "3.prems"(1)] obtain j where "w = PInt j"
    by (cases w) (auto split: if_splits)
  with 3 show ?case by (auto dest: show_int_delim_inject)
next
  case (4 s)
  from json_text_same_head [OF "4.prems"(1)] obtain t where "w = PStr t"
    by (cases w) (auto split: if_splits)
  with 4 show ?case by (auto dest: json_str_inject)
next
  case (5 xs)
  from json_text_same_head [OF "5.prems"(1)] obtain ys where w: "w = PList ys"
    by (cases w) (auto split: if_splits)
  with "5.prems"(1) have "join '','' (map json_text xs) @ CHR '']'' # r = join '','' (map json_text ys) @ CHR '']'' # r'"
    by simp
  from join_inject [where f = json_text, OF _ _ _ _ this] "5.IH" json_text_hd_closing w
  show ?case by auto
next
  case (6 d)
  from json_text_same_head [OF "6.prems"(1)] obtain d' where w: "w = PDict d'"
    by (cases w) (auto split: if_splits)
  let ?f = "\<lambda>(k, v). json_str k @ CHR '':'' # json_text v"
  from "6.prems"(1) w have eq: "join '','' (map ?f d) @ CHR ''}'' # r = join '','' (map ?f d') @ CHR ''}'' # r'"
    by simp
  have "x = y \<and> q = q'" if "x \<in> set d" "?f x @ q = ?f y @ q'" "delim q" "delim q'" for x y q q'
  proof -
    obtain k v where x: "x = (k, v)" by (cases x)
    obtain k' v' where y: "y = (k', v')" by (cases y)
    from that(2) x y have "json_str k @ (CHR '':'' # json_text v @ q) = json_str k' @ (CHR '':'' # json_text v' @ q')"
      by simp
    from json_str_inject [OF this] have "k = k'" "json_text v @ q = json_text v' @ q'" by simp_all
    with "6.IH" [OF that(1) x [symmetric] _ that(3,4)] x y show ?thesis by blast
  qed
  moreover have "hd (?f y) \<noteq> CHR ''}''" "?f y \<noteq> []" for y by (auto simp: json_str_def split: prod.splits)
  ultimately have "d = d' \<and> r = r'" by (intro join_inject [OF _ _ _ _ eq]) auto
  with w show ?case by simp
qed

lemma json_dumps_inject: "json_dumps v = json_dumps w \<Longrightarrow> canon v = canon w"
  using json_text_inject [of "canon v" "[]" "canon w" "[]"] by (simp add: json_dumps_def)

end
