(* ===== verification/Active_Response.thy ===== *)
theory Active_Response
  imports Py_Regex Py_Json Wolf_Errors
begin

text \<open>
  The active-response catalog and what is computed from it (\<open>wazuh/active_response.py\<close>): command
  lookup, intent and method resolution, OS classification, IP syntax, block durations, the request
  body and the interpretation of the response.  \<open>ipaddress.ip_address\<close> is modelled as CPython
  parses it.  Guided refusal messages are constructors of \<open>intent_refusal\<close> carrying what the
  message interpolates.
\<close>

section \<open>The catalog\<close>

record ar_command =
  ar_name :: string
  ar_platforms :: "string list"
  ar_target :: string
  ar_reversible :: bool
  ar_severity :: string
  ar_summary :: string
  ar_reverses_via :: string

definition OS_CLASSES :: "string list" where
  "OS_CLASSES = [''linux'', ''windows'', ''macos'', ''freebsd'', ''openbsd'', ''netbsd'', ''opnsense'']"

definition AR_COMMANDS :: "(string \<times> ar_command) list" where
  "AR_COMMANDS = map (\<lambda>c. (ar_name c, c))
   [\<lparr>ar_name = ''firewall-drop'', ar_platforms = [''linux''], ar_target = ''srcip'', ar_reversible = True,
      ar_severity = ''high'', ar_summary = ''Block a source IP via iptables.'',
      ar_reverses_via = ''iptables -D on INPUT and FORWARD removes the DROP rule for the IP.''\<rparr>,
    \<lparr>ar_name = ''host-deny'', ar_platforms = [''linux''], ar_target = ''srcip'', ar_reversible = True,
      ar_severity = ''high'', ar_summary = ''Add a source IP to /etc/hosts.deny.'',
      ar_reverses_via = ''Removes the 'ALL:<ip>' line from /etc/hosts.deny.''\<rparr>,
    \<lparr>ar_name = ''route-null'', ar_platforms = [''linux'', ''macos''], ar_target = ''srcip'', ar_reversible = True,
      ar_severity = ''high'', ar_summary = ''Null-route a source IP.'',
      ar_reverses_via = ''route del/delete <ip> removes the null/blackhole route.''\<rparr>,
    \<lparr>ar_name = ''disable-account'', ar_platforms = [''linux'', ''macos''], ar_target = ''username'', ar_reversible = True,
      ar_severity = ''medium'', ar_summary = ''Disable a local user account.'',
      ar_reverses_via = ''passwd -u unlocks the account (AIX: chuser account_locked=false).''\<rparr>,
    \<lparr>ar_name = ''restart-wazuh'', ar_platforms = OS_CLASSES, ar_target = ''none'', ar_reversible = False,
      ar_severity = ''low'', ar_summary = ''Restart the Wazuh agent.'', ar_reverses_via = ''''\<rparr>,
    \<lparr>ar_name = ''netsh'', ar_platforms = [''windows''], ar_target = ''srcip'', ar_reversible = True,
      ar_severity = ''high'', ar_summary = ''Block a source IP via netsh (Windows).'',
      ar_reverses_via = ''netsh advfirewall firewall delete rule removes the in/out block rule.''\<rparr>,
    \<lparr>ar_name = ''win_route-null'', ar_platforms = [''windows''], ar_target = ''srcip'', ar_reversible = True,
      ar_severity = ''high'', ar_summary = ''Null-route a source IP (Windows).'',
      ar_reverses_via = ''route DELETE <ip> removes the null route (Windows).''\<rparr>,
    \<lparr>ar_name = ''pf'', ar_platforms = [''freebsd'', ''openbsd'', ''macos''], ar_target = ''srcip'', ar_reversible = True,
      ar_severity = ''high'', ar_summary = ''Block a source IP via the pf packet filter (FreeBSD/OpenBSD/macOS >= 10.7).'',
      ar_reverses_via = ''pfctl -t wazuh_fwtable -T delete <ip> removes the IP from the pf table.''\<rparr>,
    \<lparr>ar_name = ''ipfw'', ar_platforms = [''freebsd'', ''macos''], ar_target = ''srcip'', ar_reversible = True,
      ar_severity = ''high'', ar_summary = ''Block a source IP via ipfw (legacy FreeBSD < 5.3 / macOS <= 10.6).'',
      ar_reverses_via = ''ipfw table delete removes the IP from the deny table.''\<rparr>,
    \<lparr>ar_name = ''npf'', ar_platforms = [''netbsd''], ar_target = ''srcip'', ar_reversible = True,
      ar_severity = ''high'', ar_summary = ''Block a source IP via npf (NetBSD).'',
      ar_reverses_via = ''npfctl removes the IP from the block table.''\<rparr>,
    \<lparr>ar_name = ''opnsense-fw'', ar_platforms = [''opnsense''], ar_target = ''srcip'', ar_reversible = True,
      ar_severity = ''high'', ar_summary = ''Block a source IP via opnsense-fw (OPNsense/pfSense appliance firewall).'',
      ar_reverses_via = ''pfctl -t __wazuh_agent_drop -T delete <ip> removes the IP from the table.''\<rparr>]"

definition get_ar_command :: "string \<Rightarrow> ar_command option" where
  "get_ar_command name = map_of AR_COMMANDS (lstrip_char (CHR ''!'') name)"

section \<open>Intents\<close>

definition BLOCK_IP_COMMANDS :: "(string \<times> string) list" where
  "BLOCK_IP_COMMANDS = [(''linux'', ''firewall-drop''), (''windows'', ''netsh''), (''macos'', ''pf''),
     (''freebsd'', ''pf''), (''openbsd'', ''pf''), (''netbsd'', ''npf''), (''opnsense'', ''opnsense-fw'')]"

definition DISABLE_USER_COMMANDS :: "(string \<times> string) list" where
  "DISABLE_USER_COMMANDS = [(''linux'', ''disable-account''), (''macos'', ''disable-account'')]"

datatype intent_entry = AnyOs string | PerOs "(string \<times> string) list"

definition INTENT_COMMANDS :: "(string \<times> intent_entry) list" where
  "INTENT_COMMANDS = [(''restart'', AnyOs ''restart-wazuh''), (''block_ip'', PerOs BLOCK_IP_COMMANDS),
     (''disable_user'', PerOs DISABLE_USER_COMMANDS), (''unblock_ip'', PerOs BLOCK_IP_COMMANDS),
     (''enable_user'', PerOs DISABLE_USER_COMMANDS)]"

definition REVERSE_TO_FORWARD :: "(string \<times> string) list" where
  "REVERSE_TO_FORWARD = [(''unblock_ip'', ''block_ip''), (''enable_user'', ''disable_user'')]"

definition INTENT_TARGETS :: "(string \<times> string) list" where
  "INTENT_TARGETS = [(''block_ip'', ''srcip''), (''disable_user'', ''username''), (''restart'', ''none''),
     (''unblock_ip'', ''srcip''), (''enable_user'', ''username'')]"

datatype intent_refusal =
    UnknownIntent string
  | OsUndetermined string
  | NotSupportedOn string string
  | UnknownMethod string
  | MethodTargetMismatch string string
  | MethodPlatformMismatch string string

text \<open>The version patterns: \<open>(\\d+)\\.(\\d+)[\\d.]*-(?:release|stable|current|p\\d)\<close>,
  \<open>(?:mac ?os(?: ?x)?|macos)\\D*(\\d+)\\.(\\d+)\<close> and \<open>darwin\\D*(\\d+)\<close>.\<close>

definition re_digits :: "nat \<Rightarrow> regex" where
  "re_digits k = Grp k (plus (Cls is_decimal))"

definition freebsd_version_re :: regex where
  "freebsd_version_re = seqs [re_digits 1, lit ''.'', re_digits 2,
     Star True (Cls (\<lambda>c. is_decimal c \<or> c = CHR ''.'')), lit ''-'',
     Alt (lit ''release'') (Alt (lit ''stable'') (Alt (lit ''current'') (Seq (lit ''p'') (Cls is_decimal))))]"

definition macos_version_re :: regex where
  "macos_version_re = seqs [Alt (seqs [lit ''mac'', opt (lit '' ''), lit ''os'', opt (Seq (opt (lit '' '')) (lit ''x''))])
       (lit ''macos''),
     Star True (Cls (\<lambda>c. \<not> is_decimal c)), re_digits 1, lit ''.'', re_digits 2]"

definition darwin_version_re :: regex where
  "darwin_version_re = seqs [lit ''darwin'', Star True (Cls (\<lambda>c. \<not> is_decimal c)), re_digits 1]"

definition predates_pf :: "string \<Rightarrow> string option \<Rightarrow> bool" where
  "predates_pf os_class signal = (case signal of None \<Rightarrow> False | Some sig \<Rightarrow>
     if sig = [] then False else
     let s = py_lower sig in
     if os_class = ''freebsd'' then
       (case re_search freebsd_version_re s of None \<Rightarrow> False
        | Some (_, _, caps, _) \<Rightarrow> (let a = digits_value (group 1 caps); b = digits_value (group 2 caps)
            in a < 5 \<or> (a = 5 \<and> b < 3)))
     else if os_class = ''macos'' then
       (case re_search macos_version_re s of
          Some (_, _, caps, _) \<Rightarrow> (let a = digits_value (group 1 caps); b = digits_value (group 2 caps)
            in a < 10 \<or> (a = 10 \<and> b < 7))
        | None \<Rightarrow> (case re_search darwin_version_re s of None \<Rightarrow> False
            | Some (_, _, caps, _) \<Rightarrow> digits_value (group 1 caps) < 11))
     else False)"

definition resolve_intent_command :: "string \<Rightarrow> string option \<Rightarrow> string option \<Rightarrow> intent_refusal + string" where
  "resolve_intent_command intent os_class os_signal = (case map_of INTENT_COMMANDS intent of
     None \<Rightarrow> Inl (UnknownIntent intent)
   | Some (AnyOs command) \<Rightarrow> Inr command
   | Some (PerOs entry) \<Rightarrow> (case os_class of
       None \<Rightarrow> Inl (OsUndetermined intent)
     | Some os \<Rightarrow> (case map_of entry os of
         None \<Rightarrow> Inl (NotSupportedOn intent os)
       | Some command \<Rightarrow>
           Inr (if command = ''pf'' \<and> predates_pf os os_signal then ''ipfw'' else command))))"

definition resolve_method_command :: "string \<Rightarrow> string \<Rightarrow> string option \<Rightarrow> intent_refusal + string" where
  "resolve_method_command intent meth os_class = (case get_ar_command meth of
     None \<Rightarrow> Inl (UnknownMethod meth)
   | Some cmd \<Rightarrow> (case map_of INTENT_TARGETS intent of
       None \<Rightarrow> Inl (UnknownIntent intent)
     | Some intent_target \<Rightarrow>
         if ar_target cmd \<noteq> intent_target then Inl (MethodTargetMismatch meth intent)
         else if (case os_class of None \<Rightarrow> False | Some os \<Rightarrow> os \<notin> set (ar_platforms cmd))
           then Inl (MethodPlatformMismatch meth (the os_class))
         else Inr (ar_name cmd)))"

section \<open>IP address syntax\<close>

definition valid_octet :: "string \<Rightarrow> bool" where
  "valid_octet s \<longleftrightarrow> s \<noteq> [] \<and> list_all is_decimal s \<and> length s \<le> 3
     \<and> \<not> (length s > 1 \<and> hd s = CHR ''0'') \<and> digits_value s \<le> 255"

definition valid_ipv4 :: "string \<Rightarrow> bool" where
  "valid_ipv4 s \<longleftrightarrow> (let octets = split_on (CHR ''.'') s in length octets = 4 \<and> list_all valid_octet octets)"

definition is_hex :: "char \<Rightarrow> bool" where
  "is_hex c \<longleftrightarrow> is_decimal c \<or> (97 \<le> cp c \<and> cp c \<le> 102) \<or> (65 \<le> cp c \<and> cp c \<le> 70)"

definition valid_hextet :: "string \<Rightarrow> bool" where
  "valid_hextet s \<longleftrightarrow> s \<noteq> [] \<and> length s \<le> 4 \<and> list_all is_hex s"

definition ipv6_parts_ok :: "string list \<Rightarrow> bool" where
  "ipv6_parts_ok parts = (let n = length parts;
       skips = filter (\<lambda>i. parts ! i = []) [1..<n - 1] in
     if length skips > 1 then False
     else if skips \<noteq> [] then
       (let skip = hd skips; hi0 = skip; lo0 = n - skip - 1;
            hi = (if parts ! 0 = [] then hi0 - 1 else hi0);
            lo = (if parts ! (n - 1) = [] then lo0 - 1 else lo0)
        in \<not> (parts ! 0 = [] \<and> hi \<noteq> 0) \<and> \<not> (parts ! (n - 1) = [] \<and> lo \<noteq> 0)
           \<and> hi + lo < 8 \<and> list_all valid_hextet (take hi parts) \<and> list_all valid_hextet (drop (n - lo) parts))
     else n = 8 \<and> list_all valid_hextet parts)"

definition valid_ipv6 :: "string \<Rightarrow> bool" where
  "valid_ipv6 s = (if CHR ''/'' \<in> set s then False else
     (case split_on (CHR ''%'') s of
        [addr] \<Rightarrow> True | [addr, scope] \<Rightarrow> scope \<noteq> [] | _ \<Rightarrow> False)
     \<and> (let addr = hd (split_on (CHR ''%'') s); parts = split_on (CHR '':'') addr in
        addr \<noteq> [] \<and> length parts \<ge> 3 \<and>
        (let v4 = CHR ''.'' \<in> set (last parts);
             parts' = (if v4 then butlast parts @ [''0'', ''0''] else parts)
         in (v4 \<longrightarrow> valid_ipv4 (last parts)) \<and> length parts' \<le> 9 \<and> ipv6_parts_ok parts')))"

definition is_valid_ip :: "string \<Rightarrow> bool" where
  "is_valid_ip value \<longleftrightarrow> valid_ipv4 value \<or> valid_ipv6 value"

section \<open>Durations\<close>

definition MIN_BLOCK_DURATION_SECONDS :: int where "MIN_BLOCK_DURATION_SECONDS = 60"
definition MAX_BLOCK_DURATION_SECONDS :: int where "MAX_BLOCK_DURATION_SECONDS = 30 * 24 * 60 * 60"

definition DURATION_UNITS :: "(string \<times> int) list" where
  "DURATION_UNITS = [(''s'', 1), (''m'', 60), (''h'', 3600), (''d'', 86400)]"

text \<open>\<open>^\\s*(\\d+)\\s*([smhd]?)\\s*$\<close>, ignoring case.\<close>

definition duration_re :: regex where
  "duration_re = seqs [Star True (Cls is_space), re_digits 1, Star True (Cls is_space),
     Grp 2 (opt (Cls (\<lambda>c. lower_char c \<in> set ''smhd''))), Star True (Cls is_space), EndNl]"

definition parse_duration :: "string \<Rightarrow> int result" where
  "parse_duration text = (case re_match duration_re text of
     None \<Rightarrow> Inl (PyError ''ValueError'' (''Could not parse a block duration from '' @ repr_str text))
   | Some (_, _, caps) \<Rightarrow> (case py_int (group 1 caps) of
       None \<Rightarrow> Inl (PyError ''ValueError'' ''Exceeds the limit for integer string conversion'')
     | Some n \<Rightarrow> (let u = (if group 2 caps = [] then ''s'' else group 2 caps);
            v = int n * the (map_of DURATION_UNITS (py_lower u)) in
         if v < MIN_BLOCK_DURATION_SECONDS
           then Inl (PyError ''ValueError'' (''Block duration '' @ repr_str text @ '' is too short''))
         else if v > MAX_BLOCK_DURATION_SECONDS
           then Inl (PyError ''ValueError'' (''Block duration '' @ repr_str text @ '' exceeds the maximum of 30 days''))
         else Inr v)))"

section \<open>OS classification\<close>

definition classify_os :: "string option list \<Rightarrow> string option" where
  "classify_os signals = (let blob = py_lower (join '' '' [s. Some s \<leftarrow> signals, s \<noteq> []]);
       has = (\<lambda>w. contains w blob) in
     if blob = [] then None
     else if has ''windows'' \<or> has ''microsoft'' then Some ''windows''
     else if has ''darwin'' \<or> has ''macos'' \<or> has ''mac os'' then Some ''macos''
     else if has ''opnsense'' \<or> has ''pfsense'' then Some ''opnsense''
     else if has ''freebsd'' then Some ''freebsd''
     else if has ''openbsd'' then Some ''openbsd''
     else if has ''netbsd'' then Some ''netbsd''
     else if has ''bsd'' then Some ''freebsd''
     else if list_ex has [''linux'', ''ubuntu'', ''centos'', ''debian'', ''red hat'', ''rhel'', ''fedora'',
        ''suse'', ''amazon'', ''alma'', ''rocky'', ''oracle''] then Some ''linux''
     else None)"

section \<open>Request body and response\<close>

definition build_ar_body :: "string \<Rightarrow> string option \<Rightarrow> string option \<Rightarrow> string list \<Rightarrow> dict" where
  "build_ar_body command srcip username arguments =
    (let name = lstrip_char (CHR ''!'') command;
         d1 = (case srcip of Some s \<Rightarrow> if s = [] then [] else [(''srcip'', PStr s)] | None \<Rightarrow> []);
         d2 = (case username of Some u \<Rightarrow> if u = [] then [] else [(''dstuser'', PStr u)] | None \<Rightarrow> []);
         dat = d1 @ d2
     in [(''command'', PStr (CHR ''!'' # name))]
        @ (if dat = [] then [] else [(''alert'', PDict [(''data'', PDict dat)])])
        @ (if arguments = [] then [] else [(''arguments'', PList (map PStr arguments))]))"

definition interpret_ar_result :: "pyval \<Rightarrow> (bool \<times> dict) result" where
  "interpret_ar_result res = (case (case as_dict res of Some r \<Rightarrow> dget_or r ''data'' (PDict []) | None \<Rightarrow> PDict []) of
     PDict dat \<Rightarrow>
       (let affected = (let a = dget_or dat ''total_affected_items'' (PInt 0) in if truthy a then a else PInt 0);
            failed_items = (let f = dget_or dat ''failed_items'' (PList []) in if truthy f then f else PList [])
        in (case as_int affected of
             None \<Rightarrow> Inl (PyError ''TypeError'' ''>= not supported'')
           | Some a \<Rightarrow>
             (let dispatched = (a \<ge> 1 \<and> \<not> truthy failed_items);
                  detail = [(''dispatched'', PBool dispatched), (''total_affected_items'', affected),
                    (''note'', PStr ''Command dispatched to the agent (not a host-applied confirmation).'')];
                  first = (case failed_items of PList (x # _) \<Rightarrow> x | _ \<Rightarrow> PDict []);
                  err = (case as_dict first of Some f \<Rightarrow> dget_or f ''error'' (PDict []) | None \<Rightarrow> PDict []);
                  message = (case as_dict err of Some e \<Rightarrow> dget e ''message'' | None \<Rightarrow> PStr (py_str err))
              in Inr (dispatched, if truthy failed_items then detail @ [(''error'', message)] else detail))))
   | _ \<Rightarrow> Inl (PyError ''AttributeError'' ''object has no attribute get''))"

section \<open>Laws of the catalog\<close>

lemma get_ar_command_name: "get_ar_command n = Some cmd \<Longrightarrow> ar_name cmd = lstrip_char (CHR ''!'') n"
  by (auto simp: get_ar_command_def AR_COMMANDS_def split: if_splits)

lemma catalog_name_no_bang: "get_ar_command n = Some cmd \<Longrightarrow> get_ar_command (ar_name cmd) = Some cmd"
  using get_ar_command_name [of n cmd] by (simp add: get_ar_command_def lstrip_char_def)

lemma catalog_reversible_iff: "get_ar_command n = Some cmd \<Longrightarrow> ar_reversible cmd \<longleftrightarrow> ar_reverses_via cmd \<noteq> []"
  by (auto simp: get_ar_command_def AR_COMMANDS_def split: if_splits)

lemma get_ar_command_catalog [simp]:
  "get_ar_command ''firewall-drop'' \<noteq> None" "get_ar_command ''netsh'' \<noteq> None"
  by (simp_all add: get_ar_command_def AR_COMMANDS_def lstrip_char_def)

lemma per_os_commands:
  "map_of BLOCK_IP_COMMANDS os = Some c \<Longrightarrow> \<exists>cmd. get_ar_command c = Some cmd \<and> ar_name cmd = c
     \<and> ar_target cmd = ''srcip'' \<and> os \<in> set (ar_platforms cmd) \<and> (c = ''pf'' \<longrightarrow> os \<in> {''macos'', ''freebsd'', ''openbsd''})"
  "map_of DISABLE_USER_COMMANDS os = Some c \<Longrightarrow> \<exists>cmd. get_ar_command c = Some cmd \<and> ar_name cmd = c
     \<and> ar_target cmd = ''username'' \<and> os \<in> set (ar_platforms cmd) \<and> c \<noteq> ''pf''"
proof -
  have "list_all (\<lambda>(os, c). case get_ar_command c of None \<Rightarrow> False | Some cmd \<Rightarrow> ar_name cmd = c \<and> ar_target cmd = ''srcip''
      \<and> os \<in> set (ar_platforms cmd) \<and> (c = ''pf'' \<longrightarrow> os \<in> set [''macos'', ''freebsd'', ''openbsd''])) BLOCK_IP_COMMANDS"
    by code_simp
  then show "map_of BLOCK_IP_COMMANDS os = Some c \<Longrightarrow> \<exists>cmd. get_ar_command c = Some cmd \<and> ar_name cmd = c
     \<and> ar_target cmd = ''srcip'' \<and> os \<in> set (ar_platforms cmd) \<and> (c = ''pf'' \<longrightarrow> os \<in> {''macos'', ''freebsd'', ''openbsd''})"
    by (auto simp: list_all_iff dest!: map_of_SomeD split: option.splits)
  have "list_all (\<lambda>(os, c). case get_ar_command c of None \<Rightarrow> False | Some cmd \<Rightarrow> ar_name cmd = c \<and> ar_target cmd = ''username''
      \<and> os \<in> set (ar_platforms cmd) \<and> c \<noteq> ''pf'') DISABLE_USER_COMMANDS"
    by code_simp
  then show "map_of DISABLE_USER_COMMANDS os = Some c \<Longrightarrow> \<exists>cmd. get_ar_command c = Some cmd \<and> ar_name cmd = c
     \<and> ar_target cmd = ''username'' \<and> os \<in> set (ar_platforms cmd) \<and> c \<noteq> ''pf''"
    by (auto simp: list_all_iff dest!: map_of_SomeD split: option.splits)
qed

lemma ipfw_command: "\<exists>cmd. get_ar_command ''ipfw'' = Some cmd \<and> ar_name cmd = ''ipfw'' \<and> ar_target cmd = ''srcip''
    \<and> set (ar_platforms cmd) = {''freebsd'', ''macos''}"
  by (auto simp: get_ar_command_def AR_COMMANDS_def lstrip_char_def)

lemma restart_command: "\<exists>cmd. get_ar_command ''restart-wazuh'' = Some cmd \<and> ar_name cmd = ''restart-wazuh''
    \<and> ar_target cmd = ''none'' \<and> ar_platforms cmd = OS_CLASSES"
  by (auto simp: get_ar_command_def AR_COMMANDS_def lstrip_char_def)

lemma predates_pf_os: "predates_pf os sig \<Longrightarrow> os \<in> {''freebsd'', ''macos''}"
  by (rule ccontr, cases sig) (auto simp: predates_pf_def Let_def split: if_splits)

lemma intent_entry_cases:
  assumes "map_of INTENT_COMMANDS intent = Some e"
  obtains "intent = ''restart''" "e = AnyOs ''restart-wazuh''"
  | "intent = ''block_ip'' \<or> intent = ''unblock_ip''" "e = PerOs BLOCK_IP_COMMANDS"
  | "intent = ''disable_user'' \<or> intent = ''enable_user''" "e = PerOs DISABLE_USER_COMMANDS"
  using assms by (auto simp: INTENT_COMMANDS_def split: if_splits)

lemma block_target: "intent = ''block_ip'' \<or> intent = ''unblock_ip'' \<Longrightarrow> map_of INTENT_TARGETS intent = Some ''srcip''"
  and user_target: "intent = ''disable_user'' \<or> intent = ''enable_user'' \<Longrightarrow> map_of INTENT_TARGETS intent = Some ''username''"
  by (auto simp: INTENT_TARGETS_def)

lemma resolve_per_os:
  assumes "map_of INTENT_COMMANDS intent = Some (PerOs entry)" and "resolve_intent_command intent os sig = Inr c"
  obtains cls c0 where "os = Some cls" "map_of entry cls = Some c0"
    "c = (if c0 = ''pf'' \<and> predates_pf cls sig then ''ipfw'' else c0)"
  using assms by (auto simp: resolve_intent_command_def split: option.splits)

section \<open>Laws of the duration pattern\<close>

lemma rmatch_Cls_Cons: "rmatch (Cls P) (prev, c # t, caps) = (if P c then [(Some c, t, caps)] else [])"
  by simp

lemma rmatch_Cls_Nil: "rmatch (Cls P) (prev, [], caps) = []"
  by simp

lemmas rmatch_Cls = rmatch_Cls_Cons rmatch_Cls_Nil

lemma star_cls_head:
  "length s \<le> n \<Longrightarrow> \<exists>prev' ps. star_iter True (rmatch (Cls P)) n (prev, s, caps) = (prev', dropWhile P s, caps) # ps"
proof (induction n arbitrary: prev s)
  case (Suc n)
  show ?case
  proof (cases s)
    case (Cons c t)
    show ?thesis
    proof (cases "P c")
      case True
      with Suc.IH [of t "Some c"] Suc.prems Cons obtain prev' ps where
        "star_iter True (rmatch (Cls P)) n (Some c, t, caps) = (prev', dropWhile P t, caps) # ps"
        by (auto simp del: rmatch.simps(2))
      with Cons True show ?thesis by (simp add: rmatch_Cls del: rmatch.simps(2))
    qed (simp add: Cons rmatch_Cls del: rmatch.simps(2))
  qed (simp add: rmatch_Cls del: rmatch.simps(2))
qed simp

lemma rmatch_star_cls: "\<exists>prev' ps. rmatch (Star True (Cls P)) (prev, s, caps) = (prev', dropWhile P s, caps) # ps"
  using star_cls_head [of s "length s" P prev caps] by (simp del: rmatch.simps(2))

lemma rmatch_seq_head:
  "rmatch r1 p = q # qs \<Longrightarrow> rmatch r2 q = u # us \<Longrightarrow> \<exists>vs. rmatch (Seq r1 r2) p = u # vs"
  by simp

lemma rmatch_digits_head:
  assumes "s = ds @ t" "ds \<noteq> []" "list_all is_decimal ds" "t = [] \<or> \<not> is_decimal (hd t)"
  shows "\<exists>prev' ps. rmatch (re_digits k) (prev, s, caps) = (prev', t, (k, ds) # caps) # ps"
proof -
  from assms(2) obtain d ds' where ds: "ds = d # ds'" by (cases ds) auto
  have dw: "dropWhile is_decimal (ds' @ t) = t"
    using assms(3,4) ds by (cases t) (auto simp: dropWhile_append2 list_all_iff)
  obtain prev' ps where "rmatch (Star True (Cls is_decimal)) (Some d, ds' @ t, caps) = (prev', t, caps) # ps"
    using rmatch_star_cls [of is_decimal "Some d" "ds' @ t" caps] dw by auto
  with assms ds show ?thesis
    by (simp add: re_digits_def plus_def del: rmatch.simps(5))
qed

text \<open>A parsed block duration is always inside the permitted window of one minute to thirty days,
  whatever the input text.\<close>

theorem parse_duration_bounds:
  assumes "parse_duration text = Inr v"
  shows "60 \<le> v \<and> v \<le> 2592000"
  using assms
  by (auto simp: parse_duration_def Let_def MIN_BLOCK_DURATION_SECONDS_def MAX_BLOCK_DURATION_SECONDS_def
      split: option.splits prod.splits if_splits)

theorem parse_duration_bounds_witness: "parse_duration '' 2H '' = Inr 7200 \<and> 60 \<le> (7200::int) \<and> 7200 \<le> (2592000::int)"
proof -
  have "parse_duration '' 2H '' = Inr 7200" by code_simp
  with parse_duration_bounds [OF this] show ?thesis by simp
qed

lemma cp_CHR [simp]: "cp (CHR ''m'') = 109" "cp (CHR ''s'') = 115" "cp (CHR ''h'') = 104" "cp (CHR ''d'') = 100"
  by (simp_all add: cp_def)

lemma unit_char:
  assumes "map_of DURATION_UNITS [u] = Some k"
  shows "\<not> is_decimal u \<and> \<not> is_space u \<and> lower_char u = u \<and> u \<in> set ''smhd''"
  using assms by (auto simp: DURATION_UNITS_def is_decimal_def is_space_def lower_char_def split: if_splits)

lemma duration_re_match:
  assumes ds: "ds \<noteq> []" "list_all is_decimal ds" and u: "map_of DURATION_UNITS [u] = Some k"
  shows "\<exists>prev. re_match duration_re (ds @ [u]) = Some (prev, [], [(2, [u]), (1, ds)])"
proof -
  let ?sp = "Star True (Cls is_space)"
  note u' = unit_char [OF u]
  have nsp: "dropWhile is_space (ds @ [u]) = ds @ [u]"
    using ds by (cases ds) (auto simp: is_space_def is_decimal_def Let_def)
  obtain p1 q1 where 1: "rmatch ?sp (None, ds @ [u], []) = (p1, ds @ [u], []) # q1"
    using rmatch_star_cls [of is_space None "ds @ [u]" "[]"] nsp by auto
  obtain p2 q2 where 2: "rmatch (re_digits 1) (p1, ds @ [u], []) = (p2, [u], [(1, ds)]) # q2"
    using rmatch_digits_head [of "ds @ [u]" ds "[u]" 1 p1 "[]"] ds u' by auto
  obtain p3 q3 where 3: "rmatch ?sp (p2, [u], [(1, ds)]) = (p3, [u], [(1, ds)]) # q3"
    using rmatch_star_cls [of is_space p2 "[u]" "[(1, ds)]"] u' by auto
  have 4: "\<exists>q4. rmatch (Grp 2 (opt (Cls (\<lambda>c. lower_char c \<in> set ''smhd'')))) (p3, [u], [(1, ds)]) =
      (Some u, [], [(2, [u]), (1, ds)]) # q4"
    using u' by (simp add: opt_def)
  then obtain q4 where 4: "rmatch (Grp 2 (opt (Cls (\<lambda>c. lower_char c \<in> set ''smhd'')))) (p3, [u], [(1, ds)]) =
      (Some u, [], [(2, [u]), (1, ds)]) # q4" by blast
  obtain p5 q5 where 5: "rmatch ?sp (Some u, [], [(2, [u]), (1, ds)]) = (p5, [], [(2, [u]), (1, ds)]) # q5"
    using rmatch_star_cls [of is_space "Some u" "[]" "[(2, [u]), (1, ds)]"] by auto
  have 6: "rmatch EndNl (p5, [], [(2, [u]), (1, ds)]) = [(p5, [], [(2, [u]), (1, ds)])]" by simp
  have "\<exists>vs. rmatch duration_re (None, ds @ [u], []) = (p5, [], [(2, [u]), (1, ds)]) # vs"
  proof -
    obtain v5 where "rmatch (Seq ?sp EndNl) (Some u, [], [(2, [u]), (1, ds)]) = (p5, [], [(2, [u]), (1, ds)]) # v5"
      using rmatch_seq_head [OF 5 6] by blast
    from rmatch_seq_head [OF 4 this] obtain v4 where "rmatch (Seq (Grp 2 (opt (Cls (\<lambda>c. lower_char c \<in> set ''smhd'')))) (Seq ?sp EndNl))
        (p3, [u], [(1, ds)]) = (p5, [], [(2, [u]), (1, ds)]) # v4" by blast
    from rmatch_seq_head [OF 3 this] obtain v3 where "rmatch (Seq ?sp (Seq (Grp 2 (opt (Cls (\<lambda>c. lower_char c \<in> set ''smhd'')))) (Seq ?sp EndNl)))
        (p2, [u], [(1, ds)]) = (p5, [], [(2, [u]), (1, ds)]) # v3" by blast
    from rmatch_seq_head [OF 2 this] obtain v2 where "rmatch (Seq (re_digits 1) (Seq ?sp (Seq (Grp 2 (opt (Cls (\<lambda>c. lower_char c \<in> set ''smhd'')))) (Seq ?sp EndNl))))
        (p1, ds @ [u], []) = (p5, [], [(2, [u]), (1, ds)]) # v2" by blast
    from rmatch_seq_head [OF 1 this] show ?thesis by (simp only: duration_re_def seqs.simps)
  qed
  then show ?thesis by (auto simp: re_match_def)
qed

text \<open>Writing a number of units as decimal text followed by its unit letter and parsing it gives
  that number of seconds back, for every duration inside the window.\<close>

theorem parse_duration_roundtrip:
  assumes u: "map_of DURATION_UNITS [u] = Some k" and len: "length (show_nat n) \<le> 4300"
    and lo: "60 \<le> int n * k" and hi: "int n * k \<le> 2592000"
  shows "parse_duration (show_nat n @ [u]) = Inr (int n * k)"
proof -
  have "py_int (show_nat n) = Some n"
    using show_nat_decimal [of n] len by (simp add: py_int_def digits_value_show_nat)
  moreover obtain prev where "re_match duration_re (show_nat n @ [u]) = Some (prev, [], [(2, [u]), (1, show_nat n)])"
    using duration_re_match [OF _ _ u] show_nat_decimal [of n] by blast
  ultimately show ?thesis
    using unit_char [OF u] u lo hi
    by (simp add: parse_duration_def group_def py_lower_def MIN_BLOCK_DURATION_SECONDS_def MAX_BLOCK_DURATION_SECONDS_def)
qed

theorem parse_duration_roundtrip_witness: "parse_duration (show_nat 90 @ ''m'') = Inr 5400"
proof -
  have "length (show_nat 90) \<le> 4300" by (simp add: show_nat.simps)
  then show ?thesis using parse_duration_roundtrip [of "CHR ''m''" 60 90] by (simp add: DURATION_UNITS_def)
qed

section \<open>Laws of intent resolution\<close>

lemma resolved_command_fits:
  assumes "resolve_intent_command intent os sig = Inr c"
  shows "\<exists>cmd. get_ar_command c = Some cmd \<and> ar_name cmd = c
     \<and> map_of INTENT_TARGETS intent = Some (ar_target cmd)
     \<and> (\<forall>cls. os = Some cls \<and> cls \<in> set OS_CLASSES \<longrightarrow> cls \<in> set (ar_platforms cmd))
     \<and> (os = None \<longrightarrow> intent = ''restart'')"
proof -
  from assms obtain e where e: "map_of INTENT_COMMANDS intent = Some e"
    by (auto simp: resolve_intent_command_def split: option.splits)
  then show ?thesis
  proof (cases rule: intent_entry_cases)
    case 1
    with assms e have "c = ''restart-wazuh''" by (simp add: resolve_intent_command_def)
    with restart_command 1 show ?thesis by (auto simp: INTENT_TARGETS_def)
  next
    case 2
    then obtain cls c0 where r: "os = Some cls" "map_of BLOCK_IP_COMMANDS cls = Some c0"
        "c = (if c0 = ''pf'' \<and> predates_pf cls sig then ''ipfw'' else c0)"
      using resolve_per_os [OF _ assms] e by blast
    show ?thesis
    proof (cases "c0 = ''pf'' \<and> predates_pf cls sig")
      case True
      then have "cls \<in> {''freebsd'', ''macos''}" "c = ''ipfw''" using predates_pf_os [of cls sig] r(3) by simp_all
      moreover obtain cmd where "get_ar_command ''ipfw'' = Some cmd" "ar_name cmd = ''ipfw''" "ar_target cmd = ''srcip''"
        "set (ar_platforms cmd) = {''freebsd'', ''macos''}" using ipfw_command by blast
      ultimately show ?thesis using block_target [OF 2(1)] r(1) by simp
    next
      case False
      then have "c = c0" using r(3) by auto
      with per_os_commands(1) [OF r(2)] r(1) block_target [OF 2(1)] show ?thesis by auto
    qed
  next
    case 3
    then obtain cls c0 where r: "os = Some cls" "map_of DISABLE_USER_COMMANDS cls = Some c0"
        "c = (if c0 = ''pf'' \<and> predates_pf cls sig then ''ipfw'' else c0)"
      using resolve_per_os [OF _ assms] e by blast
    with per_os_commands(2) [OF r(2)] user_target [OF 3(1)] show ?thesis by auto
  qed
qed

text \<open>Whatever command Wolf selects for an intent is a catalog command that acts on the kind of
  target the intent names and that runs on the agent's operating system, including the legacy
  fall-back from pf to ipfw; and an intent whose command depends on the platform is refused when
  the platform is unknown.\<close>

theorem resolve_intent_command_sound:
  assumes "resolve_intent_command intent os sig = Inr c"
  shows "\<exists>cmd. get_ar_command c = Some cmd \<and> ar_name cmd = c
     \<and> map_of INTENT_TARGETS intent = Some (ar_target cmd)
     \<and> (\<forall>cls. os = Some cls \<and> cls \<in> set OS_CLASSES \<longrightarrow> cls \<in> set (ar_platforms cmd))
     \<and> (os = None \<longrightarrow> intent = ''restart'')"
  using assms by (rule resolved_command_fits)

theorem resolve_intent_command_sound_witness:
  "resolve_intent_command ''block_ip'' (Some ''freebsd'') (Some ''FreeBSD 4.11-RELEASE'') = Inr ''ipfw''
   \<and> (\<exists>cmd. get_ar_command ''ipfw'' = Some cmd \<and> ''freebsd'' \<in> set (ar_platforms cmd))"
proof -
  have r: "resolve_intent_command ''block_ip'' (Some ''freebsd'') (Some ''FreeBSD 4.11-RELEASE'') = Inr ''ipfw''"
    by code_simp
  from resolve_intent_command_sound [OF r] r show ?thesis by (auto simp: OS_CLASSES_def)
qed

lemma resolve_method_command_sound:
  assumes "resolve_method_command intent m os = Inr c"
  shows "\<exists>cmd. get_ar_command c = Some cmd \<and> ar_name cmd = c \<and> map_of INTENT_TARGETS intent = Some (ar_target cmd)
     \<and> (\<forall>cls. os = Some cls \<longrightarrow> cls \<in> set (ar_platforms cmd))"
  using assms catalog_name_no_bang
  by (fastforce simp: resolve_method_command_def split: option.splits if_splits)

lemma classify_os_class: "classify_os sigs = Some c \<Longrightarrow> c \<in> set OS_CLASSES"
  by (auto simp: classify_os_def OS_CLASSES_def Let_def split: if_splits)

section \<open>Laws of the request body\<close>

text \<open>The body sent to \<open>PUT /active-response\<close> has only the fields the Wazuh API accepts, its command
  carries exactly one leading exclamation mark however many the caller wrote, and the target is in
  the alert the script reads, under the key for its kind.\<close>

theorem build_ar_body_shape:
  "set (map fst (build_ar_body c ip user args)) \<subseteq> {''command'', ''alert'', ''arguments''}
   \<and> distinct (map fst (build_ar_body c ip user args))
   \<and> dget (build_ar_body c ip user args) ''command'' = PStr (''!'' @ lstrip_char (CHR ''!'') c)
   \<and> build_ar_body (''!'' @ c) ip user args = build_ar_body c ip user args
   \<and> dget (dict_or_empty (dget (dict_or_empty (dget (build_ar_body c ip user args) ''alert'')) ''data'')) ''srcip'' =
       (case ip of Some s \<Rightarrow> if s = [] then PNone else PStr s | None \<Rightarrow> PNone)
   \<and> dget (dict_or_empty (dget (dict_or_empty (dget (build_ar_body c ip user args) ''alert'')) ''data'')) ''dstuser'' =
       (case user of Some s \<Rightarrow> if s = [] then PNone else PStr s | None \<Rightarrow> PNone)"
  by (cases ip; cases user; cases "the ip = []"; cases "the user = []"; cases "args = []";
      simp add: build_ar_body_def Let_def lstrip_char_def dict_or_empty_def dget_def)

lemma interpret_ar_result_dispatched:
  assumes "interpret_ar_result (PDict [(''data'', PDict d)]) = Inr (True, detail)"
  shows "(\<exists>n \<ge> 1. as_int (dget d ''total_affected_items'') = Some n) \<and> \<not> truthy (dget d ''failed_items'')"
  using assms
  by (auto simp: interpret_ar_result_def Let_def dget_or_def dget_def split: option.splits if_splits)

end
