(* ===== verification/Proposals.thy ===== *)
theory Proposals
  imports Proposal_Models Active_Response "HOL-Library.Product_Lexorder"
begin

text \<open>
  Creating and freezing proposals (\<open>gateway/proposals.py\<close>): computed severity, the content hash over
  the canonical JSON of the substance, expiry, the ledger queries and reversal proposals.

  \<open>Settings.proposal_ttl_seconds\<close> is the argument \<open>default_ttl\<close>.  The primary key of a new row is
  drawn at the flush.  Query results are ordered by the columns the statement names, \<open>NULL\<close> first
  under \<open>DESC\<close> as PostgreSQL sorts it, and ties keep the order of the table.
\<close>

section \<open>Severity\<close>

definition resolve_ttl :: "int \<Rightarrow> int option \<Rightarrow> int" where
  "resolve_ttl default_ttl ttl_seconds = (case ttl_seconds of Some t \<Rightarrow> t | None \<Rightarrow> default_ttl)"

definition PRIVILEGED_USERNAMES :: "string list" where
  "PRIVILEGED_USERNAMES = [''root'', ''admin'', ''administrator'', ''sa'']"

definition is_privileged_user :: "pyval \<Rightarrow> bool" where
  "is_privileged_user username = (case as_str username of None \<Rightarrow> False
     | Some u \<Rightarrow> (let name = py_lower (py_strip u) in
         name \<in> set PRIVILEGED_USERNAMES \<or> startswith ''admin'' name))"

type_synonym severity_fn = "string \<Rightarrow> dict \<Rightarrow> string"

definition register_severity :: "string \<Rightarrow> severity_fn \<Rightarrow> (string \<times> severity_fn) list \<Rightarrow> (string \<times> severity_fn) list" where
  "register_severity action_class fn registry = AList.update action_class fn registry"

definition active_response_severity :: severity_fn where
  "active_response_severity action parameters =
     (let base = (case get_ar_command action of Some cmd \<Rightarrow> ar_severity cmd | None \<Rightarrow> ''low'') in
      if base = ''medium'' \<and> is_privileged_user (dget parameters ''username'') then ''high'' else base)"

definition agent_action_severity :: severity_fn where
  "agent_action_severity action parameters = ''medium''"

definition rule_tuning_severity :: severity_fn where
  "rule_tuning_severity action parameters = ''high''"

definition config_change_severity :: severity_fn where
  "config_change_severity action parameters = ''high''"

definition SEVERITY :: "(string \<times> severity_fn) list" where
  "SEVERITY = register_severity ''config_change'' config_change_severity
     (register_severity ''rule_tuning'' rule_tuning_severity
       (register_severity ''agent_action'' agent_action_severity
         (register_severity ''active_response'' active_response_severity [])))"

definition compute_severity :: "string \<Rightarrow> string \<Rightarrow> dict \<Rightarrow> string" where
  "compute_severity action_class action parameters =
     (case map_of SEVERITY action_class of None \<Rightarrow> ''low'' | Some fn \<Rightarrow> fn action parameters)"

section \<open>The content hash\<close>

definition uuid_or_none :: "uuid option \<Rightarrow> pyval" where
  "uuid_or_none i = (case i of Some u \<Rightarrow> PStr (uuid_str u) | None \<Rightarrow> PNone)"

definition str_or_none :: "string option \<Rightarrow> pyval" where
  "str_or_none s = (case s of Some t \<Rightarrow> PStr t | None \<Rightarrow> PNone)"

text \<open>The payload dict and its canonical text, the first half of \<open>compute_content_hash\<close>.\<close>

definition hash_payload ::
  "uuid \<Rightarrow> string \<Rightarrow> dict \<Rightarrow> string \<Rightarrow> dict \<Rightarrow> dict \<Rightarrow> string \<Rightarrow> string option \<Rightarrow> string \<Rightarrow> uuid \<Rightarrow> uuid option \<Rightarrow> dict" where
  "hash_payload organization_id action_class target action parameters evidence expected_effect
     rollback_plan severity requested_by reverses_proposal_id =
    [(''organization_id'', PStr (uuid_str organization_id)),
     (''action_class'', PStr action_class),
     (''target'', PDict target),
     (''action'', PStr action),
     (''parameters'', PDict parameters),
     (''evidence'', PDict evidence),
     (''expected_effect'', PStr expected_effect),
     (''rollback_plan'', str_or_none rollback_plan),
     (''severity'', PStr severity),
     (''requested_by'', PStr (uuid_str requested_by)),
     (''reverses_proposal_id'', uuid_or_none reverses_proposal_id)]"

definition compute_content_hash ::
  "uuid \<Rightarrow> string \<Rightarrow> dict \<Rightarrow> string \<Rightarrow> dict \<Rightarrow> dict \<Rightarrow> string \<Rightarrow> string option \<Rightarrow> string \<Rightarrow> uuid \<Rightarrow> uuid option \<Rightarrow> string" where
  "compute_content_hash organization_id action_class target action parameters evidence expected_effect
     rollback_plan severity requested_by reverses_proposal_id =
    (let payload = hash_payload organization_id action_class target action parameters evidence
           expected_effect rollback_plan severity requested_by reverses_proposal_id;
         canonical = json_dumps (PDict payload)
     in sha256_hex canonical)"

definition recompute_content_hash :: "action_proposal \<Rightarrow> string" where
  "recompute_content_hash p = compute_content_hash (ap_organization_id p) (ap_action_class p) (ap_target p)
     (ap_action p) (ap_parameters p) (ap_evidence p) (ap_expected_effect p) (ap_rollback_plan p)
     (ap_severity p) (ap_requested_by p) (ap_reverses_proposal_id p)"

text \<open>The text that is hashed for a row, and the columns it covers.\<close>

definition content_text :: "action_proposal \<Rightarrow> string" where
  "content_text p = json_dumps (PDict (hash_payload (ap_organization_id p) (ap_action_class p) (ap_target p)
     (ap_action p) (ap_parameters p) (ap_evidence p) (ap_expected_effect p) (ap_rollback_plan p)
     (ap_severity p) (ap_requested_by p) (ap_reverses_proposal_id p)))"

definition same_substance :: "action_proposal \<Rightarrow> action_proposal \<Rightarrow> bool" where
  "same_substance p q \<longleftrightarrow>
     ap_organization_id p = ap_organization_id q \<and> ap_action_class p = ap_action_class q
   \<and> canon (PDict (ap_target p)) = canon (PDict (ap_target q)) \<and> ap_action p = ap_action q
   \<and> canon (PDict (ap_parameters p)) = canon (PDict (ap_parameters q))
   \<and> canon (PDict (ap_evidence p)) = canon (PDict (ap_evidence q))
   \<and> ap_expected_effect p = ap_expected_effect q \<and> ap_rollback_plan p = ap_rollback_plan q
   \<and> ap_severity p = ap_severity q \<and> ap_requested_by p = ap_requested_by q
   \<and> ap_reverses_proposal_id p = ap_reverses_proposal_id q"

section \<open>Expiry and timed blocks\<close>

definition is_expired :: "'z database_scheme \<Rightarrow> action_proposal \<Rightarrow> datetime option \<Rightarrow> bool \<times> 'z database_scheme" where
  "is_expired db p now0 =
     (let (now, db) = (case now0 of Some n \<Rightarrow> (n, db) | None \<Rightarrow> utcnow db);
          expires = as_utc (ap_expires_at p)
      in (instant now \<ge> instant expires, db))"

definition stamp_auto_unblock_at ::
  "'z database_scheme \<Rightarrow> action_proposal \<Rightarrow> datetime option \<Rightarrow> action_proposal \<times> 'z database_scheme" where
  "stamp_auto_unblock_at db p now0 =
    (case as_int (dget (ap_parameters p) ''block_duration_seconds'') of
       None \<Rightarrow> (p, db)
     | Some duration \<Rightarrow>
        if duration \<le> 0 then (p, db)
        else let (base, db) = (case ap_executed_at p of Some t \<Rightarrow> (t, db)
               | None \<Rightarrow> (case now0 of Some n \<Rightarrow> (n, db) | None \<Rightarrow> utcnow db));
             p' = p\<lparr>ap_auto_unblock_at := Some (plus_seconds (as_utc base) duration)\<rparr>
           in (p', put_row p' db))"

section \<open>Creation\<close>

definition create_proposal ::
  "int \<Rightarrow> 'z database_scheme \<Rightarrow> uuid \<Rightarrow> uuid \<Rightarrow> string \<Rightarrow> dict \<Rightarrow> string \<Rightarrow> string \<Rightarrow> string \<Rightarrow> dict option
    \<Rightarrow> dict option \<Rightarrow> string option \<Rightarrow> uuid option \<Rightarrow> int option \<Rightarrow> string option
    \<Rightarrow> action_proposal \<times> 'z database_scheme" where
  "create_proposal default_ttl db organization_id requested_by action_class target action rationale
     expected_effect evidence0 parameters0 rollback_plan reverses_proposal_id ttl_seconds session_id =
    (let parameters = (case parameters0 of Some d \<Rightarrow> d | None \<Rightarrow> []);
         evidence = (case evidence0 of Some d \<Rightarrow> d | None \<Rightarrow> []);
         severity = compute_severity action_class action parameters;
         content_hash = compute_content_hash organization_id action_class target action parameters
           evidence expected_effect rollback_plan severity requested_by reverses_proposal_id;
         (now, db) = utcnow db;
         (i, db) = uuid4 db;
         p = \<lparr>ap_id = i, ap_organization_id = organization_id, ap_action_class = action_class,
           ap_target = target, ap_action = action, ap_parameters = parameters,
           ap_rationale = rationale, ap_evidence = evidence, ap_expected_effect = expected_effect,
           ap_rollback_plan = rollback_plan, ap_severity = severity, ap_requested_by = requested_by,
           ap_content_hash = content_hash, ap_reverses_proposal_id = reverses_proposal_id,
           ap_state = Pending, ap_approved_by = None, ap_approved_at = None, ap_executed_at = None,
           ap_result = None, ap_auto_unblock_at = None, ap_reversal_proposal_id = None,
           ap_prior_state = None, ap_created_at = now,
           ap_expires_at = plus_seconds now (resolve_ttl default_ttl ttl_seconds)\<rparr>;
         db = add_row p db;
         (_, db) = write_event db ''action.proposal.created''
           (Some [(''proposal_id'', PStr (uuid_str i)), (''action_class'', PStr action_class),
             (''action'', PStr action), (''severity'', PStr severity), (''target'', PDict target),
             (''content_hash'', PStr content_hash), (''state'', PStr (state_value Pending)),
             (''reverses_proposal_id'', uuid_or_none reverses_proposal_id)])
           (Some organization_id) (Some requested_by) session_id None None
     in (p, db))"

section \<open>The ledger\<close>

definition active_row :: "uuid \<Rightarrow> string \<Rightarrow> action_proposal \<Rightarrow> bool" where
  "active_row organization_id action_class p \<longleftrightarrow>
     ap_organization_id p = organization_id \<and> ap_action_class p = action_class
     \<and> ap_state p = Succeeded \<and> ap_reverses_proposal_id p = None \<and> ap_reversal_proposal_id p = None"

definition recency :: "action_proposal \<Rightarrow> bool \<times> int \<times> int" where
  "recency p = (ap_executed_at p = None,
     (case ap_executed_at p of None \<Rightarrow> 0 | Some t \<Rightarrow> instant t), instant (ap_created_at p))"

definition find_active_action ::
  "'z database_scheme \<Rightarrow> uuid \<Rightarrow> string \<Rightarrow> (action_proposal \<Rightarrow> bool) \<Rightarrow> action_proposal option" where
  "find_active_action db organization_id action_class matcher =
     find matcher (sort_desc recency (filter (active_row organization_id action_class) (proposals db)))"

definition block_matches :: "string \<Rightarrow> string option \<Rightarrow> string option \<Rightarrow> action_proposal \<Rightarrow> bool" where
  "block_matches agent_id srcip username p \<longleftrightarrow>
     py_str (dget_or (ap_target p) ''agent_id'' (PStr [])) = agent_id
   \<and> ((case srcip of Some s \<Rightarrow> dget (ap_parameters p) ''srcip'' = PStr s | None \<Rightarrow> False)
     \<or> (case username of Some u \<Rightarrow> dget (ap_parameters p) ''username'' = PStr u | None \<Rightarrow> False))"

definition find_active_block ::
  "'z database_scheme \<Rightarrow> uuid \<Rightarrow> string \<Rightarrow> string \<Rightarrow> string option \<Rightarrow> string option \<Rightarrow> action_proposal option" where
  "find_active_block db organization_id action_class agent_id srcip username =
     find_active_action db organization_id action_class (block_matches agent_id srcip username)"

definition list_active_blocks :: "'z database_scheme \<Rightarrow> uuid \<Rightarrow> string \<Rightarrow> nat \<Rightarrow> action_proposal list" where
  "list_active_blocks db organization_id action_class limit =
     take limit (sort_desc recency (filter (active_row organization_id action_class) (proposals db)))"

definition create_reversal_proposal ::
  "int \<Rightarrow> 'z database_scheme \<Rightarrow> action_proposal \<Rightarrow> uuid \<Rightarrow> string \<Rightarrow> dict \<Rightarrow> string \<Rightarrow> string \<Rightarrow> dict option
    \<Rightarrow> int option \<Rightarrow> string option \<Rightarrow> action_proposal \<times> 'z database_scheme" where
  "create_reversal_proposal default_ttl db block requested_by action parameters rationale
     expected_effect evidence ttl_seconds session_id =
    (let (reversal, db) = create_proposal default_ttl db (ap_organization_id block) requested_by
           (ap_action_class block) (ap_target block) action rationale expected_effect evidence
           (Some parameters) None (Some (ap_id block)) ttl_seconds session_id
     in (reversal, put_row (block\<lparr>ap_reversal_proposal_id := Some (ap_id reversal)\<rparr>) db))"

section \<open>The hash covers the substance\<close>

lemma digit_char_inject: "a < 16 \<Longrightarrow> b < 16 \<Longrightarrow> digit_char a = digit_char b \<Longrightarrow> a = b"
  by (auto simp: digit_char_def char_of_eq_iff take_bit_eq_mod split: if_splits)

lemma hex_digits_Suc: "hex_digits (Suc k) n = digit_char (n div 16 ^ k mod 16) # hex_digits k n"
proof -
  have "[0..<Suc k] = 0 # map Suc [0..<k]" by (simp add: upt_conv_Cons map_Suc_upt)
  then show ?thesis by (simp add: hex_digits_def o_def)
qed

lemma hex_digits_inject: "hex_digits k n = hex_digits k m \<Longrightarrow> n mod 16 ^ k = m mod 16 ^ k"
proof (induction k)
  case (Suc k)
  then have "n div 16 ^ k mod 16 = m div 16 ^ k mod 16" and "n mod 16 ^ k = m mod 16 ^ k"
    by (auto simp: hex_digits_Suc intro: digit_char_inject)
  then show ?case by (metis mod_mult2_eq power_Suc2)
qed simp

lemma length_hex_digits [simp]: "length (hex_digits k n) = k"
  by (simp add: hex_digits_def)

lemma uuid_str_inject [simp]: "uuid_str u = uuid_str v \<longleftrightarrow> u = v"
proof
  assume eq: "uuid_str u = uuid_str v"
  let ?h = "hex_digits 32 (unat u)" and ?g = "hex_digits 32 (unat v)"
  have step: "drop i h = take k (drop i h) @ drop (i + k) h" for i k and h :: string
    by (metis append_take_drop_id drop_drop add.commute)
  have split: "h = take 8 h @ take 4 (drop 8 h) @ take 4 (drop 12 h) @ take 4 (drop 16 h) @ drop 20 h"
    for h :: string
    using step [of 8 h 4] step [of 12 h 4] step [of 16 h 4] append_take_drop_id [of 8 h] by simp
  have "?h = ?g"
    using eq split [of ?h] split [of ?g] by (simp add: uuid_str_def Let_def)
  then have "unat u mod 16 ^ 32 = unat v mod 16 ^ 32" by (rule hex_digits_inject)
  moreover have "unat w < 16 ^ 32" for w :: uuid
  proof -
    have "unat w < 2 ^ LENGTH(128)" by (rule unsigned_less)
    then show ?thesis by simp
  qed
  ultimately have "unat u = unat v" by (metis mod_less)
  then show "u = v" by (simp only: word_unat_eq_iff)
qed simp

lemma map_of_sort_key: "distinct (map fst xs) \<Longrightarrow> map_of (sort_key fst xs) = map_of xs"
  by (rule map_of_inject_set [THEN iffD2]) (simp_all add: distinct_map)

lemma canon_PDict_map_of:
  assumes "canon (PDict d) = canon (PDict d')" "distinct (map fst d)" "distinct (map fst d')"
  shows "map_option canon (map_of d k) = map_option canon (map_of d' k)"
proof -
  let ?f = "map (\<lambda>(k, v). (k, canon v))"
  have fst: "map fst (?f e) = map fst e" for e :: dict by (induction e) auto
  have m: "map_of (?f e) k = map_option canon (map_of e k)" for e :: dict by (induction e) auto
  from assms(1) have "map_of (sort_key fst (?f d)) = map_of (sort_key fst (?f d'))" by simp
  moreover have "distinct (map fst (?f d))" "distinct (map fst (?f d'))"
    using assms(2,3) unfolding fst .
  ultimately have "map_of (?f d) = map_of (?f d')" by (simp only: map_of_sort_key)
  then show ?thesis using m by metis
qed

lemma canon_PStr_iff [simp]: "canon v = PStr s \<longleftrightarrow> v = PStr s"
  by (cases v) auto

lemma canon_or_none [simp]: "canon (str_or_none x) = str_or_none x" "canon (uuid_or_none y) = uuid_or_none y"
  by (simp_all add: str_or_none_def uuid_or_none_def split: option.splits)

lemma or_none_inject [simp]: "str_or_none x = str_or_none x' \<longleftrightarrow> x = x'" "uuid_or_none y = uuid_or_none y' \<longleftrightarrow> y = y'"
  by (auto simp: str_or_none_def uuid_or_none_def split: option.splits)

lemma content_text_inject:
  assumes "content_text p = content_text q"
  shows "same_substance p q"
proof -
  let ?pay = "\<lambda>p. hash_payload (ap_organization_id p) (ap_action_class p) (ap_target p)
     (ap_action p) (ap_parameters p) (ap_evidence p) (ap_expected_effect p) (ap_rollback_plan p)
     (ap_severity p) (ap_requested_by p) (ap_reverses_proposal_id p)"
  have "map_option canon (map_of (?pay p) k) = map_option canon (map_of (?pay q) k)" for k
    using json_dumps_inject [OF assms [unfolded content_text_def]]
    by (rule canon_PDict_map_of) (simp_all add: hash_payload_def)
  note eq = this
  show ?thesis
    unfolding same_substance_def
    using eq [of "''organization_id''"] eq [of "''action_class''"] eq [of "''target''"] eq [of "''action''"]
      eq [of "''parameters''"] eq [of "''evidence''"] eq [of "''expected_effect''"] eq [of "''rollback_plan''"]
      eq [of "''severity''"] eq [of "''requested_by''"] eq [of "''reverses_proposal_id''"]
    by (simp add: hash_payload_def)
qed

lemma recompute_content_hash_eq: "recompute_content_hash p = sha256_hex (content_text p)"
  by (simp add: recompute_content_hash_def compute_content_hash_def content_text_def)

section \<open>Laws of creation\<close>

lemma create_proposal_row:
  assumes "create_proposal ttl db org req cls tgt act rat eff ev pa rb rv ts ses = (p, db')"
  shows "ap_id p = uuid_source db 0" "ap_state p = Pending" "ap_organization_id p = org"
    "ap_requested_by p = req" "ap_action_class p = cls" "ap_target p = tgt" "ap_action p = act"
    "ap_parameters p = (case pa of Some d \<Rightarrow> d | None \<Rightarrow> [])" "ap_reverses_proposal_id p = rv"
    "ap_reversal_proposal_id p = None" "ap_approved_by p = None" "ap_result p = None" "ap_auto_unblock_at p = None"
    "ap_severity p = compute_severity cls act (case pa of Some d \<Rightarrow> d | None \<Rightarrow> [])"
    "ap_content_hash p = recompute_content_hash p"
    "instant (ap_expires_at p) = instant (ap_created_at p) + resolve_ttl ttl ts * 1000000"
    "ap_created_at p = Aware (clock db 0)"
  using assms by (auto simp: create_proposal_def utcnow_def uuid4_def recompute_content_hash_def Let_def split: prod.splits)

lemma create_proposal_db:
  assumes "create_proposal ttl db org req cls tgt act rat eff ev pa rb rv ts ses = (p, db')"
  shows "proposals db' = proposals db @ [p]" and "users db' = users db"
    and "\<exists>e. audit_events db' = audit_events db @ [e] \<and> ae_event_type e = ''action.proposal.created''
      \<and> ae_organization_id e = Some org \<and> ae_user_id e = Some req
      \<and> (\<exists>d. ae_event_data e = Some d \<and> dget d ''proposal_id'' = PStr (uuid_str (ap_id p))
           \<and> dget d ''content_hash'' = PStr (ap_content_hash p))"
  using assms
  by (auto simp: create_proposal_def utcnow_def uuid4_def write_event_def add_row_def Let_def split: prod.splits)

lemma create_proposal_sources:
  assumes "create_proposal ttl db org req cls tgt act rat eff ev pa rb rv ts ses = (p, db')"
  shows "uuid_source db' = (\<lambda>n. uuid_source db (n + 2))" and "clock db' = (\<lambda>n. clock db (n + 2))"
  using assms
  by (auto simp: create_proposal_def utcnow_def uuid4_def write_event_def add_row_def Let_def split: prod.splits)

lemma create_proposal_get_row:
  assumes "create_proposal ttl db org req cls tgt act rat eff ev pa rb rv ts ses = (p, db')"
    and "get_row db i = Some q"
  shows "get_row db' i = Some q"
  using create_proposal_db(1) [OF assms(1)] assms(2) by (simp add: get_row_def find_append)

lemma create_reversal_proposal_db:
  assumes "create_reversal_proposal ttl db block req act pa rat eff ev ts ses = (r, db')"
  shows "proposals db' = replace_by ap_id (block\<lparr>ap_reversal_proposal_id := Some (ap_id r)\<rparr>) (proposals db @ [r])"
    and "\<exists>e. audit_events db' = audit_events db @ [e] \<and> ae_event_type e = ''action.proposal.created''"
    and "ap_reverses_proposal_id r = Some (ap_id block)" and "ap_state r = Pending"
    and "ap_id r = uuid_source db 0" and "ap_organization_id r = ap_organization_id block"
    and "ap_content_hash r = recompute_content_hash r" and "ap_auto_unblock_at r = None"
    and "uuid_source db' = (\<lambda>n. uuid_source db (n + 2))"
    and "ap_reversal_proposal_id r = None"
proof -
  obtain db1 where c: "create_proposal ttl db (ap_organization_id block) req (ap_action_class block) (ap_target block)
      act rat eff ev (Some pa) None (Some (ap_id block)) ts ses = (r, db1)"
    and db': "db' = put_row (block\<lparr>ap_reversal_proposal_id := Some (ap_id r)\<rparr>) db1"
    using assms by (auto simp: create_reversal_proposal_def split: prod.splits)
  note row = create_proposal_row [OF c] and d = create_proposal_db [OF c]
  show "proposals db' = replace_by ap_id (block\<lparr>ap_reversal_proposal_id := Some (ap_id r)\<rparr>) (proposals db @ [r])"
    using d(1) by (simp add: db' put_row_def)
  show "\<exists>e. audit_events db' = audit_events db @ [e] \<and> ae_event_type e = ''action.proposal.created''" using d(3) by (auto simp: db' row_simps)
  show "ap_reverses_proposal_id r = Some (ap_id block)" "ap_state r = Pending" "ap_id r = uuid_source db 0"
    "ap_organization_id r = ap_organization_id block" "ap_content_hash r = recompute_content_hash r"
    "ap_auto_unblock_at r = None" "ap_reversal_proposal_id r = None" using row by simp_all
  show "uuid_source db' = (\<lambda>n. uuid_source db (n + 2))"
    using create_proposal_sources [OF c] by (simp add: db' row_simps)
qed

lemma find_SomeD: "find P xs = Some x \<Longrightarrow> x \<in> set xs \<and> P x"
  by (auto simp: find_Some_iff)

lemma find_active_action_SomeD:
  assumes "find_active_action db org cls m = Some p"
  shows "p \<in> set (proposals db) \<and> active_row org cls p \<and> m p"
  using find_SomeD [OF assms [unfolded find_active_action_def]] by simp

lemma sort_desc_hd_max:
  assumes "find P (sort_desc f xs) = Some x" "y \<in> set xs" "P y"
  shows "f y \<le> f x"
proof -
  obtain i where i: "i < length (sort_desc f xs)" "sort_desc f xs ! i = x"
      "\<forall>j < i. \<not> P (sort_desc f xs ! j)"
    using assms(1) by (auto simp: find_Some_iff)
  from assms(2) obtain j where j: "j < length (sort_desc f xs)" "sort_desc f xs ! j = y"
    by (metis in_set_conv_nth set_sort_desc)
  with i assms(3) have "i \<le> j" by (meson not_le)
  then show ?thesis using sort_desc_sorted [of f xs] i j
    by (cases "i = j") (auto simp: sorted_wrt_iff_nth_less)
qed

section \<open>Properties\<close>

text \<open>The approved hash pins the substance: two rows whose recomputed content hashes agree have the
  same organization, class, target, action, parameters, evidence, expected effect, rollback plan,
  severity, requester and reversed proposal (dicts compared up to key order), unless their two
  canonical texts are themselves a SHA-256 collision.\<close>

theorem content_hash_pins_substance:
  assumes "recompute_content_hash p = recompute_content_hash q"
    and "\<not> (content_text p \<noteq> content_text q \<and> sha256_hex (content_text p) = sha256_hex (content_text q))"
  shows "same_substance p q"
  using assms content_text_inject by (auto simp: recompute_content_hash_eq)

text \<open>Creating a proposal adds exactly one row and one audit event and touches no other row: the row
  is pending, unapproved and unexecuted, its severity is the computed one, its stored hash is the hash
  of its columns, it expires the configured or overriding number of seconds after its creation, and
  the event is \<open>action.proposal.created\<close> with that row's id and hash.\<close>

theorem create_proposal_frozen:
  assumes "create_proposal ttl db org req cls tgt act rat eff ev pa rb rv ts ses = (p, db')"
  shows "proposals db' = proposals db @ [p] \<and> ap_state p = Pending \<and> ap_approved_by p = None \<and> ap_result p = None
    \<and> ap_severity p = compute_severity cls act (case pa of Some d \<Rightarrow> d | None \<Rightarrow> [])
    \<and> ap_content_hash p = recompute_content_hash p
    \<and> instant (ap_expires_at p) = instant (ap_created_at p) + resolve_ttl ttl ts * 1000000
    \<and> (\<exists>e d. audit_events db' = audit_events db @ [e] \<and> ae_event_type e = ''action.proposal.created''
        \<and> ae_organization_id e = Some org \<and> ae_user_id e = Some req \<and> ae_event_data e = Some d
        \<and> dget d ''proposal_id'' = PStr (uuid_str (ap_id p)) \<and> dget d ''content_hash'' = PStr (ap_content_hash p))"
  using create_proposal_row [OF assms] create_proposal_db [OF assms] by auto

text \<open>The ledger lookup returns a forward action of the organization and class that succeeded and was not
  reversed, satisfies the matcher, and is at least as recent as every other such action; it returns
  nothing only when there is none.\<close>

theorem find_active_action_most_recent:
  "case find_active_action db org cls m of
     Some p \<Rightarrow> p \<in> set (proposals db) \<and> active_row org cls p \<and> m p
       \<and> (\<forall>q \<in> set (proposals db). active_row org cls q \<and> m q \<longrightarrow> recency q \<le> recency p)
   | None \<Rightarrow> \<not> (\<exists>q \<in> set (proposals db). active_row org cls q \<and> m q)"
proof (cases "find_active_action db org cls m")
  case None
  then have "\<not> (\<exists>q \<in> set (proposals db). active_row org cls q \<and> m q)"
    by (auto simp: find_active_action_def find_None_iff)
  with None show ?thesis by simp
next
  case (Some p)
  have "recency q \<le> recency p" if "q \<in> set (proposals db)" "active_row org cls q" "m q" for q
    using sort_desc_hd_max [OF Some [unfolded find_active_action_def], of q] that by simp
  with Some find_active_action_SomeD [OF Some] show ?thesis by simp
qed

definition sample_proposal :: action_proposal where
  "sample_proposal = \<lparr>ap_id = 7, ap_organization_id = 1, ap_action_class = ''active_response'',
     ap_target = [(''agent_id'', PStr ''001'')], ap_action = ''firewall-drop'',
     ap_parameters = [(''srcip'', PStr ''10.0.0.9'')], ap_rationale = ''scan'', ap_evidence = [],
     ap_expected_effect = ''block'', ap_rollback_plan = None, ap_severity = ''high'', ap_requested_by = 2,
     ap_content_hash = [], ap_reverses_proposal_id = None, ap_state = Succeeded, ap_approved_by = Some 3,
     ap_approved_at = Some (Aware 1), ap_executed_at = Some (Aware 2), ap_result = None,
     ap_auto_unblock_at = None, ap_reversal_proposal_id = None, ap_prior_state = None,
     ap_created_at = Aware 0, ap_expires_at = Aware 900000000\<rparr>"

definition empty_db :: database where
  "empty_db = \<lparr>audit_events = [], clock = int, uuid_source = word_of_nat, organizations = [],
     users = [], user_organizations = [], access_requests = [], token_source = (\<lambda>_. ''token''), proposals = []\<rparr>"

theorem content_hash_pins_substance_witness:
  "same_substance sample_proposal (sample_proposal\<lparr>ap_rationale := ''other'', ap_state := Approved\<rparr>)"
  by (rule content_hash_pins_substance) (simp_all add: recompute_content_hash_def content_text_def)

theorem create_proposal_frozen_witness:
  "\<exists>p db'. create_proposal 900 empty_db 1 2 ''active_response'' [(''agent_id'', PStr ''001'')] ''firewall-drop''
      ''scan'' ''block'' None None None None None None = (p, db') \<and> proposals db' = [p] \<and> ap_state p = Pending"
proof -
  obtain p db' where "create_proposal 900 empty_db 1 2 ''active_response'' [(''agent_id'', PStr ''001'')]
      ''firewall-drop'' ''scan'' ''block'' None None None None None None = (p, db')"
    by (metis surj_pair)
  with create_proposal_frozen [OF this] show ?thesis by (simp add: empty_db_def)
qed

theorem find_active_action_most_recent_witness:
  "find_active_action (empty_db\<lparr>proposals := [sample_proposal]\<rparr>) 1 ''active_response'' (\<lambda>_. True) = Some sample_proposal
   \<and> active_row 1 ''active_response'' sample_proposal"
proof -
  have "active_row 1 ''active_response'' sample_proposal" by (simp add: active_row_def sample_proposal_def)
  then have "find_active_action (empty_db\<lparr>proposals := [sample_proposal]\<rparr>) 1 ''active_response'' (\<lambda>_. True) = Some sample_proposal"
    by (simp add: find_active_action_def sort_desc_def)
  with find_active_action_most_recent [of "empty_db\<lparr>proposals := [sample_proposal]\<rparr>" 1 "''active_response''" "\<lambda>_. True"]
  show ?thesis by simp
qed

end
