(* ===== verification/Approval.thy ===== *)
theory Approval
  imports Proposals
begin

text \<open>
  Signing and declining proposals (\<open>gateway/approval.py\<close>): capability, separation of duties, expiry
  and the state edge, in the order the code tests them, with the audit event of each outcome.
\<close>

section \<open>Operations\<close>

definition approval_audit ::
  "'z database_scheme \<Rightarrow> action_proposal \<Rightarrow> string \<Rightarrow> uuid \<Rightarrow> string option \<Rightarrow> dict \<Rightarrow> 'z database_scheme" where
  "approval_audit db p event_type user_id session_id extra =
    snd (write_event db event_type
      (Some ([(''proposal_id'', PStr (uuid_str (ap_id p))), (''action_class'', PStr (ap_action_class p)),
        (''action'', PStr (ap_action p)), (''content_hash'', PStr (ap_content_hash p)),
        (''state'', PStr (state_value (ap_state p))), (''approver'', PStr (uuid_str user_id))] @ extra))
      (Some (ap_organization_id p)) (Some user_id) session_id None None)"

definition approve_proposal ::
  "'z database_scheme \<Rightarrow> action_proposal \<Rightarrow> uuid \<Rightarrow> string \<Rightarrow> string option
    \<Rightarrow> action_proposal result \<times> 'z database_scheme" where
  "approve_proposal db p approver_user_id approver_role session_id =
    (if \<not> role_has_capability approver_role ACTION_APPROVE
     then (Inl (Wolf ApprovalAuthorityError
        (''Role '' @ repr_str approver_role @ '' cannot approve action proposals.'')), db)
     else if approver_user_id = ap_requested_by p
     then (Inl (Wolf SeparationOfDutiesError
        ''The requester of a proposal cannot approve it - a different authorized user must approve.''), db)
     else let (expired, db) = is_expired db p None in
       if expired
       then (case assert_transition (ap_state p) Expired of
           Inl e \<Rightarrow> (Inl e, db)
         | Inr _ \<Rightarrow>
             (let p = p\<lparr>ap_state := Expired\<rparr>;
                  db = approval_audit (put_row p db) p ''action.proposal.expired'' approver_user_id session_id []
              in (Inl (Wolf ProposalExpiredError ''This proposal has expired; re-propose the action.''), db)))
       else (case assert_transition (ap_state p) Approved of
           Inl e \<Rightarrow> (Inl e, db)
         | Inr _ \<Rightarrow>
             (let (now, db) = utcnow db;
                  p = p\<lparr>ap_state := Approved, ap_approved_by := Some approver_user_id, ap_approved_at := Some now\<rparr>;
                  db = approval_audit (put_row p db) p ''action.proposal.approved'' approver_user_id session_id []
              in (Inr p, db))))"

definition reject_proposal ::
  "'z database_scheme \<Rightarrow> action_proposal \<Rightarrow> uuid \<Rightarrow> string \<Rightarrow> string \<Rightarrow> string option
    \<Rightarrow> action_proposal result \<times> 'z database_scheme" where
  "reject_proposal db p approver_user_id approver_role reason session_id =
    (if \<not> role_has_capability approver_role ACTION_APPROVE
     then (Inl (Wolf ApprovalAuthorityError
        (''Role '' @ repr_str approver_role @ '' cannot decide action proposals.'')), db)
     else case assert_transition (ap_state p) Rejected of
         Inl e \<Rightarrow> (Inl e, db)
       | Inr _ \<Rightarrow>
           (let p = p\<lparr>ap_state := Rejected\<rparr>;
                db = approval_audit (put_row p db) p ''action.proposal.rejected'' approver_user_id session_id
                  [(''reason'', PStr reason)]
            in (Inr p, db)))"

section \<open>Laws\<close>

lemma approval_audit_frame [row_simps]:
  "proposals (approval_audit db p ty u ses ex) = proposals db"
  "get_row (approval_audit db p ty u ses ex) i = get_row db i"
  by (simp_all add: approval_audit_def row_simps)

lemma approval_audit_events [audit_simps]:
  "\<exists>e. audit_events (approval_audit db p ty u ses ex) = audit_events db @ [e] \<and> ae_event_type e = ty
     \<and> ae_organization_id e = Some (ap_organization_id p) \<and> ae_user_id e = Some u"
  by (simp add: approval_audit_def audit_simps)

text \<open>The three ways a decision can leave the table: untouched, or the decided row replaced.\<close>

lemma approve_proposal_cases:
  obtains (refused) e db1 where "approve_proposal db p u role ses = (Inl e, db1)"
      "proposals db1 = proposals db" "audit_events db1 = audit_events db"
  | (expired) e db1 where "approve_proposal db p u role ses = (Inl e, db1)"
      "role_has_capability role ACTION_APPROVE" "u \<noteq> ap_requested_by p" "can_transition (ap_state p) Expired"
      "clock db 0 \<ge> instant (ap_expires_at p)"
      "e = Wolf ProposalExpiredError ''This proposal has expired; re-propose the action.''"
      "proposals db1 = replace_by ap_id (p\<lparr>ap_state := Expired\<rparr>) (proposals db)"
      "\<exists>ev. audit_events db1 = audit_events db @ [ev] \<and> ae_event_type ev = ''action.proposal.expired''
        \<and> ae_organization_id ev = Some (ap_organization_id p) \<and> ae_user_id ev = Some u"
  | (approved) p' db1 where "approve_proposal db p u role ses = (Inr p', db1)"
      "role_has_capability role ACTION_APPROVE" "u \<noteq> ap_requested_by p" "ap_state p = Pending"
      "clock db 0 < instant (ap_expires_at p)"
      "p' = p\<lparr>ap_state := Approved, ap_approved_by := Some u, ap_approved_at := Some (Aware (clock db 1))\<rparr>"
      "proposals db1 = replace_by ap_id p' (proposals db)"
      "\<exists>ev. audit_events db1 = audit_events db @ [ev] \<and> ae_event_type ev = ''action.proposal.approved''
        \<and> ae_organization_id ev = Some (ap_organization_id p) \<and> ae_user_id ev = Some u"
proof -
  note unf = approve_proposal_def is_expired_def utcnow_def Let_def
  let ?db = "db\<lparr>clock := \<lambda>n. clock db (Suc n)\<rparr>"
  show thesis
  proof (cases "role_has_capability role ACTION_APPROVE \<and> u \<noteq> ap_requested_by p")
    case False
    then have "\<exists>e. approve_proposal db p u role ses = (Inl e, db)" by (auto simp: unf)
    then show thesis using refused by blast
  next
    case auth: True
    show thesis
    proof (cases "clock db 0 \<ge> instant (ap_expires_at p)")
      case late: True
      show thesis
      proof (cases "can_transition (ap_state p) Expired")
        case False
        with auth late have "\<exists>e. approve_proposal db p u role ses = (Inl e, ?db)"
          by (auto simp: unf assert_transition_def)
        then show thesis using refused [of _ ?db] by auto
      next
        case Inr: True
        let ?p = "p\<lparr>ap_state := Expired\<rparr>"
        let ?db1 = "approval_audit (put_row ?p ?db) ?p ''action.proposal.expired'' u ses []"
        show thesis
        proof (rule expired [of _ ?db1])
          show "approve_proposal db p u role ses =
              (Inl (Wolf ProposalExpiredError ''This proposal has expired; re-propose the action.''), ?db1)"
            using auth late Inr by (simp add: unf assert_transition_def)
        qed (use auth late Inr approval_audit_events [of "put_row ?p ?db" ?p] in
          \<open>auto simp: row_simps put_row_def\<close>)
      qed
    next
      case early: False
      show thesis
      proof (cases "can_transition (ap_state p) Approved")
        case False
        with auth early have "\<exists>e. approve_proposal db p u role ses = (Inl e, ?db)"
          by (auto simp: unf assert_transition_def)
        then show thesis using refused [of _ ?db] by auto
      next
        case Inr: True
        let ?p = "p\<lparr>ap_state := Approved, ap_approved_by := Some u, ap_approved_at := Some (Aware (clock db 1))\<rparr>"
        let ?db2 = "db\<lparr>clock := \<lambda>n. clock db (Suc (Suc n))\<rparr>"
        let ?db1 = "approval_audit (put_row ?p ?db2) ?p ''action.proposal.approved'' u ses []"
        show thesis
        proof (rule approved [of ?p ?db1])
          show "approve_proposal db p u role ses = (Inr ?p, ?db1)"
            using auth early Inr by (simp add: unf assert_transition_def)
        qed (use auth early Inr approval_audit_events [of "put_row ?p ?db2" ?p] in
          \<open>auto simp: row_simps put_row_def\<close>)
      qed
    qed
  qed
qed

lemma reject_proposal_cases:
  obtains (refused) e where "reject_proposal db p u role why ses = (Inl e, db)"
      "\<not> (role_has_capability role ACTION_APPROVE \<and> ap_state p = Pending)"
  | (rejected) db1 where "reject_proposal db p u role why ses = (Inr (p\<lparr>ap_state := Rejected\<rparr>), db1)"
      "role_has_capability role ACTION_APPROVE" "ap_state p = Pending"
      "proposals db1 = replace_by ap_id (p\<lparr>ap_state := Rejected\<rparr>) (proposals db)"
      "\<exists>ev. audit_events db1 = audit_events db @ [ev] \<and> ae_event_type ev = ''action.proposal.rejected''
        \<and> ae_organization_id ev = Some (ap_organization_id p) \<and> ae_user_id ev = Some u"
proof -
  let ?p = "p\<lparr>ap_state := Rejected\<rparr>"
  let ?db1 = "approval_audit (put_row ?p db) ?p ''action.proposal.rejected'' u ses [(''reason'', PStr why)]"
  show thesis
  proof (cases "role_has_capability role ACTION_APPROVE \<and> ap_state p = Pending")
    case False
    then have "\<exists>e. reject_proposal db p u role why ses = (Inl e, db)"
      by (auto simp: reject_proposal_def assert_transition_def)
    with False show thesis using refused by blast
  next
    case True
    show thesis
    proof (rule rejected [of ?db1])
      show "reject_proposal db p u role why ses = (Inr ?p, ?db1)"
        using True by (simp add: reject_proposal_def assert_transition_def Let_def)
    qed (use True approval_audit_events [of "put_row ?p db" ?p] in \<open>auto simp: row_simps put_row_def\<close>)
  qed
qed

section \<open>Properties\<close>

text \<open>A proposal is signed exactly when the approver's role is admin, engineer or responder, the approver
  is not the requester, the row is pending and the clock reading is before its expiry.\<close>

theorem approve_proposal_signs_iff:
  "(\<exists>p'. fst (approve_proposal db p u role ses) = Inr p') \<longleftrightarrow>
     role \<in> {''admin'', ''engineer'', ''responder''} \<and> u \<noteq> ap_requested_by p \<and> ap_state p = Pending
     \<and> clock db 0 < instant (ap_expires_at p)"
  by (auto simp: approve_proposal_def is_expired_def utcnow_def approver_roles assert_transition_def Let_def)

text \<open>An approval attempt either signs the row (state, signer and signing time set, every other column
  and every other row as before, one \<open>approved\<close> event by the signer), or expires a lapsed pending or
  approved row with one \<open>expired\<close> event, or refuses and changes no row and writes no event.\<close>

theorem approve_proposal_effect:
  assumes "approve_proposal db p u role ses = (r, db')" and "get_row db (ap_id p) = Some p"
  shows "(\<exists>p' ev. r = Inr p' \<and> p' = p\<lparr>ap_state := Approved, ap_approved_by := Some u, ap_approved_at := ap_approved_at p'\<rparr>
      \<and> get_row db' (ap_id p) = Some p' \<and> (\<forall>i. i \<noteq> ap_id p \<longrightarrow> get_row db' i = get_row db i)
      \<and> audit_events db' = audit_events db @ [ev] \<and> ae_event_type ev = ''action.proposal.approved'' \<and> ae_user_id ev = Some u)
    \<or> (\<exists>e ev. r = Inl e \<and> ap_state p \<in> {Pending, Approved} \<and> get_row db' (ap_id p) = Some (p\<lparr>ap_state := Expired\<rparr>)
      \<and> (\<forall>i. i \<noteq> ap_id p \<longrightarrow> get_row db' i = get_row db i)
      \<and> audit_events db' = audit_events db @ [ev] \<and> ae_event_type ev = ''action.proposal.expired'')
    \<or> (\<exists>e. r = Inl e \<and> proposals db' = proposals db \<and> audit_events db' = audit_events db)"
proof (cases rule: approve_proposal_cases [of db p u role ses])
  case (refused e db1)
  with assms(1) show ?thesis by auto
next
  case (expired e db1)
  then have "get_row db' i = get_row (put_row (p\<lparr>ap_state := Expired\<rparr>) db) i" for i
    using assms(1) by (simp add: get_row_def put_row_def)
  with expired assms show ?thesis by (auto simp: rows.get_put)
next
  case (approved p' db1)
  then have "get_row db' i = get_row (put_row p' db) i" for i
    using assms(1) by (simp add: get_row_def put_row_def)
  with approved assms show ?thesis by (auto simp: rows.get_put)
qed

text \<open>Rejection is terminal and needs the same authority: it succeeds exactly on a pending row by an
  approving role, moves that row alone to rejected with one \<open>rejected\<close> event, and no later decision on
  the rejected row can sign, reject or expire it.\<close>

theorem reject_proposal_terminal:
  assumes "reject_proposal db p u role why ses = (Inr p', db')" and "get_row db (ap_id p) = Some p"
  shows "role_has_capability role ACTION_APPROVE \<and> ap_state p = Pending \<and> p' = p\<lparr>ap_state := Rejected\<rparr>
    \<and> get_row db' (ap_id p) = Some p' \<and> (\<forall>i. i \<noteq> ap_id p \<longrightarrow> get_row db' i = get_row db i)
    \<and> (\<exists>ev. audit_events db' = audit_events db @ [ev] \<and> ae_event_type ev = ''action.proposal.rejected'')
    \<and> (\<forall>v role2 why2 ses2. isl (fst (reject_proposal db' p' v role2 why2 ses2))
        \<and> isl (fst (approve_proposal db' p' v role2 ses2))
        \<and> proposals (snd (approve_proposal db' p' v role2 ses2)) = proposals db')"
proof (cases rule: reject_proposal_cases [of db p u role why ses])
  case (rejected db1)
  have stuck: "isl (fst (reject_proposal db' q v role2 why2 ses2)) \<and> isl (fst (approve_proposal db' q v role2 ses2))
      \<and> proposals (snd (approve_proposal db' q v role2 ses2)) = proposals db'"
    if "ap_state q = Rejected" for q v role2 why2 ses2
    using that by (cases rule: approve_proposal_cases [of db' q v role2 ses2]; cases rule: reject_proposal_cases [of db' q v role2 why2 ses2]) auto
  from rejected have "get_row db' i = get_row (put_row p' db) i" for i
    using assms(1) by (simp add: get_row_def put_row_def)
  with rejected assms stuck show ?thesis by (auto simp: rows.get_put)
qed (use assms in simp)

section \<open>Witnesses\<close>

definition pending_proposal :: action_proposal where
  "pending_proposal = sample_proposal\<lparr>ap_state := Pending, ap_approved_by := None, ap_approved_at := None, ap_executed_at := None\<rparr>"

definition pending_db :: database where
  "pending_db = empty_db\<lparr>proposals := [pending_proposal]\<rparr>"

lemma pending_db_simps [simp]:
  "ap_state pending_proposal = Pending" "ap_requested_by pending_proposal = 2" "ap_id pending_proposal = 7"
  "instant (ap_expires_at pending_proposal) = 900000000" "clock pending_db n = int n"
  "get_row pending_db 7 = Some pending_proposal" "audit_events pending_db = []"
  by (simp_all add: pending_proposal_def sample_proposal_def pending_db_def empty_db_def get_row_def)

theorem approve_proposal_effect_witness:
  "\<exists>p' db'. approve_proposal pending_db pending_proposal 3 ''engineer'' None = (Inr p', db')
     \<and> get_row db' 7 = Some p' \<and> ap_approved_by p' = Some 3"
proof -
  obtain p' db' where r: "approve_proposal pending_db pending_proposal 3 ''engineer'' None = (Inr p', db')"
    by (cases rule: approve_proposal_cases [of pending_db pending_proposal 3 "''engineer''" None])
      (auto simp: approve_proposal_def is_expired_def utcnow_def assert_transition_def Let_def)
  from approve_proposal_effect [OF r] have "get_row db' 7 = Some p' \<and>
     p' = pending_proposal\<lparr>ap_state := Approved, ap_approved_by := Some 3, ap_approved_at := ap_approved_at p'\<rparr>"
    by simp
  moreover from this have "ap_approved_by p' = Some 3"
    by (metis action_proposal.select_convs(16) action_proposal.surjective action_proposal.update_convs(15,16,17))
  ultimately show ?thesis using r by blast
qed

theorem reject_proposal_terminal_witness:
  "\<exists>p' db'. reject_proposal pending_db pending_proposal 2 ''admin'' ''no'' None = (Inr p', db')
     \<and> get_row db' 7 = Some p' \<and> isl (fst (approve_proposal db' p' 3 ''admin'' None))"
proof -
  obtain p' db' where r: "reject_proposal pending_db pending_proposal 2 ''admin'' ''no'' None = (Inr p', db')"
    by (cases rule: reject_proposal_cases [of pending_db pending_proposal 2 "''admin''" "''no''" None]) auto
  from reject_proposal_terminal [OF r] r show ?thesis by auto
qed

end
