(* ===== verification/Execution.thy ===== *)
theory Execution
  imports Approval
begin

text \<open>
  The execution engine (\<open>gateway/execution.py\<close>): content-hash integrity, freshness re-check, bounded
  write, verification read.  The three injected callables are arguments; \<open>'w\<close> is the world they talk
  to (the Wazuh API and what is behind it).  A callable may read the database, and the bounded write
  may assign the row's \<open>prior_state\<close>, which it returns beside its result.
\<close>

type_synonym ('d, 'w) freshness_check = "'d \<Rightarrow> action_proposal \<Rightarrow> 'w \<Rightarrow> (bool \<times> string) result \<times> 'w"
type_synonym ('d, 'w) perform_action = "'d \<Rightarrow> action_proposal \<Rightarrow> 'w \<Rightarrow> pyval result \<times> dict option \<times> 'w"
type_synonym 'w verify_action = "action_proposal \<Rightarrow> pyval \<Rightarrow> 'w \<Rightarrow> (bool \<times> dict) result \<times> 'w"

section \<open>Operations\<close>

definition execution_audit ::
  "'z database_scheme \<Rightarrow> action_proposal \<Rightarrow> string \<Rightarrow> uuid \<Rightarrow> string option \<Rightarrow> 'z database_scheme" where
  "execution_audit db p event_type user_id session_id =
    snd (write_event db event_type
      (Some [(''proposal_id'', PStr (uuid_str (ap_id p))), (''action_class'', PStr (ap_action_class p)),
        (''action'', PStr (ap_action p)), (''content_hash'', PStr (ap_content_hash p)),
        (''state'', PStr (state_value (ap_state p))),
        (''result'', case ap_result p of None \<Rightarrow> PNone | Some d \<Rightarrow> PDict d)])
      (Some (ap_organization_id p)) (Some user_id) session_id None None)"

definition execute_proposal ::
  "('z database_scheme, 'w) freshness_check \<Rightarrow> ('z database_scheme, 'w) perform_action \<Rightarrow> 'w verify_action
    \<Rightarrow> 'z database_scheme \<Rightarrow> action_proposal \<Rightarrow> uuid \<Rightarrow> string option \<Rightarrow> 'w
    \<Rightarrow> action_proposal result \<times> 'z database_scheme \<times> 'w" where
  "execute_proposal freshness perform verify db p executor_user_id session_id w =
    (if recompute_content_hash p \<noteq> ap_content_hash p
     then (Inl (Wolf ContentHashMismatchError
        ''Proposal content hash mismatch - refusing to execute a changed action.''), db, w)
     else case freshness db p w of
       (Inl e, w) \<Rightarrow> (Inl e, db, w)
     | (Inr (fresh, fresh_detail), w) \<Rightarrow>
       if \<not> fresh
       then (case assert_transition (ap_state p) Expired of
           Inl e \<Rightarrow> (Inl e, db, w)
         | Inr _ \<Rightarrow>
             (let p = p\<lparr>ap_state := Expired, ap_result := Some [(''freshness'', PStr fresh_detail)]\<rparr>;
                  db = execution_audit (put_row p db) p ''action.proposal.stale'' executor_user_id session_id
              in (Inl (Wolf ProposalStaleError
                   (''Freshness re-check failed: '' @ fresh_detail @ ''. Re-propose the action.'')), db, w)))
       else (case assert_transition (ap_state p) Executing of
           Inl e \<Rightarrow> (Inl e, db, w)
         | Inr _ \<Rightarrow>
             (let p = p\<lparr>ap_state := Executing\<rparr>;
                  db = execution_audit (put_row p db) p ''action.proposal.executing'' executor_user_id session_id;
                  (performed, prior, w) = perform db p w;
                  p = p\<lparr>ap_prior_state := prior\<rparr>;
                  db = put_row p db
              in case performed of
                 Inl exc \<Rightarrow>
                   (let (now, db) = utcnow db;
                        p = p\<lparr>ap_state := Failed, ap_executed_at := Some now,
                          ap_result := Some [(''error'', PStr (take 500 (exn_str exc)))]\<rparr>;
                        db = execution_audit (put_row p db) p ''action.proposal.failed'' executor_user_id session_id
                    in (Inr p, db, w))
               | Inr perform_result \<Rightarrow>
                   (case verify p perform_result w of
                      (Inl e, w) \<Rightarrow> (Inl e, db, w)
                    | (Inr (ok, verify_detail), w) \<Rightarrow>
                        (let target_state = (if ok then Succeeded else Failed) in
                         case assert_transition (ap_state p) target_state of
                           Inl e \<Rightarrow> (Inl e, db, w)
                         | Inr _ \<Rightarrow>
                             (let (now, db) = utcnow db;
                                  p = p\<lparr>ap_state := target_state, ap_executed_at := Some now,
                                    ap_result := Some verify_detail\<rparr>;
                                  db = execution_audit (put_row p db) p
                                    (''action.proposal.'' @ state_value target_state) executor_user_id session_id
                              in (Inr p, db, w)))))))"

section \<open>Laws\<close>

lemma execution_audit_frame [row_simps]:
  "proposals (execution_audit db p ty u ses) = proposals db"
  "get_row (execution_audit db p ty u ses) i = get_row db i"
  by (simp_all add: execution_audit_def row_simps)

lemma execution_audit_events [audit_simps]:
  "\<exists>e. audit_events (execution_audit db p ty u ses) = audit_events db @ [e] \<and> ae_event_type e = ty
     \<and> ae_organization_id e = Some (ap_organization_id p) \<and> ae_user_id e = Some u"
  by (simp add: execution_audit_def audit_simps)

text \<open>\<open>db'\<close> is \<open>db\<close> with the row of \<open>p\<close> replaced and events of the given types appended.\<close>

definition row_step :: "'z database_scheme \<Rightarrow> action_proposal \<Rightarrow> uuid \<Rightarrow> string list \<Rightarrow> 'z database_scheme \<Rightarrow> bool" where
  "row_step db p u tys db' \<longleftrightarrow> proposals db' = replace_by ap_id p (proposals db)
     \<and> (\<exists>es. audit_events db' = audit_events db @ es \<and> map ae_event_type es = tys
          \<and> list_all (\<lambda>e. ae_organization_id e = Some (ap_organization_id p) \<and> ae_user_id e = Some u) es)"

lemma row_step_audit: "row_step db p u [ty] (execution_audit (put_row p db) p ty u ses)"
proof -
  obtain e where "audit_events (execution_audit (put_row p db) p ty u ses) = audit_events db @ [e]"
      "ae_event_type e = ty" "ae_organization_id e = Some (ap_organization_id p)" "ae_user_id e = Some u"
    using execution_audit_events [of "put_row p db" p ty u ses] by (auto simp: row_simps)
  then show ?thesis by (auto simp: row_step_def row_simps put_row_def)
qed

lemma row_step_trans:
  assumes "row_step db p u tys db1" "row_step db1 q u tys' db2" "ap_id q = ap_id p"
    "ap_organization_id q = ap_organization_id p"
  shows "row_step db q u (tys @ tys') db2"
proof -
  obtain es es' where "audit_events db1 = audit_events db @ es" "map ae_event_type es = tys"
      "list_all (\<lambda>e. ae_organization_id e = Some (ap_organization_id p) \<and> ae_user_id e = Some u) es"
      "audit_events db2 = audit_events db1 @ es'" "map ae_event_type es' = tys'"
      "list_all (\<lambda>e. ae_organization_id e = Some (ap_organization_id p) \<and> ae_user_id e = Some u) es'"
    using assms by (auto simp: row_step_def)
  moreover have "proposals db2 = replace_by ap_id q (proposals db)"
    using assms by (simp add: row_step_def)
  ultimately show ?thesis using assms(4) by (auto simp: row_step_def intro!: exI [of _ "es @ es'"])
qed

lemma row_step_put: "row_step db p u [] (put_row p db)"
  by (simp add: row_step_def row_simps put_row_def)

lemma row_step_utcnow [simp]: "row_step (snd (utcnow db)) p u tys db' = row_step db p u tys db'"
  by (simp add: row_step_def row_simps)

lemma row_step_get_row:
  assumes "row_step db p u tys db'"
  shows "get_row db' i = get_row (put_row p db) i"
  using assms by (simp add: row_step_def get_row_def put_row_def)

text \<open>The state in which the bounded write is called, and the row and database after it.\<close>

abbreviation executing_db :: "'z database_scheme \<Rightarrow> action_proposal \<Rightarrow> uuid \<Rightarrow> string option \<Rightarrow> 'z database_scheme" where
  "executing_db db p u ses \<equiv> execution_audit (put_row (p\<lparr>ap_state := Executing\<rparr>) db) (p\<lparr>ap_state := Executing\<rparr>)
     ''action.proposal.executing'' u ses"

definition cleared :: "('z database_scheme, 'w) freshness_check \<Rightarrow> 'z database_scheme \<Rightarrow> action_proposal \<Rightarrow> 'w \<Rightarrow> bool" where
  "cleared freshness db p w \<longleftrightarrow> recompute_content_hash p = ap_content_hash p
     \<and> (\<exists>detail. fst (freshness db p w) = Inr (True, detail)) \<and> ap_state p = Approved"

lemma finish_row_step:
  assumes "ap_id q = ap_id p" "ap_organization_id q = ap_organization_id p"
    "ap_id p1 = ap_id p" "ap_organization_id p1 = ap_organization_id p"
  shows "row_step db q u [''action.proposal.executing'', ty]
    (execution_audit (put_row q (snd (utcnow (put_row p1 (executing_db db p u ses))))) q ty u ses)"
proof -
  have "row_step db p1 u ([''action.proposal.executing''] @ []) (put_row p1 (executing_db db p u ses))"
    by (rule row_step_trans [OF row_step_audit row_step_put]) (use assms in simp_all)
  moreover have "row_step (put_row p1 (executing_db db p u ses)) q u [ty]
      (execution_audit (put_row q (snd (utcnow (put_row p1 (executing_db db p u ses))))) q ty u ses)"
    using row_step_audit [of "snd (utcnow (put_row p1 (executing_db db p u ses)))" q u ty ses] by simp
  ultimately show ?thesis
    using row_step_trans [of db p1 u "[''action.proposal.executing'']"
      "put_row p1 (executing_db db p u ses)" q "[ty]"] assms by simp
qed

lemma execute_uncleared:
  assumes "\<not> cleared freshness db p w"
  obtains (refused) e w' where "execute_proposal freshness perform verify db p u ses w = (Inl e, db, w')"
      "\<And>perform' verify'. execute_proposal freshness perform' verify' db p u ses w = (Inl e, db, w')"
  | (stale) d w' db' where
      "\<And>perform' verify'. execute_proposal freshness perform' verify' db p u ses w =
         (Inl (Wolf ProposalStaleError (''Freshness re-check failed: '' @ d @ ''. Re-propose the action.'')), db', w')"
      "freshness db p w = (Inr (False, d), w')" "ap_state p \<in> {Pending, Approved}"
      "recompute_content_hash p = ap_content_hash p"
      "row_step db (p\<lparr>ap_state := Expired, ap_result := Some [(''freshness'', PStr d)]\<rparr>) u [''action.proposal.stale''] db'"
proof (cases "recompute_content_hash p = ap_content_hash p")
  case False
  then show thesis by (intro refused) (simp_all add: execute_proposal_def)
next
  case hash: True
  obtain fr w' where fr: "freshness db p w = (fr, w')" by (cases "freshness db p w")
  show thesis
  proof (cases fr)
    case (Inl e)
    with hash fr show thesis by (intro refused) (simp_all add: execute_proposal_def)
  next
    case (Inr q)
    obtain fresh d where q: "q = (fresh, d)" by (cases q)
    show thesis
    proof (cases "\<not> fresh \<and> can_transition (ap_state p) Expired")
      case True
      with hash fr Inr q show thesis
        by (intro stale [of d _ w']) (auto simp: execute_proposal_def Let_def assert_transition_def intro: row_step_audit)
    next
      case False
      with hash fr Inr q assms have "\<exists>e. \<forall>perform' verify'.
          execute_proposal freshness perform' verify' db p u ses w = (Inl e, db, w')"
        by (auto simp: execute_proposal_def assert_transition_def cleared_def)
      then show thesis using refused by blast
    qed
  qed
qed

lemma execute_cleared:
  assumes "cleared freshness db p w" and fr: "freshness db p w = (fr, w1)"
    and pf: "perform (executing_db db p u ses) (p\<lparr>ap_state := Executing\<rparr>) w1 = (performed, prior, w2)"
  shows "(\<exists>exc now p' db'. performed = Inl exc \<and> execute_proposal freshness perform verify db p u ses w = (Inr p', db', w2)
      \<and> p' = p\<lparr>ap_prior_state := prior, ap_state := Failed, ap_executed_at := Some now,
           ap_result := Some [(''error'', PStr (take 500 (exn_str exc)))]\<rparr>
      \<and> row_step db p' u [''action.proposal.executing'', ''action.proposal.failed''] db')
    \<or> (\<exists>res e w3 db'. performed = Inr res \<and> verify (p\<lparr>ap_state := Executing, ap_prior_state := prior\<rparr>) res w2 = (Inl e, w3)
      \<and> execute_proposal freshness perform verify db p u ses w = (Inl e, db', w3)
      \<and> row_step db (p\<lparr>ap_state := Executing, ap_prior_state := prior\<rparr>) u [''action.proposal.executing''] db')
    \<or> (\<exists>res ok d now w3 p' db'. performed = Inr res
      \<and> verify (p\<lparr>ap_state := Executing, ap_prior_state := prior\<rparr>) res w2 = (Inr (ok, d), w3)
      \<and> execute_proposal freshness perform verify db p u ses w = (Inr p', db', w3)
      \<and> p' = p\<lparr>ap_prior_state := prior, ap_state := (if ok then Succeeded else Failed), ap_executed_at := Some now,
           ap_result := Some d\<rparr>
      \<and> row_step db p' u [''action.proposal.executing'', ''action.proposal.'' @ state_value (ap_state p')] db')"
proof -
  let ?p1 = "p\<lparr>ap_state := Executing, ap_prior_state := prior\<rparr>"
  let ?db1 = "put_row ?p1 (executing_db db p u ses)"
  obtain now db2 where now: "utcnow ?db1 = (now, db2)" by (cases "utcnow ?db1")
  then have db2: "db2 = snd (utcnow ?db1)" by simp
  from assms(1) fr obtain fd where fr': "freshness db p w = (Inr (True, fd), w1)" and st: "ap_state p = Approved"
    and hash: "recompute_content_hash p = ap_content_hash p" by (auto simp: cleared_def)
  note unf = execute_proposal_def hash fr' st pf now assert_transition_def
  show ?thesis
  proof (cases performed)
    case (Inl exc)
    let ?q = "?p1\<lparr>ap_state := Failed, ap_executed_at := Some now, ap_result := Some [(''error'', PStr (take 500 (exn_str exc)))]\<rparr>"
    have "execute_proposal freshness perform verify db p u ses w =
        (Inr ?q, execution_audit (put_row ?q db2) ?q ''action.proposal.failed'' u ses, w2)"
      using Inl by (simp add: unf Let_def)
    moreover have "row_step db ?q u [''action.proposal.executing'', ''action.proposal.failed'']
        (execution_audit (put_row ?q db2) ?q ''action.proposal.failed'' u ses)"
      unfolding db2 by (rule finish_row_step) simp_all
    ultimately show ?thesis using Inl by (intro disjI1) auto
  next
    case (Inr res)
    obtain v w3 where v: "verify ?p1 res w2 = (v, w3)" by (cases "verify ?p1 res w2")
    show ?thesis
    proof (cases v)
      case (Inl e)
      have "execute_proposal freshness perform verify db p u ses w = (Inl e, ?db1, w3)"
        using Inl Inr v by (simp add: unf Let_def)
      moreover have "row_step db ?p1 u ([''action.proposal.executing''] @ []) ?db1"
        by (rule row_step_trans [OF row_step_audit row_step_put]) simp_all
      ultimately show ?thesis using Inl Inr v by (intro disjI2 disjI1) auto
    next
      case vr: (Inr okd)
      obtain ok d where okd: "okd = (ok, d)" by (cases okd)
      let ?t = "if ok then Succeeded else Failed"
      let ?q = "?p1\<lparr>ap_state := ?t, ap_executed_at := Some now, ap_result := Some d\<rparr>"
      let ?ty = "''action.proposal.'' @ state_value ?t"
      have "execute_proposal freshness perform verify db p u ses w =
          (Inr ?q, execution_audit (put_row ?q db2) ?q ?ty u ses, w3)"
        using Inr v vr okd by (simp add: unf Let_def)
      moreover have "row_step db ?q u [''action.proposal.executing'', ?ty] (execution_audit (put_row ?q db2) ?q ?ty u ses)"
        unfolding db2 by (rule finish_row_step) simp_all
      ultimately show ?thesis using Inr v vr okd by (intro disjI2) auto
    qed
  qed
qed

lemma execute_Inr:
  assumes "execute_proposal freshness perform verify db p u ses w = (Inr p', db', w')"
  shows "cleared freshness db p w \<and> ap_state p' \<in> {Succeeded, Failed} \<and> ap_executed_at p' \<noteq> None \<and> ap_result p' \<noteq> None
    \<and> p' = p\<lparr>ap_prior_state := ap_prior_state p', ap_state := ap_state p', ap_executed_at := ap_executed_at p', ap_result := ap_result p'\<rparr>
    \<and> row_step db p' u [''action.proposal.executing'', ''action.proposal.'' @ state_value (ap_state p')] db'"
proof -
  have cl: "cleared freshness db p w"
  proof (rule ccontr)
    assume "\<not> cleared freshness db p w"
    then show False
      by (cases rule: execute_uncleared [where perform = perform and verify = verify and u = u and ses = ses])
        (use assms in simp_all)
  qed
  obtain fr w1 where fr: "freshness db p w = (fr, w1)" by (cases "freshness db p w")
  obtain pfd prior w2 where pf: "perform (executing_db db p u ses) (p\<lparr>ap_state := Executing\<rparr>) w1 = (pfd, prior, w2)"
    by (cases "perform (executing_db db p u ses) (p\<lparr>ap_state := Executing\<rparr>) w1")
  from execute_cleared [where verify = verify and perform = perform and freshness = freshness, OF cl fr pf]
  show ?thesis
  proof (elim disjE exE conjE, goal_cases)
    case (1 exc now q dbq)
    with assms have "p' = q" "db' = dbq" by simp_all
    with 1 cl show ?case by simp
  next
    case (2 res e w3 dbq)
    with assms show ?case by simp
  next
    case (3 res ok d now w3 q dbq)
    with assms have "p' = q" "db' = dbq" by simp_all
    with 3 cl show ?case by simp
  qed
qed

lemma execute_Inr_frame:
  assumes "execute_proposal freshness perform verify db p u ses w = (Inr p', db', w')"
  shows "ap_id p' = ap_id p" "ap_organization_id p' = ap_organization_id p" "ap_action_class p' = ap_action_class p"
    "ap_parameters p' = ap_parameters p" "ap_requested_by p' = ap_requested_by p" "ap_approved_by p' = ap_approved_by p"
    "ap_reverses_proposal_id p' = ap_reverses_proposal_id p" "ap_content_hash p' = ap_content_hash p"
    "ap_auto_unblock_at p' = ap_auto_unblock_at p" "ap_reversal_proposal_id p' = ap_reversal_proposal_id p"
proof -
  obtain a b c d where p': "p' = p\<lparr>ap_prior_state := a, ap_state := b, ap_executed_at := c, ap_result := d\<rparr>"
    using execute_Inr [OF assms] by blast
  then show "ap_id p' = ap_id p" "ap_organization_id p' = ap_organization_id p" "ap_action_class p' = ap_action_class p"
    "ap_parameters p' = ap_parameters p" "ap_requested_by p' = ap_requested_by p" "ap_approved_by p' = ap_approved_by p"
    "ap_reverses_proposal_id p' = ap_reverses_proposal_id p" "ap_content_hash p' = ap_content_hash p"
    "ap_auto_unblock_at p' = ap_auto_unblock_at p" "ap_reversal_proposal_id p' = ap_reversal_proposal_id p" by simp_all
qed

lemma execute_uuid_source:
  assumes "execute_proposal freshness perform verify db p u ses w = (Inr p', db', w')"
  shows "uuid_source db' = (\<lambda>n. uuid_source db (n + 2))"
  using assms
  by (auto simp: execute_proposal_def execution_audit_def audit_simps row_simps utcnow_def Let_def
      split: if_splits prod.splits sum.splits)

section \<open>Properties\<close>

text \<open>C5: No write without clearance.  Unless the row is approved, its stored hash is the hash of its
  columns and the freshness re-check answered yes, the engine raises, and the bounded write and the
  verification read have no influence on what happens: the outcome, the database and the world are the
  same whatever they would have done, and the world is as the freshness read left it.\<close>

theorem execute_requires_clearance:
  assumes "\<not> cleared freshness db p w"
  shows "execute_proposal freshness perform verify db p u ses w = execute_proposal freshness perform' verify' db p u ses w
    \<and> isl (fst (execute_proposal freshness perform verify db p u ses w))
    \<and> snd (snd (execute_proposal freshness perform verify db p u ses w)) \<in> {w, snd (freshness db p w)}"
  using assms
proof (cases rule: execute_uncleared [where perform = perform and verify = verify and u = u and ses = ses])
  case (refused e w')
  have "w' \<in> {w, snd (freshness db p w)}"
    using refused(1) assms by (auto simp: execute_proposal_def cleared_def assert_transition_def Let_def split: if_splits prod.splits sum.splits)
  with refused show ?thesis by simp
next
  case (stale d w' db')
  then show ?thesis by simp
qed

text \<open>A returned execution is a complete one: the row was cleared, it ends succeeded or failed with an
  execution time and a result, only its state, execution time, result and snapshot columns changed, no
  other row changed, and exactly two events were appended, \<open>executing\<close> and the outcome's, both by the
  executor for the row's organization.\<close>

theorem execute_proposal_outcome:
  assumes "execute_proposal freshness perform verify db p u ses w = (Inr p', db', w')"
    and "get_row db (ap_id p) = Some p"
  shows "cleared freshness db p w \<and> ap_state p' \<in> {Succeeded, Failed} \<and> ap_executed_at p' \<noteq> None \<and> ap_result p' \<noteq> None
    \<and> p' = p\<lparr>ap_prior_state := ap_prior_state p', ap_state := ap_state p', ap_executed_at := ap_executed_at p', ap_result := ap_result p'\<rparr>
    \<and> get_row db' (ap_id p) = Some p' \<and> (\<forall>i. i \<noteq> ap_id p \<longrightarrow> get_row db' i = get_row db i)
    \<and> (\<exists>e1 e2. audit_events db' = audit_events db @ [e1, e2] \<and> ae_event_type e1 = ''action.proposal.executing''
        \<and> ae_event_type e2 = ''action.proposal.'' @ state_value (ap_state p')
        \<and> ae_user_id e1 = Some u \<and> ae_user_id e2 = Some u)"
proof -
  note x = execute_Inr [OF assms(1)]
  then have step: "row_step db p' u [''action.proposal.executing'', ''action.proposal.'' @ state_value (ap_state p')] db'" by blast
  have "ap_id p' = ap_id p" by (rule execute_Inr_frame [OF assms(1)])
  then have "get_row db' (ap_id p) = Some p' \<and> (\<forall>i. i \<noteq> ap_id p \<longrightarrow> get_row db' i = get_row db i)"
    using row_step_get_row [OF step] assms(2) by (simp add: rows.get_put)
  moreover have "\<exists>e1 e2. audit_events db' = audit_events db @ [e1, e2] \<and> ae_event_type e1 = ''action.proposal.executing''
        \<and> ae_event_type e2 = ''action.proposal.'' @ state_value (ap_state p') \<and> ae_user_id e1 = Some u \<and> ae_user_id e2 = Some u"
    using step by (auto simp: row_step_def map_eq_Cons_conv)
  ultimately show ?thesis using x by blast
qed

text \<open>C6: What runs is what was approved: take a row \<open>p\<close> as it was created (its stored hash is the hash of its
  columns) and the row \<open>q\<close> that is executed later with that stored hash still on it.  If the engine gets
  past the integrity check, the two rows have the same substance, unless their canonical texts are a
  SHA-256 collision.\<close>

theorem executed_is_what_was_approved:
  assumes "ap_content_hash p = recompute_content_hash p" and "ap_content_hash q = ap_content_hash p"
    and "execute_proposal freshness perform verify db q u ses w = (Inr q', db', w')"
    and "\<not> (content_text p \<noteq> content_text q \<and> sha256_hex (content_text p) = sha256_hex (content_text q))"
  shows "same_substance p q"
proof -
  from execute_Inr [OF assms(3)] have "recompute_content_hash q = ap_content_hash q" by (simp add: cleared_def)
  with assms show ?thesis using content_text_inject by (auto simp: recompute_content_hash_eq)
qed

text \<open>A failing bounded write is recorded, never retried: when the write raises, the engine returns
  normally with the row failed, the error text cut to 500 characters as its result, and the world as
  the write left it; the verification read is not made.\<close>

theorem execute_records_write_failure:
  assumes "cleared freshness db p w" and "freshness db p w = (fr, w1)"
    and "perform (executing_db db p u ses) (p\<lparr>ap_state := Executing\<rparr>) w1 = (Inl exc, prior, w2)"
  shows "\<exists>p' db'. execute_proposal freshness perform verify db p u ses w = (Inr p', db', w2)
    \<and> ap_state p' = Failed \<and> ap_result p' = Some [(''error'', PStr (take 500 (exn_str exc)))] \<and> ap_prior_state p' = prior"
proof -
  from execute_cleared [where verify = verify and perform = perform and freshness = freshness, OF assms]
  obtain now p' db' where "execute_proposal freshness perform verify db p u ses w = (Inr p', db', w2)"
    and "p' = p\<lparr>ap_prior_state := prior, ap_state := Failed, ap_executed_at := Some now,
           ap_result := Some [(''error'', PStr (take 500 (exn_str exc)))]\<rparr>" by auto
  then show ?thesis by simp
qed

section \<open>Witnesses\<close>

definition approved_proposal :: action_proposal where
  "approved_proposal = sample_proposal\<lparr>ap_state := Approved, ap_executed_at := None,
     ap_content_hash := recompute_content_hash sample_proposal\<rparr>"

definition approved_db :: database where
  "approved_db = empty_db\<lparr>proposals := [approved_proposal]\<rparr>"

definition always_fresh :: "(database, unit) freshness_check" where
  "always_fresh db p w = (Inr (True, ''present''), w)"

lemma approved_simps [simp]:
  "ap_state approved_proposal = Approved" "ap_id approved_proposal = 7"
  "recompute_content_hash approved_proposal = ap_content_hash approved_proposal"
  "get_row approved_db 7 = Some approved_proposal" "cleared always_fresh approved_db approved_proposal w"
  by (simp_all add: approved_proposal_def sample_proposal_def approved_db_def get_row_def
      recompute_content_hash_def always_fresh_def cleared_def)

lemma sample_execution:
  "\<exists>p' db'. execute_proposal always_fresh (\<lambda>_ _ w. (Inr PNone, None, w)) (\<lambda>_ _ w. (Inr (True, []), w))
     approved_db approved_proposal 3 None () = (Inr p', db', ())"
  by (simp add: execute_proposal_def always_fresh_def assert_transition_def Let_def split_beta)

theorem execute_requires_clearance_witness:
  "execute_proposal always_fresh (\<lambda>_ _ w. (Inr PNone, None, w)) (\<lambda>_ _ w. (Inr (True, []), w)) pending_db pending_proposal 3 None ()
   = execute_proposal always_fresh (\<lambda>_ _ w. (Inl (PyError [] []), None, w)) (\<lambda>_ _ w. (Inr (False, []), w)) pending_db pending_proposal 3 None ()"
proof -
  have "\<not> cleared always_fresh pending_db pending_proposal ()" by (simp add: cleared_def)
  from execute_requires_clearance [OF this] show ?thesis by blast
qed

theorem execute_proposal_outcome_witness:
  "\<exists>p' db'. execute_proposal always_fresh (\<lambda>_ _ w. (Inr PNone, None, w)) (\<lambda>_ _ w. (Inr (True, []), w))
     approved_db approved_proposal 3 None () = (Inr p', db', ()) \<and> get_row db' 7 = Some p' \<and> ap_result p' \<noteq> None"
proof -
  obtain p' db' where r: "execute_proposal always_fresh (\<lambda>_ _ w. (Inr PNone, None, w)) (\<lambda>_ _ w. (Inr (True, []), w))
     approved_db approved_proposal 3 None () = (Inr p', db', ())" using sample_execution by blast
  have "get_row approved_db (ap_id approved_proposal) = Some approved_proposal" by simp
  from execute_proposal_outcome [OF r this] r show ?thesis by simp
qed

theorem executed_is_what_was_approved_witness:
  "same_substance approved_proposal (approved_proposal\<lparr>ap_rationale := ''edited later''\<rparr>)"
proof -
  let ?q = "approved_proposal\<lparr>ap_rationale := ''edited later''\<rparr>"
  have h: "recompute_content_hash ?q = ap_content_hash approved_proposal"
    by (simp add: recompute_content_hash_def approved_proposal_def sample_proposal_def)
  have t: "content_text ?q = content_text approved_proposal" by (simp add: content_text_def)
  obtain q' db' where r: "execute_proposal always_fresh (\<lambda>_ _ w. (Inr PNone, None, w)) (\<lambda>_ _ w. (Inr (True, []), w))
     approved_db ?q 3 None () = (Inr q', db', ())"
    using h by (simp add: execute_proposal_def always_fresh_def assert_transition_def Let_def split_beta)
  show ?thesis by (rule executed_is_what_was_approved [OF _ _ r]) (simp_all add: t)
qed

theorem execute_records_write_failure_witness:
  "\<exists>p' db'. execute_proposal always_fresh (\<lambda>_ _ w. (Inl (PyError ''TimeoutError'' ''timed out''), None, w))
     (\<lambda>_ _ w. (Inr (True, []), w)) approved_db approved_proposal 3 None () = (Inr p', db', ())
   \<and> ap_state p' = Failed \<and> ap_result p' = Some [(''error'', PStr ''timed out'')]"
  using execute_records_write_failure [where freshness = always_fresh and db = approved_db and p = approved_proposal
      and w = "()" and fr = "Inr (True, ''present'')" and u = 3 and ses = None
      and ?w1.0 = "()" and ?w2.0 = "()" and exc = "PyError ''TimeoutError'' ''timed out''" and prior = None
      and perform = "\<lambda>_ _ w. (Inl (PyError ''TimeoutError'' ''timed out''), None, w)"
      and verify = "\<lambda>_ _ w. (Inr (True, []), w)"]
  by (auto simp: always_fresh_def)

end
