(* ===== verification/Reversal.thy ===== *)
theory Reversal
  imports Execution
begin

text \<open>
  Reversal execution (\<open>gateway/reversal.py\<close>): the record-only callables of an active-response reversal,
  and the completion step that flips the original of an API-executable reversal to \<open>rolled_back\<close>.
\<close>

section \<open>Operations\<close>

definition REVERSAL_STATE_PENDING :: string where "REVERSAL_STATE_PENDING = ''authorized_pending_wolf_pack''"
definition REVERSAL_STATE_COMPLETED :: string where "REVERSAL_STATE_COMPLETED = ''completed''"

definition WOLF_PACK_NOTE :: string where
  "WOLF_PACK_NOTE = ''Reversal authorised and recorded. The physical removal runs on the host via wolf-pack (Phase 12); the Wazuh Server API cannot dispatch an active-response 'delete'. The block stays in effect until wolf-pack confirms removal.''"

definition is_reversal :: "action_proposal \<Rightarrow> bool" where
  "is_reversal p \<longleftrightarrow> ap_reverses_proposal_id p \<noteq> None"

definition reversal_perform :: "('d, 'w) perform_action" where
  "reversal_perform db p w =
    (let cmd = get_ar_command (ap_action p)
     in (Inr (PDict [(''deferred_to'', PStr ''wolf-pack''),
          (''reverses_via'', PStr (case cmd of Some c \<Rightarrow> ar_reverses_via c | None \<Rightarrow> [])),
          (''note'', PStr WOLF_PACK_NOTE)]), ap_prior_state p, w))"

definition reversal_verify :: "'w verify_action" where
  "reversal_verify p perform_result w = (case as_dict perform_result of
      None \<Rightarrow> (Inl (PyError ''TypeError'' ''object is not a mapping''), w)
    | Some d \<Rightarrow>
       (let detail = dset ''reversal_state'' (PStr REVERSAL_STATE_PENDING) (dset ''dispatched'' (PBool False) d)
        in (Inr (True, detail), w)))"

definition reversal_freshness :: "('z database_scheme, 'w) freshness_check" where
  "reversal_freshness db p w =
    (case ap_reverses_proposal_id p of
       None \<Rightarrow> (Inr (True, ''No linked block (defensive).''), w)
     | Some block_id \<Rightarrow>
        (case get_row db block_id of
           None \<Rightarrow> (Inr (False, ''The original block record is no longer present.''), w)
         | Some block \<Rightarrow>
             if ap_state block = RolledBack then (Inr (False, ''The block has already been reversed.''), w)
             else (Inr (True, ''Block '' @ uuid_str block_id @ '' still on record (state='' @ state_value (ap_state block) @ '').''), w)))"

definition complete_api_reversal ::
  "'z database_scheme \<Rightarrow> action_proposal \<Rightarrow> uuid \<Rightarrow> string option \<Rightarrow> bool result \<times> 'z database_scheme" where
  "complete_api_reversal db reversal executor_user_id session_id =
    (let result = (case ap_result reversal of Some d \<Rightarrow> d | None \<Rightarrow> [])
     in if ap_state reversal \<noteq> Succeeded \<or> dget result ''reversal_state'' \<noteq> PStr REVERSAL_STATE_COMPLETED
        then (Inr False, db)
        else case ap_reverses_proposal_id reversal of
          None \<Rightarrow> (Inr False, db)
        | Some block_id \<Rightarrow>
           (case get_row db block_id of
              None \<Rightarrow> (Inr False, db)
            | Some original \<Rightarrow>
                if ap_state original \<noteq> Succeeded then (Inr False, db)
                else case assert_transition (ap_state original) RolledBack of
                   Inl e \<Rightarrow> (Inl e, db)
                 | Inr _ \<Rightarrow>
                    (let original = original\<lparr>ap_state := RolledBack\<rparr>;
                         db = snd (write_event (put_row original db) ''action.proposal.rolled_back''
                           (Some [(''proposal_id'', PStr (uuid_str (ap_id original))),
                             (''reversed_by'', PStr (uuid_str (ap_id reversal))),
                             (''action_class'', PStr (ap_action_class original)),
                             (''action'', PStr (ap_action original)),
                             (''content_hash'', PStr (ap_content_hash original))])
                           (Some (ap_organization_id original)) (Some executor_user_id) session_id None None)
                     in (Inr True, db))))"

section \<open>Laws\<close>

lemma complete_api_reversal_cases:
  obtains (noop) "complete_api_reversal db r u ses = (Inr False, db)"
  | (flip) original db' where "complete_api_reversal db r u ses = (Inr True, db')"
      "ap_state r = Succeeded" "ap_reverses_proposal_id r = Some (ap_id original)"
      "\<exists>d. ap_result r = Some d \<and> dget d ''reversal_state'' = PStr REVERSAL_STATE_COMPLETED"
      "get_row db (ap_id original) = Some original" "ap_state original = Succeeded"
      "row_step db (original\<lparr>ap_state := RolledBack\<rparr>) u [''action.proposal.rolled_back''] db'"
proof (cases "complete_api_reversal db r u ses = (Inr False, db)")
  case False
  then obtain d b original where o: "ap_state r = Succeeded" "ap_result r = Some d"
      "dget d ''reversal_state'' = PStr REVERSAL_STATE_COMPLETED" "ap_reverses_proposal_id r = Some b"
      "get_row db b = Some original" "ap_state original = Succeeded"
    by (auto simp: complete_api_reversal_def Let_def split: option.splits if_splits)
  moreover have "ap_id original = b" using o(5) by (rule rows.get_key)
  moreover from o have "\<exists>db'. complete_api_reversal db r u ses = (Inr True, db') \<and>
      row_step db (original\<lparr>ap_state := RolledBack\<rparr>) u [''action.proposal.rolled_back''] db'"
    by (simp add: complete_api_reversal_def assert_transition_def Let_def row_step_def audit_simps row_simps put_row_def)
  ultimately show thesis using flip by blast
qed (rule noop)

lemma reversal_verify_pending:
  "reversal_verify p res w = (Inr (ok, d), w') \<Longrightarrow> dget d ''reversal_state'' \<noteq> PStr REVERSAL_STATE_COMPLETED"
  by (auto simp: reversal_verify_def REVERSAL_STATE_PENDING_def REVERSAL_STATE_COMPLETED_def split: option.splits)

section \<open>Properties\<close>

text \<open>What completing needs: the reversal succeeded with the completed marker and its original is still succeeded.\<close>

definition completable :: "'z database_scheme \<Rightarrow> action_proposal \<Rightarrow> action_proposal \<Rightarrow> bool" where
  "completable db r original \<longleftrightarrow> ap_state r = Succeeded
     \<and> dget (case ap_result r of Some d \<Rightarrow> d | None \<Rightarrow> []) ''reversal_state'' = PStr REVERSAL_STATE_COMPLETED
     \<and> ap_reverses_proposal_id r = Some (ap_id original) \<and> get_row db (ap_id original) = Some original
     \<and> ap_state original = Succeeded"

lemma row_step_get_row_fun:
  "row_step db q u tys db' \<Longrightarrow> get_row db (ap_id q) \<noteq> None \<Longrightarrow> get_row db' = (get_row db)(ap_id q \<mapsto> q)"
  by (rule ext) (auto simp: row_step_get_row rows.get_put)

lemma complete_noop_iff:
  "complete_api_reversal db r u ses = (Inr False, db) \<longleftrightarrow> \<not> (\<exists>original. completable db r original)"
proof (cases rule: complete_api_reversal_cases [of db r u ses])
  case noop
  then show ?thesis
    by (auto simp: complete_api_reversal_def completable_def assert_transition_def Let_def split: option.splits if_splits)
next
  case (flip original db')
  then show ?thesis by (auto simp: completable_def)
qed

text \<open>Completing a reversal never raises.  It flips the original from succeeded to rolled_back exactly when
  the reversal itself succeeded with the completed marker and the linked original is still succeeded;
  then that row alone changes and one \<open>rolled_back\<close> event is appended.  In every other case the
  database is untouched, and completing the same reversal again is a no-op.\<close>

theorem complete_api_reversal_flips_once:
  "\<exists>flipped db'. complete_api_reversal db r u ses = (Inr flipped, db')
     \<and> flipped = (\<exists>original. completable db r original)
     \<and> (if flipped then \<exists>original e. completable db r original
           \<and> get_row db' = (get_row db)(ap_id original \<mapsto> original\<lparr>ap_state := RolledBack\<rparr>)
           \<and> audit_events db' = audit_events db @ [e] \<and> ae_event_type e = ''action.proposal.rolled_back''
         else db' = db)
     \<and> complete_api_reversal db' r u2 ses2 = (Inr False, db')"
proof (cases rule: complete_api_reversal_cases [of db r u ses])
  case noop
  then have n: "\<not> (\<exists>original. completable db r original)" by (simp add: complete_noop_iff)
  then have "complete_api_reversal db r u2 ses2 = (Inr False, db)" by (simp add: complete_noop_iff)
  with noop n show ?thesis by auto
next
  case (flip original db')
  then have c: "completable db r original" by (auto simp: completable_def)
  have g: "get_row db' = (get_row db)(ap_id original \<mapsto> original\<lparr>ap_state := RolledBack\<rparr>)"
    using row_step_get_row_fun [OF flip(7)] flip(5) by simp
  then have "\<not> completable db' r q" for q using flip(3) by (auto simp: completable_def)
  then have "complete_api_reversal db' r u2 ses2 = (Inr False, db')" by (simp add: complete_noop_iff)
  moreover obtain e where "audit_events db' = audit_events db @ [e]" "ae_event_type e = ''action.proposal.rolled_back''"
    using flip(7) by (auto simp: row_step_def map_eq_Cons_conv)
  ultimately show ?thesis using flip(1) c g by auto
qed

end
