(* ===== verification/Capabilities.thy ===== *)
theory Capabilities
  imports Active_Response
begin

text \<open>
  The credential's effective RBAC policies (\<open>wazuh/capabilities.py\<close>): wildcard matching, the deny-wins
  fail-closed decision for a resource and for an agent with its groups, what may be offered, and the
  parser of the policies payload.  The readers that call the Server API are in \<open>Server_Api\<close>.
\<close>

section \<open>Policies\<close>

type_synonym capabilities = "(string \<times> (string \<times> string) list) list"

definition ACTION_ACTIVE_RESPONSE :: string where "ACTION_ACTIVE_RESPONSE = ''active-response:command''"
definition ACTION_MODIFY_GROUP :: string where "ACTION_MODIFY_GROUP = ''agent:modify_group''"
definition ACTION_UPDATE_RULES :: string where "ACTION_UPDATE_RULES = ''rules:update''"
definition ACTION_CLUSTER_RESTART :: string where "ACTION_CLUSTER_RESTART = ''cluster:restart''"
definition ACTION_UPDATE_MANAGER_CONFIG :: string where "ACTION_UPDATE_MANAGER_CONFIG = ''manager:update_config''"
definition ACTION_UPDATE_CLUSTER_CONFIG :: string where "ACTION_UPDATE_CLUSTER_CONFIG = ''cluster:update_config''"
definition RESOURCE_LOCAL_RULES :: string where "RESOURCE_LOCAL_RULES = ''rule:file:local_rules.xml''"
definition RESOURCE_NODE_ANY :: string where "RESOURCE_NODE_ANY = ''node:id:*''"
definition RESOURCE_ANY :: string where "RESOURCE_ANY = ''*:*:*''"

definition WOLF_ACTION_CLASS_RBAC :: "(string \<times> string list) list" where
  "WOLF_ACTION_CLASS_RBAC = [(''active_response'', [ACTION_ACTIVE_RESPONSE]), (''agent_action'', [ACTION_MODIFY_GROUP]),
     (''rule_tuning'', [ACTION_UPDATE_RULES]), (''config_change'', [ACTION_UPDATE_MANAGER_CONFIG])]"

definition resource_matches :: "string \<Rightarrow> string \<Rightarrow> bool" where
  "resource_matches pattern resource =
    (if pattern \<in> {''*'', ''*:*:*''} then True
     else let pat = split_on (CHR '':'') pattern; res = split_on (CHR '':'') resource
       in if length pat \<noteq> length res then False
          else list_all (\<lambda>(p, r). p = ''*'' \<or> p = r) (zip pat res))"

text \<open>The loop over one resource map: \<open>None\<close> is the early \<open>return False\<close> on a deny.\<close>

fun scan_effects :: "string \<Rightarrow> (string \<times> string) list \<Rightarrow> bool \<Rightarrow> bool option" where
  "scan_effects resource [] allowed = Some allowed"
| "scan_effects resource ((pattern, effect) # rest) allowed =
    (if resource_matches pattern resource
     then if effect = ''deny'' then None
          else if effect = ''allow'' then scan_effects resource rest True
          else scan_effects resource rest allowed
     else scan_effects resource rest allowed)"

fun scan_candidates :: "string list \<Rightarrow> (string \<times> string) list \<Rightarrow> bool \<Rightarrow> bool option" where
  "scan_candidates [] res_map allowed = Some allowed"
| "scan_candidates (resource # rest) res_map allowed =
    (case scan_effects resource res_map allowed of None \<Rightarrow> None | Some a \<Rightarrow> scan_candidates rest res_map a)"

definition can :: "capabilities \<Rightarrow> string \<Rightarrow> string \<Rightarrow> bool" where
  "can policies action resource = (case map_of policies action of None \<Rightarrow> False
     | Some res_map \<Rightarrow> if res_map = [] then False
         else (case scan_effects resource res_map False of None \<Rightarrow> False | Some allowed \<Rightarrow> allowed))"

definition agent_candidates :: "string \<Rightarrow> string list \<Rightarrow> string list" where
  "agent_candidates agent_id agent_groups = (''agent:id:'' @ agent_id) # map (\<lambda>g. ''agent:group:'' @ g) agent_groups"

definition can_on_agent :: "capabilities \<Rightarrow> string \<Rightarrow> string \<Rightarrow> string list \<Rightarrow> bool" where
  "can_on_agent policies action agent_id agent_groups = (case map_of policies action of None \<Rightarrow> False
     | Some res_map \<Rightarrow> if res_map = [] then False
         else (case scan_candidates (agent_candidates agent_id agent_groups) res_map False of
            None \<Rightarrow> False | Some allowed \<Rightarrow> allowed))"

definition available_actions :: "capabilities \<Rightarrow> string list" where
  "available_actions policies = [action. (action, res_map) \<leftarrow> policies, list_ex (\<lambda>(_, effect). effect = ''allow'') res_map]"

definition available_action_classes :: "capabilities \<Rightarrow> string list" where
  "available_action_classes policies =
    (let actions = available_actions policies
     in [wolf_class. (wolf_class, rbac_actions) \<leftarrow> WOLF_ACTION_CLASS_RBAC, list_ex (\<lambda>a. a \<in> set actions) rbac_actions])"

definition parse_policies :: "pyval \<Rightarrow> capabilities" where
  "parse_policies payload = (case as_dict payload of None \<Rightarrow> []
     | Some d \<Rightarrow> (case as_dict (dget d ''data'') of None \<Rightarrow> []
        | Some inner \<Rightarrow>
            [(action, clean). (action, PDict res_map) \<leftarrow> inner,
               clean \<leftarrow> [[(resource, effect). (resource, PStr effect) \<leftarrow> res_map]], clean \<noteq> []]))"

section \<open>Laws\<close>

lemma scan_effects_iff:
  "scan_effects r ps a = (if \<exists>p. (p, ''deny'') \<in> set ps \<and> resource_matches p r then None
     else Some (a \<or> (\<exists>p. (p, ''allow'') \<in> set ps \<and> resource_matches p r)))"
  by (induction r ps a rule: scan_effects.induct) auto

lemma scan_candidates_iff:
  "scan_candidates rs ps a = (if \<exists>r p. r \<in> set rs \<and> (p, ''deny'') \<in> set ps \<and> resource_matches p r then None
     else Some (a \<or> (\<exists>r p. r \<in> set rs \<and> (p, ''allow'') \<in> set ps \<and> resource_matches p r)))"
  by (induction rs arbitrary: a) (auto simp: scan_effects_iff)

text \<open>The effect a credential has on a resource through some policy of an action.\<close>

definition has_effect :: "capabilities \<Rightarrow> string \<Rightarrow> string \<Rightarrow> string \<Rightarrow> bool" where
  "has_effect policies action resource effect \<longleftrightarrow>
     (\<exists>res_map p. map_of policies action = Some res_map \<and> (p, effect) \<in> set res_map \<and> resource_matches p resource)"

lemma can_iff: "can ps a r \<longleftrightarrow> has_effect ps a r ''allow'' \<and> \<not> has_effect ps a r ''deny''"
  by (auto simp: can_def has_effect_def scan_effects_iff split: option.splits)

lemma can_on_agent_iff:
  "can_on_agent ps a i gs \<longleftrightarrow> (\<exists>r \<in> set (agent_candidates i gs). has_effect ps a r ''allow'')
     \<and> \<not> (\<exists>r \<in> set (agent_candidates i gs). has_effect ps a r ''deny'')"
  by (auto simp: can_on_agent_def has_effect_def scan_candidates_iff split: option.splits)

lemma available_actions_iff:
  "a \<in> set (available_actions ps) \<longleftrightarrow> (\<exists>res_map p. (a, res_map) \<in> set ps \<and> (p, ''allow'') \<in> set res_map)"
  by (fastforce simp: available_actions_def list_ex_iff)

section \<open>Properties\<close>

text \<open>The credential check is deny-wins and fail-closed: an action is permitted on an agent exactly when some
  policy of that action allows the agent's id or one of its groups and no policy of it denies any of
  them; in particular unknown actions, an empty policy map and effects other than allow permit nothing,
  and whatever is permitted is among the actions Wolf may offer.\<close>

theorem can_on_agent_deny_wins:
  "can_on_agent ps a i gs = ((\<exists>r \<in> set (agent_candidates i gs). has_effect ps a r ''allow'')
      \<and> (\<forall>r \<in> set (agent_candidates i gs). \<not> has_effect ps a r ''deny''))
   \<and> can_on_agent [] a i gs = False
   \<and> (can_on_agent ps a i gs \<or> can ps a r \<longrightarrow> a \<in> set (available_actions ps))"
  unfolding can_on_agent_iff can_iff available_actions_iff
  by (auto simp: has_effect_def dest!: map_of_SomeD)

theorem can_on_agent_deny_wins_witness:
  "can_on_agent [(''agent:modify_group'', [(''agent:group:acme'', ''allow''), (''agent:group:prod'', ''deny'')])]
     ''agent:modify_group'' ''001'' [''acme''] = True
   \<and> can_on_agent [(''agent:modify_group'', [(''agent:group:acme'', ''allow''), (''agent:group:prod'', ''deny'')])]
     ''agent:modify_group'' ''001'' [''acme'', ''prod''] = False
   \<and> ''agent:modify_group'' \<in> set (available_actions [(''agent:modify_group'', [(''agent:group:acme'', ''allow''), (''agent:group:prod'', ''deny'')])])"
proof -
  let ?ps = "[(''agent:modify_group'', [(''agent:group:acme'', ''allow''), (''agent:group:prod'', ''deny'')])]"
  have 1: "can_on_agent ?ps ''agent:modify_group'' ''001'' [''acme'']"
    "\<not> can_on_agent ?ps ''agent:modify_group'' ''001'' [''acme'', ''prod'']" by code_simp+
  with can_on_agent_deny_wins [of ?ps "''agent:modify_group''" "''001''" "[''acme'']"] show ?thesis by blast
qed

text \<open>An unknown group list can broaden the grant: a credential allowed on an agent's id and denied on one of
  its groups is refused when the group is known and permitted when the group read failed and the list
  is empty.\<close>

theorem empty_groups_can_broaden_the_grant:
  "\<exists>ps a i g. \<not> can_on_agent ps a i [g] \<and> can_on_agent ps a i []"
proof -
  let ?ps = "[(''agent:modify_group'', [(''agent:id:*'', ''allow''), (''agent:group:prod'', ''deny'')])]"
  have "\<not> can_on_agent ?ps ''agent:modify_group'' ''001'' [''prod'']" "can_on_agent ?ps ''agent:modify_group'' ''001'' []"
    by code_simp+
  then show ?thesis by blast
qed

end
