(* ===== verification/Server_Api.thy ===== *)
theory Server_Api
  imports Capabilities "HOL-Library.Product_Lexorder"
begin

text \<open>
  The two Wazuh Server API clients (\<open>wazuh/server_api.py\<close>), the cluster inventory
  (\<open>wazuh/cluster.py\<close>) and the readers of \<open>wazuh/capabilities.py\<close>.

  The HTTP transport (httpx and the server behind it) is the parameter \<open>ep_send\<close> of an \<open>endpoint\<close>: it
  maps a request and the remote world \<open>'w\<close> to a response, or to the exception the transport raised, and
  the next remote world.  \<open>wazuh\<close> holds the remote world and the bearer token of each client object.
  \<open>response.json()\<close> is \<open>rs_json\<close>, \<open>None\<close> when the body is not JSON.
\<close>

section \<open>Requests\<close>

datatype http_body = NoBody | JsonBody dict | RawBody string
datatype http_auth = Basic string string | Bearer string

record http_request =
  rq_method :: string
  rq_path :: string
  rq_params :: "(string \<times> string) list"
  rq_auth :: http_auth
  rq_body :: http_body

record http_response =
  rs_status :: nat
  rs_text :: string
  rs_json :: "pyval option"

record 'w endpoint =
  ep_send :: "http_request \<Rightarrow> 'w \<Rightarrow> http_response result \<times> 'w"
  ep_username :: string
  ep_password :: string

record 'w wazuh =
  read_token :: "string option"
  action_token :: "string option"
  remote :: 'w

definition api_error :: "string \<Rightarrow> exn" where
  "api_error m = Wolf WazuhServerApiError m"

text \<open>\<open>x.get(k, default)\<close> where \<open>x\<close> need not be a dict.\<close>

definition pget :: "pyval \<Rightarrow> string \<Rightarrow> pyval \<Rightarrow> pyval result" where
  "pget v k v0 = (case as_dict v of Some d \<Rightarrow> Inr (dget_or d k v0)
     | None \<Rightarrow> Inl (PyError ''AttributeError'' ''object has no attribute get''))"

definition authenticate :: "('w, 'z) endpoint_scheme \<Rightarrow> 'w \<Rightarrow> string result \<times> 'w" where
  "authenticate ep w =
    (case ep_send ep \<lparr>rq_method = ''POST'', rq_path = ''/security/user/authenticate'', rq_params = [],
        rq_auth = Basic (ep_username ep) (ep_password ep), rq_body = NoBody\<rparr> w of
       (Inl e, w) \<Rightarrow> (Inl e, w)
     | (Inr rs, w) \<Rightarrow>
        (if rs_status rs \<ge> 400
         then Inl (api_error (''Server API authentication failed: '' @ show_nat (rs_status rs)))
         else case rs_json rs of None \<Rightarrow> Inl (PyError ''JSONDecodeError'' ''Expecting value'')
         | Some j \<Rightarrow> (case pget j ''data'' (PDict []) of Inl e \<Rightarrow> Inl e
            | Inr dat \<Rightarrow> (case pget dat ''token'' PNone of Inl e \<Rightarrow> Inl e
               | Inr token \<Rightarrow> if \<not> truthy token then Inl (api_error ''Server API auth response missing token'')
                   else Inr (py_str token))), w))"

text \<open>The request with the lazy authentication and the single retry on 401 that \<open>get_raw\<close>, \<open>_request\<close>,
  \<open>_write\<close> and \<open>_write_raw\<close> share; the second component is the client's token afterwards.\<close>

definition authed_request ::
  "('w, 'z) endpoint_scheme \<Rightarrow> (http_auth \<Rightarrow> http_request) \<Rightarrow> string option \<Rightarrow> 'w \<Rightarrow> http_response result \<times> string option \<times> 'w" where
  "authed_request ep rq tok w =
    (case (case tok of Some t \<Rightarrow> (Inr t, w) | None \<Rightarrow> authenticate ep w) of
       (Inl e, w) \<Rightarrow> (Inl e, tok, w)
     | (Inr t, w) \<Rightarrow>
        (case ep_send ep (rq (Bearer t)) w of
           (Inl e, w) \<Rightarrow> (Inl e, Some t, w)
         | (Inr rs, w) \<Rightarrow>
            if rs_status rs \<noteq> 401 then (Inr rs, Some t, w)
            else (case authenticate ep w of
                (Inl e, w) \<Rightarrow> (Inl e, Some t, w)
              | (Inr t2, w) \<Rightarrow> (case ep_send ep (rq (Bearer t2)) w of (r, w) \<Rightarrow> (r, Some t2, w)))))"

section \<open>The read-only client\<close>

definition read_request ::
  "('w, 'z) endpoint_scheme \<Rightarrow> string \<Rightarrow> string \<Rightarrow> (string \<times> string) list \<Rightarrow> 'w wazuh \<Rightarrow> http_response result \<times> 'w wazuh" where
  "read_request ep meth path params w =
    (case authed_request ep (\<lambda>a. \<lparr>rq_method = meth, rq_path = path, rq_params = params, rq_auth = a, rq_body = NoBody\<rparr>)
        (read_token w) (remote w) of
       (r, tok, rw) \<Rightarrow>
        (case r of Inl e \<Rightarrow> Inl e
         | Inr rs \<Rightarrow> if rs_status rs \<ge> 400
             then Inl (api_error (''Server API returned '' @ show_nat (rs_status rs) @ '': '' @ take 200 (rs_text rs)))
             else Inr rs, w\<lparr>read_token := tok, remote := rw\<rparr>))"

definition decode_json :: "http_response result \<Rightarrow> pyval result" where
  "decode_json r = (case r of Inl e \<Rightarrow> Inl e
     | Inr rs \<Rightarrow> (case rs_json rs of None \<Rightarrow> Inl (PyError ''JSONDecodeError'' ''Expecting value'') | Some j \<Rightarrow> Inr j))"

definition request ::
  "('w, 'z) endpoint_scheme \<Rightarrow> string \<Rightarrow> string \<Rightarrow> (string \<times> string) list \<Rightarrow> 'w wazuh \<Rightarrow> pyval result \<times> 'w wazuh" where
  "request ep meth path params w =
    (if meth \<noteq> ''GET''
     then (Inl (api_error (''WazuhServerApiClient is read-only; '' @ meth @ '' not permitted'')), w)
     else case read_request ep meth path params w of (r, w) \<Rightarrow> (decode_json r, w))"

definition api_get ::
  "('w, 'z) endpoint_scheme \<Rightarrow> string \<Rightarrow> (string \<times> string) list \<Rightarrow> 'w wazuh \<Rightarrow> pyval result \<times> 'w wazuh" where
  "api_get ep path params w = request ep ''GET'' path params w"

definition get_raw ::
  "('w, 'z) endpoint_scheme \<Rightarrow> string \<Rightarrow> (string \<times> string) list \<Rightarrow> 'w wazuh \<Rightarrow> string result \<times> 'w wazuh" where
  "get_raw ep path params w = (case read_request ep ''GET'' path params w of
     (Inl e, w) \<Rightarrow> (Inl e, w) | (Inr rs, w) \<Rightarrow> (Inr (rs_text rs), w))"

section \<open>The bounded write client\<close>

definition write_request ::
  "('w, 'z) endpoint_scheme \<Rightarrow> string \<Rightarrow> string \<Rightarrow> (string \<times> string) list \<Rightarrow> http_body \<Rightarrow> 'w wazuh \<Rightarrow> pyval result \<times> 'w wazuh" where
  "write_request ep meth path params body w =
    (case authed_request ep (\<lambda>a. \<lparr>rq_method = meth, rq_path = path, rq_params = params, rq_auth = a, rq_body = body\<rparr>)
        (action_token w) (remote w) of
       (r, tok, rw) \<Rightarrow>
        (decode_json (case r of Inl e \<Rightarrow> Inl e
         | Inr rs \<Rightarrow> if rs_status rs \<ge> 400
             then Inl (api_error (''Server API write returned '' @ show_nat (rs_status rs) @ '': '' @ take 200 (rs_text rs)))
             else Inr rs), w\<lparr>action_token := tok, remote := rw\<rparr>))"

definition api_write :: "('w, 'z) endpoint_scheme \<Rightarrow> string \<Rightarrow> string \<Rightarrow> (string \<times> string) list \<Rightarrow> dict option \<Rightarrow> 'w wazuh \<Rightarrow> pyval result \<times> 'w wazuh" where
  "api_write ep meth path params json_body w =
    write_request ep meth path params (case json_body of None \<Rightarrow> NoBody | Some d \<Rightarrow> JsonBody d) w"

definition write_raw :: "('w, 'z) endpoint_scheme \<Rightarrow> string \<Rightarrow> string \<Rightarrow> (string \<times> string) list \<Rightarrow> string \<Rightarrow> 'w wazuh \<Rightarrow> pyval result \<times> 'w wazuh" where
  "write_raw ep meth path params body w = write_request ep meth path params (RawBody body) w"

definition not_permitted :: "string \<Rightarrow> exn" where
  "not_permitted m = Wolf WazuhActionNotPermittedError m"

definition groups_text :: "string list \<Rightarrow> string" where
  "groups_text gs = (let t = join '', '' gs in if t = [] then ''none'' else t)"

definition execute_active_response ::
  "('w, 'z) endpoint_scheme \<Rightarrow> string \<Rightarrow> string \<Rightarrow> capabilities \<Rightarrow> string list \<Rightarrow> string option \<Rightarrow> string option \<Rightarrow> string list
    \<Rightarrow> 'w wazuh \<Rightarrow> pyval result \<times> 'w wazuh" where
  "execute_active_response ep agent_id command caps agent_groups srcip username arguments w =
    (if \<not> can_on_agent caps ACTION_ACTIVE_RESPONSE agent_id agent_groups
     then (Inl (not_permitted (''Credential is not authorized for active-response on agent '' @ agent_id
        @ '' (groups: '' @ groups_text agent_groups @ '').'')), w)
     else api_write ep ''PUT'' ''/active-response'' [(''agents_list'', agent_id)]
       (Some (build_ar_body command srcip username arguments)) w)"

definition require_modify_group :: "string \<Rightarrow> capabilities \<Rightarrow> string list \<Rightarrow> unit result" where
  "require_modify_group agent_id caps agent_groups =
    (if \<not> can_on_agent caps ACTION_MODIFY_GROUP agent_id agent_groups
     then Inl (not_permitted (''Credential is not authorized to modify groups on agent '' @ agent_id
        @ '' (groups: '' @ groups_text agent_groups @ '').''))
     else Inr ())"

definition assign_agent_group ::
  "('w, 'z) endpoint_scheme \<Rightarrow> string \<Rightarrow> string \<Rightarrow> capabilities \<Rightarrow> string list \<Rightarrow> 'w wazuh \<Rightarrow> pyval result \<times> 'w wazuh" where
  "assign_agent_group ep agent_id grp caps agent_groups w =
    (case require_modify_group agent_id caps agent_groups of Inl e \<Rightarrow> (Inl e, w)
     | Inr _ \<Rightarrow> api_write ep ''PUT'' (''/agents/'' @ agent_id @ ''/group/'' @ grp) [] None w)"

definition remove_agent_group ::
  "('w, 'z) endpoint_scheme \<Rightarrow> string \<Rightarrow> string \<Rightarrow> capabilities \<Rightarrow> string list \<Rightarrow> 'w wazuh \<Rightarrow> pyval result \<times> 'w wazuh" where
  "remove_agent_group ep agent_id grp caps agent_groups w =
    (case require_modify_group agent_id caps agent_groups of Inl e \<Rightarrow> (Inl e, w)
     | Inr _ \<Rightarrow> api_write ep ''DELETE'' (''/agents/'' @ agent_id @ ''/group/'' @ grp) [] None w)"

definition update_rules_file ::
  "('w, 'z) endpoint_scheme \<Rightarrow> string \<Rightarrow> string \<Rightarrow> capabilities \<Rightarrow> string \<Rightarrow> 'w wazuh \<Rightarrow> pyval result \<times> 'w wazuh" where
  "update_rules_file ep filename content caps relative_dirname w =
    (if \<not> can caps ACTION_UPDATE_RULES (''rule:file:'' @ filename)
     then (Inl (not_permitted (''Credential is not authorized to update rule file '' @ repr_str filename
        @ '' (rules:update). Rule tuning is manager-global / Superuser-scoped.'')), w)
     else write_raw ep ''PUT'' (''/rules/files/'' @ filename)
       [(''overwrite'', ''true''), (''relative_dirname'', relative_dirname)] content w)"

definition update_manager_configuration ::
  "('w, 'z) endpoint_scheme \<Rightarrow> string \<Rightarrow> capabilities \<Rightarrow> 'w wazuh \<Rightarrow> pyval result \<times> 'w wazuh" where
  "update_manager_configuration ep content caps w =
    (if \<not> can caps ACTION_UPDATE_MANAGER_CONFIG RESOURCE_ANY
     then (Inl (not_permitted ''Credential is not authorized to update the manager configuration (manager:update_config). Configuration changes are manager-global / Superuser-scoped.''), w)
     else write_raw ep ''PUT'' ''/manager/configuration'' [] content w)"

text \<open>Cluster node names and the per-node path (\<open>wazuh/cluster.py\<close>): \<open>^[A-Za-z0-9_.-]+$\<close>.\<close>

definition node_char :: "char \<Rightarrow> bool" where
  "node_char c \<longleftrightarrow> is_decimal c \<or> (65 \<le> cp c \<and> cp c \<le> 90) \<or> (97 \<le> cp c \<and> cp c \<le> 122) \<or> c \<in> set ''_.-''"

definition NODE_NAME_RE :: regex where
  "NODE_NAME_RE = seqs [plus (Cls node_char), EndNl]"

definition is_valid_node_name :: "string \<Rightarrow> bool" where
  "is_valid_node_name name \<longleftrightarrow> re_fullmatch NODE_NAME_RE name \<noteq> None"

definition node_configuration_path :: "string \<Rightarrow> string result" where
  "node_configuration_path node_name =
    (if \<not> is_valid_node_name node_name then Inl (PyError ''ValueError'' (''Invalid cluster node name '' @ repr_str node_name))
     else Inr (''/cluster/'' @ node_name @ ''/configuration''))"

definition update_node_configuration ::
  "('w, 'z) endpoint_scheme \<Rightarrow> string \<Rightarrow> string \<Rightarrow> capabilities \<Rightarrow> 'w wazuh \<Rightarrow> pyval result \<times> 'w wazuh" where
  "update_node_configuration ep node_name content caps w =
    (if \<not> can caps ACTION_UPDATE_CLUSTER_CONFIG (''node:id:'' @ node_name)
     then (Inl (not_permitted (''Credential is not authorized to update the configuration of cluster node ''
        @ repr_str node_name @ '' (cluster:update_config). Distributed configuration changes are Superuser-scoped.'')), w)
     else case node_configuration_path node_name of Inl e \<Rightarrow> (Inl e, w)
       | Inr path \<Rightarrow> write_raw ep ''PUT'' path [] content w)"

definition restart_cluster :: "('w, 'z) endpoint_scheme \<Rightarrow> capabilities \<Rightarrow> 'w wazuh \<Rightarrow> pyval result \<times> 'w wazuh" where
  "restart_cluster ep caps w =
    (if \<not> can caps ACTION_CLUSTER_RESTART RESOURCE_NODE_ANY
     then (Inl (not_permitted ''Credential is not authorized to restart the cluster (cluster:restart).''), w)
     else api_write ep ''PUT'' ''/cluster/restart'' [] None w)"

definition require_update_rules :: "capabilities \<Rightarrow> unit result" where
  "require_update_rules caps =
    (if \<not> can caps ACTION_UPDATE_RULES RESOURCE_LOCAL_RULES
     then Inl (not_permitted ''Credential is not authorized to update rules (rules:update). Rule tuning is manager-global / Superuser-scoped.'')
     else Inr ())"

section \<open>Readers\<close>

definition fetch_credential_capabilities :: "('w, 'z) endpoint_scheme \<Rightarrow> 'w wazuh \<Rightarrow> capabilities \<times> 'w wazuh" where
  "fetch_credential_capabilities ep w = (case api_get ep ''/security/users/me/policies'' [] w of
     (Inl _, w) \<Rightarrow> ([], w) | (Inr payload, w) \<Rightarrow> (parse_policies payload, w))"

text \<open>The first item of \<open>payload["data"]["affected_items"]\<close>, \<open>None\<close> where the readers give up.\<close>

definition first_item :: "pyval \<Rightarrow> dict option result" where
  "first_item payload = (if as_dict payload = None then Inr None
     else case pget payload ''data'' (PDict []) of Inl e \<Rightarrow> Inl e
       | Inr dat \<Rightarrow> (case pget dat ''affected_items'' (PList []) of Inl e \<Rightarrow> Inl e
          | Inr items \<Rightarrow> (case items of PList (PDict d # _) \<Rightarrow> Inr (Some d) | _ \<Rightarrow> Inr None)))"

definition resolve_agent_groups :: "('w, 'z) endpoint_scheme \<Rightarrow> string \<Rightarrow> 'w wazuh \<Rightarrow> string list result \<times> 'w wazuh" where
  "resolve_agent_groups ep agent_id w = (case api_get ep ''/agents'' [(''agents_list'', agent_id), (''select'', ''group'')] w of
     (Inl _, w) \<Rightarrow> (Inr [], w)
   | (Inr payload, w) \<Rightarrow> (case first_item payload of Inl e \<Rightarrow> Inl e
       | Inr None \<Rightarrow> Inr []
       | Inr (Some d) \<Rightarrow> (case dget_or d ''group'' (PList []) of PList gs \<Rightarrow> Inr (map py_str gs) | _ \<Rightarrow> Inr []), w))"

definition resolve_agent_os :: "('w, 'z) endpoint_scheme \<Rightarrow> string \<Rightarrow> 'w wazuh \<Rightarrow> string option result \<times> 'w wazuh" where
  "resolve_agent_os ep agent_id w =
    (case api_get ep ''/agents'' [(''agents_list'', agent_id), (''select'', ''os.platform,os.uname,os.name'')] w of
     (Inl _, w) \<Rightarrow> (Inr None, w)
   | (Inr payload, w) \<Rightarrow> (case first_item payload of Inl e \<Rightarrow> Inl e
       | Inr None \<Rightarrow> Inr None
       | Inr (Some d) \<Rightarrow> (case dget_or d ''os'' (PDict []) of
            PDict os_info \<Rightarrow>
              (let parts = [dget os_info ''platform'', dget os_info ''uname'', dget os_info ''name''];
                   blob = join '' '' (map py_str (filter truthy parts))
               in Inr (if blob = [] then None else Some blob))
          | _ \<Rightarrow> Inr None), w))"

record manager_node =
  mn_name :: string
  mn_type :: string

definition get_cluster_nodes :: "('w, 'z) endpoint_scheme \<Rightarrow> 'w wazuh \<Rightarrow> manager_node list result \<times> 'w wazuh" where
  "get_cluster_nodes ep w = (case api_get ep ''/cluster/status'' [] w of
     (Inl e, w) \<Rightarrow> (Inl e, w)
   | (Inr status, w) \<Rightarrow>
      (case (case as_dict status of Some d \<Rightarrow> dget_or d ''data'' (PDict []) | None \<Rightarrow> PDict []) of
         PDict dat \<Rightarrow>
          if dget dat ''enabled'' \<noteq> PStr ''yes'' \<or> dget dat ''running'' \<noteq> PStr ''yes'' then (Inr [], w)
          else (case api_get ep ''/cluster/nodes'' [] w of
             (Inl e, w) \<Rightarrow> (Inl e, w)
           | (Inr inventory, w) \<Rightarrow>
              (case (case as_dict inventory of None \<Rightarrow> Inr (PList [])
                  | Some d \<Rightarrow> pget (dget_or d ''data'' (PDict [])) ''affected_items'' (PList [])) of
                 Inl e \<Rightarrow> Inl e
               | Inr items \<Rightarrow> (case items of
                    PList xs \<Rightarrow>
                      (let nodes = [\<lparr>mn_name = py_str (dget_or d ''name'' (PStr [])), mn_type = py_str (dget_or d ''type'' (PStr []))\<rparr>.
                             PDict d \<leftarrow> xs];
                           bad = filter (\<lambda>n. \<not> is_valid_node_name n) (map mn_name nodes)
                       in if bad \<noteq> [] \<or> nodes = []
                          then Inl (PyError ''ValueError'' (''Cluster node inventory unusable (nodes='' @ show_nat (length nodes)
                            @ '', invalid names='' @ py_repr (PList (map PStr bad)) @ '')''))
                          else Inr (sort_key (\<lambda>n. (mn_type n \<noteq> ''master'', mn_name n)) nodes))
                  | PStr _ \<Rightarrow> Inl (PyError ''ValueError'' ''Cluster node inventory unusable (nodes=0, invalid names=[])'')
                  | PDict _ \<Rightarrow> Inl (PyError ''ValueError'' ''Cluster node inventory unusable (nodes=0, invalid names=[])'')
                  | _ \<Rightarrow> Inl (PyError ''TypeError'' ''object is not iterable'')), w))
       | _ \<Rightarrow> (Inl (PyError ''AttributeError'' ''object has no attribute get''), w)))"

section \<open>What goes over the wire\<close>

text \<open>An endpoint that also records the requests it carries.\<close>

definition logged :: "'w endpoint \<Rightarrow> ('w \<times> http_request list) endpoint" where
  "logged ep = \<lparr>ep_send = (\<lambda>rq (w, log). (case ep_send ep rq w of (r, w') \<Rightarrow> (r, (w', log @ [rq])))),
     ep_username = ep_username ep, ep_password = ep_password ep\<rparr>"

definition auth_request :: "'w endpoint \<Rightarrow> http_request" where
  "auth_request ep = \<lparr>rq_method = ''POST'', rq_path = ''/security/user/authenticate'', rq_params = [],
     rq_auth = Basic (ep_username ep) (ep_password ep), rq_body = NoBody\<rparr>"

definition sent :: "('w \<times> http_request list) \<Rightarrow> http_request set \<Rightarrow> ('w \<times> http_request list) \<Rightarrow> bool" where
  "sent w Q w' \<longleftrightarrow> (\<exists>rqs. snd w' = snd w @ rqs \<and> set rqs \<subseteq> Q \<and> length rqs \<le> 4)"

lemma send_logged: "ep_send (logged ep) rq w = (fst (ep_send ep rq (fst w)), (snd (ep_send ep rq (fst w)), snd w @ [rq]))"
  by (simp add: logged_def split_beta)

lemma authenticate_logged:
  "snd (snd (authenticate (logged ep) w)) = snd w @ [auth_request ep]"
proof -
  have [simp]: "ep_username (logged ep) = ep_username ep" "ep_password (logged ep) = ep_password ep"
    by (simp_all add: logged_def)
  show ?thesis by (simp add: authenticate_def send_logged auth_request_def split: sum.splits)
qed

lemma authed_request_logged:
  assumes "authed_request (logged ep) rq tok w = (r, tok', w')"
  shows "sent w (insert (auth_request ep) (range rq)) w'"
proof -
  obtain a w1 where a: "authenticate (logged ep) w = (a, w1)" by (cases "authenticate (logged ep) w")
  obtain t w2 where t: "(case tok of Some t \<Rightarrow> (Inr t, w) | None \<Rightarrow> authenticate (logged ep) w) = (t, w2)"
    by (cases "(case tok of Some t \<Rightarrow> (Inr t, w) | None \<Rightarrow> authenticate (logged ep) w)")
  have w2: "snd w2 = snd w \<or> snd w2 = snd w @ [auth_request ep]"
    using t authenticate_logged [of ep w] by (cases tok) auto
  show ?thesis
  proof (cases t)
    case (Inl e)
    with assms t have "w' = w2" by (simp add: authed_request_def)
    with w2 show ?thesis by (auto simp: sent_def)
  next
    case (Inr tk)
    obtain rs w3 where rs: "ep_send (logged ep) (rq (Bearer tk)) w2 = (rs, w3)" by (cases "ep_send (logged ep) (rq (Bearer tk)) w2")
    then have w3: "snd w3 = snd w2 @ [rq (Bearer tk)]" by (simp add: send_logged prod_eq_iff)
    obtain t2 w4 where t2: "authenticate (logged ep) w3 = (t2, w4)" by (cases "authenticate (logged ep) w3")
    then have w4: "snd w4 = snd w3 @ [auth_request ep]" using authenticate_logged [of ep w3] by simp
    have "w' = w3 \<or> w' = w4 \<or> (\<exists>b. snd w' = snd w4 @ [rq b])"
      using assms t Inr rs t2
      by (auto simp: authed_request_def send_logged split: sum.splits if_splits prod.splits)
    with w2 w3 w4 show ?thesis by (elim disjE exE) (auto simp: sent_def)
  qed
qed

lemma read_request_logged:
  assumes "read_request (logged ep) meth path params w = (r, w')"
  shows "sent (remote w) (insert (auth_request ep) {q. rq_method q = meth \<and> rq_path q = path \<and> rq_body q = NoBody}) (remote w')"
proof -
  let ?rq = "\<lambda>a. \<lparr>rq_method = meth, rq_path = path, rq_params = params, rq_auth = a, rq_body = NoBody\<rparr>"
  obtain r1 tok rw where a: "authed_request (logged ep) ?rq (read_token w) (remote w) = (r1, tok, rw)"
    by (cases "authed_request (logged ep) ?rq (read_token w) (remote w)")
  then have "remote w' = rw" using assms by (auto simp: read_request_def)
  with authed_request_logged [OF a] show ?thesis by (fastforce simp: sent_def)
qed

lemma write_request_logged:
  assumes "write_request (logged ep) meth path params body w = (r, w')"
  shows "sent (remote w) (insert (auth_request ep) {q. rq_method q = meth \<and> rq_path q = path}) (remote w')"
proof -
  let ?rq = "\<lambda>a. \<lparr>rq_method = meth, rq_path = path, rq_params = params, rq_auth = a, rq_body = body\<rparr>"
  obtain r1 tok rw where a: "authed_request (logged ep) ?rq (action_token w) (remote w) = (r1, tok, rw)"
    by (cases "authed_request (logged ep) ?rq (action_token w) (remote w)")
  then have "remote w' = rw" using assms by (auto simp: write_request_def)
  with authed_request_logged [OF a] show ?thesis by (fastforce simp: sent_def)
qed

section \<open>The whitelist of write actions\<close>

text \<open>The public methods of the action client, with their arguments.\<close>

datatype write_action =
    ExecuteActiveResponse string string "string list" "string option" "string option" "string list"
  | AssignAgentGroup string string "string list"
  | RemoveAgentGroup string string "string list"
  | UpdateRulesFile string string string
  | UpdateManagerConfiguration string
  | UpdateNodeConfiguration string string
  | RestartCluster

fun run_write :: "('w, 'z) endpoint_scheme \<Rightarrow> capabilities \<Rightarrow> write_action \<Rightarrow> 'w wazuh \<Rightarrow> pyval result \<times> 'w wazuh" where
  "run_write ep caps (ExecuteActiveResponse i c gs ip u as) w = execute_active_response ep i c caps gs ip u as w"
| "run_write ep caps (AssignAgentGroup i g gs) w = assign_agent_group ep i g caps gs w"
| "run_write ep caps (RemoveAgentGroup i g gs) w = remove_agent_group ep i g caps gs w"
| "run_write ep caps (UpdateRulesFile f c d) w = update_rules_file ep f c caps d w"
| "run_write ep caps (UpdateManagerConfiguration c) w = update_manager_configuration ep c caps w"
| "run_write ep caps (UpdateNodeConfiguration n c) w = update_node_configuration ep n c caps w"
| "run_write ep caps RestartCluster w = restart_cluster ep caps w"

fun write_permitted :: "capabilities \<Rightarrow> write_action \<Rightarrow> bool" where
  "write_permitted caps (ExecuteActiveResponse i c gs ip u as) = can_on_agent caps ''active-response:command'' i gs"
| "write_permitted caps (AssignAgentGroup i g gs) = can_on_agent caps ''agent:modify_group'' i gs"
| "write_permitted caps (RemoveAgentGroup i g gs) = can_on_agent caps ''agent:modify_group'' i gs"
| "write_permitted caps (UpdateRulesFile f c d) = can caps ''rules:update'' (''rule:file:'' @ f)"
| "write_permitted caps (UpdateManagerConfiguration c) = can caps ''manager:update_config'' ''*:*:*''"
| "write_permitted caps (UpdateNodeConfiguration n c) = can caps ''cluster:update_config'' (''node:id:'' @ n)"
| "write_permitted caps RestartCluster = can caps ''cluster:restart'' ''node:id:*''"

fun write_target :: "write_action \<Rightarrow> string \<times> string" where
  "write_target (ExecuteActiveResponse i c gs ip u as) = (''PUT'', ''/active-response'')"
| "write_target (AssignAgentGroup i g gs) = (''PUT'', ''/agents/'' @ i @ ''/group/'' @ g)"
| "write_target (RemoveAgentGroup i g gs) = (''DELETE'', ''/agents/'' @ i @ ''/group/'' @ g)"
| "write_target (UpdateRulesFile f c d) = (''PUT'', ''/rules/files/'' @ f)"
| "write_target (UpdateManagerConfiguration c) = (''PUT'', ''/manager/configuration'')"
| "write_target (UpdateNodeConfiguration n c) = (''PUT'', ''/cluster/'' @ n @ ''/configuration'')"
| "write_target RestartCluster = (''PUT'', ''/cluster/restart'')"

lemmas write_action_defs = execute_active_response_def assign_agent_group_def remove_agent_group_def
  require_modify_group_def update_rules_file_def update_manager_configuration_def update_node_configuration_def
  restart_cluster_def api_write_def write_raw_def not_permitted_def node_configuration_path_def
  ACTION_ACTIVE_RESPONSE_def ACTION_MODIFY_GROUP_def ACTION_UPDATE_RULES_def ACTION_UPDATE_MANAGER_CONFIG_def
  ACTION_UPDATE_CLUSTER_CONFIG_def ACTION_CLUSTER_RESTART_def RESOURCE_ANY_def RESOURCE_NODE_ANY_def

lemma run_write_cases:
  obtains (denied) m where "\<not> write_permitted caps a" "run_write ep caps a w = (Inl (not_permitted m), w)"
  | (bad_name) n c where "a = UpdateNodeConfiguration n c" "\<not> is_valid_node_name n" "write_permitted caps a"
      "run_write ep caps a w = (Inl (PyError ''ValueError'' (''Invalid cluster node name '' @ repr_str n)), w)"
  | (issued) params body where "write_permitted caps a"
      "run_write ep caps a w = write_request ep (fst (write_target a)) (snd (write_target a)) params body w"
proof (cases "write_permitted caps a")
  case False
  then have "\<exists>m. run_write ep caps a w = (Inl (not_permitted m), w)"
    by (cases a) (simp_all add: write_action_defs)
  with False show thesis using denied by blast
next
  case True
  show thesis
  proof (cases "\<exists>n c. a = UpdateNodeConfiguration n c \<and> \<not> is_valid_node_name n")
    case bad: True
    with True show thesis using bad_name by (auto simp: write_action_defs)
  next
    case False
    with True have "\<exists>params body. run_write ep caps a w = write_request ep (fst (write_target a)) (snd (write_target a)) params body w"
      by (cases a) (auto simp: write_action_defs)
    with True show thesis using issued by blast
  qed
qed

lemma node_name_ends:
  "q \<in> set (rmatch NODE_NAME_RE (prev, s, caps)) \<Longrightarrow> rest_of q = [] \<Longrightarrow> s \<noteq> [] \<and> list_all node_char s"
proof -
  have star: "q \<in> set (star_iter True (rmatch (Cls P)) n p) \<Longrightarrow>
      \<exists>t. rest_of p = t @ rest_of q \<and> list_all P t" for P n p q
    by (induction n arbitrary: p) (fastforce split: list.splits if_splits)+
  assume q: "q \<in> set (rmatch NODE_NAME_RE (prev, s, caps))" "rest_of q = []"
  then obtain p c t where "p \<in> set (rmatch (Star True (Cls node_char)) (Some c, t, caps))"
      "q \<in> set (rmatch EndNl p)" "s = c # t" "node_char c"
    by (auto simp: NODE_NAME_RE_def plus_def simp del: rmatch.simps(5,10) split: list.splits if_splits)
  with star [of p node_char "length t" "(Some c, t, caps)"] q(2) show ?thesis
    by (auto split: if_splits)
qed

section \<open>Properties\<close>

text \<open>C16: Every write is checked before any request: an action the credential's policies do not permit raises the
  not-permitted error, sends nothing and leaves both clients and the server untouched; and whatever a
  permitted action sends is the login or a request with the one method and path that action is for, at
  most four requests in all (login, request, and both once more after a 401).\<close>

theorem write_checked_before_any_request:
  "if write_permitted caps a
   then sent (remote w) (insert (auth_request ep) {q. (rq_method q, rq_path q) = write_target a})
          (remote (snd (run_write (logged ep) caps a w)))
   else \<exists>m. run_write (logged ep) caps a w = (Inl (Wolf WazuhActionNotPermittedError m), w)"
proof (cases rule: run_write_cases [of caps a "logged ep" w])
  case (denied m)
  then show ?thesis by (auto simp: not_permitted_def)
next
  case (bad_name n c)
  then show ?thesis by (auto simp: sent_def)
next
  case (issued params body)
  obtain r w' where r: "write_request (logged ep) (fst (write_target a)) (snd (write_target a)) params body w = (r, w')"
    by (metis surj_pair)
  have eq: "{q. rq_method q = fst (write_target a) \<and> rq_path q = snd (write_target a)} = {q. (rq_method q, rq_path q) = write_target a}"
    by (auto simp: prod_eq_iff)
  show ?thesis using write_request_logged [OF r] issued r unfolding eq by simp
qed

text \<open>The read client never writes: besides the login, everything it sends is a GET without a body on the path
  asked for, and asking its request method for anything else is refused before any request.\<close>

theorem read_client_only_gets:
  "sent (remote w) (insert (auth_request ep) {q. rq_method q = ''GET'' \<and> rq_path q = path \<and> rq_body q = NoBody})
     (remote (snd (request (logged ep) meth path params w)))
   \<and> sent (remote w) (insert (auth_request ep) {q. rq_method q = ''GET'' \<and> rq_path q = path \<and> rq_body q = NoBody})
     (remote (snd (get_raw (logged ep) path params w)))
   \<and> snd (request (logged ep) ''PUT'' path params w) = w \<and> isl (fst (request (logged ep) ''PUT'' path params w))"
proof -
  obtain r w' where r: "read_request (logged ep) ''GET'' path params w = (r, w')" by (metis surj_pair)
  have n: "sent x Q x" for x :: "'a \<times> http_request list" and Q by (simp add: sent_def)
  from read_request_logged [OF r] r n show ?thesis
    by (auto simp: request_def get_raw_def split: sum.splits prod.splits)
qed

text \<open>A cluster node name that reaches a request path cannot leave its path segment: it is a non-empty run of
  letters, digits, underscore, dot and dash; every other name is refused with a ValueError.\<close>

theorem node_configuration_path_safe:
  assumes "node_configuration_path n = Inr path"
  shows "path = ''/cluster/'' @ n @ ''/configuration'' \<and> n \<noteq> [] \<and> list_all node_char n \<and> CHR ''/'' \<notin> set n"
proof -
  from assms have path: "path = ''/cluster/'' @ n @ ''/configuration''" and v: "is_valid_node_name n"
    by (auto simp: node_configuration_path_def split: if_splits)
  from v obtain q where "find (\<lambda>p. rest_of p = []) (rmatch NODE_NAME_RE (None, n, [])) = Some q"
    by (auto simp: is_valid_node_name_def re_fullmatch_def)
  then obtain i where "i < length (rmatch NODE_NAME_RE (None, n, []))" "q = rmatch NODE_NAME_RE (None, n, []) ! i" "rest_of q = []"
    unfolding find_Some_iff by metis
  then have "q \<in> set (rmatch NODE_NAME_RE (None, n, []))" "rest_of q = []" by simp_all
  from node_name_ends [OF this] have nn: "n \<noteq> []" "list_all node_char n" by simp_all
  have "\<not> node_char (CHR ''/'')" by (simp add: node_char_def is_decimal_def cp_def)
  with nn path show ?thesis by (auto simp: list_all_iff)
qed

theorem node_configuration_path_safe_witness:
  "node_configuration_path ''worker-1'' = Inr ''/cluster/worker-1/configuration'' \<and> CHR ''/'' \<notin> set ''worker-1''"
proof -
  have "node_configuration_path ''worker-1'' = Inr ''/cluster/worker-1/configuration''" by code_simp
  with node_configuration_path_safe [OF this] show ?thesis by simp
qed

end
