(* ===== verification/Agent_Actions.thy ===== *)
theory Agent_Actions
  imports Py_Regex
begin

text \<open>The agent-action operations and the group-name syntax (\<open>wazuh/agent_actions.py\<close>).\<close>

definition OP_ASSIGN_GROUP :: string where "OP_ASSIGN_GROUP = ''assign_group''"
definition OP_REMOVE_GROUP :: string where "OP_REMOVE_GROUP = ''remove_group''"

definition INVERSE_OP :: "(string \<times> string) list" where
  "INVERSE_OP = [(OP_ASSIGN_GROUP, OP_REMOVE_GROUP), (OP_REMOVE_GROUP, OP_ASSIGN_GROUP)]"

definition AGENT_ACTION_OPS :: "string list" where
  "AGENT_ACTION_OPS = map fst INVERSE_OP"

text \<open>\<open>^\\w[\\w.\\-]{0,254}$\<close>\<close>

definition group_char :: "char \<Rightarrow> bool" where
  "group_char c \<longleftrightarrow> is_word c \<or> c = CHR ''.'' \<or> c = CHR ''-''"

definition GROUP_RE :: regex where
  "GROUP_RE = seqs [Cls is_word, Upto 254 (Cls group_char), EndNl]"

definition is_valid_group :: "string \<Rightarrow> bool" where
  "is_valid_group name \<longleftrightarrow> re_match GROUP_RE name \<noteq> None"

lemma inverse_op_involution: "map_of INVERSE_OP op = Some op' \<Longrightarrow> map_of INVERSE_OP op' = Some op"
  by (auto simp: INVERSE_OP_def OP_ASSIGN_GROUP_def OP_REMOVE_GROUP_def split: if_splits)

lemma star_cls_consumes:
  "q \<in> set (star_iter g (rmatch (Cls P)) n p) \<Longrightarrow> \<exists>t. rest_of p = t @ rest_of q \<and> list_all P t \<and> length t \<le> n"
  by (induction n arbitrary: p) (fastforce simp: Let_def split: list.splits if_splits)+

text \<open>A group name that passes the check is one word character followed by at most 254 word characters, dots
  and dashes, with at most a final newline after them; so it has no slash and cannot leave its segment
  of the request path.\<close>

theorem is_valid_group_shape:
  assumes "is_valid_group name"
  shows "\<exists>c t e. name = c # t @ e \<and> is_word c \<and> list_all group_char t \<and> length t \<le> 254 \<and> e \<in> {[], [CHR 0x0A]}
    \<and> CHR ''/'' \<notin> set name"
proof -
  from assms obtain q where "q \<in> set (rmatch GROUP_RE (None, name, []))"
    by (auto simp: is_valid_group_def re_match_def split: list.splits)
  then obtain c s where name: "name = c # s" "is_word c"
    and p: "q \<in> set (star_iter True (rmatch (Cls group_char)) 254 (Some c, s, []))" "rest_of q \<in> {[], [CHR 0x0A]}"
    by (auto simp: GROUP_RE_def simp del: star_iter.simps split: list.splits if_splits)
  from star_cls_consumes [OF p(1)] obtain t where t: "s = t @ rest_of q" "list_all group_char t" "length t \<le> 254" by auto
  have "\<not> group_char (CHR ''/'')" "\<not> is_word (CHR ''/'')" by (simp_all add: group_char_def is_word_def cp_def)
  with name t p(2) have "CHR ''/'' \<notin> set name" by (auto simp: list_all_iff)
  with name t p(2) show ?thesis by blast
qed

theorem is_valid_group_shape_witness: "is_valid_group ''web-01'' \<and> CHR ''/'' \<notin> set ''web-01''"
proof -
  have "rmatch GROUP_RE (None, ''web-01'', []) \<noteq> []"
    by (simp add: GROUP_RE_def group_char_def is_word_def cp_def numeral_eq_Suc)
  then have v: "is_valid_group ''web-01''" by (auto simp: is_valid_group_def re_match_def split: list.splits)
  from is_valid_group_shape [OF v] v show ?thesis by blast
qed

end
