(* ===== verification/Config_Change.thy ===== *)
theory Config_Change
  imports Py_Regex Wolf_Errors
begin

text \<open>
  Editing \<open>ossec.conf\<close> text (\<open>wazuh/config_change.py\<close>): locating section blocks by pattern, block
  identity, replace / insert / upsert / remove, the whitespace-insensitive persistence checks and the
  shape check of a proposed block.  \<open>textwrap.dedent\<close> is modelled as the standard library computes it.
\<close>

section \<open>Names and patterns\<close>

definition BLOCKED_SECTIONS :: "string list" where
  "BLOCKED_SECTIONS = [''auth'', ''cluster'', ''indexer'', ''rule_test'', ''ruleset'']"

definition IDENTITY_KEYS :: "(string \<times> string) list" where
  "IDENTITY_KEYS = [(''command'', ''name''), (''integration'', ''name''), (''localfile'', ''location'')]"

definition OP_UPDATE_SECTION :: string where "OP_UPDATE_SECTION = ''update_section''"
definition OP_UPSERT_BLOCK :: string where "OP_UPSERT_BLOCK = ''upsert_block''"
definition OP_REMOVE_BLOCK :: string where "OP_REMOVE_BLOCK = ''remove_block''"

definition CONFIG_CHANGE_FORWARD_OPS :: "string list" where
  "CONFIG_CHANGE_FORWARD_OPS = [OP_UPDATE_SECTION, OP_UPSERT_BLOCK, OP_REMOVE_BLOCK]"

definition is_az :: "char \<Rightarrow> bool" where
  "is_az c \<longleftrightarrow> 97 \<le> cp c \<and> cp c \<le> 122"

text \<open>\<open>^[a-z][a-z0-9_-]*$\<close>\<close>

definition SECTION_NAME_RE :: regex where
  "SECTION_NAME_RE = seqs [Cls is_az, Star True (Cls (\<lambda>c. is_az c \<or> is_decimal c \<or> c \<in> set ''_-'')), EndNl]"

definition is_valid_section_name :: "string \<Rightarrow> bool" where
  "is_valid_section_name section \<longleftrightarrow> re_fullmatch SECTION_NAME_RE section \<noteq> None"

definition MAX_SECTION_CHARS :: nat where "MAX_SECTION_CHARS = 16384"

text \<open>\<open><section(?:\\s[^>]*)?>.*?</section>\<close> with DOTALL.\<close>

definition section_block_re :: "string \<Rightarrow> regex" where
  "section_block_re section = seqs [lit (''<'' @ section), opt (Seq (Cls is_space) (Star True (Cls (\<lambda>c. c \<noteq> CHR ''>'')))),
     lit ''>'', Star False (Cls any_char), lit (''</'' @ section @ ''>'')]"

definition find_section_blocks :: "string \<Rightarrow> string \<Rightarrow> string list" where
  "find_section_blocks raw section = re_findall (section_block_re section) raw"

section \<open>Match spans\<close>

text \<open>A match object as the text before, the matched text and the text after it: \<open>raw[:start]\<close>,
  \<open>m.group(0)\<close>, \<open>raw[end:]\<close>.\<close>

fun spans_of :: "string \<Rightarrow> (string \<times> string \<times> (nat \<times> string) list) list \<Rightarrow> string \<Rightarrow> (string \<times> string \<times> string) list" where
  "spans_of pre [] rst = []"
| "spans_of pre ((a, m, caps) # ms) rst =
    (pre @ a, m, concat (map (\<lambda>(a, m, caps). a @ m) ms) @ rst) # spans_of (pre @ a @ m) ms rst"

definition match_spans :: "regex \<Rightarrow> string \<Rightarrow> (string \<times> string \<times> string) list" where
  "match_spans r raw = (case re_finditer r raw of (ms, rst) \<Rightarrow> spans_of [] ms rst)"

section \<open>\<open>textwrap.dedent\<close> and the display form\<close>

definition is_blank :: "char \<Rightarrow> bool" where
  "is_blank c \<longleftrightarrow> c = CHR '' '' \<or> c = CHR 0x09"

fun common_prefix :: "string \<Rightarrow> string \<Rightarrow> string" where
  "common_prefix (x # xs) (y # ys) = (if x = y then x # common_prefix xs ys else [])"
| "common_prefix _ _ = []"

definition margin_step :: "string option \<Rightarrow> string \<Rightarrow> string option" where
  "margin_step margin indent = (case margin of None \<Rightarrow> Some indent
     | Some m \<Rightarrow> if startswith indent m then Some m else if startswith m indent then Some indent
         else Some (common_prefix m indent))"

definition dedent_margin :: "string list \<Rightarrow> string" where
  "dedent_margin ls = (case foldl margin_step None (map (takeWhile is_blank) (filter (\<lambda>l. l \<noteq> []) ls)) of
     None \<Rightarrow> [] | Some m \<Rightarrow> m)"

definition dedent :: "string \<Rightarrow> string" where
  "dedent text = (let ls = map (\<lambda>l. if list_all is_blank l then [] else l) (split_on (CHR 0x0A) text);
       margin = dedent_margin ls
     in join [CHR 0x0A] (map (\<lambda>l. if startswith l margin then drop (length margin) l else l) ls))"

definition normalize_block_indent :: "string \<Rightarrow> string" where
  "normalize_block_indent block =
    (let text = py_strip block; first = takeWhile (\<lambda>c. c \<noteq> CHR 0x0A) text; after = dropWhile (\<lambda>c. c \<noteq> CHR 0x0A) text
     in if after = [] then first else first @ [CHR 0x0A] @ dedent (tl after))"

section \<open>Edits\<close>

definition replace_section_block :: "string \<Rightarrow> string \<Rightarrow> string \<Rightarrow> string option" where
  "replace_section_block raw section new_block = (case match_spans (section_block_re section) raw of
     [(pre, m, post)] \<Rightarrow> Some (pre @ py_strip new_block @ post) | _ \<Rightarrow> None)"

definition insert_section_block :: "string \<Rightarrow> string \<Rightarrow> string option" where
  "insert_section_block raw new_block = (case rfind ''</ossec_config>'' raw of None \<Rightarrow> None
     | Some anchor \<Rightarrow> Some (take anchor raw @ ''  '' @ py_strip new_block @ [CHR 0x0A, CHR 0x0A] @ drop anchor raw))"

text \<open>\<open><key>\\s*(.*?)\\s*</key>\<close>\<close>

definition identity_re :: "string \<Rightarrow> regex" where
  "identity_re key = seqs [lit (''<'' @ key @ ''>''), Star True (Cls is_space), Grp 1 (Star False (Cls any_char)),
     Star True (Cls is_space), lit (''</'' @ key @ ''>'')]"

definition identity_of :: "string \<Rightarrow> string \<Rightarrow> string option" where
  "identity_of section block = (case map_of IDENTITY_KEYS section of None \<Rightarrow> None
     | Some key_element \<Rightarrow> (case re_search (identity_re key_element) block of None \<Rightarrow> None
         | Some (_, _, caps, _) \<Rightarrow> Some (py_strip (group 1 caps))))"

text \<open>\<open><([a-z][\\w.-]*)>\\s*([^<]*?)\\s*</\\1>\<close>\<close>

definition LEAF_ELEMENT_RE :: regex where
  "LEAF_ELEMENT_RE = seqs [lit ''<'', Grp 1 (Seq (Cls is_az) (Star True (Cls (\<lambda>c. is_word c \<or> c \<in> set ''.-'')))), lit ''>'',
     Star True (Cls is_space), Grp 2 (Star False (Cls (\<lambda>c. c \<noteq> CHR ''<''))), Star True (Cls is_space),
     lit ''</'', Bref 1, lit ''>'']"

definition element_entries :: "string \<Rightarrow> (string \<times> string) list" where
  "element_entries block = map (\<lambda>(_, _, caps). (group 1 caps, py_strip (group 2 caps))) (fst (re_finditer LEAF_ELEMENT_RE block))"

definition carries_value :: "string \<Rightarrow> string \<Rightarrow> bool" where
  "carries_value block value = (let wanted = py_strip value in
     if wanted = [] then False else list_ex (\<lambda>(_, v). v = wanted) (element_entries block))"

definition content_carries_key :: "string \<Rightarrow> string \<Rightarrow> string \<Rightarrow> bool" where
  "content_carries_key section content block_key = (let wanted = py_strip block_key in
     if wanted = [] then False else identity_of section content = Some wanted \<or> carries_value content wanted)"

definition identified_matches :: "string \<Rightarrow> string \<Rightarrow> string \<Rightarrow> (string \<times> string \<times> string) list" where
  "identified_matches raw section block_key =
    (let wanted = py_strip block_key;
         matches = match_spans (section_block_re section) raw;
         primary = filter (\<lambda>(_, m, _). identity_of section m = Some wanted) matches
     in if primary \<noteq> [] then primary else filter (\<lambda>(_, m, _). carries_value m wanted) matches)"

definition find_identified_blocks :: "string \<Rightarrow> string \<Rightarrow> string \<Rightarrow> string list" where
  "find_identified_blocks raw section block_key = map (\<lambda>(_, m, _). m) (identified_matches raw section block_key)"

definition describe_instances :: "string list \<Rightarrow> string" where
  "describe_instances blocks =
    (let entries = map (\<lambda>b. rev (remdups (rev (element_entries b)))) blocks;
         carriers = (\<lambda>pair. length (filter (\<lambda>e. pair \<in> set e) entries));
         describe = (\<lambda>(i, entry).
           let uniques = [''<'' @ t @ ''>'' @ v @ ''</'' @ t @ ''>''. (t, v) \<leftarrow> entry, v \<noteq> [] \<and> carriers (t, v) = 1]
           in if uniques = [] then [] else [''instance '' @ show_nat i @ '': '' @ join '', '' uniques])
     in join ''; '' (concat (map describe (zip [1..<Suc (length entries)] entries))))"

definition upsert_identified_block :: "string \<Rightarrow> string \<Rightarrow> string \<Rightarrow> string \<Rightarrow> string option" where
  "upsert_identified_block raw section block_key new_block = (case identified_matches raw section block_key of
     [] \<Rightarrow> insert_section_block raw new_block
   | [(pre, m, post)] \<Rightarrow> Some (pre @ py_strip new_block @ post)
   | _ \<Rightarrow> None)"

definition remove_identified_block :: "string \<Rightarrow> string \<Rightarrow> string \<Rightarrow> string option" where
  "remove_identified_block raw section block_key = (case identified_matches raw section block_key of
     [(pre, m, post)] \<Rightarrow> Some (rstrip_by is_blank pre
        @ (case post of c # rst \<Rightarrow> if c = CHR 0x0A then rst else post | [] \<Rightarrow> []))
   | _ \<Rightarrow> None)"

definition normalize_section :: "string \<Rightarrow> string" where
  "normalize_section block =
    (let collapsed = re_sub (seqs [lit ''>'', plus (Cls is_space), lit ''<'']) ''><'' (py_strip block)
     in py_strip (re_sub (plus (Cls is_space)) '' '' collapsed))"

definition section_persisted :: "string \<Rightarrow> string \<Rightarrow> string \<Rightarrow> bool" where
  "section_persisted raw section proposed_block = (case find_section_blocks raw section of
     [b] \<Rightarrow> normalize_section b = normalize_section proposed_block | _ \<Rightarrow> False)"

definition build_candidate :: "string \<Rightarrow> string \<Rightarrow> string \<Rightarrow> string \<Rightarrow> string \<Rightarrow> string option" where
  "build_candidate raw op section block_key new_block =
    (if op = OP_UPDATE_SECTION
     then if find_section_blocks raw section \<noteq> [] then replace_section_block raw section new_block
          else insert_section_block raw new_block
     else if op = OP_UPSERT_BLOCK then upsert_identified_block raw section block_key new_block
     else if op = OP_REMOVE_BLOCK then remove_identified_block raw section block_key
     else None)"

definition block_persisted :: "string \<Rightarrow> string \<Rightarrow> string \<Rightarrow> string \<Rightarrow> bool" where
  "block_persisted raw section block_key proposed_block = (case find_identified_blocks raw section block_key of
     [b] \<Rightarrow> normalize_section b = normalize_section proposed_block | _ \<Rightarrow> False)"

definition block_removed :: "string \<Rightarrow> string \<Rightarrow> string \<Rightarrow> bool" where
  "block_removed raw section block_key \<longleftrightarrow> length (find_identified_blocks raw section block_key) = 0"

definition is_valid_section_block :: "string \<Rightarrow> string \<Rightarrow> bool \<times> string" where
  "is_valid_section_block section content =
    (let text = py_strip content in
     if text = [] then (False, ''Section content is empty - provide the full replacement block.'')
     else if length text > MAX_SECTION_CHARS
       then (False, ''Section content exceeds '' @ show_nat MAX_SECTION_CHARS @ '' characters - too large to review.'')
     else if contains ''<ossec_config'' text
       then (False, ''Section content must be a bare <section> block, not an <ossec_config> wrapper.'')
     else if re_fullmatch (section_block_re section) text = None
       then (False, ''Content must be exactly one <'' @ section @ ''>...</'' @ section
          @ ''> block (the full replacement for the section), with nothing outside it.'')
     else (True, []))"

section \<open>Laws of the edits\<close>

lemma spans_of_split:
  "(p, m, q) \<in> set (spans_of pre ms rst) \<Longrightarrow> p @ m @ q = pre @ concat (map (\<lambda>(a, m, caps). a @ m) ms) @ rst"
  by (induction pre ms rst rule: spans_of.induct) auto

lemma spans_of_mid: "map (\<lambda>(_, m, _). m) (spans_of pre ms rst) = map (\<lambda>(a, m, caps). m) ms"
  by (induction pre ms rst rule: spans_of.induct) auto

lemma match_spans_split: "(p, m, q) \<in> set (match_spans r raw) \<Longrightarrow> raw = p @ m @ q"
  using re_finditer_split [of r raw] by (auto simp: match_spans_def dest!: spans_of_split split: prod.splits)

lemma find_section_blocks_spans: "find_section_blocks raw section = map (\<lambda>(_, m, _). m) (match_spans (section_block_re section) raw)"
  by (simp add: find_section_blocks_def re_findall_def match_spans_def spans_of_mid split: prod.splits)

lemma identified_matches_subset: "set (identified_matches raw section key) \<subseteq> set (match_spans (section_block_re section) raw)"
  by (auto simp: identified_matches_def Let_def)

lemma rfind_Some:
  assumes "rfind p s = Some n" "p \<noteq> []"
  shows "n \<le> length s \<and> startswith (drop n s) p \<and> \<not> contains p (drop (Suc n) s)"
  using assms
proof (induction s arbitrary: n)
  case (Cons c s)
  have none: "rfind p t = None \<Longrightarrow> \<not> contains p t" for t
    using \<open>p \<noteq> []\<close> by (induction t) (auto split: option.splits if_splits)
  show ?case
  proof (cases "rfind p s")
    case None
    with Cons none show ?thesis by (auto split: if_splits)
  next
    case (Some k)
    with Cons show ?thesis by auto
  qed
qed simp

text \<open>One block of \<open>section\<close> replaced in place; one block put before the last closing wrapper; one block taken
  out with its indentation and line end.\<close>

definition replaced_at :: "string \<Rightarrow> string \<Rightarrow> string \<Rightarrow> string \<Rightarrow> bool" where
  "replaced_at raw section new out \<longleftrightarrow> (\<exists>pre m post. raw = pre @ m @ post \<and> m \<in> set (find_section_blocks raw section)
     \<and> out = pre @ py_strip new @ post)"

definition inserted_at_end :: "string \<Rightarrow> string \<Rightarrow> string \<Rightarrow> bool" where
  "inserted_at_end raw new out \<longleftrightarrow> (\<exists>pre post. raw = pre @ post \<and> startswith post ''</ossec_config>''
     \<and> \<not> contains ''</ossec_config>'' (tl post) \<and> out = pre @ ''  '' @ py_strip new @ [CHR 0x0A, CHR 0x0A] @ post)"

definition removed_at :: "string \<Rightarrow> string \<Rightarrow> string \<Rightarrow> bool" where
  "removed_at raw section out \<longleftrightarrow> (\<exists>pre ws m nl post. raw = pre @ ws @ m @ nl @ post \<and> m \<in> set (find_section_blocks raw section)
     \<and> list_all is_blank ws \<and> nl \<in> {[], [CHR 0x0A]} \<and> out = pre @ post)"

lemma span_replaced:
  assumes "(pre, m, post) \<in> set (match_spans (section_block_re section) raw)"
  shows "replaced_at raw section new (pre @ py_strip new @ post)"
proof -
  have "m \<in> set (find_section_blocks raw section)" using assms by (force simp: find_section_blocks_spans)
  with match_spans_split [OF assms] show ?thesis by (auto simp: replaced_at_def)
qed

lemma insert_section_block_at_end: "insert_section_block raw new = Some out \<Longrightarrow> inserted_at_end raw new out"
proof -
  assume "insert_section_block raw new = Some out"
  then obtain n where n: "rfind ''</ossec_config>'' raw = Some n"
    and out: "out = take n raw @ ''  '' @ py_strip new @ [CHR 0x0A, CHR 0x0A] @ drop n raw"
    by (auto simp: insert_section_block_def split: option.splits)
  from rfind_Some [OF n] have "startswith (drop n raw) ''</ossec_config>''" "\<not> contains ''</ossec_config>'' (tl (drop n raw))"
    by (simp_all add: drop_Suc tl_drop)
  then show ?thesis unfolding inserted_at_end_def out by (intro exI [of _ "take n raw"] exI [of _ "drop n raw"]) simp
qed

lemma rstrip_by_split: "\<exists>ws. s = rstrip_by P s @ ws \<and> list_all P ws"
proof -
  have "s = rev (dropWhile P (rev s)) @ rev (takeWhile P (rev s))"
    by (metis rev_append rev_rev_ident takeWhile_dropWhile_id)
  moreover have "list_all P (rev (takeWhile P (rev s)))" by (auto simp: list_all_iff dest: set_takeWhileD)
  ultimately show ?thesis unfolding rstrip_by_def by blast
qed

lemma remove_identified_block_removed:
  assumes "remove_identified_block raw section key = Some out"
  shows "removed_at raw section out"
proof -
  obtain pre m post where "identified_matches raw section key = [(pre, m, post)]"
    and out: "out = rstrip_by is_blank pre @ (case post of c # rst \<Rightarrow> if c = CHR 0x0A then rst else post | [] \<Rightarrow> [])"
    using assms by (auto simp: remove_identified_block_def split: list.splits)
  then have sp: "(pre, m, post) \<in> set (match_spans (section_block_re section) raw)"
    using identified_matches_subset [of raw "section" key] by simp
  then have m: "m \<in> set (find_section_blocks raw section)" by (force simp: find_section_blocks_spans)
  define pre0 where "pre0 = rstrip_by is_blank pre"
  obtain ws where ws: "pre = pre0 @ ws" "list_all is_blank ws" unfolding pre0_def using rstrip_by_split by blast
  have "\<exists>nl. post = nl @ (case post of c # rst \<Rightarrow> if c = CHR 0x0A then rst else post | [] \<Rightarrow> []) \<and> nl \<in> {[], [CHR 0x0A]}"
    by (cases post) auto
  then obtain nl rst where nl: "post = nl @ rst" "nl \<in> {[], [CHR 0x0A]}"
      "rst = (case post of c # rst \<Rightarrow> if c = CHR 0x0A then rst else post | [] \<Rightarrow> [])"
    by blast
  have "raw = pre0 @ ws @ m @ nl @ rst"
    using match_spans_split [OF sp] nl(1) ws(1) by simp
  moreover have "out = pre0 @ rst" using out nl(3) by (simp add: pre0_def)
  ultimately show ?thesis unfolding removed_at_def using m ws(2) nl(2)
    by (intro exI [of _ pre0] exI [of _ ws] exI [of _ m] exI [of _ nl] exI [of _ rst]) simp
qed

section \<open>Laws of the display form\<close>

lemma common_prefix_prefix: "prefix (common_prefix x y) x \<and> prefix (common_prefix x y) y"
  by (induction x y rule: common_prefix.induct) auto

lemma common_prefix_eq: "prefix x y \<Longrightarrow> common_prefix x y = x" "prefix y x \<Longrightarrow> common_prefix x y = y"
  by (induction x y rule: common_prefix.induct) (auto simp: prefix_Cons)

lemma common_prefix_append: "common_prefix (m @ x) (m @ y) = m @ common_prefix x y"
  by (induction m) auto

lemma margin_step_fold: "foldl margin_step (Some m) is = Some (foldl common_prefix m is)"
  by (induction "is" arbitrary: m) (auto simp: margin_step_def startswith_iff common_prefix_eq)

lemma foldl_common_prefix_prefix: "prefix (foldl common_prefix m is) m \<and> (\<forall>i \<in> set is. prefix (foldl common_prefix m is) i)"
proof (induction "is" arbitrary: m)
  case (Cons i "is")
  from Cons [of "common_prefix m i"] common_prefix_prefix [of m i] show ?case
    by (auto intro: prefix_order.trans)
qed simp

lemma foldl_common_prefix_append: "foldl common_prefix (m @ x) (map ((@) m) ys) = m @ foldl common_prefix x ys"
  by (induction ys arbitrary: x) (simp_all add: common_prefix_append)

text \<open>Lines that are empty or not blank, as \<open>dedent\<close> prepares them.\<close>

definition prepared :: "string list \<Rightarrow> bool" where
  "prepared ls \<longleftrightarrow> list_all (\<lambda>l. l = [] \<or> \<not> list_all is_blank l) ls"

definition indents :: "string list \<Rightarrow> string list" where
  "indents ls = map (takeWhile is_blank) (filter (\<lambda>l. l \<noteq> []) ls)"

lemma dedent_margin_indents:
  "dedent_margin ls = (case indents ls of [] \<Rightarrow> [] | i # is \<Rightarrow> foldl common_prefix i is)"
  by (simp add: dedent_margin_def indents_def margin_step_fold margin_step_def [of None] split: list.splits)

lemma margin_prefix: "l \<in> set ls \<Longrightarrow> l \<noteq> [] \<Longrightarrow> prefix (dedent_margin ls) (takeWhile is_blank l)"
proof -
  assume "l \<in> set ls" "l \<noteq> []"
  then have "takeWhile is_blank l \<in> set (indents ls)" by (simp add: indents_def)
  then show ?thesis
    using foldl_common_prefix_prefix by (cases "indents ls") (auto simp: dedent_margin_indents)
qed

lemma margin_blank: "list_all is_blank (dedent_margin ls)"
proof (cases "indents ls")
  case (Cons i "is")
  then have "i \<in> set (indents ls)" by simp
  then have "list_all is_blank i" by (auto simp: indents_def list_all_iff dest: set_takeWhileD)
  moreover have "prefix (dedent_margin ls) i" using Cons foldl_common_prefix_prefix by (simp add: dedent_margin_indents)
  ultimately show ?thesis by (auto simp: prefix_def)
qed (simp add: dedent_margin_indents)

lemma takeWhile_drop_margin:
  assumes "list_all P m" "l = m @ t"
  shows "takeWhile P l = m @ takeWhile P t"
  using assms by (simp add: list_all_iff)

definition dedent_line :: "string \<Rightarrow> string \<Rightarrow> string" where
  "dedent_line margin l = (if startswith l margin then drop (length margin) l else l)"

lemma dedent_line_split:
  assumes "prepared ls" "l \<in> set ls" "l \<noteq> []"
  shows "l = dedent_margin ls @ dedent_line (dedent_margin ls) l \<and> dedent_line (dedent_margin ls) l \<noteq> []
    \<and> \<not> list_all is_blank (dedent_line (dedent_margin ls) l)"
proof -
  let ?m = "dedent_margin ls"
  have "prefix ?m l" using margin_prefix [OF assms(2,3)] takeWhile_is_prefix prefix_order.trans
    by (metis takeWhile_eq_take take_is_prefix)
  then obtain t where t: "l = ?m @ t" by (auto simp: prefix_def)
  then have d: "dedent_line ?m l = t" by (simp add: dedent_line_def startswith_iff)
  have "\<not> list_all is_blank l" using assms by (auto simp: prepared_def list_all_iff)
  then have "\<not> list_all is_blank t" using t margin_blank [of ls] by (auto simp: list_all_iff)
  then show ?thesis using t d by auto
qed

lemma dedent_line_Nil: "dedent_line m [] = []"
  by (simp add: dedent_line_def)

lemma prepared_dedent: "prepared ls \<Longrightarrow> prepared (map (dedent_line (dedent_margin ls)) ls)"
  using dedent_line_split [of ls] by (fastforce simp: prepared_def list_all_iff dedent_line_Nil)

lemma indents_dedent:
  assumes "prepared ls"
  shows "indents ls = map ((@) (dedent_margin ls)) (indents (map (dedent_line (dedent_margin ls)) ls))"
proof -
  let ?m = "dedent_margin ls"
  have "map (takeWhile is_blank) (filter (\<lambda>l. l \<noteq> []) xs) =
      map ((@) ?m) (map (takeWhile is_blank) (filter (\<lambda>l. l \<noteq> []) (map (dedent_line ?m) xs)))" if "set xs \<subseteq> set ls" for xs
    using that
  proof (induction xs)
    case (Cons l xs)
    show ?case
    proof (cases "l = []")
      case False
      from Cons.prems have "l \<in> set ls" by simp
      note s = dedent_line_split [OF assms this False]
      then have "takeWhile is_blank l = ?m @ takeWhile is_blank (dedent_line ?m l)"
        by (intro takeWhile_drop_margin [OF margin_blank]) simp
      with Cons False s show ?thesis by simp
    qed (use Cons in \<open>simp add: dedent_line_Nil\<close>)
  qed simp
  from this [of ls] show ?thesis by (simp add: indents_def)
qed

lemma margin_dedent:
  assumes "prepared ls"
  shows "dedent_margin (map (dedent_line (dedent_margin ls)) ls) = []"
proof (cases "indents (map (dedent_line (dedent_margin ls)) ls)")
  case (Cons i "is")
  then have "indents ls = (dedent_margin ls @ i) # map ((@) (dedent_margin ls)) is"
    using indents_dedent [OF assms] by simp
  then have "dedent_margin ls = dedent_margin ls @ foldl common_prefix i is"
    by (subst (1) dedent_margin_indents) (simp add: foldl_common_prefix_append)
  then have "foldl common_prefix i is = []" by simp
  then show ?thesis by (subst dedent_margin_indents) (simp add: Cons)
qed (subst dedent_margin_indents, simp)

lemma split_on_lines: "l \<in> set (split_on d s) \<Longrightarrow> d \<notin> set l"
  by (induction d s arbitrary: l rule: split_on.induct) (auto split: list.splits if_splits)

lemma split_on_join: "ls \<noteq> [] \<Longrightarrow> \<forall>l \<in> set ls. d \<notin> set l \<Longrightarrow> split_on d (join [d] ls) = ls"
proof (induction "[d]" ls rule: join.induct)
  case (3 w v ws)
  then show ?case using split_on_append_sep [of d w "join [d] (v # ws)"] by simp
qed (simp_all add: split_on_no_sep)

definition dedent_prepare :: "string \<Rightarrow> string list" where
  "dedent_prepare text = map (\<lambda>l. if list_all is_blank l then [] else l) (split_on (CHR 0x0A) text)"

lemma dedent_eq: "dedent text = join [CHR 0x0A] (map (dedent_line (dedent_margin (dedent_prepare text))) (dedent_prepare text))"
  by (simp only: dedent_def dedent_prepare_def dedent_line_def [abs_def] Let_def)

lemma prepared_prepare: "prepared (dedent_prepare text)"
  by (auto simp: prepared_def dedent_prepare_def list_all_iff)

lemma set_dedent_line: "set (dedent_line m l) \<subseteq> set l"
  by (auto simp: dedent_line_def dest: in_set_dropD)

lemma dedent_prepare_dedent:
  "dedent_prepare (dedent text) = map (dedent_line (dedent_margin (dedent_prepare text))) (dedent_prepare text)" (is "_ = ?ls")
proof -
  have "\<forall>l \<in> set ?ls. CHR 0x0A \<notin> set l"
    using set_dedent_line split_on_lines by (fastforce simp: dedent_prepare_def split: if_splits)
  moreover have "?ls \<noteq> []" by (simp add: dedent_prepare_def)
  ultimately have "split_on (CHR 0x0A) (dedent text) = ?ls" by (simp add: dedent_eq split_on_join)
  then have "dedent_prepare (dedent text) = map (\<lambda>l. if list_all is_blank l then [] else l) ?ls"
    by (simp add: dedent_prepare_def)
  also have "\<dots> = ?ls"
    using prepared_dedent [OF prepared_prepare, of "text"] by (intro map_idI) (auto simp: prepared_def list_all_iff)
  finally show ?thesis .
qed

lemma dedent_idem: "dedent (dedent text) = dedent text"
proof -
  let ?ls = "map (dedent_line (dedent_margin (dedent_prepare text))) (dedent_prepare text)"
  have "dedent (dedent text) = join [CHR 0x0A] (map (dedent_line []) ?ls)"
    by (subst dedent_eq) (simp add: dedent_prepare_dedent margin_dedent [OF prepared_prepare])
  also have "map (dedent_line []) ?ls = ?ls" by (simp add: dedent_line_def startswith_def)
  finally show ?thesis by (simp add: dedent_eq)
qed

lemma last_join: "ls \<noteq> [] \<Longrightarrow> last ls \<noteq> [] \<Longrightarrow> join sep ls \<noteq> [] \<and> last (join sep ls) = last (last ls)"
  by (induction sep ls rule: join.induct) auto

lemma last_split_on: "s \<noteq> [] \<Longrightarrow> last s \<noteq> d \<Longrightarrow> last (split_on d s) \<noteq> [] \<and> last (last (split_on d s)) = last s"
proof (induction d s rule: split_on.induct)
  case (2 d c s)
  show ?case
  proof (cases "s = []")
    case False
    with 2 have "last (split_on d s) \<noteq> [] \<and> last (last (split_on d s)) = last s" by auto
    with False show ?thesis by (cases "split_on d s") auto
  qed (use 2 in auto)
qed simp

lemma dedent_last:
  assumes "text \<noteq> []" "\<not> is_space (last text)"
  shows "dedent text \<noteq> [] \<and> last (dedent text) = last text"
proof -
  let ?ls = "dedent_prepare text" and ?m = "dedent_margin (dedent_prepare text)"
  have sp: "is_space (CHR 0x0A)" "\<And>c. is_blank c \<Longrightarrow> is_space c" by (auto simp: is_space_def is_blank_def cp_def)
  then have "last text \<noteq> CHR 0x0A" using assms(2) by metis
  then have l: "last (split_on (CHR 0x0A) text) \<noteq> [] \<and> last (last (split_on (CHR 0x0A) text)) = last text"
    by (rule last_split_on [OF assms(1)])
  then have "\<not> list_all is_blank (last (split_on (CHR 0x0A) text))" using assms(2) sp by (metis last_in_set list_all_iff)
  then have ll: "last ?ls = last (split_on (CHR 0x0A) text)" by (simp add: dedent_prepare_def last_map)
  have ne: "?ls \<noteq> []" by (simp add: dedent_prepare_def)
  have "last ?ls = ?m @ dedent_line ?m (last ?ls) \<and> dedent_line ?m (last ?ls) \<noteq> []"
    using dedent_line_split [OF prepared_prepare last_in_set [OF ne]] l ll by metis
  then have "dedent_line ?m (last ?ls) \<noteq> [] \<and> last (dedent_line ?m (last ?ls)) = last (last ?ls)" by (metis last_append)
  then show ?thesis using last_join [of "map (dedent_line ?m) ?ls" "[CHR 0x0A]"] ne l ll by (simp add: dedent_eq last_map)
qed

lemma py_strip_id: "s \<noteq> [] \<Longrightarrow> \<not> is_space (hd s) \<Longrightarrow> \<not> is_space (last s) \<Longrightarrow> py_strip s = s"
  using dropWhile_eq_self_iff [of is_space s] dropWhile_eq_self_iff [of is_space "rev s"]
  by (simp add: py_strip_def rstrip_by_def hd_rev)

section \<open>Properties\<close>


text \<open>The display form of an extracted block is idempotent, as its documentation states: normalizing an already
  normalized block changes nothing, so comparing frozen and live text in this form is stable.\<close>

theorem normalize_block_indent_idem:
  "normalize_block_indent (normalize_block_indent block) = normalize_block_indent block"
proof -
  let ?nl = "CHR 0x0A" and ?t = "py_strip block"
  define first where "first = takeWhile (\<lambda>c. c \<noteq> ?nl) ?t"
  define after where "after = dropWhile (\<lambda>c. c \<noteq> ?nl) ?t"
  have t: "?t = first @ after" by (simp add: first_def after_def)
  have nlf: "?nl \<notin> set first" by (auto simp: first_def dest: set_takeWhileD)
  have sp: "is_space ?nl" by (simp add: is_space_def cp_def)
  show ?thesis
  proof (cases after)
    case Nil
    then have "normalize_block_indent block = first"
      unfolding normalize_block_indent_def Let_def first_def [symmetric] after_def [symmetric] by simp
    moreover have "py_strip first = first" using t Nil by (metis append_Nil2 py_strip_idem)
    moreover have "takeWhile (\<lambda>c. c \<noteq> ?nl) first = first" "dropWhile (\<lambda>c. c \<noteq> ?nl) first = []"
      using nlf by (auto simp: takeWhile_eq_all_conv dropWhile_eq_Nil_conv)
    ultimately show ?thesis by (simp add: normalize_block_indent_def Let_def)
  next
    case (Cons c rst)
    then have c: "c = ?nl" using hd_dropWhile [of "\<lambda>c. c \<noteq> ?nl" ?t] by (simp add: after_def)
    have ne: "?t \<noteq> []" using t Cons by auto
    have hd: "\<not> is_space (hd ?t)" using ne py_strip_hd by (cases ?t) auto
    have la: "\<not> is_space (last ?t)" using ne by (rule py_strip_last)
    have f: "first \<noteq> []" using hd c sp t Cons by auto
    have r: "rst \<noteq> []" "last rst = last ?t" using la c sp t Cons by auto
    let ?n = "first @ [?nl] @ dedent rst"
    have n: "normalize_block_indent block = ?n"
      using Cons c unfolding normalize_block_indent_def Let_def first_def [symmetric] after_def [symmetric] by simp
    have dl: "dedent rst \<noteq> [] \<and> last (dedent rst) = last rst" using dedent_last [OF r(1)] la r(2) by simp
    have "hd ?n = hd ?t" using f t by (metis hd_append2)
    then have "py_strip ?n = ?n" using hd la r dl by (intro py_strip_id) auto
    moreover have "takeWhile (\<lambda>c. c \<noteq> ?nl) ?n = first" "dropWhile (\<lambda>c. c \<noteq> ?nl) ?n = ?nl # dedent rst"
      using nlf by (auto simp: takeWhile_append dropWhile_append)
    ultimately show ?thesis unfolding n by (simp add: normalize_block_indent_def Let_def dedent_idem)
  qed
qed

text \<open>The shape check is weaker than its documentation says: it accepts a content that carries a second
  top-level section, one of the blocked ones, between two blocks of the target section.\<close>

theorem section_block_check_admits_a_second_section:
  "is_valid_section_block ''sca'' ''<sca></sca><auth>x</auth><sca></sca>'' = (True, [])
   \<and> find_section_blocks ''<sca></sca><auth>x</auth><sca></sca>'' ''auth'' = [''<auth>x</auth>'']
   \<and> ''auth'' \<in> set BLOCKED_SECTIONS"
  by code_simp


end
