(* ===== verification/Rule_Tuning.thy ===== *)
theory Rule_Tuning
  imports Config_Change
begin

text \<open>
  Rule overrides in \<open>local_rules.xml\<close> (\<open>wazuh/rule_tuning.py\<close>): the rule-id and level checks, extracting a
  rule's block, rewriting it as an override, and adding or removing Wolf's marked override group.
\<close>

section \<open>Checks\<close>

definition OP_DISABLE_RULE :: string where "OP_DISABLE_RULE = ''disable_rule''"
definition OP_ADJUST_LEVEL :: string where "OP_ADJUST_LEVEL = ''adjust_level''"

definition RULE_TUNING_FORWARD_OPS :: "string list" where
  "RULE_TUNING_FORWARD_OPS = [OP_DISABLE_RULE, OP_ADJUST_LEVEL]"

definition LOCAL_RULES_FILENAME :: string where "LOCAL_RULES_FILENAME = ''local_rules.xml''"
definition LOCAL_RULES_DIRNAME :: string where "LOCAL_RULES_DIRNAME = ''etc/rules''"
definition DISABLE_LEVEL :: int where "DISABLE_LEVEL = 0"
definition WOLF_TUNING_GROUP :: string where "WOLF_TUNING_GROUP = ''wolf_tuning,''"

definition is_valid_rule_id :: "string \<Rightarrow> bool result" where
  "is_valid_rule_id value = (let s = py_strip value in
     if \<not> py_isdigit s then Inr False
     else case py_int s of None \<Rightarrow> Inl (PyError ''ValueError'' (''invalid literal for int() with base 10: '' @ repr_str s))
       | Some n \<Rightarrow> Inr (1 \<le> n \<and> n \<le> 999999))"

definition is_valid_level :: "pyval \<Rightarrow> bool" where
  "is_valid_level level = (case level of PInt n \<Rightarrow> 0 \<le> n \<and> n \<le> 16 | _ \<Rightarrow> False)"

section \<open>Override construction\<close>

text \<open>\<open><rule\\b([^>]*)>\<close>, \<open>\\blevel\\s*=\\s*"[^"]*"\<close> and \<open>\\boverwrite\\s*=\\s*"[^"]*"\<close>, ignoring case.\<close>

definition OPEN_TAG_RE :: regex where
  "OPEN_TAG_RE = seqs [lit_ci ''<rule'', WordB, Grp 1 (Star True (Cls (\<lambda>c. c \<noteq> CHR ''>''))), lit ''>'']"

definition attr_re :: "string \<Rightarrow> regex" where
  "attr_re name = seqs [WordB, lit_ci name, Star True (Cls is_space), lit ''='', Star True (Cls is_space),
     Cls (\<lambda>c. c = CHR 0x22), Star True (Cls (\<lambda>c. c \<noteq> CHR 0x22)), Cls (\<lambda>c. c = CHR 0x22)]"

definition rule_block_re :: "string \<Rightarrow> regex" where
  "rule_block_re rule_id = seqs [lit_ci ''<rule'', WordB, Star True (Cls (\<lambda>c. c \<noteq> CHR ''>'')), WordB, lit_ci ''id'',
     Star True (Cls is_space), lit ''='', Star True (Cls is_space), Cls (\<lambda>c. c = CHR 0x22), lit_ci rule_id,
     Cls (\<lambda>c. c = CHR 0x22), Star True (Cls (\<lambda>c. c \<noteq> CHR ''>'')), lit ''>'', Star False (Cls any_char), lit_ci ''</rule>'']"

definition extract_rule_block :: "string \<Rightarrow> string \<Rightarrow> string option" where
  "extract_rule_block xml_text rule_id = (case re_search (rule_block_re rule_id) xml_text of None \<Rightarrow> None
     | Some (_, m, _, _) \<Rightarrow> Some (normalize_block_indent m))"

definition quoted :: "string \<Rightarrow> string" where
  "quoted s = [CHR 0x22] @ s @ [CHR 0x22]"

definition set_attr :: "string \<Rightarrow> string \<Rightarrow> string \<Rightarrow> string" where
  "set_attr name value attrs = (let new = name @ ''='' @ quoted value in
     if re_search (attr_re name) attrs \<noteq> None then re_sub (attr_re name) new attrs
     else py_rstrip attrs @ '' '' @ new)"

definition build_override_block :: "string \<Rightarrow> pyval \<Rightarrow> string" where
  "build_override_block rule_block level = (let stripped = py_strip rule_block in
     case re_match OPEN_TAG_RE stripped of None \<Rightarrow> stripped
     | Some (_, rst, caps) \<Rightarrow>
        (let attrs = set_attr ''overwrite'' ''yes'' (set_attr ''level'' (py_str level) (group 1 caps))
         in ''<rule'' @ attrs @ ''>'' @ rst))"

definition minimal_override_block :: "string \<Rightarrow> pyval \<Rightarrow> string \<Rightarrow> string" where
  "minimal_override_block rule_id level description =
    (let d = py_strip (filter (\<lambda>c. c \<noteq> CHR ''<'' \<and> c \<noteq> CHR ''>'') description);
         safe_desc = (if d = [] then ''Tuned by Wolf'' else d)
     in ''<rule id='' @ quoted rule_id @ '' level='' @ quoted (py_str level) @ '' overwrite='' @ quoted ''yes'' @ ''>''
        @ ''<description>'' @ safe_desc @ ''</description></rule>'')"

section \<open>The marked override group\<close>

definition marker :: "string \<Rightarrow> string" where
  "marker rule_id = ''<!-- wolf-tuning:rule='' @ rule_id @ '' -->''"

definition tuning_block_re :: "string \<Rightarrow> regex" where
  "tuning_block_re rule_id = seqs [Star True (Cls (\<lambda>c. c = CHR 0x0A)), lit (marker rule_id), Star True (Cls is_space),
     lit (''<group name='' @ quoted WOLF_TUNING_GROUP @ ''>''), Star False (Cls any_char), lit ''</group>'']"

definition has_override :: "string \<Rightarrow> string \<Rightarrow> bool" where
  "has_override local_rules_xml rule_id \<longleftrightarrow> contains (marker rule_id) local_rules_xml"

definition strip_tuning_block :: "string \<Rightarrow> string \<Rightarrow> string" where
  "strip_tuning_block local_rules_xml rule_id = re_sub (tuning_block_re rule_id) [] local_rules_xml"

definition apply_override :: "string \<Rightarrow> string \<Rightarrow> string \<Rightarrow> string" where
  "apply_override local_rules_xml rule_id override_block =
    (let base = py_rstrip (strip_tuning_block local_rules_xml rule_id);
         nl = [CHR 0x0A];
         block = nl @ nl @ marker rule_id @ nl @ ''<group name='' @ quoted WOLF_TUNING_GROUP @ ''>'' @ nl
           @ ''  '' @ override_block @ nl @ ''</group>'' @ nl
     in base @ block)"

section \<open>Laws\<close>

lemma rmatch_Seq_consumes:
  assumes "q \<in> set (rmatch (Seq r1 r2) p)"
  obtains u a where "u \<in> set (rmatch r1 p)" "q \<in> set (rmatch r2 u)" "rest_of p = a @ rest_of u"
proof -
  from assms obtain u where u: "u \<in> set (rmatch r1 p)" "q \<in> set (rmatch r2 u)" by auto
  obtain a where a: "rest_of p = a @ rest_of u" using rmatch_suffix [OF u(1)] by (auto simp: suffix_def)
  show thesis by (rule that [OF u a])
qed

lemma rmatch_lit_consumes: "q \<in> set (rmatch (lit w) p) \<Longrightarrow> rest_of p = w @ rest_of q"
proof -
  assume q: "q \<in> set (rmatch (lit w) p)"
  obtain prev s caps where p: "p = (prev, s, caps)" by (cases p)
  with q have "startswith s w" "rest_of q = drop (length w) s" by (auto simp: rmatch_lit split: if_splits)
  then show ?thesis using p by (metis append_take_drop_id fst_conv snd_conv startswith_def)
qed

lemma re_search_from_match:
  "re_search_from r prev s = Some (a, m, caps, b) \<Longrightarrow> \<exists>prev' q. q \<in> set (rmatch r (prev', m @ b, [])) \<and> rest_of q = b"
proof (induction s arbitrary: prev a)
  case Nil
  then obtain q qs where "rmatch r (prev, [], []) = q # qs" "m = []" "b = rest_of q" by (auto simp: re_search_from.simps split: list.splits)
  moreover from this have "rest_of q = []" using rmatch_suffix [of q r "(prev, [], [])"] by simp
  ultimately show ?case by (metis append_Nil list.set_intros(1))
next
  case (Cons c s)
  show ?case
  proof (cases "rmatch r (prev, c # s, [])")
    case Nil
    with Cons.prems have "\<exists>a'. re_search_from r (Some c) s = Some (a', m, caps, b)"
      by (auto simp: re_search_from.simps [of r prev "c # s"])
    with Cons.IH show ?thesis by blast
  next
    case (Cons q qs)
    with Cons.prems have "b = rest_of q" "a = []" by (auto simp: re_search_from.simps [of r prev "c # s"])
    moreover have "c # s = a @ m @ b" using Cons.prems by (rule re_search_from_split)
    ultimately show ?thesis using Cons by (metis append_Nil list.set_intros(1))
  qed
qed

lemma re_iter_matches:
  "re_iter n r prev s = (ms, rst) \<Longrightarrow> (a, m, caps) \<in> set ms \<Longrightarrow> \<exists>prev' b q. q \<in> set (rmatch r (prev', m @ b, [])) \<and> rest_of q = b"
proof (induction n arbitrary: prev s ms rst a)
  case (Suc n)
  show ?case
  proof (cases "re_search_from r prev s")
    case None
    with Suc.prems show ?thesis by auto
  next
    case (Some f)
    obtain a1 m1 c1 b1 where f: "f = (a1, m1, c1, b1)" by (cases f)
    note hit = re_search_from_match [OF Some [unfolded f]]
    show ?thesis
    proof (cases "m1 = []")
      case False
      then obtain ms' where "re_iter n r (Some (last m1)) b1 = (ms', rst)" "ms = (a1, m1, c1) # ms'"
        using Suc.prems(1) Some f by (auto split: prod.splits)
      with Suc.IH hit Suc.prems(2) show ?thesis by auto
    next
      case True
      show ?thesis
      proof (cases b1)
        case Nil
        then have "m = m1" using True Suc.prems Some f by auto
        with hit show ?thesis by blast
      next
        case (Cons c t)
        obtain ms' rst' where it: "re_iter n r (Some c) t = (ms', rst')" by (cases "re_iter n r (Some c) t")
        then have "\<exists>a'. (a, m, caps) = (a1, m1, c1) \<or> (a', m, caps) \<in> set ms'"
          using True Suc.prems Some f Cons by (cases ms') (auto split: if_splits)
        with Suc.IH [OF it] hit show ?thesis by auto
      qed
    qed
  qed
qed simp

text \<open>Removing the matches of a pattern keeps the rest, in order; every removed piece is a match.\<close>

definition erased :: "(string \<Rightarrow> bool) \<Rightarrow> string \<Rightarrow> string \<Rightarrow> bool" where
  "erased Q s out \<longleftrightarrow> (\<exists>ms rst. s = concat (map (\<lambda>(a, m). a @ m) ms) @ rst \<and> out = concat (map fst ms) @ rst
     \<and> (\<forall>(a, m) \<in> set ms. Q m))"

lemma re_sub_erased:
  assumes "\<And>prev m b q. q \<in> set (rmatch r (prev, m @ b, [])) \<Longrightarrow> rest_of q = b \<Longrightarrow> Q m"
  shows "erased Q s (re_sub r [] s)"
proof -
  obtain ms rst where f: "re_finditer r s = (ms, rst)" by (cases "re_finditer r s")
  let ?ms = "map (\<lambda>(a, m, caps). (a, m)) ms"
  have "s = concat (map (\<lambda>(a, m). a @ m) ?ms) @ rst"
    unfolding re_finditer_split [OF f, symmetric] by (induction ms) auto
  moreover have "re_sub r [] s = concat (map fst ?ms) @ rst" unfolding re_sub_def f prod.case by (induction ms) auto
  moreover have "\<forall>(a, m) \<in> set ?ms. Q m"
    using re_iter_matches [OF f [unfolded re_finditer_def]] assms by fastforce
  ultimately show ?thesis unfolding erased_def by blast
qed

text \<open>What the tuning pattern can match: newlines, the rule's own marker, and a wolf_tuning group up to its end tag.\<close>

definition tuning_block :: "string \<Rightarrow> string \<Rightarrow> bool" where
  "tuning_block rule_id m \<longleftrightarrow> (\<exists>nls ws body. m = nls @ marker rule_id @ ws
     @ (''<group name='' @ quoted WOLF_TUNING_GROUP @ ''>'') @ body @ ''</group>'')"

lemma tuning_block_match:
  assumes "q \<in> set (rmatch (tuning_block_re rule_id) (prev, m @ b, []))" "rest_of q = b"
  shows "tuning_block rule_id m"
proof -
  let ?g = "''<group name='' @ quoted WOLF_TUNING_GROUP @ ''>''"
  from assms(1) obtain u1 a1 where 1: "m @ b = a1 @ rest_of u1"
      "q \<in> set (rmatch (seqs [lit (marker rule_id), Star True (Cls is_space), lit ?g, Star False (Cls any_char), lit ''</group>'']) u1)"
    unfolding tuning_block_re_def seqs.simps(3) [of "Star True (Cls (\<lambda>c. c = CHR 0x0A))"]
    by (elim rmatch_Seq_consumes) (simp only: fst_conv snd_conv)
  from 1(2) obtain u2 where 2: "rest_of u1 = marker rule_id @ rest_of u2"
      "q \<in> set (rmatch (seqs [Star True (Cls is_space), lit ?g, Star False (Cls any_char), lit ''</group>'']) u2)"
    unfolding seqs.simps(3) [of "lit (marker rule_id)"] by (elim rmatch_Seq_consumes) (use rmatch_lit_consumes in blast)
  from 2(2) obtain u3 a3 where 3: "rest_of u2 = a3 @ rest_of u3"
      "q \<in> set (rmatch (seqs [lit ?g, Star False (Cls any_char), lit ''</group>'']) u3)"
    unfolding seqs.simps(3) [of "Star True (Cls is_space)"] by (elim rmatch_Seq_consumes) blast
  from 3(2) obtain u4 where 4: "rest_of u3 = ?g @ rest_of u4"
      "q \<in> set (rmatch (seqs [Star False (Cls any_char), lit ''</group>'']) u4)"
    unfolding seqs.simps(3) [of "lit ?g"] by (elim rmatch_Seq_consumes) (use rmatch_lit_consumes in blast)
  from 4(2) obtain u5 a5 where 5: "rest_of u4 = a5 @ rest_of u5" "q \<in> set (rmatch (lit ''</group>'') u5)"
    unfolding seqs.simps(2,3) by (elim rmatch_Seq_consumes) blast
  have 6: "rest_of u5 = ''</group>'' @ b" using rmatch_lit_consumes [OF 5(2)] assms(2) by (simp only:)
  have "m @ b = (a1 @ marker rule_id @ a3 @ ?g @ a5 @ ''</group>'') @ b"
    unfolding 1(1) 2(1) 3(1) 4(1) 5(1) 6 by (simp only: append.assoc)
  then have "m = a1 @ marker rule_id @ a3 @ ?g @ a5 @ ''</group>''" by blast
  then show ?thesis unfolding tuning_block_def by blast
qed

lemma strip_tuning_block_erases: "erased (tuning_block rule_id) xml (strip_tuning_block xml rule_id)"
  unfolding strip_tuning_block_def by (rule re_sub_erased) (rule tuning_block_match)

lemma contains_append: "contains p s \<Longrightarrow> contains p (a @ s @ b)"
  by (auto simp: contains_iff sublist_def) (metis append.assoc)

lemma re_sub_contains:
  assumes "re_search r s \<noteq> None"
  shows "contains w (re_sub r w s)"
proof -
  obtain a m c b where f: "re_search_from r None s = Some (a, m, c, b)" using assms by (auto simp: re_search_def)
  obtain ms rst where it: "re_iter (Suc (length s)) r None s = (ms, rst)" by (cases "re_iter (Suc (length s)) r None s")
  then have "\<exists>a' m' c' ms'. ms = (a', m', c') # ms'"
    using f by (auto split: if_splits list.splits prod.splits)
  then obtain a' m' c' ms' where "ms = (a', m', c') # ms'" by blast
  then have "re_sub r w s = a' @ w @ (concat (map (\<lambda>(a, m, caps). a @ w) ms') @ rst)"
    using it by (simp add: re_sub_def re_finditer_def)
  then show ?thesis using contains_iff sublist_appendI by metis
qed

lemma set_attr_contains: "contains (name @ ''='' @ quoted v) (set_attr name v attrs)"
proof (cases "re_search (attr_re name) attrs = None")
  case True
  then show ?thesis by (auto simp: set_attr_def Let_def contains_iff sublist_def) (metis append.assoc append_Cons append_Nil append_Nil2)
next
  case False
  then show ?thesis using re_sub_contains [OF False] by (simp add: set_attr_def Let_def)
qed

lemma re_match_split: "re_match r s = Some (prev, rst, caps) \<Longrightarrow> \<exists>m. s = m @ rst"
  using rmatch_suffix [of "(prev, rst, caps)" r "(None, s, [])"]
  by (auto simp: re_match_def suffix_def split: list.splits)

section \<open>Properties\<close>

text \<open>Writing an override changes only Wolf's own marked blocks: the new file is the old one with pieces taken out,
  each of them a marked wolf_tuning group of that very rule with the newlines before it, trailing
  whitespace trimmed, and one new marked group with the given override appended; afterwards the
  override check succeeds.\<close>

theorem apply_override_touches_own_blocks_only:
  "\<exists>base. erased (tuning_block rule_id) xml base
     \<and> apply_override xml rule_id ov = py_rstrip base @ [CHR 0x0A, CHR 0x0A] @ marker rule_id @ [CHR 0x0A]
         @ ''<group name='' @ quoted WOLF_TUNING_GROUP @ ''>'' @ [CHR 0x0A] @ ''  '' @ ov @ [CHR 0x0A] @ ''</group>'' @ [CHR 0x0A]
     \<and> has_override (apply_override xml rule_id ov) rule_id"
proof (intro exI [of _ "strip_tuning_block xml rule_id"] conjI)
  show "apply_override xml rule_id ov = py_rstrip (strip_tuning_block xml rule_id) @ [CHR 0x0A, CHR 0x0A] @ marker rule_id @ [CHR 0x0A]
         @ ''<group name='' @ quoted WOLF_TUNING_GROUP @ ''>'' @ [CHR 0x0A] @ ''  '' @ ov @ [CHR 0x0A] @ ''</group>'' @ [CHR 0x0A]"
    by (simp add: apply_override_def Let_def)
  then show "has_override (apply_override xml rule_id ov) rule_id"
    unfolding has_override_def contains_iff by (metis append.assoc sublist_appendI)
qed (rule strip_tuning_block_erases)

text \<open>An override keeps the rule's matching conditions: everything after the opening tag, the whole inner body and
  the end tag, is carried over verbatim, the opening tag says \<open>overwrite="yes"\<close>, and a text that does not
  start with a rule tag is only stripped.\<close>

theorem build_override_block_keeps_body:
  "\<exists>tag body. py_strip rule_block = tag @ body
     \<and> (build_override_block rule_block level = py_strip rule_block
        \<or> (\<exists>attrs. build_override_block rule_block level = ''<rule'' @ attrs @ ''>'' @ body
             \<and> contains (''overwrite='' @ quoted ''yes'') attrs))"
proof (cases "re_match OPEN_TAG_RE (py_strip rule_block)")
  case None
  then show ?thesis by (auto simp: build_override_block_def)
next
  case (Some p)
  obtain prev rst caps where p: "p = (prev, rst, caps)" by (cases p)
  obtain tag where "py_strip rule_block = tag @ rst" using re_match_split Some p by blast
  moreover have "build_override_block rule_block level =
      ''<rule'' @ set_attr ''overwrite'' ''yes'' (set_attr ''level'' (py_str level) (group 1 caps)) @ ''>'' @ rst"
    using Some p by (simp add: build_override_block_def Let_def)
  moreover have "contains (''overwrite='' @ quoted ''yes'') (set_attr ''overwrite'' ''yes'' (set_attr ''level'' (py_str level) (group 1 caps)))"
    using set_attr_contains [of "''overwrite''" "''yes''"] by simp
  ultimately show ?thesis by blast
qed

text \<open>The rule-id check can crash instead of answering: a superscript two counts as a digit for \<open>isdigit\<close> and is
  refused by \<open>int\<close>, so the check raises \<open>ValueError\<close>.\<close>

theorem is_valid_rule_id_can_raise:
  "is_valid_rule_id [CHR 0xB2] = Inl (PyError ''ValueError'' (''invalid literal for int() with base 10: '' @ repr_str [CHR 0xB2]))"
  by (simp add: is_valid_rule_id_def py_strip_def rstrip_by_def is_space_def py_isdigit_def is_digit_char_def is_decimal_def
      py_int_def cp_def Let_def)

end
