(* ===== verification/Executors.thy ===== *)
theory Executors
  imports Reversal Server_Api Agent_Actions Rule_Tuning
begin

text \<open>
  Per-class execution (\<open>gateway/executors.py\<close>): for each action class the freshness re-check, the
  bounded write and the verification read that \<open>execute_proposal\<close> drives, forward and in reverse.

  A callable reads the database given to it and talks to the manager through the two clients of
  \<open>Server_Api\<close>; the bounded write returns the row's \<open>prior_state\<close> beside its result, as it assigns that
  column while it runs.  The context carries the endpoint both clients use and the credential's
  capabilities.  The long explanatory \<open>note\<close> texts are part of the results.
\<close>

section \<open>Shared pieces\<close>

definition sha256 :: "string \<Rightarrow> string" where
  "sha256 s = sha256_hex (utf8 s)"

record 'w exec_context =
  ctx_api :: "'w endpoint"
  ctx_capabilities :: capabilities

text \<open>\<open>(freshness, perform, verify)\<close>.\<close>

type_synonym ('d, 'w) callables = "('d, 'w wazuh) freshness_check \<times> ('d, 'w wazuh) perform_action \<times> 'w wazuh verify_action"

definition validation_ok :: "pyval \<Rightarrow> (bool \<times> string) result" where
  "validation_ok body =
    (case (case as_dict body of Some d \<Rightarrow> dget_or d ''data'' (PDict []) | None \<Rightarrow> PDict []) of
       PDict dat \<Rightarrow>
        Inr (if truthy (dget dat ''total_failed_items'')
          then (False, ''validation failed: '' @ take 300 (py_str (dget_or dat ''failed_items'' (PList []))))
          else case dget_or dat ''affected_items'' (PList []) of
             PList items \<Rightarrow>
              (let bad = filter (\<lambda>it. case as_dict it of Some d \<Rightarrow> dget d ''status'' \<noteq> PStr ''OK'' | None \<Rightarrow> False) items
               in if bad \<noteq> [] then (False, ''node validation not OK: '' @ take 300 (py_str (PList bad)))
                  else (True, ''ruleset valid on all nodes''))
           | _ \<Rightarrow> (True, ''ruleset valid on all nodes''))
     | _ \<Rightarrow> Inl (PyError ''AttributeError'' ''object has no attribute get''))"

text \<open>\<open>str(d.get(key, ""))\<close>.\<close>

definition text_of :: "dict \<Rightarrow> string \<Rightarrow> string" where
  "text_of d key = py_str (dget_or d key (PStr []))"

text \<open>Both agent-scoped classes re-read the agent.\<close>

definition agent_freshness :: "'w exec_context \<Rightarrow> ('d, 'w wazuh) freshness_check" where
  "agent_freshness ctx db p =
    (let agent_id = text_of (ap_target p) ''agent_id'' in
     io_bind (api_get (ctx_api ctx) ''/agents'' [(''agents_list'', agent_id)]) (\<lambda>body.
       io_return (rbind (pget body ''data'' (PDict [])) (\<lambda>dat.
         rbind (pget dat ''total_affected_items'' (PInt 0)) (\<lambda>total.
           if \<not> truthy total then Inr (False, ''Agent '' @ agent_id @ '' is no longer visible to the credential.'')
           else case as_int total of None \<Rightarrow> Inl (PyError ''TypeError'' ''>= not supported'')
             | Some n \<Rightarrow> Inr (if n \<ge> 1 then (True, ''Agent '' @ agent_id @ '' still present.'')
                 else (False, ''Agent '' @ agent_id @ '' is no longer visible to the credential.'')))))))"

section \<open>Active response\<close>

definition ar_perform :: "'w exec_context \<Rightarrow> ('d, 'w wazuh) perform_action" where
  "ar_perform ctx db p w =
    (let agent_id = text_of (ap_target p) ''agent_id''; params = ap_parameters p;
         arguments = (case dget_or params ''arguments'' (PList []) of PList xs \<Rightarrow> map py_str xs | _ \<Rightarrow> []);
         (r, w) = io_bind (resolve_agent_groups (ctx_api ctx) agent_id) (\<lambda>agent_groups.
           execute_active_response (ctx_api ctx) agent_id (ap_action p) (ctx_capabilities ctx) agent_groups
             (as_str (dget params ''srcip'')) (as_str (dget params ''username'')) arguments) w
     in (r, ap_prior_state p, w))"

definition ar_verify :: "'w wazuh verify_action" where
  "ar_verify p res = io_return (interpret_ar_result res)"

definition ar_forward :: "'w exec_context \<Rightarrow> ('d, 'w) callables" where
  "ar_forward ctx = (agent_freshness ctx, ar_perform ctx, ar_verify)"

definition ar_reverse :: "'w exec_context \<Rightarrow> ('z database_scheme, 'w) callables" where
  "ar_reverse ctx = (reversal_freshness, reversal_perform, reversal_verify)"

section \<open>Group management\<close>

definition ga_perform :: "'w exec_context \<Rightarrow> ('d, 'w wazuh) perform_action" where
  "ga_perform ctx db p w =
    (let agent_id = text_of (ap_target p) ''agent_id''; grp = text_of (ap_parameters p) ''group'';
         (r, w) = io_bind (resolve_agent_groups (ctx_api ctx) agent_id) (\<lambda>agent_groups.
           if ap_action p = OP_ASSIGN_GROUP
           then assign_agent_group (ctx_api ctx) agent_id grp (ctx_capabilities ctx) agent_groups
           else remove_agent_group (ctx_api ctx) agent_id grp (ctx_capabilities ctx) agent_groups) w
     in (r, ap_prior_state p, w))"

definition ga_verify :: "'w exec_context \<Rightarrow> 'w wazuh verify_action" where
  "ga_verify ctx p res =
    (let agent_id = text_of (ap_target p) ''agent_id''; grp = text_of (ap_parameters p) ''group'' in
     io_bind (resolve_agent_groups (ctx_api ctx) agent_id) (\<lambda>groups.
       (let ok = (if ap_action p = OP_ASSIGN_GROUP then grp \<in> set groups else grp \<notin> set groups) in
        io_return (Inr (ok, [(''ok'', PBool ok), (''agent_groups'', PList (map PStr groups)),
          (''note'', PStr (''agent '' @ agent_id @ '' group membership after '' @ ap_action p @ '' '' @ [CHR 0x27] @ grp @ [CHR 0x27] @ ''.''))])))))"

definition ga_verify_reverse :: "'w exec_context \<Rightarrow> 'w wazuh verify_action" where
  "ga_verify_reverse ctx p res = io_bind (ga_verify ctx p res) (\<lambda>(ok, detail).
     io_return (Inr (ok, dset ''reversal_state'' (PStr (if ok then REVERSAL_STATE_COMPLETED else ''failed'')) detail)))"

definition ga_forward :: "'w exec_context \<Rightarrow> ('d, 'w) callables" where
  "ga_forward ctx = (agent_freshness ctx, ga_perform ctx, ga_verify ctx)"

definition ga_reverse :: "'w exec_context \<Rightarrow> ('d, 'w) callables" where
  "ga_reverse ctx = (agent_freshness ctx, ga_perform ctx, ga_verify_reverse ctx)"

section \<open>Whole-file edits\<close>

text \<open>The two \<open>_write_and_validate\<close> methods are one scheme over the upload, the error class and the
  two refusal texts: upload, ask the manager to validate, and on a rejection upload the restore point
  (when there is one) before raising.\<close>

definition write_validated ::
  "'w exec_context \<Rightarrow> (string \<Rightarrow> 'w wazuh \<Rightarrow> pyval result \<times> 'w wazuh) \<Rightarrow> wolf_class \<Rightarrow> string \<Rightarrow> string \<Rightarrow> string
    \<Rightarrow> string \<Rightarrow> string option \<Rightarrow> 'w wazuh \<Rightarrow> string result \<times> 'w wazuh" where
  "write_validated ctx put cls edited restored rejected new_content rollback_to =
    io_bind (put new_content) (\<lambda>_.
    io_bind (api_get (ctx_api ctx) ''/manager/configuration/validation'' []) (\<lambda>body.
    io_bind (io_return (validation_ok body)) (\<lambda>(valid, detail).
      if valid then io_return (Inr detail)
      else case rollback_to of
          Some content \<Rightarrow> io_bind (put content) (\<lambda>_.
            io_return (Inl (Wolf cls (edited @ '' rejected ('' @ detail @ '')'' @ restored))))
        | None \<Rightarrow> io_return (Inl (Wolf cls (rejected @ '' rejected ('' @ detail @ '').''))))))"

section \<open>Rule tuning\<close>

definition rule_entries :: "'w exec_context \<Rightarrow> string \<Rightarrow> 'w wazuh \<Rightarrow> dict list result \<times> 'w wazuh" where
  "rule_entries ctx rule_id = io_bind (api_get (ctx_api ctx) ''/rules'' [(''rule_ids'', rule_id)]) (\<lambda>body.
     io_return (rbind (case as_dict body of None \<Rightarrow> Inr (PList [])
         | Some d \<Rightarrow> pget (dget_or d ''data'' (PDict [])) ''affected_items'' (PList [])) (\<lambda>items.
       Inr (case as_list items of None \<Rightarrow> [] | Some xs \<Rightarrow> [d. PDict d \<leftarrow> xs]))))"

definition pick_rule :: "dict list \<Rightarrow> dict option" where
  "pick_rule items = (case items of [] \<Rightarrow> None
     | first # _ \<Rightarrow> (case find (\<lambda>item. dget item ''filename'' = PStr LOCAL_RULES_FILENAME) items of
          Some item \<Rightarrow> Some item | None \<Rightarrow> Some first))"

definition resolve_rule :: "'w exec_context \<Rightarrow> string \<Rightarrow> 'w wazuh \<Rightarrow> dict option result \<times> 'w wazuh" where
  "resolve_rule ctx rule_id = io_bind (rule_entries ctx rule_id) (\<lambda>items. io_return (Inr (pick_rule items)))"

definition put_local_rules :: "'w exec_context \<Rightarrow> string \<Rightarrow> 'w wazuh \<Rightarrow> pyval result \<times> 'w wazuh" where
  "put_local_rules ctx content =
    update_rules_file (ctx_api ctx) LOCAL_RULES_FILENAME content (ctx_capabilities ctx) LOCAL_RULES_DIRNAME"

definition rules_write_and_validate :: "'w exec_context \<Rightarrow> string \<Rightarrow> string option \<Rightarrow> 'w wazuh \<Rightarrow> string result \<times> 'w wazuh" where
  "rules_write_and_validate ctx = write_validated ctx (put_local_rules ctx) RulesetValidationError
     ''Edited ruleset'' ''; restored the prior local_rules.xml. No change applied.'' ''Ruleset''"

definition read_rules_file :: "'w exec_context \<Rightarrow> string \<Rightarrow> string \<Rightarrow> 'w wazuh \<Rightarrow> string result \<times> 'w wazuh" where
  "read_rules_file ctx filename dirname =
    get_raw (ctx_api ctx) (''/rules/files/'' @ filename) [(''raw'', ''true''), (''relative_dirname'', dirname)]"

definition read_local_rules :: "'w exec_context \<Rightarrow> 'w wazuh \<Rightarrow> string result \<times> 'w wazuh" where
  "read_local_rules ctx = read_rules_file ctx LOCAL_RULES_FILENAME LOCAL_RULES_DIRNAME"

definition rt_freshness :: "'w exec_context \<Rightarrow> ('d, 'w wazuh) freshness_check" where
  "rt_freshness ctx db p =
    (if \<not> can (ctx_capabilities ctx) ACTION_UPDATE_RULES RESOURCE_LOCAL_RULES
     then io_return (Inr (False, ''Credential no longer holds rules:update (Superuser-scoped).''))
     else let rule_id = text_of (ap_target p) ''rule_id'' in
       io_bind (resolve_rule ctx rule_id) (\<lambda>rule. io_return (Inr (case rule of
           None \<Rightarrow> (False, ''Rule '' @ rule_id @ '' is no longer present.'')
         | Some r \<Rightarrow> (True, ''Rule '' @ rule_id @ '' present (level '' @ py_str (dget r ''level'') @ '').'')))))"

definition rt_level :: "action_proposal \<Rightarrow> pyval" where
  "rt_level p = (let level_param = dget (ap_parameters p) ''level'' in
     if ap_action p = OP_DISABLE_RULE \<or> as_int level_param = None then PInt DISABLE_LEVEL else level_param)"

definition rules_prior_state :: "string \<Rightarrow> dict" where
  "rules_prior_state snapshot = [(''filename'', PStr LOCAL_RULES_FILENAME), (''relative_dirname'', PStr LOCAL_RULES_DIRNAME),
     (''content'', PStr snapshot), (''sha256'', PStr (sha256 snapshot))]"

definition tuned_content :: "string \<Rightarrow> string \<Rightarrow> string \<Rightarrow> pyval \<Rightarrow> string" where
  "tuned_content snapshot source_raw rule_id level =
    apply_override snapshot rule_id
      (case extract_rule_block source_raw rule_id of
         Some block \<Rightarrow> build_override_block block level
       | None \<Rightarrow> minimal_override_block rule_id level (''Tuned by Wolf (level '' @ py_str level @ '')''))"

definition rt_apply :: "'w exec_context \<Rightarrow> action_proposal \<Rightarrow> dict \<Rightarrow> string \<Rightarrow> 'w wazuh \<Rightarrow> pyval result \<times> 'w wazuh" where
  "rt_apply ctx p rule snapshot =
    (let rule_id = text_of (ap_target p) ''rule_id''; level = rt_level p;
         src_file = py_str (py_or (dget rule ''filename'') (PStr LOCAL_RULES_FILENAME));
         src_dir = py_str (py_or (dget rule ''relative_dirname'') (PStr LOCAL_RULES_DIRNAME)) in
     io_bind (if src_file = LOCAL_RULES_FILENAME then io_return (Inr snapshot) else read_rules_file ctx src_file src_dir) (\<lambda>source_raw.
     io_bind (rules_write_and_validate ctx (tuned_content snapshot source_raw rule_id level) (Some snapshot)) (\<lambda>validation.
     io_bind (read_local_rules ctx) (\<lambda>reread.
     if \<not> has_override reread rule_id
     then io_bind (put_local_rules ctx snapshot) (\<lambda>_. io_return (Inl (Wolf RulesetValidationError
        (''Override for rule '' @ rule_id @ '' did not persist to local_rules.xml; restored the prior file. No change applied.''))))
     else io_bind (rule_entries ctx rule_id) (\<lambda>entries.
       io_bind (restart_cluster (ctx_api ctx) (ctx_capabilities ctx)) (\<lambda>_.
       io_return (Inr (PDict [(''rule_id'', PStr rule_id), (''target_level'', level), (''source_filename'', PStr src_file),
         (''validation'', PStr validation), (''restart_issued'', PBool True), (''prior_sha256'', PStr (sha256 snapshot)),
         (''override_written'', PBool True),
         (''levels'', PList (map (\<lambda>e. PDict [(''level'', dget e ''level''), (''filename'', dget e ''filename'')]) entries)),
         (''target_level_in_ruleset'', PBool (list_ex (\<lambda>e. dget e ''filename'' = PStr LOCAL_RULES_FILENAME
            \<and> py_eq level (dget e ''level'')) entries))]))))))))"

definition rt_perform :: "'w exec_context \<Rightarrow> ('d, 'w wazuh) perform_action" where
  "rt_perform ctx db p w =
    (let rule_id = text_of (ap_target p) ''rule_id'' in
     case io_bind (resolve_rule ctx rule_id) (\<lambda>rule. case rule of
         None \<Rightarrow> io_return (Inl (Wolf RulesetValidationError (''Rule '' @ rule_id @ '' not found; cannot tune.'')))
       | Some r \<Rightarrow> io_bind (read_local_rules ctx) (\<lambda>snapshot. io_return (Inr (r, snapshot)))) w of
       (Inl e, w) \<Rightarrow> (Inl e, ap_prior_state p, w)
     | (Inr (rule, snapshot), w) \<Rightarrow>
        (case rt_apply ctx p rule snapshot w of (r, w) \<Rightarrow> (r, Some (rules_prior_state snapshot), w)))"

definition rt_verify :: "'w wazuh verify_action" where
  "rt_verify p r = (let res = dict_or_empty r; ok = truthy (dget res ''override_written'') in
     io_return (Inr (ok, [(''ok'', PBool ok), (''rule_id'', dget res ''rule_id''), (''target_level'', dget res ''target_level''),
       (''override_written'', dget res ''override_written''), (''target_level_in_ruleset'', dget res ''target_level_in_ruleset''),
       (''levels'', dget res ''levels''), (''filename'', PStr LOCAL_RULES_FILENAME), (''validation'', dget res ''validation''),
       (''restart_issued'', dget_or res ''restart_issued'' (PBool True)),
       (''note'', PStr ''Override written to local_rules.xml + ruleset validated + cluster restart issued. The change becomes active ~15-30s after the restart completes (live reload measured ~18s).'')])))"

definition rt_forward :: "'w exec_context \<Rightarrow> ('d, 'w) callables" where
  "rt_forward ctx = (rt_freshness ctx, rt_perform ctx, rt_verify)"

text \<open>The row a reversal links to, and its snapshot.\<close>

definition original_of :: "'z database_scheme \<Rightarrow> action_proposal \<Rightarrow> action_proposal option" where
  "original_of db p = Option.bind (ap_reverses_proposal_id p) (get_row db)"

definition prior_of :: "action_proposal option \<Rightarrow> dict" where
  "prior_of original = (case original of None \<Rightarrow> [] | Some q \<Rightarrow> (case ap_prior_state q of Some d \<Rightarrow> d | None \<Rightarrow> []))"

definition rt_reverse_freshness :: "('z database_scheme, 'w) freshness_check" where
  "rt_reverse_freshness db p = io_return (Inr (case original_of db p of
       None \<Rightarrow> (False, ''The original rule_tuning proposal is no longer present.'')
     | Some original \<Rightarrow>
         if ap_state original = RolledBack then (False, ''The rule change has already been reversed.'')
         else if \<not> truthy (dget (prior_of (Some original)) ''content'') then (False, ''No captured prior_state snapshot to restore.'')
         else (True, ''Prior local_rules.xml snapshot present (original '' @ uuid_str (ap_id original) @ '').'')))"

definition rt_reverse_perform :: "'w exec_context \<Rightarrow> ('z database_scheme, 'w wazuh) perform_action" where
  "rt_reverse_perform ctx db p w =
    (let original = original_of db p;
         content = text_of (prior_of original) ''content'';
         rule_id = (case original of Some q \<Rightarrow> text_of (ap_target q) ''rule_id'' | None \<Rightarrow> []);
         (r, w) = io_bind (rules_write_and_validate ctx content None) (\<lambda>validation.
           io_bind (if rule_id \<noteq> [] then io_bind (read_local_rules ctx) (\<lambda>raw. io_return (Inr (\<not> has_override raw rule_id)))
               else io_return (Inr True)) (\<lambda>override_removed.
           io_bind (restart_cluster (ctx_api ctx) (ctx_capabilities ctx)) (\<lambda>_.
           io_return (Inr (PDict [(''restored_from'', PStr (case original of Some q \<Rightarrow> uuid_str (ap_id q) | None \<Rightarrow> [])),
             (''rule_id'', PStr rule_id), (''validation'', PStr validation), (''restart_issued'', PBool True),
             (''override_removed'', PBool override_removed)]))))) w
     in (r, ap_prior_state p, w))"

definition rt_reverse_verify :: "'w wazuh verify_action" where
  "rt_reverse_verify p r = (let res = dict_or_empty r; ok = truthy (dget_or res ''override_removed'' (PBool True)) in
     io_return (Inr (ok, [(''ok'', PBool ok), (''restored_from'', dget res ''restored_from''), (''rule_id'', dget res ''rule_id''),
       (''override_removed'', dget_or res ''override_removed'' (PBool True)), (''validation'', dget res ''validation''),
       (''restart_issued'', dget_or res ''restart_issued'' (PBool True)),
       (''reversal_state'', PStr (if ok then REVERSAL_STATE_COMPLETED else ''failed'')),
       (''note'', PStr ''Restored local_rules.xml to its pre-tuning snapshot (override removed) + validated + cluster restart issued. The rule reverts ~15-30s after the restart completes.'')])))"

definition rt_reverse :: "'w exec_context \<Rightarrow> ('z database_scheme, 'w) callables" where
  "rt_reverse ctx = (rt_reverse_freshness, rt_reverse_perform ctx, rt_reverse_verify)"

section \<open>Configuration change\<close>

definition read_config :: "'w exec_context \<Rightarrow> 'w wazuh \<Rightarrow> string result \<times> 'w wazuh" where
  "read_config ctx = get_raw (ctx_api ctx) ''/manager/configuration'' [(''raw'', ''true'')]"

definition read_node_config :: "'w exec_context \<Rightarrow> string \<Rightarrow> 'w wazuh \<Rightarrow> string result \<times> 'w wazuh" where
  "read_node_config ctx node_name = io_bind (io_return (node_configuration_path node_name)) (\<lambda>path.
     get_raw (ctx_api ctx) path [(''raw'', ''true'')])"

definition is_cluster :: "action_proposal \<Rightarrow> bool" where
  "is_cluster p \<longleftrightarrow> dget (ap_parameters p) ''deployment'' = PStr ''cluster''"

definition node_targets :: "action_proposal \<Rightarrow> (string \<times> string) list" where
  "node_targets p = (case dget (ap_parameters p) ''node_current_contents'' of
     PDict raw \<Rightarrow> map (\<lambda>(k, v). (k, py_str v)) raw | _ \<Rightarrow> [])"

definition live_target_blocks :: "string \<Rightarrow> action_proposal \<Rightarrow> string list" where
  "live_target_blocks raw p = (let section = text_of (ap_target p) ''section'' in
     if ap_action p = OP_UPDATE_SECTION then find_section_blocks raw section
     else find_identified_blocks raw section (text_of (ap_target p) ''block_key''))"

definition described :: "action_proposal \<Rightarrow> string" where
  "described p = (let block_key = text_of (ap_target p) ''block_key'' in
     ''<'' @ text_of (ap_target p) ''section'' @ ''>'' @ (if block_key \<noteq> [] then '' '' @ [CHR 0x27] @ block_key @ [CHR 0x27] else []))"

definition target_fresh_against :: "string \<Rightarrow> action_proposal \<Rightarrow> string \<Rightarrow> string \<Rightarrow> bool \<times> string" where
  "target_fresh_against raw p frozen0 where =
    (let frozen = normalize_block_indent frozen0; blocks = live_target_blocks raw p in
     if frozen = [] then
       if blocks \<noteq> [] then (False, described p @ '' now exists in '' @ where
         @ '' but this proposal ADDS it - the config changed since it was proposed. Re-propose against the current configuration.'')
       else (True, described p @ '' still absent - the add applies cleanly.'')
     else if length blocks \<noteq> 1 then (False, described p @ '' appears '' @ show_nat (length blocks) @ '' time(s) in '' @ where
         @ '' - it must appear exactly once to be edited.'')
     else if normalize_block_indent (hd blocks) \<noteq> frozen then (False, described p @ '' has changed in '' @ where
         @ '' since this was proposed - the approver's diff is stale. Re-propose against the current configuration.'')
     else (True, described p @ '' present once and unchanged since proposal.''))"

definition target_fresh :: "string \<Rightarrow> action_proposal \<Rightarrow> bool \<times> string" where
  "target_fresh raw p = target_fresh_against raw p (text_of (ap_parameters p) ''current_content'') ''ossec.conf''"

definition put_config :: "'w exec_context \<Rightarrow> string \<Rightarrow> 'w wazuh \<Rightarrow> pyval result \<times> 'w wazuh" where
  "put_config ctx content = update_manager_configuration (ctx_api ctx) content (ctx_capabilities ctx)"

definition config_write_and_validate :: "'w exec_context \<Rightarrow> string \<Rightarrow> string option \<Rightarrow> 'w wazuh \<Rightarrow> string result \<times> 'w wazuh" where
  "config_write_and_validate ctx = write_validated ctx (put_config ctx) ConfigValidationError
     ''Edited configuration'' ''; restored the prior ossec.conf. No change applied.'' ''Configuration''"

definition change_persisted :: "string \<Rightarrow> action_proposal \<Rightarrow> string \<Rightarrow> bool" where
  "change_persisted raw p new_block =
    (let section = text_of (ap_target p) ''section''; block_key = text_of (ap_target p) ''block_key'' in
     if ap_action p = OP_UPDATE_SECTION then section_persisted raw section new_block
     else if ap_action p = OP_UPSERT_BLOCK then block_persisted raw section block_key new_block
     else block_removed raw section block_key)"

fun nodes_fresh :: "'w exec_context \<Rightarrow> action_proposal \<Rightarrow> string list \<Rightarrow> (string \<times> string) list \<Rightarrow> 'w wazuh
    \<Rightarrow> (bool \<times> string) option result \<times> 'w wazuh" where
  "nodes_fresh ctx p live [] = io_return (Inr None)"
| "nodes_fresh ctx p live ((name, frozen) # rest) =
    (if name \<notin> set live
     then io_return (Inr (Some (False, ''Cluster node '' @ repr_str name
       @ '' is no longer in the cluster - re-propose against the current topology.'')))
     else io_bind (read_node_config ctx name) (\<lambda>raw.
       case target_fresh_against raw p frozen (''node '' @ repr_str name) of
         (ok, reason) \<Rightarrow> if \<not> ok then io_return (Inr (Some (False, reason))) else nodes_fresh ctx p live rest))"

definition cluster_freshness :: "'w exec_context \<Rightarrow> action_proposal \<Rightarrow> 'w wazuh \<Rightarrow> (bool \<times> string) result \<times> 'w wazuh" where
  "cluster_freshness ctx p w =
    (if \<not> can (ctx_capabilities ctx) ACTION_UPDATE_CLUSTER_CONFIG RESOURCE_NODE_ANY
     then (Inr (False, ''Credential no longer holds cluster:update_config (Superuser-scoped).''), w)
     else case get_cluster_nodes (ctx_api ctx) w of
       (Inl exc, w) \<Rightarrow> (Inr (False, ''Could not re-read the cluster node inventory ('' @ exn_str exc @ '').''), w)
     | (Inr nodes, w) \<Rightarrow>
        if nodes = []
        then (Inr (False, ''The deployment is no longer a distributed cluster - re-propose against the current all-in-one configuration.''), w)
        else io_bind (nodes_fresh ctx p (map mn_name nodes) (node_targets p)) (\<lambda>refusal. io_return (Inr (case refusal of
            Some r \<Rightarrow> r
          | None \<Rightarrow> (True, ''All '' @ show_nat (length (node_targets p)) @ '' in-scope node(s) present and unchanged since proposal.'')))) w)"


definition new_block_of :: "action_proposal \<Rightarrow> string" where
  "new_block_of p = py_strip (text_of (ap_parameters p) ''section_content'')"

definition candidate_of :: "action_proposal \<Rightarrow> string \<Rightarrow> string option" where
  "candidate_of p raw = build_candidate raw (ap_action p) (text_of (ap_target p) ''section'')
     (text_of (ap_target p) ''block_key'') (new_block_of p)"

definition put_node_config :: "'w exec_context \<Rightarrow> string \<Rightarrow> string \<Rightarrow> 'w wazuh \<Rightarrow> pyval result \<times> 'w wazuh" where
  "put_node_config ctx name content = update_node_configuration (ctx_api ctx) name content (ctx_capabilities ctx)"

text \<open>The first loop of \<open>_cluster_perform\<close>: every node's snapshot and edited file, before any write.\<close>

fun node_edits :: "'w exec_context \<Rightarrow> action_proposal \<Rightarrow> string list \<Rightarrow> 'w wazuh \<Rightarrow> (string \<times> string \<times> string) list result \<times> 'w wazuh" where
  "node_edits ctx p [] = io_return (Inr [])"
| "node_edits ctx p (name # names) = io_bind (read_node_config ctx name) (\<lambda>snap.
     case candidate_of p snap of
       None \<Rightarrow> io_return (Inl (Wolf ConfigValidationError (''The change no longer applies cleanly to node '' @ repr_str name
         @ '' ('' @ ap_action p @ '' on '' @ described p @ ''); cannot edit. No change applied.'')))
     | Some candidate \<Rightarrow> io_bind (node_edits ctx p names) (\<lambda>edits. io_return (Inr ((name, snap, candidate) # edits))))"

definition cluster_prior_state :: "(string \<times> string \<times> string) list \<Rightarrow> dict" where
  "cluster_prior_state edits = [(''kind'', PStr ''cluster_configuration''),
     (''nodes'', PDict (map (\<lambda>(name, snap, _). (name, PDict [(''content'', PStr snap), (''sha256'', PStr (sha256 snap))])) edits))]"

text \<open>\<open>_restore_all\<close>, on the nodes already written, each with its snapshot.\<close>

fun restore_all :: "'w exec_context \<Rightarrow> (string \<times> string) list \<Rightarrow> 'w wazuh \<Rightarrow> unit result \<times> 'w wazuh" where
  "restore_all ctx [] = io_return (Inr ())"
| "restore_all ctx ((name, snap) # written) = io_bind (put_node_config ctx name snap) (\<lambda>_. restore_all ctx written)"

text \<open>The write loop; the second component is \<open>written\<close> (with the snapshots) when the loop ends or raises.\<close>

fun write_nodes :: "'w exec_context \<Rightarrow> (string \<times> string \<times> string) list \<Rightarrow> 'w wazuh
    \<Rightarrow> unit result \<times> (string \<times> string) list \<times> 'w wazuh" where
  "write_nodes ctx [] w = (Inr (), [], w)"
| "write_nodes ctx ((name, snap, candidate) # edits) w = (case put_node_config ctx name candidate w of
     (Inl e, w) \<Rightarrow> (Inl e, [], w)
   | (Inr _, w) \<Rightarrow> (case write_nodes ctx edits w of (r, written, w) \<Rightarrow> (r, (name, snap) # written, w)))"

fun nodes_persisted :: "'w exec_context \<Rightarrow> action_proposal \<Rightarrow> (string \<times> string) list \<Rightarrow> (string \<times> string) list \<Rightarrow> 'w wazuh
    \<Rightarrow> unit result \<times> 'w wazuh" where
  "nodes_persisted ctx p written [] = io_return (Inr ())"
| "nodes_persisted ctx p written ((name, snap) # rest) = io_bind (read_node_config ctx name) (\<lambda>reread.
     if \<not> change_persisted reread p (new_block_of p)
     then io_bind (restore_all ctx written) (\<lambda>_. io_return (Inl (Wolf ConfigValidationError
       (''Change to '' @ described p @ '' did not persist on node '' @ repr_str name @ ''; restored the prior file on all ''
         @ show_nat (length written) @ '' node(s). No change applied.''))))
     else nodes_persisted ctx p written rest)"

text \<open>The rest of the \<open>try\<close> body, once every node is written.\<close>

definition cluster_check :: "'w exec_context \<Rightarrow> action_proposal \<Rightarrow> (string \<times> string) list \<Rightarrow> 'w wazuh \<Rightarrow> string result \<times> 'w wazuh" where
  "cluster_check ctx p written =
    io_bind (api_get (ctx_api ctx) ''/cluster/configuration/validation'' []) (\<lambda>body.
    io_bind (io_return (validation_ok body)) (\<lambda>(valid, detail).
      if \<not> valid
      then io_bind (restore_all ctx written) (\<lambda>_. io_return (Inl (Wolf ConfigValidationError
        (''Edited configuration rejected ('' @ detail @ ''); restored the prior ossec.conf on all ''
          @ show_nat (length written) @ '' node(s). No change applied.''))))
      else io_bind (nodes_persisted ctx p written written) (\<lambda>_. io_return (Inr detail))))"

fun is_config_validation_error :: "exn \<Rightarrow> bool" where
  "is_config_validation_error (Wolf cls m) = (cls = ConfigValidationError)"
| "is_config_validation_error _ = False"

text \<open>The \<open>try\<close> with its two handlers.\<close>

definition cluster_apply :: "'w exec_context \<Rightarrow> action_proposal \<Rightarrow> (string \<times> string \<times> string) list \<Rightarrow> 'w wazuh \<Rightarrow> string result \<times> 'w wazuh" where
  "cluster_apply ctx p edits w =
    (case write_nodes ctx edits w of (r, written, w) \<Rightarrow>
     (case (case r of Inl e \<Rightarrow> (Inl e, w) | Inr _ \<Rightarrow> cluster_check ctx p written w) of
        (Inr detail, w) \<Rightarrow> (Inr detail, w)
      | (Inl e, w) \<Rightarrow> if is_config_validation_error e then (Inl e, w)
          else io_bind (restore_all ctx written) (\<lambda>_. io_return (Inl e)) w))"

definition cluster_perform :: "'w exec_context \<Rightarrow> action_proposal \<Rightarrow> 'w wazuh \<Rightarrow> pyval result \<times> dict option \<times> 'w wazuh" where
  "cluster_perform ctx p w =
    (case node_edits ctx p (map fst (node_targets p)) w of
       (Inl e, w) \<Rightarrow> (Inl e, ap_prior_state p, w)
     | (Inr edits, w) \<Rightarrow>
        (case io_bind (cluster_apply ctx p edits) (\<lambda>detail.
            io_bind (restart_cluster (ctx_api ctx) (ctx_capabilities ctx)) (\<lambda>_.
            io_return (Inr (PDict [(''section'', PStr (text_of (ap_target p) ''section'')),
              (''block_key'', PStr (text_of (ap_target p) ''block_key'')), (''operation'', PStr (ap_action p)),
              (''deployment'', PStr ''cluster''), (''nodes_applied'', PList (map (PStr \<circ> fst) edits)),
              (''validation'', PStr detail), (''restart_issued'', PBool True), (''section_updated'', PBool True)])))) w of
           (r, w) \<Rightarrow> (r, Some (cluster_prior_state edits), w)))"

definition cc_freshness :: "'w exec_context \<Rightarrow> ('d, 'w wazuh) freshness_check" where
  "cc_freshness ctx db p =
    (if is_cluster p then cluster_freshness ctx p
     else if \<not> can (ctx_capabilities ctx) ACTION_UPDATE_MANAGER_CONFIG RESOURCE_ANY
     then io_return (Inr (False, ''Credential no longer holds manager:update_config (Superuser-scoped).''))
     else io_bind (read_config ctx) (\<lambda>raw. io_return (Inr (target_fresh raw p))))"

definition config_prior_state :: "string \<Rightarrow> dict" where
  "config_prior_state snapshot = [(''kind'', PStr ''manager_configuration''), (''content'', PStr snapshot),
     (''sha256'', PStr (sha256 snapshot))]"

definition cc_apply :: "'w exec_context \<Rightarrow> action_proposal \<Rightarrow> string \<Rightarrow> 'w wazuh \<Rightarrow> pyval result \<times> 'w wazuh" where
  "cc_apply ctx p snapshot = (case candidate_of p snapshot of
      None \<Rightarrow> io_return (Inl (Wolf ConfigValidationError (''The change no longer applies cleanly to ossec.conf ('' @ ap_action p
        @ '' on '' @ described p @ ''); cannot edit. No change applied.'')))
    | Some new_content \<Rightarrow>
       io_bind (config_write_and_validate ctx new_content (Some snapshot)) (\<lambda>validation.
       io_bind (read_config ctx) (\<lambda>reread.
       if \<not> change_persisted reread p (new_block_of p)
       then io_bind (put_config ctx snapshot) (\<lambda>_.
         (let live = live_target_blocks reread p;
              seen = (case live of [b] \<Rightarrow> take 300 (normalize_block_indent b)
                | _ \<Rightarrow> show_nat (length live) @ '' occurrence(s)'')
          in io_return (Inl (Wolf ConfigValidationError (''Change to '' @ described p
            @ '' did not persist to ossec.conf; restored the prior file. No change applied. (Target read back: '' @ seen @ '')'')))))
       else io_bind (restart_cluster (ctx_api ctx) (ctx_capabilities ctx)) (\<lambda>_.
         io_return (Inr (PDict [(''section'', PStr (text_of (ap_target p) ''section'')),
           (''block_key'', PStr (text_of (ap_target p) ''block_key'')), (''operation'', PStr (ap_action p)),
           (''deployment'', PStr ''single''), (''nodes_applied'', PList []), (''validation'', PStr validation),
           (''restart_issued'', PBool True), (''prior_sha256'', PStr (sha256 snapshot)),
           (''new_sha256'', PStr (sha256 reread)), (''section_updated'', PBool True)]))))))"

definition cc_perform :: "'w exec_context \<Rightarrow> ('d, 'w wazuh) perform_action" where
  "cc_perform ctx db p w =
    (if is_cluster p then cluster_perform ctx p w
     else case read_config ctx w of
       (Inl e, w) \<Rightarrow> (Inl e, ap_prior_state p, w)
     | (Inr snapshot, w) \<Rightarrow>
        (case cc_apply ctx p snapshot w of (r, w) \<Rightarrow> (r, Some (config_prior_state snapshot), w)))"

text \<open>\<open>f"{len(nodes)} cluster node(s) ({', '.join(nodes)})"\<close> or the all-in-one manager.\<close>

definition applied_where :: "dict \<Rightarrow> string \<Rightarrow> string" where
  "applied_where res key = (let nodes = (case dget res key of PList xs \<Rightarrow> map py_str xs | _ \<Rightarrow> []) in
     if dget res ''deployment'' = PStr ''cluster''
     then show_nat (length nodes) @ '' cluster node(s) ('' @ join '', '' nodes @ '')'' else ''ossec.conf (all-in-one manager)'')"

definition cc_verify :: "'w wazuh verify_action" where
  "cc_verify p r = (let res = dict_or_empty r; ok = truthy (dget res ''section_updated'') in
     io_return (Inr (ok, [(''ok'', PBool ok), (''section'', dget res ''section''), (''block_key'', dget res ''block_key''),
       (''operation'', dget res ''operation''), (''deployment'', dget_or res ''deployment'' (PStr ''single'')),
       (''nodes_applied'', py_or (dget res ''nodes_applied'') (PList [])), (''section_updated'', dget res ''section_updated''),
       (''validation'', dget res ''validation''), (''restart_issued'', dget_or res ''restart_issued'' (PBool True)),
       (''prior_sha256'', dget res ''prior_sha256''), (''new_sha256'', dget res ''new_sha256''),
       (''note'', PStr (''Change applied to '' @ applied_where res ''nodes_applied''
         @ '' + configuration validated + cluster restart issued. The change becomes active ~15-30s after the restart completes.''))])))"

definition cc_forward :: "'w exec_context \<Rightarrow> ('d, 'w) callables" where
  "cc_forward ctx = (cc_freshness ctx, cc_perform ctx, cc_verify)"

definition cc_reverse_freshness :: "('z database_scheme, 'w) freshness_check" where
  "cc_reverse_freshness db p = io_return (Inr (case original_of db p of
       None \<Rightarrow> (False, ''The original config_change proposal is no longer present.'')
     | Some original \<Rightarrow> (let prior = prior_of (Some original) in
         if ap_state original = RolledBack then (False, ''The configuration change has already been reversed.'')
         else if prior = [] then (False, ''No captured prior_state snapshot to restore.'')
         else if dget prior ''kind'' = PStr ''cluster_configuration''
         then (case dget prior ''nodes'' of
            PDict (n # ns) \<Rightarrow> (True, ''Prior per-node snapshots present (original '' @ uuid_str (ap_id original) @ '').'')
          | _ \<Rightarrow> (False, ''No captured per-node snapshots to restore.''))
         else if \<not> truthy (dget prior ''content'') then (False, ''No captured prior_state snapshot to restore.'')
         else (True, ''Prior ossec.conf snapshot present (original '' @ uuid_str (ap_id original) @ '').''))))"

text \<open>The restore loop of a cluster reversal: the nodes whose re-read file is the snapshot, and whether all are.\<close>

fun restore_nodes :: "'w exec_context \<Rightarrow> (string \<times> pyval) list \<Rightarrow> 'w wazuh \<Rightarrow> (string list \<times> bool) result \<times> 'w wazuh" where
  "restore_nodes ctx [] = io_return (Inr ([], True))"
| "restore_nodes ctx ((name, snap) # nodes) =
    (let content = (case snap of PDict d \<Rightarrow> text_of d ''content'' | _ \<Rightarrow> []) in
     io_bind (put_node_config ctx name content) (\<lambda>_.
     io_bind (read_node_config ctx name) (\<lambda>reread.
     io_bind (restore_nodes ctx nodes) (\<lambda>(restored, all_ok).
       io_return (Inr (if sha256 reread = sha256 content then (name # restored, all_ok) else (restored, False)))))))"

definition cc_restore :: "'w exec_context \<Rightarrow> dict \<Rightarrow> string \<Rightarrow> string \<Rightarrow> 'w wazuh \<Rightarrow> pyval result \<times> 'w wazuh" where
  "cc_restore ctx prior section restored_from =
    (if dget prior ''kind'' = PStr ''cluster_configuration''
     then case dget_or prior ''nodes'' (PDict []) of
       PDict nodes \<Rightarrow>
        io_bind (restore_nodes ctx nodes) (\<lambda>(restored_nodes, all_ok).
        io_bind (api_get (ctx_api ctx) ''/cluster/configuration/validation'' []) (\<lambda>body.
        io_bind (io_return (validation_ok body)) (\<lambda>(valid, validation).
        io_bind (restart_cluster (ctx_api ctx) (ctx_capabilities ctx)) (\<lambda>_.
        io_return (Inr (PDict [(''restored_from'', PStr restored_from), (''section'', PStr section),
          (''deployment'', PStr ''cluster''), (''restored_nodes'', PList (map PStr restored_nodes)),
          (''validation'', PStr validation), (''restart_issued'', PBool True),
          (''config_restored'', PBool (all_ok \<and> valid))]))))))
     | _ \<Rightarrow> io_return (Inl (PyError ''AttributeError'' ''object has no attribute items''))
     else let content = text_of prior ''content'' in
        io_bind (config_write_and_validate ctx content None) (\<lambda>validation.
        io_bind (read_config ctx) (\<lambda>reread.
        io_bind (restart_cluster (ctx_api ctx) (ctx_capabilities ctx)) (\<lambda>_.
        io_return (Inr (PDict [(''restored_from'', PStr restored_from), (''section'', PStr section),
          (''deployment'', PStr ''single''), (''validation'', PStr validation), (''restart_issued'', PBool True),
          (''config_restored'', PBool (sha256 reread = sha256 content))]))))))"

definition cc_reverse_perform :: "'w exec_context \<Rightarrow> ('z database_scheme, 'w wazuh) perform_action" where
  "cc_reverse_perform ctx db p w =
    (let original = original_of db p;
         section = (case original of Some q \<Rightarrow> text_of (ap_target q) ''section'' | None \<Rightarrow> []);
         restored_from = (case original of Some q \<Rightarrow> uuid_str (ap_id q) | None \<Rightarrow> []);
         (r, w) = cc_restore ctx (prior_of original) section restored_from w
     in (r, ap_prior_state p, w))"

definition cc_reverse_verify :: "'w wazuh verify_action" where
  "cc_reverse_verify p r = (let res = dict_or_empty r; ok = truthy (dget_or res ''config_restored'' (PBool False)) in
     io_return (Inr (ok, [(''ok'', PBool ok), (''restored_from'', dget res ''restored_from''), (''section'', dget res ''section''),
       (''deployment'', dget_or res ''deployment'' (PStr ''single'')),
       (''restored_nodes'', py_or (dget res ''restored_nodes'') (PList [])),
       (''config_restored'', dget_or res ''config_restored'' (PBool False)), (''validation'', dget res ''validation''),
       (''restart_issued'', dget_or res ''restart_issued'' (PBool True)),
       (''reversal_state'', PStr (if ok then REVERSAL_STATE_COMPLETED else ''failed'')),
       (''note'', PStr (''Restored '' @ applied_where res ''restored_nodes''
         @ '' to its pre-change snapshot (hash-verified) + validated + cluster restart issued. The configuration reverts ~15-30s after the restart completes.''))])))"

definition cc_reverse :: "'w exec_context \<Rightarrow> ('z database_scheme, 'w) callables" where
  "cc_reverse ctx = (cc_reverse_freshness, cc_reverse_perform ctx, cc_reverse_verify)"

section \<open>The executor registry\<close>

record ('d, 'w) class_executor =
  build_forward :: "'w exec_context \<Rightarrow> ('d, 'w) callables"
  build_reverse :: "'w exec_context \<Rightarrow> ('d, 'w) callables"

definition register_executor :: "string \<Rightarrow> ('d, 'w) class_executor \<Rightarrow> (string \<times> ('d, 'w) class_executor) list
    \<Rightarrow> (string \<times> ('d, 'w) class_executor) list" where
  "register_executor action_class executor registry = AList.update action_class executor registry"

definition EXECUTORS :: "(string \<times> ('z database_scheme, 'w) class_executor) list" where
  "EXECUTORS = register_executor ''config_change'' \<lparr>build_forward = cc_forward, build_reverse = cc_reverse\<rparr>
     (register_executor ''rule_tuning'' \<lparr>build_forward = rt_forward, build_reverse = rt_reverse\<rparr>
       (register_executor ''agent_action'' \<lparr>build_forward = ga_forward, build_reverse = ga_reverse\<rparr>
         (register_executor ''active_response'' \<lparr>build_forward = ar_forward, build_reverse = ar_reverse\<rparr> [])))"

definition get_executor :: "string \<Rightarrow> ('z database_scheme, 'w) class_executor result" where
  "get_executor action_class = (case map_of EXECUTORS action_class of
     None \<Rightarrow> Inl (Wolf UnknownActionClassError (''No executor registered for action class '' @ repr_str action_class @ ''.''))
   | Some executor \<Rightarrow> Inr executor)"

section \<open>The contract of an API-executable reversal\<close>

text \<open>The verification read of a reversal the API can really perform tags its result \<open>completed\<close> exactly
  when it succeeded; \<open>complete_api_reversal\<close> relies on that tag.\<close>

lemma execute_result:
  assumes "execute_proposal f pf v db p u ses w = (Inr p', db', w')"
  obtains (raised) m where "ap_state p' = Failed" "ap_result p' = Some [(''error'', PStr m)]"
  | (verified) q res w2 ok d where "v q res w2 = (Inr (ok, d), w')" "ap_result p' = Some d"
      "ap_state p' = (if ok then Succeeded else Failed)"
proof -
  have cl: "cleared f db p w" using execute_Inr [OF assms] by blast
  obtain fr w1 where fr: "f db p w = (fr, w1)" by (cases "f db p w")
  obtain pfd prior w2 where pfd: "pf (executing_db db p u ses) (p\<lparr>ap_state := Executing\<rparr>) w1 = (pfd, prior, w2)"
    by (cases "pf (executing_db db p u ses) (p\<lparr>ap_state := Executing\<rparr>) w1")
  from execute_cleared [where freshness = f and perform = pf and verify = v, OF cl fr pfd] show thesis
    using assms raised verified by (elim disjE exE conjE) auto
qed

locale api_reversal =
  fixes verify_reverse :: "'c \<Rightarrow> 'w verify_action"
  assumes tag: "verify_reverse ctx p res w = (Inr (ok, d), w') \<Longrightarrow> dget d ''reversal_state'' = PStr REVERSAL_STATE_COMPLETED \<longleftrightarrow> ok"
begin

lemma executed_tag:
  assumes "execute_proposal f pf (verify_reverse ctx) db p u ses w = (Inr p', db', w')"
  shows "dget (case ap_result p' of Some d \<Rightarrow> d | None \<Rightarrow> []) ''reversal_state'' = PStr REVERSAL_STATE_COMPLETED
    \<longleftrightarrow> ap_state p' = Succeeded"
  using assms by (cases rule: execute_result) (auto dest: tag)

lemma completes_iff:
  assumes "execute_proposal f pf (verify_reverse ctx) db p u ses w = (Inr p', db', w')"
    and "ap_reverses_proposal_id p = Some (ap_id q)" "get_row db' (ap_id q) = Some q" "ap_state q = Succeeded"
  shows "fst (complete_api_reversal db' p' u ses) = Inr (ap_state p' = Succeeded)"
proof -
  have "ap_reverses_proposal_id p' = Some (ap_id q)"
    using execute_Inr_frame(7) [OF assms(1)] assms(2) by simp
  then show ?thesis using assms(3,4) executed_tag [OF assms(1)]
    by (simp add: complete_api_reversal_def assert_transition_def Let_def)
qed

end

interpretation ga: api_reversal ga_verify_reverse
proof
  fix ctx p res w ok d w'
  assume "ga_verify_reverse ctx p res w = (Inr (ok, d), w')"
  then show "dget d ''reversal_state'' = PStr REVERSAL_STATE_COMPLETED \<longleftrightarrow> ok"
    by (auto simp: ga_verify_reverse_def io_bind_Inr_iff REVERSAL_STATE_COMPLETED_def split: if_splits)
qed

interpretation rt: api_reversal "\<lambda>_. rt_reverse_verify"
  by unfold_locales (auto simp: rt_reverse_verify_def REVERSAL_STATE_COMPLETED_def Let_def)

interpretation cc: api_reversal "\<lambda>_. cc_reverse_verify"
  by unfold_locales (auto simp: cc_reverse_verify_def REVERSAL_STATE_COMPLETED_def Let_def)

lemma get_executor_eq: "get_executor cls = (if cls = ''config_change'' then Inr \<lparr>build_forward = cc_forward, build_reverse = cc_reverse\<rparr>
  else if cls = ''rule_tuning'' then Inr \<lparr>build_forward = rt_forward, build_reverse = rt_reverse\<rparr>
  else if cls = ''agent_action'' then Inr \<lparr>build_forward = ga_forward, build_reverse = ga_reverse\<rparr>
  else if cls = ''active_response'' then Inr \<lparr>build_forward = ar_forward, build_reverse = ar_reverse\<rparr>
  else Inl (Wolf UnknownActionClassError (''No executor registered for action class '' @ repr_str cls @ ''.'')))"
  by (simp add: get_executor_def EXECUTORS_def register_executor_def)

lemma ar_reversal_never_completed:
  assumes "execute_proposal f pf reversal_verify db p u ses w = (Inr p', db', w')"
  shows "dget (case ap_result p' of Some d \<Rightarrow> d | None \<Rightarrow> []) ''reversal_state'' \<noteq> PStr REVERSAL_STATE_COMPLETED"
  using assms by (cases rule: execute_result) (auto dest: reversal_verify_pending)


end
