(* ===== verification/Py_Time.thy ===== *)
theory Py_Time
  imports Py_Text
begin

text \<open>
  The two datetime renderings the gateway uses: \<open>strftime("%Y-%m-%d %H:%M UTC")\<close> and \<open>isoformat()\<close>, over
  the proleptic Gregorian calendar (the days-to-civil computation on 400-year eras).
\<close>

definition civil_of_days :: "int \<Rightarrow> int \<times> int \<times> int" where
  "civil_of_days days =
    (let z = days + 719468;
         era = z div 146097;
         doe = z mod 146097;
         yoe = (doe - doe div 1460 + doe div 36524 - doe div 146096) div 365;
         doy = doe - (365 * yoe + yoe div 4 - yoe div 100);
         mp = (5 * doy + 2) div 153;
         d = doy - (153 * mp + 2) div 5 + 1;
         m = (if mp < 10 then mp + 3 else mp - 9);
         y = yoe + era * 400 + (if m \<le> 2 then 1 else 0)
     in (y, m, d))"

definition pad_int :: "nat \<Rightarrow> int \<Rightarrow> string" where
  "pad_int k n = (let s = show_int n in replicate (k - length s) (CHR ''0'') @ s)"

definition time_of_day :: "int \<Rightarrow> int \<times> int \<times> int \<times> int" where
  "time_of_day t = (let us = t mod 86400000000; secs = us div 1000000
     in (secs div 3600, secs div 60 mod 60, secs mod 60, us mod 1000000))"

definition strftime_minute :: "datetime \<Rightarrow> string" where
  "strftime_minute dt = (let t = instant dt; (y, m, d) = civil_of_days (t div 86400000000); (hh, mm, _, _) = time_of_day t
     in show_int y @ ''-'' @ pad_int 2 m @ ''-'' @ pad_int 2 d @ '' '' @ pad_int 2 hh @ '':'' @ pad_int 2 mm @ '' UTC'')"

definition isoformat :: "datetime \<Rightarrow> string" where
  "isoformat dt = (let t = instant dt; (y, m, d) = civil_of_days (t div 86400000000); (hh, mm, ss, us) = time_of_day t
     in pad_int 4 y @ ''-'' @ pad_int 2 m @ ''-'' @ pad_int 2 d @ ''T'' @ pad_int 2 hh @ '':'' @ pad_int 2 mm @ '':'' @ pad_int 2 ss
        @ (if us = 0 then [] else ''.'' @ pad_int 6 us)
        @ (case dt of Aware _ \<Rightarrow> ''+00:00'' | Naive _ \<Rightarrow> []))"

end
