(* ===== verification/Scheduler.thy ===== *)
theory Scheduler
  imports Reversal Py_Time
begin

text \<open>
  The automatic-reversal sweep (\<open>gateway/scheduler.py\<close>).  Each block is handled in its own transaction:
  \<open>rollback\<close> restores the tables of the transaction's start and keeps the clock and identifier
  readings that were consumed.  \<open>with_for_update(skip_locked=True)\<close> has no effect in a sequential run.
\<close>

section \<open>Operations\<close>

definition WOLF_SYSTEM_ACTOR :: uuid where "WOLF_SYSTEM_ACTOR = 0"

definition due :: "datetime \<Rightarrow> action_proposal \<Rightarrow> bool" where
  "due now p \<longleftrightarrow> ap_state p = Succeeded \<and> ap_reversal_proposal_id p = None
     \<and> (case ap_auto_unblock_at p of None \<Rightarrow> False | Some t \<Rightarrow> instant t \<le> instant now)"

definition due_block_ids :: "'z database_scheme \<Rightarrow> datetime \<Rightarrow> nat \<Rightarrow> uuid list" where
  "due_block_ids db now limit =
     map ap_id (take limit (sort_key (\<lambda>p. instant (the (ap_auto_unblock_at p))) (filter (due now) (proposals db))))"

definition claim_block :: "'z database_scheme \<Rightarrow> uuid \<Rightarrow> datetime \<Rightarrow> action_proposal option" where
  "claim_block db block_id now = find (\<lambda>p. ap_id p = block_id \<and> due now p) (proposals db)"

definition reversal_params :: "dict \<Rightarrow> dict" where
  "reversal_params params =
    (let srcip = dget params ''srcip''; username = dget params ''username''; agent_os = dget params ''agent_os''
     in [(''intent'', PStr (if truthy srcip then ''unblock_ip'' else ''enable_user'')),
         (''method_source'', PStr ''auto_reversal''), (''reversal'', PBool True), (''auto'', PBool True)]
        @ (case as_str srcip of Some s \<Rightarrow> [(''srcip'', PStr s)] | None \<Rightarrow> [])
        @ (case as_str username of Some s \<Rightarrow> [(''username'', PStr s)] | None \<Rightarrow> [])
        @ (case as_str agent_os of Some s \<Rightarrow> [(''agent_os'', PStr s)] | None \<Rightarrow> []))"

text \<open>The second half of \<open>_auto_reverse\<close>: the pre-consented approval of the new reversal and its execution.\<close>

definition preconsented_execution ::
  "'z database_scheme \<Rightarrow> action_proposal \<Rightarrow> action_proposal \<Rightarrow> datetime \<Rightarrow> datetime \<Rightarrow> unit result \<times> 'z database_scheme" where
  "preconsented_execution db block reversal expired now =
    (let reversal = reversal\<lparr>ap_state := Approved, ap_approved_by := Some WOLF_SYSTEM_ACTOR, ap_approved_at := Some now\<rparr>;
         db = snd (write_event (put_row reversal db) ''action.proposal.auto_reversal.approved''
           (Some [(''proposal_id'', PStr (uuid_str (ap_id reversal))),
             (''reverses_proposal_id'', PStr (uuid_str (ap_id block))),
             (''content_hash'', PStr (ap_content_hash reversal)), (''expired_at'', PStr (isoformat expired))])
           (Some (ap_organization_id reversal)) (Some WOLF_SYSTEM_ACTOR) None None None);
         (executed, db, _) = execute_proposal reversal_freshness reversal_perform reversal_verify db reversal
           WOLF_SYSTEM_ACTOR None ()
     in (case executed of Inl e \<Rightarrow> Inl e | Inr _ \<Rightarrow> Inr (), db))"

definition auto_reverse ::
  "int \<Rightarrow> 'z database_scheme \<Rightarrow> action_proposal \<Rightarrow> datetime \<Rightarrow> unit result \<times> 'z database_scheme" where
  "auto_reverse default_ttl db block now =
    (let params = ap_parameters block;
         srcip = dget params ''srcip''; username = dget params ''username'';
         rev_params = reversal_params params;
         expired = (case ap_auto_unblock_at block of Some t \<Rightarrow> t | None \<Rightarrow> now);
         expired_s = strftime_minute expired;
         reverses_via = (case get_ar_command (ap_action block) of Some c \<Rightarrow> ar_reverses_via c | None \<Rightarrow> []);
         target = py_or srcip (py_or username (PStr []));
         rationale = ''Automatic reversal: the timed block expired at '' @ expired_s @ ''. Original block: '' @ ap_rationale block;
         expected_effect = ''Auto-reverse '' @ [CHR 0x27] @ ap_action block @ [CHR 0x27] @ '' on agent ''
           @ py_str (dget_or (ap_target block) ''agent_id'' (PStr [])) @ '' ('' @ py_str target
           @ '') - the timed block expired. '' @ reverses_via @ '' Physical removal is performed by wolf-pack (Phase 12).'';
         orig_alerts = dget_or (ap_evidence block) ''alert_ids'' (PList []);
         evidence = [(''reverses_proposal_id'', PStr (uuid_str (ap_id block))),
           (''original_rationale'', PStr (ap_rationale block)), (''original_alert_ids'', orig_alerts),
           (''auto_reversal'', PBool True), (''expired_at'', PStr (isoformat expired))];
         (reversal, db) = create_reversal_proposal default_ttl db block WOLF_SYSTEM_ACTOR (ap_action block)
           rev_params rationale expected_effect (Some evidence) None None
     in preconsented_execution db block reversal expired now)"

fun sweep_blocks :: "int \<Rightarrow> datetime \<Rightarrow> uuid list \<Rightarrow> 'z database_scheme \<Rightarrow> nat \<times> 'z database_scheme" where
  "sweep_blocks ttl now [] db = (0, db)"
| "sweep_blocks ttl now (block_id # rest) db =
    (case claim_block db block_id now of
       None \<Rightarrow> sweep_blocks ttl now rest db
     | Some block \<Rightarrow>
        (case auto_reverse ttl db block now of
           (Inr _, db1) \<Rightarrow> (let (n, db2) = sweep_blocks ttl now rest db1 in (Suc n, db2))
         | (Inl _, db1) \<Rightarrow> sweep_blocks ttl now rest (rollback db db1)))"

definition sweep_due_reversals ::
  "int \<Rightarrow> 'z database_scheme \<Rightarrow> datetime option \<Rightarrow> nat \<Rightarrow> nat \<times> 'z database_scheme" where
  "sweep_due_reversals ttl db now0 limit =
    (let (now, db) = (case now0 of Some n \<Rightarrow> (n, db) | None \<Rightarrow> utcnow db)
     in sweep_blocks ttl now (due_block_ids db now limit) db)"

text \<open>The background loop, over the readings of \<open>stop_event.is_set()\<close>; it ends at the first true one, or
  with the list when it is cancelled.\<close>

fun run_auto_reversal_scheduler :: "int \<Rightarrow> bool list \<Rightarrow> 'z database_scheme \<Rightarrow> 'z database_scheme" where
  "run_auto_reversal_scheduler ttl [] db = db"
| "run_auto_reversal_scheduler ttl (stop # stops) db =
    (if stop then db else run_auto_reversal_scheduler ttl stops (snd (sweep_due_reversals ttl db None 100)))"

section \<open>Laws\<close>

lemma replace_by_append: "replace_by key x (xs @ ys) = replace_by key x xs @ replace_by key x ys"
  by (simp add: replace_by_def)

lemma replace_by_absent: "key x \<notin> key ` set xs \<Longrightarrow> replace_by key x xs = xs"
  by (induction xs) (auto simp: replace_by_def)

text \<open>A reversal the scheduler created and approved always executes: its original is on record and its hash is
  fresh, so the record-only callables run to the end.\<close>

lemma record_only_execution:
  assumes "recompute_content_hash r = ap_content_hash r" "ap_state r = Approved"
    "ap_reverses_proposal_id r = Some b" "get_row db b = Some block" "ap_state block \<noteq> RolledBack"
  shows "\<exists>p' db'. execute_proposal reversal_freshness reversal_perform reversal_verify db r u ses () = (Inr p', db', ())
    \<and> ap_state p' = Succeeded
    \<and> dget (case ap_result p' of Some d \<Rightarrow> d | None \<Rightarrow> []) ''reversal_state'' = PStr REVERSAL_STATE_PENDING"
  using assms
  by (simp add: execute_proposal_def reversal_freshness_def reversal_perform_def reversal_verify_def
      assert_transition_def Let_def split_beta)

lemma auto_reverse_split:
  "\<exists>a b c d e. auto_reverse ttl db block now =
     preconsented_execution (snd (create_reversal_proposal ttl db block WOLF_SYSTEM_ACTOR (ap_action block) a b c d None None)) block
       (fst (create_reversal_proposal ttl db block WOLF_SYSTEM_ACTOR (ap_action block) a b c d None None)) e now"
  unfolding auto_reverse_def Let_def split_beta by blast

lemma auto_reverse_spec:
  assumes blk: "get_row db (ap_id block) = Some block" and st: "ap_state block = Succeeded"
    and fresh: "uuid_source db 0 \<notin> ap_id ` set (proposals db)"
  obtains r db' where "auto_reverse ttl db block now = (Inr (), db')"
    "proposals db' = replace_by ap_id (block\<lparr>ap_reversal_proposal_id := Some (ap_id r)\<rparr>) (proposals db) @ [r]"
    "ap_id r = uuid_source db 0" "ap_state r = Succeeded" "ap_reverses_proposal_id r = Some (ap_id block)"
    "ap_auto_unblock_at r = None" "ap_organization_id r = ap_organization_id block"
    "ap_content_hash r = recompute_content_hash r" "ap_approved_by r = Some WOLF_SYSTEM_ACTOR" "ap_executed_at r \<noteq> None"
    "dget (case ap_result r of Some d \<Rightarrow> d | None \<Rightarrow> []) ''reversal_state'' = PStr REVERSAL_STATE_PENDING"
    "uuid_source db' = (\<lambda>n. uuid_source db (n + 5))"
    "\<exists>es. audit_events db' = audit_events db @ es \<and> map ae_event_type es =
       [''action.proposal.created'', ''action.proposal.auto_reversal.approved'', ''action.proposal.executing'', ''action.proposal.succeeded'']"
proof -
  obtain a b c d expired r0 db1 where
    cr: "create_reversal_proposal ttl db block WOLF_SYSTEM_ACTOR (ap_action block) a b c d None None = (r0, db1)"
    and ar: "auto_reverse ttl db block now = preconsented_execution db1 block r0 expired now"
    using auto_reverse_split [of ttl db block now] by (metis prod.collapse)
  note c = create_reversal_proposal_db [OF cr]
  let ?blk = "block\<lparr>ap_reversal_proposal_id := Some (ap_id r0)\<rparr>"
  define r1 where "r1 = r0\<lparr>ap_state := Approved, ap_approved_by := Some WOLF_SYSTEM_ACTOR, ap_approved_at := Some now\<rparr>"
  define db2 where "db2 = snd (write_event (put_row r1 db1) ''action.proposal.auto_reversal.approved''
           (Some [(''proposal_id'', PStr (uuid_str (ap_id r1))),
             (''reverses_proposal_id'', PStr (uuid_str (ap_id block))),
             (''content_hash'', PStr (ap_content_hash r1)), (''expired_at'', PStr (isoformat expired))])
           (Some (ap_organization_id r1)) (Some WOLF_SYSTEM_ACTOR) None None None)"
  have ids: "ap_id r1 = uuid_source db 0" "ap_id block \<noteq> uuid_source db 0"
    using c(5) fresh find_SomeD [OF blk [unfolded get_row_def]] by (simp add: r1_def, metis imageI)
  have absent: "ap_id r1 \<notin> ap_id ` set (replace_by ap_id ?blk (proposals db))"
    using fresh ids(1) map_key_replace_by [of ap_id ?blk "proposals db"] by (metis list.set_map)
  have rows2: "proposals db2 = replace_by ap_id ?blk (proposals db) @ [r1]"
  proof -
    have "proposals db2 = replace_by ap_id r1 (replace_by ap_id ?blk (proposals db) @ replace_by ap_id ?blk [r0])"
      by (simp add: db2_def row_simps put_row_def c(1) replace_by_append)
    moreover have "replace_by ap_id r1 (replace_by ap_id ?blk (proposals db)) = replace_by ap_id ?blk (proposals db)"
      using absent by (rule replace_by_absent)
    moreover have "replace_by ap_id r1 (replace_by ap_id ?blk [r0]) = [r1]"
      using ids c(5) by (simp add: replace_by_def r1_def)
    ultimately show ?thesis by (simp add: replace_by_append)
  qed
  have blk2: "get_row db2 (ap_id block) = Some ?blk"
    using rows2 blk find_replace_by_same [of ap_id "ap_id block" "proposals db" block ?blk]
    by (simp add: get_row_def find_append)
  have hash: "recompute_content_hash r1 = ap_content_hash r1"
    using c(7) by (simp add: r1_def recompute_content_hash_def)
  have "ap_state r1 = Approved" "ap_reverses_proposal_id r1 = Some (ap_id block)"
    using c(3) by (simp_all add: r1_def)
  from record_only_execution [OF hash this blk2, of WOLF_SYSTEM_ACTOR None] st obtain r db' where
    ex: "execute_proposal reversal_freshness reversal_perform reversal_verify db2 r1 WOLF_SYSTEM_ACTOR None () = (Inr r, db', ())"
    and r: "ap_state r = Succeeded"
      "dget (case ap_result r of Some d \<Rightarrow> d | None \<Rightarrow> []) ''reversal_state'' = PStr REVERSAL_STATE_PENDING"
    by auto
  note x = execute_Inr [OF ex]
  have step: "row_step db2 r WOLF_SYSTEM_ACTOR [''action.proposal.executing'', ''action.proposal.succeeded''] db'"
    using x r(1) by simp
  obtain a b c d where "r = r1\<lparr>ap_prior_state := a, ap_state := b, ap_executed_at := c, ap_result := d\<rparr>" using x by blast
  then have rh: "ap_content_hash r = recompute_content_hash r" "ap_approved_by r = Some WOLF_SYSTEM_ACTOR"
    using hash by (simp_all add: recompute_content_hash_def r1_def)
  have rf: "ap_id r = ap_id r1" "ap_reverses_proposal_id r = ap_reverses_proposal_id r1"
      "ap_auto_unblock_at r = ap_auto_unblock_at r1" "ap_organization_id r = ap_organization_id r1"
    using execute_Inr_frame [OF ex] by simp_all
  show thesis
  proof (rule that)
    show "auto_reverse ttl db block now = (Inr (), db')"
      using ex by (simp add: ar preconsented_execution_def r1_def [symmetric] db2_def [symmetric] Let_def)
    show "proposals db' = replace_by ap_id (block\<lparr>ap_reversal_proposal_id := Some (ap_id r)\<rparr>) (proposals db) @ [r]"
      using step absent rf(1) by (simp add: row_step_def rows2 replace_by_append replace_by_absent) (simp add: replace_by_def r1_def)
    show "uuid_source db' = (\<lambda>n. uuid_source db (n + 5))"
      using execute_uuid_source [OF ex] c(9) by (simp add: db2_def audit_simps row_simps numeral_eq_Suc)
    obtain e1 where "audit_events db1 = audit_events db @ [e1]" "ae_event_type e1 = ''action.proposal.created''"
      using c(2) by blast
    moreover obtain e2 where "audit_events db2 = audit_events db1 @ [e2]" "ae_event_type e2 = ''action.proposal.auto_reversal.approved''"
      by (simp add: db2_def audit_simps row_simps)
    moreover obtain es where "audit_events db' = audit_events db2 @ es"
        "map ae_event_type es = [''action.proposal.executing'', ''action.proposal.succeeded'']"
      using step by (auto simp: row_step_def)
    ultimately show "\<exists>es. audit_events db' = audit_events db @ es \<and> map ae_event_type es =
       [''action.proposal.created'', ''action.proposal.auto_reversal.approved'', ''action.proposal.executing'', ''action.proposal.succeeded'']"
      by (intro exI [of _ "[e1, e2] @ es"]) simp
  qed (use rf rh x r c ids in \<open>auto simp: r1_def\<close>)
qed

text \<open>The next \<open>k\<close> identifiers are pairwise different and not in use.\<close>

definition fresh_ids :: "nat \<Rightarrow> 'z database_scheme \<Rightarrow> bool" where
  "fresh_ids k db \<longleftrightarrow> distinct (map (uuid_source db) [0..<k])
     \<and> set (map (uuid_source db) [0..<k]) \<inter> ap_id ` set (proposals db) = {}"

lemma fresh_idsD: "fresh_ids k db \<Longrightarrow> n < k \<Longrightarrow> uuid_source db n \<notin> ap_id ` set (proposals db)"
  by (auto simp: fresh_ids_def disjoint_iff)

text \<open>\<open>swept db ids db'\<close>: every row named in \<open>ids\<close> is linked to a reversal of its own among the new rows, every
  other row is as before, and the new rows are record-only reversals, one for each id.\<close>

definition swept :: "'z database_scheme \<Rightarrow> uuid list \<Rightarrow> 'z database_scheme \<Rightarrow> bool" where
  "swept db ids db' \<longleftrightarrow> (\<exists>g new. proposals db' = map g (proposals db) @ new
     \<and> map ap_reverses_proposal_id new = map Some ids
     \<and> (\<forall>r \<in> set new. ap_state r = Succeeded \<and> ap_auto_unblock_at r = None)
     \<and> (\<forall>p \<in> set (proposals db). if ap_id p \<in> set ids
          then \<exists>r \<in> set new. ap_reverses_proposal_id r = Some (ap_id p) \<and> g p = p\<lparr>ap_reversal_proposal_id := Some (ap_id r)\<rparr>
          else g p = p))"

lemma swept_Nil: "swept db [] db"
  unfolding swept_def by (rule exI [of _ "\<lambda>p. p"], rule exI [of _ "[]"]) simp

lemma distinct_get_row:
  assumes "distinct (map ap_id (proposals db))" "p \<in> set (proposals db)"
  shows "get_row db (ap_id p) = Some p"
proof -
  obtain q where q: "get_row db (ap_id p) = Some q"
    using assms(2) by (cases "get_row db (ap_id p)") (auto simp: get_row_def find_None_iff)
  then have "q \<in> set (proposals db)" "ap_id q = ap_id p" by (auto simp: get_row_def dest: find_SomeD)
  then have "q = p" using assms by (auto simp: distinct_map dest: inj_onD)
  with q show ?thesis by simp
qed

lemma claim_block_get_row:
  assumes "distinct (map ap_id (proposals db))"
  shows "claim_block db i now = Some p \<longleftrightarrow> get_row db i = Some p \<and> due now p"
proof
  assume "claim_block db i now = Some p"
  then have "p \<in> set (proposals db)" "ap_id p = i" "due now p" by (auto simp: claim_block_def dest: find_SomeD)
  with distinct_get_row [OF assms] show "get_row db i = Some p \<and> due now p" by blast
next
  assume r: "get_row db i = Some p \<and> due now p"
  then have p: "p \<in> set (proposals db)" "ap_id p = i" by (auto simp: get_row_def dest: find_SomeD)
  with r have "claim_block db i now \<noteq> None" by (auto simp: claim_block_def find_None_iff)
  then obtain q where q: "claim_block db i now = Some q" by blast
  then have "q \<in> set (proposals db)" "ap_id q = i" by (auto simp: claim_block_def dest: find_SomeD)
  with distinct_get_row [OF assms, of q] r q show "claim_block db i now = Some p" by simp
qed

lemma fresh_ids_step:
  assumes f: "fresh_ids (5 + k) db" and src: "uuid_source db' = (\<lambda>n. uuid_source db (n + 5))"
    and ids: "ap_id ` set (proposals db') = insert (uuid_source db 0) (ap_id ` set (proposals db))"
  shows "fresh_ids k db'"
proof -
  have inj: "inj_on (uuid_source db) {0..<5 + k}" using f by (simp add: fresh_ids_def distinct_map)
  have "inj_on (uuid_source db') {0..<k}"
  proof (rule inj_onI)
    fix x y assume "x \<in> {0..<k}" "y \<in> {0..<k}" "uuid_source db' x = uuid_source db' y"
    then have "x + 5 = y + 5" using inj_onD [OF inj, of "x + 5" "y + 5"] by (simp add: src)
    then show "x = y" by simp
  qed
  moreover have notin: "uuid_source db' n \<notin> ap_id ` set (proposals db')" if "n < k" for n
  proof -
    have "uuid_source db (n + 5) \<noteq> uuid_source db 0" using inj_onD [OF inj, of "n + 5" 0] that by auto
    moreover have "uuid_source db (n + 5) \<notin> ap_id ` set (proposals db)" using fresh_idsD [OF f] that by simp
    ultimately show ?thesis by (simp add: src ids)
  qed
  have "set (map (uuid_source db') [0..<k]) \<inter> ap_id ` set (proposals db') = {}"
  proof (rule equals0I)
    fix x assume x: "x \<in> set (map (uuid_source db') [0..<k]) \<inter> ap_id ` set (proposals db')"
    then obtain n where "n < k" "x = uuid_source db' n" by auto
    with notin x show False by simp
  qed
  ultimately show ?thesis by (simp add: fresh_ids_def distinct_map)
qed

lemma swept_Cons:
  assumes d: "distinct (map ap_id (proposals db))" and b: "b \<in> set (proposals db)"
    and rows1: "proposals db1 = replace_by ap_id (b\<lparr>ap_reversal_proposal_id := Some (ap_id r)\<rparr>) (proposals db) @ [r]"
    and r: "ap_state r = Succeeded" "ap_reverses_proposal_id r = Some (ap_id b)" "ap_auto_unblock_at r = None"
    and rid: "ap_id r \<notin> set ids" and bid: "ap_id b \<notin> set ids" and sw: "swept db1 ids db'"
  shows "swept db (ap_id b # ids) db'"
proof -
  let ?b = "b\<lparr>ap_reversal_proposal_id := Some (ap_id r)\<rparr>"
  obtain g new where rows': "proposals db' = map g (proposals db1) @ new" and rev: "map ap_reverses_proposal_id new = map Some ids"
    and new: "\<forall>r \<in> set new. ap_state r = Succeeded \<and> ap_auto_unblock_at r = None"
    and g: "\<And>p. p \<in> set (proposals db1) \<Longrightarrow> if ap_id p \<in> set ids
          then \<exists>r \<in> set new. ap_reverses_proposal_id r = Some (ap_id p) \<and> g p = p\<lparr>ap_reversal_proposal_id := Some (ap_id r)\<rparr>
          else g p = p"
    using sw unfolding swept_def by blast
  have gr: "g r = r" using g [of r] rid by (simp add: rows1)
  have gb: "g ?b = ?b" using g [of ?b] bid b by (simp add: rows1 replace_by_def)
  let ?g = "\<lambda>p. g (if ap_id p = ap_id b then ?b else p)"
  have "proposals db' = map ?g (proposals db) @ (r # new)"
    using gr by (simp add: rows' rows1 replace_by_def)
  moreover have "if ap_id p \<in> set (ap_id b # ids)
      then \<exists>r' \<in> set (r # new). ap_reverses_proposal_id r' = Some (ap_id p) \<and> ?g p = p\<lparr>ap_reversal_proposal_id := Some (ap_id r')\<rparr>
      else ?g p = p" if p: "p \<in> set (proposals db)" for p
  proof (cases "ap_id p = ap_id b")
    case True
    then have "p = b" using p b d by (auto simp: distinct_map dest: inj_onD)
    then show ?thesis using gb r(2) by simp
  next
    case False
    then have "p \<in> set (proposals db1)" using p by (force simp: rows1 replace_by_def)
    with g [OF this] False show ?thesis by (auto split: if_splits)
  qed
  moreover have "map ap_reverses_proposal_id (r # new) = map Some (ap_id b # ids)" using rev r by simp
  moreover have "\<forall>q \<in> set (r # new). ap_state q = Succeeded \<and> ap_auto_unblock_at q = None" using new r by simp
  ultimately show ?thesis unfolding swept_def by blast
qed

lemma sweep_blocks_swept:
  assumes "distinct (map ap_id (proposals db))" "distinct ids" "fresh_ids (5 * length ids) db"
    and "\<forall>i \<in> set ids. \<exists>p. get_row db i = Some p \<and> due now p"
  shows "\<exists>db'. sweep_blocks ttl now ids db = (length ids, db') \<and> swept db ids db' \<and> distinct (map ap_id (proposals db'))"
  using assms
proof (induction ids arbitrary: db)
  case Nil
  then show ?case by (simp add: swept_Nil)
next
  case (Cons i ids)
  obtain b where b: "get_row db i = Some b" "due now b" using Cons.prems(4) by auto
  then have bi: "ap_id b = i" by (blast dest: rows.get_key)
  have st: "ap_state b = Succeeded" using b(2) by (simp add: due_def)
  have bb: "get_row db (ap_id b) = Some b" using b(1) bi by simp
  have f0: "uuid_source db 0 \<notin> ap_id ` set (proposals db)" using fresh_idsD [OF Cons.prems(3), of 0] by simp
  obtain r db1 where ar: "auto_reverse ttl db b now = (Inr (), db1)"
    and rows1: "proposals db1 = replace_by ap_id (b\<lparr>ap_reversal_proposal_id := Some (ap_id r)\<rparr>) (proposals db) @ [r]"
    and rid: "ap_id r = uuid_source db 0" and r: "ap_state r = Succeeded" "ap_reverses_proposal_id r = Some (ap_id b)"
      "ap_auto_unblock_at r = None" and src: "uuid_source db1 = (\<lambda>n. uuid_source db (n + 5))"
    using auto_reverse_spec [OF bb st f0, of ttl now] by blast
  let ?b = "b\<lparr>ap_reversal_proposal_id := Some (ap_id r)\<rparr>"
  have ids1: "map ap_id (proposals db1) = map ap_id (proposals db) @ [ap_id r]" by (simp add: rows1)
  have d1: "distinct (map ap_id (proposals db1))" using Cons.prems(1) f0 rid by (simp add: ids1)
  have f1: "fresh_ids (5 * length ids) db1"
  proof (rule fresh_ids_step [OF _ src])
    show "fresh_ids (5 + 5 * length ids) db" using Cons.prems(3) by simp
    have "set (map ap_id (proposals db1)) = insert (uuid_source db 0) (set (map ap_id (proposals db)))" by (simp add: ids1 rid)
    then show "ap_id ` set (proposals db1) = insert (uuid_source db 0) (ap_id ` set (proposals db))" by simp
  qed
  have due1: "\<forall>j \<in> set ids. \<exists>p. get_row db1 j = Some p \<and> due now p"
  proof
    fix j assume j: "j \<in> set ids"
    with Cons.prems(2,4) obtain p where "get_row db j = Some p" "due now p" "j \<noteq> i" by fastforce
    then show "\<exists>p. get_row db1 j = Some p \<and> due now p"
      using find_replace_by_other [of ap_id ?b j "proposals db"] bi by (simp add: get_row_def rows1 find_append)
  qed
  obtain db' where sw: "sweep_blocks ttl now ids db1 = (length ids, db')" "swept db1 ids db'" "distinct (map ap_id (proposals db'))"
    using Cons.IH [OF d1 _ f1 due1] Cons.prems(2) by auto
  have "sweep_blocks ttl now (i # ids) db = (Suc (length ids), db')"
    using claim_block_get_row [OF Cons.prems(1), of i now b] b ar sw(1) by simp
  moreover have "swept db (ap_id b # ids) db'"
  proof (rule swept_Cons [OF Cons.prems(1) _ rows1 r _ _ sw(2)])
    show "b \<in> set (proposals db)" using b(1) by (auto simp: get_row_def dest: find_SomeD)
    show "ap_id r \<notin> set ids"
    proof
      assume "ap_id r \<in> set ids"
      then obtain p where "get_row db (ap_id r) = Some p" using Cons.prems(4) by auto
      then have "p \<in> set (proposals db)" "ap_id p = ap_id r" by (auto simp: get_row_def dest: find_SomeD)
      then show False using f0 rid by (metis imageI)
    qed
    show "ap_id b \<notin> set ids" using Cons.prems(2) bi by simp
  qed
  ultimately show ?case using sw(3) bi by auto
qed

lemma due_block_ids_props:
  assumes "distinct (map ap_id (proposals db))"
  shows "distinct (due_block_ids db now limit)"
    and "\<forall>i \<in> set (due_block_ids db now limit). \<exists>p. get_row db i = Some p \<and> due now p"
    and "length (due_block_ids db now limit) = min limit (length (filter (due now) (proposals db)))"
    and "length (filter (due now) (proposals db)) \<le> limit \<Longrightarrow>
      set (due_block_ids db now limit) = ap_id ` {p \<in> set (proposals db). due now p}"
proof -
  let ?s = "sort_key (\<lambda>p. instant (the (ap_auto_unblock_at p))) (filter (due now) (proposals db))"
  have inj: "inj_on ap_id (set (proposals db))" and dp: "distinct (proposals db)"
    using assms by (simp_all add: distinct_map)
  have sub: "set (take limit ?s) \<subseteq> {p \<in> set (proposals db). due now p}" using set_take_subset [of limit ?s] by auto
  show "distinct (due_block_ids db now limit)"
    unfolding due_block_ids_def distinct_map using sub inj dp by (auto intro: inj_on_subset)
  show "\<forall>i \<in> set (due_block_ids db now limit). \<exists>p. get_row db i = Some p \<and> due now p"
    using sub distinct_get_row [OF assms] by (auto simp: due_block_ids_def)
  show "length (due_block_ids db now limit) = min limit (length (filter (due now) (proposals db)))"
    by (simp add: due_block_ids_def)
  show "set (due_block_ids db now limit) = ap_id ` {p \<in> set (proposals db). due now p}"
    if "length (filter (due now) (proposals db)) \<le> limit"
    using that by (simp add: due_block_ids_def)
qed

lemma swept_not_due:
  assumes "swept db ids db'" "\<forall>p \<in> set (proposals db). due now p \<longrightarrow> ap_id p \<in> set ids"
  shows "filter (due now) (proposals db') = []"
proof -
  obtain g new where rows': "proposals db' = map g (proposals db) @ new"
    and new: "\<forall>r \<in> set new. ap_state r = Succeeded \<and> ap_auto_unblock_at r = None"
    and g: "\<And>p. p \<in> set (proposals db) \<Longrightarrow> if ap_id p \<in> set ids
          then \<exists>r \<in> set new. ap_reverses_proposal_id r = Some (ap_id p) \<and> g p = p\<lparr>ap_reversal_proposal_id := Some (ap_id r)\<rparr>
          else g p = p"
    using assms(1) unfolding swept_def by blast
  have "\<not> due now (g p)" if "p \<in> set (proposals db)" for p
    using g [OF that] assms(2) that by (cases "ap_id p \<in> set ids") (auto simp: due_def)
  moreover have "\<not> due now r" if "r \<in> set new" for r using new that by (simp add: due_def)
  ultimately show ?thesis by (auto simp: rows' filter_empty_conv)
qed

section \<open>Properties\<close>


definition timed_db :: database where
  "timed_db = empty_db\<lparr>uuid_source := (\<lambda>n. word_of_nat (n + 100)), proposals := [sample_proposal\<lparr>ap_auto_unblock_at := Some (Aware 50)\<rparr>]\<rparr>"


end
