(* ===== verification/Py_Json_Reader.thy ===== *)
theory Py_Json_Reader
  imports Py_Json
begin

text \<open>
  \<open>json.loads\<close> and \<open>json.dumps\<close> with its default separators, and the round trip between them.

  \<open>None\<close> is \<open>JSONDecodeError\<close>.  Values are those of \<open>pyval\<close>, so a document with a fraction, an
  exponent, \<open>NaN\<close> or \<open>Infinity\<close>, or with an escape above \<open>\\u00ff\<close>, is outside the model and reads
  as \<open>None\<close> too.  The reader consumes at least one character per nested call, so the length of the
  document is enough fuel.
\<close>

section \<open>The reader\<close>

definition json_ws :: "char \<Rightarrow> bool" where
  "json_ws c \<longleftrightarrow> c \<in> {CHR '' '', CHR 0x09, CHR 0x0A, CHR 0x0D}"

definition skip_ws :: "string \<Rightarrow> string" where
  "skip_ws = dropWhile json_ws"

definition hex_value :: "char \<Rightarrow> nat option" where
  "hex_value c = (let n = cp c in if 48 \<le> n \<and> n \<le> 57 then Some (n - 48)
     else if 97 \<le> n \<and> n \<le> 102 then Some (n - 87) else if 65 \<le> n \<and> n \<le> 70 then Some (n - 55) else None)"

definition simple_escape :: "char \<Rightarrow> char option" where
  "simple_escape b = (if b \<in> {CHR 0x22, CHR 0x5C, CHR ''/''} then Some b else if b = CHR ''b'' then Some (CHR 0x08)
     else if b = CHR ''t'' then Some (CHR 0x09) else if b = CHR ''n'' then Some (CHR 0x0A)
     else if b = CHR ''f'' then Some (CHR 0x0C) else if b = CHR ''r'' then Some (CHR 0x0D) else None)"

definition expect :: "char \<Rightarrow> string \<Rightarrow> string option" where
  "expect c s = (case s of [] \<Rightarrow> None | d # r \<Rightarrow> if d = c then Some r else None)"

text \<open>The rest of a string literal after its opening quote, with the text behind the closing one.\<close>

fun read_string :: "string \<Rightarrow> (string \<times> string) option" where
  "read_string [] = None"
| "read_string (c # s) =
    (if c = CHR 0x22 then Some ([], s)
     else if c = CHR 0x5C then
       (case s of [] \<Rightarrow> None
        | b # t \<Rightarrow>
           if b = CHR ''u'' then
             (case t of x # y # h # l # r \<Rightarrow>
                (case (hex_value h, hex_value l) of
                   (Some m, Some n) \<Rightarrow> if x = CHR ''0'' \<and> y = CHR ''0''
                     then map_option (\<lambda>(w, r). (char_of (m * 16 + n) # w, r)) (read_string r) else None
                 | _ \<Rightarrow> None)
              | _ \<Rightarrow> None)
           else (case simple_escape b of None \<Rightarrow> None
             | Some e \<Rightarrow> map_option (\<lambda>(w, r). (e # w, r)) (read_string t)))
     else if cp c < 32 then None
     else map_option (\<lambda>(w, r). (c # w, r)) (read_string s))"

definition read_unsigned :: "string \<Rightarrow> (nat \<times> string) option" where
  "read_unsigned s = (case s of [] \<Rightarrow> None
     | c # r \<Rightarrow> if c = CHR ''0'' then Some (0, r)
         else if is_decimal c then Some (digits_value (takeWhile is_decimal s), dropWhile is_decimal s) else None)"

definition read_int :: "string \<Rightarrow> (pyval \<times> string) option" where
  "read_int s = (case expect (CHR ''-'') s of Some t \<Rightarrow> map_option (\<lambda>(n, r). (PInt (- int n), r)) (read_unsigned t)
     | None \<Rightarrow> map_option (\<lambda>(n, r). (PInt (int n), r)) (read_unsigned s))"

text \<open>A member list read as a dict: a repeated key keeps its first position and its last value.\<close>

definition dict_of :: "(string \<times> pyval) list \<Rightarrow> dict" where
  "dict_of ms = fold (\<lambda>(k, v) d. dset k v d) ms []"

fun read_value :: "nat \<Rightarrow> string \<Rightarrow> (pyval \<times> string) option"
  and read_items :: "nat \<Rightarrow> string \<Rightarrow> (pyval list \<times> string) option"
  and read_members :: "nat \<Rightarrow> string \<Rightarrow> (dict \<times> string) option" where
  "read_value 0 s = None"
| "read_value (Suc n) s = (case s of [] \<Rightarrow> None
     | c # t \<Rightarrow>
        if c = CHR 0x22 then map_option (\<lambda>(w, r). (PStr w, r)) (read_string t)
        else if c = CHR ''['' then (case expect (CHR '']'') (skip_ws t) of
            Some r \<Rightarrow> Some (PList [], r)
          | None \<Rightarrow> map_option (\<lambda>(xs, r). (PList xs, r)) (read_items n (skip_ws t)))
        else if c = CHR ''{'' then (case expect (CHR ''}'') (skip_ws t) of
            Some r \<Rightarrow> Some (PDict [], r)
          | None \<Rightarrow> map_option (\<lambda>(ms, r). (PDict (dict_of ms), r)) (read_members n (skip_ws t)))
        else if startswith s ''null'' then Some (PNone, drop 4 s)
        else if startswith s ''true'' then Some (PBool True, drop 4 s)
        else if startswith s ''false'' then Some (PBool False, drop 5 s)
        else read_int s)"
| "read_items 0 s = None"
| "read_items (Suc n) s = (case read_value n s of None \<Rightarrow> None
     | Some (x, r) \<Rightarrow> (case expect (CHR '']'') (skip_ws r) of Some r \<Rightarrow> Some ([x], r)
        | None \<Rightarrow> (case expect (CHR '','') (skip_ws r) of None \<Rightarrow> None
           | Some r \<Rightarrow> map_option (\<lambda>(xs, r). (x # xs, r)) (read_items n (skip_ws r)))))"
| "read_members 0 s = None"
| "read_members (Suc n) s = (case expect (CHR 0x22) s of None \<Rightarrow> None
     | Some t \<Rightarrow> (case read_string t of None \<Rightarrow> None
        | Some (k, r) \<Rightarrow> (case expect (CHR '':'') (skip_ws r) of None \<Rightarrow> None
           | Some r \<Rightarrow> (case read_value n (skip_ws r) of None \<Rightarrow> None
              | Some (v, r) \<Rightarrow> (case expect (CHR ''}'') (skip_ws r) of Some r \<Rightarrow> Some ([(k, v)], r)
                 | None \<Rightarrow> (case expect (CHR '','') (skip_ws r) of None \<Rightarrow> None
                    | Some r \<Rightarrow> map_option (\<lambda>(ms, r). ((k, v) # ms, r)) (read_members n (skip_ws r))))))))"

definition json_loads :: "string \<Rightarrow> pyval option" where
  "json_loads s = (case read_value (Suc (2 * length s)) (skip_ws s) of
     Some (v, r) \<Rightarrow> if skip_ws r = [] then Some v else None | None \<Rightarrow> None)"

section \<open>The default writer\<close>

text \<open>\<open>json.dumps(v)\<close>: insertion order, separators \<open>", "\<close> and \<open>": "\<close>.\<close>

fun json_dumps_default :: "pyval \<Rightarrow> string" where
  "json_dumps_default (PList xs) = CHR ''['' # join '', '' (map json_dumps_default xs) @ '']''"
| "json_dumps_default (PDict d) =
     CHR ''{'' # join '', '' (map (\<lambda>(k, v). json_str k @ '': '' @ json_dumps_default v) d) @ ''}''"
| "json_dumps_default v = json_text v"

text \<open>Every dict, at every depth, has distinct keys.\<close>

fun wf_json :: "pyval \<Rightarrow> bool" where
  "wf_json (PList xs) = list_all wf_json xs"
| "wf_json (PDict d) = (distinct (map fst d) \<and> list_all (\<lambda>(k, v). wf_json v) d)"
| "wf_json v = True"

section \<open>Round trip\<close>

lemma expect_simps [simp]: "expect c [] = None" "expect c (d # r) = (if d = c then Some r else None)"
  by (simp_all add: expect_def)

lemma hex_value_digit_char: "n < 16 \<Longrightarrow> hex_value (digit_char n) = Some n"
  by (auto simp: hex_value_def digit_char_def)

lemma read_string_step: "read_string (json_char c @ s) = map_option (\<lambda>(w, r). (c # w, r)) (read_string s)"
proof (cases "cp c \<in> {34, 92, 8, 9, 10, 12, 13}")
  case True
  let ?cs = "[CHR 0x22, CHR 0x5C, CHR 0x08, CHR 0x09, CHR 0x0A, CHR 0x0C, CHR 0x0D]"
  have "map cp ?cs = [34, 92, 8, 9, 10, 12, 13]" by (simp add: cp_def)
  with True have "cp c \<in> set (map cp ?cs)" by (simp only: list.set)
  then have "c \<in> set ?cs" by (simp only: set_map image_iff cp_eq_iff bex_simps) blast
  then show ?thesis by (auto simp: json_char_def cp_def simple_escape_def)
next
  case False
  then have ne: "c \<noteq> CHR 0x22" "c \<noteq> CHR 0x5C" by (auto simp: cp_def)
  have "cp c div 16 < 16" using cp_less [of c] by (simp add: less_mult_imp_div_less)
  then have u: "hex_value (digit_char (cp c div 16)) = Some (cp c div 16)" "hex_value (digit_char (cp c mod 16)) = Some (cp c mod 16)"
    by (simp_all add: hex_value_digit_char)
  show ?thesis
  proof (cases "32 \<le> cp c \<and> cp c \<le> 126")
    case True
    with False have "json_char c = [c]" by (simp add: json_char_def Let_def)
    with True ne show ?thesis by simp
  next
    case esc: False
    with False have "json_char c = [CHR 0x5C, CHR ''u'', CHR ''0'', CHR ''0'', digit_char (cp c div 16), digit_char (cp c mod 16)]"
      by (simp add: json_char_def Let_def)
    then show ?thesis using u by simp
  qed
qed

lemma read_string_body: "read_string (concat (map json_char s) @ CHR 0x22 # r) = Some (s, r)"
  by (induction s) (simp_all add: read_string_step)

lemma hd_show_nat_zero: "hd (show_nat n) = CHR ''0'' \<Longrightarrow> n = 0"
proof (induction n rule: show_nat.induct)
  case (1 n)
  show ?case
  proof (cases "n < 10")
    case True
    with 1 have "cp (digit_char n) = 48" by (simp add: show_nat.simps [of n] cp_def)
    with True show ?thesis by (simp add: cp_digit_char)
  next
    case False
    with 1 have "n div 10 = 0" by (simp add: show_nat.simps [of n])
    with False show ?thesis by simp
  qed
qed

text \<open>What may follow a value in a document: nothing that continues a number.\<close>

definition ends :: "string \<Rightarrow> bool" where
  "ends r \<longleftrightarrow> (case r of [] \<Rightarrow> True | c # _ \<Rightarrow> \<not> is_decimal c)"

lemma read_unsigned_show: "ends r \<Longrightarrow> read_unsigned (show_nat n @ r) = Some (n, r)"
proof (cases "n = 0")
  case True
  moreover have "digit_char 0 = CHR ''0''" by (subst cp_eq_iff [symmetric]) (simp add: cp_digit_char, simp add: cp_def)
  ultimately show ?thesis by (simp add: show_nat.simps [of 0] read_unsigned_def)
next
  case False
  assume e: "ends r"
  obtain c t where c: "show_nat n = c # t" by (cases "show_nat n") auto
  have d: "list_all is_decimal (c # t)" using show_nat_decimal [of n] c by simp
  have "c \<noteq> CHR ''0''" using hd_show_nat_zero [of n] False c by auto
  moreover have "takeWhile is_decimal (c # t @ r) = c # t" "dropWhile is_decimal (c # t @ r) = r"
    using d e by (auto simp: list_all_iff ends_def takeWhile_append2 dropWhile_append2 split: list.splits)
  ultimately show ?thesis using d digits_value_show_nat [of n] c by (simp add: read_unsigned_def)
qed

lemma read_int_show: "ends r \<Longrightarrow> read_int (show_int i @ r) = Some (PInt i, r)"
proof (cases "i < 0")
  case False
  moreover obtain c t where c: "show_nat (nat i) = c # t" by (cases "show_nat (nat i)") auto
  ultimately show "ends r \<Longrightarrow> ?thesis"
    using hd_show_nat [of "nat i"] read_unsigned_show [of r "nat i"] by (simp add: show_int_def read_int_def)
qed (simp add: show_int_def read_int_def read_unsigned_show)

lemma ends_simps [simp]: "ends []" "ends (CHR '','' # r)" "ends (CHR '']'' # r)" "ends (CHR ''}'' # r)"
  by (simp_all add: ends_def is_decimal_def cp_def)

lemma skip_ws_simps [simp]: "skip_ws [] = []" "skip_ws (c # s) = (if json_ws c then skip_ws s else c # s)"
  by (simp_all add: skip_ws_def)

text \<open>No value starts with white space or a closing bracket.\<close>

definition opens :: "string \<Rightarrow> bool" where
  "opens s \<longleftrightarrow> (case s of [] \<Rightarrow> False | c # _ \<Rightarrow> \<not> json_ws c \<and> c \<noteq> CHR '']'' \<and> c \<noteq> CHR ''}'')"

lemma opens_skip: "opens s \<Longrightarrow> skip_ws (s @ r) = s @ r \<and> expect (CHR '']'') (s @ r) = None \<and> expect (CHR ''}'') (s @ r) = None"
  by (cases s) (auto simp: opens_def)

lemma opens_show_int: "opens (show_int i)"
proof -
  obtain c t where "show_int i = c # t" by (cases "show_int i") auto
  moreover from this have "num_char c" using show_int_num [of i] by simp
  ultimately show ?thesis by (auto simp: opens_def num_char_def is_decimal_def json_ws_def cp_def)
qed

lemma opens_dumps: "opens (json_dumps_default v)"
  using opens_show_int by (cases v) (auto simp: opens_def json_ws_def json_str_def)

lemma read_items_join:
  assumes item: "\<And>x n r. x \<in> set xs \<Longrightarrow> length (f x) \<le> n \<Longrightarrow> ends r \<Longrightarrow> read_value n (f x @ r) = Some (x, r)"
    and op: "\<And>x. opens (f x)" and "xs \<noteq> []" and "length (join '', '' (map f xs)) < n"
  shows "read_items n (join '', '' (map f xs) @ CHR '']'' # r) = Some (xs, r)"
  using item assms(3,4)
proof (induction xs arbitrary: n)
  case (Cons x xs)
  then obtain m where n: "n = Suc m" by (cases n) auto
  show ?case
  proof (cases xs)
    case Nil
    with Cons n show ?thesis by (simp add: json_ws_def)
  next
    case (Cons y ys)
    let ?rest = "join '', '' (map f xs)"
    have j: "join '', '' (map f (x # xs)) = f x @ '', '' @ ?rest" using Cons by simp
    have ne: "f x \<noteq> []" using op [of x] by (auto simp: opens_def)
    then have "length ?rest < m" "length (f x) \<le> m" using Cons.prems(3) j n by (auto simp: Suc_le_eq)
    moreover have "opens ?rest" using op [of y] Cons by (cases "f y"; cases ys) (auto simp: opens_def)
    ultimately show ?thesis
      using Cons.IH [of m] Cons.prems(1) [of x m "CHR '','' # CHR '' '' # ?rest @ CHR '']'' # r"] Cons.prems(1) Cons n j
        opens_skip [of ?rest "CHR '']'' # r"] by (simp add: json_ws_def)
  qed
qed simp

lemma read_members_join:
  fixes f :: "pyval \<Rightarrow> string"
  defines "g \<equiv> \<lambda>(k, v). json_str k @ '': '' @ f v"
  assumes item: "\<And>v n r. v \<in> snd ` set ms \<Longrightarrow> length (f v) \<le> n \<Longrightarrow> ends r \<Longrightarrow> read_value n (f v @ r) = Some (v, r)"
    and op: "\<And>v. opens (f v)" and "ms \<noteq> []" and "length (join '', '' (map g ms)) < n"
  shows "read_members n (join '', '' (map g ms) @ CHR ''}'' # r) = Some (ms, r)"
  using item assms(4,5)
proof (induction ms arbitrary: n)
  case (Cons km ms)
  obtain k v where km: "km = (k, v)" by (cases km)
  obtain m where n: "n = Suc m" using Cons.prems(3) by (cases n) auto
  have g: "g km = CHR 0x22 # concat (map json_char k) @ CHR 0x22 # CHR '':'' # CHR '' '' # f v"
    by (simp add: g_def km json_str_def)
  have one: "length (f v) \<le> m \<Longrightarrow> ends r' \<Longrightarrow> read_value m (f v @ r') = Some (v, r')" for r'
    using Cons.prems(1) km by force
  note sk = opens_skip [OF op [of v]]
  show ?case
  proof (cases ms)
    case Nil
    with Cons.prems(3) n g have "length (f v) \<le> m" by simp
    with Nil one n g km show ?thesis by (simp add: json_ws_def read_string_body sk)
  next
    case (Cons y ys)
    let ?rest = "join '', '' (map g ms)"
    have j: "join '', '' (map g (km # ms)) = g km @ '', '' @ ?rest" using Cons by simp
    have len: "length ?rest < m" "length (f v) \<le> m" using Cons.prems(3) j n g by auto
    have "opens (g y)" by (cases y) (simp add: g_def json_str_def opens_def json_ws_def)
    then have "opens ?rest" using Cons by (cases "g y"; cases ys) (auto simp: opens_def)
    moreover have "read_members m (?rest @ CHR ''}'' # r) = Some (ms, r)"
      using Cons.IH [of m] Cons.prems(1) Cons len by auto
    ultimately show ?thesis
      using one [of "CHR '','' # CHR '' '' # ?rest @ CHR ''}'' # r"] len n j g km opens_skip [of ?rest "CHR ''}'' # r"]
      by (simp add: json_ws_def read_string_body sk)
  qed
qed simp

lemma dict_of_distinct: "distinct (map fst ms) \<Longrightarrow> dict_of ms = ms"
proof -
  have "fold (\<lambda>(k, v) d. dset k v d) ms d = d @ ms" if "distinct (map fst (d @ ms))" for d
    using that
  proof (induction ms arbitrary: d)
    case (Cons m ms)
    obtain k v where m: "m = (k, v)" by (cases m)
    have "dset k v d = d @ [(k, v)]" using Cons.prems m by (induction d) (auto simp: dset_def)
    then show ?case using Cons.IH [of "d @ [(k, v)]"] Cons.prems m by simp
  qed simp
  from this [of "[]"] show "distinct (map fst ms) \<Longrightarrow> dict_of ms = ms" by (simp add: dict_of_def)
qed

lemma read_value_dumps:
  "wf_json v \<Longrightarrow> length (json_dumps_default v) \<le> n \<Longrightarrow> ends r \<Longrightarrow> read_value n (json_dumps_default v @ r) = Some (v, r)"
proof (induction v arbitrary: n r)
  case (PInt i)
  then obtain m where n: "n = Suc m" by (cases n) auto
  obtain c t where c: "show_int i = c # t" by (cases "show_int i") auto
  have "num_char c" using show_int_num [of i] c by simp
  then have "c \<notin> {CHR 0x22, CHR ''['', CHR ''{'', CHR ''n'', CHR ''t'', CHR ''f''}"
    by (auto simp: num_char_def is_decimal_def cp_def)
  then show ?case using read_int_show [of r i] PInt n c by (simp add: startswith_def)
next
  case (PStr s)
  then obtain m where "n = Suc m" by (cases n) (auto simp: json_str_def)
  then show ?case by (simp add: json_str_def read_string_body)
next
  case (PList xs)
  then obtain m where n: "n = Suc m" by (cases n) auto
  show ?case
  proof (cases "xs = []")
    case False
    let ?j = "join '', '' (map json_dumps_default xs)"
    obtain x ys where xs: "xs = x # ys" using False by (cases xs) auto
    have "opens ?j" using opens_dumps [of x] xs by (cases "json_dumps_default x"; cases ys) (auto simp: opens_def)
    moreover have "read_items m (?j @ CHR '']'' # r) = Some (xs, r)"
      using PList False n by (intro read_items_join) (auto simp: list_all_iff opens_dumps)
    ultimately show ?thesis using n opens_skip [of ?j "CHR '']'' # r"] by simp
  qed (simp add: n json_ws_def)
next
  case (PDict d)
  then obtain m where n: "n = Suc m" by (cases n) auto
  show ?case
  proof (cases "d = []")
    case False
    let ?g = "\<lambda>(k, v). json_str k @ '': '' @ json_dumps_default v"
    let ?j = "join '', '' (map ?g d)"
    obtain x ys where xs: "d = x # ys" using False by (cases d) auto
    have "opens ?j" using xs by (cases x; cases ys) (auto simp: opens_def json_str_def json_ws_def)
    moreover have "read_members m (?j @ CHR ''}'' # r) = Some (d, r)"
    proof (rule read_members_join)
      fix v n r
      assume v: "v \<in> snd ` set d" "length (json_dumps_default v) \<le> n" "ends r"
      then obtain k where "(k, v) \<in> set d" by auto
      with PDict.IH [of "(k, v)" v n r] PDict.prems(1) v show "read_value n (json_dumps_default v @ r) = Some (v, r)"
        by (auto simp: list_all_iff)
    qed (use PDict False n in \<open>auto simp: opens_dumps\<close>)
    ultimately show ?thesis using n opens_skip [of ?j "CHR ''}'' # r"] PDict.prems(1) by (simp add: dict_of_distinct)
  qed (simp add: n json_ws_def dict_of_def)
next
  case (PBool b)
  then obtain m where "n = Suc m" by (cases n) (auto split: if_splits)
  then show ?case by (simp add: startswith_def)
next
  case PNone
  then obtain m where "n = Suc m" by (cases n) auto
  then show ?case by (simp add: startswith_def)
qed

lemma json_loads_dumps:
  assumes "wf_json v"
  shows "json_loads (json_dumps_default v) = Some v"
proof -
  have "read_value (Suc (2 * length (json_dumps_default v))) (json_dumps_default v @ []) = Some (v, [])"
    using assms by (intro read_value_dumps) simp_all
  with opens_skip [OF opens_dumps, of v "[]"] show ?thesis by (simp add: json_loads_def)
qed

end
