(* ===== verification/Secrets.thy ===== *)
theory Secrets
  imports Py_Json_Reader Wolf_Errors
begin

text \<open>
  The secrets backend (\<open>packages/secrets\<close>): the key-value contract of \<open>SecretsBackend\<close> as a locale, and
  \<open>EncryptedFileBackend\<close>, which keeps all secrets in one encrypted JSON file.

  The Fernet cipher and the file system are the arguments \<open>fernet\<close> and \<open>disk\<close>.  An encryption draws a
  fresh initialisation value from the sequence in the state.  The plain text \<open>_save\<close> writes is ASCII,
  so its bytes are its characters.  The lock has no effect in a sequential run.
\<close>

section \<open>The cipher and the disk\<close>

record fernet =
  fn_encrypt :: "nat \<Rightarrow> string \<Rightarrow> string"
  fn_decrypt :: "string \<Rightarrow> string option"

text \<open>\<open>fs_read\<close> is \<open>None\<close> when the path does not exist; \<open>fs_replace\<close> is the temporary file and rename.\<close>

record 'fs disk =
  fs_read :: "'fs \<Rightarrow> string option result"
  fs_replace :: "string \<Rightarrow> 'fs \<Rightarrow> unit result \<times> 'fs"

record 'fs secrets_state =
  ss_disk :: 'fs
  ss_iv :: "nat \<Rightarrow> nat"

definition secret_error :: "string \<Rightarrow> exn" where
  "secret_error m = Wolf SecretBackendError m"

section \<open>EncryptedFileBackend\<close>

text \<open>\<open>path\<close> is the text of \<open>self._path\<close>.\<close>

definition secrets_load :: "fernet \<Rightarrow> 'fs disk \<Rightarrow> string \<Rightarrow> 'fs secrets_state \<Rightarrow> pyval result" where
  "secrets_load fn dk path st = (case fs_read dk (ss_disk st) of
     Inl e \<Rightarrow> Inl (secret_error (''Failed to read secrets file at '' @ path @ '': '' @ exn_str e))
   | Inr None \<Rightarrow> Inr (PDict [])
   | Inr (Some ciphertext) \<Rightarrow> (case fn_decrypt fn ciphertext of
        None \<Rightarrow> Inl (secret_error ''Secrets file decryption failed - wrong key or corrupted file'')
      | Some plaintext \<Rightarrow> (case json_loads plaintext of
           None \<Rightarrow> Inl (secret_error (''Failed to read secrets file at '' @ path @ '': Expecting value''))
         | Some v \<Rightarrow> Inr v)))"

definition secrets_save :: "fernet \<Rightarrow> 'fs disk \<Rightarrow> string \<Rightarrow> dict \<Rightarrow> 'fs secrets_state \<Rightarrow> unit result \<times> 'fs secrets_state" where
  "secrets_save fn dk path d st =
    (let ciphertext = fn_encrypt fn (ss_iv st 0) (json_dumps_default (PDict d)); iv = (\<lambda>n. ss_iv st (Suc n)) in
     case fs_replace dk ciphertext (ss_disk st) of
       (Inl e, fs) \<Rightarrow> (Inl (secret_error (''Failed to write secrets file at '' @ path @ '': '' @ exn_str e)), \<lparr>ss_disk = fs, ss_iv = iv\<rparr>)
     | (Inr _, fs) \<Rightarrow> (Inr (), \<lparr>ss_disk = fs, ss_iv = iv\<rparr>))"

text \<open>A loaded document that is not an object has none of the dict operations.\<close>

definition not_a_dict :: exn where
  "not_a_dict = PyError ''AttributeError'' ''object is not a dict''"

definition secrets_get :: "fernet \<Rightarrow> 'fs disk \<Rightarrow> string \<Rightarrow> string \<Rightarrow> 'fs secrets_state \<Rightarrow> pyval result" where
  "secrets_get fn dk path key st = rbind (secrets_load fn dk path st) (\<lambda>v.
     case as_dict v of None \<Rightarrow> Inl not_a_dict | Some d \<Rightarrow> Inr (dget d key))"

definition secrets_set :: "fernet \<Rightarrow> 'fs disk \<Rightarrow> string \<Rightarrow> string \<Rightarrow> string \<Rightarrow> 'fs secrets_state \<Rightarrow> unit result \<times> 'fs secrets_state" where
  "secrets_set fn dk path key val st = (case secrets_load fn dk path st of Inl e \<Rightarrow> (Inl e, st)
     | Inr v \<Rightarrow> (case as_dict v of None \<Rightarrow> (Inl not_a_dict, st)
        | Some d \<Rightarrow> secrets_save fn dk path (dset key (PStr val) d) st))"

definition secrets_delete :: "fernet \<Rightarrow> 'fs disk \<Rightarrow> string \<Rightarrow> string \<Rightarrow> 'fs secrets_state \<Rightarrow> unit result \<times> 'fs secrets_state" where
  "secrets_delete fn dk path key st = (case secrets_load fn dk path st of Inl e \<Rightarrow> (Inl e, st)
     | Inr v \<Rightarrow> (case as_dict v of None \<Rightarrow> (Inl not_a_dict, st)
        | Some d \<Rightarrow> secrets_save fn dk path (AList.delete key d) st))"

definition secrets_exists :: "fernet \<Rightarrow> 'fs disk \<Rightarrow> string \<Rightarrow> string \<Rightarrow> 'fs secrets_state \<Rightarrow> bool result" where
  "secrets_exists fn dk path key st = rbind (secrets_load fn dk path st) (\<lambda>v.
     case as_dict v of None \<Rightarrow> Inl not_a_dict | Some d \<Rightarrow> Inr (map_of d key \<noteq> None))"

section \<open>The contract\<close>

text \<open>What a client of a secrets backend relies on, as a refinement: \<open>keys\<close> is the map a readable store
  stands for, the reads read it, and a write either updates it or fails and leaves it.\<close>

locale secrets_backend =
  fixes keys :: "'s \<Rightarrow> (string \<rightharpoonup> pyval) option"
    and get :: "string \<Rightarrow> 's \<Rightarrow> pyval result"
    and set_key :: "string \<Rightarrow> string \<Rightarrow> 's \<Rightarrow> unit result \<times> 's"
    and delete :: "string \<Rightarrow> 's \<Rightarrow> unit result \<times> 's"
    and exists_key :: "string \<Rightarrow> 's \<Rightarrow> bool result"
  assumes get_keys: "keys s = Some m \<Longrightarrow> get k s = Inr (case m k of Some v \<Rightarrow> v | None \<Rightarrow> PNone)"
    and exists_keys: "keys s = Some m \<Longrightarrow> exists_key k s = Inr (k \<in> dom m)"
    and set_keys: "keys s = Some m \<Longrightarrow> set_key k v s = (r, s') \<Longrightarrow>
      (case r of Inl _ \<Rightarrow> keys s' = Some m | Inr _ \<Rightarrow> keys s' = Some (m(k \<mapsto> PStr v)))"
    and delete_keys: "keys s = Some m \<Longrightarrow> delete k s = (r, s') \<Longrightarrow>
      (case r of Inl _ \<Rightarrow> keys s' = Some m | Inr _ \<Rightarrow> keys s' = Some (m(k := None)))"
begin

lemma get_after_set:
  assumes "keys s = Some m" "set_key k v s = (Inr (), s')"
  shows "get k' s' = (if k' = k then Inr (PStr v) else get k' s)"
  using set_keys [OF assms] get_keys [OF assms(1), of k'] get_keys [of s' _ k'] by simp

lemma get_after_delete:
  assumes "keys s = Some m" "delete k s = (Inr (), s')"
  shows "get k' s' = (if k' = k then Inr PNone else get k' s)"
  using delete_keys [OF assms] get_keys [OF assms(1), of k'] get_keys [of s' _ k'] by simp

lemma failed_set_keeps:
  assumes "keys s = Some m" "set_key k v s = (Inl e, s')"
  shows "get k' s' = get k' s"
  using set_keys [OF assms] get_keys [OF assms(1), of k'] get_keys [of s' m k'] by simp

end

text \<open>What the file backend relies on: a Fernet token decrypts to its plain text, a replaced file reads
  back, and a failed replacement leaves the old file in place.\<close>

locale durable_store =
  fixes fn :: fernet and dk :: "'fs disk" and path :: string
  assumes decrypt_encrypt: "fn_decrypt fn (fn_encrypt fn iv t) = Some t"
    and replace_ok: "fs_replace dk c fs = (Inr (), fs') \<Longrightarrow> fs_read dk fs' = Inr (Some c)"
    and replace_failed: "fs_replace dk c fs = (Inl e, fs') \<Longrightarrow> fs_read dk fs' = fs_read dk fs"

text \<open>The map a secrets file stands for: a readable file with a JSON object that has distinct keys at every depth.\<close>

definition stored_keys :: "fernet \<Rightarrow> 'fs disk \<Rightarrow> 'fs secrets_state \<Rightarrow> (string \<rightharpoonup> pyval) option" where
  "stored_keys fn dk st = (case secrets_load fn dk [] st of
     Inr (PDict d) \<Rightarrow> if wf_json (PDict d) then Some (map_of d) else None | _ \<Rightarrow> None)"

lemma stored_keysD:
  assumes "stored_keys fn dk st = Some m"
  obtains d where "secrets_load fn dk path st = Inr (PDict d)" "wf_json (PDict d)" "m = map_of d"
proof -
  from assms obtain d where d: "secrets_load fn dk [] st = Inr (PDict d)" "wf_json (PDict d)" "m = map_of d"
    by (auto simp: stored_keys_def split: sum.splits pyval.splits if_splits)
  from d(1) have "secrets_load fn dk path st = Inr (PDict d)"
    by (auto simp: secrets_load_def split: sum.splits option.splits)
  with d that show thesis by blast
qed

lemma wf_dset: "wf_json (PDict d) \<Longrightarrow> wf_json v \<Longrightarrow> wf_json (PDict (dset k v d))"
proof -
  have "list_all (\<lambda>(k, v). wf_json v) (AList.update k v d)" if "list_all (\<lambda>(k, v). wf_json v) d" "wf_json v" for v
    using that by (induction d) auto
  then show "wf_json (PDict d) \<Longrightarrow> wf_json v \<Longrightarrow> ?thesis" by (simp add: distinct_dset dset_def distinct_update)
qed

lemma wf_delete: "wf_json (PDict d) \<Longrightarrow> wf_json (PDict (AList.delete k d))"
  by (auto simp: AList.delete_eq list_all_iff distinct_map_filter)

context durable_store
begin

lemma load_saved:
  assumes "secrets_save fn dk path d st = (Inr (), st')" "wf_json (PDict d)"
  shows "secrets_load fn dk path' st' = Inr (PDict d)"
proof -
  from assms(1) have "fs_read dk (ss_disk st') = Inr (Some (fn_encrypt fn (ss_iv st 0) (json_dumps_default (PDict d))))"
    by (auto simp: secrets_save_def Let_def split: prod.splits sum.splits intro: replace_ok)
  then show ?thesis by (simp add: secrets_load_def decrypt_encrypt json_loads_dumps [OF assms(2)] del: json_dumps_default.simps)
qed

lemma load_unsaved:
  assumes "secrets_save fn dk path d st = (Inl e, st')"
  shows "secrets_load fn dk path' st' = secrets_load fn dk path' st"
proof -
  from assms have "fs_read dk (ss_disk st') = fs_read dk (ss_disk st)"
    by (auto simp: secrets_save_def Let_def split: prod.splits sum.splits intro: replace_failed)
  then show ?thesis by (simp add: secrets_load_def)
qed

lemma save_keys:
  assumes "secrets_save fn dk path d st = (r, st')" "wf_json (PDict d)" "stored_keys fn dk st = Some m"
  shows "case r of Inl _ \<Rightarrow> stored_keys fn dk st' = Some m | Inr _ \<Rightarrow> stored_keys fn dk st' = Some (map_of d)"
proof (cases r)
  case (Inl e)
  with assms load_unsaved [of d st e st' "[]"] show ?thesis by (simp add: stored_keys_def)
next
  case (Inr u)
  with assms load_saved [of d st st' "[]"] show ?thesis by (simp add: stored_keys_def)
qed

end

text \<open>Under those laws the encrypted file is a secrets backend.\<close>

sublocale durable_store \<subseteq> enc: secrets_backend "stored_keys fn dk" "secrets_get fn dk path" "secrets_set fn dk path"
  "secrets_delete fn dk path" "secrets_exists fn dk path"
proof (unfold_locales, goal_cases)
  case (1 s m k)
  then show ?case by (elim stored_keysD [where path = path]) (simp add: secrets_get_def dget_def)
next
  case (2 s m k)
  then show ?case by (elim stored_keysD [where path = path]) (auto simp: secrets_exists_def)
next
  case (3 s m k v r s')
  then obtain d where d: "secrets_load fn dk path s = Inr (PDict d)" "wf_json (PDict d)" "m = map_of d"
    by (elim stored_keysD [where path = path])
  with 3 have "secrets_save fn dk path (dset k (PStr v) d) s = (r, s')" by (simp add: secrets_set_def)
  from save_keys [OF this wf_dset [OF d(2)] 3(1)] d(3) show ?case by (simp add: dset_def update_conv' split: sum.splits)
next
  case (4 s m k r s')
  then obtain d where d: "secrets_load fn dk path s = Inr (PDict d)" "wf_json (PDict d)" "m = map_of d"
    by (elim stored_keysD [where path = path])
  with 4 have "secrets_save fn dk path (AList.delete k d) s = (r, s')" by (simp add: secrets_delete_def)
  from save_keys [OF this wf_delete [OF d(2)] 4(1)] d(3) show ?case by (simp add: delete_conv' split: sum.splits)
qed

context durable_store
begin

lemma is_backend:
  "secrets_backend (stored_keys fn dk) (secrets_get fn dk path) (secrets_set fn dk path) (secrets_delete fn dk path) (secrets_exists fn dk path)"
  by (rule enc.secrets_backend_axioms)

end

section \<open>Properties\<close>


section \<open>Witnesses\<close>

text \<open>A cipher that marks its tokens and a disk whose writes fail when the path holds \<open>full\<close>.\<close>

definition marking :: fernet where
  "marking = \<lparr>fn_encrypt = (\<lambda>iv t. CHR ''#'' # t), fn_decrypt = (\<lambda>c. case c of [] \<Rightarrow> None | m # t \<Rightarrow> if m = CHR ''#'' then Some t else None)\<rparr>"

definition one_file :: "string option disk" where
  "one_file = \<lparr>fs_read = Inr, fs_replace = (\<lambda>c fs. if fs = Some ''full'' then (Inl (PyError ''OSError'' ''no space''), fs) else (Inr (), Some c))\<rparr>"

interpretation sample: durable_store marking one_file "''/run/secrets/wolf_secrets.enc''"
  by unfold_locales (auto simp: marking_def one_file_def split: if_splits)


end
