(* ===== verification/Wazuh_Connection.thy ===== *)
theory Wazuh_Connection
  imports Proposal_Models Secrets Server_Api
begin

text \<open>
  How an organization reaches its Wazuh deployment: the install topology document
  (\<open>wazuh/topology.py\<close>), the two configuration tables (\<open>wazuh/models.py\<close>), the connection profile
  (\<open>wazuh/config.py\<close>) and its resolver (\<open>wazuh/resolver.py\<close>).

  A pydantic \<open>ValidationError\<close> carries the message of its first error.  \<open>random.shuffle\<close> is the argument
  \<open>shuffle\<close>; the secrets backend is its \<open>get\<close>.
\<close>

section \<open>The topology document\<close>

definition MAX_URL :: nat where "MAX_URL = 500"
definition MAX_NAME :: nat where "MAX_NAME = 200"

definition validation_error :: "string \<Rightarrow> exn" where
  "validation_error m = PyError ''ValidationError'' m"

definition validate_http_url :: "string \<Rightarrow> string result" where
  "validate_http_url v =
    (let stripped = py_strip v in
     if stripped = [] then Inl (validation_error ''Value error, URL must not be empty'')
     else if length stripped > MAX_URL then Inl (validation_error (''Value error, URL must be at most '' @ show_nat MAX_URL @ '' characters''))
     else if \<not> (startswith stripped ''http://'' \<or> startswith stripped ''https://'')
     then Inl (validation_error ''Value error, URL must start with http:// or https://'')
     else Inr stripped)"

record wazuh_node =
  wn_url :: string
  wn_name :: "string option"

definition clean_name :: "string option \<Rightarrow> string option" where
  "clean_name v = (case v of None \<Rightarrow> None | Some s \<Rightarrow> (let stripped = py_strip s in if stripped = [] then None else Some stripped))"

datatype wazuh_topology =
    SingleHostTopology (indexer_url: string) (manager_url: string) (dashboard_url: string)
  | DistributedTopology (indexer_nodes: "wazuh_node list") (manager_master: wazuh_node)
      (manager_workers: "wazuh_node list") (dashboards: "wazuh_node list")

text \<open>A required string field, a URL field, and the fields of a node.\<close>

definition str_field :: "dict \<Rightarrow> string \<Rightarrow> string result" where
  "str_field d k = (case map_of d k of None \<Rightarrow> Inl (validation_error ''Field required'')
     | Some v \<Rightarrow> (case as_str v of None \<Rightarrow> Inl (validation_error ''Input should be a valid string'') | Some s \<Rightarrow> Inr s))"

definition url_field :: "dict \<Rightarrow> string \<Rightarrow> string result" where
  "url_field d k = rbind (str_field d k) validate_http_url"

definition parse_node :: "pyval \<Rightarrow> wazuh_node result" where
  "parse_node v = (case as_dict v of None \<Rightarrow> Inl (validation_error ''Input should be a valid dictionary or instance of WazuhNode'')
     | Some d \<Rightarrow> rbind (url_field d ''url'') (\<lambda>url.
        case dget d ''name'' of
          PNone \<Rightarrow> Inr \<lparr>wn_url = url, wn_name = None\<rparr>
        | PStr s \<Rightarrow> if length s > MAX_NAME then Inl (validation_error (''String should have at most '' @ show_nat MAX_NAME @ '' characters''))
            else Inr \<lparr>wn_url = url, wn_name = clean_name (Some s)\<rparr>
        | _ \<Rightarrow> Inl (validation_error ''Input should be a valid string'')))"

fun parse_all :: "pyval list \<Rightarrow> wazuh_node list result" where
  "parse_all [] = Inr []"
| "parse_all (v # vs) = rbind (parse_node v) (\<lambda>n. rbind (parse_all vs) (\<lambda>ns. Inr (n # ns)))"

definition node_list :: "dict \<Rightarrow> string \<Rightarrow> nat \<Rightarrow> wazuh_node list result" where
  "node_list d k min_length = (case map_of d k of
       None \<Rightarrow> if min_length = 0 then Inr [] else Inl (validation_error ''Field required'')
     | Some v \<Rightarrow> (case as_list v of None \<Rightarrow> Inl (validation_error ''Input should be a valid list'')
        | Some xs \<Rightarrow> rbind (parse_all xs) (\<lambda>ns.
            if length ns < min_length then Inl (validation_error ''List should have at least 1 item after validation, not 0'') else Inr ns)))"

text \<open>\<open>WAZUH_TOPOLOGY_ADAPTER.validate_python\<close>: the \<open>kind\<close> tag selects the shape.\<close>

definition validate_topology :: "dict \<Rightarrow> wazuh_topology result" where
  "validate_topology d =
    (if dget d ''kind'' = PStr ''single''
     then rbind (url_field d ''indexer_url'') (\<lambda>i. rbind (url_field d ''manager_url'') (\<lambda>m.
       rbind (url_field d ''dashboard_url'') (\<lambda>b. Inr (SingleHostTopology i m b))))
     else if dget d ''kind'' = PStr ''distributed''
     then rbind (node_list d ''indexer_nodes'' 1) (\<lambda>i.
       rbind (case map_of d ''manager_master'' of None \<Rightarrow> Inl (validation_error ''Field required'') | Some v \<Rightarrow> parse_node v) (\<lambda>m.
       rbind (node_list d ''manager_workers'' 0) (\<lambda>w. rbind (node_list d ''dashboards'' 1) (\<lambda>b.
         Inr (DistributedTopology i m w b)))))
     else Inl (validation_error ''Unable to extract tag using discriminator 'kind' ''))"

section \<open>Tables\<close>

text \<open>\<open>updated_at\<close> is read by the responses and kept.\<close>

record organization_wazuh_config =
  wc_id :: uuid
  wc_organization_id :: uuid
  wc_opensearch_index_pattern :: string
  wc_opensearch_credential_key :: string
  wc_server_api_credential_key :: string
  wc_inject_group_label_filter :: bool
  wc_agent_group_labels :: "string list option"
  wc_validated_at :: "datetime option"
  wc_created_at :: datetime
  wc_updated_at :: datetime

record wazuh_ecosystem_topology =
  wt_id :: uuid
  wt_is_singleton :: bool
  wt_kind :: string
  wt_topology :: dict
  wt_indexer_credential_key :: string
  wt_manager_credential_key :: string
  wt_verify_tls :: bool
  wt_validated_at :: "datetime option"
  wt_created_at :: datetime
  wt_updated_at :: datetime

record wolf_db = database +
  wazuh_configs :: "organization_wazuh_config list"
  wazuh_topologies :: "wazuh_ecosystem_topology list"

section \<open>The connection profile\<close>

record wazuh_connection =
  cn_organization_id :: uuid
  cn_opensearch_url :: string
  cn_opensearch_index_pattern :: string
  cn_opensearch_username :: string
  cn_opensearch_password :: string
  cn_server_api_url :: string
  cn_server_api_username :: string
  cn_server_api_password :: string
  cn_verify_tls :: bool
  cn_inject_group_label_filter :: bool
  cn_agent_group_labels :: "string list"
  cn_opensearch_fallback_urls :: "string list"

definition opensearch_credential_key :: "uuid \<Rightarrow> string" where
  "opensearch_credential_key organization_id = ''wazuh.opensearch.'' @ uuid_str organization_id"

definition server_api_credential_key :: "uuid \<Rightarrow> string" where
  "server_api_credential_key organization_id = ''wazuh.server_api.'' @ uuid_str organization_id"

definition resolve_runtime_endpoints ::
  "(string list \<Rightarrow> string list) \<Rightarrow> wazuh_ecosystem_topology \<Rightarrow> (string \<times> string list \<times> string \<times> bool) result" where
  "resolve_runtime_endpoints shuffle topology = rbind (validate_topology (wt_topology topology)) (\<lambda>shape.
     case shape of
       SingleHostTopology i m b \<Rightarrow> Inr (i, [], m, wt_verify_tls topology)
     | DistributedTopology is m ws ds \<Rightarrow>
        (case shuffle (map wn_url is) of
           [] \<Rightarrow> Inl (PyError ''IndexError'' ''list index out of range'')
         | n # ns \<Rightarrow> Inr (n, ns, wn_url m, wt_verify_tls topology)))"

type_synonym secrets_reader = "string \<Rightarrow> pyval result"

definition load_credential_blob :: "secrets_reader \<Rightarrow> string \<Rightarrow> (string \<times> string) result" where
  "load_credential_blob secrets key = rbind (secrets key) (\<lambda>raw.
     case raw of
       PNone \<Rightarrow> Inl (Wolf SecretNotFoundError (''Missing Wazuh credential: '' @ repr_str key))
     | PStr s \<Rightarrow> (case json_loads s of
         None \<Rightarrow> Inl (Wolf SecretNotFoundError (''Credential '' @ repr_str key @ '' is not valid JSON''))
       | Some v \<Rightarrow> (case as_dict v of
            Some d \<Rightarrow> if map_of d ''username'' = None \<or> map_of d ''password'' = None
              then Inl (Wolf SecretNotFoundError (''Credential '' @ repr_str key @ '' missing required fields (username, password)''))
              else Inr (py_str (dget d ''username''), py_str (dget d ''password''))
          | None \<Rightarrow> Inl (Wolf SecretNotFoundError (''Credential '' @ repr_str key @ '' missing required fields (username, password)''))))
     | _ \<Rightarrow> Inl (PyError ''TypeError'' ''the JSON object must be str, bytes or bytearray''))"

definition wazuh_config_of :: "'z wolf_db_scheme \<Rightarrow> uuid \<Rightarrow> organization_wazuh_config option" where
  "wazuh_config_of db org = find (\<lambda>c. wc_organization_id c = org) (wazuh_configs db)"

definition the_topology :: "'z wolf_db_scheme \<Rightarrow> wazuh_ecosystem_topology option" where
  "the_topology db = find (\<lambda>_. True) (wazuh_topologies db)"

definition get_wazuh_connection ::
  "(string list \<Rightarrow> string list) \<Rightarrow> secrets_reader \<Rightarrow> organization_context \<Rightarrow> 'z wolf_db_scheme \<Rightarrow> wazuh_connection result" where
  "get_wazuh_connection shuffle secrets ctx db =
    (case wazuh_config_of db (oc_organization_id ctx) of
       None \<Rightarrow> Inl (Wolf WazuhConfigMissingError (''No Wazuh credentials configured for organization '' @ uuid_str (oc_organization_id ctx)))
     | Some row \<Rightarrow> (case the_topology db of
         None \<Rightarrow> Inl (Wolf WazuhTopologyMissingError
           ''Wazuh ecosystem topology is not configured for this install (Settings -> Wazuh Ecosystem).'')
       | Some topology \<Rightarrow> rbind (resolve_runtime_endpoints shuffle topology) (\<lambda>(idx, fallbacks, api_url, verify_tls).
           rbind (load_credential_blob secrets (wc_opensearch_credential_key row)) (\<lambda>(os_user, os_password).
           rbind (load_credential_blob secrets (wc_server_api_credential_key row)) (\<lambda>(api_user, api_password).
             Inr \<lparr>cn_organization_id = oc_organization_id ctx, cn_opensearch_url = idx,
               cn_opensearch_index_pattern = wc_opensearch_index_pattern row, cn_opensearch_username = os_user,
               cn_opensearch_password = os_password, cn_server_api_url = api_url, cn_server_api_username = api_user,
               cn_server_api_password = api_password, cn_verify_tls = verify_tls,
               cn_inject_group_label_filter = wc_inject_group_label_filter row,
               cn_agent_group_labels = (case wc_agent_group_labels row of Some ls \<Rightarrow> ls | None \<Rightarrow> []),
               cn_opensearch_fallback_urls = fallbacks\<rparr>)))))"

end
