(* ===== verification/Proposal_Api.thy ===== *)
theory Proposal_Api
  imports Executors Scheduler Wazuh_Connection
begin

text \<open>
  The approval API (\<open>api/action_proposals.py\<close>): list, read, reject, and approve-then-execute.

  A handler takes the context its \<open>require_capability\<close> dependency is checked on and returns its response
  or the exception, the database after the request and, for \<open>approve\<close>, the remote world.  A request
  whose session is not committed leaves the tables as they were (\<open>rollback\<close>).  The HTTP transport of the
  Server API clients is the argument \<open>transport\<close>, given the base URL and TLS setting of the connection.
\<close>

section \<open>Responses\<close>

record proposal_out =
  po_id :: string
  po_action_class :: string
  po_action :: string
  po_target :: dict
  po_parameters :: dict
  po_severity :: string
  po_state :: string
  po_rationale :: string
  po_expected_effect :: string
  po_evidence :: dict
  po_rollback_plan :: "string option"
  po_requested_by :: string
  po_approved_by :: "string option"
  po_approved_at :: "datetime option"
  po_executed_at :: "datetime option"
  po_result :: "dict option"
  po_created_at :: datetime
  po_expires_at :: datetime
  po_reverses_proposal_id :: "string option"
  po_reversal_proposal_id :: "string option"
  po_auto_unblock_at :: "datetime option"

definition from_row :: "action_proposal \<Rightarrow> proposal_out" where
  "from_row p = \<lparr>po_id = uuid_str (ap_id p), po_action_class = ap_action_class p, po_action = ap_action p,
     po_target = ap_target p, po_parameters = ap_parameters p, po_severity = ap_severity p,
     po_state = state_value (ap_state p), po_rationale = ap_rationale p, po_expected_effect = ap_expected_effect p,
     po_evidence = ap_evidence p, po_rollback_plan = ap_rollback_plan p, po_requested_by = uuid_str (ap_requested_by p),
     po_approved_by = map_option uuid_str (ap_approved_by p), po_approved_at = ap_approved_at p,
     po_executed_at = ap_executed_at p, po_result = ap_result p, po_created_at = ap_created_at p,
     po_expires_at = ap_expires_at p, po_reverses_proposal_id = map_option uuid_str (ap_reverses_proposal_id p),
     po_reversal_proposal_id = map_option uuid_str (ap_reversal_proposal_id p), po_auto_unblock_at = ap_auto_unblock_at p\<rparr>"

section \<open>Handlers\<close>

definition load_proposal :: "'z database_scheme \<Rightarrow> organization_context \<Rightarrow> uuid \<Rightarrow> action_proposal result" where
  "load_proposal db ctx proposal_id =
    (case find (\<lambda>p. ap_id p = proposal_id \<and> ap_organization_id p = oc_organization_id ctx) (proposals db) of
       None \<Rightarrow> Inl (HTTPException 404 ''Proposal not found'')
     | Some p \<Rightarrow> Inr p)"

definition RECENT_LIMIT :: nat where "RECENT_LIMIT = 200"

definition list_proposals :: "'z database_scheme \<Rightarrow> organization_context \<Rightarrow> string \<Rightarrow> proposal_out list result" where
  "list_proposals db ctx state = rbind (require_capability ACTION_PROPOSE ctx) (\<lambda>ctx.
     (let rows = filter (\<lambda>p. ap_organization_id p = oc_organization_id ctx) (proposals db);
          rows = (if state \<noteq> ''all'' then filter (\<lambda>p. state_value (ap_state p) = state) rows else rows)
      in Inr (map from_row (take RECENT_LIMIT (sort_desc (\<lambda>p. instant (ap_created_at p)) rows)))))"

definition get_proposal :: "'z database_scheme \<Rightarrow> organization_context \<Rightarrow> uuid \<Rightarrow> proposal_out result" where
  "get_proposal db ctx proposal_id = rbind (require_capability ACTION_PROPOSE ctx) (\<lambda>ctx.
     rbind (load_proposal db ctx proposal_id) (\<lambda>p. Inr (from_row p)))"

text \<open>The end of a request that raised: a \<open>WolfError\<close> is caught after a commit and becomes an HTTP error,
  anything else closes the session uncommitted.\<close>

definition raise_after :: "'z org_db_scheme \<Rightarrow> exn \<Rightarrow> 'z org_db_scheme \<Rightarrow> 'a result \<times> 'z org_db_scheme" where
  "raise_after db0 e db = (Inl (to_http e), if is_wolf e then db else rollback db0 db)"

definition reject :: "'z database_scheme \<Rightarrow> organization_context \<Rightarrow> uuid \<Rightarrow> string \<Rightarrow> proposal_out result \<times> 'z database_scheme" where
  "reject db ctx proposal_id reason =
    (case require_capability ACTION_APPROVE ctx of Inl e \<Rightarrow> (Inl e, db)
     | Inr ctx \<Rightarrow>
        if length reason > 1000 then (Inl (HTTPException 422 ''String should have at most 1000 characters''), db)
        else case load_proposal db ctx proposal_id of Inl e \<Rightarrow> (Inl e, db)
        | Inr p \<Rightarrow>
           (case reject_proposal db p (oc_user_id ctx) (oc_role ctx) reason (Some (oc_session_id ctx)) of
              (Inl e, db1) \<Rightarrow> raise_after db e db1
            | (Inr p, db1) \<Rightarrow> (Inr (from_row p), db1)))"

text \<open>Both clients of a request, opened on the connection; each authenticates on first use.\<close>

definition server_endpoint ::
  "(string \<Rightarrow> bool \<Rightarrow> http_request \<Rightarrow> 'w \<Rightarrow> http_response result \<times> 'w) \<Rightarrow> wazuh_connection \<Rightarrow> 'w endpoint" where
  "server_endpoint transport conn = \<lparr>ep_send = transport (cn_server_api_url conn) (cn_verify_tls conn),
     ep_username = cn_server_api_username conn, ep_password = cn_server_api_password conn\<rparr>"

definition run_executor ::
  "'w endpoint \<Rightarrow> 'z database_scheme \<Rightarrow> action_proposal \<Rightarrow> organization_context \<Rightarrow> 'w
    \<Rightarrow> action_proposal result \<times> 'z database_scheme \<times> 'w" where
  "run_executor ep db p ctx w =
    (let (capabilities, w) = fetch_credential_capabilities ep \<lparr>read_token = None, action_token = None, remote = w\<rparr>;
         exec_ctx = \<lparr>ctx_api = ep, ctx_capabilities = capabilities\<rparr>
     in case get_executor (ap_action_class p) of
          Inl e \<Rightarrow> (Inl e, db, remote w)
        | Inr executor \<Rightarrow>
           (let (freshness, perform, verify) =
                  (if is_reversal p then build_reverse executor exec_ctx else build_forward executor exec_ctx);
                (r, db, w) = execute_proposal freshness perform verify db p (oc_user_id ctx) (Some (oc_session_id ctx)) w
            in (r, db, remote w)))"

text \<open>What follows a successful execution: completing a reversal, or arming the timed one.\<close>

definition after_execution ::
  "'z database_scheme \<Rightarrow> action_proposal \<Rightarrow> organization_context \<Rightarrow> action_proposal result \<times> 'z database_scheme" where
  "after_execution db p ctx =
    (if ap_state p \<noteq> Succeeded then (Inr p, db)
     else if is_reversal p
     then (case complete_api_reversal db p (oc_user_id ctx) (Some (oc_session_id ctx)) of
         (Inl e, db) \<Rightarrow> (Inl e, db) | (Inr _, db) \<Rightarrow> (Inr p, db))
     else let (p, db) = stamp_auto_unblock_at db p None in (Inr p, db))"

definition execute_signed ::
  "'w endpoint \<Rightarrow> 'z database_scheme \<Rightarrow> 'z database_scheme \<Rightarrow> action_proposal \<Rightarrow> organization_context \<Rightarrow> 'w
    \<Rightarrow> proposal_out result \<times> 'z database_scheme \<times> 'w" where
  "execute_signed ep db db1 p ctx w =
    (case run_executor ep db1 p ctx w of
       (Inl e, db2, w) \<Rightarrow> (case raise_after db e db2 of (r, db3) \<Rightarrow> (r, db3, w))
     | (Inr p, db2, w) \<Rightarrow>
        (case after_execution db2 p ctx of
           (Inl e, db3) \<Rightarrow> (Inl e, rollback db db3, w)
         | (Inr p, db3) \<Rightarrow> (Inr (from_row p), db3, w)))"

definition approve ::
  "(string \<Rightarrow> bool \<Rightarrow> http_request \<Rightarrow> 'w \<Rightarrow> http_response result \<times> 'w) \<Rightarrow> (string list \<Rightarrow> string list) \<Rightarrow> secrets_reader
    \<Rightarrow> 'z wolf_db_scheme \<Rightarrow> organization_context \<Rightarrow> uuid \<Rightarrow> 'w \<Rightarrow> proposal_out result \<times> 'z wolf_db_scheme \<times> 'w" where
  "approve transport shuffle secrets db ctx proposal_id w =
    (case require_capability ACTION_APPROVE ctx of Inl e \<Rightarrow> (Inl e, db, w)
     | Inr ctx \<Rightarrow>
       (case load_proposal db ctx proposal_id of Inl e \<Rightarrow> (Inl e, db, w)
        | Inr p \<Rightarrow>
          (case approve_proposal db p (oc_user_id ctx) (oc_role ctx) (Some (oc_session_id ctx)) of
             (Inl e, db1) \<Rightarrow> (case raise_after db e db1 of (r, db2) \<Rightarrow> (r, db2, w))
           | (Inr p, db1) \<Rightarrow>
             (case get_wazuh_connection shuffle secrets ctx db1 of
                Inl e \<Rightarrow> (Inl e, rollback db db1, w)
              | Inr conn \<Rightarrow> execute_signed (server_endpoint transport conn) db db1 p ctx w))))"

section \<open>Laws\<close>

text \<open>No verification read of the four executors raises a \<open>WolfError\<close>, so none can leave a committed row
  in \<open>executing\<close>.\<close>

lemma first_item_not_wolf: "first_item v = Inl e \<Longrightarrow> \<not> is_wolf e"
  by (auto simp: first_item_def pget_def split: option.splits pyval.splits list.splits if_splits sum.splits)

lemma resolve_agent_groups_not_wolf: "resolve_agent_groups ep i w = (Inl e, w') \<Longrightarrow> \<not> is_wolf e"
  by (auto simp: resolve_agent_groups_def dest: first_item_not_wolf split: prod.splits sum.splits option.splits pyval.splits)

lemma interpret_ar_result_not_wolf: "interpret_ar_result v = Inl e \<Longrightarrow> \<not> is_wolf e"
  by (auto simp: interpret_ar_result_def Let_def split: option.splits pyval.splits)

lemma ga_verify_not_wolf: "ga_verify c p res w = (Inl e, w') \<Longrightarrow> \<not> is_wolf e"
  by (auto simp: ga_verify_def Let_def io_bind_Inl_iff dest: resolve_agent_groups_not_wolf)

lemma executor_verify_not_wolf:
  assumes "get_executor cls = Inr ex" and "(if b then build_reverse ex c else build_forward ex c) = (f, pf, v)"
    and "v q res w = (Inl e, w')"
  shows "\<not> is_wolf e"
  using assms ga_verify_not_wolf [of c q res w e w'] interpret_ar_result_not_wolf [of res e]
  by (auto simp: get_executor_eq ar_forward_def ar_reverse_def ga_forward_def ga_reverse_def rt_forward_def rt_reverse_def
      cc_forward_def cc_reverse_def ar_verify_def reversal_verify_def ga_verify_reverse_def io_bind_Inl_iff rt_verify_def
      rt_reverse_verify_def cc_verify_def cc_reverse_verify_def Let_def split: if_splits option.splits prod.splits)

lemma execute_cases:
  assumes nw: "\<forall>q res w e w'. v q res w = (Inl e, w') \<longrightarrow> \<not> is_wolf e"
  obtains (refused) e w' where "execute_proposal f pf v db p u ses w = (Inl e, db, w')"
  | (stale) d db' w' e where "execute_proposal f pf v db p u ses w = (Inl e, db', w')" "is_wolf e" "ap_state p \<in> {Pending, Approved}"
      "row_step db (p\<lparr>ap_state := Expired, ap_result := Some [(''freshness'', PStr d)]\<rparr>) u [''action.proposal.stale''] db'"
  | (interrupted) e db' w' where "execute_proposal f pf v db p u ses w = (Inl e, db', w')" "\<not> is_wolf e"
  | (executed) p' db' w' where "execute_proposal f pf v db p u ses w = (Inr p', db', w')"
proof (cases "cleared f db p w")
  case False
  then show thesis
  proof (cases rule: execute_uncleared [where perform = pf and verify = v and u = u and ses = ses])
    case (refused e w')
    then show thesis using that(1) by blast
  next
    case (stale d w' db')
    show thesis by (rule that(2) [OF stale(1) _ stale(3) stale(5)]) simp
  qed
next
  case True
  obtain fr w1 where fr: "f db p w = (fr, w1)" by (cases "f db p w")
  obtain pfd prior w2 where pfd: "pf (executing_db db p u ses) (p\<lparr>ap_state := Executing\<rparr>) w1 = (pfd, prior, w2)"
    by (cases "pf (executing_db db p u ses) (p\<lparr>ap_state := Executing\<rparr>) w1")
  from execute_cleared [where freshness = f and perform = pf and verify = v, OF True fr pfd] show thesis
  proof (elim disjE exE conjE, goal_cases)
    case (2 res e w3 db')
    then show ?case using that(3) [of e db' w3] nw by blast
  qed (use that(4) in blast)+
qed

lemma run_executor_cases:
  fixes ep :: "'w endpoint" and db :: "'z database_scheme"
  obtains (refused) e w' where "run_executor ep db p ctx w = (Inl e, db, w')"
  | (stale) d db' w' e where "run_executor ep db p ctx w = (Inl e, db', w')" "is_wolf e" "ap_state p \<in> {Pending, Approved}"
      "row_step db (p\<lparr>ap_state := Expired, ap_result := Some [(''freshness'', PStr d)]\<rparr>) (oc_user_id ctx) [''action.proposal.stale''] db'"
  | (interrupted) e db' w' where "run_executor ep db p ctx w = (Inl e, db', w')" "\<not> is_wolf e"
  | (executed) p' db' w' f pf v and w1 w2 :: "'w wazuh" where "run_executor ep db p ctx w = (Inr p', db', w')"
      "execute_proposal f pf v db p (oc_user_id ctx) (Some (oc_session_id ctx)) w1 = (Inr p', db', w2)"
proof -
  obtain caps w1 where caps: "fetch_credential_capabilities ep \<lparr>read_token = None, action_token = None, remote = w\<rparr> = (caps, w1)"
    by fastforce
  let ?c = "\<lparr>ctx_api = ep, ctx_capabilities = caps\<rparr>"
  show thesis
  proof (cases "get_executor (ap_action_class p) :: ('z database_scheme, 'w) class_executor result")
    case (Inl e)
    then show thesis using caps by (intro that(1)) (simp add: run_executor_def)
  next
    case (Inr ex)
    obtain f pf v where b: "(if is_reversal p then build_reverse ex ?c else build_forward ex ?c) = (f, pf, v)"
      by (metis prod_cases3)
    have run: "run_executor ep db p ctx w = (case execute_proposal f pf v db p (oc_user_id ctx) (Some (oc_session_id ctx)) w1
        of (r, db, w) \<Rightarrow> (r, db, remote w))"
      using caps Inr b by (simp add: run_executor_def)
    have nw: "\<forall>q res w e w'. v q res w = (Inl e, w') \<longrightarrow> \<not> is_wolf e" using executor_verify_not_wolf [OF Inr b] by blast
    show thesis
    proof (cases rule: execute_cases [of v f pf db p "oc_user_id ctx" "Some (oc_session_id ctx)" w1, OF nw,
          case_names refused stale interrupted executed])
      case (refused e w')
      with run show thesis by (intro that(1)) simp
    next
      case (stale d db' w' e)
      with run show thesis by (intro that(2) [OF _ stale(2-4)]) simp
    next
      case (interrupted e db' w')
      with run show thesis by (intro that(3) [OF _ interrupted(2)]) simp
    next
      case (executed p' db' w')
      with run show thesis by (intro that(4) [OF _ executed]) simp
    qed
  qed
qed

lemma rollback_tables [row_simps]:
  "proposals (rollback db0 db) = proposals db0" "audit_events (rollback db0 db) = audit_events db0"
  by (simp_all add: rollback_def)

lemma load_proposal_Inr:
  "load_proposal db ctx i = Inr p \<Longrightarrow> p \<in> set (proposals db) \<and> ap_id p = i \<and> ap_organization_id p = oc_organization_id ctx"
  by (auto simp: load_proposal_def dest: find_SomeD split: option.splits)

text \<open>The signed row, with the conditions under which it is signed.\<close>

definition signs :: "organization_context \<Rightarrow> action_proposal \<Rightarrow> action_proposal \<Rightarrow> bool" where
  "signs ctx p p1 \<longleftrightarrow> role_has_capability (oc_role ctx) ACTION_APPROVE \<and> oc_user_id ctx \<noteq> ap_requested_by p
     \<and> ap_state p = Pending
     \<and> (\<exists>t. p1 = p\<lparr>ap_state := Approved, ap_approved_by := Some (oc_user_id ctx), ap_approved_at := Some t\<rparr>)"

text \<open>What happens to the ledger between an execution that returned the row \<open>p2\<close> and the commit: nothing
  but the timer column, or the linked original rolled back.\<close>

definition settles :: "organization_context \<Rightarrow> 'z database_scheme \<Rightarrow> action_proposal \<Rightarrow> action_proposal \<Rightarrow> 'z database_scheme \<Rightarrow> bool" where
  "settles ctx db2 p2 p3 db' \<longleftrightarrow>
     (\<exists>a. p3 = p2\<lparr>ap_auto_unblock_at := a\<rparr> \<and> proposals db' = replace_by ap_id p3 (proposals db2) \<and> audit_events db' = audit_events db2)
   \<or> (\<exists>q. p3 = p2 \<and> ap_state p2 = Succeeded \<and> ap_reverses_proposal_id p2 = Some (ap_id q) \<and> get_row db2 (ap_id q) = Some q
        \<and> ap_state q = Succeeded \<and> row_step db2 (q\<lparr>ap_state := RolledBack\<rparr>) (oc_user_id ctx) [''action.proposal.rolled_back''] db')"

lemma replace_by_present: "x \<in> set xs \<Longrightarrow> distinct (map key xs) \<Longrightarrow> replace_by key x xs = xs"
proof -
  assume x: "x \<in> set xs" "distinct (map key xs)"
  then have "(if key y = key x then x else y) = y" if "y \<in> set xs" for y
    using that by (auto simp: distinct_map dest: inj_onD)
  then show ?thesis by (simp add: replace_by_def map_idI)
qed

lemma row_step_present: "row_step db p u tys db' \<Longrightarrow> replace_by ap_id p (proposals db') = proposals db'"
  by (simp add: row_step_def)

lemma after_execution_settles:
  assumes "row_step db p2 u tys db2"
  obtains p3 db' where "after_execution db2 p2 ctx = (Inr p3, db')" "settles ctx db2 p2 p3 db'"
proof -
  have same: "settles ctx db2 p2 p2 db2"
    unfolding settles_def using row_step_present [OF assms] by (intro disjI1 exI [of _ "ap_auto_unblock_at p2"]) simp
  show thesis
  proof (cases "ap_state p2 = Succeeded")
    case False
    with same that show thesis by (simp add: after_execution_def)
  next
    case st: True
    show thesis
    proof (cases "is_reversal p2")
      case rv: True
      show thesis
      proof (cases rule: complete_api_reversal_cases [of db2 p2 "oc_user_id ctx" "Some (oc_session_id ctx)"])
        case noop
        with st rv same that show thesis by (simp add: after_execution_def)
      next
        case (flip q db')
        then have "settles ctx db2 p2 p2 db'" unfolding settles_def by blast
        with flip(1) st rv that show thesis by (simp add: after_execution_def)
      qed
    next
      case False
      obtain p3 db' where r: "stamp_auto_unblock_at db2 p2 None = (p3, db')" by fastforce
      then have "settles ctx db2 p2 p3 db'" unfolding settles_def
        using row_step_present [OF assms]
        by (intro disjI1 exI [of _ "ap_auto_unblock_at p3"])
          (auto simp: stamp_auto_unblock_at_def utcnow_def put_row_def Let_def split: option.splits if_splits)
      with r st False that show thesis by (simp add: after_execution_def)
    qed
  qed
qed

lemma raise_after_eq: "raise_after db0 e db = (Inl (to_http e), if is_wolf e then db else rollback db0 db)"
  by (simp add: raise_after_def)

lemma executed_columns:
  assumes "execute_proposal f pf v db p u ses w = (Inr p', db', w')"
  shows "\<exists>a b c d. p' = p\<lparr>ap_prior_state := a, ap_state := b, ap_executed_at := Some c, ap_result := Some d\<rparr>
    \<and> b \<in> {Succeeded, Failed} \<and> ap_state p = Approved \<and> recompute_content_hash p = ap_content_hash p"
proof -
  obtain c d where "ap_executed_at p' = Some c" "ap_result p' = Some d" using execute_Inr [OF assms] by blast
  with execute_Inr [OF assms] show ?thesis by (metis cleared_def)
qed

lemma approve_signed_cases:
  assumes st: "row_step db p1 (oc_user_id ctx) [''action.proposal.approved''] db1" and ap: "ap_state p1 = Approved"
  obtains (untouched) e db' w' where "execute_signed ep db db1 p1 ctx w = (Inl e, db', w')"
      "proposals db' = proposals db" "audit_events db' = audit_events db"
  | (signed) e db' w' where "execute_signed ep db db1 p1 ctx w = (Inl e, db', w')"
      "row_step db p1 (oc_user_id ctx) [''action.proposal.approved''] db'"
  | (stale) e db' w' d where "execute_signed ep db db1 p1 ctx w = (Inl e, db', w')"
      "row_step db (p1\<lparr>ap_state := Expired, ap_result := Some d\<rparr>) (oc_user_id ctx)
         [''action.proposal.approved'', ''action.proposal.stale''] db'"
  | (executed) p2 p3 db2 db' w' a b c d where "execute_signed ep db db1 p1 ctx w = (Inr (from_row p3), db', w')"
      "p2 = p1\<lparr>ap_prior_state := a, ap_state := b, ap_executed_at := Some c, ap_result := Some d\<rparr>" "b \<in> {Succeeded, Failed}"
      "recompute_content_hash p1 = ap_content_hash p1"
      "row_step db p2 (oc_user_id ctx) [''action.proposal.approved'', ''action.proposal.executing'',
         ''action.proposal.'' @ state_value (ap_state p2)] db2" "settles ctx db2 p2 p3 db'"
proof (cases rule: run_executor_cases [of ep db1 p1 ctx w])
  case (refused e w')
  show thesis
  proof (cases "is_wolf e")
    case True
    with refused show thesis by (intro that(2) [OF _ st]) (simp add: execute_signed_def raise_after_eq)
  next
    case False
    with refused show thesis by (intro that(1) [of "to_http e" "rollback db db1" w']) (simp_all add: execute_signed_def raise_after_eq row_simps)
  qed
next
  case (stale d db' w' e)
  with row_step_trans [OF st stale(4)] show thesis by (intro that(3)) (simp_all add: execute_signed_def raise_after_eq)
next
  case (interrupted e db' w')
  then show thesis by (intro that(1) [of "to_http e" "rollback db db'" w']) (simp_all add: execute_signed_def raise_after_eq row_simps)
next
  case (executed p2 db2 w' f pf v w1 w2)
  obtain a b c d where p2: "p2 = p1\<lparr>ap_prior_state := a, ap_state := b, ap_executed_at := Some c, ap_result := Some d\<rparr>"
      "b \<in> {Succeeded, Failed}" "recompute_content_hash p1 = ap_content_hash p1"
    using executed_columns [OF executed(2)] by blast
  have s2: "row_step db1 p2 (oc_user_id ctx) [''action.proposal.executing'', ''action.proposal.'' @ state_value (ap_state p2)] db2"
    using execute_Inr [OF executed(2)] by blast
  obtain p3 db' where s: "after_execution db2 p2 ctx = (Inr p3, db')" "settles ctx db2 p2 p3 db'"
    using after_execution_settles [OF s2] by blast
  show thesis
    by (rule that(4) [OF _ p2 _ s(2)]) (use executed(1) s(1) row_step_trans [OF st s2] p2(1) in \<open>simp_all add: execute_signed_def\<close>)
qed

lemma approve_cases:
  obtains (untouched) e db' w' where "approve transport shuffle secrets db ctx i w = (Inl e, db', w')"
      "proposals db' = proposals db" "audit_events db' = audit_events db"
  | (expired) e db' p where "approve transport shuffle secrets db ctx i w = (Inl e, db', w)" "load_proposal db ctx i = Inr p"
      "role_has_capability (oc_role ctx) ACTION_APPROVE" "ap_state p \<in> {Pending, Approved}" "clock db 0 \<ge> instant (ap_expires_at p)"
      "row_step db (p\<lparr>ap_state := Expired\<rparr>) (oc_user_id ctx) [''action.proposal.expired''] db'"
  | (signed) e db' w' p p1 where "approve transport shuffle secrets db ctx i w = (Inl e, db', w')" "load_proposal db ctx i = Inr p"
      "signs ctx p p1" "row_step db p1 (oc_user_id ctx) [''action.proposal.approved''] db'"
  | (stale) e db' w' p p1 d where "approve transport shuffle secrets db ctx i w = (Inl e, db', w')" "load_proposal db ctx i = Inr p"
      "signs ctx p p1" "row_step db (p1\<lparr>ap_state := Expired, ap_result := Some d\<rparr>) (oc_user_id ctx)
         [''action.proposal.approved'', ''action.proposal.stale''] db'"
  | (executed) p p1 p2 p3 db2 db' w' a b c d where "approve transport shuffle secrets db ctx i w = (Inr (from_row p3), db', w')"
      "load_proposal db ctx i = Inr p" "signs ctx p p1"
      "p2 = p1\<lparr>ap_prior_state := a, ap_state := b, ap_executed_at := Some c, ap_result := Some d\<rparr>" "b \<in> {Succeeded, Failed}"
      "recompute_content_hash p1 = ap_content_hash p1"
      "row_step db p2 (oc_user_id ctx) [''action.proposal.approved'', ''action.proposal.executing'',
         ''action.proposal.'' @ state_value (ap_state p2)] db2" "settles ctx db2 p2 p3 db'"
proof (cases "require_capability ACTION_APPROVE ctx")
  case (Inl e)
  then show thesis by (intro that(1) [of e db w]) (simp_all add: approve_def)
next
  case (Inr ctx')
  then have c: "require_capability ACTION_APPROVE ctx = Inr ctx" by (auto simp: require_capability_def split: if_splits)
  show thesis
  proof (cases "load_proposal db ctx i")
    case (Inl e)
    with c show thesis by (intro that(1) [of e db w]) (simp_all add: approve_def)
  next
    case l: (Inr p)
    show thesis
    proof (cases rule: approve_proposal_cases [of db p "oc_user_id ctx" "oc_role ctx" "Some (oc_session_id ctx)"])
      case (refused e db1)
      with c l show thesis
        by (intro that(1) [of "to_http e" "if is_wolf e then db1 else rollback db db1" w]) (auto simp: approve_def raise_after_eq row_simps)
    next
      case (expired e db1)
      have "row_step db (p\<lparr>ap_state := Expired\<rparr>) (oc_user_id ctx) [''action.proposal.expired''] db1"
        using expired(7,8) by (auto simp: row_step_def)
      with c l expired show thesis by (intro that(2) [of _ db1 p]) (auto simp: approve_def raise_after_eq)
    next
      case (approved p1 db1)
      have st: "row_step db p1 (oc_user_id ctx) [''action.proposal.approved''] db1"
        using approved(6,7,8) by (auto simp: row_step_def)
      have sg: "signs ctx p p1" and ap: "ap_state p1 = Approved" using approved(2-6) by (auto simp: signs_def)
      show thesis
      proof (cases "get_wazuh_connection shuffle secrets ctx db1")
        case (Inl e)
        with c l approved(1) show thesis by (intro that(1) [of e "rollback db db1" w]) (simp_all add: approve_def row_simps)
      next
        case (Inr conn)
        note eq = approve_def c l approved(1) Inr
        show thesis
        proof (cases rule: approve_signed_cases [of db p1 ctx db1 "server_endpoint transport conn" w, OF st ap,
              case_names untouched signed stale executed])
          case (untouched e db' w')
          then show thesis by (intro that(1) [of e db' w']) (simp_all add: eq)
        next
          case (signed e db' w')
          then show thesis by (intro that(3) [OF _ l sg]) (simp_all add: eq)
        next
          case (stale e db' w' d)
          then show thesis by (intro that(4) [OF _ l sg]) (simp_all add: eq)
        next
          case (executed p2 p3 db2 db' w' a b c d)
          then show thesis by (intro that(5) [OF _ l sg executed(2-6)]) (simp add: eq)
        qed
      qed
    qed
  qed
qed

end
