(* ===== verification/Ledger.thy ===== *)
theory Ledger
  imports Proposal_Api
begin

text \<open>
  The proposal ledger as an abstract state machine, and the system that refines it.

  The abstract ledger knows two moves: amending one row (its frozen columns stay, its state goes
  forward, a signature stays) and adding a sound row with an unused id.  Its invariant and its history
  laws are proved once, in a locale, for every system whose steps are sequences of those moves.  The
  system here is the gateway: proposing, reversing, deciding and executing through the API, and the
  background sweep, in any interleaving.
\<close>

section \<open>The abstract ledger\<close>

text \<open>A row without the columns that change after its creation.\<close>

definition core :: "action_proposal \<Rightarrow> action_proposal" where
  "core p = p\<lparr>ap_state := Draft, ap_approved_by := None, ap_approved_at := None, ap_executed_at := None, ap_result := None,
     ap_auto_unblock_at := None, ap_reversal_proposal_id := None, ap_prior_state := None\<rparr>"

definition evolves :: "action_proposal \<Rightarrow> action_proposal \<Rightarrow> bool" where
  "evolves p q \<longleftrightarrow> core q = core p \<and> can_transition\<^sup>*\<^sup>* (ap_state p) (ap_state q)
     \<and> (\<forall>u. ap_approved_by p = Some u \<longrightarrow> ap_approved_by q = Some u)"

definition sound_row :: "action_proposal \<Rightarrow> bool" where
  "sound_row p \<longleftrightarrow> ap_content_hash p = recompute_content_hash p
     \<and> ap_state p \<notin> {Draft, Executing}
     \<and> (ap_state p \<in> {Approved, Succeeded, Failed, RolledBack} \<longrightarrow> ap_approved_by p \<noteq> None)
     \<and> (ap_state p \<in> {Pending, Rejected} \<longrightarrow> ap_approved_by p = None)
     \<and> (\<forall>u. ap_approved_by p = Some u \<longrightarrow> u \<noteq> ap_requested_by p \<or> u = WOLF_SYSTEM_ACTOR)
     \<and> (ap_executed_at p \<noteq> None \<longleftrightarrow> ap_state p \<in> {Succeeded, Failed, RolledBack})"

definition linked :: "action_proposal list \<Rightarrow> action_proposal \<Rightarrow> bool" where
  "linked rows r \<longleftrightarrow> (case ap_reverses_proposal_id r of None \<Rightarrow> True
     | Some b \<Rightarrow> \<exists>q \<in> set rows. ap_id q = b \<and> ap_organization_id q = ap_organization_id r)"

definition ledger_ok :: "action_proposal list \<Rightarrow> bool" where
  "ledger_ok rows \<longleftrightarrow> distinct (map ap_id rows) \<and> (\<forall>p \<in> set rows. sound_row p \<and> linked rows p)"

inductive ledger_move :: "action_proposal list \<Rightarrow> action_proposal list \<Rightarrow> bool" where
  amend: "p \<in> set rows \<Longrightarrow> evolves p q \<Longrightarrow> sound_row q \<Longrightarrow> ledger_move rows (replace_by ap_id q rows)"
| insert: "ap_id r \<notin> ap_id ` set rows \<Longrightarrow> sound_row r \<Longrightarrow> linked rows r \<Longrightarrow> ledger_move rows (rows @ [r])"

definition history :: "action_proposal list \<Rightarrow> action_proposal list \<Rightarrow> bool" where
  "history rows rows' \<longleftrightarrow> (\<forall>p \<in> set rows. \<exists>q \<in> set rows'. ap_id q = ap_id p \<and> evolves p q)"

subsection \<open>Laws\<close>

lemma core_select:
  "ap_id (core p) = ap_id p" "ap_organization_id (core p) = ap_organization_id p" "ap_reverses_proposal_id (core p) = ap_reverses_proposal_id p"
  "ap_requested_by (core p) = ap_requested_by p" "ap_content_hash (core p) = ap_content_hash p"
  "ap_expires_at (core p) = ap_expires_at p" "recompute_content_hash (core p) = recompute_content_hash p"
  by (simp_all add: core_def recompute_content_hash_def)

lemma core_columns:
  assumes "core q = core p"
  shows "ap_id q = ap_id p" "ap_organization_id q = ap_organization_id p" "ap_reverses_proposal_id q = ap_reverses_proposal_id p"
    "ap_requested_by q = ap_requested_by p" "ap_content_hash q = ap_content_hash p"
    "ap_expires_at q = ap_expires_at p" "recompute_content_hash q = recompute_content_hash p"
  using core_select [of p] core_select [of q] assms by simp_all

lemma evolves_columns:
  assumes "evolves p q"
  shows "ap_id q = ap_id p" "ap_organization_id q = ap_organization_id p" "ap_reverses_proposal_id q = ap_reverses_proposal_id p"
    "ap_requested_by q = ap_requested_by p" "ap_content_hash q = ap_content_hash p"
    "recompute_content_hash q = recompute_content_hash p"
  using assms core_columns [of q p] by (simp_all add: evolves_def)

lemma evolves_refl: "evolves p p"
  by (simp add: evolves_def)

lemma evolves_trans: "evolves p q \<Longrightarrow> evolves q r \<Longrightarrow> evolves p r"
  by (auto simp: evolves_def intro: rtranclp_trans)

lemma linked_mono:
  assumes "linked rows r" "\<forall>q \<in> set rows. \<exists>q' \<in> set rows'. ap_id q' = ap_id q \<and> ap_organization_id q' = ap_organization_id q"
  shows "linked rows' r"
  using assms by (fastforce simp: linked_def split: option.splits)

lemma linked_columns:
  "ap_reverses_proposal_id q = ap_reverses_proposal_id p \<Longrightarrow> ap_organization_id q = ap_organization_id p \<Longrightarrow> linked rows q = linked rows p"
  by (cases "ap_reverses_proposal_id p") (simp_all add: linked_def)

lemma amend_history:
  assumes "distinct (map ap_id rows)" "p \<in> set rows" "evolves p q"
  shows "history rows (replace_by ap_id q rows)"
  unfolding history_def
proof
  fix r assume r: "r \<in> set rows"
  note id = evolves_columns(1) [OF assms(3)]
  show "\<exists>q' \<in> set (replace_by ap_id q rows). ap_id q' = ap_id r \<and> evolves r q'"
  proof (cases "ap_id r = ap_id q")
    case True
    with id assms(1,2) r have "r = p" by (auto simp: distinct_map dest: inj_onD)
    with True r assms(3) show ?thesis by (force simp: replace_by_def)
  next
    case False
    with r show ?thesis by (force simp: replace_by_def evolves_refl)
  qed
qed

lemma history_trans: "history a b \<Longrightarrow> history b c \<Longrightarrow> history a c"
  unfolding history_def by (metis evolves_trans)

lemma history_refl: "history a a"
  by (auto simp: history_def evolves_refl)

lemma ledger_move_ok:
  assumes "ledger_move rows rows'" "ledger_ok rows"
  shows "ledger_ok rows' \<and> history rows rows'"
  using assms
proof (induction rule: ledger_move.induct)
  case (amend p rows q)
  then have d: "distinct (map ap_id rows)" by (simp add: ledger_ok_def)
  have h: "history rows (replace_by ap_id q rows)" using d amend(1,2) by (rule amend_history)
  then have keep: "\<forall>r \<in> set rows. \<exists>q' \<in> set (replace_by ap_id q rows). ap_id q' = ap_id r \<and> ap_organization_id q' = ap_organization_id r"
    unfolding history_def using evolves_columns(2) by metis
  have "sound_row r \<and> linked (replace_by ap_id q rows) r" if "r \<in> set (replace_by ap_id q rows)" for r
  proof (cases "r = q")
    case True
    have "linked rows p" using amend by (simp add: ledger_ok_def)
    then have "linked rows q" using linked_columns [OF evolves_columns(3,2)] amend(2) by blast
    with True amend(3) keep linked_mono show ?thesis by blast
  next
    case False
    with set_replace_byD [OF that] have "r \<in> set rows" by blast
    with amend(4) keep linked_mono show ?thesis unfolding ledger_ok_def by blast
  qed
  with d h show ?case by (simp add: ledger_ok_def)
next
  case (insert r rows)
  have "linked (rows @ [r]) p" if "linked rows p" for p by (rule linked_mono [OF that]) auto
  with insert show ?case by (auto simp: ledger_ok_def history_def evolves_refl)
qed

lemma ledger_moves_ok: "ledger_move\<^sup>*\<^sup>* rows rows' \<Longrightarrow> ledger_ok rows \<Longrightarrow> ledger_ok rows' \<and> history rows rows'"
proof (induction rule: rtranclp_induct)
  case base
  then show ?case by (simp add: history_refl)
next
  case (step b c)
  then show ?case using ledger_move_ok history_trans by blast
qed

section \<open>Systems that keep a ledger\<close>

text \<open>A system refines the abstract ledger when each of its steps is a sequence of ledger moves and only
  appends to the audit trail.\<close>

locale ledger_system = append_only log_of step for log_of :: "'s \<Rightarrow> 'e list" and step :: "'s \<Rightarrow> 's \<Rightarrow> bool" +
  fixes rows_of :: "'s \<Rightarrow> action_proposal list"
  assumes step_moves: "step s t \<Longrightarrow> ledger_ok (rows_of s) \<Longrightarrow> ledger_move\<^sup>*\<^sup>* (rows_of s) (rows_of t)"
begin

lemma run_ok: "step\<^sup>*\<^sup>* s t \<Longrightarrow> ledger_ok (rows_of s) \<Longrightarrow> ledger_ok (rows_of t) \<and> history (rows_of s) (rows_of t)"
proof (induction rule: rtranclp_induct)
  case base
  then show ?case by (simp add: history_refl)
next
  case (step b c)
  then show ?case using ledger_moves_ok [OF step_moves] history_trans by blast
qed

lemma run_row:
  assumes "step\<^sup>*\<^sup>* s t" "ledger_ok (rows_of s)" "p \<in> set (rows_of s)"
  obtains q where "q \<in> set (rows_of t)" "evolves p q" "sound_row q"
  using run_ok [OF assms(1,2)] assms(3) by (auto simp: history_def ledger_ok_def)

text \<open>A row that has been executed is never pending, approved or executing again.\<close>

lemma executed_once:
  assumes "step\<^sup>*\<^sup>* s t" "ledger_ok (rows_of s)" "p \<in> set (rows_of s)" "ap_state p \<in> {Succeeded, Failed, RolledBack}"
    "q \<in> set (rows_of t)" "ap_id q = ap_id p"
  shows "ap_state q \<in> {Succeeded, Failed, RolledBack} \<and> evolves p q"
proof -
  obtain q' where q': "q' \<in> set (rows_of t)" "evolves p q'" using run_row [OF assms(1-3)] by blast
  moreover have "distinct (map ap_id (rows_of t))" using run_ok [OF assms(1,2)] by (simp add: ledger_ok_def)
  ultimately have "q = q'" using assms(5,6) evolves_columns(1) [of p q'] by (metis distinct_map inj_onD)
  moreover have "can_transition\<^sup>*\<^sup>* a b \<Longrightarrow> a \<in> {Succeeded, Failed, RolledBack} \<Longrightarrow> b \<in> {Succeeded, Failed, RolledBack}" for a b
    by (induction rule: rtranclp_induct) auto
  ultimately show ?thesis using q'(2) assms(4) by (auto simp: evolves_def)
qed

end

section \<open>The gateway\<close>

text \<open>The requests and the background task that write the ledger, in any order.  Identifiers drawn for new
  rows are unused, as the primary key demands; a reversal is proposed for a row the ledger query
  \<open>find_active_action\<close> can return.\<close>

inductive wolf_step ::
  "(string \<Rightarrow> bool \<Rightarrow> http_request \<Rightarrow> 'w \<Rightarrow> http_response result \<times> 'w) \<Rightarrow> (string list \<Rightarrow> string list) \<Rightarrow> secrets_reader \<Rightarrow> int
    \<Rightarrow> wolf_db \<times> 'w \<Rightarrow> wolf_db \<times> 'w \<Rightarrow> bool"
  for transport shuffle secrets ttl where
  propose: "uuid_source db 0 \<notin> ap_id ` set (proposals db) \<Longrightarrow>
    create_proposal ttl db org req cls tgt act rat eff ev pa rb None ts ses = (p, db') \<Longrightarrow>
    wolf_step transport shuffle secrets ttl (db, w) (db', w)"
| propose_reversal: "uuid_source db 0 \<notin> ap_id ` set (proposals db) \<Longrightarrow>
    find_active_action db org cls matcher = Some block \<Longrightarrow>
    create_reversal_proposal ttl db block req act pa rat eff ev ts ses = (p, db') \<Longrightarrow>
    wolf_step transport shuffle secrets ttl (db, w) (db', w)"
| decide: "approve transport shuffle secrets db ctx i w = (r, db', w') \<Longrightarrow>
    wolf_step transport shuffle secrets ttl (db, w) (db', w')"
| decline: "reject db ctx i reason = (r, db') \<Longrightarrow> wolf_step transport shuffle secrets ttl (db, w) (db', w)"
| sweep: "fresh_ids (5 * length (due_block_ids db now limit)) db \<Longrightarrow>
    sweep_due_reversals ttl db (Some now) limit = (n, db') \<Longrightarrow> wolf_step transport shuffle secrets ttl (db, w) (db', w)"

section \<open>Refinement\<close>

lemma transition_paths:
  "can_transition\<^sup>*\<^sup>* Pending Approved" "can_transition\<^sup>*\<^sup>* Pending Expired" "can_transition\<^sup>*\<^sup>* Approved Expired"
  "can_transition\<^sup>*\<^sup>* Pending Rejected" "can_transition\<^sup>*\<^sup>* Pending Succeeded" "can_transition\<^sup>*\<^sup>* Pending Failed"
  "can_transition\<^sup>*\<^sup>* Succeeded RolledBack"
proof -
  have e: "can_transition\<^sup>*\<^sup>* Pending Executing"
    by (rule rtranclp_trans [of _ _ Approved]) (auto intro: r_into_rtranclp)
  show "can_transition\<^sup>*\<^sup>* Pending Succeeded" by (rule rtranclp_trans [OF e]) (auto intro: r_into_rtranclp)
  show "can_transition\<^sup>*\<^sup>* Pending Failed" by (rule rtranclp_trans [OF e]) (auto intro: r_into_rtranclp)
qed (auto intro: r_into_rtranclp)

lemma core_update:
  "core (p\<lparr>ap_state := s\<rparr>) = core p" "core (p\<lparr>ap_approved_by := u\<rparr>) = core p" "core (p\<lparr>ap_approved_at := t\<rparr>) = core p"
  "core (p\<lparr>ap_executed_at := t\<rparr>) = core p" "core (p\<lparr>ap_result := d\<rparr>) = core p" "core (p\<lparr>ap_auto_unblock_at := t\<rparr>) = core p"
  "core (p\<lparr>ap_reversal_proposal_id := u\<rparr>) = core p" "core (p\<lparr>ap_prior_state := d\<rparr>) = core p"
  by (simp_all add: core_def)

lemma hash_update:
  "recompute_content_hash (p\<lparr>ap_state := s\<rparr>) = recompute_content_hash p"
  "recompute_content_hash (p\<lparr>ap_approved_by := u\<rparr>) = recompute_content_hash p"
  "recompute_content_hash (p\<lparr>ap_approved_at := t\<rparr>) = recompute_content_hash p"
  "recompute_content_hash (p\<lparr>ap_executed_at := t\<rparr>) = recompute_content_hash p"
  "recompute_content_hash (p\<lparr>ap_result := d\<rparr>) = recompute_content_hash p"
  "recompute_content_hash (p\<lparr>ap_auto_unblock_at := t\<rparr>) = recompute_content_hash p"
  "recompute_content_hash (p\<lparr>ap_reversal_proposal_id := u\<rparr>) = recompute_content_hash p"
  "recompute_content_hash (p\<lparr>ap_prior_state := d\<rparr>) = recompute_content_hash p"
  by (simp_all add: recompute_content_hash_def)

lemmas ledger_defs = sound_row_def evolves_def core_update hash_update

lemma amend_expired: "sound_row p \<Longrightarrow> ap_state p \<in> {Pending, Approved} \<Longrightarrow> evolves p (p\<lparr>ap_state := Expired\<rparr>) \<and> sound_row (p\<lparr>ap_state := Expired\<rparr>)"
  by (rule conjI; unfold ledger_defs; auto simp: transition_paths)

lemma amend_rejected: "sound_row p \<Longrightarrow> ap_state p = Pending \<Longrightarrow> evolves p (p\<lparr>ap_state := Rejected\<rparr>) \<and> sound_row (p\<lparr>ap_state := Rejected\<rparr>)"
  by (rule conjI; unfold ledger_defs; auto simp: transition_paths)

lemma amend_rolled_back: "sound_row p \<Longrightarrow> ap_state p = Succeeded \<Longrightarrow> evolves p (p\<lparr>ap_state := RolledBack\<rparr>) \<and> sound_row (p\<lparr>ap_state := RolledBack\<rparr>)"
  by (rule conjI; unfold ledger_defs; auto simp: transition_paths)

lemma amend_link: "sound_row p \<Longrightarrow> evolves p (p\<lparr>ap_reversal_proposal_id := a\<rparr>) \<and> sound_row (p\<lparr>ap_reversal_proposal_id := a\<rparr>)"
  by (rule conjI; unfold ledger_defs; auto)

lemma amend_timer: "sound_row p \<Longrightarrow> evolves p (p\<lparr>ap_auto_unblock_at := a\<rparr>) \<and> sound_row (p\<lparr>ap_auto_unblock_at := a\<rparr>)"
  by (rule conjI; unfold ledger_defs; auto)

lemma signsD:
  assumes "signs ctx p p1"
  obtains t where "p1 = p\<lparr>ap_state := Approved, ap_approved_by := Some (oc_user_id ctx), ap_approved_at := Some t\<rparr>"
    "ap_state p = Pending" "oc_user_id ctx \<noteq> ap_requested_by p"
  using assms by (auto simp: signs_def)

lemma amend_signed: "sound_row p \<Longrightarrow> signs ctx p p1 \<Longrightarrow> evolves p p1 \<and> sound_row p1"
  by (erule signsD, rule conjI; hypsubst; unfold ledger_defs; auto simp: transition_paths)

lemma amend_stale: "sound_row p \<Longrightarrow> signs ctx p p1 \<Longrightarrow>
    evolves p (p1\<lparr>ap_state := Expired, ap_result := d\<rparr>) \<and> sound_row (p1\<lparr>ap_state := Expired, ap_result := d\<rparr>)"
  by (erule signsD, rule conjI; hypsubst; unfold ledger_defs; auto simp: transition_paths)

lemma amend_executed:
  assumes "sound_row p" "signs ctx p p1" "b \<in> {Succeeded, Failed}"
    and "p2 = p1\<lparr>ap_prior_state := a, ap_state := b, ap_executed_at := Some c, ap_result := Some d\<rparr>"
  shows "evolves p p2 \<and> sound_row p2"
  using assms by - (erule signsD, rule conjI; hypsubst; unfold ledger_defs; auto simp: transition_paths)

lemma row_step_move:
  assumes "row_step db q u tys db'" "p \<in> set (proposals db)" "evolves p q \<and> sound_row q"
  shows "ledger_move (proposals db) (proposals db')"
  using ledger_move.amend [OF assms(2), of q] assms by (simp add: row_step_def)

lemma row_step_prefix: "row_step db q u tys db' \<Longrightarrow> prefix (audit_events db) (audit_events db')"
  by (auto simp: row_step_def)

lemma get_row_in: "get_row db i = Some p \<Longrightarrow> p \<in> set (proposals db) \<and> ap_id p = i"
  by (auto simp: get_row_def dest: find_SomeD)

lemma row_in_replace: "p \<in> set rows \<Longrightarrow> ap_id q = ap_id p \<Longrightarrow> q \<in> set (replace_by ap_id q rows)"
  by (force simp: replace_by_def)

lemma settles_prefix: "settles ctx db2 p2 p3 db' \<Longrightarrow> prefix (audit_events db2) (audit_events db')"
  unfolding settles_def using row_step_prefix by auto

lemma settles_move:
  assumes "settles ctx db2 p2 p3 db'" "ledger_ok (proposals db2)" "p2 \<in> set (proposals db2)"
  shows "ledger_move (proposals db2) (proposals db')"
  using assms(1) unfolding settles_def
proof (elim disjE exE conjE)
  fix a
  assume a: "p3 = p2\<lparr>ap_auto_unblock_at := a\<rparr>" "proposals db' = replace_by ap_id p3 (proposals db2)"
  have "sound_row p2" using assms(2,3) by (simp add: ledger_ok_def)
  with a show ?thesis using ledger_move.amend [OF assms(3), of p3] amend_timer [of p2 a] by simp
next
  fix q
  assume q: "get_row db2 (ap_id q) = Some q" "ap_state q = Succeeded"
    and st: "row_step db2 (q\<lparr>ap_state := RolledBack\<rparr>) (oc_user_id ctx) [''action.proposal.rolled_back''] db'"
  have "q \<in> set (proposals db2)" using get_row_in [OF q(1)] by blast
  moreover from this have "sound_row q" using assms(2) by (simp add: ledger_ok_def)
  ultimately show ?thesis using row_step_move [OF st] amend_rolled_back [OF _ q(2)] by blast
qed

lemma approve_prefix:
  assumes "approve transport shuffle secrets db ctx i w = (r, db', w')"
  shows "prefix (audit_events db) (audit_events db')"
proof (cases rule: approve_cases [of transport shuffle secrets db ctx i w])
  case (executed p p1 p2 p3 db2 dbx wx a b c d)
  with assms row_step_prefix [OF executed(7)] settles_prefix [OF executed(8)] show ?thesis
    by (auto intro: prefix_order.trans)
qed (use assms row_step_prefix in auto)

lemma approve_moves:
  assumes "approve transport shuffle secrets db ctx i w = (r, db', w')" "ledger_ok (proposals db)"
  shows "ledger_move\<^sup>*\<^sup>* (proposals db) (proposals db')"
proof -
  have ok: "p \<in> set (proposals db) \<and> sound_row p" if "load_proposal db ctx i = Inr p" for p
    using load_proposal_Inr [OF that] assms(2) by (auto simp: ledger_ok_def)
  show ?thesis
  proof (cases rule: approve_cases [of transport shuffle secrets db ctx i w])
    case (untouched e dbx wx)
    with assms(1) show ?thesis by simp
  next
    case (expired e dbx p)
    have "ledger_move (proposals db) (proposals dbx)" using row_step_move [OF expired(6)] amend_expired [OF _ expired(4)] ok [OF expired(2)] by blast
    with expired(1) assms(1) show ?thesis by (simp add: r_into_rtranclp)
  next
    case (signed e dbx wx p p1)
    have "ledger_move (proposals db) (proposals dbx)" using row_step_move [OF signed(4)] amend_signed [OF _ signed(3)] ok [OF signed(2)] by blast
    with signed(1) assms(1) show ?thesis by (simp add: r_into_rtranclp)
  next
    case (stale e dbx wx p p1 d)
    have "ledger_move (proposals db) (proposals dbx)" using row_step_move [OF stale(4)] amend_stale [OF _ stale(3)] ok [OF stale(2)] by blast
    with stale(1) assms(1) show ?thesis by (simp add: r_into_rtranclp)
  next
    case (executed p p1 p2 p3 db2 dbx wx a b c d)
    have ev: "evolves p p2 \<and> sound_row p2" using amend_executed [OF _ executed(3,5,4)] ok [OF executed(2)] by blast
    have mv: "ledger_move (proposals db) (proposals db2)" using row_step_move [OF executed(7)] ev ok [OF executed(2)] by blast
    have "p2 \<in> set (proposals db2)"
      using executed(7) row_in_replace [of p "proposals db" p2] ok [OF executed(2)] ev evolves_columns(1) [of p p2]
      by (simp add: row_step_def)
    from settles_move [OF executed(8) _ this] ledger_move_ok [OF mv assms(2)] assms(1) executed(1)
    have "ledger_move (proposals db2) (proposals db')" by simp
    with mv show ?thesis by (meson r_into_rtranclp rtranclp.rtrancl_into_rtrancl)
  qed
qed

lemma reject_cases:
  obtains (untouched) e db' where "reject db ctx i why = (Inl e, db')" "proposals db' = proposals db" "audit_events db' = audit_events db"
  | (rejected) p db' where "reject db ctx i why = (Inr (from_row (p\<lparr>ap_state := Rejected\<rparr>)), db')" "load_proposal db ctx i = Inr p"
      "ap_state p = Pending" "row_step db (p\<lparr>ap_state := Rejected\<rparr>) (oc_user_id ctx) [''action.proposal.rejected''] db'"
proof (cases "require_capability ACTION_APPROVE ctx")
  case (Inl e)
  then show thesis by (intro untouched [of e db]) (simp_all add: reject_def)
next
  case (Inr ctx')
  then have c: "require_capability ACTION_APPROVE ctx = Inr ctx" by (auto simp: require_capability_def split: if_splits)
  show thesis
  proof (cases "length why > 1000 \<or> isl (load_proposal db ctx i)")
    case True
    with c show thesis using untouched by (cases "length why > 1000"; cases "load_proposal db ctx i") (auto simp: reject_def)
  next
    case False
    then obtain p where l: "load_proposal db ctx i = Inr p" and len: "\<not> length why > 1000"
      by (cases "load_proposal db ctx i") auto
    show thesis
    proof (cases rule: reject_proposal_cases [of db p "oc_user_id ctx" "oc_role ctx" why "Some (oc_session_id ctx)"])
      case (refused e)
      with c l len show thesis
        by (intro untouched [of "to_http e" "if is_wolf e then db else rollback db db"]) (auto simp: reject_def raise_after_eq row_simps)
    next
      case (rejected db1)
      have "row_step db (p\<lparr>ap_state := Rejected\<rparr>) (oc_user_id ctx) [''action.proposal.rejected''] db1"
        using rejected(4,5) by (auto simp: row_step_def)
      with c l len rejected that(2) show thesis by (auto simp: reject_def)
    qed
  qed
qed

lemma reject_moves:
  assumes "reject db ctx i why = (r, db')" "ledger_ok (proposals db)"
  shows "ledger_move\<^sup>*\<^sup>* (proposals db) (proposals db')"
proof (cases rule: reject_cases [of db ctx i why])
  case (untouched e dbx)
  with assms(1) show ?thesis by simp
next
  case (rejected p dbx)
  have "p \<in> set (proposals db) \<and> sound_row p"
    using load_proposal_Inr [OF rejected(2)] assms(2) by (auto simp: ledger_ok_def)
  then have "ledger_move (proposals db) (proposals dbx)" using row_step_move [OF rejected(4)] amend_rejected [OF _ rejected(3)] by blast
  with rejected(1) assms(1) show ?thesis by (simp add: r_into_rtranclp)
qed

lemma created_sound:
  assumes "create_proposal ttl db org req cls tgt act rat eff ev pa rb rv ts ses = (p, db')"
  shows "sound_row p"
proof -
  have "ap_executed_at p = None"
    using assms by (auto simp: create_proposal_def utcnow_def uuid4_def Let_def split: prod.splits)
  with create_proposal_row [OF assms] show ?thesis by (simp add: sound_row_def)
qed

lemma propose_moves:
  assumes "create_proposal ttl db org req cls tgt act rat eff ev pa rb None ts ses = (p, db')"
    and "uuid_source db 0 \<notin> ap_id ` set (proposals db)"
  shows "ledger_move (proposals db) (proposals db')"
  using ledger_move.insert [OF _ created_sound [OF assms(1)], of "proposals db"] create_proposal_row [OF assms(1)]
    create_proposal_db [OF assms(1)] assms(2) by (simp add: linked_def)

lemma reversal_moves:
  assumes "create_reversal_proposal ttl db block req act pa rat eff ev ts ses = (r, db')"
    and "uuid_source db 0 \<notin> ap_id ` set (proposals db)" "block \<in> set (proposals db)" "sound_row block"
  shows "ledger_move\<^sup>*\<^sup>* (proposals db) (proposals db')"
proof -
  obtain db1 where c: "create_proposal ttl db (ap_organization_id block) req (ap_action_class block) (ap_target block)
      act rat eff ev (Some pa) None (Some (ap_id block)) ts ses = (r, db1)"
    using assms(1) by (auto simp: create_reversal_proposal_def split: prod.splits)
  let ?b = "block\<lparr>ap_reversal_proposal_id := Some (ap_id r)\<rparr>"
  have "linked (proposals db) r" using create_proposal_row(3,9) [OF c] assms(3) by (auto simp: linked_def)
  then have "ledger_move (proposals db) (proposals db @ [r])"
    using create_proposal_row(1) [OF c] assms(2) created_sound [OF c] by (intro ledger_move.insert) simp_all
  moreover have "ledger_move (proposals db @ [r]) (proposals db')"
    using ledger_move.amend [of block "proposals db @ [r]" ?b] amend_link [OF assms(4)] assms(3)
      create_reversal_proposal_db(1) [OF assms(1)] by simp
  ultimately show ?thesis by (meson r_into_rtranclp rtranclp.rtrancl_into_rtrancl)
qed

lemma fresh_ids_mono:
  assumes "fresh_ids k db" "j \<le> k"
  shows "fresh_ids j db"
proof -
  have "set (map (uuid_source db) [0..<j]) \<subseteq> set (map (uuid_source db) [0..<k])" "set [0..<j] \<subseteq> set [0..<k]" using assms(2) by auto
  with assms(1) show ?thesis unfolding fresh_ids_def distinct_map by (blast intro: inj_on_subset distinct_upt)
qed

lemma auto_reverse_moves:
  assumes ok: "ledger_ok (proposals db)" and b: "claim_block db i now = Some b" and f: "fresh_ids (5 + k) db"
  obtains db1 where "auto_reverse ttl db b now = (Inr (), db1)" "ledger_move\<^sup>*\<^sup>* (proposals db) (proposals db1)" "fresh_ids k db1"
proof -
  have d: "distinct (map ap_id (proposals db))" using ok by (simp add: ledger_ok_def)
  from b d have g: "get_row db i = Some b" "due now b" by (simp_all add: claim_block_get_row)
  have bin: "b \<in> set (proposals db)" and bi: "ap_id b = i" using get_row_in [OF g(1)] by simp_all
  have bs: "sound_row b" using ok bin by (simp add: ledger_ok_def)
  have f0: "uuid_source db 0 \<notin> ap_id ` set (proposals db)" using fresh_idsD [OF f, of 0] by simp
  have bb: "get_row db (ap_id b) = Some b" and st: "ap_state b = Succeeded" using g bi by (simp_all add: due_def)
  show thesis
  proof (rule auto_reverse_spec [OF bb st f0, of ttl now])
    fix r db1
    assume ar: "auto_reverse ttl db b now = (Inr (), db1)"
      and rows1: "proposals db1 = replace_by ap_id (b\<lparr>ap_reversal_proposal_id := Some (ap_id r)\<rparr>) (proposals db) @ [r]"
      and r: "ap_id r = uuid_source db 0" "ap_state r = Succeeded" "ap_reverses_proposal_id r = Some (ap_id b)"
        "ap_organization_id r = ap_organization_id b" "ap_content_hash r = recompute_content_hash r"
        "ap_approved_by r = Some WOLF_SYSTEM_ACTOR" "ap_executed_at r \<noteq> None"
      and src: "uuid_source db1 = (\<lambda>n. uuid_source db (n + 5))"
    let ?b = "b\<lparr>ap_reversal_proposal_id := Some (ap_id r)\<rparr>"
    let ?rows = "replace_by ap_id ?b (proposals db)"
    have m1: "ledger_move (proposals db) ?rows" using ledger_move.amend [OF bin] amend_link [OF bs] by blast
    have ids: "ap_id ` set ?rows = ap_id ` set (proposals db)"
      using arg_cong [OF map_key_replace_by [of ap_id ?b "proposals db"], of set] by (simp only: set_map)
    have "linked ?rows r" using r(3,4) row_in_replace [OF bin, of ?b] by (auto simp: linked_def intro!: bexI [of _ ?b])
    then have "ledger_move ?rows (proposals db1)"
      unfolding rows1 using r ids f0 by (intro ledger_move.insert) (simp_all add: sound_row_def)
    with m1 have "ledger_move\<^sup>*\<^sup>* (proposals db) (proposals db1)" by (meson r_into_rtranclp rtranclp.rtrancl_into_rtrancl)
    moreover have "fresh_ids k db1"
      by (rule fresh_ids_step [OF f src]) (use ids r(1) in \<open>simp add: rows1\<close>)
    ultimately show thesis using ar that by blast
  qed
qed

lemma sweep_blocks_moves:
  assumes "ledger_ok (proposals db)" "fresh_ids (5 * length ids) db" "sweep_blocks ttl now ids db = (n, db')"
  shows "ledger_move\<^sup>*\<^sup>* (proposals db) (proposals db')"
  using assms
proof (induction ids arbitrary: db n)
  case (Cons i ids)
  show ?case
  proof (cases "claim_block db i now")
    case None
    have "fresh_ids (5 * length ids) db" using Cons.prems(2) by (rule fresh_ids_mono) simp
    with None Cons show ?thesis by simp
  next
    case (Some b)
    have f: "fresh_ids (5 + 5 * length ids) db" using Cons.prems(2) by simp
    obtain db1 where ar: "auto_reverse ttl db b now = (Inr (), db1)"
      and m: "ledger_move\<^sup>*\<^sup>* (proposals db) (proposals db1)" and f1: "fresh_ids (5 * length ids) db1"
      using auto_reverse_moves [OF Cons.prems(1) Some f] by blast
    obtain n1 where "sweep_blocks ttl now ids db1 = (n1, db')"
      using Cons.prems(3) Some ar by (auto split: prod.splits)
    with Cons.IH [OF _ f1] ledger_moves_ok [OF m Cons.prems(1)] m show ?thesis by (meson rtranclp_trans)
  qed
qed simp

subsection \<open>The trail only grows\<close>

lemma execute_prefix:
  assumes "execute_proposal f pf v db p u ses w = (r, db', w')"
  shows "prefix (audit_events db) (audit_events db')"
proof (cases "cleared f db p w")
  case False
  then show ?thesis
    by (cases rule: execute_uncleared [where perform = pf and verify = v and u = u and ses = ses])
      (use assms row_step_prefix in auto)
next
  case True
  obtain fr w1 where fr: "f db p w = (fr, w1)" by (cases "f db p w")
  obtain pfd prior w2 where pfd: "pf (executing_db db p u ses) (p\<lparr>ap_state := Executing\<rparr>) w1 = (pfd, prior, w2)"
    by (cases "pf (executing_db db p u ses) (p\<lparr>ap_state := Executing\<rparr>) w1")
  from execute_cleared [where freshness = f and perform = pf and verify = v, OF True fr pfd]
  show ?thesis using assms row_step_prefix by (elim disjE exE conjE) auto
qed

lemma auto_reverse_prefix:
  assumes "auto_reverse ttl db b now = (r, db')"
  shows "prefix (audit_events db) (audit_events db')"
proof -
  obtain a1 a2 a3 a4 expired r0 db1 where
    cr: "create_reversal_proposal ttl db b WOLF_SYSTEM_ACTOR (ap_action b) a1 a2 a3 a4 None None = (r0, db1)"
    and ar: "auto_reverse ttl db b now = preconsented_execution db1 b r0 expired now"
    using auto_reverse_split [of ttl db b now] by (metis prod.collapse)
  have p1: "prefix (audit_events db) (audit_events db1)" using create_reversal_proposal_db(2) [OF cr] by auto
  define r1 where "r1 = r0\<lparr>ap_state := Approved, ap_approved_by := Some WOLF_SYSTEM_ACTOR, ap_approved_at := Some now\<rparr>"
  define db2 where "db2 = snd (write_event (put_row r1 db1) ''action.proposal.auto_reversal.approved''
           (Some [(''proposal_id'', PStr (uuid_str (ap_id r1))), (''reverses_proposal_id'', PStr (uuid_str (ap_id b))),
             (''content_hash'', PStr (ap_content_hash r1)), (''expired_at'', PStr (isoformat expired))])
           (Some (ap_organization_id r1)) (Some WOLF_SYSTEM_ACTOR) None None None)"
  have p2: "prefix (audit_events db1) (audit_events db2)" by (simp add: db2_def audit_simps row_simps)
  obtain ex w where e: "execute_proposal reversal_freshness reversal_perform reversal_verify db2 r1 WOLF_SYSTEM_ACTOR None () = (ex, db', w)"
    using assms by (auto simp: ar preconsented_execution_def Let_def r1_def [symmetric] db2_def [symmetric] split: prod.splits)
  from p1 p2 execute_prefix [OF e] show ?thesis by (meson prefix_order.trans)
qed

lemma sweep_blocks_prefix: "sweep_blocks ttl now ids db = (n, db') \<Longrightarrow> prefix (audit_events db) (audit_events db')"
proof (induction ids arbitrary: db n)
  case (Cons i ids)
  show ?case
  proof (cases "claim_block db i now")
    case None
    with Cons show ?thesis by simp
  next
    case (Some b)
    obtain r db1 where ar: "auto_reverse ttl db b now = (r, db1)" by fastforce
    show ?thesis
    proof (cases r)
      case (Inl e)
      with Cons.IH [of "rollback db db1" n] Cons.prems Some ar show ?thesis by (simp add: row_simps)
    next
      case (Inr u)
      then obtain n1 where "sweep_blocks ttl now ids db1 = (n1, db')"
        using Cons.prems Some ar by (auto split: prod.splits)
      from Cons.IH [OF this] auto_reverse_prefix [OF ar] show ?thesis by (rule prefix_order.trans [rotated])
    qed
  qed
qed simp

lemma wolf_step_prefix: "wolf_step transport shuffle secrets ttl s t \<Longrightarrow> prefix (audit_events (fst s)) (audit_events (fst t))"
proof (induction rule: wolf_step.induct)
  case (propose db org req cls tgt act rat eff ev pa rb ts ses p db' w)
  from create_proposal_db(3) [OF propose(2)] show ?case by auto
next
  case (propose_reversal db org cls matcher block req act pa rat eff ev ts ses p db' w)
  from create_reversal_proposal_db(2) [OF propose_reversal(3)] show ?case by auto
next
  case (decide db ctx i w r db' w')
  then show ?case by (simp add: approve_prefix)
next
  case (decline db ctx i reason r db' w)
  then show ?case by (cases rule: reject_cases [of db ctx i reason]) (use row_step_prefix in auto)
next
  case (sweep db now limit n db' w)
  then show ?case by (simp add: sweep_due_reversals_def sweep_blocks_prefix)
qed

lemma wolf_step_moves:
  "wolf_step transport shuffle secrets ttl s t \<Longrightarrow> ledger_ok (proposals (fst s)) \<Longrightarrow>
   ledger_move\<^sup>*\<^sup>* (proposals (fst s)) (proposals (fst t))"
proof (induction rule: wolf_step.induct)
  case (propose db org req cls tgt act rat eff ev pa rb ts ses p db' w)
  then show ?case using propose_moves [OF propose(2,1)] by (simp add: r_into_rtranclp)
next
  case (propose_reversal db org cls matcher block req act pa rat eff ev ts ses p db' w)
  have "block \<in> set (proposals db)" using find_active_action_SomeD [OF propose_reversal(2)] by blast
  with propose_reversal(4) reversal_moves [OF propose_reversal(3,1)] show ?case by (simp add: ledger_ok_def)
next
  case (decide db ctx i w r db' w')
  then show ?case by (simp add: approve_moves)
next
  case (decline db ctx i reason r db' w)
  then show ?case by (simp add: reject_moves)
next
  case (sweep db now limit n db' w)
  then show ?case by (simp add: sweep_due_reversals_def sweep_blocks_moves)
qed

interpretation gateway: ledger_system "\<lambda>s. audit_events (fst s)" "wolf_step transport shuffle secrets ttl" "\<lambda>s. proposals (fst s)"
  for transport shuffle secrets ttl
  by unfold_locales (simp_all add: wolf_step_prefix wolf_step_moves)

section \<open>Organizations stay apart\<close>

text \<open>The rows of the other organizations, and a step that touches none of them and audits only for \<open>org\<close>.\<close>

definition others :: "uuid \<Rightarrow> action_proposal list \<Rightarrow> action_proposal list" where
  "others org rows = filter (\<lambda>p. ap_organization_id p \<noteq> org) rows"

definition confined :: "uuid \<Rightarrow> 'z database_scheme \<Rightarrow> 'z database_scheme \<Rightarrow> bool" where
  "confined org db db' \<longleftrightarrow> others org (proposals db') = others org (proposals db)
     \<and> (\<exists>es. audit_events db' = audit_events db @ es \<and> (\<forall>e \<in> set es. ae_organization_id e = Some org))"

lemma confined_refl: "proposals db' = proposals db \<Longrightarrow> audit_events db' = audit_events db \<Longrightarrow> confined org db db'"
  by (simp add: confined_def)

lemma confined_trans: "confined org a b \<Longrightarrow> confined org b c \<Longrightarrow> confined org a c"
  unfolding confined_def by fastforce

lemma others_replace:
  assumes "distinct (map ap_id rows)" "p \<in> set rows" "ap_id q = ap_id p" "ap_organization_id p = org" "ap_organization_id q = org"
  shows "others org (replace_by ap_id q rows) = others org rows"
proof -
  have "ap_organization_id r = org" if "r \<in> set rows" "ap_id r = ap_id q" for r
    using that assms by (auto simp: distinct_map dest: inj_onD)
  then show ?thesis using assms(5)
  proof (induction rows)
    case (Cons r rows)
    then show ?case by (simp add: others_def replace_by_def)
  qed (simp add: others_def replace_by_def)
qed

lemma row_step_confined:
  assumes "row_step db q u tys db'" "distinct (map ap_id (proposals db))" "p \<in> set (proposals db)"
    "ap_id q = ap_id p" "ap_organization_id q = ap_organization_id p"
  shows "confined (ap_organization_id p) db db'"
proof -
  have "others (ap_organization_id p) (proposals db') = others (ap_organization_id p) (proposals db)"
    using others_replace [OF assms(2,3,4) refl assms(5)] assms(1) by (simp add: row_step_def)
  with assms(1,5) show ?thesis by (auto simp: confined_def row_step_def list_all_iff)
qed

lemma settles_confined:
  assumes "settles ctx db2 p2 p3 db'" "ledger_ok (proposals db2)" "p2 \<in> set (proposals db2)"
  shows "confined (ap_organization_id p2) db2 db'"
  using assms(1) unfolding settles_def
proof (elim disjE exE conjE)
  fix a
  assume "p3 = p2\<lparr>ap_auto_unblock_at := a\<rparr>" "proposals db' = replace_by ap_id p3 (proposals db2)" "audit_events db' = audit_events db2"
  with others_replace [of "proposals db2" p2 p3 "ap_organization_id p2"] assms(2,3) show ?thesis
    by (simp add: confined_def ledger_ok_def)
next
  fix q
  assume q: "ap_reverses_proposal_id p2 = Some (ap_id q)" "get_row db2 (ap_id q) = Some q"
    and st: "row_step db2 (q\<lparr>ap_state := RolledBack\<rparr>) (oc_user_id ctx) [''action.proposal.rolled_back''] db'"
  have d: "distinct (map ap_id (proposals db2))" and lk: "linked (proposals db2) p2" using assms(2,3) by (simp_all add: ledger_ok_def)
  have qin: "q \<in> set (proposals db2)" using get_row_in [OF q(2)] by blast
  obtain q' where "q' \<in> set (proposals db2)" "ap_id q' = ap_id q" "ap_organization_id q' = ap_organization_id p2"
    using lk q(1) by (auto simp: linked_def)
  then have "ap_organization_id q = ap_organization_id p2" using qin d by (metis distinct_map inj_onD)
  with row_step_confined [OF st d qin] show ?thesis by simp
qed

lemma approve_confined:
  assumes ok: "ledger_ok (proposals db)" and run: "approve transport shuffle secrets db ctx i w = (r, db', w')"
  shows "confined (oc_organization_id ctx) db db'"
proof -
  have d: "distinct (map ap_id (proposals db))" using ok by (simp add: ledger_ok_def)
  have step: "confined (oc_organization_id ctx) db db1"
    if "load_proposal db ctx i = Inr p" "row_step db q u tys db1" "evolves p q" for p q u tys db1
    using load_proposal_Inr [OF that(1)] row_step_confined [OF that(2) d, of p] evolves_columns [OF that(3)] by simp
  have snd: "sound_row p" if "load_proposal db ctx i = Inr p" for p
    using load_proposal_Inr [OF that] ok by (auto simp: ledger_ok_def)
  show ?thesis
  proof (cases rule: approve_cases [of transport shuffle secrets db ctx i w])
    case (untouched e dbx wx)
    with run show ?thesis by (simp add: confined_refl)
  next
    case (expired e dbx p)
    with step [OF expired(2,6)] amend_expired [OF snd [OF expired(2)] expired(4)] run show ?thesis by simp
  next
    case (signed e dbx wx p p1)
    with step [OF signed(2,4)] amend_signed [OF snd [OF signed(2)] signed(3)] run show ?thesis by simp
  next
    case (stale e dbx wx p p1 d)
    with step [OF stale(2,4)] amend_stale [OF snd [OF stale(2)] stale(3)] run show ?thesis by simp
  next
    case (executed p p1 p2 p3 db2 dbx wx a b c d)
    have p: "p \<in> set (proposals db)" "ap_organization_id p = oc_organization_id ctx" using load_proposal_Inr [OF executed(2)] by simp_all
    have ev: "evolves p p2" "sound_row p2" using amend_executed [OF snd [OF executed(2)] executed(3,5,4)] by simp_all
    have "ledger_ok (proposals db2)" using row_step_move [OF executed(7) p(1)] ev ledger_move_ok [OF _ ok] by blast
    moreover have "p2 \<in> set (proposals db2)"
      using executed(7) row_in_replace [OF p(1), of p2] evolves_columns(1) [OF ev(1)] by (simp add: row_step_def)
    ultimately have "confined (ap_organization_id p2) db2 dbx" by (rule settles_confined [OF executed(8)])
    then have "confined (oc_organization_id ctx) db2 dbx" using evolves_columns(2) [OF ev(1)] p(2) by simp
    with step [OF executed(2,7) ev(1)] executed(1) run show ?thesis by (auto intro: confined_trans)
  qed
qed

lemma reject_confined:
  assumes ok: "ledger_ok (proposals db)" and run: "reject db ctx i why = (r, db')"
  shows "confined (oc_organization_id ctx) db db'"
proof (cases rule: reject_cases [of db ctx i why])
  case (untouched e dbx)
  with run show ?thesis by (simp add: confined_refl)
next
  case (rejected p dbx)
  with load_proposal_Inr [OF rejected(2)] row_step_confined [OF rejected(4), of p] ok run show ?thesis by (simp add: ledger_ok_def)
qed

end
