(* ===== verification/Validator.thy ===== *)
theory Validator
  imports Proposals Agent_Actions Rule_Tuning
begin

text \<open>
  The structural validator that stands before the queue (\<open>gateway/validator.py\<close>): dispatch by action class,
  resolved and bounded targets, catalog actions, and per-class shape checks.  A validator answers with
  a result and a reason, or raises (the rule-id check can).
\<close>

section \<open>Operations\<close>

definition BLAST_TOKENS :: "string list" where "BLAST_TOKENS = [''*'', ''all'']"

record validation_result =
  vr_ok :: bool
  vr_reason :: string

definition accept :: validation_result where "accept = \<lparr>vr_ok = True, vr_reason = []\<rparr>"
definition refuse :: "string \<Rightarrow> validation_result" where "refuse reason = \<lparr>vr_ok = False, vr_reason = reason\<rparr>"

definition is_blast :: "pyval \<Rightarrow> bool" where
  "is_blast value = (case as_str value of None \<Rightarrow> False | Some s \<Rightarrow> py_lower (py_strip s) \<in> set BLAST_TOKENS)"

text \<open>\<open>not isinstance(v, str) or not v.strip()\<close>\<close>

definition unresolved :: "pyval \<Rightarrow> bool" where
  "unresolved v = (case as_str v of None \<Rightarrow> True | Some s \<Rightarrow> py_strip s = [])"

definition require_resolved_agent_target :: "dict \<Rightarrow> dict \<Rightarrow> validation_result option" where
  "require_resolved_agent_target target parameters =
    (let agent_id = dget target ''agent_id'' in
     if unresolved agent_id
       then Some (refuse ''Target is not resolved to a specific agent id - refusing to propose.'')
     else if is_blast agent_id then Some (refuse ''Target agent id is a wildcard - blast radius is unbounded.'')
     else case find (\<lambda>key. is_blast (dget parameters key)) [''agents_list'', ''agent_id'', ''agents''] of
         Some key \<Rightarrow> Some (refuse (''Parameter '' @ repr_str key @ '' targets all agents - blast radius is unbounded.''))
       | None \<Rightarrow> None)"

definition validate_active_response :: "dict \<Rightarrow> string \<Rightarrow> dict \<Rightarrow> validation_result result" where
  "validate_active_response target action parameters =
    (case require_resolved_agent_target target parameters of Some r \<Rightarrow> Inr r
     | None \<Rightarrow>
       (case get_ar_command action of
          None \<Rightarrow> Inr (refuse (''Active-response command '' @ repr_str action
            @ '' is not in the catalog; the model may only propose a known command ('' @ join '', '' (sort (map fst AR_COMMANDS)) @ '').''))
        | Some cmd \<Rightarrow>
          (let srcip = dget parameters ''srcip''; username = dget parameters ''username'' in
           if ar_target cmd = ''srcip'' \<and> unresolved srcip
             then Inr (refuse (repr_str action @ '' blocks a source IP but no 'srcip' was provided.''))
           else if ar_target cmd = ''srcip'' \<and> \<not> is_valid_ip (py_strip (the (as_str srcip)))
             then Inr (refuse ([CHR 0x27] @ ''srcip'' @ [CHR 0x27] @ '' '' @ py_repr srcip @ '' is not a valid IP address.''))
           else if ar_target cmd = ''username'' \<and> unresolved username
             then Inr (refuse (repr_str action @ '' disables an account but no 'username' was provided.''))
           else (let os_class = classify_os [as_str (dget parameters ''agent_os'')] in
             (case os_class of
                Some os \<Rightarrow> if os \<notin> set (ar_platforms cmd)
                  then Inr (refuse (repr_str action @ '' targets '' @ join ''/'' (sort (ar_platforms cmd)) @ '' but agent is ''
                    @ os @ ''. Use a '' @ os @ ''-compatible command (e.g. ''
                    @ (if os = ''windows'' then ''netsh'' else ''firewall-drop'') @ '').''))
                  else Inr accept
              | None \<Rightarrow> Inr accept)))))"

definition validate_agent_action :: "dict \<Rightarrow> string \<Rightarrow> dict \<Rightarrow> validation_result result" where
  "validate_agent_action target action parameters =
    (case require_resolved_agent_target target parameters of Some r \<Rightarrow> Inr r
     | None \<Rightarrow>
       if action \<notin> set AGENT_ACTION_OPS
         then Inr (refuse (''Unknown agent action '' @ repr_str action @ ''; supported: '' @ join '', '' (sort AGENT_ACTION_OPS) @ ''.''))
       else (let grp = dget parameters ''group'' in
         if unresolved grp then Inr (refuse (repr_str action @ '' needs a target group ('group').''))
         else if \<not> is_valid_group (py_strip (the (as_str grp)))
           then Inr (refuse (''Group name '' @ py_repr grp @ '' is not a valid Wazuh group name.''))
         else Inr accept))"

definition validate_rule_tuning :: "dict \<Rightarrow> string \<Rightarrow> dict \<Rightarrow> validation_result result" where
  "validate_rule_tuning target action parameters =
    (let rule_id = dget target ''rule_id'' in
     if unresolved rule_id then Inr (refuse ''Target is not resolved to a specific rule id - refusing to propose.'')
     else if is_blast rule_id then Inr (refuse ''Target rule id is a wildcard - blast radius is unbounded.'')
     else case is_valid_rule_id (the (as_str rule_id)) of Inl e \<Rightarrow> Inl e
       | Inr valid \<Rightarrow>
         if \<not> valid then Inr (refuse (''Rule id '' @ py_repr rule_id @ '' is not a valid Wazuh rule id (1..999999).''))
         else if action \<notin> set RULE_TUNING_FORWARD_OPS
           then Inr (refuse (''Unknown rule_tuning operation '' @ repr_str action @ ''; supported: ''
             @ join '', '' (sort RULE_TUNING_FORWARD_OPS) @ ''.''))
         else if action = OP_ADJUST_LEVEL \<and> \<not> is_valid_level (dget parameters ''level'')
           then Inr (refuse (repr_str action @ '' needs a 'level' integer between 0 and 16 (got ''
             @ py_repr (dget parameters ''level'') @ '').''))
         else Inr accept)"

definition validate_config_change :: "dict \<Rightarrow> string \<Rightarrow> dict \<Rightarrow> validation_result result" where
  "validate_config_change target action parameters =
    (let section0 = dget target ''section'' in
     if unresolved section0 then Inr (refuse ''Target is not resolved to a specific configuration section.'')
     else let section = py_strip (the (as_str section0)); block_key = dget target ''block_key'' in
     if is_blast (PStr section) then Inr (refuse ''Target section is a wildcard - blast radius is unbounded.'')
     else if \<not> is_valid_section_name section
       then Inr (refuse (''Section '' @ repr_str section @ '' is not a valid ossec.conf section name.''))
     else if section \<in> set BLOCKED_SECTIONS
       then Inr (refuse (''Section <'' @ section @ ''> is not editable by Wolf: '' @ join '', '' (sort BLOCKED_SECTIONS)
         @ '' can break the manager (enrollment / cluster / indexer / ruleset loading) and stay hand-edited.''))
     else if action \<notin> set CONFIG_CHANGE_FORWARD_OPS
       then Inr (refuse (''Unknown config_change operation '' @ repr_str action @ ''; supported: ''
         @ join '', '' (sort CONFIG_CHANGE_FORWARD_OPS) @ ''.''))
     else if action \<in> {OP_UPSERT_BLOCK, OP_REMOVE_BLOCK} \<and> unresolved block_key
       then Inr (refuse (repr_str action @ '' needs a resolved 'block_key' - ''
         @ (case map_of IDENTITY_KEYS section of Some k \<Rightarrow> ''the instance's <'' @ k @ ''> value''
            | None \<Rightarrow> ''a leaf value unique to the instance'')
         @ '' (or any field value that identifies exactly one instance).''))
     else if action \<in> {OP_UPSERT_BLOCK, OP_REMOVE_BLOCK} \<and> is_blast block_key
       then Inr (refuse ''Target block key is a wildcard - blast radius is unbounded.'')
     else if action = OP_REMOVE_BLOCK then Inr accept
     else case as_str (dget parameters ''section_content'') of
         None \<Rightarrow> Inr (refuse (repr_str action @ '' needs 'section_content' - the full replacement block.''))
       | Some content \<Rightarrow>
          (case is_valid_section_block section content of (ok, reason) \<Rightarrow>
           if \<not> ok then Inr (refuse reason)
           else if action = OP_UPSERT_BLOCK
               \<and> \<not> content_carries_key section content (py_strip (py_str (dget_or target ''block_key'' (PStr []))))
             then Inr (refuse (''The proposed <'' @ section @ ''> block does not contain the addressed key ''
               @ repr_str (py_strip (py_str (dget_or target ''block_key'' (PStr []))))
               @ '' (as its identity element or any field value) - the content must identify the instance it targets. To change the addressing field itself, address the instance by a different unique field.''))
           else Inr accept))"

type_synonym proposal_validator = "dict \<Rightarrow> string \<Rightarrow> dict \<Rightarrow> validation_result result"

definition register_validator :: "string \<Rightarrow> proposal_validator \<Rightarrow> (string \<times> proposal_validator) list \<Rightarrow> (string \<times> proposal_validator) list" where
  "register_validator action_class validator registry = AList.update action_class validator registry"

definition VALIDATORS :: "(string \<times> proposal_validator) list" where
  "VALIDATORS = register_validator ''config_change'' validate_config_change
     (register_validator ''rule_tuning'' validate_rule_tuning
       (register_validator ''agent_action'' validate_agent_action
         (register_validator ''active_response'' validate_active_response [])))"

definition validate_proposal :: "string \<Rightarrow> dict \<Rightarrow> string \<Rightarrow> dict \<Rightarrow> validation_result result" where
  "validate_proposal action_class target action parameters = (case map_of VALIDATORS action_class of
     None \<Rightarrow> Inr (refuse (''Unknown action class '' @ repr_str action_class @ ''.''))
   | Some validator \<Rightarrow> validator target action parameters)"

section \<open>Laws\<close>

lemma accept_refuse [simp]: "vr_ok accept" "\<not> vr_ok (refuse m)" "accept \<noteq> refuse m"
  by (simp_all add: accept_def refuse_def)

lemma VALIDATORS_eq: "map_of VALIDATORS cls =
  (if cls = ''active_response'' then Some validate_active_response else if cls = ''agent_action'' then Some validate_agent_action
   else if cls = ''rule_tuning'' then Some validate_rule_tuning else if cls = ''config_change'' then Some validate_config_change else None)"
  by (simp add: VALIDATORS_def register_validator_def)

lemma resolved_iff: "\<not> unresolved v \<longleftrightarrow> (\<exists>s. v = PStr s \<and> py_strip s \<noteq> [])"
  by (cases v) (auto simp: unresolved_def)

lemma agent_target_ok:
  assumes "require_resolved_agent_target target parameters = None"
  shows "\<not> unresolved (dget target ''agent_id'') \<and> \<not> is_blast (dget target ''agent_id'')
    \<and> \<not> is_blast (dget parameters ''agents_list'') \<and> \<not> is_blast (dget parameters ''agent_id'') \<and> \<not> is_blast (dget parameters ''agents'')"
  using assms by (auto simp: require_resolved_agent_target_def Let_def split: if_splits option.splits)

lemma agent_target_refusal [simp]: "require_resolved_agent_target target parameters = Some r \<Longrightarrow> \<not> vr_ok r"
  by (auto simp: require_resolved_agent_target_def Let_def split: if_splits option.splits)

lemma active_response_ok:
  assumes "validate_active_response target action parameters = Inr r" "vr_ok r"
  shows "require_resolved_agent_target target parameters = None \<and> (\<exists>cmd. get_ar_command action = Some cmd
    \<and> (ar_target cmd = ''srcip'' \<longrightarrow> (\<exists>ip. dget parameters ''srcip'' = PStr ip \<and> is_valid_ip (py_strip ip)))
    \<and> (ar_target cmd = ''username'' \<longrightarrow> \<not> unresolved (dget parameters ''username''))
    \<and> (\<forall>os. classify_os [as_str (dget parameters ''agent_os'')] = Some os \<longrightarrow> os \<in> set (ar_platforms cmd)))"
  using assms
  by (auto simp: validate_active_response_def Let_def unresolved_def split: option.splits if_splits)

lemma agent_action_ok:
  assumes "validate_agent_action target action parameters = Inr r" "vr_ok r"
  shows "require_resolved_agent_target target parameters = None \<and> action \<in> set AGENT_ACTION_OPS
    \<and> (\<exists>g. dget parameters ''group'' = PStr g \<and> is_valid_group (py_strip g))"
  using assms
  by (auto simp: validate_agent_action_def Let_def unresolved_def split: option.splits if_splits)

lemma rule_tuning_ok:
  assumes "validate_rule_tuning target action parameters = Inr r" "vr_ok r"
  shows "action \<in> set RULE_TUNING_FORWARD_OPS
    \<and> (\<exists>i. dget target ''rule_id'' = PStr i \<and> is_valid_rule_id i = Inr True)
    \<and> (action = OP_ADJUST_LEVEL \<longrightarrow> is_valid_level (dget parameters ''level''))"
  using assms
  by (auto simp: validate_rule_tuning_def Let_def unresolved_def split: option.splits if_splits sum.splits)

lemma config_change_ok:
  assumes "validate_config_change target action parameters = Inr r" "vr_ok r"
  shows "action \<in> set CONFIG_CHANGE_FORWARD_OPS \<and> (\<exists>s. dget target ''section'' = PStr s
     \<and> is_valid_section_name (py_strip s) \<and> py_strip s \<notin> set BLOCKED_SECTIONS
     \<and> (action = OP_REMOVE_BLOCK \<or> (\<exists>c. dget parameters ''section_content'' = PStr c \<and> fst (is_valid_section_block (py_strip s) c))))
     \<and> (action \<in> {OP_UPSERT_BLOCK, OP_REMOVE_BLOCK} \<longrightarrow> \<not> unresolved (dget target ''block_key'') \<and> \<not> is_blast (dget target ''block_key''))"
proof (cases "unresolved (dget target ''section'')")
  case True
  with assms show ?thesis by (auto simp: validate_config_change_def)
next
  case False
  then obtain s where s: "dget target ''section'' = PStr s" by (auto simp: resolved_iff)
  let ?s = "py_strip s"
  note unf = assms [unfolded validate_config_change_def Let_def]
  have 1: "\<not> is_blast (PStr ?s)" "is_valid_section_name ?s" "?s \<notin> set BLOCKED_SECTIONS" "action \<in> set CONFIG_CHANGE_FORWARD_OPS"
    using unf False s by (auto split: if_splits)
  have 2: "action \<in> {OP_UPSERT_BLOCK, OP_REMOVE_BLOCK} \<Longrightarrow> \<not> unresolved (dget target ''block_key'') \<and> \<not> is_blast (dget target ''block_key'')"
    using unf False s 1 by (auto split: if_splits)
  have "\<exists>c. dget parameters ''section_content'' = PStr c \<and> fst (is_valid_section_block ?s c)" if "action \<noteq> OP_REMOVE_BLOCK"
  proof (cases "as_str (dget parameters ''section_content'')")
    case None
    with unf False s 1 2 that show ?thesis by (auto split: if_splits)
  next
    case (Some c)
    with unf False s 1 2 that have "fst (is_valid_section_block ?s c)" by (auto split: if_splits prod.splits)
    with Some show ?thesis by simp
  qed
  with s 1 2 show ?thesis by blast
qed

lemma accepted_class: "validate_proposal cls target action parameters = Inr r \<Longrightarrow> vr_ok r \<Longrightarrow>
  cls \<in> {''active_response'', ''agent_action'', ''rule_tuning'', ''config_change''}"
  by (auto simp: validate_proposal_def VALIDATORS_eq split: if_splits)



text \<open>Completeness of the chain from intent to validator: the command Wolf itself selects for an
  intent on an agent always passes the active-response validator, once the agent is resolved and the
  intent's target is given.\<close>

theorem resolved_command_validates:
  assumes "resolve_intent_command intent (classify_os [as_str (dget parameters ''agent_os'')]) sig = Inr c"
    and "require_resolved_agent_target target parameters = None"
    and "map_of INTENT_TARGETS intent = Some ''srcip'' \<Longrightarrow> \<exists>ip. dget parameters ''srcip'' = PStr ip \<and> is_valid_ip (py_strip ip) \<and> py_strip ip \<noteq> []"
    and "map_of INTENT_TARGETS intent = Some ''username'' \<Longrightarrow> \<not> unresolved (dget parameters ''username'')"
  shows "validate_proposal ''active_response'' target c parameters = Inr accept"
proof -
  from resolved_command_fits [OF assms(1)] obtain cmd where c: "get_ar_command c = Some cmd"
      "map_of INTENT_TARGETS intent = Some (ar_target cmd)"
      "\<And>cls. classify_os [as_str (dget parameters ''agent_os'')] = Some cls \<Longrightarrow> cls \<in> set OS_CLASSES \<Longrightarrow> cls \<in> set (ar_platforms cmd)"
    by auto
  from c(3) have "\<And>cls. classify_os [as_str (dget parameters ''agent_os'')] = Some cls \<Longrightarrow> cls \<in> set (ar_platforms cmd)"
    using classify_os_class by blast
  with assms(2-4) c(1,2) show ?thesis
    by (auto simp: validate_proposal_def VALIDATORS_eq validate_active_response_def Let_def unresolved_def split: option.splits)
qed

theorem resolved_command_validates_witness:
  "validate_proposal ''active_response'' [(''agent_id'', PStr ''001'')] ''netsh''
     [(''srcip'', PStr ''10.0.0.7''), (''agent_os'', PStr ''Microsoft Windows Server 2022'')] = Inr accept"
proof -
  have r: "resolve_intent_command ''block_ip'' (classify_os [as_str (dget [(''srcip'', PStr ''10.0.0.7''),
      (''agent_os'', PStr ''Microsoft Windows Server 2022'')] ''agent_os'')]) None = Inr ''netsh''"
    by code_simp
  have t: "require_resolved_agent_target [(''agent_id'', PStr ''001'')] [(''srcip'', PStr ''10.0.0.7''),
      (''agent_os'', PStr ''Microsoft Windows Server 2022'')] = None"
    by code_simp
  have ip: "is_valid_ip (py_strip ''10.0.0.7'') \<and> py_strip ''10.0.0.7'' \<noteq> []" by code_simp
  show ?thesis
    by (rule resolved_command_validates [OF r t]) (use ip in \<open>auto simp: dget_def INTENT_TARGETS_def\<close>)
qed

end
