(* ===== verification/File_Edits.thy ===== *)
theory File_Edits
  imports Executors
begin

text \<open>
  What the whole-file edits of \<open>gateway/executors.py\<close> do to the files on the manager: rollback after a
  rejected edit, the all-or-nothing write of a cluster, the snapshot, and the undo that restores it.

  The manager is the endpoint parameter.  What the code relies on of it is \<open>keeps_file\<close>: a file is
  changed only by a PUT on its own path, a PUT answered below 400 stores the body in the manager's own
  formatting \<open>stored\<close> (the manager re-indents what it is given), an answer from 400 on means the file is
  as before, and a PUT that fails in transport may or may not have landed; a GET answered below 400
  shows the file.  \<open>plain_transport\<close> says that what the transport itself raises is never one of
  Wolf's own error classes.
\<close>

section \<open>The manager's files\<close>

definition keeps_file :: "'w endpoint \<Rightarrow> string \<Rightarrow> (string \<Rightarrow> string) \<Rightarrow> ('w \<Rightarrow> string) \<Rightarrow> bool" where
  "keeps_file ep path stored disk \<longleftrightarrow> (\<forall>rq w r w'. ep_send ep rq w = (r, w') \<longrightarrow>
     (case rq_body rq of
        RawBody c \<Rightarrow> if rq_method rq = ''PUT'' \<and> rq_path rq = path
          then (case r of Inl e \<Rightarrow> disk w' \<in> {disk w, stored c}
            | Inr rs \<Rightarrow> disk w' = (if rs_status rs < 400 then stored c else disk w))
          else disk w' = disk w
      | _ \<Rightarrow> disk w' = disk w)
     \<and> (rq_method rq = ''GET'' \<and> rq_path rq = path \<longrightarrow> (\<forall>rs. r = Inr rs \<and> rs_status rs < 400 \<longrightarrow> rs_text rs = disk w)))"

definition plain_transport :: "'w endpoint \<Rightarrow> bool" where
  "plain_transport ep \<longleftrightarrow> (\<forall>rq w cls m. fst (ep_send ep rq w) \<noteq> Inl (Wolf cls m))"

definition client_error :: "exn \<Rightarrow> bool" where
  "client_error e \<longleftrightarrow> (\<forall>cls m. e = Wolf cls m \<longrightarrow> cls \<in> {WazuhServerApiError, WazuhActionNotPermittedError})"

lemma client_error_simps [simp]:
  "client_error (api_error m)" "client_error (not_permitted m)" "client_error (PyError a m)" "client_error (HTTPException n m)"
  "\<not> client_error (Wolf ConfigValidationError m)" "\<not> client_error (Wolf RulesetValidationError m)"
  by (simp_all add: client_error_def api_error_def not_permitted_def)

lemma keeps_fileD:
  assumes "keeps_file ep path stored disk" "ep_send ep rq w = (r, w')"
  shows "\<not> (\<exists>c. rq_body rq = RawBody c \<and> rq_method rq = ''PUT'' \<and> rq_path rq = path) \<Longrightarrow> disk w' = disk w"
    and "rq_body rq = RawBody c \<Longrightarrow> disk w' \<in> {disk w, stored c}"
    and "rq_body rq = RawBody c \<Longrightarrow> rq_method rq = ''PUT'' \<Longrightarrow> rq_path rq = path \<Longrightarrow> r = Inr rs \<Longrightarrow>
      disk w' = (if rs_status rs < 400 then stored c else disk w)"
    and "rq_method rq = ''GET'' \<Longrightarrow> rq_path rq = path \<Longrightarrow> r = Inr rs \<Longrightarrow> rs_status rs < 400 \<Longrightarrow> rs_text rs = disk w"
proof -
  have k: "(case rq_body rq of
        RawBody c \<Rightarrow> if rq_method rq = ''PUT'' \<and> rq_path rq = path
          then (case r of Inl e \<Rightarrow> disk w' \<in> {disk w, stored c}
            | Inr rs \<Rightarrow> disk w' = (if rs_status rs < 400 then stored c else disk w))
          else disk w' = disk w
      | _ \<Rightarrow> disk w' = disk w)
     \<and> (rq_method rq = ''GET'' \<and> rq_path rq = path \<longrightarrow> (\<forall>rs. r = Inr rs \<and> rs_status rs < 400 \<longrightarrow> rs_text rs = disk w))"
    using assms unfolding keeps_file_def by blast
  show "\<not> (\<exists>c. rq_body rq = RawBody c \<and> rq_method rq = ''PUT'' \<and> rq_path rq = path) \<Longrightarrow> disk w' = disk w"
    using k by (cases "rq_body rq") auto
  show "rq_body rq = RawBody c \<Longrightarrow> disk w' \<in> {disk w, stored c}"
    using k by (cases r) (auto split: if_splits)
  show "rq_body rq = RawBody c \<Longrightarrow> rq_method rq = ''PUT'' \<Longrightarrow> rq_path rq = path \<Longrightarrow> r = Inr rs \<Longrightarrow>
      disk w' = (if rs_status rs < 400 then stored c else disk w)" using k by simp
  show "rq_method rq = ''GET'' \<Longrightarrow> rq_path rq = path \<Longrightarrow> r = Inr rs \<Longrightarrow> rs_status rs < 400 \<Longrightarrow> rs_text rs = disk w"
    using k by simp
qed

section \<open>Actions that leave a file alone, and what actions raise\<close>

definition untouched :: "('w \<Rightarrow> string) \<Rightarrow> ('w wazuh \<Rightarrow> 'a result \<times> 'w wazuh) \<Rightarrow> bool" where
  "untouched disk m \<longleftrightarrow> (\<forall>w r w'. m w = (r, w') \<longrightarrow> disk (remote w') = disk (remote w))"

definition raises_only :: "(exn \<Rightarrow> bool) \<Rightarrow> ('s \<Rightarrow> 'a result \<times> 's) \<Rightarrow> bool" where
  "raises_only E m \<longleftrightarrow> (\<forall>w e w'. m w = (Inl e, w') \<longrightarrow> E e)"

lemma untouchedD: "untouched disk m \<Longrightarrow> m w = (r, w') \<Longrightarrow> disk (remote w') = disk (remote w)"
  by (simp add: untouched_def)

lemma raises_onlyD: "raises_only E m \<Longrightarrow> m w = (Inl e, w') \<Longrightarrow> E e"
  by (auto simp: raises_only_def)

lemma not_raised:
  assumes "raises_only client_error m"
  shows "m w \<noteq> (Inl (Wolf ConfigValidationError x), w')" "m w \<noteq> (Inl (Wolf RulesetValidationError x), w')"
  using raises_onlyD [OF assms, of w _ w'] by (auto simp: client_error_def)

lemma untouched_return [intro]: "untouched disk (io_return r)"
  by (simp add: untouched_def)

lemma untouched_bind [intro]:
  "untouched disk m \<Longrightarrow> (\<And>x. untouched disk (f x)) \<Longrightarrow> untouched disk (io_bind m f)"
  by (fastforce simp: untouched_def io_bind_def split: prod.splits sum.splits)

lemma untouched_if [intro]: "untouched disk m \<Longrightarrow> untouched disk n \<Longrightarrow> untouched disk (if b then m else n)"
  by simp

lemma raises_return [intro]: "(\<And>e. r = Inl e \<Longrightarrow> E e) \<Longrightarrow> raises_only E (io_return r)"
  by (simp add: raises_only_def)

lemma raises_bind [intro]:
  "raises_only E m \<Longrightarrow> (\<And>x. raises_only E (f x)) \<Longrightarrow> raises_only E (io_bind m f)"
  unfolding raises_only_def io_bind_Inl_iff by blast

section \<open>Requests\<close>

lemma pget_client_error: "pget v k v0 = Inl e \<Longrightarrow> client_error e"
  by (auto simp: pget_def split: option.splits)

lemma plain_transportD: "plain_transport ep \<Longrightarrow> ep_send ep rq w = (Inl e, w') \<Longrightarrow> client_error e"
  by (metis client_error_def fst_conv plain_transport_def)

lemma authenticate_file:
  assumes "authenticate ep w = (r, w')"
  shows "keeps_file ep path stored disk \<Longrightarrow> disk w' = disk w"
    and "plain_transport ep \<Longrightarrow> r = Inl e \<Longrightarrow> client_error e"
proof -
  let ?rq = "\<lparr>rq_method = ''POST'', rq_path = ''/security/user/authenticate'', rq_params = [],
        rq_auth = Basic (ep_username ep) (ep_password ep), rq_body = NoBody\<rparr>"
  obtain r1 w1 where s: "ep_send ep ?rq w = (r1, w1)" by (cases "ep_send ep ?rq w")
  then have "w' = w1" using assms by (auto simp: authenticate_def split: sum.splits)
  then show "keeps_file ep path stored disk \<Longrightarrow> disk w' = disk w"
    using keeps_fileD(1) [OF _ s] by simp
  assume "plain_transport ep" "r = Inl e"
  then show "client_error e" using assms s
    by (cases r1) (auto simp: authenticate_def dest: pget_client_error plain_transportD split: if_splits option.splits sum.splits)
qed

lemma authed_request_file:
  assumes "authed_request ep rq tok w = (r, tok', w')"
  shows "keeps_file ep path stored disk \<Longrightarrow> (\<And>a c. \<not> (rq_body (rq a) = RawBody c \<and> rq_method (rq a) = ''PUT'' \<and> rq_path (rq a) = path))
      \<Longrightarrow> disk w' = disk w"
    and "keeps_file ep path stored disk \<Longrightarrow> (\<And>a. rq_body (rq a) = RawBody c \<and> rq_method (rq a) = ''PUT'' \<and> rq_path (rq a) = path)
      \<Longrightarrow> disk w' \<in> {disk w, stored c} \<and> (\<forall>rs. r = Inr rs \<and> rs_status rs < 400 \<longrightarrow> disk w' = stored c)"
    and "keeps_file ep path stored disk \<Longrightarrow> (\<And>a. rq_method (rq a) = ''GET'' \<and> rq_path (rq a) = path)
      \<Longrightarrow> \<forall>rs. r = Inr rs \<and> rs_status rs < 400 \<longrightarrow> rs_text rs = disk w"
    and "plain_transport ep \<Longrightarrow> r = Inl e \<Longrightarrow> client_error e"
proof -
  obtain t w1 where t: "(case tok of Some t \<Rightarrow> (Inr t, w) | None \<Rightarrow> authenticate ep w) = (t, w1)" by fastforce
  have k1: "keeps_file ep path stored disk \<Longrightarrow> disk w1 = disk w" and e1: "plain_transport ep \<Longrightarrow> t = Inl e \<Longrightarrow> client_error e" for e
    using t authenticate_file [of ep w t w1] by (auto split: option.splits)
  consider (auth) e where "t = Inl e" "r = Inl e" "w' = w1"
    | (first) a where "ep_send ep (rq a) w1 = (r, w')" "\<forall>rs. r = Inr rs \<longrightarrow> rs_status rs \<noteq> 401"
    | (reauth) a rs w2 e where "ep_send ep (rq a) w1 = (Inr rs, w2)" "rs_status rs = 401" "authenticate ep w2 = (Inl e, w')" "r = Inl e"
    | (second) a b rs w2 t2 w3 where "ep_send ep (rq a) w1 = (Inr rs, w2)" "rs_status rs = 401" "authenticate ep w2 = (Inr t2, w3)"
        "ep_send ep (rq b) w3 = (r, w')"
    using assms t by (cases t) (auto simp: authed_request_def split: prod.splits sum.splits if_splits)
  note cases = this
  show "disk w' = disk w" if "keeps_file ep path stored disk"
      "\<And>a c. \<not> (rq_body (rq a) = RawBody c \<and> rq_method (rq a) = ''PUT'' \<and> rq_path (rq a) = path)"
    using cases that k1 keeps_fileD(1) [OF that(1)] authenticate_file(1) [OF _ that(1)] by cases metis+
  show "disk w' \<in> {disk w, stored c} \<and> (\<forall>rs. r = Inr rs \<and> rs_status rs < 400 \<longrightarrow> disk w' = stored c)"
    if "keeps_file ep path stored disk" "\<And>a. rq_body (rq a) = RawBody c \<and> rq_method (rq a) = ''PUT'' \<and> rq_path (rq a) = path"
    using cases
  proof cases
    case auth
    with k1 that(1) show ?thesis by simp
  next
    case (first a)
    with keeps_fileD(2,3) [OF that(1) first(1)] that(2) [of a] k1 [OF that(1)] show ?thesis by auto
  next
    case (reauth a rs w2 e)
    with keeps_fileD(3) [OF that(1) reauth(1)] that(2) [of a] k1 [OF that(1)] authenticate_file(1) [OF reauth(3) that(1)]
    show ?thesis by auto
  next
    case (second a b rs w2 t2 w3)
    with keeps_fileD(3) [OF that(1) second(1)] that(2) [of a] k1 [OF that(1)] authenticate_file(1) [OF second(3) that(1)]
      keeps_fileD(2,3) [OF that(1) second(4)] that(2) [of b]
    show ?thesis by auto
  qed
  show "\<forall>rs. r = Inr rs \<and> rs_status rs < 400 \<longrightarrow> rs_text rs = disk w"
    if k: "keeps_file ep path stored disk" and g: "\<And>a. rq_method (rq a) = ''GET'' \<and> rq_path (rq a) = path"
    using cases
  proof cases
    case (first a)
    with keeps_fileD(4) [OF k first(1)] g [of a] k1 [OF k] show ?thesis by auto
  next
    case (second a b rs w2 t2 w3)
    with keeps_fileD(1) [OF k second(1)] g [of a] k1 [OF k] authenticate_file(1) [OF second(3) k]
      keeps_fileD(4) [OF k second(4)] g [of b]
    show ?thesis by auto
  qed simp_all
  show "client_error e" if "plain_transport ep" "r = Inl e"
    using cases
  proof cases
    case auth
    with e1 that show ?thesis by simp
  next
    case first
    with plain_transportD [OF that(1)] that(2) show ?thesis by simp
  next
    case reauth
    with authenticate_file(2) [OF reauth(3) that(1)] that(2) show ?thesis by simp
  next
    case second
    with plain_transportD [OF that(1)] that(2) show ?thesis by simp
  qed
qed

lemma read_request_file:
  assumes "keeps_file ep path stored disk"
  shows "untouched disk (read_request ep ''GET'' p params)"
    and "read_request ep ''GET'' path params w = (Inr rs, w') \<Longrightarrow> rs_text rs = disk (remote w)"
proof -
  let ?rq = "\<lambda>p a. \<lparr>rq_method = ''GET'', rq_path = p, rq_params = params, rq_auth = a, rq_body = NoBody\<rparr>"
  show "untouched disk (read_request ep ''GET'' p params)"
    unfolding untouched_def
  proof (intro allI impI)
    fix w r w' assume r: "read_request ep ''GET'' p params w = (r, w')"
    obtain r1 tok rw where a: "authed_request ep (?rq p) (read_token w) (remote w) = (r1, tok, rw)"
      by (cases "authed_request ep (?rq p) (read_token w) (remote w)")
    then have "remote w' = rw" using r by (auto simp: read_request_def)
    with authed_request_file(1) [OF a assms] show "disk (remote w') = disk (remote w)" by simp
  qed
  assume r: "read_request ep ''GET'' path params w = (Inr rs, w')"
  obtain r1 tok rw where a: "authed_request ep (?rq path) (read_token w) (remote w) = (r1, tok, rw)"
    by (cases "authed_request ep (?rq path) (read_token w) (remote w)")
  then have "r1 = Inr rs" "rs_status rs < 400" using r by (auto simp: read_request_def split: sum.splits if_splits)
  with authed_request_file(3) [OF a assms] show "rs_text rs = disk (remote w)" by simp
qed

lemma read_request_raises: "plain_transport ep \<Longrightarrow> raises_only client_error (read_request ep meth path params)"
  unfolding raises_only_def
  by (auto simp: read_request_def dest: authed_request_file(4) split: prod.splits sum.splits if_splits)

lemma request_eq: "request ep ''GET'' path params = io_bind (read_request ep ''GET'' path params) (\<lambda>rs. io_return (decode_json (Inr rs)))"
  by (rule ext) (auto simp: request_def io_bind_def io_return_def decode_json_def split: prod.splits sum.splits)

lemma get_raw_eq: "get_raw ep path params = io_bind (read_request ep ''GET'' path params) (\<lambda>rs. io_return (Inr (rs_text rs)))"
  by (rule ext) (auto simp: get_raw_def io_bind_def io_return_def split: prod.splits sum.splits)

lemma decode_json_raises: "decode_json (Inr rs) = Inl e \<Longrightarrow> client_error e"
  by (auto simp: decode_json_def split: option.splits)

lemma reads_untouched [intro]:
  assumes "keeps_file ep path stored disk"
  shows "untouched disk (api_get ep p params)" "untouched disk (get_raw ep p params)"
  unfolding api_get_def [abs_def] request_eq get_raw_eq
  by (intro untouched_bind untouched_return read_request_file(1) [OF assms])+

lemma reads_raise [intro]:
  assumes "plain_transport ep"
  shows "raises_only client_error (api_get ep p params)" "raises_only client_error (get_raw ep p params)"
  unfolding api_get_def [abs_def] request_eq get_raw_eq
  by (intro raises_bind raises_return read_request_raises [OF assms]; simp add: decode_json_raises)+

lemma get_raw_shows:
  assumes "keeps_file ep path stored disk" "get_raw ep path params w = (Inr s, w')"
  shows "s = disk (remote w)"
  using assms read_request_file(2) [OF assms(1)] by (auto simp: get_raw_eq io_bind_Inr_iff)

lemma write_request_file:
  assumes "write_request ep meth p params body w = (r, w')"
  shows "keeps_file ep path stored disk \<Longrightarrow> p \<noteq> path \<or> (\<forall>c. body \<noteq> RawBody c) \<Longrightarrow> disk (remote w') = disk (remote w)"
    and "keeps_file ep p stored disk \<Longrightarrow> meth = ''PUT'' \<Longrightarrow> body = RawBody c \<Longrightarrow>
      disk (remote w') \<in> {disk (remote w), stored c} \<and> (\<not> isl r \<longrightarrow> disk (remote w') = stored c)"
    and "plain_transport ep \<Longrightarrow> r = Inl e \<Longrightarrow> client_error e"
proof -
  let ?rq = "\<lambda>a. \<lparr>rq_method = meth, rq_path = p, rq_params = params, rq_auth = a, rq_body = body\<rparr>"
  obtain r1 tok rw where a: "authed_request ep ?rq (action_token w) (remote w) = (r1, tok, rw)"
    by (cases "authed_request ep ?rq (action_token w) (remote w)")
  then have w': "remote w' = rw" using assms by (auto simp: write_request_def)
  show "keeps_file ep path stored disk \<Longrightarrow> p \<noteq> path \<or> (\<forall>c. body \<noteq> RawBody c) \<Longrightarrow> disk (remote w') = disk (remote w)"
    using authed_request_file(1) [OF a] w' by auto
  have ok: "\<exists>rs. r1 = Inr rs \<and> rs_status rs < 400" if "\<not> isl r"
    using that assms a by (auto simp: write_request_def decode_json_def split: sum.splits if_splits)
  show "keeps_file ep p stored disk \<Longrightarrow> meth = ''PUT'' \<Longrightarrow> body = RawBody c \<Longrightarrow>
      disk (remote w') \<in> {disk (remote w), stored c} \<and> (\<not> isl r \<longrightarrow> disk (remote w') = stored c)"
    using authed_request_file(2) [OF a, where path = p and c = c] w' ok by auto
  show "plain_transport ep \<Longrightarrow> r = Inl e \<Longrightarrow> client_error e"
    using assms a authed_request_file(4) [OF a]
    by (auto simp: write_request_def decode_json_def split: sum.splits if_splits option.splits)
qed

lemma validation_ok_raises: "validation_ok body = Inl e \<Longrightarrow> client_error e"
  by (auto simp: validation_ok_def split: pyval.splits option.splits if_splits)

section \<open>A file edited through the clients\<close>

text \<open>What the executors rely on of an upload and a download of the same file.\<close>

locale edited_file =
  fixes put :: "'w exec_context \<Rightarrow> string \<Rightarrow> 'w wazuh \<Rightarrow> pyval result \<times> 'w wazuh"
    and fetch :: "'w exec_context \<Rightarrow> 'w wazuh \<Rightarrow> string result \<times> 'w wazuh"
    and path :: string
  assumes put_file: "keeps_file (ctx_api ctx) path stored disk \<Longrightarrow> put ctx c w = (r, w') \<Longrightarrow>
      disk (remote w') \<in> {disk (remote w), stored c} \<and> (\<not> isl r \<longrightarrow> disk (remote w') = stored c)"
    and put_raises: "plain_transport (ctx_api ctx) \<Longrightarrow> raises_only client_error (put ctx c)"
    and fetch_untouched: "keeps_file (ctx_api ctx) path stored disk \<Longrightarrow> untouched disk (fetch ctx)"
    and fetch_shows: "keeps_file (ctx_api ctx) path stored disk \<Longrightarrow> fetch ctx w = (Inr s, w') \<Longrightarrow> s = disk (remote w)"
    and fetch_raises: "plain_transport (ctx_api ctx) \<Longrightarrow> raises_only client_error (fetch ctx)"
begin

lemma put_ok: "keeps_file (ctx_api ctx) path stored disk \<Longrightarrow> put ctx c w = (Inr x, w') \<Longrightarrow> disk (remote w') = stored c"
  using put_file by fastforce

lemma write_validated_Inr:
  assumes "keeps_file (ctx_api ctx) path stored disk"
    and "write_validated ctx (put ctx) cls a b c new old w = (Inr d, w')"
  shows "disk (remote w') = stored new"
  using assms untouchedD [OF reads_untouched(1) [OF assms(1)]] put_ok
  by (auto simp: write_validated_def io_bind_Inr_iff split: if_splits option.splits)

lemma write_validated_rejected:
  assumes "keeps_file (ctx_api ctx) path stored disk" "plain_transport (ctx_api ctx)"
    and "write_validated ctx (put ctx) cls a b c new (Some old) w = (Inl (Wolf cls m), w')"
    and "\<not> client_error (Wolf cls m)"
  shows "disk (remote w') = stored old"
proof -
  note v = validation_ok_raises
  from assms(3,4) raises_onlyD [OF put_raises [OF assms(2)]] raises_onlyD [OF reads_raise(1) [OF assms(2)]] v
  obtain x w1 w2 where "put ctx old w1 = (Inr x, w2)" "w' = w2"
    by (auto simp: write_validated_def io_bind_Inl_iff split: if_splits)
  with put_ok [OF assms(1)] show ?thesis by blast
qed

lemma write_validated_file:
  assumes "keeps_file (ctx_api ctx) path stored disk"
    and "write_validated ctx (put ctx) cls a b c new old w = (r, w')"
  shows "disk (remote w') \<in> {disk (remote w), stored new} \<union> stored ` set_option old"
proof -
  obtain r1 w1 where p: "put ctx new w = (r1, w1)" by (cases "put ctx new w")
  obtain r2 w2 where g: "api_get (ctx_api ctx) ''/manager/configuration/validation'' [] w1 = (r2, w2)"
    by (cases "api_get (ctx_api ctx) ''/manager/configuration/validation'' [] w1")
  have 1: "disk (remote w1) \<in> {disk (remote w), stored new}" using put_file [OF assms(1) p] by blast
  have 2: "disk (remote w2) = disk (remote w1)" by (rule untouchedD [OF reads_untouched(1) [OF assms(1)] g])
  have "w' = w1 \<or> w' = w2 \<or> (\<exists>o' x. old = Some o' \<and> put ctx o' w2 = (x, w'))"
    using assms(2) p g
    by (auto simp: write_validated_def io_bind_def io_return_def split: sum.splits prod.splits option.splits if_splits)
  with 1 2 put_file [OF assms(1)] show ?thesis by (elim disjE exE conjE) fastforce+
qed

end

lemma put_local_rules_eq: "put_local_rules ctx c = (if can (ctx_capabilities ctx) ACTION_UPDATE_RULES (''rule:file:'' @ LOCAL_RULES_FILENAME)
    then write_request (ctx_api ctx) ''PUT'' ''/rules/files/local_rules.xml''
      [(''overwrite'', ''true''), (''relative_dirname'', LOCAL_RULES_DIRNAME)] (RawBody c)
    else io_return (Inl (not_permitted (''Credential is not authorized to update rule file '' @ repr_str LOCAL_RULES_FILENAME
        @ '' (rules:update). Rule tuning is manager-global / Superuser-scoped.''))))"
  by (rule ext) (simp add: put_local_rules_def update_rules_file_def write_raw_def io_return_def LOCAL_RULES_FILENAME_def)

lemma put_config_eq: "put_config ctx c = (if can (ctx_capabilities ctx) ACTION_UPDATE_MANAGER_CONFIG RESOURCE_ANY
    then write_request (ctx_api ctx) ''PUT'' ''/manager/configuration'' [] (RawBody c)
    else io_return (Inl (not_permitted ''Credential is not authorized to update the manager configuration (manager:update_config). Configuration changes are manager-global / Superuser-scoped.'')))"
  by (rule ext) (simp add: put_config_def update_manager_configuration_def write_raw_def io_return_def)

lemma put_node_config_eq: "put_node_config ctx n c = (if can (ctx_capabilities ctx) ACTION_UPDATE_CLUSTER_CONFIG (''node:id:'' @ n)
    then io_bind (io_return (node_configuration_path n)) (\<lambda>path. write_request (ctx_api ctx) ''PUT'' path [] (RawBody c))
    else io_return (Inl (not_permitted (''Credential is not authorized to update the configuration of cluster node ''
        @ repr_str n @ '' (cluster:update_config). Distributed configuration changes are Superuser-scoped.''))))"
  by (rule ext) (simp add: put_node_config_def update_node_configuration_def write_raw_def io_return_def io_bind_def split: sum.splits)

lemma node_path_cases: "node_configuration_path n = Inr path \<Longrightarrow> path = ''/cluster/'' @ n @ ''/configuration''"
  by (auto simp: node_configuration_path_def split: if_splits)

lemma node_path_raises: "node_configuration_path n = Inl e \<Longrightarrow> client_error e"
  by (auto simp: node_configuration_path_def split: if_splits)

lemma write_request_raises [intro]: "plain_transport ep \<Longrightarrow> raises_only client_error (write_request ep meth p params body)"
  unfolding raises_only_def using write_request_file(3) by blast

interpretation rules: edited_file put_local_rules read_local_rules "''/rules/files/local_rules.xml''"
proof
  fix ctx :: "'w exec_context" and stored disk c w r w' s
  assume k: "keeps_file (ctx_api ctx) ''/rules/files/local_rules.xml'' stored disk"
  show "disk (remote w') \<in> {disk (remote w), stored c} \<and> (\<not> isl r \<longrightarrow> disk (remote w') = stored c)"
    if "put_local_rules ctx c w = (r, w')"
    using that write_request_file(2) [OF _ k] by (auto simp: put_local_rules_eq split: if_splits)
  show "untouched disk (read_local_rules ctx)"
    unfolding read_local_rules_def read_rules_file_def by (rule reads_untouched(2) [OF k])
  show "read_local_rules ctx w = (Inr s, w') \<Longrightarrow> s = disk (remote w)"
    using get_raw_shows [OF k] by (simp add: read_local_rules_def read_rules_file_def LOCAL_RULES_FILENAME_def)
next
  fix ctx :: "'w exec_context" and c assume t: "plain_transport (ctx_api ctx)"
  show "raises_only client_error (put_local_rules ctx c)"
    unfolding put_local_rules_eq using t by (auto intro!: raises_return)
  show "raises_only client_error (read_local_rules ctx)"
    unfolding read_local_rules_def read_rules_file_def using t by (rule reads_raise(2))
qed

interpretation conf: edited_file put_config read_config "''/manager/configuration''"
proof
  fix ctx :: "'w exec_context" and stored disk c w r w' s
  assume k: "keeps_file (ctx_api ctx) ''/manager/configuration'' stored disk"
  show "disk (remote w') \<in> {disk (remote w), stored c} \<and> (\<not> isl r \<longrightarrow> disk (remote w') = stored c)"
    if "put_config ctx c w = (r, w')"
    using that write_request_file(2) [OF _ k] by (auto simp: put_config_eq split: if_splits)
  show "untouched disk (read_config ctx)" unfolding read_config_def by (rule reads_untouched(2) [OF k])
  show "read_config ctx w = (Inr s, w') \<Longrightarrow> s = disk (remote w)"
    using get_raw_shows [OF k] by (simp add: read_config_def)
next
  fix ctx :: "'w exec_context" and c assume t: "plain_transport (ctx_api ctx)"
  show "raises_only client_error (put_config ctx c)"
    unfolding put_config_eq using t by (auto intro!: raises_return)
  show "raises_only client_error (read_config ctx)" unfolding read_config_def using t by (rule reads_raise(2))
qed

interpretation node: edited_file "\<lambda>ctx. put_node_config ctx n" "\<lambda>ctx. read_node_config ctx n" "''/cluster/'' @ n @ ''/configuration''" for n
proof
  fix ctx :: "'w exec_context" and stored disk c w r w' s
  assume k: "keeps_file (ctx_api ctx) (''/cluster/'' @ n @ ''/configuration'') stored disk"
  show "disk (remote w') \<in> {disk (remote w), stored c} \<and> (\<not> isl r \<longrightarrow> disk (remote w') = stored c)"
    if "put_node_config ctx n c w = (r, w')"
    using that write_request_file(2) [OF _ k]
    by (cases "is_valid_node_name n") (auto simp: put_node_config_eq node_configuration_path_def io_bind_def io_return_def split: if_splits)
  show "untouched disk (read_node_config ctx n)"
    unfolding read_node_config_def by (intro untouched_bind untouched_return reads_untouched(2) [OF k])
  show "read_node_config ctx n w = (Inr s, w') \<Longrightarrow> s = disk (remote w)"
    using get_raw_shows [OF k] by (auto simp: read_node_config_def io_bind_Inr_iff node_configuration_path_def split: if_splits)
next
  fix ctx :: "'w exec_context" and c assume t: "plain_transport (ctx_api ctx)"
  show "raises_only client_error (put_node_config ctx n c)"
    unfolding put_node_config_eq using t by (auto intro!: raises_return raises_bind dest: node_path_raises)
  show "raises_only client_error (read_node_config ctx n)"
    unfolding read_node_config_def using t by (auto intro!: raises_return raises_bind dest: node_path_raises)
qed

lemma restart_untouched [intro]:
  assumes "keeps_file (ctx_api ctx) path stored disk"
  shows "untouched disk (restart_cluster (ctx_api ctx) caps)"
  unfolding untouched_def using write_request_file(1) [OF _ assms]
  by (fastforce simp: restart_cluster_def api_write_def split: if_splits)

lemma restart_raises [intro]:
  assumes "plain_transport (ctx_api ctx)"
  shows "raises_only client_error (restart_cluster (ctx_api ctx) caps)"
  unfolding raises_only_def using write_request_file(3) [OF _ assms]
  by (fastforce simp: restart_cluster_def api_write_def split: if_splits)

section \<open>Editing the manager's configuration\<close>

lemma cc_apply_Inr:
  assumes k: "keeps_file (ctx_api ctx) ''/manager/configuration'' stored disk"
    and "cc_apply ctx p snapshot w = (Inr res, w')"
  obtains c where "candidate_of p snapshot = Some c" "disk (remote w') = stored c" "change_persisted (stored c) p (new_block_of p)"
proof -
  from assms(2) obtain c v w1 reread w2 x w3 where c: "candidate_of p snapshot = Some c"
      "config_write_and_validate ctx c (Some snapshot) w = (Inr v, w1)" "read_config ctx w1 = (Inr reread, w2)"
      "change_persisted reread p (new_block_of p)" "restart_cluster (ctx_api ctx) (ctx_capabilities ctx) w2 = (Inr x, w')"
    by (auto simp: cc_apply_def io_bind_Inr_iff Let_def split: option.splits if_splits)
  have "disk (remote w1) = stored c" using conf.write_validated_Inr [OF k] c(2) by (simp add: config_write_and_validate_def)
  moreover have "reread = disk (remote w1)" by (rule conf.fetch_shows [OF k c(3)])
  moreover have "disk (remote w2) = disk (remote w1)" by (rule untouchedD [OF conf.fetch_untouched [OF k] c(3)])
  moreover have "disk (remote w') = disk (remote w2)" by (rule untouchedD [OF restart_untouched [OF k] c(5)])
  ultimately show thesis using that c(1,4) by simp
qed

lemma cc_apply_rejected:
  assumes k: "keeps_file (ctx_api ctx) ''/manager/configuration'' stored disk" and t: "plain_transport (ctx_api ctx)"
    and "cc_apply ctx p snapshot w = (Inl (Wolf ConfigValidationError m), w')"
  shows "w' = w \<or> disk (remote w') = stored snapshot"
proof (cases "candidate_of p snapshot")
  case None
  with assms(3) show ?thesis by (simp add: cc_apply_def)
next
  case (Some c)
  with assms(3) not_raised(1) [OF conf.fetch_raises [OF t]] not_raised(1) [OF restart_raises [OF t]] not_raised(1) [OF conf.put_raises [OF t]]
  consider "config_write_and_validate ctx c (Some snapshot) w = (Inl (Wolf ConfigValidationError m), w')"
    | w1 x where "put_config ctx snapshot w1 = (Inr x, w')"
    by (auto simp: cc_apply_def io_bind_Inl_iff Let_def split: if_splits)
  then show ?thesis
    by cases (use conf.write_validated_rejected [OF k t] conf.put_ok [OF k] in \<open>simp_all add: config_write_and_validate_def\<close>)
qed

lemma cc_apply_disk:
  assumes k: "keeps_file (ctx_api ctx) ''/manager/configuration'' stored disk"
    and "cc_apply ctx p snapshot w = (r, w')"
  shows "disk (remote w') \<in> {disk (remote w), stored snapshot} \<union> stored ` set_option (candidate_of p snapshot)"
proof (cases "candidate_of p snapshot")
  case None
  with assms(2) show ?thesis by (simp add: cc_apply_def)
next
  case (Some c)
  obtain r1 w1 where 1: "config_write_and_validate ctx c (Some snapshot) w = (r1, w1)" by fastforce
  obtain r2 w2 where 2: "read_config ctx w1 = (r2, w2)" by fastforce
  have d1: "disk (remote w1) \<in> {disk (remote w), stored c, stored snapshot}"
    using conf.write_validated_file [OF k 1 [unfolded config_write_and_validate_def]] by auto
  have d2: "disk (remote w2) = disk (remote w1)" by (rule untouchedD [OF conf.fetch_untouched [OF k] 2])
  have "w' = w1 \<or> w' = w2 \<or> (\<exists>x. put_config ctx snapshot w2 = (x, w')) \<or> (\<exists>x. restart_cluster (ctx_api ctx) (ctx_capabilities ctx) w2 = (x, w'))"
    using assms(2) Some 1 2 by (auto simp: cc_apply_def io_bind_def io_return_def Let_def split: prod.splits sum.splits if_splits)
  then show ?thesis using Some d1 d2 conf.put_file [OF k] untouchedD [OF restart_untouched [OF k]]
    by (elim disjE exE) fastforce+
qed

text \<open>C12: The all-in-one configuration edit, against any manager that keeps its file.  If the edit returns, the
  snapshot it recorded is the file as it was, the file is now the candidate built from it, and the re-read
  file carried the change.  If it raises the validation error, the file is as before up to the manager's
  own formatting.  In every case, transport failures included, the file is the old one or the whole
  candidate, never anything else.\<close>

theorem config_change_edit_or_rollback:
  assumes "keeps_file (ctx_api ctx) ''/manager/configuration'' stored disk" "plain_transport (ctx_api ctx)"
    and "\<not> is_cluster p" and "cc_perform ctx db p w = (r, prior, w')"
  shows "(\<forall>res. r = Inr res \<longrightarrow> prior = Some (config_prior_state (disk (remote w)))
        \<and> (\<exists>c. candidate_of p (disk (remote w)) = Some c \<and> disk (remote w') = stored c \<and> change_persisted (stored c) p (new_block_of p)))
    \<and> (\<forall>m. r = Inl (Wolf ConfigValidationError m) \<longrightarrow> disk (remote w') \<in> {disk (remote w), stored (disk (remote w))})
    \<and> disk (remote w') \<in> {disk (remote w), stored (disk (remote w))} \<union> stored ` set_option (candidate_of p (disk (remote w)))"
proof -
  obtain r1 w1 where 1: "read_config ctx w = (r1, w1)" by fastforce
  have d1: "disk (remote w1) = disk (remote w)" by (rule untouchedD [OF conf.fetch_untouched [OF assms(1)] 1])
  show ?thesis
  proof (cases r1)
    case (Inl e)
    with assms(3,4) 1 d1 show ?thesis by (auto simp: cc_perform_def)
  next
    case (Inr snapshot)
    then have s: "snapshot = disk (remote w)" using conf.fetch_shows [OF assms(1)] 1 by blast
    have a: "cc_apply ctx p snapshot w1 = (r, w')" "prior = Some (config_prior_state snapshot)"
      using assms(3,4) 1 Inr by (auto simp: cc_perform_def split: prod.splits)
    show ?thesis
      using a(2) s d1 cc_apply_Inr [OF assms(1), of p snapshot w1 _ w'] cc_apply_rejected [OF assms(1,2), of p snapshot w1 _ w']
        cc_apply_disk [OF assms(1) a(1)] a(1) by (cases r) auto
  qed
qed

section \<open>Editing the local rules\<close>

lemma rule_entries_untouched [intro]:
  "keeps_file (ctx_api ctx) path stored disk \<Longrightarrow> untouched disk (rule_entries ctx rule_id)"
  unfolding rule_entries_def by (intro untouched_bind untouched_return reads_untouched(1))

lemma rule_entries_raises [intro]:
  "plain_transport (ctx_api ctx) \<Longrightarrow> raises_only client_error (rule_entries ctx rule_id)"
  unfolding rule_entries_def
  by (intro raises_bind raises_return reads_raise(1)) (auto simp: rbind_def dest: pget_client_error split: sum.splits option.splits)

lemma resolve_rule_untouched [intro]:
  "keeps_file (ctx_api ctx) path stored disk \<Longrightarrow> untouched disk (resolve_rule ctx rule_id)"
  unfolding resolve_rule_def by (intro untouched_bind untouched_return rule_entries_untouched)

lemma rt_source_untouched:
  assumes "keeps_file (ctx_api ctx) path stored disk"
  shows "untouched disk (if b then io_return (Inr snapshot) else read_rules_file ctx f d)"
  unfolding read_rules_file_def by (intro untouched_if untouched_return reads_untouched(2) [OF assms])

lemma rt_source_raises:
  assumes "plain_transport (ctx_api ctx)"
  shows "raises_only client_error (if b then io_return (Inr snapshot) else read_rules_file ctx f d)"
  using reads_raise(2) [OF assms] by (auto simp: read_rules_file_def intro!: raises_return)

lemma rt_apply_Inr:
  assumes k: "keeps_file (ctx_api ctx) ''/rules/files/local_rules.xml'' stored disk"
    and "rt_apply ctx p rule snapshot w = (Inr res, w')"
  shows "\<exists>source. disk (remote w') = stored (tuned_content snapshot source (text_of (ap_target p) ''rule_id'') (rt_level p))
    \<and> has_override (disk (remote w')) (text_of (ap_target p) ''rule_id'')"
proof -
  let ?id = "text_of (ap_target p) ''rule_id''"
  from assms(2) obtain src w0 v w1 reread w2 es w3 x where
      "rules_write_and_validate ctx (tuned_content snapshot src ?id (rt_level p)) (Some snapshot) w0 = (Inr v, w1)"
      and 2: "read_local_rules ctx w1 = (Inr reread, w2)" "has_override reread ?id" "rule_entries ctx ?id w2 = (Inr es, w3)"
        "restart_cluster (ctx_api ctx) (ctx_capabilities ctx) w3 = (Inr x, w')"
    by (auto simp: rt_apply_def io_bind_Inr_iff Let_def split: if_splits)
  then have "disk (remote w1) = stored (tuned_content snapshot src ?id (rt_level p))"
    using rules.write_validated_Inr [OF k] by (simp add: rules_write_and_validate_def)
  moreover have "reread = disk (remote w1)" by (rule rules.fetch_shows [OF k 2(1)])
  moreover have "disk (remote w') = disk (remote w1)"
    using untouchedD [OF rules.fetch_untouched [OF k] 2(1)] untouchedD [OF rule_entries_untouched [OF k] 2(3)]
      untouchedD [OF restart_untouched [OF k] 2(4)] by simp
  ultimately show ?thesis using 2(2) by auto
qed

lemma rt_apply_rejected:
  assumes k: "keeps_file (ctx_api ctx) ''/rules/files/local_rules.xml'' stored disk" and t: "plain_transport (ctx_api ctx)"
    and "rt_apply ctx p rule snapshot w = (Inl (Wolf RulesetValidationError m), w')"
  shows "disk (remote w') = stored snapshot"
proof -
  from assms(3) not_raised(2) [OF rules.fetch_raises [OF t]] not_raised(2) [OF restart_raises [OF t]]
    not_raised(2) [OF rules.put_raises [OF t]] not_raised(2) [OF rt_source_raises [OF t]] not_raised(2) [OF rule_entries_raises [OF t]]
  consider c w1 where "rules_write_and_validate ctx c (Some snapshot) w1 = (Inl (Wolf RulesetValidationError m), w')"
    | w1 x where "put_local_rules ctx snapshot w1 = (Inr x, w')"
    unfolding rt_apply_def Let_def io_bind_Inl_iff by (elim disjE exE conjE) (auto simp: io_bind_Inl_iff split: if_splits)
  then show ?thesis
    by cases (use rules.write_validated_rejected [OF k t] rules.put_ok [OF k] in \<open>simp_all add: rules_write_and_validate_def\<close>)
qed

text \<open>The rule edit, against any manager that keeps its file.  If it returns, the snapshot recorded is the
  local rules as they were, the file is now those rules with the override of this rule, and the override
  is on disk.  If it raises the ruleset validation error, the file is as before up to the manager's own
  formatting.\<close>

theorem rule_tuning_edit_or_rollback:
  assumes "keeps_file (ctx_api ctx) ''/rules/files/local_rules.xml'' stored disk" "plain_transport (ctx_api ctx)"
    and "rt_perform ctx db p w = (r, prior, w')"
  shows "(\<forall>res. r = Inr res \<longrightarrow> prior = Some (rules_prior_state (disk (remote w)))
        \<and> (\<exists>source. disk (remote w') = stored (tuned_content (disk (remote w)) source (text_of (ap_target p) ''rule_id'') (rt_level p)))
        \<and> has_override (disk (remote w')) (text_of (ap_target p) ''rule_id''))
    \<and> (\<forall>m. r = Inl (Wolf RulesetValidationError m) \<longrightarrow> disk (remote w') \<in> {disk (remote w), stored (disk (remote w))})"
proof -
  let ?id = "text_of (ap_target p) ''rule_id''"
  let ?m = "io_bind (resolve_rule ctx ?id) (\<lambda>rule. case rule of
         None \<Rightarrow> io_return (Inl (Wolf RulesetValidationError (''Rule '' @ ?id @ '' not found; cannot tune.'')))
       | Some r \<Rightarrow> io_bind (read_local_rules ctx) (\<lambda>snapshot. io_return (Inr (r, snapshot))))"
  note k = assms(1)
  have u: "untouched disk ?m"
    by (intro untouched_bind resolve_rule_untouched [OF k]) (auto split: option.splits intro: rules.fetch_untouched [OF k])
  obtain r1 w1 where 1: "?m w = (r1, w1)" by fastforce
  have d1: "disk (remote w1) = disk (remote w)" by (rule untouchedD [OF u 1])
  show ?thesis
  proof (cases r1)
    case (Inl e)
    with assms(3) d1 show ?thesis unfolding rt_perform_def Let_def 1 by auto
  next
    case (Inr rs)
    obtain rule snapshot where rs: "rs = (rule, snapshot)" by (cases rs)
    from 1 Inr rs obtain w0 where "resolve_rule ctx ?id w = (Inr (Some rule), w0)" "read_local_rules ctx w0 = (Inr snapshot, w1)"
      by (auto simp: io_bind_Inr_iff split: option.splits)
    then have s: "snapshot = disk (remote w)"
      using rules.fetch_shows [OF k] untouchedD [OF resolve_rule_untouched [OF k]] by metis
    have a: "rt_apply ctx p rule snapshot w1 = (r, w')" "prior = Some (rules_prior_state snapshot)"
      using assms(3) unfolding rt_perform_def Let_def 1 Inr rs by (auto split: prod.splits)
    show ?thesis
      using a s rt_apply_Inr [OF k, of p rule snapshot w1 _ w'] rt_apply_rejected [OF k assms(2), of p rule snapshot w1 _ w']
      by (cases r) auto
  qed
qed

section \<open>Undo\<close>

text \<open>C18: A configuration undo that returns has put the recorded snapshot back: whatever happened to the file in
  between, it ends as the file was before the edit, up to the manager's own formatting, and the undo
  reports itself restored exactly when the file on disk has the snapshot's hash.\<close>

theorem config_undo_restores_snapshot:
  assumes k: "keeps_file (ctx_api ctx) ''/manager/configuration'' stored disk"
    and o: "original_of db q = Some p" "ap_prior_state p = Some (config_prior_state (disk (remote w0)))"
    and r: "cc_reverse_perform ctx db q w = (Inr res, prior, w')"
  shows "disk (remote w') = stored (disk (remote w0))
    \<and> (\<exists>detail. fst (cc_reverse_verify q res w') = Inr (sha256 (disk (remote w')) = sha256 (disk (remote w0)), detail))"
proof -
  let ?s = "disk (remote w0)"
  from o r obtain v w1 reread w3 x d where c: "config_write_and_validate ctx ?s None w = (Inr v, w1)"
      "read_config ctx w1 = (Inr reread, w3)" "restart_cluster (ctx_api ctx) (ctx_capabilities ctx) w3 = (Inr x, w')"
      "res = PDict d" "map_of d ''config_restored'' = Some (PBool (sha256 reread = sha256 ?s))"
    by (auto simp: cc_reverse_perform_def cc_restore_def prior_of_def config_prior_state_def text_of_def dget_or_def io_bind_Inr_iff
        Let_def split: prod.splits)
  have d1: "disk (remote w1) = stored ?s" using conf.write_validated_Inr [OF k] c(1) by (simp add: config_write_and_validate_def)
  have rr: "reread = disk (remote w1)" by (rule conf.fetch_shows [OF k c(2)])
  have d: "disk (remote w') = stored ?s" using d1 untouchedD [OF conf.fetch_untouched [OF k] c(2)]
    untouchedD [OF restart_untouched [OF k] c(3)] by simp
  with c(4,5) rr d1 show ?thesis by (simp add: cc_reverse_verify_def Let_def io_return_def dget_or_def)
qed

text \<open>C19: The same for the local rules; the rule undo reports success exactly when the restored snapshot does not
  itself carry an override of the rule.\<close>

theorem rules_undo_restores_snapshot:
  assumes k: "keeps_file (ctx_api ctx) ''/rules/files/local_rules.xml'' stored disk"
    and o: "original_of db q = Some p" "ap_prior_state p = Some (rules_prior_state (disk (remote w0)))"
      "text_of (ap_target p) ''rule_id'' \<noteq> []"
    and r: "rt_reverse_perform ctx db q w = (Inr res, prior, w')"
  shows "disk (remote w') = stored (disk (remote w0))
    \<and> (\<exists>detail. fst (rt_reverse_verify q res w') = Inr (\<not> has_override (disk (remote w')) (text_of (ap_target p) ''rule_id''), detail))"
proof -
  let ?s = "disk (remote w0)" and ?id = "text_of (ap_target p) ''rule_id''"
  from o r obtain v w1 raw w3 x d where c: "rules_write_and_validate ctx ?s None w = (Inr v, w1)"
      "read_local_rules ctx w1 = (Inr raw, w3)" "restart_cluster (ctx_api ctx) (ctx_capabilities ctx) w3 = (Inr x, w')"
      "res = PDict d" "map_of d ''override_removed'' = Some (PBool (\<not> has_override raw ?id))"
    by (auto simp: rt_reverse_perform_def prior_of_def rules_prior_state_def text_of_def dget_or_def io_bind_Inr_iff
        Let_def split: prod.splits)
  have d1: "disk (remote w1) = stored ?s" using rules.write_validated_Inr [OF k] c(1) by (simp add: rules_write_and_validate_def)
  have rr: "raw = disk (remote w1)" by (rule rules.fetch_shows [OF k c(2)])
  have d: "disk (remote w') = stored ?s" using d1 untouchedD [OF rules.fetch_untouched [OF k] c(2)]
    untouchedD [OF restart_untouched [OF k] c(3)] by simp
  with c(4,5) rr d1 show ?thesis by (simp add: rt_reverse_verify_def Let_def io_return_def dget_or_def)
qed

section \<open>Editing every node of a cluster\<close>

text \<open>A manager that keeps every node's file: \<open>disk n\<close> is the configuration of node \<open>n\<close>.\<close>

abbreviation node_path :: "string \<Rightarrow> string" where
  "node_path n \<equiv> ''/cluster/'' @ n @ ''/configuration''"

definition keeps_nodes :: "'w endpoint \<Rightarrow> (string \<Rightarrow> string) \<Rightarrow> (string \<Rightarrow> 'w \<Rightarrow> string) \<Rightarrow> bool" where
  "keeps_nodes ep stored disk \<longleftrightarrow> (\<forall>n. keeps_file ep (node_path n) stored (disk n))"

lemma keeps_nodesD: "keeps_nodes ep stored disk \<Longrightarrow> keeps_file ep (node_path n) stored (disk n)"
  by (simp add: keeps_nodes_def)

lemma put_other_node:
  assumes "keeps_nodes (ctx_api ctx) stored disk" "n \<noteq> m"
  shows "untouched (disk m) (put_node_config ctx n c)"
proof -
  have k: "keeps_file (ctx_api ctx) (node_path m) stored (disk m)" using assms(1) by (simp add: keeps_nodes_def)
  show ?thesis unfolding untouched_def
  proof (intro allI impI)
    fix w r w' assume "put_node_config ctx n c w = (r, w')"
    then have "w' = w \<or> (\<exists>r params. write_request (ctx_api ctx) ''PUT'' (node_path n) params (RawBody c) w = (r, w'))"
      by (cases "is_valid_node_name n") (auto simp: put_node_config_eq node_configuration_path_def io_bind_def io_return_def split: if_splits)
    then show "disk m (remote w') = disk m (remote w)" using write_request_file(1) [OF _ k] assms(2) by auto
  qed
qed

lemma node_read_untouched: "keeps_nodes (ctx_api ctx) stored disk \<Longrightarrow> untouched (disk m) (read_node_config ctx n)"
  unfolding read_node_config_def
  by (intro untouched_bind untouched_return reads_untouched(2)) (rule keeps_nodesD [where n = m])

lemma node_get_untouched: "keeps_nodes (ctx_api ctx) stored disk \<Longrightarrow> untouched (disk m) (api_get (ctx_api ctx) p ps)"
  by (rule reads_untouched(1)) (rule keeps_nodesD [where n = m])

lemma node_edits_ok:
  assumes "keeps_nodes (ctx_api ctx) stored disk" "node_edits ctx p names w = (r, w')"
  shows "(\<forall>m. disk m (remote w') = disk m (remote w))
    \<and> (\<forall>edits. r = Inr edits \<longrightarrow> map fst edits = names
        \<and> (\<forall>(n, snap, c) \<in> set edits. snap = disk n (remote w) \<and> candidate_of p snap = Some c))"
  using assms(2)
proof (induction names arbitrary: w r w')
  case Nil
  then show ?case by simp
next
  case (Cons n names)
  have k: "keeps_file (ctx_api ctx) (node_path n) stored (disk n)" using assms(1) by (simp add: keeps_nodes_def)
  obtain r1 w1 where 1: "read_node_config ctx n w = (r1, w1)" by fastforce
  have u1: "disk m (remote w1) = disk m (remote w)" for m by (rule untouchedD [OF node_read_untouched [OF assms(1)] 1])
  obtain r2 w2 where 2: "node_edits ctx p names w1 = (r2, w2)" by fastforce
  from Cons.prems 1 2 have "(w' = w1 \<and> isl r) \<or> (\<exists>snap c. r1 = Inr snap \<and> candidate_of p snap = Some c \<and> w' = w2
      \<and> (case r2 of Inl e \<Rightarrow> r = Inl e | Inr es \<Rightarrow> r = Inr ((n, snap, c) # es)))"
    by (cases r1) (auto simp: io_bind_def io_return_def split: option.splits sum.splits)
  then show ?case
  proof (elim disjE exE conjE)
    assume "w' = w1" "isl r"
    then show ?thesis using u1 by (cases r) auto
  next
    fix snap c assume a: "r1 = Inr snap" "candidate_of p snap = Some c" "w' = w2"
      "case r2 of Inl e \<Rightarrow> r = Inl e | Inr es \<Rightarrow> r = Inr ((n, snap, c) # es)"
    have "snap = disk n (remote w)" using node.fetch_shows [OF k] 1 a(1) by blast
    with a Cons.IH [OF 2] u1 show ?thesis by (cases r2) auto
  qed
qed

lemma restore_all_disk:
  assumes k: "keeps_nodes (ctx_api ctx) stored disk" and "restore_all ctx written w = (r, w')"
  shows "(m \<notin> fst ` set written \<longrightarrow> disk m (remote w') = disk m (remote w))
    \<and> (r = Inr () \<and> distinct (map fst written) \<longrightarrow> (\<forall>snap. (m, snap) \<in> set written \<longrightarrow> disk m (remote w') = stored snap))"
  using assms(2)
proof (induction written arbitrary: w)
  case Nil
  then show ?case by simp
next
  case (Cons x written)
  obtain n s where x: "x = (n, s)" by (cases x)
  obtain r1 w1 where 1: "put_node_config ctx n s w = (r1, w1)" by fastforce
  have o: "m \<noteq> n \<Longrightarrow> disk m (remote w1) = disk m (remote w)" using untouchedD [OF put_other_node [OF k] 1] by simp
  show ?case
  proof (cases r1)
    case (Inl e)
    with Cons.prems x 1 have "w' = w1" "r = Inl e" by (auto simp: io_bind_def)
    with o x show ?thesis by auto
  next
    case (Inr y)
    with Cons.prems x 1 have r: "restore_all ctx written w1 = (r, w')" by (simp add: io_bind_def)
    have "disk n (remote w1) = stored s"
      by (rule node.put_ok [where n = n]) (use k 1 Inr in \<open>auto simp: keeps_nodes_def\<close>)
    with Cons.IH [OF r] o x show ?thesis by (cases "m = n") (auto simp: image_iff)
  qed
qed

lemma write_nodes_disk:
  assumes k: "keeps_nodes (ctx_api ctx) stored disk" and "write_nodes ctx edits w = (r, written, w')"
  shows "(m \<notin> fst ` set edits \<longrightarrow> disk m (remote w') = disk m (remote w))
    \<and> (r = Inr () \<longrightarrow> written = map (\<lambda>(n, s, c). (n, s)) edits)
    \<and> (r = Inr () \<and> distinct (map fst edits) \<longrightarrow> (\<forall>s c. (m, s, c) \<in> set edits \<longrightarrow> disk m (remote w') = stored c))"
  using assms(2)
proof (induction edits arbitrary: w r written w')
  case Nil
  then show ?case by simp
next
  case (Cons x edits)
  obtain n s c where x: "x = (n, s, c)" by (cases x)
  obtain r1 w1 where 1: "put_node_config ctx n c w = (r1, w1)" by fastforce
  have o: "m \<noteq> n \<Longrightarrow> disk m (remote w1) = disk m (remote w)" using untouchedD [OF put_other_node [OF k] 1] by simp
  show ?case
  proof (cases r1)
    case (Inl e)
    with Cons.prems x 1 o show ?thesis by auto
  next
    case (Inr y)
    obtain r2 ws w2 where 2: "write_nodes ctx edits w1 = (r2, ws, w2)" by (metis prod_cases3)
    with Cons.prems x 1 Inr have r: "r = r2" "written = (n, s) # ws" "w' = w2" by simp_all
    have "disk n (remote w1) = stored c"
      by (rule node.put_ok [where n = n]) (use k 1 Inr in \<open>auto simp: keeps_nodes_def\<close>)
    with Cons.IH [OF 2] o x r show ?thesis by (cases "m = n") (auto simp: image_iff)
  qed
qed

lemma restore_all_raises: "plain_transport (ctx_api ctx) \<Longrightarrow> raises_only client_error (restore_all ctx written)"
proof (induction written)
  case (Cons x written)
  then show ?case by (cases x) (auto intro: raises_bind node.put_raises)
qed (auto intro: raises_return)

lemma nodes_persisted_cases:
  assumes k: "keeps_nodes (ctx_api ctx) stored disk" and t: "plain_transport (ctx_api ctx)"
    and "nodes_persisted ctx p written todo w = (r, w')"
  shows "(r = Inr () \<longrightarrow> (\<forall>m. disk m (remote w') = disk m (remote w))
        \<and> (\<forall>(n, s) \<in> set todo. change_persisted (disk n (remote w)) p (new_block_of p)))
    \<and> (\<forall>m. r = Inl (Wolf ConfigValidationError m) \<longrightarrow> (\<exists>w1. restore_all ctx written w1 = (Inr (), w')
         \<and> (\<forall>m. disk m (remote w1) = disk m (remote w))))"
  using assms(3)
proof (induction todo arbitrary: w)
  case Nil
  then show ?case by simp
next
  case (Cons x todo)
  obtain n s where x: "x = (n, s)" by (cases x)
  obtain r1 w1 where 1: "read_node_config ctx n w = (r1, w1)" by fastforce
  have u: "disk m (remote w1) = disk m (remote w)" for m by (rule untouchedD [OF node_read_untouched [OF k] 1])
  show ?case
  proof (cases r1)
    case (Inl e)
    with Cons.prems x 1 have "r = Inl e" by (simp add: io_bind_def)
    moreover have "client_error e" using raises_onlyD [OF node.fetch_raises [OF t] 1 [unfolded Inl]] .
    ultimately show ?thesis by auto
  next
    case (Inr raw)
    have raw: "raw = disk n (remote w)" using node.fetch_shows [OF keeps_nodesD [OF k]] 1 Inr by blast
    show ?thesis
    proof (cases "change_persisted raw p (new_block_of p)")
      case True
      with Cons.prems x 1 Inr have "nodes_persisted ctx p written todo w1 = (r, w')" by (simp add: io_bind_def)
      from Cons.IH [OF this] u x raw True show ?thesis by auto
    next
      case False
      obtain r2 w2 where 2: "restore_all ctx written w1 = (r2, w2)" by fastforce
      with Cons.prems x 1 Inr False have "w' = w2" "r = (case r2 of Inl e \<Rightarrow> Inl e | Inr _ \<Rightarrow> Inl (Wolf ConfigValidationError
         (''Change to '' @ described p @ '' did not persist on node '' @ repr_str n @ ''; restored the prior file on all ''
         @ show_nat (length written) @ '' node(s). No change applied.'')))"
        by (auto simp: io_bind_def split: sum.splits)
      with 2 u not_raised(1) [OF restore_all_raises [OF t]] show ?thesis by (cases r2) auto
    qed
  qed
qed

lemma cluster_check_cases:
  assumes k: "keeps_nodes (ctx_api ctx) stored disk" and t: "plain_transport (ctx_api ctx)"
    and "cluster_check ctx p written w = (r, w')"
  shows "(\<forall>d. r = Inr d \<longrightarrow> (\<forall>m. disk m (remote w') = disk m (remote w))
        \<and> (\<forall>(n, s) \<in> set written. change_persisted (disk n (remote w)) p (new_block_of p)))
    \<and> (\<forall>m. r = Inl (Wolf ConfigValidationError m) \<longrightarrow> (\<exists>w1. restore_all ctx written w1 = (Inr (), w')
         \<and> (\<forall>m. disk m (remote w1) = disk m (remote w))))"
proof -
  obtain r1 w1 where 1: "api_get (ctx_api ctx) ''/cluster/configuration/validation'' [] w = (r1, w1)" by fastforce
  have u: "disk m (remote w1) = disk m (remote w)" for m by (rule untouchedD [OF node_get_untouched [OF k] 1])
  have e1: "client_error e" if "r1 = Inl e" for e using raises_onlyD [OF reads_raise(1) [OF t]] 1 that by blast
  obtain r2 w2 where 2: "restore_all ctx written w1 = (r2, w2)" by fastforce
  have e2: "client_error e" if "r2 = Inl e" for e using raises_onlyD [OF restore_all_raises [OF t]] 2 that by blast
  obtain r3 w3 where 3: "nodes_persisted ctx p written written w1 = (r3, w3)" by fastforce
  consider e where "r = Inl e" "client_error e"
    | m where "r = Inl (Wolf ConfigValidationError m)" "r2 = Inr ()" "w' = w2"
    | d where "w' = w3" "r = (case r3 of Inl e \<Rightarrow> Inl e | Inr _ \<Rightarrow> Inr d)"
    using assms(3) 1 2 3 e1 e2
    by (cases r1) (auto simp: cluster_check_def io_bind_def io_return_def dest: validation_ok_raises split: sum.splits if_splits prod.splits)
  then show ?thesis
  proof cases
    case 1
    then show ?thesis by auto
  next
    case 2
    with \<open>restore_all ctx written w1 = (r2, w2)\<close> u show ?thesis by auto
  next
    case 3
    with nodes_persisted_cases [OF k t \<open>nodes_persisted ctx p written written w1 = (r3, w3)\<close>] u show ?thesis
      by (cases r3) auto
  qed
qed

lemma cluster_apply_cases:
  assumes k: "keeps_nodes (ctx_api ctx) stored disk" and t: "plain_transport (ctx_api ctx)" and d: "distinct (map fst edits)"
    and e: "\<forall>(n, s, c) \<in> set edits. s = disk n (remote w)" and "cluster_apply ctx p edits w = (r, w')"
  shows "(\<forall>dt. r = Inr dt \<longrightarrow> (\<forall>(n, s, c) \<in> set edits. disk n (remote w') = stored c \<and> change_persisted (stored c) p (new_block_of p)))
    \<and> (\<forall>x m. r = Inl (Wolf ConfigValidationError x) \<longrightarrow> disk m (remote w') \<in> {disk m (remote w), stored (disk m (remote w))})"
proof -
  obtain r1 written w1 where 1: "write_nodes ctx edits w = (r1, written, w1)" by (metis prod_cases3)
  have wn: "client_error e" if "r1 = Inl e" for e
    using 1 that node.put_raises [OF t]
  proof (induction edits arbitrary: w r1 written w1)
    case (Cons x edits)
    obtain n s c where "x = (n, s, c)" by (cases x)
    with Cons show ?case by (auto split: prod.splits sum.splits dest: raises_onlyD)
  qed simp
  obtain r2 w2 where 2: "cluster_check ctx p written w1 = (r2, w2)" by fastforce
  have handler: "r \<noteq> Inl (Wolf ConfigValidationError x)" "r \<noteq> Inr dt"
    if "io_bind (restore_all ctx written) (\<lambda>_. io_return (Inl e)) wx = (r, w')" "\<not> is_config_validation_error e" for x dt e wx
    using that not_raised(1) [OF restore_all_raises [OF t]] by (auto simp: io_bind_def io_return_def split: prod.splits sum.splits)
  show ?thesis
  proof (cases r1)
    case (Inl e')
    have "\<not> is_config_validation_error e'" using wn [OF Inl] by (cases e') auto
    with assms(5) 1 Inl handler show ?thesis by (auto simp: cluster_apply_def)
  next
    case (Inr u)
    with write_nodes_disk [OF k 1] have w: "written = map (\<lambda>(n, s, c). (n, s)) edits" by simp
    have dw: "\<forall>m. (m \<notin> fst ` set edits \<longrightarrow> disk m (remote w1) = disk m (remote w))
        \<and> (\<forall>s c. (m, s, c) \<in> set edits \<longrightarrow> disk m (remote w1) = stored c)"
      using write_nodes_disk [OF k 1] Inr d by simp
    have dist: "distinct (map fst written)" using d w by (simp add: comp_def split_beta)
    note cc = cluster_check_cases [OF k t 2]
    show ?thesis
    proof (cases r2)
      case (Inr dt)
      with assms(5) 1 2 \<open>r1 = Inr u\<close> have "r = Inr dt" "w' = w2" by (simp_all add: cluster_apply_def)
      moreover have "disk n (remote w2) = stored c \<and> change_persisted (stored c) p (new_block_of p)" if "(n, s, c) \<in> set edits" for n s c
        using cc Inr dw that w by force
      ultimately show ?thesis by auto
    next
      case e2: (Inl e2)
      show ?thesis
      proof (cases "is_config_validation_error e2")
        case False
        with assms(5) 1 2 Inr e2 handler show ?thesis by (auto simp: cluster_apply_def)
      next
        case True
        then obtain x where x: "e2 = Wolf ConfigValidationError x" by (cases e2) auto
        with assms(5) 1 2 Inr e2 have rw: "r = Inl e2" "w' = w2" by (simp_all add: cluster_apply_def)
        from cc e2 x obtain w3 where w3: "restore_all ctx written w3 = (Inr (), w2)" "\<And>m. disk m (remote w3) = disk m (remote w1)" by blast
        have "disk m (remote w2) \<in> {disk m (remote w), stored (disk m (remote w))}" for m
        proof (cases "m \<in> fst ` set edits")
          case True
          then obtain s c where "(m, s, c) \<in> set edits" by auto
          moreover from this have "(m, s) \<in> set written" using w by force
          ultimately show ?thesis using restore_all_disk [OF k w3(1), of m] dist e by fastforce
        next
          case False
          then have "m \<notin> fst ` set written" using w by force
          with restore_all_disk [OF k w3(1), of m] w3(2) dw False show ?thesis by simp
        qed
        with rw x show ?thesis by simp
      qed
    qed
  qed
qed

text \<open>C13: The cluster edit is all or nothing, against any manager that keeps every node's file.  If it returns, every
  in-scope node has its own candidate on disk with the change in it.  If it raises the validation error,
  because a node's file no longer takes the change, the cluster rejects the configuration or the change did
  not persist somewhere, every node is as before, up to the manager's own formatting.\<close>

theorem cluster_edit_all_or_nothing:
  assumes "keeps_nodes (ctx_api ctx) stored disk" "plain_transport (ctx_api ctx)"
    and "is_cluster p" "distinct (map fst (node_targets p))" and "cc_perform ctx db p w = (r, prior, w')"
  shows "(\<forall>res. r = Inr res \<longrightarrow> (\<forall>n \<in> fst ` set (node_targets p). \<exists>c. candidate_of p (disk n (remote w)) = Some c
        \<and> disk n (remote w') = stored c \<and> change_persisted (stored c) p (new_block_of p)))
    \<and> (\<forall>m n. r = Inl (Wolf ConfigValidationError m) \<longrightarrow> disk n (remote w') \<in> {disk n (remote w), stored (disk n (remote w))})"
proof -
  note k = assms(1) and t = assms(2)
  obtain r1 w1 where 1: "node_edits ctx p (map fst (node_targets p)) w = (r1, w1)" by fastforce
  note ne = node_edits_ok [OF k 1]
  show ?thesis
  proof (cases r1)
    case (Inl e)
    with assms(3,5) 1 ne show ?thesis by (auto simp: cc_perform_def cluster_perform_def)
  next
    case (Inr edits)
    obtain r2 w2 where 2: "cluster_apply ctx p edits w1 = (r2, w2)" by fastforce
    have "map fst edits = map fst (node_targets p)" using ne Inr by simp
    with assms(4) have d: "distinct (map fst edits)" by simp
    have names: "fst ` set edits = fst ` set (node_targets p)" using \<open>map fst edits = _\<close> by (metis set_map)
    have es: "\<forall>(n, s, c) \<in> set edits. s = disk n (remote w1)" using ne Inr by auto
    note ca = cluster_apply_cases [OF k t d es 2]
    obtain r3 w3 where 3: "restart_cluster (ctx_api ctx) (ctx_capabilities ctx) w2 = (r3, w3)" by fastforce
    have u3: "disk m (remote w3) = disk m (remote w2)" for m by (rule untouchedD [OF restart_untouched [OF keeps_nodesD [OF k, of m]] 3])
    show ?thesis
    proof (cases r2)
      case e2: (Inl e2)
      with assms(3,5) 1 Inr 2 have "r = Inl e2" "w' = w2" by (auto simp: cc_perform_def cluster_perform_def io_bind_def)
      with ca e2 ne show ?thesis by simp
    next
      case r2: (Inr dt)
      with assms(3,5) 1 Inr 2 3 have r: "w' = w3" "isl r \<longleftrightarrow> isl r3" "\<And>e. r = Inl e \<Longrightarrow> r3 = Inl e"
        by (auto simp: cc_perform_def cluster_perform_def io_bind_def io_return_def split: sum.splits)
      have "r \<noteq> Inl (Wolf ConfigValidationError m)" for m
        using r(3) 3 not_raised(1) [OF restart_raises [OF t]] by blast
      moreover have "\<exists>c. candidate_of p (disk n (remote w)) = Some c \<and> disk n (remote w') = stored c \<and> change_persisted (stored c) p (new_block_of p)"
        if "n \<in> fst ` set (node_targets p)" for n
      proof -
        from that names obtain s c where "(n, s, c) \<in> set edits" by force
        then show ?thesis using ca r2 ne Inr r(1) u3 by fastforce
      qed
      ultimately show ?thesis by blast
    qed
  qed
qed

section \<open>A small manager\<close>

text \<open>A manager that stores what it is sent, answers every read with the same well-formed JSON body and
  answers a restart with the given status.\<close>

definition sample_json :: pyval where
  "sample_json = PDict [(''data'', PDict [(''token'', PStr ''t''), (''enabled'', PStr ''yes''), (''running'', PStr ''yes''),
     (''total_affected_items'', PInt 1), (''affected_items'', PList [PDict [(''status'', PStr ''OK''), (''name'', PStr ''node01''),
       (''type'', PStr ''master''), (''filename'', PStr ''local_rules.xml''), (''level'', PInt 5)]])])]"

definition sample_manager :: "nat \<Rightarrow> (string \<Rightarrow> string) endpoint" where
  "sample_manager status = \<lparr>ep_send = (\<lambda>rq files.
     (case rq_body rq of
        RawBody c \<Rightarrow> (Inr \<lparr>rs_status = 200, rs_text = files (rq_path rq), rs_json = Some sample_json\<rparr>,
          if rq_method rq = ''PUT'' then files(rq_path rq := c) else files)
      | _ \<Rightarrow> (Inr \<lparr>rs_status = (if rq_path rq = ''/cluster/restart'' then status else 200), rs_text = files (rq_path rq),
           rs_json = Some sample_json\<rparr>, files))),
     ep_username = ''wolf'', ep_password = ''secret''\<rparr>"

definition sample_ctx :: "nat \<Rightarrow> (string \<Rightarrow> string) exec_context" where
  "sample_ctx status = \<lparr>ctx_api = sample_manager status, ctx_capabilities =
     map (\<lambda>a. (a, [(''*:*:*'', ''allow'')])) [ACTION_UPDATE_RULES, ACTION_CLUSTER_RESTART, ACTION_UPDATE_MANAGER_CONFIG,
       ACTION_UPDATE_CLUSTER_CONFIG]\<rparr>"

definition sample_conf :: string where
  "sample_conf = ''<ossec_config><sca>a</sca></ossec_config>''"

definition sample_world :: "(string \<Rightarrow> string) wazuh" where
  "sample_world = \<lparr>read_token = Some ''t'', action_token = Some ''t'', remote = (\<lambda>_. sample_conf)\<rparr>"

lemma sample_keeps: "keeps_file (sample_manager n) path (\<lambda>c. c) (\<lambda>files. files path)"
  by (auto simp: keeps_file_def sample_manager_def split: http_body.splits)

lemma sample_plain: "plain_transport (sample_manager n)"
  by (auto simp: plain_transport_def sample_manager_def split: http_body.splits)

lemma sample_requests:
  "read_token w = Some t \<Longrightarrow> path \<noteq> ''/cluster/restart'' \<Longrightarrow> api_get (sample_manager n) path ps w = (Inr sample_json, w)"
  "read_token w = Some t \<Longrightarrow> path \<noteq> ''/cluster/restart'' \<Longrightarrow> get_raw (sample_manager n) path ps w = (Inr (remote w path), w)"
  "action_token w = Some t \<Longrightarrow> write_request (sample_manager n) ''PUT'' path ps (RawBody c) w
     = (Inr sample_json, w\<lparr>remote := (remote w)(path := c)\<rparr>)"
  "action_token w = Some t \<Longrightarrow> n \<noteq> 401 \<Longrightarrow> write_request (sample_manager n) ''PUT'' ''/cluster/restart'' ps NoBody w
     = (if n < 400 then Inr sample_json else Inl (api_error (''Server API write returned '' @ show_nat n @ '': '' @ take 200 (remote w ''/cluster/restart''))), w)"
  by (simp_all add: api_get_def request_def get_raw_def read_request_def write_request_def authed_request_def sample_manager_def decode_json_def)

definition sample_change :: action_proposal where
  "sample_change = sample_proposal\<lparr>ap_action_class := ''config_change'', ap_action := ''update_section'',
     ap_target := [(''section'', PStr ''sca'')], ap_parameters := [(''section_content'', PStr ''<sca>b</sca>'')]\<rparr>"

lemma sample_ctx_simps [simp]:
  "ctx_api (sample_ctx n) = sample_manager n"
  "can (ctx_capabilities (sample_ctx n)) ACTION_UPDATE_MANAGER_CONFIG RESOURCE_ANY"
  "can (ctx_capabilities (sample_ctx n)) ACTION_CLUSTER_RESTART RESOURCE_NODE_ANY"
  "can (ctx_capabilities (sample_ctx n)) ACTION_UPDATE_CLUSTER_CONFIG (''node:id:node01'')"
  "can (ctx_capabilities (sample_ctx n)) ACTION_UPDATE_RULES (''rule:file:local_rules.xml'')"
  by (simp add: sample_ctx_def) (code_simp, code_simp, code_simp, code_simp)

lemma sample_validation: "validation_ok sample_json = Inr (True, ''ruleset valid on all nodes'')"
  by (simp add: validation_ok_def sample_json_def dget_or_def)

lemma sample_texts:
  "\<not> is_cluster sample_change" "candidate_of sample_change sample_conf = Some ''<ossec_config><sca>b</sca></ossec_config>''"
  "change_persisted ''<ossec_config><sca>b</sca></ossec_config>'' sample_change (new_block_of sample_change)"
proof -
  show "\<not> is_cluster sample_change" by (simp add: is_cluster_def sample_change_def)
  have "candidate_of sample_change sample_conf = build_candidate sample_conf ''update_section'' ''sca'' [] (py_strip ''<sca>b</sca>'')"
    by (simp add: candidate_of_def new_block_of_def sample_change_def text_of_def dget_or_def)
  also have "\<dots> = Some ''<ossec_config><sca>b</sca></ossec_config>''" by code_simp
  finally show "candidate_of sample_change sample_conf = Some ''<ossec_config><sca>b</sca></ossec_config>''" .
  have "change_persisted ''<ossec_config><sca>b</sca></ossec_config>'' sample_change (new_block_of sample_change) =
      section_persisted ''<ossec_config><sca>b</sca></ossec_config>'' ''sca'' (py_strip ''<sca>b</sca>'')"
    by (simp add: change_persisted_def new_block_of_def sample_change_def text_of_def dget_or_def OP_UPDATE_SECTION_def)
  also have "\<dots>" by code_simp
  finally show "change_persisted ''<ossec_config><sca>b</sca></ossec_config>'' sample_change (new_block_of sample_change)" .
qed

lemmas sample_run = io_bind_def io_return_def sample_requests sample_validation sample_texts

lemma sample_edit:
  assumes "n \<noteq> 401"
  shows "\<exists>r prior w'. cc_perform (sample_ctx n) () sample_change sample_world = (r, prior, w') \<and> (n < 400 \<longrightarrow> \<not> isl r)
     \<and> (n \<ge> 400 \<longrightarrow> isl r) \<and> remote w' ''/manager/configuration'' = ''<ossec_config><sca>b</sca></ossec_config>''"
  using assms
  by (simp add: cc_perform_def read_config_def cc_apply_def config_write_and_validate_def write_validated_def put_config_eq
      restart_cluster_def api_write_def sample_run sample_world_def)

theorem config_change_edit_or_rollback_witness:
  "\<exists>res w'. cc_perform (sample_ctx 200) () sample_change sample_world = (Inr res, Some (config_prior_state sample_conf), w')
     \<and> remote w' ''/manager/configuration'' = ''<ossec_config><sca>b</sca></ossec_config>''"
proof -
  obtain res prior w' where r: "cc_perform (sample_ctx 200) () sample_change sample_world = (Inr res, prior, w')"
    using sample_edit [of 200] by (auto simp: isl_def) (metis isl_def sum.collapse(2))
  have "keeps_file (ctx_api (sample_ctx 200)) ''/manager/configuration'' (\<lambda>c. c) (\<lambda>files. files ''/manager/configuration'')"
    "plain_transport (ctx_api (sample_ctx 200))" by (simp_all add: sample_keeps sample_plain)
  from config_change_edit_or_rollback [OF this sample_texts(1) r] r show ?thesis
    by (simp add: sample_world_def sample_texts(2))
qed

text \<open>A failure after the write is not rolled back: with a manager that stores the edit and validates it but
  refuses the restart, the edit raises, so the proposal is recorded as failed, while the edited file stays on
  disk.\<close>

theorem failed_restart_keeps_the_edit:
  "\<exists>e prior w'. cc_perform (sample_ctx 500) () sample_change sample_world = (Inl e, prior, w')
     \<and> remote sample_world ''/manager/configuration'' = sample_conf
     \<and> remote w' ''/manager/configuration'' = ''<ossec_config><sca>b</sca></ossec_config>''"
  using sample_edit [of 500] by (auto simp: isl_def sample_world_def)

definition sample_tuning :: action_proposal where
  "sample_tuning = sample_proposal\<lparr>ap_action_class := ''rule_tuning'', ap_action := ''disable_rule'',
     ap_target := [(''rule_id'', PStr ''5'')], ap_parameters := []\<rparr>"

definition sample_tuned :: string where
  "sample_tuned = apply_override sample_conf ''5'' (minimal_override_block ''5'' (PInt 0) ''Tuned by Wolf (level 0)'')"

lemma sample_tuning_texts:
  "text_of (ap_target sample_tuning) ''rule_id'' = ''5''" "rt_level sample_tuning = PInt 0"
  "tuned_content sample_conf sample_conf ''5'' (PInt 0) = sample_tuned" "has_override sample_tuned ''5''"
  "\<not> has_override sample_conf ''5''"
proof -
  show "text_of (ap_target sample_tuning) ''rule_id'' = ''5''" by (simp add: sample_tuning_def text_of_def dget_or_def)
  show "rt_level sample_tuning = PInt 0" by (simp add: sample_tuning_def rt_level_def OP_DISABLE_RULE_def DISABLE_LEVEL_def)
  have "extract_rule_block sample_conf ''5'' = None" by code_simp
  moreover have "''Tuned by Wolf (level '' @ py_str (PInt 0) @ '')'' = ''Tuned by Wolf (level 0)''" by code_simp
  ultimately show "tuned_content sample_conf sample_conf ''5'' (PInt 0) = sample_tuned"
    by (simp only: tuned_content_def sample_tuned_def option.case)
  show "has_override sample_tuned ''5''" by code_simp
  show "\<not> has_override sample_conf ''5''" by code_simp
qed

lemma sample_entries: "read_token w = Some t \<Longrightarrow> \<exists>e. rule_entries (sample_ctx n) i w = (Inr [e], w)
    \<and> dget e ''filename'' = PStr ''local_rules.xml'' \<and> dget e ''relative_dirname'' = PNone"
  by (simp add: rule_entries_def io_bind_def io_return_def sample_requests sample_json_def rbind_def pget_def dget_or_def)

lemma sample_tuning_run:
  "\<exists>res prior w'. rt_perform (sample_ctx 200) () sample_tuning sample_world = (Inr res, prior, w')"
proof -
  obtain e where e: "\<And>w. read_token w = Some ''t'' \<Longrightarrow> rule_entries (sample_ctx 200) ''5'' w = (Inr [e], w)"
      "dget e ''filename'' = PStr ''local_rules.xml''" "dget e ''relative_dirname'' = PNone"
    using sample_entries [where n = 200 and i = "''5''"] by (simp add: rule_entries_def io_bind_def io_return_def sample_requests sample_json_def rbind_def pget_def dget_or_def)
  show ?thesis
    by (simp add: rt_perform_def resolve_rule_def pick_rule_def read_local_rules_def read_rules_file_def rt_apply_def e
        rules_write_and_validate_def write_validated_def put_local_rules_eq restart_cluster_def api_write_def sample_run
        sample_world_def LOCAL_RULES_FILENAME_def LOCAL_RULES_DIRNAME_def py_or_def sample_tuning_texts Let_def)
qed

theorem rule_tuning_edit_or_rollback_witness:
  "\<exists>res w' source. rt_perform (sample_ctx 200) () sample_tuning sample_world = (Inr res, Some (rules_prior_state sample_conf), w')
     \<and> remote w' ''/rules/files/local_rules.xml'' = tuned_content sample_conf source ''5'' (PInt 0)
     \<and> has_override (remote w' ''/rules/files/local_rules.xml'') ''5''"
proof -
  obtain res prior w' where r: "rt_perform (sample_ctx 200) () sample_tuning sample_world = (Inr res, prior, w')"
    using sample_tuning_run by blast
  have "keeps_file (ctx_api (sample_ctx 200)) ''/rules/files/local_rules.xml'' (\<lambda>c. c) (\<lambda>files. files ''/rules/files/local_rules.xml'')"
    "plain_transport (ctx_api (sample_ctx 200))" by (simp_all add: sample_keeps sample_plain)
  from rule_tuning_edit_or_rollback [OF this r] r show ?thesis by (simp add: sample_world_def sample_tuning_texts)
qed

section \<open>Undoing the samples\<close>

text \<open>The executed edits as rows 7 and 8 of the ledger, and the worlds they left.\<close>

definition undo_db :: database where
  "undo_db = empty_db\<lparr>proposals := [sample_change\<lparr>ap_id := 7, ap_prior_state := Some (config_prior_state sample_conf)\<rparr>,
     sample_tuning\<lparr>ap_id := 8, ap_prior_state := Some (rules_prior_state sample_conf)\<rparr>]\<rparr>"

definition undo_of :: "uuid \<Rightarrow> action_proposal" where
  "undo_of i = sample_proposal\<lparr>ap_reverses_proposal_id := Some i\<rparr>"

definition edited_world :: "(string \<Rightarrow> string) wazuh" where
  "edited_world = sample_world\<lparr>remote := (\<lambda>_. ''edited'')\<rparr>"

lemma undo_rows:
  "original_of undo_db (undo_of 7) = Some (sample_change\<lparr>ap_id := 7, ap_prior_state := Some (config_prior_state sample_conf)\<rparr>)"
  "original_of undo_db (undo_of 8) = Some (sample_tuning\<lparr>ap_id := 8, ap_prior_state := Some (rules_prior_state sample_conf)\<rparr>)"
  by (simp_all add: original_of_def undo_of_def undo_db_def get_row_def)

lemma undo_run:
  "\<exists>res prior w'. cc_reverse_perform (sample_ctx 200) undo_db (undo_of 7) edited_world = (Inr res, prior, w')"
  "\<exists>res prior w'. rt_reverse_perform (sample_ctx 200) undo_db (undo_of 8) edited_world = (Inr res, prior, w')"
  by (simp_all add: cc_reverse_perform_def cc_restore_def undo_rows prior_of_def config_prior_state_def text_of_def dget_or_def
      config_write_and_validate_def write_validated_def put_config_eq read_config_def rt_reverse_perform_def rules_prior_state_def
      rules_write_and_validate_def put_local_rules_eq read_local_rules_def read_rules_file_def restart_cluster_def api_write_def
      LOCAL_RULES_FILENAME_def sample_tuning_def sample_run edited_world_def sample_world_def Let_def)

theorem config_undo_restores_snapshot_witness:
  "\<exists>res prior w'. cc_reverse_perform (sample_ctx 200) undo_db (undo_of 7) edited_world = (Inr res, prior, w')
     \<and> remote edited_world ''/manager/configuration'' = ''edited'' \<and> remote w' ''/manager/configuration'' = sample_conf"
proof -
  obtain res prior w' where r: "cc_reverse_perform (sample_ctx 200) undo_db (undo_of 7) edited_world = (Inr res, prior, w')"
    using undo_run(1) by blast
  have "keeps_file (ctx_api (sample_ctx 200)) ''/manager/configuration'' (\<lambda>c. c) (\<lambda>files. files ''/manager/configuration'')"
    by (simp add: sample_keeps)
  from config_undo_restores_snapshot [OF this undo_rows(1) _ r, of sample_world] r show ?thesis
    by (simp add: sample_world_def edited_world_def)
qed

theorem rules_undo_restores_snapshot_witness:
  "\<exists>res prior w'. rt_reverse_perform (sample_ctx 200) undo_db (undo_of 8) edited_world = (Inr res, prior, w')
     \<and> remote edited_world ''/rules/files/local_rules.xml'' = ''edited'' \<and> remote w' ''/rules/files/local_rules.xml'' = sample_conf"
proof -
  obtain res prior w' where r: "rt_reverse_perform (sample_ctx 200) undo_db (undo_of 8) edited_world = (Inr res, prior, w')"
    using undo_run(2) by blast
  have "keeps_file (ctx_api (sample_ctx 200)) ''/rules/files/local_rules.xml'' (\<lambda>c. c) (\<lambda>files. files ''/rules/files/local_rules.xml'')"
    by (simp add: sample_keeps)
  from rules_undo_restores_snapshot [OF this undo_rows(2) _ _ r, of sample_world] r show ?thesis
    by (simp add: sample_world_def edited_world_def sample_tuning_texts)
qed

section \<open>A cluster edit and an executed reversal\<close>

definition sample_cluster_change :: action_proposal where
  "sample_cluster_change = sample_change\<lparr>ap_parameters := [(''section_content'', PStr ''<sca>b</sca>''), (''deployment'', PStr ''cluster''),
     (''node_current_contents'', PDict [(''node01'', PStr ''<sca>a</sca>'')])]\<rparr>"

lemma sample_cluster_texts:
  "is_cluster sample_cluster_change" "map fst (node_targets sample_cluster_change) = [''node01'']"
  "candidate_of sample_cluster_change sample_conf = Some ''<ossec_config><sca>b</sca></ossec_config>''"
  "change_persisted ''<ossec_config><sca>b</sca></ossec_config>'' sample_cluster_change (new_block_of sample_cluster_change)"
  "node_configuration_path ''node01'' = Inr ''/cluster/node01/configuration''"
proof -
  have n: "new_block_of sample_cluster_change = new_block_of sample_change"
    by (simp add: new_block_of_def sample_cluster_change_def sample_change_def text_of_def dget_or_def)
  show "is_cluster sample_cluster_change" "map fst (node_targets sample_cluster_change) = [''node01'']"
    by (simp_all add: is_cluster_def node_targets_def sample_cluster_change_def)
  show "candidate_of sample_cluster_change sample_conf = Some ''<ossec_config><sca>b</sca></ossec_config>''"
    using sample_texts(2) n by (simp add: candidate_of_def sample_cluster_change_def)
  show "change_persisted ''<ossec_config><sca>b</sca></ossec_config>'' sample_cluster_change (new_block_of sample_cluster_change)"
    using sample_texts(3) n by (simp add: change_persisted_def sample_cluster_change_def Let_def)
  show "node_configuration_path ''node01'' = Inr ''/cluster/node01/configuration''" by code_simp
qed

lemma sample_cluster_run:
  "\<exists>res prior w'. cc_perform (sample_ctx 200) () sample_cluster_change sample_world = (Inr res, prior, w')"
  by (simp add: cc_perform_def cluster_perform_def read_node_config_def cluster_apply_def cluster_check_def put_node_config_eq
      restart_cluster_def api_write_def sample_run sample_cluster_texts sample_world_def Let_def)

theorem cluster_edit_all_or_nothing_witness:
  "\<exists>res prior w'. cc_perform (sample_ctx 200) () sample_cluster_change sample_world = (Inr res, prior, w')
     \<and> remote w' ''/cluster/node01/configuration'' = ''<ossec_config><sca>b</sca></ossec_config>''"
proof -
  obtain res prior w' where r: "cc_perform (sample_ctx 200) () sample_cluster_change sample_world = (Inr res, prior, w')"
    using sample_cluster_run by blast
  have k: "keeps_nodes (ctx_api (sample_ctx 200)) (\<lambda>c. c) (\<lambda>n files. files (node_path n))"
    "plain_transport (ctx_api (sample_ctx 200))" unfolding keeps_nodes_def by (simp_all add: sample_keeps sample_plain)
  have d: "distinct (map fst (node_targets sample_cluster_change))" by (simp add: sample_cluster_texts)
  have "fst ` set (node_targets sample_cluster_change) = {''node01''}"
    using sample_cluster_texts(2) by (metis empty_set list.simps(15) set_map)
  with cluster_edit_all_or_nothing [OF k sample_cluster_texts(1) d r] r show ?thesis
    by (simp add: sample_world_def sample_cluster_texts(3))
qed

definition undo_row :: action_proposal where
  "undo_row = (undo_of 7)\<lparr>ap_id := 9, ap_action_class := ''config_change'', ap_state := Approved\<rparr>"

definition undo_proposal :: action_proposal where
  "undo_proposal = undo_row\<lparr>ap_content_hash := recompute_content_hash undo_row\<rparr>"

definition original_row :: action_proposal where
  "original_row = sample_change\<lparr>ap_id := 7, ap_prior_state := Some (config_prior_state sample_conf), ap_state := Succeeded\<rparr>"

definition undo_ledger :: database where
  "undo_ledger = empty_db\<lparr>proposals := [original_row, undo_proposal]\<rparr>"

lemma undo_ledger_rows:
  "recompute_content_hash undo_proposal = ap_content_hash undo_proposal" "ap_state undo_proposal = Approved"
  "ap_reverses_proposal_id undo_proposal = Some 7" "ap_id undo_proposal = 9" "ap_id original_row = 7" "ap_state original_row = Succeeded"
  "get_row undo_ledger 7 = Some original_row" "ap_prior_state original_row = Some (config_prior_state sample_conf)"
  by (simp_all add: undo_proposal_def undo_row_def undo_of_def original_row_def recompute_content_hash_def undo_ledger_def get_row_def)

lemma undo_executes:
  "\<exists>p' db' w'. execute_proposal cc_reverse_freshness (cc_reverse_perform (sample_ctx 200)) cc_reverse_verify undo_ledger undo_proposal 3 None
     edited_world = (Inr p', db', w') \<and> ap_state p' = Succeeded"
proof -
  have o: "original_of undo_ledger undo_proposal = Some original_row"
    "original_of (executing_db undo_ledger undo_proposal 3 None) (undo_proposal\<lparr>ap_state := Executing\<rparr>) = Some original_row"
    by (simp_all add: original_of_def undo_ledger_rows row_simps rows.get_put)
  have f: "cc_reverse_freshness undo_ledger undo_proposal edited_world = (Inr (True, ''Prior ossec.conf snapshot present (original '' @ uuid_str 7 @ '').''), edited_world)"
    by (simp add: cc_reverse_freshness_def o io_return_def prior_of_def undo_ledger_rows config_prior_state_def sample_conf_def Let_def)
  obtain d where p: "cc_reverse_perform (sample_ctx 200) (executing_db undo_ledger undo_proposal 3 None) (undo_proposal\<lparr>ap_state := Executing\<rparr>) edited_world
      = (Inr (PDict d), ap_prior_state undo_proposal, edited_world\<lparr>remote := (\<lambda>_. ''edited'')(''/manager/configuration'' := sample_conf)\<rparr>)"
      "dget_or d ''config_restored'' (PBool False) = PBool True"
    by (auto simp: cc_reverse_perform_def cc_restore_def o prior_of_def undo_ledger_rows config_prior_state_def text_of_def dget_or_def
      config_write_and_validate_def write_validated_def put_config_eq read_config_def restart_cluster_def api_write_def
      sample_run edited_world_def sample_world_def Let_def)
  have "cleared cc_reverse_freshness undo_ledger undo_proposal edited_world" by (simp add: cleared_def f undo_ledger_rows)
  from execute_cleared [where perform = "cc_reverse_perform (sample_ctx 200)" and verify = cc_reverse_verify, OF this f p(1)]
  show ?thesis by (auto simp: cc_reverse_verify_def io_return_def p(2) Let_def)
qed


end
