(* ===== verification/Py_Uuid.thy ===== *)
theory Py_Uuid
  imports Proposals
begin

text \<open>
  \<open>uuid.UUID(text)\<close>: the braces, hyphens and URN prefixes the constructor drops, and \<open>int(hex, 16)\<close> with
  the white space, sign, prefix and underscores that function accepts.  \<open>None\<close> is \<open>ValueError\<close>.
\<close>

definition hex_char :: "char \<Rightarrow> bool" where
  "hex_char c \<longleftrightarrow> (let n = cp c in (48 \<le> n \<and> n \<le> 57) \<or> (65 \<le> n \<and> n \<le> 70) \<or> (97 \<le> n \<and> n \<le> 102))"

definition hex_digit :: "char \<Rightarrow> nat" where
  "hex_digit c = (let n = cp c in if n \<le> 57 then n - 48 else if n \<le> 70 then n - 55 else n - 87)"

definition hex_number :: "string \<Rightarrow> nat" where
  "hex_number = foldl (\<lambda>n c. n * 16 + hex_digit c) 0"

definition py_int16 :: "string \<Rightarrow> int option" where
  "py_int16 s =
    (let t = py_strip s;
         neg = startswith t ''-'';
         t = (if neg \<or> startswith t ''+'' then drop 1 t else t);
         prefixed = startswith t ''0x'' \<or> startswith t ''0X'';
         t = (if prefixed then drop 2 t else t);
         t = (if prefixed \<and> startswith t ''_'' then drop 1 t else t);
         groups = split_on (CHR ''_'') t
     in if list_all (\<lambda>g. g \<noteq> [] \<and> list_all hex_char g) groups
        then Some ((if neg then -1 else 1) * int (hex_number (concat groups))) else None)"

text \<open>\<open>s.replace(p, "")\<close> and \<open>s.strip(chars)\<close>.\<close>

fun remove_all :: "string \<Rightarrow> string \<Rightarrow> string" where
  "remove_all p [] = []"
| "remove_all p (c # s) =
    (if p \<noteq> [] \<and> startswith (c # s) p then remove_all p (drop (length p) (c # s)) else c # remove_all p s)"

definition strip_chars :: "char list \<Rightarrow> string \<Rightarrow> string" where
  "strip_chars cs s = rstrip_by (\<lambda>c. c \<in> set cs) (dropWhile (\<lambda>c. c \<in> set cs) s)"

definition py_uuid :: "string \<Rightarrow> uuid option" where
  "py_uuid s =
    (let hex = filter (\<lambda>c. c \<noteq> CHR ''-'') (strip_chars [CHR ''{'', CHR ''}''] (remove_all ''uuid:'' (remove_all ''urn:'' s)))
     in if length hex \<noteq> 32 then None
        else case py_int16 hex of None \<Rightarrow> None
          | Some n \<Rightarrow> if 0 \<le> n \<and> n < 2 ^ 128 then Some (word_of_int n) else None)"

section \<open>Round trip\<close>

lemma hex_digit_char: "k < 16 \<Longrightarrow> hex_char (digit_char k) \<and> hex_digit (digit_char k) = k"
  by (auto simp: hex_char_def hex_digit_def digit_char_def)

lemma hex_digits_hex: "list_all hex_char (hex_digits k n)"
  by (simp add: hex_digits_def list_all_iff hex_digit_char)

lemma hex_number_snoc: "hex_number (s @ [c]) = hex_number s * 16 + hex_digit c"
  by (simp add: hex_number_def)

lemma hex_digits_snoc: "hex_digits (Suc k) n = hex_digits k (n div 16) @ [digit_char (n mod 16)]"
proof -
  have "n div 16 ^ (Suc k - Suc i) = n div 16 div 16 ^ (k - Suc i)" if "i < k" for i
  proof -
    have "Suc k - Suc i = Suc (k - Suc i)" using that by simp
    then show ?thesis by (simp only: power_Suc div_mult2_eq)
  qed
  then show ?thesis by (simp add: hex_digits_def)
qed

lemma hex_number_digits: "hex_number (hex_digits k n) = n mod 16 ^ k"
proof (induction k arbitrary: n)
  case 0
  then show ?case by (simp add: hex_digits_def hex_number_def)
next
  case (Suc k)
  have "hex_digit (digit_char (n mod 16)) = n mod 16" by (simp add: hex_digit_char)
  then show ?case
    by (simp add: hex_digits_snoc hex_number_snoc Suc mod_mult2_eq [of n 16 "16 ^ k"] ac_simps)
qed

lemma remove_all_absent: "hd p \<notin> set s \<Longrightarrow> remove_all p s = s"
  by (induction s) (auto simp: startswith_def neq_Nil_conv)

lemma not_hex: "\<not> hex_char (CHR ''x'')" "\<not> hex_char (CHR ''X'')" "\<not> hex_char (CHR ''-'')" "\<not> hex_char (CHR ''+'')" "\<not> hex_char (CHR ''_'')"
    "\<not> hex_char (CHR ''u'')" "\<not> hex_char (CHR ''{'')" "\<not> hex_char (CHR ''}'')"
  by (simp_all add: hex_char_def cp_def)

lemma hex_not_space: "hex_char c \<Longrightarrow> \<not> is_space c"
  by (auto simp: hex_char_def is_space_def Let_def)

lemma strip_both_plain: "\<forall>c \<in> set s. \<not> P c \<Longrightarrow> rstrip_by P (dropWhile P s) = s"
proof -
  assume a: "\<forall>c \<in> set s. \<not> P c"
  have "dropWhile P t = t" if "set t \<subseteq> set s" for t using that a by (cases t) auto
  from this [of s] this [of "rev s"] show ?thesis by (simp add: rstrip_by_def)
qed

lemma py_strip_plain: "list_all (\<lambda>c. \<not> is_space c) s \<Longrightarrow> py_strip s = s"
  unfolding py_strip_def by (rule strip_both_plain) (simp add: list_all_iff)

lemma py_int16_hex:
  assumes "list_all hex_char s" "s \<noteq> []"
  shows "py_int16 s = Some (int (hex_number s))"
proof -
  have no: "\<not> startswith s ''-''" "\<not> startswith s ''+''" "\<not> startswith s ''0x''" "\<not> startswith s ''0X''"
    using assms not_hex by (cases s; cases "drop 1 s"; auto simp: startswith_def)+
  have "py_strip s = s" using assms hex_not_space by (intro py_strip_plain) (auto simp: list_all_iff)
  moreover have "split_on (CHR ''_'') s = [s]" using assms not_hex by (intro split_on_no_sep) (auto simp: list_all_iff)
  ultimately show ?thesis using assms no by (simp add: py_int16_def Let_def)
qed

lemma uuid_str_chars: "c \<in> set (uuid_str u) \<Longrightarrow> hex_char c \<or> c = CHR ''-''"
  using hex_digits_hex [of 32 "unat u"]
  by (auto simp: uuid_str_def Let_def list_all_iff dest!: in_set_takeD in_set_dropD)

lemma filter_uuid_str: "filter (\<lambda>c. c \<noteq> CHR ''-'') (uuid_str u) = hex_digits 32 (unat u)"
proof -
  let ?h = "hex_digits 32 (unat u)"
  have f: "filter (\<lambda>c. c \<noteq> CHR ''-'') s = s" if "set s \<subseteq> set ?h" for s
    using that hex_digits_hex [of 32 "unat u"] not_hex by (auto simp: filter_id_conv list_all_iff)
  have sub: "set (take k ?h) \<subseteq> set ?h" "set (drop k ?h) \<subseteq> set ?h" "set (take j (drop k ?h)) \<subseteq> set ?h" for k j
    by (auto dest: in_set_takeD in_set_dropD)
  have step: "drop i h = take k (drop i h) @ drop (i + k) h" for i k and h :: string
    by (metis append_take_drop_id drop_drop add.commute)
  have "?h = take 8 ?h @ take 4 (drop 8 ?h) @ take 4 (drop 12 ?h) @ take 4 (drop 16 ?h) @ drop 20 ?h"
    using step [of 8 ?h 4] step [of 12 ?h 4] step [of 16 ?h 4] append_take_drop_id [of 8 ?h] by simp
  then show ?thesis by (simp add: uuid_str_def Let_def f [OF sub(1)] f [OF sub(2)] f [OF sub(3)])
qed

lemma py_uuid_str [simp]: "py_uuid (uuid_str u) = Some u"
proof -
  have no: "c \<notin> set (uuid_str u)" if "\<not> hex_char c" "c \<noteq> CHR ''-''" for c using that uuid_str_chars by blast
  have r: "remove_all ''uuid:'' (remove_all ''urn:'' (uuid_str u)) = uuid_str u"
    using no not_hex by (simp add: remove_all_absent)
  have "strip_chars [CHR ''{'', CHR ''}''] (uuid_str u) = uuid_str u"
    unfolding strip_chars_def using no not_hex by (intro strip_both_plain) auto
  moreover have "hex_digits 32 (unat u) \<noteq> []" by (simp add: hex_digits_def)
  moreover have "unat u < 16 ^ 32"
  proof -
    have "unat u < 2 ^ LENGTH(128)" by (rule unsigned_less)
    then show ?thesis by simp
  qed
  moreover have "uint u < 2 ^ 128" using uint_lt2p [of u] by simp
  ultimately show ?thesis
    using r py_int16_hex [OF hex_digits_hex, of 32 "unat u"] by (simp add: py_uuid_def Let_def filter_uuid_str hex_number_digits)
qed

end
