(* ===== verification/Org_Context.thy ===== *)
theory Org_Context
  imports Py_Uuid Py_Time
begin

text \<open>
  The organization context of a request (\<open>organization/context.py\<close>) and the lazy expiry of time-limited
  Superuser memberships (\<open>organization/superuser_access.py\<close>).

  A request carries the session the middleware put on it, the \<open>X-Organization-Id\<close> header and the peer
  address.  Functions return the database beside their result; a request that raises without a commit
  is rolled back by its caller.
\<close>

section \<open>Requests and table access\<close>

record web_request =
  wr_session :: dict
  wr_org_header :: "string option"
  wr_source_ip :: "string option"

definition session_text :: "dict \<Rightarrow> string" where
  "session_text session = py_str (dget_or session ''session_id'' (PStr []))"

definition user_of :: "'z org_db_scheme \<Rightarrow> uuid \<Rightarrow> user option" where
  "user_of db i = find (\<lambda>u. u_id u = i) (users db)"

definition organization_of :: "'z org_db_scheme \<Rightarrow> uuid \<Rightarrow> organization option" where
  "organization_of db i = find (\<lambda>org. o_id org = i) (organizations db)"

definition put_binding :: "user_organization \<Rightarrow> 'z org_db_scheme \<Rightarrow> 'z org_db_scheme" where
  "put_binding b db = db\<lparr>user_organizations := replace_by uo_id b (user_organizations db)\<rparr>"

definition delete_binding :: "user_organization \<Rightarrow> 'z org_db_scheme \<Rightarrow> 'z org_db_scheme" where
  "delete_binding b db = db\<lparr>user_organizations := filter (\<lambda>m. uo_id m \<noteq> uo_id b) (user_organizations db)\<rparr>"

definition put_user :: "user \<Rightarrow> 'z org_db_scheme \<Rightarrow> 'z org_db_scheme" where
  "put_user u db = db\<lparr>users := replace_by u_id u (users db)\<rparr>"

definition put_request :: "superuser_access_request \<Rightarrow> 'z org_db_scheme \<Rightarrow> 'z org_db_scheme" where
  "put_request r db = db\<lparr>access_requests := replace_by sar_id r (access_requests db)\<rparr>"

text \<open>\<open>ORDER BY decided_at DESC\<close>, \<open>NULL\<close> first.\<close>

definition decision_key :: "superuser_access_request \<Rightarrow> bool \<times> int" where
  "decision_key r = (sar_decided_at r = None, case sar_decided_at r of None \<Rightarrow> 0 | Some t \<Rightarrow> instant t)"

definition latest_approved :: "'z org_db_scheme \<Rightarrow> uuid \<Rightarrow> uuid \<Rightarrow> superuser_access_request option" where
  "latest_approved db org su = find (\<lambda>_. True) (sort_desc decision_key
     (filter (\<lambda>r. sar_organization_id r = org \<and> sar_superuser_user_id r = su \<and> sar_status r = ''approved'') (access_requests db)))"

section \<open>Lazy expiry\<close>

definition EXPIRED_EVENT :: string where
  "EXPIRED_EVENT = ''organization.superuser_membership.expired''"

definition mark_request_ended :: "'z org_db_scheme \<Rightarrow> uuid \<Rightarrow> uuid \<Rightarrow> string \<Rightarrow> datetime \<Rightarrow> 'z org_db_scheme" where
  "mark_request_ended db organization_id superuser_user_id status ended_at =
    (case latest_approved db organization_id superuser_user_id of
       None \<Rightarrow> db
     | Some req \<Rightarrow> put_request (req\<lparr>sar_status := status, sar_ended_at := Some ended_at\<rparr>) db)"

definition expire_if_past :: "'z org_db_scheme \<Rightarrow> user_organization \<Rightarrow> bool \<times> 'z org_db_scheme" where
  "expire_if_past db binding =
    (case uo_expires_at binding of
       None \<Rightarrow> (False, db)
     | Some d \<Rightarrow>
        if uo_role binding \<noteq> ''superuser'' then (False, db)
        else let deadline = as_utc d; (now, db) = utcnow db in
          if instant deadline > instant now then (False, db)
          else let db = delete_binding binding db;
                   db = mark_request_ended db (uo_organization_id binding) (uo_user_id binding) ''expired'' deadline;
                   event_data = [(''superuser_user_id'', PStr (uuid_str (uo_user_id binding))), (''expired_at'', PStr (isoformat deadline))];
                   (org_event, db) = write_event db EXPIRED_EVENT (Some event_data) (Some (uo_organization_id binding))
                     (Some (uo_user_id binding)) None None None;
                   (_, db) = write_event db EXPIRED_EVENT
                     (Some (dset ''organization_id'' (PStr (uuid_str (uo_organization_id binding))) event_data)) None
                     (Some (uo_user_id binding)) None None (Some (ae_id org_event))
               in (True, db))"

definition active_superuser_binding :: "'z org_db_scheme \<Rightarrow> uuid \<Rightarrow> user_organization option \<times> 'z org_db_scheme" where
  "active_superuser_binding db organization_id =
    (case find (\<lambda>m. uo_organization_id m = organization_id \<and> uo_role m = ''superuser'') (user_organizations db) of
       None \<Rightarrow> (None, db)
     | Some binding \<Rightarrow> (let (expired, db) = expire_if_past db binding in (if expired then None else Some binding, db)))"

section \<open>The context dependency\<close>

definition VALID_ROLES :: "string list" where
  "VALID_ROLES = [''analyst'', ''responder'', ''engineer'', ''admin'', ''superuser'']"

definition ORG_HEADER :: string where "ORG_HEADER = ''X-Organization-Id''"

definition not_a_member :: exn where
  "not_a_member = HTTPException 403 ''You are not a member of this organization''"

text \<open>The constructor of the frozen context checks the role.\<close>

definition organization_context_init :: "organization_context \<Rightarrow> organization_context result" where
  "organization_context_init ctx = (if oc_role ctx \<notin> set VALID_ROLES
     then Inl (PyError ''ValueError'' (''Invalid role '' @ repr_str (oc_role ctx) @ ''; allowed: ''
       @ py_repr (PList (map PStr [''admin'', ''analyst'', ''engineer'', ''responder'', ''superuser'']))))
     else Inr ctx)"

definition binding_of :: "'z org_db_scheme \<Rightarrow> uuid \<Rightarrow> uuid \<Rightarrow> user_organization option result" where
  "binding_of db user_id organization_id =
    (case filter (\<lambda>m. uo_user_id m = user_id \<and> uo_organization_id m = organization_id) (user_organizations db) of
       [] \<Rightarrow> Inr None
     | [m] \<Rightarrow> Inr (Some m)
     | _ \<Rightarrow> Inl (PyError ''MultipleResultsFound'' ''Multiple rows were found when one or none was required''))"

text \<open>The identifiers of the request: the user from the session, the organization from the header only.\<close>

definition request_identity :: "web_request \<Rightarrow> (uuid \<times> uuid) result" where
  "request_identity rq =
    (let user_id_raw = dget (wr_session rq) ''user_id'' in
     if \<not> truthy user_id_raw then Inl (HTTPException 401 ''Authentication required'')
     else case wr_org_header rq of
       None \<Rightarrow> Inl (HTTPException 401 (''No organization context - send the '' @ ORG_HEADER @ '' header with an organization you belong to''))
     | Some header_raw \<Rightarrow> (case py_uuid (py_strip header_raw) of
         None \<Rightarrow> Inl (HTTPException 400 (''Invalid '' @ ORG_HEADER @ '' header: not a UUID''))
       | Some organization_id \<Rightarrow> (case py_uuid (py_str user_id_raw) of
           None \<Rightarrow> Inl (HTTPException 401 ''Invalid session'')
         | Some user_id \<Rightarrow> Inr (user_id, organization_id))))"

definition require_organization_context :: "web_request \<Rightarrow> 'z org_db_scheme \<Rightarrow> organization_context result \<times> 'z org_db_scheme" where
  "require_organization_context rq db =
    (case request_identity rq of Inl e \<Rightarrow> (Inl e, db)
     | Inr (user_id, organization_id) \<Rightarrow>
       (case binding_of db user_id organization_id of
          Inl e \<Rightarrow> (Inl e, db)
        | Inr None \<Rightarrow> (Inl not_a_member, db)
        | Inr (Some binding) \<Rightarrow>
          (case (user_of db (uo_user_id binding), organization_of db (uo_organization_id binding)) of
             (Some user, Some org) \<Rightarrow>
               if \<not> u_is_active user \<or> \<not> o_is_active org then (Inl not_a_member, db)
               else let (expired, db) = expire_if_past db binding in
                 if expired then (Inl not_a_member, db)
                 else if u_verification_status user \<noteq> ''verified''
                 then (Inl (HTTPException 403 ''Verify your account with the invitation link your administrator sent you before accessing this organization.''), db)
                 else (organization_context_init \<lparr>oc_organization_id = organization_id, oc_organization_slug = o_slug org,
                     oc_user_id = user_id, oc_user_email = u_email user, oc_role = uo_role binding,
                     oc_session_id = session_text (wr_session rq)\<rparr>, db)
           | _ \<Rightarrow> (Inl (PyError ''AttributeError'' ''NoneType object has no attribute is_active''), db))))"

definition require_active_organization :: "uuid \<Rightarrow> 'z org_db_scheme \<Rightarrow> organization result" where
  "require_active_organization organization_id db =
    (case find (\<lambda>org. o_id org = organization_id \<and> o_is_active org) (organizations db) of
       None \<Rightarrow> Inl (HTTPException 404 (''Organization '' @ uuid_str organization_id @ '' not found'')) | Some org \<Rightarrow> Inr org)"

definition require_active_user :: "uuid \<Rightarrow> 'z org_db_scheme \<Rightarrow> user result" where
  "require_active_user user_id db =
    (case find (\<lambda>u. u_id u = user_id \<and> u_is_active u) (users db) of
       None \<Rightarrow> Inl (HTTPException 404 (''User '' @ uuid_str user_id @ '' not found'')) | Some u \<Rightarrow> Inr u)"

section \<open>Laws\<close>

text \<open>The tables of the membership data, which audit events and clock readings leave alone.\<close>

definition same_tables :: "'z org_db_scheme \<Rightarrow> 'z org_db_scheme \<Rightarrow> bool" where
  "same_tables db db' \<longleftrightarrow> organizations db' = organizations db \<and> users db' = users db
     \<and> user_organizations db' = user_organizations db \<and> access_requests db' = access_requests db"

lemma write_event_tables [audit_simps]:
  "organizations (snd (write_event db ty dat org usr ses ip rel)) = organizations db"
  "users (snd (write_event db ty dat org usr ses ip rel)) = users db"
  "user_organizations (snd (write_event db ty dat org usr ses ip rel)) = user_organizations db"
  "access_requests (snd (write_event db ty dat org usr ses ip rel)) = access_requests db"
  by (simp_all add: write_event_def uuid4_def utcnow_def Let_def)

lemma write_dual_event_tables [audit_simps]:
  "organizations (snd (write_dual_event db ty dat org usr ses ip)) = organizations db"
  "users (snd (write_dual_event db ty dat org usr ses ip)) = users db"
  "user_organizations (snd (write_dual_event db ty dat org usr ses ip)) = user_organizations db"
  "access_requests (snd (write_dual_event db ty dat org usr ses ip)) = access_requests db"
  by (simp_all add: write_dual_event_def audit_simps split_beta Let_def)

lemma sources_tables [audit_simps]:
  "organizations (snd (utcnow db)) = organizations db" "users (snd (utcnow db)) = users db"
  "user_organizations (snd (utcnow db)) = user_organizations db" "access_requests (snd (utcnow db)) = access_requests db"
  "organizations (snd (uuid4 db)) = organizations db" "users (snd (uuid4 db)) = users db"
  "user_organizations (snd (uuid4 db)) = user_organizations db" "access_requests (snd (uuid4 db)) = access_requests db"
  "organizations (snd (token_urlsafe db)) = organizations db" "users (snd (token_urlsafe db)) = users db"
  "user_organizations (snd (token_urlsafe db)) = user_organizations db" "access_requests (snd (token_urlsafe db)) = access_requests db"
  by (simp_all add: utcnow_def uuid4_def token_urlsafe_def)

lemma mark_request_ended_tables [audit_simps]:
  "organizations (mark_request_ended db org su st t) = organizations db" "users (mark_request_ended db org su st t) = users db"
  "user_organizations (mark_request_ended db org su st t) = user_organizations db"
  by (simp_all add: mark_request_ended_def put_request_def split: option.splits)

text \<open>The two outcomes of the lazy check.\<close>

lemma expire_if_past_cases:
  obtains (live) db' where "expire_if_past db b = (False, db')" "same_tables db db'" "audit_events db' = audit_events db"
      "uo_role b = ''superuser'' \<Longrightarrow> (case uo_expires_at b of None \<Rightarrow> True | Some d \<Rightarrow> clock db 0 < instant d)"
  | (lapsed) db' d e1 e2 where "expire_if_past db b = (True, db')" "uo_role b = ''superuser''" "uo_expires_at b = Some d" "instant d \<le> clock db 0"
      "user_organizations db' = filter (\<lambda>m. uo_id m \<noteq> uo_id b) (user_organizations db)" "users db' = users db"
      "organizations db' = organizations db"
      "access_requests db' = access_requests (mark_request_ended db (uo_organization_id b) (uo_user_id b) ''expired'' (as_utc d))"
      "audit_events db' = audit_events db @ [e1, e2]" "ae_event_type e1 = EXPIRED_EVENT" "ae_organization_id e1 = Some (uo_organization_id b)"
      "ae_event_type e2 = EXPIRED_EVENT" "ae_organization_id e2 = None"
proof (cases "uo_role b = ''superuser'' \<and> (\<exists>d. uo_expires_at b = Some d \<and> instant d \<le> clock db 0)")
  case False
  then show thesis
    by (intro live [of "if uo_role b = ''superuser'' \<and> uo_expires_at b \<noteq> None then snd (utcnow db) else db"])
      (auto simp: expire_if_past_def utcnow_def same_tables_def Let_def split: option.splits)
next
  case True
  then obtain d where d: "uo_role b = ''superuser''" "uo_expires_at b = Some d" "instant d \<le> clock db 0" by blast
  define db1 where "db1 = mark_request_ended (delete_binding b (snd (utcnow db))) (uo_organization_id b) (uo_user_id b) ''expired'' (as_utc d)"
  define ev where "ev = [(''superuser_user_id'', PStr (uuid_str (uo_user_id b))), (''expired_at'', PStr (isoformat (as_utc d)))]"
  define w1 where "w1 = write_event db1 EXPIRED_EVENT (Some ev) (Some (uo_organization_id b)) (Some (uo_user_id b)) None None None"
  define w2 where "w2 = write_event (snd w1) EXPIRED_EVENT (Some (dset ''organization_id'' (PStr (uuid_str (uo_organization_id b))) ev)) None
      (Some (uo_user_id b)) None None (Some (ae_id (fst w1)))"
  have eq: "expire_if_past db b = (True, snd w2)"
    using d by (simp add: expire_if_past_def utcnow_def Let_def w1_def w2_def ev_def db1_def split_beta)
  have ev1: "audit_events db1 = audit_events db"
    by (simp add: db1_def mark_request_ended_def put_request_def delete_binding_def utcnow_def split: option.splits)
  have req: "access_requests db1 = access_requests (mark_request_ended db (uo_organization_id b) (uo_user_id b) ''expired'' (as_utc d))"
    by (simp add: db1_def mark_request_ended_def put_request_def delete_binding_def utcnow_def latest_approved_def split: option.splits)
  show thesis
    by (rule lapsed [OF eq d, of "fst w1" "fst w2"])
      (use ev1 req in \<open>simp_all add: w1_def w2_def audit_simps db1_def delete_binding_def utcnow_def\<close>)
qed

lemma binding_of_Inr:
  "binding_of db u org = Inr (Some m) \<Longrightarrow> m \<in> set (user_organizations db) \<and> uo_user_id m = u \<and> uo_organization_id m = org"
proof -
  assume "binding_of db u org = Inr (Some m)"
  then have "filter (\<lambda>m. uo_user_id m = u \<and> uo_organization_id m = org) (user_organizations db) = [m]"
    by (auto simp: binding_of_def split: list.splits)
  then have "m \<in> set (filter (\<lambda>m. uo_user_id m = u \<and> uo_organization_id m = org) (user_organizations db))" by simp
  then show ?thesis by simp
qed

lemma context_membership:
  assumes "require_organization_context rq db = (Inr ctx, db')"
  shows "request_identity rq = Inr (oc_user_id ctx, oc_organization_id ctx)
    \<and> (\<exists>m \<in> set (user_organizations db). uo_user_id m = oc_user_id ctx \<and> uo_organization_id m = oc_organization_id ctx
        \<and> uo_role m = oc_role ctx \<and> oc_role ctx \<in> set VALID_ROLES
        \<and> (oc_role ctx = ''superuser'' \<longrightarrow> (\<forall>d. uo_expires_at m = Some d \<longrightarrow> clock db 0 < instant d)))
    \<and> (\<exists>u \<in> set (users db). u_id u = oc_user_id ctx \<and> u_is_active u \<and> u_verification_status u = ''verified'' \<and> u_email u = oc_user_email ctx)
    \<and> (\<exists>org \<in> set (organizations db). o_id org = oc_organization_id ctx \<and> o_is_active org)
    \<and> same_tables db db' \<and> audit_events db' = audit_events db"
proof -
  obtain user_id organization_id where ri: "request_identity rq = Inr (user_id, organization_id)"
    using assms by (auto simp: require_organization_context_def split: sum.splits)
  obtain m where b: "binding_of db user_id organization_id = Inr (Some m)"
    using assms ri by (auto simp: require_organization_context_def split: sum.splits option.splits)
  note m = binding_of_Inr [OF b]
  obtain u org where uo: "user_of db user_id = Some u" "organization_of db organization_id = Some org"
      "u_is_active u" "o_is_active org"
    using assms ri b m by (auto simp: require_organization_context_def not_a_member_def split: option.splits if_splits)
  from uo(1,2) have in_db: "u \<in> set (users db)" "u_id u = user_id" "org \<in> set (organizations db)" "o_id org = organization_id"
    by (auto simp: user_of_def organization_of_def dest: find_SomeD)
  show ?thesis
  proof (cases rule: expire_if_past_cases [of db m])
    case (live dbx)
    with assms ri b m uo have fin: "u_verification_status u = ''verified''" "db' = dbx" "oc_organization_id ctx = organization_id"
        "oc_user_id ctx = user_id" "oc_user_email ctx = u_email u" "oc_role ctx = uo_role m" "uo_role m \<in> set VALID_ROLES"
      by (auto simp: require_organization_context_def organization_context_init_def split: if_splits)
    have "\<forall>d. uo_expires_at m = Some d \<longrightarrow> clock db 0 < instant d" if "uo_role m = ''superuser''" using live(4) [OF that] by auto
    with fin ri m uo in_db live(2,3) show ?thesis by auto
  next
    case (lapsed dbx d e1 e2)
    with assms ri b m uo show ?thesis by (simp add: require_organization_context_def not_a_member_def)
  qed
qed

section \<open>Properties\<close>

text \<open>C31: No organization context without a living membership: when the dependency returns a context, its
  organization is the one the header names and its user the one of the session, and the membership
  table has a binding of that user to that organization with the context's role; the user is active and
  verified, the organization is active, and a Superuser grant has not reached its deadline.  Nothing
  but the clock was touched.\<close>

theorem context_needs_living_membership:
  assumes "require_organization_context rq db = (Inr ctx, db')"
  shows "request_identity rq = Inr (oc_user_id ctx, oc_organization_id ctx)
    \<and> (\<exists>m \<in> set (user_organizations db). uo_user_id m = oc_user_id ctx \<and> uo_organization_id m = oc_organization_id ctx
        \<and> uo_role m = oc_role ctx \<and> oc_role ctx \<in> set VALID_ROLES
        \<and> (oc_role ctx = ''superuser'' \<longrightarrow> (\<forall>d. uo_expires_at m = Some d \<longrightarrow> clock db 0 < instant d)))
    \<and> (\<exists>u \<in> set (users db). u_id u = oc_user_id ctx \<and> u_is_active u \<and> u_verification_status u = ''verified'' \<and> u_email u = oc_user_email ctx)
    \<and> (\<exists>org \<in> set (organizations db). o_id org = oc_organization_id ctx \<and> o_is_active org)
    \<and> same_tables db db' \<and> audit_events db' = audit_events db"
  by (rule context_membership [OF assms])

definition guest_db :: org_db where
  "guest_db = \<lparr>audit_events = [], clock = int, uuid_source = (\<lambda>n. word_of_nat (n + 100)),
     organizations = [\<lparr>o_id = 1, o_name = ''Acme'', o_slug = ''acme'', o_is_active = True, o_created_at = Aware 0\<rparr>],
     users = [\<lparr>u_id = 2, u_email = ''root@x'', u_display_name = ''Root'', u_hashed_password = None, u_oidc_sub = None,
       u_is_active = True, u_is_superuser = True, u_verification_status = ''verified'', u_verification_token_hash = None,
       u_verification_token_expires_at = None, u_created_at = Aware 0\<rparr>],
     user_organizations = [\<lparr>uo_id = 3, uo_user_id = 2, uo_organization_id = 1, uo_role = ''superuser'', uo_created_at = Aware 0,
       uo_expires_at = Some (Aware 5)\<rparr>],
     access_requests = [], token_source = (\<lambda>_. ''token'')\<rparr>"

definition guest_request :: web_request where
  "guest_request = \<lparr>wr_session = [(''user_id'', PStr (uuid_str 2))], wr_org_header = Some (uuid_str 1), wr_source_ip = None\<rparr>"

lemma uuid_str_not_empty [simp]: "uuid_str u \<noteq> []"
  by (simp add: uuid_str_def Let_def)

lemma py_strip_uuid_str [simp]: "py_strip (uuid_str u) = uuid_str u"
proof (rule py_strip_plain)
  have "\<not> is_space (CHR ''-'')" by (simp add: is_space_def cp_def)
  then show "list_all (\<lambda>c. \<not> is_space c) (uuid_str u)"
    using uuid_str_chars hex_not_space by (metis list_all_iff)
qed

theorem context_needs_living_membership_witness:
  "\<exists>ctx db'. require_organization_context guest_request guest_db = (Inr ctx, db') \<and> oc_role ctx = ''superuser''
     \<and> (\<exists>m \<in> set (user_organizations guest_db). uo_role m = ''superuser'' \<and> (\<forall>d. uo_expires_at m = Some d \<longrightarrow> 0 < instant d))"
proof -
  have b: "binding_of guest_db 2 1 = Inr (Some (hd (user_organizations guest_db)))" by (simp add: binding_of_def guest_db_def)
  have i: "request_identity guest_request = Inr (2, 1)" by (simp add: request_identity_def guest_request_def dget_def)
  obtain ctx db' where r: "require_organization_context guest_request guest_db = (Inr ctx, db')" and role: "oc_role ctx = ''superuser''"
    using i b by (simp add: require_organization_context_def guest_db_def user_of_def organization_of_def expire_if_past_def utcnow_def
        organization_context_init_def VALID_ROLES_def)
  have "clock guest_db 0 = 0" by (simp add: guest_db_def)
  with context_needs_living_membership [OF r] r role show ?thesis by auto
qed

end
