(* ===== verification/Session_Blacklist.thy ===== *)
theory Session_Blacklist
  imports Wolf_Prelude
begin

text \<open>
  Server-side session revocation: the default in-memory backend of \<open>auth/blacklist.py\<close>.

  Times are microseconds.  The two injected clocks are arbitrary sequences of readings; what the
  class relies on, that a monotonic clock does not go back, is a hypothesis of the properties.
\<close>

record memory_blacklist =
  mb_sessions :: "(string \<times> int) list"
  mb_user_watermarks :: "(string \<times> int \<times> int) list"
  mb_wall :: "nat \<Rightarrow> int"
  mb_mono :: "nat \<Rightarrow> int"

definition read_wall :: "memory_blacklist \<Rightarrow> int \<times> memory_blacklist" where
  "read_wall st = (mb_wall st 0, st\<lparr>mb_wall := \<lambda>n. mb_wall st (Suc n)\<rparr>)"

definition read_mono :: "memory_blacklist \<Rightarrow> int \<times> memory_blacklist" where
  "read_mono st = (mb_mono st 0, st\<lparr>mb_mono := \<lambda>n. mb_mono st (Suc n)\<rparr>)"

definition seconds :: "int \<Rightarrow> int" where
  "seconds n = n * 1000000"

definition purge :: "memory_blacklist \<Rightarrow> memory_blacklist" where
  "purge st = (let (now, st) = read_mono st in
     st\<lparr>mb_sessions := filter (\<lambda>(sid, exp). exp > now) (mb_sessions st),
        mb_user_watermarks := filter (\<lambda>(uid, mark, exp). exp > now) (mb_user_watermarks st)\<rparr>)"

definition revoke_session :: "string \<Rightarrow> int \<Rightarrow> memory_blacklist \<Rightarrow> memory_blacklist" where
  "revoke_session session_id ttl_seconds st =
    (let st = purge st; (now, st) = read_mono st in
     st\<lparr>mb_sessions := AList.update session_id (now + seconds ttl_seconds) (mb_sessions st)\<rparr>)"

definition revoke_user :: "string \<Rightarrow> int \<Rightarrow> memory_blacklist \<Rightarrow> memory_blacklist" where
  "revoke_user user_id ttl_seconds st =
    (let st = purge st; (mark, st) = read_wall st; (now, st) = read_mono st in
     st\<lparr>mb_user_watermarks := AList.update user_id (mark, now + seconds ttl_seconds) (mb_user_watermarks st)\<rparr>)"

definition is_revoked :: "string \<Rightarrow> string \<Rightarrow> int \<Rightarrow> memory_blacklist \<Rightarrow> bool \<times> memory_blacklist" where
  "is_revoked session_id user_id issued_at st =
    (let st = purge st in
     (if map_of (mb_sessions st) session_id \<noteq> None then True
      else case map_of (mb_user_watermarks st) user_id of None \<Rightarrow> False | Some (mark, exp) \<Rightarrow> issued_at \<le> mark, st))"

section \<open>Revocation lasts as long as the tokens\<close>

text \<open>Any calls on the shared instance, the user revocations with the fixed token lifetime.\<close>

inductive mem_call :: "int \<Rightarrow> memory_blacklist \<Rightarrow> memory_blacklist \<Rightarrow> bool" for ttl where
  "mem_call ttl st (revoke_session sid n st)"
| "mem_call ttl st (revoke_user uid ttl st)"
| "mem_call ttl st (snd (is_revoked sid uid iat st))"

text \<open>Clocks that do not go back.\<close>

definition forward :: "memory_blacklist \<Rightarrow> bool" where
  "forward st \<longleftrightarrow> mono (mb_mono st) \<and> mono (mb_wall st)"

text \<open>The user's tokens issued up to \<open>mark\<close> are dead, until \<open>deadline\<close> on the monotonic clock.\<close>

definition dead_until :: "int \<Rightarrow> string \<Rightarrow> int \<Rightarrow> int \<Rightarrow> memory_blacklist \<Rightarrow> bool" where
  "dead_until ttl uid mark deadline st \<longleftrightarrow> forward st \<and> mark \<le> mb_wall st 0 \<and> deadline \<le> mb_mono st 0 + seconds ttl
     \<and> (deadline \<le> mb_mono st 0
        \<or> (\<exists>m d. map_of (mb_user_watermarks st) uid = Some (m, d) \<and> mark \<le> m \<and> deadline \<le> d))"

lemma forward_shift:
  assumes "mono (f :: nat \<Rightarrow> int)"
  shows "mono (\<lambda>n. f (n + k))" "f 0 \<le> f k"
proof -
  show "mono (\<lambda>n. f (n + k))" using assms by (simp add: mono_def)
  show "f 0 \<le> f k" using assms by (simp add: mono_def)
qed

lemma map_of_filter_value: "map_of xs k = Some v \<Longrightarrow> P v \<Longrightarrow> map_of (filter (\<lambda>(k, v). P v) xs) k = Some v"
  by (induction xs) (auto split: if_splits)

lemma purge_clocks [simp]: "mb_wall (purge st) = mb_wall st" "mb_mono (purge st) = (\<lambda>n. mb_mono st (Suc n))"
  by (simp_all add: purge_def read_mono_def)

lemma purge_dead: "dead_until ttl uid mark deadline st \<Longrightarrow> dead_until ttl uid mark deadline (purge st)"
proof -
  assume a: "dead_until ttl uid mark deadline st"
  then have fw: "mono (mb_mono st)" "mono (mb_wall st)" by (simp_all add: dead_until_def forward_def)
  have f: "forward (purge st)" using forward_shift(1) [OF fw(1), of 1] fw(2) by (simp add: forward_def)
  have le: "mb_mono st 0 \<le> mb_mono st (Suc 0)" using forward_shift(2) [OF fw(1), of 1] by simp
  show ?thesis
  proof (cases "deadline \<le> mb_mono st 0")
    case True
    with a f le show ?thesis by (simp add: dead_until_def)
  next
    case False
    with a obtain m d where md: "map_of (mb_user_watermarks st) uid = Some (m, d)" "mark \<le> m" "deadline \<le> d"
      by (auto simp: dead_until_def)
    then have "map_of (filter (\<lambda>(uid, v). snd v > mb_mono st 0) (mb_user_watermarks st)) uid = Some (m, d)"
      using map_of_filter_value [of "mb_user_watermarks st" uid "(m, d)" "\<lambda>v. snd v > mb_mono st 0"] False by simp
    then have "map_of (mb_user_watermarks (purge st)) uid = Some (m, d)"
      by (simp add: purge_def read_mono_def case_prod_unfold)
    with md a f le show ?thesis by (auto simp: dead_until_def)
  qed
qed

lemma advance_mono_dead:
  "dead_until ttl uid mark deadline st \<Longrightarrow> dead_until ttl uid mark deadline (st\<lparr>mb_mono := \<lambda>n. mb_mono st (Suc n)\<rparr>)"
  using forward_shift [of "mb_mono st" 1] by (auto simp: dead_until_def forward_def)

lemma advance_wall_dead:
  "dead_until ttl uid mark deadline st \<Longrightarrow> dead_until ttl uid mark deadline (st\<lparr>mb_wall := \<lambda>n. mb_wall st (Suc n)\<rparr>)"
  using forward_shift [of "mb_wall st" 1] by (auto simp: dead_until_def forward_def)

lemma dead_until_sessions [simp]: "dead_until ttl uid mark deadline (st\<lparr>mb_sessions := x\<rparr>) = dead_until ttl uid mark deadline st"
  by (simp add: dead_until_def forward_def)

lemma mark_dead:
  assumes "dead_until ttl uid mark deadline st" "mark \<le> m" "deadline \<le> d"
  shows "dead_until ttl uid mark deadline (st\<lparr>mb_user_watermarks := AList.update uid' (m, d) (mb_user_watermarks st)\<rparr>)"
  using assms by (auto simp: dead_until_def forward_def update_conv')

lemma mem_call_dead: "mem_call ttl st st' \<Longrightarrow> dead_until ttl uid mark deadline st \<Longrightarrow> dead_until ttl uid mark deadline st'"
proof (induction rule: mem_call.induct)
  case (1 st sid n)
  then show ?case by (simp add: revoke_session_def read_mono_def Let_def advance_mono_dead purge_dead del: purge_clocks)
next
  case (2 st uid')
  let ?p = "purge st"
  let ?w = "?p\<lparr>mb_wall := \<lambda>n. mb_wall ?p (Suc n)\<rparr>"
  let ?m = "?w\<lparr>mb_mono := \<lambda>n. mb_mono ?w (Suc n)\<rparr>"
  have p: "dead_until ttl uid mark deadline ?p" using 2 by (rule purge_dead)
  then have "dead_until ttl uid mark deadline ?m" by (intro advance_mono_dead advance_wall_dead)
  moreover have "mark \<le> mb_wall ?p 0" "deadline \<le> mb_mono ?p 0 + seconds ttl" using p by (simp_all only: dead_until_def)
  ultimately have "dead_until ttl uid mark deadline
      (?m\<lparr>mb_user_watermarks := AList.update uid' (mb_wall ?p 0, mb_mono ?p 0 + seconds ttl) (mb_user_watermarks ?m)\<rparr>)"
    by (rule mark_dead)
  then show ?case by (simp add: revoke_user_def read_wall_def read_mono_def Let_def del: purge_clocks)
next
  case (3 st sid uid' iat)
  then show ?case by (simp add: is_revoked_def purge_dead Let_def)
qed

lemma mem_calls_dead: "(mem_call ttl)\<^sup>*\<^sup>* st st' \<Longrightarrow> dead_until ttl uid mark deadline st \<Longrightarrow> dead_until ttl uid mark deadline st'"
  by (induction rule: rtranclp_induct) (auto intro: mem_call_dead)

lemma revoke_user_dead:
  assumes "forward st" "0 \<le> ttl"
  shows "dead_until ttl uid (mb_wall st 0) (mb_mono st 1 + seconds ttl) (revoke_user uid ttl st)"
proof -
  have fw: "mono (mb_mono st)" "mono (mb_wall st)" using assms by (simp_all add: forward_def)
  have "mono (\<lambda>n. mb_mono st (Suc (Suc n)))" "mono (\<lambda>n. mb_wall st (Suc n))" "mb_wall st 0 \<le> mb_wall st (Suc 0)"
      "mb_mono st (Suc 0) \<le> mb_mono st (Suc (Suc 0))"
    using forward_shift [OF fw(1), of 2] forward_shift [OF fw(2), of 1] fw by (simp_all add: mono_def)
  then show ?thesis
    by (simp add: revoke_user_def read_wall_def read_mono_def Let_def dead_until_def forward_def update_conv')
qed

text \<open>C30: Revoking a user kills every token issued up to that moment for a whole token lifetime: with clocks that do
  not go back, after \<open>revoke_user\<close> and any further calls, \<open>is_revoked\<close> answers yes for every session of that
  user issued at or before the revocation, as long as the monotonic clock has not passed the
  revocation by the lifetime.\<close>

theorem user_revocation_outlives_tokens:
  assumes "forward st" "0 \<le> ttl" and "(mem_call ttl)\<^sup>*\<^sup>* (revoke_user uid ttl st) st2"
    and "iat \<le> mb_wall st 0" and "mb_mono st2 0 < mb_mono st 1 + seconds ttl"
  shows "fst (is_revoked sid uid iat st2)"
proof -
  have d: "dead_until ttl uid (mb_wall st 0) (mb_mono st 1 + seconds ttl) st2"
    by (rule mem_calls_dead [OF assms(3) revoke_user_dead [OF assms(1,2)]])
  then obtain m d where md: "map_of (mb_user_watermarks st2) uid = Some (m, d)" "mb_wall st 0 \<le> m" "mb_mono st 1 + seconds ttl \<le> d"
    using assms(5) by (auto simp: dead_until_def)
  then have "map_of (filter (\<lambda>(uid, v). snd v > mb_mono st2 0) (mb_user_watermarks st2)) uid = Some (m, d)"
    using map_of_filter_value [of "mb_user_watermarks st2" uid "(m, d)" "\<lambda>v. snd v > mb_mono st2 0"] assms(5) by simp
  then have "map_of (mb_user_watermarks (purge st2)) uid = Some (m, d)"
    by (simp add: purge_def read_mono_def case_prod_unfold)
  with md(2) assms(4) show ?thesis by (simp add: is_revoked_def Let_def)
qed

definition quiet_blacklist :: memory_blacklist where
  "quiet_blacklist = \<lparr>mb_sessions = [], mb_user_watermarks = [], mb_wall = int, mb_mono = int\<rparr>"

theorem user_revocation_outlives_tokens_witness:
  "fst (is_revoked ''s'' ''u'' 0 (revoke_session ''other'' 60 (revoke_user ''u'' 3600 quiet_blacklist)))"
proof (rule user_revocation_outlives_tokens)
  show "forward quiet_blacklist" by (simp add: forward_def quiet_blacklist_def mono_def)
  show "(mem_call 3600)\<^sup>*\<^sup>* (revoke_user ''u'' 3600 quiet_blacklist) (revoke_session ''other'' 60 (revoke_user ''u'' 3600 quiet_blacklist))"
    by (intro r_into_rtranclp mem_call.intros)
qed (simp_all add: quiet_blacklist_def revoke_session_def revoke_user_def read_wall_def read_mono_def seconds_def Let_def)

end
