(* ===== verification/Org_Management.thy ===== *)
theory Org_Management
  imports Org_Context Session_Blacklist
begin

text \<open>
  Organization management (\<open>api/org_management.py\<close>) and invite tokens (\<open>auth/invite.py\<close>).

  A handler takes the context its dependency resolved, the validated request body and the peer address,
  and returns its response or the exception and the database after the request: a request that raises
  before its commit leaves the tables as they were (\<open>rollback\<close>).  The bcrypt hash is the argument
  \<open>hash_password\<close>.  Rows are inserted under the constraints their tables declare, so a duplicate key
  raises \<open>IntegrityError\<close>.
\<close>

section \<open>Tables and transactions\<close>

definition integrity_error :: "string \<Rightarrow> exn" where
  "integrity_error constraint = PyError ''IntegrityError'' constraint"

definition add_user :: "user \<Rightarrow> 'z org_db_scheme \<Rightarrow> 'z org_db_scheme result" where
  "add_user u db =
    (if u_id u \<in> u_id ` set (users db) then Inl (integrity_error ''users_pkey'')
     else if u_email u \<in> u_email ` set (users db) then Inl (integrity_error ''uq_users_email'')
     else Inr (db\<lparr>users := users db @ [u]\<rparr>))"

definition add_binding :: "user_organization \<Rightarrow> 'z org_db_scheme \<Rightarrow> 'z org_db_scheme result" where
  "add_binding b db =
    (if uo_id b \<in> uo_id ` set (user_organizations db) then Inl (integrity_error ''user_organizations_pkey'')
     else if (uo_user_id b, uo_organization_id b) \<in> (\<lambda>m. (uo_user_id m, uo_organization_id m)) ` set (user_organizations db)
     then Inl (integrity_error ''uq_user_organization'')
     else Inr (db\<lparr>user_organizations := user_organizations db @ [b]\<rparr>))"

definition add_request :: "superuser_access_request \<Rightarrow> 'z org_db_scheme \<Rightarrow> 'z org_db_scheme result" where
  "add_request r db =
    (if sar_id r \<in> sar_id ` set (access_requests db) then Inl (integrity_error ''superuser_access_requests_pkey'')
     else Inr (db\<lparr>access_requests := access_requests db @ [r]\<rparr>))"

text \<open>The session of a request: a handler that raises before its commit is rolled back.\<close>

definition transact :: "('z org_db_scheme \<Rightarrow> 'a result \<times> 'z org_db_scheme) \<Rightarrow> 'z org_db_scheme \<Rightarrow> 'a result \<times> 'z org_db_scheme" where
  "transact body db = (case body db of (Inl e, db1) \<Rightarrow> (Inl e, rollback db db1) | (Inr x, db1) \<Rightarrow> (Inr x, db1))"

text \<open>The user a binding belongs to, through the relationship.\<close>

definition binding_user :: "'z org_db_scheme \<Rightarrow> user_organization \<Rightarrow> user result" where
  "binding_user db b = (case user_of db (uo_user_id b) of
     None \<Rightarrow> Inl (PyError ''AttributeError'' ''NoneType object has no attribute'') | Some u \<Rightarrow> Inr u)"

section \<open>Invite tokens\<close>

definition INVITE_TOKEN_TTL :: int where "INVITE_TOKEN_TTL = 7 * 86400"

definition hash_invite_token :: "string \<Rightarrow> string" where
  "hash_invite_token raw_token = sha256_hex (utf8 raw_token)"

definition new_invite_token :: "'z org_db_scheme \<Rightarrow> (string \<times> string \<times> datetime) \<times> 'z org_db_scheme" where
  "new_invite_token db = (let (raw_token, db) = token_urlsafe db; (now, db) = utcnow db
     in ((raw_token, hash_invite_token raw_token, plus_seconds now INVITE_TOKEN_TTL), db))"

definition verify_invite_token :: "string \<Rightarrow> string \<Rightarrow> bool" where
  "verify_invite_token raw_token stored_hash \<longleftrightarrow> hash_invite_token raw_token = stored_hash"

section \<open>Helpers\<close>

definition ASSIGNABLE_ROLES :: "string list" where
  "ASSIGNABLE_ROLES = [''admin'', ''analyst'', ''engineer'', ''responder'']"

definition validate_assignable_role :: "string \<Rightarrow> unit result" where
  "validate_assignable_role role = (if role \<notin> set ASSIGNABLE_ROLES
     then Inl (HTTPException 422 (''Role must be one of '' @ py_repr (PList (map PStr ASSIGNABLE_ROLES)) @ ''; got '' @ repr_str role))
     else Inr ())"

definition get_binding :: "'z org_db_scheme \<Rightarrow> uuid \<Rightarrow> uuid \<Rightarrow> user_organization option" where
  "get_binding db organization_id user_id =
    find (\<lambda>m. uo_organization_id m = organization_id \<and> uo_user_id m = user_id) (user_organizations db)"

definition write_dual_audit :: "'z org_db_scheme \<Rightarrow> organization_context \<Rightarrow> string \<Rightarrow> dict \<Rightarrow> string option \<Rightarrow> 'z org_db_scheme" where
  "write_dual_audit db ctx event_type event_data source_ip = snd (write_dual_event db event_type event_data
     (oc_organization_id ctx) (Some (oc_user_id ctx)) (Some (oc_session_id ctx)) source_ip)"

definition revoke_all_sessions :: "int \<Rightarrow> uuid \<Rightarrow> memory_blacklist \<Rightarrow> memory_blacklist" where
  "revoke_all_sessions access_token_expire_minutes user_id bl =
    revoke_user (uuid_str user_id) (access_token_expire_minutes * 60) bl"

record member_response =
  mr_user_id :: uuid
  mr_email :: string
  mr_display_name :: string
  mr_role :: string
  mr_is_active :: bool
  mr_member_since :: datetime
  mr_verification_status :: string
  mr_invite_token_expires_at :: "datetime option"

record member_create_response = member_response +
  mr_new_password :: "string option"
  mr_invite_token :: "string option"

record member_create_request =
  mc_email :: string
  mc_display_name :: string
  mc_role :: string

definition member_response_of :: "user_organization \<Rightarrow> user \<Rightarrow> member_response" where
  "member_response_of b u = \<lparr>mr_user_id = uo_user_id b, mr_email = u_email u, mr_display_name = u_display_name u,
     mr_role = uo_role b, mr_is_active = u_is_active u, mr_member_since = uo_created_at b,
     mr_verification_status = u_verification_status u, mr_invite_token_expires_at = u_verification_token_expires_at u\<rparr>"

fun member_responses :: "'z org_db_scheme \<Rightarrow> user_organization list \<Rightarrow> member_response list result" where
  "member_responses db [] = Inr []"
| "member_responses db (b # bs) = rbind (binding_user db b) (\<lambda>u. rbind (member_responses db bs) (\<lambda>rs. Inr (member_response_of b u # rs)))"

section \<open>Members\<close>

definition list_members :: "organization_context \<Rightarrow> 'z org_db_scheme \<Rightarrow> member_response list result" where
  "list_members ctx db = rbind (require_capability USERS_MANAGE ctx) (\<lambda>ctx.
     member_responses db (sort_key (\<lambda>m. instant (uo_created_at m))
       (filter (\<lambda>m. uo_organization_id m = oc_organization_id ctx) (user_organizations db))))"

text \<open>The account of a new member: an existing one, or a fresh one that starts unverified.\<close>

definition member_account :: "(string \<Rightarrow> string) \<Rightarrow> member_create_request \<Rightarrow> datetime \<Rightarrow> 'z org_db_scheme
    \<Rightarrow> (user \<times> string option \<times> string option) result \<times> 'z org_db_scheme" where
  "member_account hash_password body now db =
    (case find (\<lambda>u. u_email u = mc_email body) (users db) of
       None \<Rightarrow>
        (let (new_password, db) = token_urlsafe db;
             ((invite_token, token_hash, token_expires), db) = new_invite_token db;
             (i, db) = uuid4 db;
             user = \<lparr>u_id = i, u_email = mc_email body, u_display_name = mc_display_name body,
               u_hashed_password = Some (hash_password new_password), u_oidc_sub = None, u_is_active = True,
               u_is_superuser = False, u_verification_status = ''unverified'', u_verification_token_hash = Some token_hash,
               u_verification_token_expires_at = Some token_expires, u_created_at = now\<rparr>
         in case add_user user db of Inl e \<Rightarrow> (Inl e, db) | Inr db \<Rightarrow> (Inr (user, Some new_password, Some invite_token), db))
     | Some user \<Rightarrow>
        if u_is_superuser user
        then (Inl (HTTPException 409 ''The Superuser's membership goes through the consent-gate request -> approve flow, not ordinary member creation''), db)
        else (Inr (user, None, None), db))"

definition enrol :: "organization_context \<Rightarrow> member_create_request \<Rightarrow> datetime \<Rightarrow> string option \<Rightarrow> user \<times> string option \<times> string option
    \<Rightarrow> 'z org_db_scheme \<Rightarrow> member_create_response result \<times> 'z org_db_scheme" where
  "enrol ctx body now source_ip = (\<lambda>(user, new_password, invite_token) db.
    if get_binding db (oc_organization_id ctx) (u_id user) \<noteq> None
    then (Inl (HTTPException 409 (mc_email body @ '' is already a member of this organization'')), db)
    else let (i, db) = uuid4 db;
             binding = \<lparr>uo_id = i, uo_user_id = u_id user, uo_organization_id = oc_organization_id ctx, uo_role = mc_role body,
               uo_created_at = now, uo_expires_at = None\<rparr>
         in case add_binding binding db of Inl e \<Rightarrow> (Inl e, db)
         | Inr db \<Rightarrow> (Inr \<lparr>mr_user_id = u_id user, mr_email = u_email user, mr_display_name = u_display_name user,
               mr_role = mc_role body, mr_is_active = u_is_active user, mr_member_since = now,
               mr_verification_status = u_verification_status user,
               mr_invite_token_expires_at = u_verification_token_expires_at user,
               mr_new_password = new_password, mr_invite_token = invite_token\<rparr>,
             write_dual_audit db ctx ''organization.member.added''
               [(''member_user_id'', PStr (uuid_str (u_id user))), (''member_email'', PStr (u_email user)),
                (''role'', PStr (mc_role body)), (''created_new_user'', PBool (new_password \<noteq> None)),
                (''invite_generated'', PBool (invite_token \<noteq> None))] source_ip))"

definition create_member :: "(string \<Rightarrow> string) \<Rightarrow> organization_context \<Rightarrow> member_create_request \<Rightarrow> string option
    \<Rightarrow> 'z org_db_scheme \<Rightarrow> member_create_response result \<times> 'z org_db_scheme" where
  "create_member hash_password ctx body source_ip = transact
    (io_bind (io_return (require_capability USERS_MANAGE ctx)) (\<lambda>ctx.
     io_bind (io_return (validate_assignable_role (mc_role body))) (\<lambda>_ db.
     let (now, db) = utcnow db in io_bind (member_account hash_password body now) (enrol ctx body now source_ip) db)))"

definition NOT_A_MEMBER_OF_THIS :: "uuid \<Rightarrow> exn" where
  "NOT_A_MEMBER_OF_THIS user_id = HTTPException 404 (''User '' @ uuid_str user_id @ '' is not a member of this organization'')"

definition regenerate_invite_link :: "organization_context \<Rightarrow> uuid \<Rightarrow> string option \<Rightarrow> 'z org_db_scheme
    \<Rightarrow> (string \<times> datetime) result \<times> 'z org_db_scheme" where
  "regenerate_invite_link ctx user_id source_ip = transact
    (io_bind (io_return (require_capability USERS_MANAGE ctx)) (\<lambda>ctx db.
     case get_binding db (oc_organization_id ctx) user_id of
       None \<Rightarrow> (Inl (HTTPException 404 ''That user is not a member of this organization''), db)
     | Some binding \<Rightarrow> (case binding_user db binding of Inl e \<Rightarrow> (Inl e, db)
       | Inr u \<Rightarrow>
          if u_verification_status u = ''verified''
          then (Inl (HTTPException 409 ''This member is already verified - no invite link is needed.''), db)
          else let ((invite_token, token_hash, token_expires), db) = new_invite_token db; (_, db) = utcnow db;
                   db = put_user (u\<lparr>u_verification_token_hash := Some token_hash, u_verification_token_expires_at := Some token_expires\<rparr>) db
               in (Inr (invite_token, token_expires), write_dual_audit db ctx ''organization.member.invite_regenerated''
                 [(''member_user_id'', PStr (uuid_str user_id)), (''member_email'', PStr (u_email u))] source_ip))))"

definition change_member_role :: "organization_context \<Rightarrow> uuid \<Rightarrow> string \<Rightarrow> string option \<Rightarrow> 'z org_db_scheme
    \<Rightarrow> member_response result \<times> 'z org_db_scheme" where
  "change_member_role ctx user_id role source_ip = transact
    (io_bind (io_return (require_capability USERS_MANAGE ctx)) (\<lambda>ctx.
     io_bind (io_return (validate_assignable_role role)) (\<lambda>_ db.
     case get_binding db (oc_organization_id ctx) user_id of
       None \<Rightarrow> (Inl (NOT_A_MEMBER_OF_THIS user_id), db)
     | Some binding \<Rightarrow> (case binding_user db binding of Inl e \<Rightarrow> (Inl e, db)
       | Inr u \<Rightarrow>
          if uo_role binding = ''superuser''
          then (Inl (HTTPException 409 ''The Superuser's role is fixed and can't be changed - Unauthorised.''), db)
          else if uo_role binding = role then (Inr (member_response_of binding u), db)
          else (case (if uo_role binding = ''admin'' then ensure_not_last_admin db (oc_organization_id ctx) user_id else Inr ()) of
              Inl e \<Rightarrow> (Inl e, db)
            | Inr _ \<Rightarrow>
               (let b = binding\<lparr>uo_role := role\<rparr>
                in (Inr (member_response_of b u), write_dual_audit (put_binding b db) ctx ''organization.member.role_changed''
                  [(''member_user_id'', PStr (uuid_str user_id)), (''member_email'', PStr (u_email u)),
                   (''old_role'', PStr (uo_role binding)), (''new_role'', PStr role)] source_ip)))))))"

definition remove_member :: "organization_context \<Rightarrow> uuid \<Rightarrow> string option \<Rightarrow> 'z org_db_scheme \<Rightarrow> unit result \<times> 'z org_db_scheme" where
  "remove_member ctx user_id source_ip = transact
    (io_bind (io_return (require_capability USERS_MANAGE ctx)) (\<lambda>ctx db.
     case get_binding db (oc_organization_id ctx) user_id of
       None \<Rightarrow> (Inl (NOT_A_MEMBER_OF_THIS user_id), db)
     | Some binding \<Rightarrow>
        if uo_role binding = ''superuser''
        then (Inl (HTTPException 409 ''The Superuser can't be removed - revoke their access instead.''), db)
        else (case (if uo_role binding = ''admin'' then ensure_not_last_admin db (oc_organization_id ctx) user_id else Inr ()) of
            Inl e \<Rightarrow> (Inl e, db)
          | Inr _ \<Rightarrow> (case binding_user db binding of Inl e \<Rightarrow> (Inl e, db)
             | Inr u \<Rightarrow> (Inr (), write_dual_audit (delete_binding binding db) ctx ''organization.member.removed''
                 [(''member_user_id'', PStr (uuid_str user_id)), (''member_email'', PStr (u_email u)),
                  (''removed_role'', PStr (uo_role binding))] source_ip)))))"

definition reset_member_password :: "(string \<Rightarrow> string) \<Rightarrow> int \<Rightarrow> organization_context \<Rightarrow> uuid \<Rightarrow> string option
    \<Rightarrow> 'z org_db_scheme \<Rightarrow> memory_blacklist \<Rightarrow> (uuid \<times> string \<times> string) result \<times> 'z org_db_scheme \<times> memory_blacklist" where
  "reset_member_password hash_password expire_minutes ctx user_id source_ip db bl =
    (case require_capability USERS_MANAGE ctx of Inl e \<Rightarrow> (Inl e, db, bl)
     | Inr ctx \<Rightarrow>
       (case get_binding db (oc_organization_id ctx) user_id of
          None \<Rightarrow> (Inl (NOT_A_MEMBER_OF_THIS user_id), db, bl)
        | Some binding \<Rightarrow> (case binding_user db binding of Inl e \<Rightarrow> (Inl e, db, bl)
          | Inr u \<Rightarrow>
             if uo_role binding = ''superuser'' \<or> u_is_superuser u
             then (Inl (HTTPException 409 ''The Superuser's password can't be changed - Unauthorised.''), db, bl)
             else let (new_password, db) = token_urlsafe db; (_, db) = utcnow db;
                      db = put_user (u\<lparr>u_hashed_password := Some (hash_password new_password)\<rparr>) db;
                      bl = revoke_all_sessions expire_minutes (uo_user_id binding) bl
                  in (Inr (uo_user_id binding, u_email u, new_password), write_dual_audit db ctx ''organization.member.password_reset''
                    [(''member_user_id'', PStr (uuid_str user_id)), (''member_email'', PStr (u_email u)),
                     (''sessions_revoked'', PBool True)] source_ip, bl))))"

section \<open>The consent gate\<close>

definition get_install_superuser :: "'z org_db_scheme \<Rightarrow> user result" where
  "get_install_superuser db = (case filter (\<lambda>u. u_is_superuser u \<and> u_is_active u) (users db) of
     [u] \<Rightarrow> Inr u
   | _ \<Rightarrow> Inl (HTTPException 409 ''The Superuser account is unavailable; contact the platform operator.''))"

datatype grant_mode = RequestedMode | HoursMode | UntilRevokedMode

record access_approve_request =
  aa_mode :: grant_mode
  aa_duration_hours :: "int option"

definition resolve_grant_expiry :: "access_approve_request \<Rightarrow> int option \<Rightarrow> 'z org_db_scheme \<Rightarrow> datetime option result \<times> 'z org_db_scheme" where
  "resolve_grant_expiry body requested_duration_hours db =
    (case aa_mode body of
       UntilRevokedMode \<Rightarrow> (Inr None, db)
     | HoursMode \<Rightarrow> (case aa_duration_hours body of
          None \<Rightarrow> (Inl (HTTPException 422 (''duration_hours is required when mode is 'hours'' @ [CHR 0x27])), db)
        | Some h \<Rightarrow> (let (now, db) = utcnow db in (Inr (Some (plus_seconds now (h * 3600))), db)))
     | RequestedMode \<Rightarrow> (case requested_duration_hours of
          None \<Rightarrow> (Inr None, db)
        | Some h \<Rightarrow> (let (now, db) = utcnow db in (Inr (Some (plus_seconds now (h * 3600))), db))))"

record access_request_admin_response =
  ar_id :: uuid
  ar_superuser_user_id :: uuid
  ar_superuser_email :: string
  ar_superuser_display_name :: string
  ar_status :: string
  ar_reason :: "string option"
  ar_requested_duration_hours :: "int option"
  ar_granted_expires_at :: "datetime option"
  ar_requested_at :: datetime
  ar_decided_at :: "datetime option"
  ar_decided_by_user_id :: "uuid option"
  ar_decided_by_display_name :: "string option"
  ar_ended_at :: "datetime option"

definition access_request_admin_response_of :: "superuser_access_request \<Rightarrow> user \<Rightarrow> string option \<Rightarrow> access_request_admin_response" where
  "access_request_admin_response_of req requester decided_by_display_name =
    \<lparr>ar_id = sar_id req, ar_superuser_user_id = sar_superuser_user_id req, ar_superuser_email = u_email requester,
     ar_superuser_display_name = u_display_name requester, ar_status = sar_status req, ar_reason = sar_reason req,
     ar_requested_duration_hours = sar_requested_duration_hours req, ar_granted_expires_at = sar_granted_expires_at req,
     ar_requested_at = sar_requested_at req, ar_decided_at = sar_decided_at req,
     ar_decided_by_user_id = sar_decided_by_user_id req, ar_decided_by_display_name = decided_by_display_name,
     ar_ended_at = sar_ended_at req\<rparr>"

definition load_org_request :: "'z org_db_scheme \<Rightarrow> uuid \<Rightarrow> uuid \<Rightarrow> (superuser_access_request \<times> user) result" where
  "load_org_request db organization_id request_id =
    (case [(r, u). r \<leftarrow> access_requests db, u \<leftarrow> users db, u_id u = sar_superuser_user_id r
        \<and> sar_id r = request_id \<and> sar_organization_id r = organization_id] of
       [] \<Rightarrow> Inl (HTTPException 404 ''No such access request in this organization'')
     | row # _ \<Rightarrow> Inr row)"

definition latest_grant_admin_name :: "'z org_db_scheme \<Rightarrow> uuid \<Rightarrow> uuid \<Rightarrow> string option" where
  "latest_grant_admin_name db organization_id superuser_user_id =
    (case latest_approved db organization_id superuser_user_id of
       None \<Rightarrow> None
     | Some req \<Rightarrow> (case sar_decided_by_user_id req of None \<Rightarrow> None
       | Some decided_by \<Rightarrow> map_option u_display_name (user_of db decided_by)))"

definition list_access_requests :: "organization_context \<Rightarrow> nat \<Rightarrow> 'z org_db_scheme \<Rightarrow> access_request_admin_response list result" where
  "list_access_requests ctx limit db = rbind (require_capability SUPERUSER_MEMBERSHIP_GRANT ctx) (\<lambda>ctx.
    (let rows = take limit (sort_key (\<lambda>(r, u). (if sar_status r = ''pending'' then 0 else 1 :: int, - instant (sar_requested_at r)))
           [(r, u). r \<leftarrow> access_requests db, u \<leftarrow> users db, u_id u = sar_superuser_user_id r
              \<and> sar_organization_id r = oc_organization_id ctx])
     in Inr (map (\<lambda>(r, u). access_request_admin_response_of r u
          (case sar_decided_by_user_id r of None \<Rightarrow> None | Some d \<Rightarrow> map_option u_display_name (user_of db d))) rows)))"

definition grant_access :: "organization_context \<Rightarrow> superuser_access_request \<Rightarrow> user \<Rightarrow> string option \<Rightarrow> datetime option \<Rightarrow> 'z org_db_scheme
    \<Rightarrow> access_request_admin_response result \<times> 'z org_db_scheme" where
  "grant_access ctx req requester source_ip expires_at db =
    (let (now, db) = utcnow db; (i, db) = uuid4 db;
         req = req\<lparr>sar_status := ''approved'', sar_decided_at := Some now, sar_decided_by_user_id := Some (oc_user_id ctx),
           sar_granted_expires_at := expires_at\<rparr>
     in case add_binding \<lparr>uo_id = i, uo_user_id = sar_superuser_user_id req, uo_organization_id = oc_organization_id ctx,
          uo_role = ''superuser'', uo_created_at = now, uo_expires_at = expires_at\<rparr> db of
          Inl e \<Rightarrow> (Inl e, db)
        | Inr db \<Rightarrow>
           (let db = write_dual_audit (put_request req db) ctx ''organization.superuser_membership.granted''
              [(''superuser_user_id'', PStr (uuid_str (sar_superuser_user_id req))), (''granted_by'', PStr (uuid_str (oc_user_id ctx))),
               (''request_id'', PStr (uuid_str (sar_id req))),
               (''expires_at'', case expires_at of None \<Rightarrow> PNone | Some d \<Rightarrow> PStr (isoformat d))] source_ip
            in (Inr (access_request_admin_response_of req requester (map_option u_display_name (user_of db (oc_user_id ctx)))), db)))"

definition approve_access_request :: "organization_context \<Rightarrow> uuid \<Rightarrow> access_approve_request \<Rightarrow> string option \<Rightarrow> 'z org_db_scheme
    \<Rightarrow> access_request_admin_response result \<times> 'z org_db_scheme" where
  "approve_access_request ctx request_id body source_ip = transact
    (io_bind (io_return (require_capability SUPERUSER_MEMBERSHIP_GRANT ctx)) (\<lambda>ctx db.
     case load_org_request db (oc_organization_id ctx) request_id of Inl e \<Rightarrow> (Inl e, db)
     | Inr (req, requester) \<Rightarrow>
        if sar_status req \<noteq> ''pending''
        then (Inl (HTTPException 409 (''Request is already '' @ sar_status req @ ''; only a pending request can be approved'')), db)
        else let (active, db) = active_superuser_binding db (oc_organization_id ctx) in
          if active \<noteq> None then (Inl (HTTPException 409 ''The Superuser already has active access to this organization''), db)
          else io_bind (resolve_grant_expiry body (sar_requested_duration_hours req)) (grant_access ctx req requester source_ip) db))"

definition reject_access_request :: "organization_context \<Rightarrow> uuid \<Rightarrow> string option \<Rightarrow> string option \<Rightarrow> 'z org_db_scheme
    \<Rightarrow> access_request_admin_response result \<times> 'z org_db_scheme" where
  "reject_access_request ctx request_id reason source_ip = transact
    (io_bind (io_return (require_capability SUPERUSER_MEMBERSHIP_GRANT ctx)) (\<lambda>ctx db.
     case load_org_request db (oc_organization_id ctx) request_id of Inl e \<Rightarrow> (Inl e, db)
     | Inr (req, requester) \<Rightarrow>
        if sar_status req \<noteq> ''pending''
        then (Inl (HTTPException 409 (''Request is already '' @ sar_status req @ ''; only a pending request can be rejected'')), db)
        else let (now, db) = utcnow db;
                 req = req\<lparr>sar_status := ''rejected'', sar_decided_at := Some now, sar_decided_by_user_id := Some (oc_user_id ctx)\<rparr>;
                 db = write_dual_audit (put_request req db) ctx ''organization.superuser_access.rejected''
                   [(''superuser_user_id'', PStr (uuid_str (sar_superuser_user_id req))), (''rejected_by'', PStr (uuid_str (oc_user_id ctx))),
                    (''request_id'', PStr (uuid_str (sar_id req))), (''reason'', case reason of None \<Rightarrow> PNone | Some s \<Rightarrow> PStr s)] source_ip
             in (Inr (access_request_admin_response_of req requester (map_option u_display_name (user_of db (oc_user_id ctx)))), db)))"

record superuser_access_response =
  sa_granted_by_display_name :: "string option"
  sa_granted_at :: datetime
  sa_expires_at :: "datetime option"

text \<open>Readable by every member: the context is the whole guard.\<close>

definition get_superuser_access :: "organization_context \<Rightarrow> 'z org_db_scheme \<Rightarrow> superuser_access_response option \<times> 'z org_db_scheme" where
  "get_superuser_access ctx db =
    (let (binding, db) = active_superuser_binding db (oc_organization_id ctx)
     in (map_option (\<lambda>b. \<lparr>sa_granted_by_display_name = latest_grant_admin_name db (oc_organization_id ctx) (uo_user_id b),
           sa_granted_at = uo_created_at b, sa_expires_at = uo_expires_at b\<rparr>) binding, db))"

definition revoke_superuser_membership :: "organization_context \<Rightarrow> string option \<Rightarrow> 'z org_db_scheme \<Rightarrow> unit result \<times> 'z org_db_scheme" where
  "revoke_superuser_membership ctx source_ip = transact
    (io_bind (io_return (require_capability SUPERUSER_MEMBERSHIP_GRANT ctx)) (\<lambda>ctx db.
     case get_install_superuser db of Inl e \<Rightarrow> (Inl e, db)
     | Inr superuser \<Rightarrow>
       (case get_binding db (oc_organization_id ctx) (u_id superuser) of
          None \<Rightarrow> (Inl (HTTPException 404 ''The Superuser has no membership in this organization''), db)
        | Some binding \<Rightarrow>
           (let db = delete_binding binding db; (now, db) = utcnow db;
                db = mark_request_ended db (oc_organization_id ctx) (u_id superuser) ''revoked'' now
            in (Inr (), write_dual_audit db ctx ''organization.superuser_membership.revoked''
              [(''superuser_user_id'', PStr (uuid_str (u_id superuser))), (''revoked_by'', PStr (uuid_str (oc_user_id ctx)))] source_ip)))))"

section \<open>The organization's audit view\<close>

record audit_event_response =
  av_id :: uuid
  av_event_type :: string
  av_event_data :: "dict option"
  av_user_id :: "uuid option"
  av_source_ip :: "string option"
  av_related_event_id :: "uuid option"
  av_created_at :: datetime

definition audit_event_response_of :: "audit_event \<Rightarrow> audit_event_response" where
  "audit_event_response_of e = \<lparr>av_id = ae_id e, av_event_type = ae_event_type e, av_event_data = ae_event_data e,
     av_user_id = ae_user_id e, av_source_ip = ae_source_ip e, av_related_event_id = ae_related_event_id e, av_created_at = ae_created_at e\<rparr>"

definition newest_first :: "audit_event list \<Rightarrow> audit_event list" where
  "newest_first = sort_key (\<lambda>e. (- instant (ae_created_at e), ae_id e))"

definition view_audit_log :: "organization_context \<Rightarrow> nat \<Rightarrow> nat \<Rightarrow> 'z org_db_scheme \<Rightarrow> audit_event_response list result" where
  "view_audit_log ctx limit offset db = rbind (require_capability AUDIT_LOG_VIEW ctx) (\<lambda>ctx.
     Inr (map audit_event_response_of (take limit (drop offset
       (newest_first (filter (\<lambda>e. ae_organization_id e = Some (oc_organization_id ctx)) (audit_events db)))))))"

end
