(* ===== verification/Superuser_Api.thy ===== *)
theory Superuser_Api
  imports Org_Management
begin

text \<open>
  The install-level API of the Superuser: recovery and access requests (\<open>api/superuser.py\<close>) and the
  organizations themselves (\<open>api/organizations.py\<close>).

  Handlers take the web request, check \<open>require_superuser\<close> on it and return as in \<open>Org_Management\<close>.
\<close>

section \<open>The dependency\<close>

definition require_superuser :: "web_request \<Rightarrow> 'z org_db_scheme \<Rightarrow> user result" where
  "require_superuser rq db =
    (let user_id_raw = dget (wr_session rq) ''user_id'' in
     if \<not> truthy user_id_raw then Inl (HTTPException 401 ''Authentication required'')
     else case py_uuid (py_str user_id_raw) of
       None \<Rightarrow> Inl (HTTPException 401 ''Invalid session'')
     | Some user_id \<Rightarrow>
        (case user_of db user_id of
           None \<Rightarrow> Inl (HTTPException 403 ''Superuser privileges required'')
         | Some user \<Rightarrow> if \<not> u_is_active user \<or> \<not> u_is_superuser user
             then Inl (HTTPException 403 ''Superuser privileges required'') else Inr user))"

definition as_superuser :: "web_request \<Rightarrow> (user \<Rightarrow> 'z org_db_scheme \<Rightarrow> 'a result \<times> 'z org_db_scheme)
    \<Rightarrow> 'z org_db_scheme \<Rightarrow> 'a result \<times> 'z org_db_scheme" where
  "as_superuser rq body = transact (\<lambda>db. io_bind (io_return (require_superuser rq db)) body db)"

section \<open>Password reset and session revocation\<close>

definition CLI_ROTATION :: exn where
  "CLI_ROTATION = HTTPException 409 ''Superuser password is rotated via the bootstrap_superuser CLI on the host, not via the API''"

definition reset_target :: "(string \<Rightarrow> string) \<Rightarrow> int \<Rightarrow> web_request \<Rightarrow> user \<Rightarrow> dict \<Rightarrow> user \<Rightarrow> 'z org_db_scheme \<Rightarrow> memory_blacklist
    \<Rightarrow> (uuid \<times> string \<times> string) result \<times> 'z org_db_scheme \<times> memory_blacklist" where
  "reset_target hash_password expire_minutes rq superuser extra target db bl =
    (if u_is_superuser target then (Inl CLI_ROTATION, db, bl)
     else let (new_password, db) = token_urlsafe db; (_, db) = utcnow db;
              db = put_user (target\<lparr>u_hashed_password := Some (hash_password new_password)\<rparr>) db;
              bl = revoke_all_sessions expire_minutes (u_id target) bl;
              (_, db) = write_event db ''superuser.user_password.reset''
                (Some ([(''target_user_id'', PStr (uuid_str (u_id target))), (''target_email'', PStr (u_email target)),
                  (''sessions_revoked'', PBool True)] @ extra)) None (Some (u_id superuser)) (Some (session_text (wr_session rq)))
                (wr_source_ip rq) None
          in (Inr (u_id target, u_email target, new_password), db, bl))"

definition reset_user_password :: "(string \<Rightarrow> string) \<Rightarrow> int \<Rightarrow> web_request \<Rightarrow> uuid \<Rightarrow> 'z org_db_scheme \<Rightarrow> memory_blacklist
    \<Rightarrow> (uuid \<times> string \<times> string) result \<times> 'z org_db_scheme \<times> memory_blacklist" where
  "reset_user_password hash_password expire_minutes rq user_id db bl =
    (case require_superuser rq db of Inl e \<Rightarrow> (Inl e, db, bl)
     | Inr superuser \<Rightarrow>
       (case user_of db user_id of
          None \<Rightarrow> (Inl (HTTPException 404 (''User '' @ uuid_str user_id @ '' not found'')), db, bl)
        | Some target \<Rightarrow> reset_target hash_password expire_minutes rq superuser [] target db bl))"

definition reset_user_password_by_email :: "(string \<Rightarrow> string) \<Rightarrow> int \<Rightarrow> web_request \<Rightarrow> string \<Rightarrow> 'z org_db_scheme \<Rightarrow> memory_blacklist
    \<Rightarrow> (uuid \<times> string \<times> string) result \<times> 'z org_db_scheme \<times> memory_blacklist" where
  "reset_user_password_by_email hash_password expire_minutes rq email db bl =
    (case require_superuser rq db of Inl e \<Rightarrow> (Inl e, db, bl)
     | Inr superuser \<Rightarrow>
       (case find (\<lambda>u. u_email u = email) (users db) of
          None \<Rightarrow> (Inl (HTTPException 404 (''No user found with email '' @ repr_str email)), db, bl)
        | Some target \<Rightarrow> reset_target hash_password expire_minutes rq superuser [(''via'', PStr ''email'')] target db bl))"

definition revoke_user_sessions :: "int \<Rightarrow> web_request \<Rightarrow> uuid \<Rightarrow> 'z org_db_scheme \<Rightarrow> memory_blacklist
    \<Rightarrow> unit result \<times> 'z org_db_scheme \<times> memory_blacklist" where
  "revoke_user_sessions expire_minutes rq user_id db bl =
    (case require_superuser rq db of Inl e \<Rightarrow> (Inl e, db, bl)
     | Inr superuser \<Rightarrow>
       (case user_of db user_id of
          None \<Rightarrow> (Inl (HTTPException 404 (''User '' @ uuid_str user_id @ '' not found'')), db, bl)
        | Some target \<Rightarrow>
           (let bl = revoke_all_sessions expire_minutes (u_id target) bl;
                (_, db) = write_event db ''superuser.user_sessions.revoked''
                  (Some [(''target_user_id'', PStr (uuid_str (u_id target))), (''target_email'', PStr (u_email target))])
                  None (Some (u_id superuser)) (Some (session_text (wr_session rq))) (wr_source_ip rq) None
            in (Inr (), db, bl))))"

section \<open>Organization recovery\<close>

record recovery_admin_response =
  ra_organization_id :: uuid
  ra_user_id :: uuid
  ra_email :: string
  ra_role :: string
  ra_new_password :: "string option"

definition active_admin_rows :: "'z org_db_scheme \<Rightarrow> uuid \<Rightarrow> user_organization list" where
  "active_admin_rows db organization_id =
    [m. m \<leftarrow> user_organizations db, u \<leftarrow> users db, u_id u = uo_user_id m \<and> uo_organization_id m = organization_id
       \<and> uo_role m = ''admin'' \<and> u_is_active u]"

definition recovery_account :: "(string \<Rightarrow> string) \<Rightarrow> string \<Rightarrow> string \<Rightarrow> datetime \<Rightarrow> 'z org_db_scheme
    \<Rightarrow> (user \<times> string option) result \<times> 'z org_db_scheme" where
  "recovery_account hash_password email display_name now db =
    (case find (\<lambda>u. u_email u = email) (users db) of
       None \<Rightarrow>
        (let (new_password, db) = token_urlsafe db; (i, db) = uuid4 db;
             user = \<lparr>u_id = i, u_email = email, u_display_name = display_name,
               u_hashed_password = Some (hash_password new_password), u_oidc_sub = None, u_is_active = True,
               u_is_superuser = False, u_verification_status = ''verified'', u_verification_token_hash = None,
               u_verification_token_expires_at = None, u_created_at = now\<rparr>
         in case add_user user db of Inl e \<Rightarrow> (Inl e, db) | Inr db \<Rightarrow> (Inr (user, Some new_password), db))
     | Some user \<Rightarrow>
        if u_is_superuser user
        then (Inl (HTTPException 409 ''The Superuser cannot be added to an organization via recovery''), db)
        else (Inr (user, None), db))"

definition make_admin :: "uuid \<Rightarrow> user \<Rightarrow> datetime \<Rightarrow> 'z org_db_scheme \<Rightarrow> unit result \<times> 'z org_db_scheme" where
  "make_admin organization_id user now db =
    (case find (\<lambda>m. uo_user_id m = u_id user \<and> uo_organization_id m = organization_id) (user_organizations db) of
       Some binding \<Rightarrow> (Inr (), put_binding (binding\<lparr>uo_role := ''admin''\<rparr>) db)
     | None \<Rightarrow>
        (let (i, db) = uuid4 db in
         case add_binding \<lparr>uo_id = i, uo_user_id = u_id user, uo_organization_id = organization_id, uo_role = ''admin'',
             uo_created_at = now, uo_expires_at = None\<rparr> db of Inl e \<Rightarrow> (Inl e, db) | Inr db \<Rightarrow> (Inr (), db)))"

definition recover_organization_admin :: "(string \<Rightarrow> string) \<Rightarrow> web_request \<Rightarrow> uuid \<Rightarrow> string \<Rightarrow> string \<Rightarrow> 'z org_db_scheme
    \<Rightarrow> recovery_admin_response result \<times> 'z org_db_scheme" where
  "recover_organization_admin hash_password rq organization_id email display_name = as_superuser rq (\<lambda>superuser db.
    case find (\<lambda>org. o_id org = organization_id \<and> o_is_active org) (organizations db) of
      None \<Rightarrow> (Inl (HTTPException 404 (''Organization '' @ uuid_str organization_id @ '' not found'')), db)
    | Some organization \<Rightarrow>
       if active_admin_rows db organization_id \<noteq> []
       then (Inl (HTTPException 409 ''Organization still has an active Admin - recovery is only for organizations with zero Admins. Use the normal user-management flow instead.''), db)
       else let (now, db) = utcnow db in
         io_bind (recovery_account hash_password email display_name now) (\<lambda>(user, new_password).
         io_bind (make_admin organization_id user now) (\<lambda>_ db.
           let (_, db) = write_event db ''organization.recovery.admin_added''
                 (Some [(''recovery_flow'', PBool True), (''admin_user_id'', PStr (uuid_str (u_id user))),
                   (''admin_email'', PStr (u_email user)), (''created_new_user'', PBool (new_password \<noteq> None))])
                 (Some organization_id) (Some (u_id superuser)) (Some (session_text (wr_session rq))) (wr_source_ip rq) None
           in (Inr \<lparr>ra_organization_id = organization_id, ra_user_id = u_id user, ra_email = u_email user, ra_role = ''admin'',
             ra_new_password = new_password\<rparr>, db))) db)"

section \<open>The install-wide audit view\<close>

definition view_install_audit :: "web_request \<Rightarrow> nat \<Rightarrow> nat \<Rightarrow> 'z org_db_scheme
    \<Rightarrow> (audit_event_response \<times> uuid option \<times> string option) list result" where
  "view_install_audit rq limit offset db = rbind (require_superuser rq db) (\<lambda>_.
     Inr (map (\<lambda>e. (audit_event_response_of e, ae_organization_id e,
         case ae_organization_id e of None \<Rightarrow> None | Some i \<Rightarrow> map_option o_name (organization_of db i)))
       (take limit (drop offset (newest_first (audit_events db))))))"

section \<open>Access requests\<close>

record access_request_response =
  rr_id :: uuid
  rr_organization_id :: uuid
  rr_organization_name :: string
  rr_status :: string
  rr_reason :: "string option"
  rr_requested_duration_hours :: "int option"
  rr_granted_expires_at :: "datetime option"
  rr_requested_at :: datetime
  rr_decided_at :: "datetime option"
  rr_ended_at :: "datetime option"
  rr_currently_active :: bool

definition access_request_response_of :: "superuser_access_request \<Rightarrow> organization \<Rightarrow> bool \<Rightarrow> access_request_response" where
  "access_request_response_of req org currently_active =
    \<lparr>rr_id = sar_id req, rr_organization_id = sar_organization_id req, rr_organization_name = o_name org,
     rr_status = sar_status req, rr_reason = sar_reason req, rr_requested_duration_hours = sar_requested_duration_hours req,
     rr_granted_expires_at = sar_granted_expires_at req, rr_requested_at = sar_requested_at req,
     rr_decided_at = sar_decided_at req, rr_ended_at = sar_ended_at req, rr_currently_active = currently_active\<rparr>"

definition request_org_access :: "web_request \<Rightarrow> uuid \<Rightarrow> string option \<Rightarrow> int option \<Rightarrow> 'z org_db_scheme
    \<Rightarrow> access_request_response result \<times> 'z org_db_scheme" where
  "request_org_access rq organization_id reason requested_duration_hours = as_superuser rq (\<lambda>superuser db.
    case require_active_organization organization_id db of Inl e \<Rightarrow> (Inl e, db)
    | Inr org \<Rightarrow>
       (let (active, db) = active_superuser_binding db organization_id in
        if active \<noteq> None then (Inl (HTTPException 409 ''You already have active access to this organization''), db)
        else if \<exists>r \<in> set (access_requests db). sar_organization_id r = organization_id
            \<and> sar_superuser_user_id r = u_id superuser \<and> sar_status r = ''pending''
        then (Inl (HTTPException 409 ''You already have a pending access request for this organization''), db)
        else let (i, db) = uuid4 db; (now, db) = utcnow db;
                 req = \<lparr>sar_id = i, sar_organization_id = organization_id, sar_superuser_user_id = u_id superuser,
                   sar_status = ''pending'', sar_reason = reason, sar_requested_duration_hours = requested_duration_hours,
                   sar_granted_expires_at = None, sar_requested_at = now, sar_decided_at = None,
                   sar_decided_by_user_id = None, sar_ended_at = None\<rparr>
             in case add_request req db of Inl e \<Rightarrow> (Inl e, db)
             | Inr db \<Rightarrow> (Inr (access_request_response_of req org False), snd (write_dual_event db
                 ''organization.superuser_access.requested''
                 [(''superuser_user_id'', PStr (uuid_str (u_id superuser))), (''request_id'', PStr (uuid_str (sar_id req))),
                  (''requested_duration_hours'', case requested_duration_hours of None \<Rightarrow> PNone | Some h \<Rightarrow> PInt h),
                  (''has_reason'', PBool (reason \<noteq> None))] organization_id (Some (u_id superuser)) None (wr_source_ip rq)))))"

definition currently_active_in :: "'z org_db_scheme \<Rightarrow> uuid \<Rightarrow> datetime \<Rightarrow> uuid \<Rightarrow> bool" where
  "currently_active_in db su now organization_id \<longleftrightarrow>
    (\<exists>m \<in> set (user_organizations db). uo_user_id m = su \<and> uo_role m = ''superuser'' \<and> uo_organization_id m = organization_id
       \<and> (case uo_expires_at m of None \<Rightarrow> True | Some d \<Rightarrow> instant (as_utc d) > instant now))"

definition list_my_access_requests :: "web_request \<Rightarrow> nat \<Rightarrow> 'z org_db_scheme
    \<Rightarrow> access_request_response list result \<times> 'z org_db_scheme" where
  "list_my_access_requests rq limit = as_superuser rq (\<lambda>superuser db.
    let rows = take limit (sort_desc (\<lambda>(r, org). instant (sar_requested_at r))
          [(r, org). r \<leftarrow> access_requests db, org \<leftarrow> organizations db, o_id org = sar_organization_id r
             \<and> sar_superuser_user_id r = u_id superuser]);
        (now, db) = utcnow db
    in (Inr (map (\<lambda>(r, org). access_request_response_of r org
          (currently_active_in db (u_id superuser) now (sar_organization_id r))) rows), db))"

definition cancel_my_access_request :: "web_request \<Rightarrow> uuid \<Rightarrow> 'z org_db_scheme \<Rightarrow> unit result \<times> 'z org_db_scheme" where
  "cancel_my_access_request rq request_id = as_superuser rq (\<lambda>superuser db.
    case find (\<lambda>r. sar_id r = request_id \<and> sar_superuser_user_id r = u_id superuser) (access_requests db) of
      None \<Rightarrow> (Inl (HTTPException 404 ''No such access request''), db)
    | Some req \<Rightarrow>
       if sar_status req \<noteq> ''pending''
       then (Inl (HTTPException 409 (''Request is already '' @ sar_status req @ ''; only a pending request can be cancelled'')), db)
       else let (now, db) = utcnow db;
                db = put_request (req\<lparr>sar_status := ''cancelled'', sar_decided_at := Some now\<rparr>) db
            in (Inr (), snd (write_dual_event db ''organization.superuser_access.cancelled''
              [(''superuser_user_id'', PStr (uuid_str (u_id superuser))), (''request_id'', PStr (uuid_str (sar_id req)))]
              (sar_organization_id req) (Some (u_id superuser)) None (wr_source_ip rq))))"

section \<open>Organizations\<close>

definition add_organization :: "organization \<Rightarrow> 'z org_db_scheme \<Rightarrow> 'z org_db_scheme result" where
  "add_organization org db =
    (if o_id org \<in> o_id ` set (organizations db) then Inl (integrity_error ''organizations_pkey'')
     else if o_slug org \<in> o_slug ` set (organizations db) then Inl (integrity_error ''uq_organizations_slug'')
     else Inr (db\<lparr>organizations := organizations db @ [org]\<rparr>))"

definition put_organization :: "organization \<Rightarrow> 'z org_db_scheme \<Rightarrow> 'z org_db_scheme" where
  "put_organization org db = db\<lparr>organizations := replace_by o_id org (organizations db)\<rparr>"

definition organization_event :: "'z org_db_scheme \<Rightarrow> web_request \<Rightarrow> user \<Rightarrow> string \<Rightarrow> dict \<Rightarrow> uuid \<Rightarrow> 'z org_db_scheme" where
  "organization_event db rq superuser event_type event_data organization_id = snd (write_event db event_type (Some event_data)
     (Some organization_id) (Some (u_id superuser)) (Some (session_text (wr_session rq))) (wr_source_ip rq) None)"

text \<open>The response of these routes has the columns of the row, so the row stands for it.\<close>

definition list_organizations :: "web_request \<Rightarrow> 'z org_db_scheme \<Rightarrow> organization list result" where
  "list_organizations rq db = rbind (require_superuser rq db) (\<lambda>_. Inr (sort_key (\<lambda>org. instant (o_created_at org)) (organizations db)))"

definition create_organization :: "web_request \<Rightarrow> string \<Rightarrow> string \<Rightarrow> 'z org_db_scheme \<Rightarrow> organization result \<times> 'z org_db_scheme" where
  "create_organization rq name slug = as_superuser rq (\<lambda>superuser db.
    if slug \<in> o_slug ` set (organizations db)
    then (Inl (HTTPException 409 (''An organization with slug '' @ repr_str slug @ '' already exists'')), db)
    else let (now, db) = utcnow db; (i, db) = uuid4 db;
             org = \<lparr>o_id = i, o_name = name, o_slug = slug, o_is_active = True, o_created_at = now\<rparr>
         in case add_organization org db of Inl e \<Rightarrow> (Inl e, db)
         | Inr db \<Rightarrow> (Inr org, organization_event db rq superuser ''organization.created''
             [(''name'', PStr (o_name org)), (''slug'', PStr (o_slug org))] (o_id org)))"

definition update_organization :: "web_request \<Rightarrow> uuid \<Rightarrow> string \<Rightarrow> 'z org_db_scheme \<Rightarrow> organization result \<times> 'z org_db_scheme" where
  "update_organization rq organization_id name = as_superuser rq (\<lambda>superuser db.
    case organization_of db organization_id of
      None \<Rightarrow> (Inl (HTTPException 404 (''Organization '' @ uuid_str organization_id @ '' not found'')), db)
    | Some old \<Rightarrow>
       (let org = old\<lparr>o_name := name\<rparr>; (_, db) = utcnow db; db = put_organization org db
        in (Inr org, organization_event db rq superuser ''organization.updated''
          [(''old_name'', PStr (o_name old)), (''new_name'', PStr name)] (o_id org))))"

definition delete_organization :: "web_request \<Rightarrow> uuid \<Rightarrow> 'z org_db_scheme \<Rightarrow> organization result \<times> 'z org_db_scheme" where
  "delete_organization rq organization_id = as_superuser rq (\<lambda>superuser db.
    case organization_of db organization_id of
      None \<Rightarrow> (Inl (HTTPException 404 (''Organization '' @ uuid_str organization_id @ '' not found'')), db)
    | Some old \<Rightarrow>
       if \<not> o_is_active old
       then (Inl (HTTPException 409 (''Organization '' @ uuid_str organization_id @ '' is already deactivated'')), db)
       else let org = old\<lparr>o_is_active := False\<rparr>; (_, db) = utcnow db; db = put_organization org db
            in (Inr org, organization_event db rq superuser ''organization.deleted''
              [(''name'', PStr (o_name org)), (''slug'', PStr (o_slug org)), (''soft_delete'', PBool True)] (o_id org)))"

section \<open>Recovery with an inactive account\<close>

text \<open>An account that exists is made Admin as it is: with an inactive one the recovery reports success and the
  organization is still without an active Admin.\<close>

definition dormant_db :: org_db where
  "dormant_db = guest_db\<lparr>users := users guest_db @ [(hd (users guest_db))\<lparr>u_id := 5, u_email := ''old@x'', u_is_superuser := False, u_is_active := False\<rparr>]\<rparr>"

lemma recovery_of_an_inactive_account:
  "\<exists>out db'. recover_organization_admin (\<lambda>p. p) guest_request 1 ''old@x'' ''Admin'' dormant_db = (Inr out, db') \<and> ra_user_id out = 5
     \<and> \<not> active_admin db' 1 5"
  by (simp add: recover_organization_admin_def as_superuser_def transact_def io_bind_def io_return_def require_superuser_def guest_request_def
      dormant_db_def guest_db_def user_of_def active_admin_rows_def recovery_account_def make_admin_def add_binding_def utcnow_def uuid4_def
      write_event_def active_admin_def Let_def)

end
