(* ===== verification/Auth_Api.thy ===== *)
theory Auth_Api
  imports Superuser_Api Py_Json_Reader
begin

text \<open>
  Authentication: tokens (\<open>auth/local.py\<close>), the middleware that turns a cookie into a session
  (\<open>auth/middleware.py\<close>, \<open>auth/mtls_middleware.py\<close>) and the login, logout and invite routes (\<open>api/auth.py\<close>).

  bcrypt and PyJWT are parameters: \<open>hash_password\<close>, \<open>verify_password\<close>, and a record of the two JWT functions the
  code calls.  Which addresses lie in the networks of the machine's own interfaces is the argument \<open>in_cidrs\<close>,
  \<open>None\<close> for text that is no address.
\<close>

section \<open>Tokens\<close>

record token_claims =
  tc_sub :: string
  tc_session_id :: string
  tc_token_type :: string
  tc_exp :: datetime
  tc_iat :: datetime

datatype jwt_error = ExpiredSignatureError | InvalidTokenError

text \<open>\<open>jwt.encode\<close> and \<open>jwt.decode\<close> with the key and algorithm of the settings; decoding looks at the time.\<close>

record jwt_library =
  jwt_encode :: "token_claims \<Rightarrow> string"
  jwt_decode :: "int \<Rightarrow> string \<Rightarrow> jwt_error + dict"

record auth_settings =
  access_token_expire_minutes :: int
  refresh_token_expire_days :: int
  same_network_gate_enabled :: bool

definition make_token :: "jwt_library \<Rightarrow> string \<Rightarrow> string \<Rightarrow> string \<Rightarrow> int \<Rightarrow> 'z org_db_scheme \<Rightarrow> string \<times> 'z org_db_scheme" where
  "make_token jwt sub session_id token_type expires_delta db =
    (let (now, db) = utcnow db; (iat, db) = utcnow db
     in (jwt_encode jwt \<lparr>tc_sub = sub, tc_session_id = session_id, tc_token_type = token_type,
           tc_exp = plus_seconds now expires_delta, tc_iat = iat\<rparr>, db))"

definition create_access_token :: "jwt_library \<Rightarrow> auth_settings \<Rightarrow> uuid \<Rightarrow> string \<Rightarrow> 'z org_db_scheme \<Rightarrow> string \<times> 'z org_db_scheme" where
  "create_access_token jwt cfg user_id session_id =
    make_token jwt (uuid_str user_id) session_id ''access'' (access_token_expire_minutes cfg * 60)"

definition create_refresh_token :: "jwt_library \<Rightarrow> auth_settings \<Rightarrow> uuid \<Rightarrow> string \<Rightarrow> 'z org_db_scheme \<Rightarrow> string \<times> 'z org_db_scheme" where
  "create_refresh_token jwt cfg user_id session_id =
    make_token jwt (uuid_str user_id) session_id ''refresh'' (refresh_token_expire_days cfg * 86400)"

definition decode_access_token :: "jwt_library \<Rightarrow> int \<Rightarrow> string \<Rightarrow> dict result" where
  "decode_access_token jwt now token =
    (case jwt_decode jwt now token of
       Inl ExpiredSignatureError \<Rightarrow> Inl (Wolf SessionExpiredError ''Access token has expired'')
     | Inl InvalidTokenError \<Rightarrow> Inl (Wolf AuthenticationError ''Invalid access token'')
     | Inr payload \<Rightarrow>
        if dget payload ''token_type'' \<noteq> PStr ''access'' then Inl (Wolf AuthenticationError ''Not an access token'')
        else Inr payload)"

section \<open>The middleware\<close>

definition PUBLIC_PATHS :: "string list" where
  "PUBLIC_PATHS = [''/healthz'', ''/api/v1/auth/login'', ''/api/v1/auth/oidc/callback'', ''/docs'', ''/openapi.json'']"

text \<open>Either the request goes on with a session, or the middleware answers 401 and clears the cookie.\<close>

datatype gate = Proceed dict | Rejected string

definition session_of :: "dict \<Rightarrow> dict" where
  "session_of payload = [(''user_id'', dget payload ''sub''), (''session_id'', dget payload ''session_id''),
     (''iat'', dget payload ''iat''), (''exp'', dget payload ''exp'')]"

definition iat_micros :: "dict \<Rightarrow> int result" where
  "iat_micros payload = (case as_int (dget_or payload ''iat'' (PInt 0)) of
     None \<Rightarrow> Inl (PyError ''TypeError'' ''float() argument must be a string or a real number'') | Some s \<Rightarrow> Inr (s * 1000000))"

definition dispatch :: "jwt_library \<Rightarrow> int \<Rightarrow> string \<Rightarrow> string option \<Rightarrow> memory_blacklist \<Rightarrow> gate result \<times> memory_blacklist" where
  "dispatch jwt now path cookie bl =
    (if path \<in> set PUBLIC_PATHS \<or> startswith path ''/docs'' then (Inr (Proceed []), bl)
     else case cookie of None \<Rightarrow> (Inr (Proceed []), bl)
     | Some token \<Rightarrow>
        if token = [] then (Inr (Proceed []), bl)
        else case decode_access_token jwt now token of
          Inl (Wolf SessionExpiredError _) \<Rightarrow> (Inr (Rejected ''Session expired. Please log in again.''), bl)
        | Inl (Wolf AuthenticationError _) \<Rightarrow> (Inr (Rejected ''Invalid session token.''), bl)
        | Inl e \<Rightarrow> (Inl e, bl)
        | Inr payload \<Rightarrow>
           if truthy (dget payload ''session_id'') \<and> truthy (dget payload ''sub'')
           then (case iat_micros payload of Inl e \<Rightarrow> (Inl e, bl)
             | Inr iat \<Rightarrow>
                (let (revoked, bl) = is_revoked (py_str (dget payload ''session_id'')) (py_str (dget payload ''sub'')) iat bl
                 in (Inr (if revoked then Rejected ''Session revoked. Please log in again.'' else Proceed (session_of payload)), bl)))
           else (Inr (Proceed (session_of payload)), bl))"

text \<open>The mutual-TLS layer in front of it, over the parsed peer certificate: relative names as lists of attribute
  and value.\<close>

definition LOOPBACK_IPS :: "string list" where
  "LOOPBACK_IPS = [''127.0.0.1'', ''::1'']"

definition peer_cert_cn :: "(string \<times> string) list list option \<Rightarrow> string option" where
  "peer_cert_cn peer_cert = (case peer_cert of None \<Rightarrow> None
     | Some subject \<Rightarrow> map_option snd (find (\<lambda>(attr, v). attr = ''commonName'') (concat subject)))"

datatype mtls_gate = Pass "string option" | MtlsRequired | CnRejected string

definition mtls_dispatch :: "string list \<Rightarrow> string \<Rightarrow> string \<Rightarrow> string option \<Rightarrow> (string \<times> string) list list option \<Rightarrow> mtls_gate" where
  "mtls_dispatch allowed_cns http_method path client_host peer_cert =
    (if http_method = ''GET'' \<and> path = ''/healthz'' \<and> (\<exists>h \<in> set LOOPBACK_IPS. client_host = Some h) then Pass None
     else case peer_cert_cn peer_cert of
       None \<Rightarrow> MtlsRequired
     | Some cn \<Rightarrow> if cn \<notin> set allowed_cns then CnRejected cn else Pass (Some cn))"

section \<open>Login\<close>

definition SUPERUSER_USERNAME :: string where "SUPERUSER_USERNAME = ''Wolf''"

definition SUPERUSER_EMAIL :: string where "SUPERUSER_EMAIL = ''wolf@wolf.local''"

record membership_info =
  mi_organization_id :: uuid
  mi_organization_name :: string
  mi_role :: string

record login_response =
  lr_user_id :: uuid
  lr_email :: string
  lr_display_name :: string
  lr_is_superuser :: bool
  lr_redirect :: "string option"
  lr_auto_selected_organization :: "membership_info option"
  lr_needs_org_selection :: bool
  lr_memberships :: "membership_info list option"
  lr_verification_status :: string

definition active_bindings :: "'z org_db_scheme \<Rightarrow> uuid \<Rightarrow> (user_organization \<times> organization) list" where
  "active_bindings db user_id = [(m, org). m \<leftarrow> user_organizations db, org \<leftarrow> organizations db,
     o_id org = uo_organization_id m \<and> uo_user_id m = user_id \<and> o_is_active org]"

definition membership_info_of :: "user_organization \<times> organization \<Rightarrow> membership_info" where
  "membership_info_of = (\<lambda>(m, org). \<lparr>mi_organization_id = uo_organization_id m, mi_organization_name = o_name org, mi_role = uo_role m\<rparr>)"

definition audit_login_failure :: "'z org_db_scheme \<Rightarrow> string \<Rightarrow> string option \<Rightarrow> string \<Rightarrow> uuid option \<Rightarrow> 'z org_db_scheme" where
  "audit_login_failure db email source_ip reason user_id = snd (write_event db ''auth.login.failure''
     (Some [(''email'', PStr email), (''reason'', PStr reason)]) None user_id None source_ip None)"

text \<open>The shape of the response: the Superuser, a single membership, or a choice.\<close>

definition login_shape :: "'z org_db_scheme \<Rightarrow> user \<Rightarrow> (uuid option \<times> login_response) result" where
  "login_shape db user =
    (let r = \<lparr>lr_user_id = u_id user, lr_email = u_email user, lr_display_name = u_display_name user, lr_is_superuser = False,
           lr_redirect = None, lr_auto_selected_organization = None, lr_needs_org_selection = False, lr_memberships = None,
           lr_verification_status = u_verification_status user\<rparr>
     in if u_is_superuser user then Inr (None, r\<lparr>lr_is_superuser := True, lr_redirect := Some ''/superuser/dashboard''\<rparr>)
     else case active_bindings db (u_id user) of
       [] \<Rightarrow> Inl (HTTPException 401 ''User has no organization memberships. If this is unexpected, contact your organization admin.'')
     | [b] \<Rightarrow> Inr (Some (uo_organization_id (fst b)), r\<lparr>lr_auto_selected_organization := Some (membership_info_of b)\<rparr>)
     | bs \<Rightarrow> Inr (None, r\<lparr>lr_needs_org_selection := True, lr_memberships := Some (map membership_info_of bs)\<rparr>))"

definition login :: "(string \<Rightarrow> string \<Rightarrow> bool) \<Rightarrow> jwt_library \<Rightarrow> auth_settings \<Rightarrow> string \<Rightarrow> string \<Rightarrow> string option \<Rightarrow> 'z org_db_scheme
    \<Rightarrow> (login_response \<times> string \<times> string) result \<times> 'z org_db_scheme" where
  "login verify_password jwt cfg email password source_ip db =
    (let bad_credentials = HTTPException 401 ''Invalid email or password'';
         lookup_email = (if email = SUPERUSER_USERNAME then SUPERUSER_EMAIL else email)
     in case find (\<lambda>u. u_email u = lookup_email) (users db) of
       None \<Rightarrow> (Inl bad_credentials, rollback db (audit_login_failure db email source_ip ''user_not_found'' None))
     | Some user \<Rightarrow> (case u_hashed_password user of
         None \<Rightarrow> (Inl bad_credentials, rollback db (audit_login_failure db email source_ip ''user_not_found'' None))
       | Some hashed \<Rightarrow>
          if \<not> verify_password password hashed
          then (Inl bad_credentials, audit_login_failure db email source_ip ''wrong_password'' (Some (u_id user)))
          else if \<not> u_is_active user
          then (Inl (HTTPException 401 ''Account is inactive''), audit_login_failure db email source_ip ''user_inactive'' (Some (u_id user)))
          else (case login_shape db user of Inl e \<Rightarrow> (Inl e, db)
            | Inr (selected_organization_id, response) \<Rightarrow>
               (let (i, db) = uuid4 db; session_id = uuid_str i;
                    (access_token, db) = create_access_token jwt cfg (u_id user) session_id db;
                    (refresh_token, db) = create_refresh_token jwt cfg (u_id user) session_id db;
                    (_, db) = write_event db ''auth.login.success''
                      (Some [(''email'', PStr (u_email user)), (''method'', PStr ''local''),
                        (''needs_org_selection'', PBool (lr_needs_org_selection response))])
                      selected_organization_id (Some (u_id user)) (Some session_id) source_ip None
                in (Inr (response, access_token, refresh_token), db)))))"

section \<open>Session routes\<close>

definition session_user :: "web_request \<Rightarrow> uuid result" where
  "session_user rq = (let user_id_raw = dget (wr_session rq) ''user_id'' in
     if \<not> truthy user_id_raw then Inl (HTTPException 401 ''Not authenticated'')
     else case py_uuid (py_str user_id_raw) of
       None \<Rightarrow> Inl (PyError ''ValueError'' ''badly formed hexadecimal UUID string'') | Some u \<Rightarrow> Inr u)"

definition remaining_seconds :: "auth_settings \<Rightarrow> pyval \<Rightarrow> int \<Rightarrow> int result" where
  "remaining_seconds cfg exp_raw time =
    (if \<not> truthy exp_raw then Inr (access_token_expire_minutes cfg * 60)
     else case as_int exp_raw of
       None \<Rightarrow> Inl (PyError ''ValueError'' ''could not convert string to float'')
     | Some e \<Rightarrow> Inr ((e * 1000000 - time) div 1000000))"

text \<open>The organization the logout is recorded under: the header's, if the user has a binding there.\<close>

definition logout_organization :: "'z org_db_scheme \<Rightarrow> uuid \<Rightarrow> string option \<Rightarrow> uuid option" where
  "logout_organization db user_id header =
    (case header of None \<Rightarrow> None
     | Some header_raw \<Rightarrow> if header_raw = [] then None else
        (case py_uuid (py_strip header_raw) of None \<Rightarrow> None
         | Some candidate \<Rightarrow> if get_binding db candidate user_id \<noteq> None then Some candidate else None))"

definition logout :: "auth_settings \<Rightarrow> int \<Rightarrow> web_request \<Rightarrow> 'z org_db_scheme \<Rightarrow> memory_blacklist
    \<Rightarrow> unit result \<times> 'z org_db_scheme \<times> memory_blacklist" where
  "logout cfg time rq db bl =
    (let session_id = session_text (wr_session rq); user_id_raw = dget (wr_session rq) ''user_id'' in
     case (if session_id = [] then Inr bl
           else rbind (remaining_seconds cfg (dget (wr_session rq) ''exp'') time)
             (\<lambda>remaining. Inr (revoke_session session_id (max remaining 1) bl))) of
       Inl e \<Rightarrow> (Inl e, db, bl)
     | Inr bl \<Rightarrow>
        if \<not> truthy user_id_raw then (Inr (), db, bl)
        else case py_uuid (py_str user_id_raw) of
          None \<Rightarrow> (Inl (PyError ''ValueError'' ''badly formed hexadecimal UUID string''), db, bl)
        | Some user_id \<Rightarrow> (Inr (), snd (write_event db ''auth.logout'' None (logout_organization db user_id (wr_org_header rq))
            (Some user_id) (Some session_id) (wr_source_ip rq) None), bl))"

record me_response =
  me_user_id :: uuid
  me_email :: string
  me_display_name :: string
  me_organization_id :: "uuid option"
  me_role :: string
  me_verification_status :: string

definition me_of :: "user \<Rightarrow> uuid option \<Rightarrow> string \<Rightarrow> me_response" where
  "me_of user organization_id role = \<lparr>me_user_id = u_id user, me_email = u_email user, me_display_name = u_display_name user,
     me_organization_id = organization_id, me_role = role, me_verification_status = u_verification_status user\<rparr>"

definition me :: "web_request \<Rightarrow> 'z org_db_scheme \<Rightarrow> me_response result" where
  "me rq db = rbind (session_user rq) (\<lambda>user_id.
    case user_of db user_id of
      None \<Rightarrow> Inl (HTTPException 401 ''Stale session'')
    | Some user \<Rightarrow> (case wr_org_header rq of
        None \<Rightarrow> Inr (me_of user None (if u_is_superuser user then ''superuser'' else ''''))
      | Some header_raw \<Rightarrow> (case py_uuid (py_strip header_raw) of
          None \<Rightarrow> Inl (HTTPException 400 (''Invalid '' @ ORG_HEADER @ '' header: not a UUID''))
        | Some header_org_id \<Rightarrow> (case get_binding db header_org_id user_id of
            None \<Rightarrow> Inl not_a_member
          | Some binding \<Rightarrow> Inr (me_of user (Some header_org_id) (uo_role binding))))))"

definition my_organizations :: "web_request \<Rightarrow> 'z org_db_scheme \<Rightarrow> (uuid \<times> string \<times> string \<times> string) list result" where
  "my_organizations rq db = rbind (session_user rq) (\<lambda>user_id.
     Inr (map (\<lambda>(m, org). (o_id org, o_slug org, o_name org, uo_role m))
       (sort_key (\<lambda>(m, org). map cp (o_slug org)) (active_bindings db user_id))))"

definition record_org_choice :: "string \<Rightarrow> uuid \<Rightarrow> web_request \<Rightarrow> 'z org_db_scheme \<Rightarrow> membership_info result \<times> 'z org_db_scheme" where
  "record_org_choice event_type organization_id rq db =
    (case session_user rq of Inl e \<Rightarrow> (Inl e, db)
     | Inr user_id \<Rightarrow>
       (case find (\<lambda>(m, org). uo_organization_id m = organization_id) (active_bindings db user_id) of
          None \<Rightarrow> (Inl not_a_member, db)
        | Some b \<Rightarrow> (Inr (membership_info_of b), snd (write_event db event_type (Some [(''role'', PStr (uo_role (fst b)))])
            (Some organization_id) (Some user_id) (Some (session_text (wr_session rq))) (wr_source_ip rq) None))))"

definition select_organization :: "uuid \<Rightarrow> web_request \<Rightarrow> 'z org_db_scheme \<Rightarrow> membership_info result \<times> 'z org_db_scheme" where
  "select_organization = record_org_choice ''auth.organization.selected''"

definition switch_organization :: "uuid \<Rightarrow> web_request \<Rightarrow> 'z org_db_scheme \<Rightarrow> membership_info result \<times> 'z org_db_scheme" where
  "switch_organization = record_org_choice ''auth.organization.switched''"

section \<open>Invite verification\<close>

definition resolve_gate_client_ip :: "string option \<Rightarrow> string option \<Rightarrow> string option \<Rightarrow> string option" where
  "resolve_gate_client_ip mtls_cert_cn header_ip source_ip =
    (if mtls_cert_cn \<noteq> None \<and> (\<exists>h. header_ip = Some h \<and> h \<noteq> []) then header_ip else source_ip)"

definition normalise :: "string \<Rightarrow> string" where
  "normalise ip = (let s = py_strip ip in
     if startswith (py_lower s) ''::ffff:'' \<and> CHR ''.'' \<in> set s then drop 7 s
     else takeWhile (\<lambda>c. c \<noteq> CHR ''%'') s)"

definition client_ip_in_local_network :: "(string \<Rightarrow> bool option) \<Rightarrow> string option \<Rightarrow> bool" where
  "client_ip_in_local_network in_cidrs ip =
    (case ip of None \<Rightarrow> False
     | Some s \<Rightarrow> if s = [] then False else (case in_cidrs (normalise s) of None \<Rightarrow> False | Some b \<Rightarrow> b))"

definition invite_failure :: "user \<Rightarrow> string \<Rightarrow> 'z org_db_scheme \<Rightarrow> string option \<times> 'z org_db_scheme" where
  "invite_failure user token db =
    (case u_verification_token_hash user of
       None \<Rightarrow> (Some ''no_token'', db)
     | Some h \<Rightarrow> (case u_verification_token_expires_at user of
         None \<Rightarrow> (Some ''expired'', db)
       | Some d \<Rightarrow> (let (now, db) = utcnow db in
           (if instant (as_utc d) \<le> instant now then Some ''expired''
            else if \<not> verify_invite_token token h then Some ''invalid_token'' else None, db))))"

definition invite_event :: "'z org_db_scheme \<Rightarrow> web_request \<Rightarrow> user \<Rightarrow> string \<Rightarrow> dict \<Rightarrow> 'z org_db_scheme" where
  "invite_event db rq user event_type event_data = snd (write_event db event_type (Some event_data) None (Some (u_id user))
     (Some (session_text (wr_session rq))) (wr_source_ip rq) None)"

definition verify_invite :: "auth_settings \<Rightarrow> (string \<Rightarrow> bool option) \<Rightarrow> string \<Rightarrow> string option \<Rightarrow> string option \<Rightarrow> web_request
    \<Rightarrow> 'z org_db_scheme \<Rightarrow> me_response result \<times> 'z org_db_scheme" where
  "verify_invite cfg in_cidrs token mtls_cert_cn header_ip rq db =
    (case session_user rq of Inl e \<Rightarrow> (Inl e, db)
     | Inr user_id \<Rightarrow>
       (case user_of db user_id of
          None \<Rightarrow> (Inl (HTTPException 401 ''Stale session''), db)
        | Some user \<Rightarrow>
           if u_verification_status user = ''verified'' then (Inl (HTTPException 409 ''Your account is already verified.''), db)
           else (case invite_failure user token db of
               (Some failure_reason, db) \<Rightarrow>
                 (Inl (HTTPException 403 (if failure_reason = ''expired''
                    then ''This invitation link has expired. Ask your administrator to send a new one.''
                    else ''That invitation link isn't valid. Check it and try again, or ask your administrator to send a new one.'')),
                  invite_event db rq user ''auth.invite_verification.failed'' [(''reason'', PStr failure_reason)])
             | (None, db) \<Rightarrow>
                if same_network_gate_enabled cfg
                  \<and> \<not> client_ip_in_local_network in_cidrs (resolve_gate_client_ip mtls_cert_cn header_ip (wr_source_ip rq))
                then (Inl (HTTPException 403 ''Verify from a device on Wolf's network. This invitation link only works from inside your organization's network.''),
                  invite_event db rq user ''auth.invite_verification.failed'' [(''reason'', PStr ''wrong_network'')])
                else let (_, db) = utcnow db;
                         user = user\<lparr>u_verification_status := ''verified'', u_verification_token_hash := None,
                           u_verification_token_expires_at := None\<rparr>;
                         db = put_user user db
                     in (Inr (me_of user None (if u_is_superuser user then ''superuser'' else '''')),
                       invite_event db rq user ''auth.invite_verification.succeeded'' []))))"

section \<open>Bootstrap of the Superuser\<close>

text \<open>The exit code and the printed password, if any.\<close>

definition ensure_superuser :: "(string \<Rightarrow> string) \<Rightarrow> bool \<Rightarrow> 'z org_db_scheme \<Rightarrow> (nat \<times> string option) result \<times> 'z org_db_scheme" where
  "ensure_superuser hash_password rotate_password = transact (\<lambda>db.
    let existing = find (\<lambda>u. u_is_superuser u \<and> u_email u = SUPERUSER_EMAIL) (users db);
        event_data = Some [(''username'', PStr SUPERUSER_USERNAME), (''via'', PStr ''bootstrap_superuser'')]
    in case existing of
      Some u \<Rightarrow>
        if rotate_password
        then let (password, db) = token_urlsafe db; (_, db) = utcnow db;
                 db = put_user (u\<lparr>u_hashed_password := Some (hash_password password), u_is_active := True\<rparr>) db;
                 (_, db) = write_event db ''superuser.password.rotated'' event_data None (Some (u_id u)) None None None
             in (Inr (0, Some password), db)
        else (Inr (0, None), db)
    | None \<Rightarrow>
        if rotate_password then (Inr (3, None), db)
        else let (password, db) = token_urlsafe db; (i, db) = uuid4 db; (now, db) = utcnow db; (_, db) = utcnow db;
                 user = \<lparr>u_id = i, u_email = SUPERUSER_EMAIL, u_display_name = SUPERUSER_USERNAME,
                   u_hashed_password = Some (hash_password password), u_oidc_sub = None, u_is_active = True,
                   u_is_superuser = True, u_verification_status = ''verified'', u_verification_token_hash = None,
                   u_verification_token_expires_at = None, u_created_at = now\<rparr>
             in case add_user user db of Inl e \<Rightarrow> (Inl e, db)
             | Inr db \<Rightarrow> (Inr (0, Some password), snd (write_event db ''superuser.bootstrap.created'' event_data None
                 (Some (u_id user)) None None None)))"

section \<open>A session from login to logout\<close>

text \<open>What PyJWT documents of a token it made itself: times become whole seconds, and decoding returns the claims from
  the issue time until the expiry.\<close>

definition whole_seconds :: "datetime \<Rightarrow> int" where
  "whole_seconds d = instant d div 1000000"

definition claims_dict :: "token_claims \<Rightarrow> dict" where
  "claims_dict c = [(''sub'', PStr (tc_sub c)), (''session_id'', PStr (tc_session_id c)), (''token_type'', PStr (tc_token_type c)),
     (''exp'', PInt (whole_seconds (tc_exp c))), (''iat'', PInt (whole_seconds (tc_iat c)))]"

definition jwt_faithful :: "jwt_library \<Rightarrow> bool" where
  "jwt_faithful jwt \<longleftrightarrow> (\<forall>c now. jwt_encode jwt c \<noteq> [] \<and> (whole_seconds (tc_iat c) * 1000000 \<le> now \<longrightarrow>
     jwt_decode jwt now (jwt_encode jwt c) =
       (if now < whole_seconds (tc_exp c) * 1000000 then Inr (claims_dict c) else Inl ExpiredSignatureError)))"

text \<open>The session \<open>login\<close> opens: its claims, from the readings it takes.\<close>

definition access_claims :: "auth_settings \<Rightarrow> user \<Rightarrow> 'z org_db_scheme \<Rightarrow> token_claims" where
  "access_claims cfg user db = \<lparr>tc_sub = uuid_str (u_id user), tc_session_id = uuid_str (uuid_source db 0), tc_token_type = ''access'',
     tc_exp = Aware (clock db 0 + access_token_expire_minutes cfg * 60 * 1000000), tc_iat = Aware (clock db 1)\<rparr>"

lemma login_Inr:
  assumes "login verify_password jwt cfg email password ip db = (Inr (resp, access, refresh), db')"
  shows "\<exists>user \<in> set (users db). u_is_active user \<and> (\<exists>h. u_hashed_password user = Some h \<and> verify_password password h)
    \<and> lr_user_id resp = u_id user \<and> access = jwt_encode jwt (access_claims cfg user db)
    \<and> (\<exists>c. refresh = jwt_encode jwt c \<and> tc_token_type c = ''refresh'' \<and> tc_iat c = Aware (clock db 3)
        \<and> tc_exp c = Aware (clock db 2 + refresh_token_expire_days cfg * 86400 * 1000000))"
proof -
  obtain user h where u: "find (\<lambda>u. u_email u = (if email = SUPERUSER_USERNAME then SUPERUSER_EMAIL else email)) (users db) = Some user"
      "u_hashed_password user = Some h" "verify_password password h" "u_is_active user"
    using assms by (auto simp: login_def Let_def split: option.splits if_splits)
  obtain sel where s: "login_shape db user = Inr (sel, resp)"
    using assms u by (auto simp: login_def Let_def split_beta split: sum.splits)
  have "lr_user_id resp = u_id user" using s by (auto simp: login_shape_def Let_def split: if_splits list.splits)
  moreover have "access = jwt_encode jwt (access_claims cfg user db)"
    "refresh = jwt_encode jwt \<lparr>tc_sub = uuid_str (u_id user), tc_session_id = uuid_str (uuid_source db 0), tc_token_type = ''refresh'',
       tc_exp = Aware (clock db 2 + refresh_token_expire_days cfg * 86400 * 1000000), tc_iat = Aware (clock db 3)\<rparr>"
    using assms u s by (auto simp: login_def Let_def split_beta create_access_token_def create_refresh_token_def make_token_def utcnow_def uuid4_def
        access_claims_def plus_seconds_def numeral_2_eq_2 numeral_3_eq_3)
  moreover have "user \<in> set (users db)" using u(1) by (auto dest: find_SomeD)
  ultimately show ?thesis using u(2-4) by (intro bexI [of _ user]) auto
qed

lemma dispatch_own_token:
  assumes "jwt_faithful jwt" "path \<notin> set PUBLIC_PATHS" "\<not> startswith path ''/docs''"
    and "whole_seconds (tc_iat c) * 1000000 \<le> now" "now < whole_seconds (tc_exp c) * 1000000"
  shows "tc_token_type c \<noteq> ''access'' \<Longrightarrow> dispatch jwt now path (Some (jwt_encode jwt c)) bl = (Inr (Rejected ''Invalid session token.''), bl)"
    and "tc_token_type c = ''access'' \<Longrightarrow> tc_sub c \<noteq> [] \<Longrightarrow> tc_session_id c \<noteq> [] \<Longrightarrow>
      dispatch jwt now path (Some (jwt_encode jwt c)) bl =
        (let (revoked, bl) = is_revoked (tc_session_id c) (tc_sub c) (whole_seconds (tc_iat c) * 1000000) bl
         in (Inr (if revoked then Rejected ''Session revoked. Please log in again.'' else Proceed (session_of (claims_dict c))), bl))"
proof -
  have dec: "jwt_decode jwt now (jwt_encode jwt c) = Inr (claims_dict c)" "jwt_encode jwt c \<noteq> []"
    using assms(1,4,5) by (auto simp: jwt_faithful_def)
  show "dispatch jwt now path (Some (jwt_encode jwt c)) bl = (Inr (Rejected ''Invalid session token.''), bl)" if "tc_token_type c \<noteq> ''access''"
    using assms(2,3) dec that by (simp add: dispatch_def decode_access_token_def claims_dict_def)
  show "dispatch jwt now path (Some (jwt_encode jwt c)) bl =
        (let (revoked, bl) = is_revoked (tc_session_id c) (tc_sub c) (whole_seconds (tc_iat c) * 1000000) bl
         in (Inr (if revoked then Rejected ''Session revoked. Please log in again.'' else Proceed (session_of (claims_dict c))), bl))"
    if "tc_token_type c = ''access''" "tc_sub c \<noteq> []" "tc_session_id c \<noteq> []"
    using assms(2,3) dec that by (simp add: dispatch_def decode_access_token_def claims_dict_def iat_micros_def dget_or_def split_beta Let_def)
qed

text \<open>C25: A login opens exactly the session of its user.  With the cookie of a successful login, on a protected path,
  until the token expires and unless it was revoked, the middleware lets the request through with a session whose
  user is the active account whose password was verified; the refresh token is not accepted in its place.\<close>

theorem login_opens_session:
  assumes "login verify_password jwt cfg email password ip db = (Inr (resp, access, refresh), db')" and "jwt_faithful jwt"
    and "path \<notin> set PUBLIC_PATHS" "\<not> startswith path ''/docs''" and "clock db 1 \<le> now" "clock db 3 \<le> now"
    and "now < (clock db 0 div 1000000 + access_token_expire_minutes cfg * 60) * 1000000"
    and "now < (clock db 2 div 1000000 + refresh_token_expire_days cfg * 86400) * 1000000"
    and "\<not> fst (is_revoked (uuid_str (uuid_source db 0)) (uuid_str (lr_user_id resp)) (clock db 1 div 1000000 * 1000000) bl)"
  shows "(\<exists>session. fst (dispatch jwt now path (Some access) bl) = Inr (Proceed session)
      \<and> session_user \<lparr>wr_session = session, wr_org_header = hdr, wr_source_ip = sip\<rparr> = Inr (lr_user_id resp)
      \<and> session_text session = uuid_str (uuid_source db 0))
    \<and> (\<exists>u \<in> set (users db). u_id u = lr_user_id resp \<and> u_is_active u \<and> (\<exists>h. u_hashed_password u = Some h \<and> verify_password password h))
    \<and> dispatch jwt now path (Some refresh) bl = (Inr (Rejected ''Invalid session token.''), bl)"
proof -
  obtain user c where user: "user \<in> set (users db)" "u_is_active user" "\<exists>h. u_hashed_password user = Some h \<and> verify_password password h"
      "lr_user_id resp = u_id user" and acc: "access = jwt_encode jwt (access_claims cfg user db)"
    and ref: "refresh = jwt_encode jwt c" "tc_token_type c = ''refresh''" "tc_iat c = Aware (clock db 3)"
      "tc_exp c = Aware (clock db 2 + refresh_token_expire_days cfg * 86400 * 1000000)"
    using login_Inr [OF assms(1)] by blast
  have secs: "whole_seconds (Aware (t + n * 1000000)) = t div 1000000 + n" "t div 1000000 * 1000000 \<le> (t :: int)" for t n
    by (simp_all add: whole_seconds_def)
  have "whole_seconds (tc_iat (access_claims cfg user db)) * 1000000 \<le> now" "now < whole_seconds (tc_exp (access_claims cfg user db)) * 1000000"
    using assms(5,7) secs(2) [of "clock db 1"] unfolding access_claims_def token_claims.simps secs(1) by (simp_all add: whole_seconds_def)
  note own = dispatch_own_token [OF assms(2-4) this]
  have "whole_seconds (tc_iat c) * 1000000 \<le> now" "now < whole_seconds (tc_exp c) * 1000000"
    using assms(6,8) secs(2) [of "clock db 3"] unfolding ref secs(1) by (simp_all add: whole_seconds_def)
  note refresh = dispatch_own_token(1) [OF assms(2-4) this]
  have "fst (dispatch jwt now path (Some access) bl) = Inr (Proceed (session_of (claims_dict (access_claims cfg user db))))"
    using own(2) [of bl] assms(9) user(4) by (simp add: acc access_claims_def whole_seconds_def split_beta Let_def)
  moreover have "session_user \<lparr>wr_session = session_of (claims_dict (access_claims cfg user db)), wr_org_header = hdr, wr_source_ip = sip\<rparr> = Inr (lr_user_id resp)"
      "session_text (session_of (claims_dict (access_claims cfg user db))) = uuid_str (uuid_source db 0)"
    by (simp_all add: session_user_def session_of_def claims_dict_def access_claims_def session_text_def dget_or_def user(4))
  ultimately show ?thesis using user refresh ref by auto
qed

text \<open>What logout puts on the blacklist, and what the middleware finds there.\<close>

lemma revoke_session_finds:
  assumes "mb_mono bl 2 < mb_mono bl 1 + seconds ttl"
  shows "fst (is_revoked sid uid iat (revoke_session sid ttl bl))"
proof -
  let ?e = "mb_mono bl 1 + seconds ttl"
  have "map_of (mb_sessions (revoke_session sid ttl bl)) sid = Some ?e"
    by (simp add: revoke_session_def read_mono_def Let_def update_conv')
  then have "map_of (filter (\<lambda>(sid, e). e > mb_mono bl 2) (mb_sessions (revoke_session sid ttl bl))) sid = Some ?e"
    using map_of_filter_value [of _ sid ?e "\<lambda>e. e > mb_mono bl 2"] assms by simp
  moreover have "mb_mono (revoke_session sid ttl bl) 0 = mb_mono bl 2"
    by (simp add: revoke_session_def read_mono_def Let_def numeral_2_eq_2)
  ultimately show ?thesis by (simp add: is_revoked_def purge_def read_mono_def Let_def case_prod_unfold)
qed

lemma logout_blacklist:
  assumes "0 < whole_seconds (tc_exp c)" "tc_session_id c \<noteq> []" "wr_session rq = session_of (claims_dict c)"
  shows "snd (snd (logout cfg time rq db bl)) =
    revoke_session (tc_session_id c) (max ((whole_seconds (tc_exp c) * 1000000 - time) div 1000000) 1) bl"
  using assms by (simp add: logout_def session_text_def session_of_def claims_dict_def dget_or_def remaining_seconds_def Let_def split: option.splits)


section \<open>Witnesses\<close>

text \<open>A token library that writes the claims in the clear.\<close>

definition plain_jwt :: jwt_library where
  "plain_jwt = \<lparr>jwt_encode = (\<lambda>c. json_dumps_default (PDict (claims_dict c))),
     jwt_decode = (\<lambda>now token. case json_loads token of Some (PDict d) \<Rightarrow>
       (case as_int (dget d ''exp'') of Some e \<Rightarrow> if now < e * 1000000 then Inr d else Inl ExpiredSignatureError | None \<Rightarrow> Inl InvalidTokenError)
     | _ \<Rightarrow> Inl InvalidTokenError)\<rparr>"

lemma plain_jwt_faithful: "jwt_faithful plain_jwt"
proof -
  have "json_loads (json_dumps_default (PDict (claims_dict c))) = Some (PDict (claims_dict c))" for c
    by (rule json_loads_dumps) (simp add: claims_dict_def)
  moreover have "json_dumps_default (PDict (claims_dict c)) \<noteq> []" for c by simp
  ultimately show ?thesis by (simp add: jwt_faithful_def plain_jwt_def claims_dict_def del: json_dumps_default.simps)
qed

definition session_claims :: token_claims where
  "session_claims = \<lparr>tc_sub = uuid_str 2, tc_session_id = uuid_str 7, tc_token_type = ''access'', tc_exp = Aware 20000000, tc_iat = Aware 0\<rparr>"

definition session_request :: web_request where
  "session_request = \<lparr>wr_session = session_of (claims_dict session_claims), wr_org_header = None, wr_source_ip = None\<rparr>"

definition beginner_settings :: auth_settings where
  "beginner_settings = \<lparr>access_token_expire_minutes = 60, refresh_token_expire_days = 7, same_network_gate_enabled = True\<rparr>"


definition member_db :: org_db where
  "member_db = guest_db\<lparr>users := [\<lparr>u_id = 2, u_email = ''root@x'', u_display_name = ''Root'', u_hashed_password = Some ''pw'', u_oidc_sub = None,
       u_is_active = True, u_is_superuser = True, u_verification_status = ''verified'', u_verification_token_hash = None,
       u_verification_token_expires_at = None, u_created_at = Aware 0\<rparr>]\<rparr>"

theorem login_opens_session_witness:
  "\<exists>resp access refresh db' session. login (\<lambda>p h. p = h) plain_jwt beginner_settings ''root@x'' ''pw'' None member_db = (Inr (resp, access, refresh), db')
     \<and> fst (dispatch plain_jwt 5 ''/api/v1/auth/me'' (Some access) quiet_blacklist) = Inr (Proceed session)
     \<and> session_user \<lparr>wr_session = session, wr_org_header = None, wr_source_ip = None\<rparr> = Inr 2"
proof -
  have "\<exists>resp access refresh db'. login (\<lambda>p h. p = h) plain_jwt beginner_settings ''root@x'' ''pw'' None member_db = (Inr (resp, access, refresh), db')
      \<and> lr_user_id resp = 2"
    by (simp add: login_def member_db_def login_shape_def split_beta Let_def SUPERUSER_USERNAME_def del: json_dumps_default.simps)
  then obtain resp access refresh db' where l: "login (\<lambda>p h. p = h) plain_jwt beginner_settings ''root@x'' ''pw'' None member_db = (Inr (resp, access, refresh), db')"
    and who: "lr_user_id resp = 2" by blast
  have t: "clock member_db n = int n" for n by (simp add: member_db_def guest_db_def)
  have "\<not> fst (is_revoked sid uid iat quiet_blacklist)" for sid uid iat
    by (simp add: is_revoked_def quiet_blacklist_def purge_def read_mono_def Let_def)
  with login_opens_session [OF l plain_jwt_faithful, of "''/api/v1/auth/me''" 5 quiet_blacklist None None] l who show ?thesis
    by (auto simp: PUBLIC_PATHS_def startswith_def t beginner_settings_def)
qed

text \<open>The rounding matters: a session that was logged out 10.5 seconds before its token expires is accepted again in the
  last half second.\<close>

lemma logout_rounding_gap:
  "fst (dispatch plain_jwt 19700000 ''/api/v1/auth/me'' (Some (jwt_encode plain_jwt session_claims))
     (snd (snd (logout beginner_settings 9500000 session_request guest_db
       (quiet_blacklist\<lparr>mb_mono := \<lambda>n. if n < 2 then 9500000 else 19700000\<rparr>))))) =
   Inr (Proceed (session_of (claims_dict session_claims)))"
proof -
  let ?bl = "quiet_blacklist\<lparr>mb_mono := \<lambda>n. if n < 2 then 9500000 else 19700000\<rparr>"
  have out: "snd (snd (logout beginner_settings 9500000 session_request guest_db ?bl)) = revoke_session (uuid_str 7) 10 ?bl"
    using logout_blacklist [of session_claims session_request beginner_settings 9500000 guest_db ?bl]
    by (simp add: session_claims_def whole_seconds_def session_request_def)
  have "\<not> fst (is_revoked (uuid_str 7) uid iat (revoke_session (uuid_str 7) 10 ?bl))" for uid iat
    by (simp add: is_revoked_def revoke_session_def purge_def read_mono_def quiet_blacklist_def seconds_def Let_def)
  moreover have "dispatch plain_jwt 19700000 ''/api/v1/auth/me'' (Some (jwt_encode plain_jwt session_claims)) bl =
        (let (revoked, bl) = is_revoked (tc_session_id session_claims) (tc_sub session_claims) (whole_seconds (tc_iat session_claims) * 1000000) bl
         in (Inr (if revoked then Rejected ''Session revoked. Please log in again.'' else Proceed (session_of (claims_dict session_claims))), bl))" for bl
    by (rule dispatch_own_token(2) [OF plain_jwt_faithful])
      (simp_all add: PUBLIC_PATHS_def startswith_def session_claims_def whole_seconds_def)
  ultimately show ?thesis unfolding out by (simp add: split_beta Let_def session_claims_def)
qed

text \<open>A failed login with an unknown address leaves no trace: its audit event is written but not committed, unlike that of a
  wrong password.\<close>

lemma unknown_login_leaves_no_event:
  assumes "find (\<lambda>u. u_email u = email) (users db) = None" "email \<noteq> SUPERUSER_USERNAME"
  shows "audit_events (snd (login verify_password jwt cfg email password ip db)) = audit_events db"
  using assms by (simp add: login_def Let_def rollback_def)

end
