(* ===== verification/Consent.thy ===== *)
theory Consent
  imports Org_Management
begin

text \<open>
  The membership tables as an abstract machine: users, bindings and access requests, with the moves the
  organization governance allows, the invariant they keep, and the life cycle of a Superuser grant.
  \<open>Governance\<close> shows that every request handler is a sequence of these moves.
\<close>

section \<open>Invariants along runs\<close>

locale preserved =
  fixes step :: "'s \<Rightarrow> 's \<Rightarrow> bool" and inv :: "'s \<Rightarrow> bool"
  assumes step_keeps: "step s t \<Longrightarrow> inv s \<Longrightarrow> inv t"
begin

lemma run_keeps: "step\<^sup>*\<^sup>* s t \<Longrightarrow> inv s \<Longrightarrow> inv t"
  by (induction rule: rtranclp_induct) (auto intro: step_keeps)

end

section \<open>Tables\<close>

type_synonym gov = "user list \<times> user_organization list \<times> superuser_access_request list"

definition gov_of :: "'z org_db_scheme \<Rightarrow> gov" where
  "gov_of db = (users db, user_organizations db, access_requests db)"

text \<open>An approved request that stands behind a Superuser binding.\<close>

definition backs :: "superuser_access_request \<Rightarrow> user_organization \<Rightarrow> bool" where
  "backs r m \<longleftrightarrow> sar_status r = ''approved'' \<and> sar_organization_id r = uo_organization_id m
     \<and> sar_superuser_user_id r = uo_user_id m \<and> sar_granted_expires_at r = uo_expires_at m \<and> sar_decided_by_user_id r \<noteq> None"

text \<open>An active admin among the rows.\<close>

definition admin_in :: "user list \<Rightarrow> user_organization list \<Rightarrow> uuid \<Rightarrow> uuid \<Rightarrow> bool" where
  "admin_in us bs org uid \<longleftrightarrow> (\<exists>m \<in> set bs. \<exists>u \<in> set us. uo_user_id m = uid \<and> u_id u = uid \<and> uo_organization_id m = org
     \<and> uo_role m = ''admin'' \<and> u_is_active u)"

definition statuses :: "string set" where
  "statuses = {''pending'', ''approved'', ''rejected'', ''cancelled'', ''revoked'', ''expired''}"

definition pair_of :: "user_organization \<Rightarrow> uuid \<times> uuid" where
  "pair_of m = (uo_user_id m, uo_organization_id m)"

text \<open>What a binding needs: a user, and for the Superuser's role a request that was approved.\<close>

definition binding_ok :: "user set \<Rightarrow> superuser_access_request set \<Rightarrow> user_organization \<Rightarrow> bool" where
  "binding_ok U R m \<longleftrightarrow> (\<exists>u \<in> U. u_id u = uo_user_id m \<and> u_is_superuser u = (uo_role m = ''superuser''))
     \<and> (if uo_role m = ''superuser'' then \<exists>r \<in> R. backs r m else uo_role m \<in> set ASSIGNABLE_ROLES \<and> uo_expires_at m = None)"

definition request_ok :: "user set \<Rightarrow> user_organization set \<Rightarrow> superuser_access_request \<Rightarrow> bool" where
  "request_ok U B r \<longleftrightarrow> sar_status r \<in> statuses \<and> (\<exists>u \<in> U. u_id u = sar_superuser_user_id r \<and> u_is_superuser u)
     \<and> (sar_status r = ''approved'' \<longrightarrow> (\<exists>m \<in> B. uo_role m = ''superuser'' \<and> backs r m))"

definition gov_inv :: "user set \<Rightarrow> user_organization set \<Rightarrow> superuser_access_request set \<Rightarrow> bool" where
  "gov_inv U B R \<longleftrightarrow> (\<forall>m \<in> B. binding_ok U R m) \<and> (\<forall>r \<in> R. request_ok U B r)
     \<and> (\<forall>m \<in> B. \<forall>m' \<in> B. uo_role m = ''superuser'' \<longrightarrow> uo_role m' = ''superuser'' \<longrightarrow> uo_organization_id m = uo_organization_id m' \<longrightarrow> m = m')
     \<and> (\<forall>r \<in> R. \<forall>r' \<in> R. sar_status r \<in> {''pending'', ''approved''} \<longrightarrow> sar_status r' = sar_status r
          \<longrightarrow> sar_organization_id r = sar_organization_id r' \<longrightarrow> sar_superuser_user_id r = sar_superuser_user_id r' \<longrightarrow> r = r')"

fun gov_ok :: "gov \<Rightarrow> bool" where
  "gov_ok (us, bs, rs) \<longleftrightarrow> distinct (map u_id us) \<and> distinct (map u_email us) \<and> distinct (map uo_id bs) \<and> distinct (map pair_of bs)
     \<and> distinct (map sar_id rs) \<and> gov_inv (set us) (set bs) (set rs)"

section \<open>Moves\<close>

text \<open>The end of a grant: the binding goes, and the approved request behind it is marked.\<close>

inductive lapse :: "gov \<Rightarrow> gov \<Rightarrow> bool" where
  "m \<in> set bs \<Longrightarrow> uo_role m = ''superuser'' \<Longrightarrow> r \<in> set rs \<Longrightarrow> backs r m \<Longrightarrow> st \<in> {''expired'', ''revoked''} \<Longrightarrow>
   lapse (us, bs, rs) (us, filter (\<lambda>m'. uo_id m' \<noteq> uo_id m) bs,
     replace_by sar_id (r\<lparr>sar_status := st, sar_ended_at := Some t\<rparr>) rs)"

text \<open>A grant: an active admin of the organization approves a pending request while no Superuser binding is there.\<close>

inductive grant :: "gov \<Rightarrow> gov \<Rightarrow> bool" where
  "r \<in> set rs \<Longrightarrow> sar_status r = ''pending'' \<Longrightarrow> admin_in us bs (sar_organization_id r) a \<Longrightarrow>
   (\<forall>m \<in> set bs. uo_organization_id m = sar_organization_id r \<longrightarrow> uo_role m \<noteq> ''superuser'') \<Longrightarrow>
   uo_id b \<notin> uo_id ` set bs \<Longrightarrow> pair_of b \<notin> pair_of ` set bs \<Longrightarrow> uo_role b = ''superuser'' \<Longrightarrow>
   uo_user_id b = sar_superuser_user_id r \<Longrightarrow> uo_organization_id b = sar_organization_id r \<Longrightarrow>
   grant (us, bs, rs) (us, bs @ [b], replace_by sar_id (r\<lparr>sar_status := ''approved'', sar_decided_at := Some t,
     sar_decided_by_user_id := Some a, sar_granted_expires_at := uo_expires_at b\<rparr>) rs)"

text \<open>Everything else; none of these gives the Superuser a binding.\<close>

inductive quiet :: "gov \<Rightarrow> gov \<Rightarrow> bool" where
  lapse: "lapse g g' \<Longrightarrow> quiet g g'"
| new_user: "u_id u \<notin> u_id ` set us \<Longrightarrow> u_email u \<notin> u_email ` set us \<Longrightarrow> quiet (us, bs, rs) (us @ [u], bs, rs)"
| amend_user: "u \<in> set us \<Longrightarrow> u_id u' = u_id u \<Longrightarrow> u_email u' = u_email u \<Longrightarrow> u_is_superuser u' = u_is_superuser u \<Longrightarrow>
    (u_is_active u \<longrightarrow> u_is_active u') \<Longrightarrow> quiet (us, bs, rs) (replace_by u_id u' us, bs, rs)"
| join: "uo_id b \<notin> uo_id ` set bs \<Longrightarrow> pair_of b \<notin> pair_of ` set bs \<Longrightarrow> uo_role b \<in> set ASSIGNABLE_ROLES \<Longrightarrow> uo_expires_at b = None \<Longrightarrow>
    u \<in> set us \<Longrightarrow> u_id u = uo_user_id b \<Longrightarrow> \<not> u_is_superuser u \<Longrightarrow> quiet (us, bs, rs) (us, bs @ [b], rs)"
| assign: "m \<in> set bs \<Longrightarrow> uo_role m \<noteq> ''superuser'' \<Longrightarrow> role \<in> set ASSIGNABLE_ROLES \<Longrightarrow>
    (uo_role m = ''admin'' \<longrightarrow> role = ''admin'' \<or> (\<exists>a. a \<noteq> uo_user_id m \<and> admin_in us bs (uo_organization_id m) a)) \<Longrightarrow>
    quiet (us, bs, rs) (us, replace_by uo_id (m\<lparr>uo_role := role\<rparr>) bs, rs)"
| leave: "m \<in> set bs \<Longrightarrow> uo_role m \<noteq> ''superuser'' \<Longrightarrow>
    (uo_role m = ''admin'' \<longrightarrow> (\<exists>a. a \<noteq> uo_user_id m \<and> admin_in us bs (uo_organization_id m) a)) \<Longrightarrow>
    quiet (us, bs, rs) (us, filter (\<lambda>m'. uo_id m' \<noteq> uo_id m) bs, rs)"
| ask: "sar_id r \<notin> sar_id ` set rs \<Longrightarrow> sar_status r = ''pending'' \<Longrightarrow> u \<in> set us \<Longrightarrow> u_id u = sar_superuser_user_id r \<Longrightarrow> u_is_superuser u \<Longrightarrow>
    (\<forall>q \<in> set rs. sar_organization_id q = sar_organization_id r \<longrightarrow> sar_superuser_user_id q = sar_superuser_user_id r \<longrightarrow> sar_status q \<noteq> ''pending'') \<Longrightarrow>
    quiet (us, bs, rs) (us, bs, rs @ [r])"
| settle: "r \<in> set rs \<Longrightarrow> sar_status r = ''pending'' \<Longrightarrow> st \<in> {''rejected'', ''cancelled''} \<Longrightarrow>
    quiet (us, bs, rs) (us, bs, replace_by sar_id (r\<lparr>sar_status := st, sar_decided_at := t, sar_decided_by_user_id := d\<rparr>) rs)"

definition gov_move :: "gov \<Rightarrow> gov \<Rightarrow> bool" where
  "gov_move g g' \<longleftrightarrow> quiet g g' \<or> grant g g'"

section \<open>Rows with distinct keys\<close>

lemma set_replace_by:
  assumes "distinct (map key xs)" "x \<in> set xs" "key y = key x"
  shows "set (replace_by key y xs) = insert y (set xs - {x})"
  using assms by (auto simp: replace_by_def distinct_map inj_on_def split: if_splits)

lemma set_filter_key:
  assumes "distinct (map key xs)" "x \<in> set xs"
  shows "set (filter (\<lambda>y. key y \<noteq> key x) xs) = set xs - {x}"
  using assms by (auto simp: distinct_map inj_on_def)

lemma map_replace_by:
  assumes "distinct (map key xs)" "x \<in> set xs" "key y = key x" "f y = f x"
  shows "map f (replace_by key y xs) = map f xs"
  using assms by (auto simp: replace_by_def distinct_map inj_on_def)

section \<open>The invariant is kept\<close>

lemma gov_inv_user:
  assumes "gov_inv U B R" "\<And>u. u \<in> U \<Longrightarrow> \<exists>u' \<in> U'. u_id u' = u_id u \<and> u_is_superuser u' = u_is_superuser u"
  shows "gov_inv U' B R"
proof -
  have "binding_ok U' R m" if "m \<in> B" for m
    using assms(1) that assms(2) unfolding gov_inv_def binding_ok_def by (metis (no_types, lifting))
  moreover have "request_ok U' B r" if "r \<in> R" for r
    using assms(1) that assms(2) unfolding gov_inv_def request_ok_def by (metis (no_types, lifting))
  ultimately show ?thesis using assms(1) unfolding gov_inv_def by blast
qed

lemma gov_invD:
  assumes "gov_inv U B R"
  shows "m \<in> B \<Longrightarrow> binding_ok U R m" "r \<in> R \<Longrightarrow> request_ok U B r"
    "m \<in> B \<Longrightarrow> m' \<in> B \<Longrightarrow> uo_role m = ''superuser'' \<Longrightarrow> uo_role m' = ''superuser'' \<Longrightarrow> uo_organization_id m = uo_organization_id m' \<Longrightarrow> m = m'"
    "r \<in> R \<Longrightarrow> r' \<in> R \<Longrightarrow> sar_status r = ''approved'' \<Longrightarrow> sar_status r' = ''approved'' \<Longrightarrow> sar_organization_id r = sar_organization_id r' \<Longrightarrow>
      sar_superuser_user_id r = sar_superuser_user_id r' \<Longrightarrow> r = r'"
    "r \<in> R \<Longrightarrow> r' \<in> R \<Longrightarrow> sar_status r = ''pending'' \<Longrightarrow> sar_status r' = ''pending'' \<Longrightarrow> sar_organization_id r = sar_organization_id r' \<Longrightarrow>
      sar_superuser_user_id r = sar_superuser_user_id r' \<Longrightarrow> r = r'"
  using assms unfolding gov_inv_def by auto

lemma gov_invI:
  assumes "\<And>m. m \<in> B \<Longrightarrow> binding_ok U R m" "\<And>r. r \<in> R \<Longrightarrow> request_ok U B r"
    "\<And>m m'. m \<in> B \<Longrightarrow> m' \<in> B \<Longrightarrow> uo_role m = ''superuser'' \<Longrightarrow> uo_role m' = ''superuser'' \<Longrightarrow> uo_organization_id m = uo_organization_id m' \<Longrightarrow> m = m'"
    "\<And>r r'. r \<in> R \<Longrightarrow> r' \<in> R \<Longrightarrow> sar_status r = ''approved'' \<Longrightarrow> sar_status r' = ''approved'' \<Longrightarrow> sar_organization_id r = sar_organization_id r' \<Longrightarrow>
      sar_superuser_user_id r = sar_superuser_user_id r' \<Longrightarrow> r = r'"
    "\<And>r r'. r \<in> R \<Longrightarrow> r' \<in> R \<Longrightarrow> sar_status r = ''pending'' \<Longrightarrow> sar_status r' = ''pending'' \<Longrightarrow> sar_organization_id r = sar_organization_id r' \<Longrightarrow>
      sar_superuser_user_id r = sar_superuser_user_id r' \<Longrightarrow> r = r'"
  shows "gov_inv U B R"
  using assms unfolding gov_inv_def by auto

lemma backs_approved: "backs r m \<Longrightarrow> sar_status r = ''approved''"
  by (simp add: backs_def)

lemma gov_inv_lapse:
  assumes inv: "gov_inv U B R" and m: "m \<in> B" "uo_role m = ''superuser''" and r: "r \<in> R" "backs r m"
    and q: "sar_status q \<in> {''expired'', ''revoked''}" "sar_superuser_user_id q = sar_superuser_user_id r"
  shows "gov_inv U (B - {m}) (insert q (R - {r}))" (is "gov_inv U ?B ?R")
proof (rule gov_invI)
  fix m' assume m': "m' \<in> ?B"
  then have ok: "binding_ok U R m'" using gov_invD(1) [OF inv] by simp
  have "r2 \<noteq> r" if "backs r2 m'" "uo_role m' = ''superuser''" for r2
    using gov_invD(3) [OF inv m(1), of m'] m' m(2) that r(2) by (auto simp: backs_def)
  with ok show "binding_ok U ?R m'" by (auto simp: binding_ok_def split: if_splits)
next
  fix x assume "x \<in> ?R"
  then show "request_ok U ?B x"
  proof
    assume "x = q"
    with gov_invD(2) [OF inv r(1)] q show ?thesis by (auto simp: request_ok_def statuses_def)
  next
    assume x: "x \<in> R - {r}"
    have "m2 \<noteq> m" if "backs x m2" for m2 using gov_invD(4) [OF inv r(1), of x] that x r(2) by (auto simp: backs_def)
    with gov_invD(2) [OF inv, of x] x show ?thesis unfolding request_ok_def by blast
  qed
qed (use gov_invD(3,4,5) [OF inv] q in auto)

lemma gov_inv_grant:
  assumes inv: "gov_inv U B R" and r: "r \<in> R" "sar_status r = ''pending''"
    and none: "\<forall>m \<in> B. uo_organization_id m = sar_organization_id r \<longrightarrow> uo_role m \<noteq> ''superuser''"
    and b: "uo_role b = ''superuser''" "uo_user_id b = sar_superuser_user_id r" "uo_organization_id b = sar_organization_id r"
    and q: "backs q b"
  shows "gov_inv U (insert b B) (insert q (R - {r}))"
proof (rule gov_invI)
  have su: "\<exists>u \<in> U. u_id u = sar_superuser_user_id r \<and> u_is_superuser u" using gov_invD(2) [OF inv r(1)] by (simp add: request_ok_def)
  fix m assume "m \<in> insert b B"
  then show "binding_ok U (insert q (R - {r})) m"
  proof
    assume "m = b"
    with su q b show ?thesis by (auto simp: binding_ok_def)
  next
    assume "m \<in> B"
    moreover have "r2 \<noteq> r" if "backs r2 m" for r2 using that r(2) by (auto simp: backs_def)
    ultimately show ?thesis using gov_invD(1) [OF inv, of m] by (auto simp: binding_ok_def split: if_splits)
  qed
next
  fix x assume "x \<in> insert q (R - {r})"
  then show "request_ok U (insert b B) x"
  proof
    assume "x = q"
    then show ?thesis using gov_invD(2) [OF inv r(1)] q b by (auto simp: request_ok_def statuses_def backs_def)
  next
    assume "x \<in> R - {r}"
    then show ?thesis using gov_invD(2) [OF inv, of x] by (auto simp: request_ok_def)
  qed
next
  fix m m' assume "m \<in> insert b B" "m' \<in> insert b B" "uo_role m = ''superuser''" "uo_role m' = ''superuser''" "uo_organization_id m = uo_organization_id m'"
  then show "m = m'" using gov_invD(3) [OF inv, of m m'] none b by auto
next
  have "sar_status x \<noteq> ''approved''" if "x \<in> R" "sar_organization_id x = sar_organization_id r" for x
    using gov_invD(2) [OF inv that(1)] none that(2) by (auto simp: request_ok_def backs_def)
  moreover have "sar_organization_id q = sar_organization_id r" using q b by (simp add: backs_def)
  ultimately show "x = x'" if "x \<in> insert q (R - {r})" "x' \<in> insert q (R - {r})" "sar_status x = ''approved''" "sar_status x' = ''approved''"
    "sar_organization_id x = sar_organization_id x'" "sar_superuser_user_id x = sar_superuser_user_id x'" for x x'
    using that gov_invD(4) [OF inv, of x x'] by auto
next
  show "x = x'" if "x \<in> insert q (R - {r})" "x' \<in> insert q (R - {r})" "sar_status x = ''pending''" "sar_status x' = ''pending''"
    "sar_organization_id x = sar_organization_id x'" "sar_superuser_user_id x = sar_superuser_user_id x'" for x x'
    using that gov_invD(5) [OF inv, of x x'] q by (auto simp: backs_def)
qed

lemma gov_inv_bindings:
  assumes inv: "gov_inv U B R" and keep: "\<And>m. m \<in> B \<Longrightarrow> uo_role m = ''superuser'' \<Longrightarrow> m \<in> B'"
    and new: "\<And>m. m \<in> B' \<Longrightarrow> m \<notin> B \<Longrightarrow> uo_role m \<noteq> ''superuser'' \<and> binding_ok U R m"
  shows "gov_inv U B' R"
proof (rule gov_invI)
  show "binding_ok U R m" if "m \<in> B'" for m using that new gov_invD(1) [OF inv] by blast
  show "request_ok U B' r" if "r \<in> R" for r
    using gov_invD(2) [OF inv that] keep unfolding request_ok_def by blast
  show "m = m'" if "m \<in> B'" "m' \<in> B'" "uo_role m = ''superuser''" "uo_role m' = ''superuser''" "uo_organization_id m = uo_organization_id m'" for m m'
    using that new gov_invD(3) [OF inv] by blast
qed (use gov_invD(4,5) [OF inv] in auto)

lemma gov_inv_ask:
  assumes inv: "gov_inv U B R" and r: "sar_status r = ''pending''" "u \<in> U" "u_id u = sar_superuser_user_id r" "u_is_superuser u"
    and none: "\<forall>q \<in> R. sar_organization_id q = sar_organization_id r \<longrightarrow> sar_superuser_user_id q = sar_superuser_user_id r \<longrightarrow> sar_status q \<noteq> ''pending''"
  shows "gov_inv U B (insert r R)"
proof (rule gov_invI)
  show "binding_ok U (insert r R) m" if "m \<in> B" for m using gov_invD(1) [OF inv that] by (auto simp: binding_ok_def split: if_splits)
  show "request_ok U B q" if "q \<in> insert r R" for q
    using that gov_invD(2) [OF inv, of q] r by (auto simp: request_ok_def statuses_def)
qed (use gov_invD(3,4,5) [OF inv] r none in auto)

lemma gov_inv_settle:
  assumes inv: "gov_inv U B R" and r: "r \<in> R" "sar_status r = ''pending''"
    and q: "sar_status q \<in> {''rejected'', ''cancelled''}" "sar_superuser_user_id q = sar_superuser_user_id r"
  shows "gov_inv U B (insert q (R - {r}))"
proof (rule gov_invI)
  fix m assume "m \<in> B"
  moreover have "x \<noteq> r" if "backs x m" for x using that r(2) by (auto simp: backs_def)
  ultimately show "binding_ok U (insert q (R - {r})) m" using gov_invD(1) [OF inv, of m] by (auto simp: binding_ok_def split: if_splits)
next
  fix x assume "x \<in> insert q (R - {r})"
  then show "request_ok U B x"
  proof
    assume "x = q"
    with gov_invD(2) [OF inv r(1)] q show ?thesis by (auto simp: request_ok_def statuses_def)
  next
    assume "x \<in> R - {r}"
    with gov_invD(2) [OF inv, of x] show ?thesis by simp
  qed
qed (use gov_invD(3,4,5) [OF inv] q in auto)

lemma pair_of_simps [simp]: "pair_of (m\<lparr>uo_role := role\<rparr>) = pair_of m"
  by (simp add: pair_of_def)

lemma lapse_keeps: "lapse g g' \<Longrightarrow> gov_ok g \<Longrightarrow> gov_ok g'"
proof (induction rule: lapse.induct)
  case (1 m bs r rs st us t)
  let ?q = "r\<lparr>sar_status := st, sar_ended_at := Some t\<rparr>"
  from 1 have d: "distinct (map uo_id bs)" "distinct (map sar_id rs)" and inv: "gov_inv (set us) (set bs) (set rs)" by auto
  have "gov_inv (set us) (set bs - {m}) (insert ?q (set rs - {r}))"
    by (rule gov_inv_lapse [OF inv 1(1-4)]) (use 1(5) in auto)
  moreover have "set (replace_by sar_id ?q rs) = insert ?q (set rs - {r})" by (rule set_replace_by [OF d(2) 1(3)]) simp
  moreover have "set (filter (\<lambda>m'. uo_id m' \<noteq> uo_id m) bs) = set bs - {m}" by (rule set_filter_key [OF d(1) 1(1)])
  ultimately have "gov_inv (set us) (set (filter (\<lambda>m'. uo_id m' \<noteq> uo_id m) bs)) (set (replace_by sar_id ?q rs))" by (simp only:)
  moreover have "distinct (map sar_id (replace_by sar_id ?q rs))" using d(2) by (simp only: map_key_replace_by)
  ultimately show ?case using 1(6) unfolding gov_ok.simps by (auto simp only: distinct_map_filter)
qed

lemma grant_keeps: "grant g g' \<Longrightarrow> gov_ok g \<Longrightarrow> gov_ok g'"
proof (induction rule: grant.induct)
  case (1 r rs us bs a b t)
  let ?q = "r\<lparr>sar_status := ''approved'', sar_decided_at := Some t, sar_decided_by_user_id := Some a, sar_granted_expires_at := uo_expires_at b\<rparr>"
  from 1 have d: "distinct (map sar_id rs)" and inv: "gov_inv (set us) (set bs) (set rs)" by auto
  have "gov_inv (set us) (insert b (set bs)) (insert ?q (set rs - {r}))"
    by (rule gov_inv_grant [OF inv 1(1,2,4,7,8,9)]) (use 1 in \<open>simp add: backs_def\<close>)
  moreover have "set (replace_by sar_id ?q rs) = insert ?q (set rs - {r})" by (rule set_replace_by [OF d 1(1)]) simp
  ultimately show ?case using 1 by (simp add: pair_of_def)
qed

lemma quiet_keeps: "quiet g g' \<Longrightarrow> gov_ok g \<Longrightarrow> gov_ok g'"
proof (induction rule: quiet.induct)
  case (lapse g g')
  then show ?case by (rule lapse_keeps)
next
  case (new_user u us bs rs)
  moreover have "gov_inv (set (us @ [u])) (set bs) (set rs)"
    by (rule gov_inv_user [of "set us"]) (use new_user in auto)
  ultimately show ?case by simp
next
  case (amend_user u us u' bs rs)
  then have d: "distinct (map u_id us)" by simp
  have s: "set (replace_by u_id u' us) = insert u' (set us - {u})" by (rule set_replace_by [OF d]) (use amend_user in simp_all)
  have "gov_inv (set (replace_by u_id u' us)) (set bs) (set rs)"
    unfolding s by (rule gov_inv_user [of "set us"]) (use amend_user in auto)
  moreover have "map u_email (replace_by u_id u' us) = map u_email us" by (rule map_replace_by [OF d]) (use amend_user in simp_all)
  ultimately show ?case using amend_user(6) by simp
next
  case (join b bs u us rs)
  moreover have "gov_inv (set us) (insert b (set bs)) (set rs)"
  proof (rule gov_inv_bindings [of _ "set bs"])
    have "uo_role b \<noteq> ''superuser''" using join(3) by (auto simp: ASSIGNABLE_ROLES_def)
    then show "uo_role m \<noteq> ''superuser'' \<and> binding_ok (set us) (set rs) m" if "m \<in> insert b (set bs)" "m \<notin> set bs" for m
      using that join by (auto simp: binding_ok_def)
  qed (use join in auto)
  ultimately show ?case by simp
next
  case (assign m bs role us rs)
  then have d: "distinct (map uo_id bs)" and inv: "gov_inv (set us) (set bs) (set rs)" by auto
  have s: "set (replace_by uo_id (m\<lparr>uo_role := role\<rparr>) bs) = insert (m\<lparr>uo_role := role\<rparr>) (set bs - {m})"
    by (rule set_replace_by [OF d assign(1)]) simp
  have "gov_inv (set us) (insert (m\<lparr>uo_role := role\<rparr>) (set bs - {m})) (set rs)"
  proof (rule gov_inv_bindings [OF inv])
    have "role \<noteq> ''superuser''" using assign(3) by (auto simp: ASSIGNABLE_ROLES_def)
    with gov_invD(1) [OF inv assign(1)] assign(2,3) have "binding_ok (set us) (set rs) (m\<lparr>uo_role := role\<rparr>)" "role \<noteq> ''superuser''"
      by (auto simp: binding_ok_def)
    then show "uo_role x \<noteq> ''superuser'' \<and> binding_ok (set us) (set rs) x" if "x \<in> insert (m\<lparr>uo_role := role\<rparr>) (set bs - {m})" "x \<notin> set bs" for x
      using that by auto
  qed (use assign in auto)
  moreover have "map pair_of (replace_by uo_id (m\<lparr>uo_role := role\<rparr>) bs) = map pair_of bs"
    by (rule map_replace_by [OF d assign(1)]) simp_all
  ultimately show ?case using assign(5) s by simp
next
  case (leave m bs us rs)
  then have d: "distinct (map uo_id bs)" and inv: "gov_inv (set us) (set bs) (set rs)" by auto
  have "gov_inv (set us) (set bs - {m}) (set rs)" by (rule gov_inv_bindings [OF inv]) (use leave in auto)
  then show ?case using leave(4) set_filter_key [OF d leave(1)] unfolding gov_ok.simps by (simp only: distinct_map_filter)
next
  case (ask r rs u us bs)
  then show ?case using gov_inv_ask [of "set us" "set bs" "set rs" r u] by simp
next
  case (settle r rs st us bs d t)
  let ?q = "r\<lparr>sar_status := st, sar_decided_at := t, sar_decided_by_user_id := d\<rparr>"
  from settle have d: "distinct (map sar_id rs)" and inv: "gov_inv (set us) (set bs) (set rs)" by auto
  have "gov_inv (set us) (set bs) (insert ?q (set rs - {r}))" by (rule gov_inv_settle [OF inv settle(1,2)]) (use settle in auto)
  moreover have "set (replace_by sar_id ?q rs) = insert ?q (set rs - {r})" by (rule set_replace_by [OF d settle(1)]) simp
  ultimately show ?case using settle(4) by simp
qed

interpretation moves: preserved gov_move gov_ok
  by unfold_locales (auto simp: gov_move_def intro: quiet_keeps grant_keeps)

section \<open>An organization keeps its admin\<close>

lemma admin_in_mono:
  assumes "admin_in us bs org a"
    and "\<And>m. m \<in> set bs \<Longrightarrow> uo_user_id m = a \<Longrightarrow> uo_role m = ''admin'' \<Longrightarrow> uo_organization_id m = org \<Longrightarrow> m \<in> set bs'"
    and "\<And>u. u \<in> set us \<Longrightarrow> u_is_active u \<Longrightarrow> \<exists>u' \<in> set us'. u_id u' = u_id u \<and> u_is_active u'"
  shows "admin_in us' bs' org a"
  using assms unfolding admin_in_def by (metis (no_types, lifting))

definition has_admin :: "uuid \<Rightarrow> gov \<Rightarrow> bool" where
  "has_admin org g \<longleftrightarrow> (\<exists>a. admin_in (fst g) (fst (snd g)) org a)"

lemma has_adminI: "admin_in us bs org a \<Longrightarrow> has_admin org (us, bs, rs)"
  by (auto simp: has_admin_def)

lemma lapse_admin: "lapse g g' \<Longrightarrow> gov_ok g \<Longrightarrow> admin_in (fst g) (fst (snd g)) org a \<Longrightarrow> admin_in (fst g') (fst (snd g')) org a"
proof (induction rule: lapse.induct)
  case (1 m bs r rs st us t)
  then have d: "distinct (map uo_id bs)" and a: "admin_in us bs org a" by simp_all
  note s = set_filter_key [OF d 1(1)]
  show ?case unfolding fst_conv snd_conv
  proof (rule admin_in_mono [OF a])
    fix x assume "x \<in> set bs" "uo_role x = ''admin''"
    with 1(2) show "x \<in> set (filter (\<lambda>m'. uo_id m' \<noteq> uo_id m) bs)" unfolding s by auto
  qed auto
qed

lemma grant_admin: "grant g g' \<Longrightarrow> admin_in (fst g) (fst (snd g)) org a \<Longrightarrow> admin_in (fst g') (fst (snd g')) org a"
proof (induction rule: grant.induct)
  case (1 r rs us bs c b t)
  then have a: "admin_in us bs org a" by simp
  show ?case unfolding fst_conv snd_conv by (rule admin_in_mono [OF a]) auto
qed

lemma quiet_admin: "quiet g g' \<Longrightarrow> gov_ok g \<Longrightarrow> has_admin org g \<Longrightarrow> has_admin org g'"
proof (induction rule: quiet.induct)
  case (lapse g g')
  then show ?case using lapse_admin unfolding has_admin_def by blast
next
  case (new_user u us bs rs)
  then obtain a where a: "admin_in us bs org a" by (auto simp: has_admin_def)
  show ?case by (rule has_adminI, rule admin_in_mono [OF a]) auto
next
  case (amend_user u us u' bs rs)
  then obtain a where a: "admin_in us bs org a" and d: "distinct (map u_id us)" by (auto simp: has_admin_def)
  note s = set_replace_by [OF d amend_user(1), of u']
  show ?case by (rule has_adminI, rule admin_in_mono [OF a]) (use s amend_user in auto)
next
  case (join b bs u us rs)
  then obtain a where a: "admin_in us bs org a" by (auto simp: has_admin_def)
  show ?case by (rule has_adminI, rule admin_in_mono [OF a]) auto
next
  case (assign m bs role us rs)
  then have d: "distinct (map uo_id bs)" by simp
  let ?m = "m\<lparr>uo_role := role\<rparr>"
  have s: "set (replace_by uo_id ?m bs) = insert ?m (set bs - {m})" by (rule set_replace_by [OF d assign(1)]) simp
  obtain a where a: "admin_in us bs org a" using assign(6) by (auto simp: has_admin_def)
  have other: "has_admin org (us, replace_by uo_id ?m bs, rs)"
    if "admin_in us bs org a'" "\<not> (uo_role m = ''admin'' \<and> uo_organization_id m = org \<and> uo_user_id m = a')" for a'
    by (rule has_adminI, rule admin_in_mono [OF that(1)]) (use s that(2) in auto)
  show ?case
  proof (cases "uo_role m = ''admin'' \<and> uo_organization_id m = org \<and> uo_user_id m = a")
    case True
    with assign(4) consider "role = ''admin''" | a' where "a' \<noteq> uo_user_id m" "admin_in us bs org a'" by blast
    then show ?thesis
    proof cases
      case 1
      have "?m \<in> set (replace_by uo_id ?m bs)" using s by simp
      moreover obtain u where "u \<in> set us" "u_id u = a" "u_is_active u" using a by (auto simp: admin_in_def)
      ultimately have "admin_in us (replace_by uo_id ?m bs) org a"
        using True 1 unfolding admin_in_def by (intro bexI [of _ ?m] bexI [of _ u]) simp_all
      then show ?thesis by (rule has_adminI)
    next
      case 2
      then show ?thesis using other by blast
    qed
  qed (use other a in blast)
next
  case (leave m bs us rs)
  then have d: "distinct (map uo_id bs)" by simp
  note s = set_filter_key [OF d leave(1)]
  obtain a where a: "admin_in us bs org a" using leave(5) by (auto simp: has_admin_def)
  obtain a' where a': "admin_in us bs org a'" "\<not> (uo_role m = ''admin'' \<and> uo_organization_id m = org \<and> uo_user_id m = a')"
    using a leave(3) by blast
  show ?case
  proof (rule has_adminI, rule admin_in_mono [OF a'(1)])
    fix x assume "x \<in> set bs" "uo_user_id x = a'" "uo_role x = ''admin''" "uo_organization_id x = org"
    with a'(2) show "x \<in> set (filter (\<lambda>m'. uo_id m' \<noteq> uo_id m) bs)" unfolding s by auto
  qed auto
qed (auto simp: has_admin_def)

interpretation admins: preserved gov_move "\<lambda>g. gov_ok g \<and> has_admin org g" for org
proof unfold_locales
  fix g g' assume m: "gov_move g g'" and ok: "gov_ok g \<and> has_admin org g"
  have "gov_ok g'" using moves.step_keeps [OF m] ok by simp
  moreover have "has_admin org g'" if "grant g g'"
    using grant_admin [OF that] ok unfolding has_admin_def by blast
  with m ok have "has_admin org g'" using quiet_admin [of g g' org] by (auto simp: gov_move_def)
  ultimately show "gov_ok g' \<and> has_admin org g'" ..
qed

section \<open>The life cycle of an access request\<close>

definition status_edges :: "(string \<times> string) set" where
  "status_edges = {(''pending'', ''approved''), (''pending'', ''rejected''), (''pending'', ''cancelled''),
     (''approved'', ''revoked''), (''approved'', ''expired'')}"

text \<open>A later version of a request: the same ask, its status moved along the life cycle.\<close>

definition later :: "superuser_access_request \<Rightarrow> superuser_access_request \<Rightarrow> bool" where
  "later r q \<longleftrightarrow> sar_id q = sar_id r \<and> sar_organization_id q = sar_organization_id r \<and> sar_superuser_user_id q = sar_superuser_user_id r
     \<and> sar_reason q = sar_reason r \<and> sar_requested_duration_hours q = sar_requested_duration_hours r
     \<and> sar_requested_at q = sar_requested_at r \<and> (sar_status r, sar_status q) \<in> status_edges\<^sup>*"

lemma later_refl [simp]: "later r r"
  by (simp add: later_def)

lemma later_trans: "later r q \<Longrightarrow> later q s \<Longrightarrow> later r s"
  unfolding later_def by (auto intro: rtrancl_trans)

lemma replace_later:
  assumes "r \<in> set rs" "later x q" "x \<in> set rs" "sar_id q = sar_id x" "distinct (map sar_id rs)"
  shows "\<exists>y \<in> set (replace_by sar_id q rs). later r y"
proof (cases "r = x")
  case True
  have "q \<in> set (replace_by sar_id q rs)" using set_replace_by [OF assms(5,3,4)] by simp
  with True assms(2) show ?thesis by blast
next
  case False
  then have "r \<in> set (replace_by sar_id q rs)" using set_replace_by [OF assms(5,3,4)] assms(1) by simp
  then show ?thesis using later_refl by blast
qed

lemma edgeI: "(a, b) \<in> status_edges \<Longrightarrow> (a, b) \<in> status_edges\<^sup>*" by blast

lemma lapse_later: "lapse g g' \<Longrightarrow> gov_ok g \<Longrightarrow> r \<in> set (snd (snd g)) \<Longrightarrow> \<exists>q \<in> set (snd (snd g')). later r q"
proof (induction rule: lapse.induct)
  case (1 m bs x rs st us t)
  then have d: "distinct (map sar_id rs)" "r \<in> set rs" by simp_all
  have "(sar_status x, st) \<in> status_edges" using 1(4,5) by (auto simp: backs_def status_edges_def)
  then have "later x (x\<lparr>sar_status := st, sar_ended_at := Some t\<rparr>)" by (simp add: later_def edgeI)
  from replace_later [OF d(2) this 1(3) _ d(1)] show ?case by simp
qed

lemma grant_later: "grant g g' \<Longrightarrow> gov_ok g \<Longrightarrow> r \<in> set (snd (snd g)) \<Longrightarrow> \<exists>q \<in> set (snd (snd g')). later r q"
proof (induction rule: grant.induct)
  case (1 x rs us bs a b t)
  then have d: "distinct (map sar_id rs)" "r \<in> set rs" by simp_all
  show ?case unfolding snd_conv
    by (rule replace_later [of _ _ x]) (use d 1(1,2) in \<open>auto simp: later_def status_edges_def intro!: edgeI\<close>)
qed

lemma quiet_later: "quiet g g' \<Longrightarrow> gov_ok g \<Longrightarrow> r \<in> set (snd (snd g)) \<Longrightarrow> \<exists>q \<in> set (snd (snd g')). later r q"
proof (induction rule: quiet.induct)
  case (lapse g g')
  then show ?case by (rule lapse_later)
next
  case (settle x rs st us bs d t)
  show ?case unfolding snd_conv
    by (rule replace_later [of _ _ x]) (use settle in \<open>auto simp: later_def status_edges_def intro!: edgeI\<close>)
qed (auto intro: later_refl)

lemma run_later: "gov_move\<^sup>*\<^sup>* g g' \<Longrightarrow> gov_ok g \<Longrightarrow> r \<in> set (snd (snd g)) \<Longrightarrow> \<exists>q \<in> set (snd (snd g')). later r q"
proof (induction rule: rtranclp_induct)
  case base
  then show ?case using later_refl by blast
next
  case (step y z)
  from step.IH [OF step.prems] obtain q where q: "q \<in> set (snd (snd y))" "later r q" by blast
  have "gov_ok y" using moves.run_keeps [OF step.hyps(1)] step.prems(1) by simp
  then obtain s where "s \<in> set (snd (snd z))" "later q s"
    using step.hyps(2) q(1) quiet_later grant_later unfolding gov_move_def by blast
  with q(2) show ?case using later_trans by blast
qed

lemma terminal_status: "(a, b) \<in> status_edges\<^sup>* \<Longrightarrow> a \<in> {''rejected'', ''cancelled'', ''revoked'', ''expired''} \<Longrightarrow> b = a"
  by (induction rule: rtrancl_induct) (auto simp: status_edges_def)

section \<open>Only a grant gives the Superuser a binding\<close>

lemma quiet_no_grant:
  "quiet g g' \<Longrightarrow> gov_ok g \<Longrightarrow> m \<in> set (fst (snd g')) \<Longrightarrow> uo_role m = ''superuser'' \<Longrightarrow> m \<in> set (fst (snd g))"
proof (induction rule: quiet.induct)
  case (lapse g g')
  then show ?case by (auto elim!: lapse.cases)
next
  case (assign x bs role us rs)
  then have "m \<in> set (replace_by uo_id (x\<lparr>uo_role := role\<rparr>) bs)" by simp
  from set_replace_byD [OF this] assign show ?case by (auto simp: ASSIGNABLE_ROLES_def)
qed (auto simp: ASSIGNABLE_ROLES_def)

lemma quiets_ok: "quiet\<^sup>*\<^sup>* g g' \<Longrightarrow> gov_ok g \<Longrightarrow> gov_ok g'"
  by (induction rule: rtranclp_induct) (auto intro: quiet_keeps)

lemma quiets_no_grant:
  "quiet\<^sup>*\<^sup>* g g' \<Longrightarrow> gov_ok g \<Longrightarrow> m \<in> set (fst (snd g')) \<Longrightarrow> uo_role m = ''superuser'' \<Longrightarrow> m \<in> set (fst (snd g))"
proof (induction rule: rtranclp_induct)
  case (step y z)
  then show ?case using quiet_no_grant [of y z m] quiets_ok [of g y] by blast
qed simp

lemma quiets_moves: "quiet\<^sup>*\<^sup>* g g' \<Longrightarrow> gov_move\<^sup>*\<^sup>* g g'"
  by (erule rtranclp_mono [THEN predicate2D, rotated]) (auto simp: gov_move_def)

end
