(* ===== verification/Governance.thy ===== *)
theory Governance
  imports Auth_Api Consent
begin

text \<open>
  Organization governance as a whole: every request of the organization, Superuser and authentication APIs, with
  its dependency, is a sequence of moves of the abstract machine of \<open>Consent\<close>.  So the membership tables stay
  consistent, an organization keeps an active admin, and the Superuser enters an organization only by the
  consent of one of its admins.
\<close>

section \<open>The system\<close>

text \<open>Requests of a member, under the context the dependency resolved.\<close>

inductive org_call :: "(string \<Rightarrow> string) \<Rightarrow> organization_context \<Rightarrow> 'z org_db_scheme \<Rightarrow> 'z org_db_scheme \<Rightarrow> bool" for hash_password where
  "org_call hash_password ctx db (snd (create_member hash_password ctx body ip db))"
| "org_call hash_password ctx db (snd (regenerate_invite_link ctx uid ip db))"
| "org_call hash_password ctx db (snd (change_member_role ctx uid role ip db))"
| "org_call hash_password ctx db (snd (remove_member ctx uid ip db))"
| "org_call hash_password ctx db (fst (snd (reset_member_password hash_password minutes ctx uid ip db bl)))"
| "org_call hash_password ctx db (snd (approve_access_request ctx rid decision ip db))"
| "org_call hash_password ctx db (snd (reject_access_request ctx rid reason ip db))"
| "org_call hash_password ctx db (snd (get_superuser_access ctx db))"
| "org_call hash_password ctx db (snd (revoke_superuser_membership ctx ip db))"

text \<open>Requests to the Superuser's API.\<close>

inductive superuser_call :: "(string \<Rightarrow> string) \<Rightarrow> 'z org_db_scheme \<Rightarrow> 'z org_db_scheme \<Rightarrow> bool" for hash_password where
  "superuser_call hash_password db (fst (snd (reset_user_password hash_password minutes rq uid db bl)))"
| "superuser_call hash_password db (fst (snd (reset_user_password_by_email hash_password minutes rq email db bl)))"
| "superuser_call hash_password db (fst (snd (revoke_user_sessions minutes rq uid db bl)))"
| "superuser_call hash_password db (snd (recover_organization_admin hash_password rq org email name db))"
| "superuser_call hash_password db (snd (request_org_access rq org reason hours db))"
| "superuser_call hash_password db (snd (list_my_access_requests rq limit db))"
| "superuser_call hash_password db (snd (cancel_my_access_request rq rid db))"
| "superuser_call hash_password db (snd (create_organization rq name slug db))"
| "superuser_call hash_password db (snd (update_organization rq org name db))"
| "superuser_call hash_password db (snd (delete_organization rq org db))"

text \<open>Requests about one's own session, and the bootstrap command.\<close>

inductive session_call :: "(string \<Rightarrow> string) \<Rightarrow> 'z org_db_scheme \<Rightarrow> 'z org_db_scheme \<Rightarrow> bool" for hash_password where
  "session_call hash_password db (snd (login verify_password jwt cfg email password ip db))"
| "session_call hash_password db (fst (snd (logout cfg time rq db bl)))"
| "session_call hash_password db (snd (record_org_choice event org rq db))"
| "session_call hash_password db (snd (verify_invite cfg in_cidrs token cn header rq db))"
| "session_call hash_password db (snd (ensure_superuser hash_password renew db))"

inductive gov_step :: "(string \<Rightarrow> string) \<Rightarrow> 'z org_db_scheme \<Rightarrow> 'z org_db_scheme \<Rightarrow> bool" for hash_password where
  context_only: "require_organization_context rq db = (r, db1) \<Longrightarrow> gov_step hash_password db db1"
| member: "require_organization_context rq db = (Inr ctx, db1) \<Longrightarrow> org_call hash_password ctx db1 db2 \<Longrightarrow> gov_step hash_password db db2"
| superuser: "superuser_call hash_password db db1 \<Longrightarrow> gov_step hash_password db db1"
| session: "session_call hash_password db db1 \<Longrightarrow> gov_step hash_password db db1"

section \<open>Frame facts\<close>

named_theorems gov_simps

lemma gov_of_sources [gov_simps]:
  "gov_of (snd (utcnow db)) = gov_of db" "gov_of (snd (uuid4 db)) = gov_of db" "gov_of (snd (token_urlsafe db)) = gov_of db"
  "gov_of (snd (new_invite_token db)) = gov_of db" "gov_of (rollback db0 db) = gov_of db0"
  by (simp_all add: gov_of_def audit_simps rollback_def new_invite_token_def split_beta Let_def)

lemma gov_of_events [gov_simps]:
  "gov_of (snd (write_event db ty dat org usr ses ip rel)) = gov_of db"
  "gov_of (snd (write_dual_event db ty dat' org' usr ses ip)) = gov_of db"
  "gov_of (write_dual_audit db ctx ty dat' ip) = gov_of db"
  "gov_of (organization_event db rq su ty dat' org') = gov_of db"
  "gov_of (invite_event db rq su ty dat') = gov_of db"
  "gov_of (audit_login_failure db email ip reason usr) = gov_of db"
  by (simp_all add: gov_of_def audit_simps write_dual_audit_def organization_event_def invite_event_def audit_login_failure_def)

lemma gov_of_rows [gov_simps]:
  "gov_of (put_user u db) = (replace_by u_id u (users db), user_organizations db, access_requests db)"
  "gov_of (put_binding b db) = (users db, replace_by uo_id b (user_organizations db), access_requests db)"
  "gov_of (delete_binding b db) = (users db, filter (\<lambda>m. uo_id m \<noteq> uo_id b) (user_organizations db), access_requests db)"
  "gov_of (put_request r db) = (users db, user_organizations db, replace_by sar_id r (access_requests db))"
  "gov_of (put_organization org db) = gov_of db"
  by (simp_all add: gov_of_def put_user_def put_binding_def delete_binding_def put_request_def put_organization_def)

lemma log_sources [gov_simps]:
  "audit_events (snd (utcnow db)) = audit_events db" "audit_events (snd (uuid4 db)) = audit_events db"
  "audit_events (snd (token_urlsafe db)) = audit_events db" "audit_events (snd (new_invite_token db)) = audit_events db"
  "audit_events (rollback db0 db) = audit_events db0" "audit_events (put_user u db) = audit_events db"
  "audit_events (put_binding b db) = audit_events db" "audit_events (delete_binding b db) = audit_events db"
  "audit_events (put_request r db) = audit_events db" "audit_events (put_organization org db) = audit_events db"
  by (simp_all add: utcnow_def uuid4_def token_urlsafe_def new_invite_token_def rollback_def split_beta Let_def
      put_user_def put_binding_def delete_binding_def put_request_def put_organization_def)

definition grows :: "'z org_db_scheme \<Rightarrow> 'z org_db_scheme \<Rightarrow> bool" where
  "grows db db' \<longleftrightarrow> prefix (audit_events db) (audit_events db')"

lemma grows_refl: "audit_events db' = audit_events db \<Longrightarrow> grows db db'"
  by (simp add: grows_def)

lemma grows_trans: "grows db db1 \<Longrightarrow> grows db1 db2 \<Longrightarrow> grows db db2"
  by (auto simp: grows_def intro: prefix_order.trans)

lemma grows_events [intro]:
  "grows db db1 \<Longrightarrow> grows db (snd (write_event db1 ty dat org usr ses ip rel))"
  "grows db db1 \<Longrightarrow> grows db (snd (write_dual_event db1 ty dat' org' usr ses ip))"
  "grows db db1 \<Longrightarrow> grows db (write_dual_audit db1 ctx ty dat' ip)"
  "grows db db1 \<Longrightarrow> grows db (organization_event db1 rq su ty dat' org')"
  "grows db db1 \<Longrightarrow> grows db (invite_event db1 rq su ty dat')"
  "grows db db1 \<Longrightarrow> grows db (audit_login_failure db1 email ip reason usr)"
  by (auto simp: grows_def audit_simps write_dual_event_def write_dual_audit_def organization_event_def invite_event_def
      audit_login_failure_def split_beta Let_def prefix_def)

text \<open>A request that makes quiet moves only, and one that grants.\<close>

definition calm :: "'z org_db_scheme \<Rightarrow> 'z org_db_scheme \<Rightarrow> bool" where
  "calm db db' \<longleftrightarrow> quiet\<^sup>*\<^sup>* (gov_of db) (gov_of db') \<and> grows db db'"

definition grants :: "'z org_db_scheme \<Rightarrow> 'z org_db_scheme \<Rightarrow> bool" where
  "grants db db' \<longleftrightarrow> (\<exists>g. lapse\<^sup>=\<^sup>= (gov_of db) g \<and> grant g (gov_of db')) \<and> grows db db'"

lemma calm_same: "gov_of db' = gov_of db \<Longrightarrow> grows db db' \<Longrightarrow> calm db db'"
  by (simp add: calm_def)

lemma calm_one: "quiet (gov_of db) (gov_of db') \<Longrightarrow> grows db db' \<Longrightarrow> calm db db'"
  by (simp add: calm_def r_into_rtranclp)

lemma calm_trans: "calm db db1 \<Longrightarrow> calm db1 db2 \<Longrightarrow> calm db db2"
  by (auto simp: calm_def intro: rtranclp_trans grows_trans)

lemma transact_cases:
  obtains (raised) e where "fst (transact body db) = Inl e" "gov_of (snd (transact body db)) = gov_of db" "audit_events (snd (transact body db)) = audit_events db"
  | (returned) x db1 where "body db = (Inr x, db1)" "transact body db = (Inr x, db1)"
  by (cases "body db"; cases "fst (body db)") (auto simp: transact_def gov_simps)

text \<open>A handler's body is calm if what it commits is; the rules below take a body apart.\<close>

definition commits :: "('s \<Rightarrow> bool) \<Rightarrow> 'a result \<times> 's \<Rightarrow> bool" where
  "commits P r \<longleftrightarrow> (\<forall>x s. r = (Inr x, s) \<longrightarrow> P s)"

lemma commits_simps [simp]: "commits P (Inl e, s)" "commits P (Inr x, s) \<longleftrightarrow> P s"
  by (simp_all add: commits_def)

lemma commits_bind: "(\<And>x t. m s = (Inr x, t) \<Longrightarrow> commits P (f x t)) \<Longrightarrow> commits P (io_bind m f s)"
  by (auto simp: commits_def io_bind_Inr_iff)

lemma commits_return: "(\<And>x. r = Inr x \<Longrightarrow> commits P (f x s)) \<Longrightarrow> commits P (io_bind (io_return r) f s)"
  by (rule commits_bind) (auto dest: sym)

lemma transact_commits: "commits P (body db) \<Longrightarrow> commits P (transact body db)"
  by (cases "body db"; cases "fst (body db)") (auto simp: commits_def transact_def)

lemma transact_calm: "commits (calm db) (body db) \<Longrightarrow> calm db (snd (transact body db))"
  by (cases rule: transact_cases [of body db]) (auto simp: commits_def intro: calm_same grows_refl)

lemma calm_after:
  assumes "calm db db1" "gov_of db2 = gov_of db1" "grows db1 db2"
  shows "calm db db2"
  using assms by (auto simp: calm_def intro: grows_trans)

lemma calm_refl [simp]: "calm db db"
  by (simp add: calm_same grows_refl)

lemma calm_events:
  "calm db db1 \<Longrightarrow> calm db (snd (write_event db1 ty dat org usr ses ip rel))"
  "calm db db1 \<Longrightarrow> calm db (snd (write_dual_event db1 ty dat' org' usr ses ip))"
  "calm db db1 \<Longrightarrow> calm db (write_dual_audit db1 ctx ty dat' ip)"
  "calm db db1 \<Longrightarrow> calm db (organization_event db1 rq su ty dat' org')"
  "calm db db1 \<Longrightarrow> calm db (invite_event db1 rq su ty dat')"
  "calm db db1 \<Longrightarrow> calm db (audit_login_failure db1 email ip reason usr)"
  "calm db db1 \<Longrightarrow> calm db (snd (utcnow db1))" "calm db db1 \<Longrightarrow> calm db (snd (uuid4 db1))"
  "calm db db1 \<Longrightarrow> calm db (snd (token_urlsafe db1))" "calm db db1 \<Longrightarrow> calm db (snd (new_invite_token db1))"
  "calm db db1 \<Longrightarrow> calm db (put_organization o' db1)"
  by (erule calm_after; auto simp: gov_simps intro: grows_refl)+

section \<open>Row operations as moves\<close>

lemma add_user_Inr:
  assumes "add_user u db = Inr db'"
  shows "quiet (gov_of db) (gov_of db')" "u \<in> set (users db')" "audit_events db' = audit_events db"
  using assms by (auto simp: add_user_def gov_of_def intro: quiet.new_user split: if_splits)

lemma add_binding_Inr:
  assumes "add_binding b db = Inr db'"
  shows "gov_of db' = (users db, user_organizations db @ [b], access_requests db)" "uo_id b \<notin> uo_id ` set (user_organizations db)"
    "pair_of b \<notin> pair_of ` set (user_organizations db)" "audit_events db' = audit_events db"
  using assms by (auto simp: add_binding_def gov_of_def pair_of_def image_iff split: if_splits)

lemma join_calm:
  assumes "add_binding b db = Inr db'" "uo_role b \<in> set ASSIGNABLE_ROLES" "uo_expires_at b = None" "u \<in> set (users db)" "u_id u = uo_user_id b" "\<not> u_is_superuser u"
  shows "calm db db'"
proof (rule calm_one)
  show "quiet (gov_of db) (gov_of db')"
    unfolding add_binding_Inr(1) [OF assms(1)] by (subst gov_of_def, rule quiet.join) (use add_binding_Inr [OF assms(1)] assms in auto)
  show "grows db db'" using add_binding_Inr(4) [OF assms(1)] by (rule grows_refl)
qed

lemma put_user_calm:
  assumes "u \<in> set (users db)" "u_id u' = u_id u" "u_email u' = u_email u" "u_is_superuser u' = u_is_superuser u" "u_is_active u \<longrightarrow> u_is_active u'"
  shows "calm db (put_user u' db)"
proof (rule calm_one)
  show "quiet (gov_of db) (gov_of (put_user u' db))"
    unfolding gov_simps by (subst gov_of_def, rule quiet.amend_user) (use assms in auto)
qed (simp add: gov_simps grows_refl)

lemma put_user_after:
  assumes "gov_of db1 = gov_of db" "audit_events db1 = audit_events db" "u \<in> set (users db)"
    and "u_id u' = u_id u" "u_email u' = u_email u" "u_is_superuser u' = u_is_superuser u" "u_is_active u \<longrightarrow> u_is_active u'"
  shows "calm db (put_user u' db1)"
proof -
  have "calm db1 (put_user u' db1)" by (rule put_user_calm [of u]) (use assms in \<open>simp_all add: gov_of_def\<close>)
  moreover have "calm db db1" using assms(1,2) by (simp add: calm_same grows_refl)
  ultimately show ?thesis using calm_trans by blast
qed

lemma user_ofD: "user_of db i = Some u \<Longrightarrow> u \<in> set (users db) \<and> u_id u = i"
  by (auto simp: user_of_def dest: find_SomeD)

lemma binding_userD: "binding_user db b = Inr u \<Longrightarrow> u \<in> set (users db) \<and> u_id u = uo_user_id b"
  by (auto simp: binding_user_def dest: user_ofD split: option.splits)

lemma get_bindingD: "get_binding db org uid = Some m \<Longrightarrow> m \<in> set (user_organizations db) \<and> uo_organization_id m = org \<and> uo_user_id m = uid"
  by (auto simp: get_binding_def dest: find_SomeD)

lemma users_gov: "gov_of db' = gov_of db \<Longrightarrow> users db' = users db"
  "gov_of db' = gov_of db \<Longrightarrow> user_organizations db' = user_organizations db" "gov_of db' = gov_of db \<Longrightarrow> access_requests db' = access_requests db"
  by (simp_all add: gov_of_def)

section \<open>Members\<close>

lemma member_account_Inr:
  assumes "member_account hash_password body now db = (Inr (u, pw, tok), db')"
  shows "calm db db'" "u \<in> set (users db')" "\<not> u_is_superuser u"
proof -
  define db1 where "db1 = snd (uuid4 (snd (new_invite_token (snd (token_urlsafe db)))))"
  have same: "gov_of db1 = gov_of db" "audit_events db1 = audit_events db" by (simp_all add: db1_def gov_simps)
  have "calm db db' \<and> u \<in> set (users db') \<and> \<not> u_is_superuser u"
  proof (cases "find (\<lambda>u. u_email u = mc_email body) (users db)")
    case None
    then obtain v where "add_user v db1 = Inr db'" "v = u" "\<not> u_is_superuser u"
      using assms by (auto simp: member_account_def db1_def split_beta Let_def split: sum.splits)
    with add_user_Inr [of u db1 db'] same show ?thesis by (auto intro: calm_one grows_refl)
  next
    case (Some v)
    with assms have "db' = db" "u = v" "\<not> u_is_superuser u" by (auto simp: member_account_def split: if_splits)
    with Some show ?thesis by (auto intro: calm_same grows_refl dest: find_SomeD)
  qed
  then show "calm db db'" "u \<in> set (users db')" "\<not> u_is_superuser u" by simp_all
qed

lemma enrol_calm:
  assumes "enrol ctx body now ip (u, pw, tok) db = (Inr x, db')" "u \<in> set (users db)" "\<not> u_is_superuser u" "mc_role body \<in> set ASSIGNABLE_ROLES"
  shows "calm db db'"
proof -
  define db1 where "db1 = snd (uuid4 db)"
  have same: "gov_of db1 = gov_of db" "audit_events db1 = audit_events db" by (simp_all add: db1_def gov_simps)
  define b where "b = \<lparr>uo_id = uuid_source db 0, uo_user_id = u_id u, uo_organization_id = oc_organization_id ctx, uo_role = mc_role body,
      uo_created_at = now, uo_expires_at = None\<rparr>"
  from assms(1) obtain db2 ty dat where add: "add_binding b db1 = Inr db2" and db': "db' = write_dual_audit db2 ctx ty dat ip"
    by (auto simp: enrol_def b_def db1_def uuid4_def Let_def split: if_splits sum.splits)
  have "calm db1 db2" by (rule join_calm [OF add _ _ _ _ assms(3)]) (use assms users_gov [OF same(1)] in \<open>simp_all add: b_def\<close>)
  then have "calm db db2" using same by (auto intro: calm_trans calm_same grows_refl)
  then show ?thesis by (rule calm_after) (auto simp: db' gov_simps intro: grows_refl)
qed

lemma validate_role_Inr: "validate_assignable_role role = Inr x \<Longrightarrow> role \<in> set ASSIGNABLE_ROLES"
  by (simp add: validate_assignable_role_def split: if_splits)

lemma require_capability_Inr: "require_capability cap ctx = Inr ctx' \<Longrightarrow> ctx' = ctx \<and> role_has_capability (oc_role ctx) cap"
  by (auto simp: require_capability_def split: if_splits)

lemma create_member_calm: "calm db (snd (create_member hash_password ctx body ip db))"
  unfolding create_member_def
proof (rule transact_calm, rule commits_return, rule commits_return, unfold split_beta Let_def, rule commits_bind)
  fix c y acct db1
  assume "validate_assignable_role (mc_role body) = Inr y"
    and acc: "member_account hash_password body (fst (utcnow db)) (snd (utcnow db)) = (Inr acct, db1)"
  obtain u pw tok where acct: "acct = (u, pw, tok)" by (cases acct)
  note facts = member_account_Inr [OF acc [unfolded acct]]
  have "calm db db1" using facts(1) calm_trans calm_events(7) [OF calm_refl] by blast
  then show "commits (calm db) (enrol c body (fst (utcnow db)) ip acct db1)"
    unfolding commits_def acct using enrol_calm [OF _ facts(2,3)] validate_role_Inr [OF \<open>_ = Inr y\<close>] calm_trans by blast
qed

lemma regenerate_invite_link_calm: "calm db (snd (regenerate_invite_link ctx uid ip db))"
  unfolding regenerate_invite_link_def
  by (rule transact_calm, rule commits_return)
    (auto simp: split_beta Let_def gov_simps split: option.splits sum.splits dest!: binding_userD intro!: calm_events put_user_after)

lemma reset_member_password_calm: "calm db (fst (snd (reset_member_password hash_password minutes ctx uid ip db bl)))"
  by (auto simp: reset_member_password_def split_beta Let_def gov_simps split: option.splits sum.splits dest!: binding_userD
      intro!: calm_events put_user_after)

lemma ensure_not_last_admin_Inr:
  assumes "ensure_not_last_admin db org uid = Inr x"
  shows "\<exists>a. a \<noteq> uid \<and> admin_in (users db) (user_organizations db) org a"
proof -
  from assms have "0 < count_other_active_admins db org uid" by (simp add: ensure_not_last_admin_def split: if_splits)
  then show ?thesis unfolding count_other_active_admins_pos by (simp add: active_admin_def admin_in_def)
qed

lemma assign_calm:
  assumes "m \<in> set (user_organizations db)" "uo_role m \<noteq> ''superuser''" "role \<in> set ASSIGNABLE_ROLES"
    and "uo_role m = ''admin'' \<Longrightarrow> role \<noteq> ''admin'' \<Longrightarrow> \<exists>a. a \<noteq> uo_user_id m \<and> admin_in (users db) (user_organizations db) (uo_organization_id m) a"
  shows "calm db (put_binding (m\<lparr>uo_role := role\<rparr>) db)"
proof (rule calm_one)
  show "quiet (gov_of db) (gov_of (put_binding (m\<lparr>uo_role := role\<rparr>) db))"
    unfolding gov_simps by (subst gov_of_def, rule quiet.assign) (use assms in auto)
qed (simp add: gov_simps grows_refl)

lemma change_member_role_calm: "calm db (snd (change_member_role ctx uid role ip db))"
  unfolding change_member_role_def
  by (rule transact_calm, rule commits_return, rule commits_return)
    (auto simp: Let_def split: option.splits sum.splits if_splits dest!: get_bindingD
      intro!: calm_events assign_calm dest: validate_role_Inr ensure_not_last_admin_Inr)

lemma remove_member_calm: "calm db (snd (remove_member ctx uid ip db))"
  unfolding remove_member_def
proof (rule transact_calm, rule commits_return)
  have gone: "calm db (delete_binding m db)"
    if "m \<in> set (user_organizations db)" "uo_role m \<noteq> ''superuser''"
      "uo_role m = ''admin'' \<Longrightarrow> \<exists>a. a \<noteq> uo_user_id m \<and> admin_in (users db) (user_organizations db) (uo_organization_id m) a" for m
  proof (rule calm_one)
    show "quiet (gov_of db) (gov_of (delete_binding m db))"
      unfolding gov_simps by (subst gov_of_def, rule quiet.leave) (use that in auto)
  qed (simp add: gov_simps grows_refl)
  fix c
  show "commits (calm db) (case get_binding db (oc_organization_id c) uid of None \<Rightarrow> (Inl (NOT_A_MEMBER_OF_THIS uid), db)
     | Some binding \<Rightarrow>
        if uo_role binding = ''superuser''
        then (Inl (HTTPException 409 ''The Superuser can't be removed - revoke their access instead.''), db)
        else (case (if uo_role binding = ''admin'' then ensure_not_last_admin db (oc_organization_id c) uid else Inr ()) of
            Inl e \<Rightarrow> (Inl e, db)
          | Inr _ \<Rightarrow> (case binding_user db binding of Inl e \<Rightarrow> (Inl e, db)
             | Inr u \<Rightarrow> (Inr (), write_dual_audit (delete_binding binding db) c ''organization.member.removed''
                 [(''member_user_id'', PStr (uuid_str uid)), (''member_email'', PStr (u_email u)),
                  (''removed_role'', PStr (uo_role binding))] ip))))"
    by (auto split: option.splits sum.splits if_splits dest!: get_bindingD intro!: calm_events gone dest: ensure_not_last_admin_Inr)
qed

section \<open>The end of a grant\<close>

lemma latest_approved_backs:
  assumes ok: "gov_ok (gov_of db)" and m: "m \<in> set (user_organizations db)" "uo_role m = ''superuser''"
  shows "\<exists>r. latest_approved db (uo_organization_id m) (uo_user_id m) = Some r \<and> r \<in> set (access_requests db) \<and> backs r m"
proof -
  from ok have inv: "gov_inv (set (users db)) (set (user_organizations db)) (set (access_requests db))" by (simp add: gov_of_def)
  from gov_invD(1) [OF inv m(1)] m(2) obtain r where r: "r \<in> set (access_requests db)" "backs r m" by (auto simp: binding_ok_def)
  let ?xs = "sort_desc decision_key (filter (\<lambda>q. sar_organization_id q = uo_organization_id m \<and> sar_superuser_user_id q = uo_user_id m
      \<and> sar_status q = ''approved'') (access_requests db))"
  have "r \<in> set ?xs" using r by (simp add: backs_def)
  then obtain q where q: "find (\<lambda>_. True) ?xs = Some q" by (cases ?xs) auto
  then have "q \<in> set ?xs" by (rule conjunct1 [OF find_SomeD])
  with gov_invD(4) [OF inv, of r q] r have "q = r" by (simp add: backs_def)
  with q r show ?thesis by (auto simp: latest_approved_def)
qed

lemma mark_request_ended_lapse:
  assumes ok: "gov_ok (gov_of db)" and m: "m \<in> set (user_organizations db)" "uo_role m = ''superuser''" and st: "st \<in> {''expired'', ''revoked''}"
    and rows: "users db' = users db" "user_organizations db' = filter (\<lambda>m'. uo_id m' \<noteq> uo_id m) (user_organizations db)"
      "access_requests db' = access_requests (mark_request_ended db (uo_organization_id m) (uo_user_id m) st t)"
  shows "lapse (gov_of db) (gov_of db')"
proof -
  obtain r where r: "latest_approved db (uo_organization_id m) (uo_user_id m) = Some r" "r \<in> set (access_requests db)" "backs r m"
    using latest_approved_backs [OF ok m] by blast
  have "gov_of db' = (users db, filter (\<lambda>m'. uo_id m' \<noteq> uo_id m) (user_organizations db),
      replace_by sar_id (r\<lparr>sar_status := st, sar_ended_at := Some t\<rparr>) (access_requests db))"
    using rows r(1) by (simp add: gov_of_def mark_request_ended_def put_request_def)
  moreover have "lapse (gov_of db) \<dots>" by (subst gov_of_def, rule lapse.intros) (use m r st in auto)
  ultimately show ?thesis by simp
qed

lemma expire_if_past_moves:
  assumes "gov_ok (gov_of db)" "m \<in> set (user_organizations db)" "expire_if_past db m = (b, db')"
  shows "grows db db'" "b \<Longrightarrow> lapse (gov_of db) (gov_of db')" "\<not> b \<Longrightarrow> gov_of db' = gov_of db"
    "b \<Longrightarrow> uo_role m = ''superuser'' \<and> user_organizations db' = filter (\<lambda>m'. uo_id m' \<noteq> uo_id m) (user_organizations db)"
proof -
  have "grows db db' \<and> (if b then uo_role m = ''superuser'' \<and> lapse (gov_of db) (gov_of db')
      \<and> user_organizations db' = filter (\<lambda>m'. uo_id m' \<noteq> uo_id m) (user_organizations db) else gov_of db' = gov_of db)"
  proof (cases rule: expire_if_past_cases [of db m])
    case (live dbx)
    with assms(3) show ?thesis by (auto simp: same_tables_def gov_of_def intro: grows_refl)
  next
    case (lapsed dbx d e1 e2)
    have "lapse (gov_of db) (gov_of dbx)"
      by (rule mark_request_ended_lapse [OF assms(1,2) lapsed(2) _ lapsed(6,5,8)]) simp
    with lapsed assms(3) show ?thesis by (auto simp: grows_def)
  qed
  then show "grows db db'" "b \<Longrightarrow> lapse (gov_of db) (gov_of db')" "\<not> b \<Longrightarrow> gov_of db' = gov_of db"
    "b \<Longrightarrow> uo_role m = ''superuser'' \<and> user_organizations db' = filter (\<lambda>m'. uo_id m' \<noteq> uo_id m) (user_organizations db)" by auto
qed

lemma active_superuser_binding_moves:
  assumes ok: "gov_ok (gov_of db)" and r: "active_superuser_binding db org = (found, db')"
  shows "grows db db'" "lapse\<^sup>=\<^sup>= (gov_of db) (gov_of db')"
    "found = None \<Longrightarrow> m \<in> set (user_organizations db') \<Longrightarrow> uo_organization_id m = org \<Longrightarrow> uo_role m \<noteq> ''superuser''"
proof -
  have "grows db db' \<and> lapse\<^sup>=\<^sup>= (gov_of db) (gov_of db')
    \<and> (found = None \<longrightarrow> m \<in> set (user_organizations db') \<longrightarrow> uo_organization_id m = org \<longrightarrow> uo_role m \<noteq> ''superuser'')"
  proof (cases "find (\<lambda>m. uo_organization_id m = org \<and> uo_role m = ''superuser'') (user_organizations db)")
    case None
    with r show ?thesis by (auto simp: active_superuser_binding_def find_None_iff intro: grows_refl)
  next
    case (Some b)
    then have b: "b \<in> set (user_organizations db)" "uo_organization_id b = org" "uo_role b = ''superuser''" by (auto dest: find_SomeD)
    obtain e dbx where e: "expire_if_past db b = (e, dbx)" by (cases "expire_if_past db b")
    note mv = expire_if_past_moves [OF ok b(1) e]
    from Some r e have res: "db' = dbx" "found = (if e then None else Some b)" by (auto simp: active_superuser_binding_def)
    show ?thesis
    proof (cases e)
      case False
      with mv res show ?thesis by simp
    next
      case True
      have d: "distinct (map uo_id (user_organizations db))" and
        inv: "gov_inv (set (users db)) (set (user_organizations db)) (set (access_requests db))" using ok by (simp_all add: gov_of_def)
      have "uo_role m \<noteq> ''superuser''" if "m \<in> set (user_organizations db')" "uo_organization_id m = org"
      proof -
        have "m \<in> set (user_organizations db) - {b}" using that(1) mv(4) [OF True] res by auto
        then show ?thesis using gov_invD(3) [OF inv _ b(1), of m] that(2) b by auto
      qed
      with mv res True show ?thesis by simp
    qed
  qed
  then show "grows db db'" "lapse\<^sup>=\<^sup>= (gov_of db) (gov_of db')"
    "found = None \<Longrightarrow> m \<in> set (user_organizations db') \<Longrightarrow> uo_organization_id m = org \<Longrightarrow> uo_role m \<noteq> ''superuser''" by auto
qed

lemma lapse_calm: "lapse\<^sup>=\<^sup>= (gov_of db) (gov_of db') \<Longrightarrow> grows db db' \<Longrightarrow> calm db db'"
  by (auto simp: calm_def intro: quiet.lapse)

lemma get_superuser_access_calm: "gov_ok (gov_of db) \<Longrightarrow> calm db (snd (get_superuser_access ctx db))"
  using active_superuser_binding_moves(1,2) [of db "oc_organization_id ctx"]
  by (cases "active_superuser_binding db (oc_organization_id ctx)") (auto simp: get_superuser_access_def intro: lapse_calm)

lemma revoke_superuser_membership_calm:
  assumes ok: "gov_ok (gov_of db)"
  shows "calm db (snd (revoke_superuser_membership ctx ip db))"
  unfolding revoke_superuser_membership_def
proof (rule transact_calm, rule commits_return, clarsimp split: sum.splits option.splits simp: split_beta Let_def, intro calm_events)
  fix c su m
  assume su: "get_install_superuser db = Inr su" and "get_binding db (oc_organization_id c) (u_id su) = Some m"
  then have m: "m \<in> set (user_organizations db)" "uo_organization_id m = oc_organization_id c" "uo_user_id m = u_id su" by (auto dest: get_bindingD)
  from ok have inv: "gov_inv (set (users db)) (set (user_organizations db)) (set (access_requests db))" and d: "distinct (map u_id (users db))"
    by (simp_all add: gov_of_def)
  have only: "filter (\<lambda>u. u_is_superuser u \<and> u_is_active u) (users db) = [su]" using su by (auto simp: get_install_superuser_def split: list.splits)
  have "su \<in> set (filter (\<lambda>u. u_is_superuser u \<and> u_is_active u) (users db))" unfolding only by simp
  then have su_in: "su \<in> set (users db)" "u_is_superuser su" by auto
  obtain u where "u \<in> set (users db)" "u_id u = u_id su" "u_is_superuser u = (uo_role m = ''superuser'')"
    using gov_invD(1) [OF inv m(1)] m(3) by (auto simp: binding_ok_def)
  moreover from this have "u = su" using d su_in(1) by (auto simp: distinct_map inj_on_def)
  ultimately have role: "uo_role m = ''superuser''" using su_in by simp
  let ?db = "mark_request_ended (snd (utcnow (delete_binding m db))) (oc_organization_id c) (u_id su) ''revoked'' (fst (utcnow (delete_binding m db)))"
  have "lapse (gov_of db) (gov_of ?db)"
    by (rule mark_request_ended_lapse [OF ok m(1) role, of "''revoked''" _ "fst (utcnow (delete_binding m db))"])
      (simp_all add: m(2,3) mark_request_ended_def latest_approved_def put_request_def delete_binding_def utcnow_def split: option.splits)
  moreover have "audit_events ?db = audit_events db"
    by (simp add: mark_request_ended_def put_request_def delete_binding_def utcnow_def split: option.splits)
  ultimately show "calm db ?db" by (auto intro: lapse_calm grows_refl)
qed

section \<open>Deciding a request\<close>

lemma load_org_request_Inr:
  assumes "load_org_request db org rid = Inr (r, u)"
  shows "r \<in> set (access_requests db) \<and> sar_id r = rid \<and> sar_organization_id r = org"
proof -
  let ?rows = "[(r, u). r \<leftarrow> access_requests db, u \<leftarrow> users db, u_id u = sar_superuser_user_id r \<and> sar_id r = rid \<and> sar_organization_id r = org]"
  from assms have "(r, u) \<in> set ?rows" unfolding load_org_request_def by (cases ?rows) auto
  then show ?thesis by (auto split: if_splits)
qed

lemma settle_calm:
  assumes "gov_of db1 = gov_of db" "audit_events db1 = audit_events db" "r \<in> set (access_requests db)" "sar_status r = ''pending''" "st \<in> {''rejected'', ''cancelled''}"
  shows "calm db (put_request (r\<lparr>sar_status := st, sar_decided_at := t, sar_decided_by_user_id := d\<rparr>) db1)"
proof (rule calm_one)
  show "quiet (gov_of db) (gov_of (put_request (r\<lparr>sar_status := st, sar_decided_at := t, sar_decided_by_user_id := d\<rparr>) db1))"
    unfolding gov_simps users_gov [OF assms(1)] by (subst gov_of_def, rule quiet.settle) (use assms in auto)
  show "grows db (put_request (r\<lparr>sar_status := st, sar_decided_at := t, sar_decided_by_user_id := d\<rparr>) db1)"
    by (simp add: grows_refl gov_simps assms(2))
qed

lemma reject_access_request_calm: "calm db (snd (reject_access_request ctx rid reason ip db))"
  unfolding reject_access_request_def
  by (rule transact_calm, rule commits_return)
    (auto simp: Let_def split_beta gov_simps split: sum.splits dest!: load_org_request_Inr intro!: calm_events settle_calm)

lemma resolve_grant_expiry_frame:
  assumes "resolve_grant_expiry body h db = (r, db')"
  shows "gov_of db' = gov_of db" "audit_events db' = audit_events db"
proof -
  have "db' = db \<or> db' = snd (utcnow db)"
    using assms by (auto simp: resolve_grant_expiry_def split_beta Let_def split: grant_mode.splits option.splits)
  then show "gov_of db' = gov_of db" "audit_events db' = audit_events db" by (auto simp: gov_simps)
qed

lemma grants_event: "grants db db1 \<Longrightarrow> grants db (write_dual_audit db1 ctx ty dat ip)"
  by (auto simp: grants_def gov_simps)

text \<open>The one place that grants.\<close>

lemma grantI:
  assumes ok: "gov_ok (gov_of db)" and admin: "admin_in (users db) (user_organizations db) org a"
    and req: "req \<in> set (access_requests db)" "sar_organization_id req = org" "sar_status req = ''pending''"
    and free: "active_superuser_binding db org = (None, db1)" and same: "gov_of db2 = gov_of db1" "audit_events db2 = audit_events db1"
    and add: "add_binding b db2 = Inr db3"
    and b: "uo_role b = ''superuser''" "uo_user_id b = sar_superuser_user_id req" "uo_organization_id b = org" "uo_expires_at b = e"
  shows "grants db (put_request (req\<lparr>sar_status := ''approved'', sar_decided_at := Some t, sar_decided_by_user_id := Some a,
    sar_granted_expires_at := e\<rparr>) db3)" (is "grants db ?db")
proof -
  note mv = active_superuser_binding_moves [OF ok free] and rows = users_gov [OF same(1)]
  have lapsed: "admin_in (users db1) (user_organizations db1) org a \<and> req \<in> set (access_requests db1)"
  proof (cases "gov_of db1 = gov_of db")
    case True
    with admin req(1) show ?thesis by (simp add: gov_of_def)
  next
    case False
    with mv(2) have l: "lapse (gov_of db) (gov_of db1)" by auto
    from lapse_admin [OF l ok] admin have "admin_in (users db1) (user_organizations db1) org a" by (simp add: gov_of_def)
    moreover from l have "req \<in> set (access_requests db1)"
    proof (cases rule: lapse.cases)
      case (1 m bs r rs st us u)
      then have "req \<noteq> r" using req(3) by (auto simp: backs_def)
      with 1 req(1) ok show ?thesis by (auto simp: gov_of_def set_replace_by)
    qed
    ultimately show ?thesis by simp
  qed
  have eq: "gov_of ?db = (users db1, user_organizations db1 @ [b], replace_by sar_id (req\<lparr>sar_status := ''approved'', sar_decided_at := Some t,
      sar_decided_by_user_id := Some a, sar_granted_expires_at := uo_expires_at b\<rparr>) (access_requests db1))"
    using add_binding_Inr(1) [OF add] rows b by (simp add: gov_simps) (simp add: gov_of_def)
  have "grant (gov_of db1) (gov_of ?db)"
    unfolding eq by (subst gov_of_def, rule grant.intros)
      (use lapsed req b mv(3) [OF refl] add_binding_Inr(2,3) [OF add] rows in auto)
  with mv(2) have "\<exists>g. lapse\<^sup>=\<^sup>= (gov_of db) g \<and> grant g (gov_of ?db)" by blast
  moreover have "grows db ?db" using mv(1) add_binding_Inr(4) [OF add] same(2) by (simp add: grows_def gov_simps)
  ultimately show ?thesis by (simp add: grants_def)
qed

lemma approve_access_request_grants:
  assumes ok: "gov_ok (gov_of db)" and admin: "admin_in (users db) (user_organizations db) (oc_organization_id ctx) (oc_user_id ctx)"
  shows "commits (grants db) (approve_access_request ctx rid body ip db)"
  unfolding approve_access_request_def
proof (rule transact_commits, rule commits_return, goal_cases)
  case (1 c)
  then have c: "c = ctx" using require_capability_Inr by blast
  have go: "commits (grants db) (grant_access ctx req u ip e db2)"
    if "req \<in> set (access_requests db)" "sar_organization_id req = oc_organization_id ctx" "sar_status req = ''pending''"
      "active_superuser_binding db (oc_organization_id ctx) = (None, db1)" "resolve_grant_expiry body h db1 = (Inr e, db2)" for req u e db1 db2 h
    using that resolve_grant_expiry_frame [OF that(5)]
    by (auto simp: grant_access_def split_beta Let_def gov_simps split: sum.splits
        intro!: grants_event grantI [OF ok admin, of req db1 "snd (uuid4 (snd (utcnow db2)))"])
  show ?case unfolding c
    by (cases "active_superuser_binding db (oc_organization_id ctx)")
      (auto simp: Let_def split: sum.splits dest!: load_org_request_Inr intro!: commits_bind go)
qed

section \<open>The Superuser's requests\<close>

lemma require_superuser_Inr: "require_superuser rq db = Inr su \<Longrightarrow> su \<in> set (users db) \<and> u_is_superuser su \<and> u_is_active su"
  by (auto simp: require_superuser_def Let_def dest!: user_ofD split: if_splits option.splits)

lemma as_superuser_calm:
  assumes "\<And>su. su \<in> set (users db) \<Longrightarrow> u_is_superuser su \<Longrightarrow> commits (calm db) (body su db)"
  shows "calm db (snd (as_superuser rq body db))"
  unfolding as_superuser_def
  by (rule transact_calm, rule commits_return) (use assms require_superuser_Inr in blast)

lemma reset_target_calm: "t \<in> set (users db) \<Longrightarrow> calm db (fst (snd (reset_target hash_password minutes rq su extra t db bl)))"
  by (auto simp: reset_target_def split_beta Let_def gov_simps intro!: calm_events put_user_after)

lemma superuser_resets_calm:
  "calm db (fst (snd (reset_user_password hash_password minutes rq uid db bl)))"
  "calm db (fst (snd (reset_user_password_by_email hash_password minutes rq email db bl)))"
  "calm db (fst (snd (revoke_user_sessions minutes rq uid db bl)))"
  by (auto simp: reset_user_password_def reset_user_password_by_email_def revoke_user_sessions_def split_beta Let_def
      split: sum.splits option.splits dest!: user_ofD find_SomeD intro!: reset_target_calm calm_events)

lemma recovery_account_Inr:
  assumes "recovery_account hash_password email name now db = (Inr (u, pw), db')"
  shows "calm db db'" "u \<in> set (users db')" "\<not> u_is_superuser u"
proof -
  define db1 where "db1 = snd (uuid4 (snd (token_urlsafe db)))"
  have same: "gov_of db1 = gov_of db" "audit_events db1 = audit_events db" by (simp_all add: db1_def gov_simps)
  have "calm db db' \<and> u \<in> set (users db') \<and> \<not> u_is_superuser u"
  proof (cases "find (\<lambda>u. u_email u = email) (users db)")
    case None
    then obtain v where "add_user v db1 = Inr db'" "v = u" "\<not> u_is_superuser u"
      using assms by (auto simp: recovery_account_def db1_def split_beta Let_def split: sum.splits)
    with add_user_Inr [of u db1 db'] same show ?thesis by (auto intro: calm_one grows_refl)
  next
    case (Some v)
    with assms have "db' = db" "u = v" "\<not> u_is_superuser u" by (auto simp: recovery_account_def split: if_splits)
    with Some show ?thesis by (auto dest: find_SomeD)
  qed
  then show "calm db db'" "u \<in> set (users db')" "\<not> u_is_superuser u" by simp_all
qed

text \<open>A binding of an ordinary user does not carry the Superuser's role.\<close>

lemma ordinary_role:
  assumes "gov_ok (gov_of db)" "m \<in> set (user_organizations db)" "u \<in> set (users db)" "uo_user_id m = u_id u" "\<not> u_is_superuser u"
  shows "uo_role m \<noteq> ''superuser''"
proof -
  from assms(1) have d: "distinct (map u_id (users db))" and inv: "gov_inv (set (users db)) (set (user_organizations db)) (set (access_requests db))"
    by (simp_all add: gov_of_def)
  from gov_invD(1) [OF inv assms(2)] obtain v where "v \<in> set (users db)" "u_id v = u_id u" "u_is_superuser v = (uo_role m = ''superuser'')"
    using assms(4) by (auto simp: binding_ok_def)
  moreover from this d assms(3) have "v = u" by (auto simp: distinct_map inj_on_def)
  ultimately show ?thesis using assms(5) by simp
qed

lemma make_admin_calm:
  assumes "gov_ok (gov_of db)" "u \<in> set (users db)" "\<not> u_is_superuser u" "make_admin org u now db = (Inr x, db')"
  shows "calm db db'"
proof (cases "find (\<lambda>m. uo_user_id m = u_id u \<and> uo_organization_id m = org) (user_organizations db)")
  case (Some m)
  then have m: "m \<in> set (user_organizations db)" "uo_user_id m = u_id u" by (auto dest: find_SomeD)
  have "calm db (put_binding (m\<lparr>uo_role := ''admin''\<rparr>) db)"
    by (rule assign_calm [OF m(1) ordinary_role [OF assms(1) m(1) assms(2) m(2) assms(3)]]) (simp_all add: ASSIGNABLE_ROLES_def)
  with Some assms(4) show ?thesis by (simp add: make_admin_def)
next
  case None
  define db1 where "db1 = snd (uuid4 db)"
  have same: "gov_of db1 = gov_of db" "audit_events db1 = audit_events db" by (simp_all add: db1_def gov_simps)
  from None assms(4) obtain b where add: "add_binding b db1 = Inr db'" and b: "uo_role b = ''admin''" "uo_expires_at b = None" "uo_user_id b = u_id u"
    by (auto simp: make_admin_def db1_def split_beta Let_def split: sum.splits)
  have "calm db1 db'" by (rule join_calm [OF add _ _ _ _ assms(3)]) (use assms(2) b users_gov [OF same(1)] in \<open>simp_all add: ASSIGNABLE_ROLES_def\<close>)
  with same show ?thesis by (auto intro: calm_trans calm_same grows_refl)
qed

lemma calm_ok: "calm db db' \<Longrightarrow> gov_ok (gov_of db) \<Longrightarrow> gov_ok (gov_of db')"
  by (auto simp: calm_def intro: quiets_ok)

lemma recover_organization_admin_calm:
  assumes ok: "gov_ok (gov_of db)"
  shows "calm db (snd (recover_organization_admin hash_password rq org email name db))"
  unfolding recover_organization_admin_def
proof (rule as_superuser_calm, goal_cases)
  case (1 su)
  have "commits (calm db) (io_bind (recovery_account hash_password email name (fst (utcnow db))) (\<lambda>(user, new_password).
         io_bind (make_admin org user (fst (utcnow db))) (\<lambda>_ db.
           let (_, db) = write_event db ''organization.recovery.admin_added''
                 (Some [(''recovery_flow'', PBool True), (''admin_user_id'', PStr (uuid_str (u_id user))),
                   (''admin_email'', PStr (u_email user)), (''created_new_user'', PBool (new_password \<noteq> None))])
                 (Some org) (Some (u_id su)) (Some (session_text (wr_session rq))) (wr_source_ip rq) None
           in (Inr \<lparr>ra_organization_id = org, ra_user_id = u_id user, ra_email = u_email user, ra_role = ''admin'',
             ra_new_password = new_password\<rparr>, db))) (snd (utcnow db)))"
  proof (rule commits_bind, clarify, rule commits_bind)
    fix u pw db1 y db2
    assume acc: "recovery_account hash_password email name (fst (utcnow db)) (snd (utcnow db)) = (Inr (u, pw), db1)"
      and adm: "make_admin org u (fst (utcnow db)) db1 = (Inr y, db2)"
    note facts = recovery_account_Inr [OF acc]
    have one: "calm db db1" using facts(1) calm_events(7) [OF calm_refl] calm_trans by blast
    have "calm db db2" using one make_admin_calm [OF calm_ok [OF one ok] facts(2,3) adm] calm_trans by blast
    then show "commits (calm db) (let (_, db) = write_event db2 ''organization.recovery.admin_added''
                 (Some [(''recovery_flow'', PBool True), (''admin_user_id'', PStr (uuid_str (u_id u))),
                   (''admin_email'', PStr (u_email u)), (''created_new_user'', PBool (pw \<noteq> None))])
                 (Some org) (Some (u_id su)) (Some (session_text (wr_session rq))) (wr_source_ip rq) None
           in (Inr \<lparr>ra_organization_id = org, ra_user_id = u_id u, ra_email = u_email u, ra_role = ''admin'', ra_new_password = pw\<rparr>, db))"
      by (simp add: split_beta Let_def calm_events)
  qed
  then show ?case by (auto simp: split_beta Let_def split: option.splits)
qed

lemma ask_calm:
  assumes "gov_of db1 = gov_of db" "audit_events db1 = audit_events db" "add_request r db1 = Inr db2" "sar_status r = ''pending''"
    and "su \<in> set (users db)" "u_is_superuser su" "sar_superuser_user_id r = u_id su"
    and none: "\<not> (\<exists>q \<in> set (access_requests db). sar_organization_id q = sar_organization_id r \<and> sar_superuser_user_id q = u_id su \<and> sar_status q = ''pending'')"
  shows "calm db db2"
proof (rule calm_one)
  from assms(3) have eq: "gov_of db2 = (users db, user_organizations db, access_requests db @ [r])" "sar_id r \<notin> sar_id ` set (access_requests db)"
      "audit_events db2 = audit_events db"
    using users_gov [OF assms(1)] assms(2) by (auto simp: add_request_def gov_of_def split: if_splits)
  show "quiet (gov_of db) (gov_of db2)" unfolding eq(1) by (subst gov_of_def, rule quiet.ask [of _ _ su]) (use assms eq(2) in auto)
  show "grows db db2" using eq(3) by (rule grows_refl)
qed

lemma request_org_access_calm:
  assumes ok: "gov_ok (gov_of db)"
  shows "calm db (snd (request_org_access rq org reason hours db))"
  unfolding request_org_access_def
proof (rule as_superuser_calm, goal_cases)
  case (1 su)
  obtain found db1 where act: "active_superuser_binding db org = (found, db1)" by (cases "active_superuser_binding db org")
  note mv = active_superuser_binding_moves [OF ok act]
  have c1: "calm db db1" by (rule lapse_calm [OF mv(2,1)])
  have u1: "users db1 = users db" using mv(2) by (auto simp: gov_of_def elim: lapse.cases)
  define db2 where "db2 = snd (utcnow (snd (uuid4 db1)))"
  have same: "gov_of db2 = gov_of db1" "audit_events db2 = audit_events db1" by (simp_all add: db2_def gov_simps)
  have go: "calm db db3" if "add_request r db2 = Inr db3" "sar_status r = ''pending''" "sar_superuser_user_id r = u_id su" "sar_organization_id r = org"
      "\<forall>q \<in> set (access_requests db1). sar_organization_id q = org \<longrightarrow> sar_superuser_user_id q = u_id su \<longrightarrow> sar_status q \<noteq> ''pending''" for r db3
    by (rule calm_trans [OF c1], rule ask_calm [OF same that(1,2), of su]) (use that 1 u1 in auto)
  show ?case using act
    by (auto simp: split_beta Let_def db2_def [symmetric] split: sum.splits intro!: calm_events go)
qed

lemma list_my_access_requests_calm: "calm db (snd (list_my_access_requests rq limit db))"
  unfolding list_my_access_requests_def by (rule as_superuser_calm) (simp add: split_beta Let_def calm_events)

lemma cancel_my_access_request_calm: "calm db (snd (cancel_my_access_request rq rid db))"
  unfolding cancel_my_access_request_def
proof (rule as_superuser_calm, goal_cases)
  case (1 su)
  have "calm db (put_request (r\<lparr>sar_status := ''cancelled'', sar_decided_at := t\<rparr>) (snd (utcnow db)))"
    if "r \<in> set (access_requests db)" "sar_status r = ''pending''" for r t
  proof -
    have "r\<lparr>sar_status := ''cancelled'', sar_decided_at := t\<rparr> =
        r\<lparr>sar_status := ''cancelled'', sar_decided_at := t, sar_decided_by_user_id := sar_decided_by_user_id r\<rparr>" by simp
    then show ?thesis using settle_calm [of "snd (utcnow db)" db r "''cancelled''" "sar_decided_by_user_id r" t] that by (simp add: gov_simps)
  qed
  then show ?case by (auto simp: split_beta Let_def split: option.splits dest!: find_SomeD intro!: calm_events)
qed

lemma organizations_calm:
  "calm db (snd (create_organization rq name slug db))" "calm db (snd (update_organization rq org name db))" "calm db (snd (delete_organization rq org db))"
proof -
  have add: "calm db db2" if "add_organization o' db1 = Inr db2" "calm db db1" for o' db1 db2
    using that by (auto simp: add_organization_def gov_of_def intro!: calm_after [OF that(2)] grows_refl split: if_splits)
  show "calm db (snd (create_organization rq name slug db))" unfolding create_organization_def
    by (rule as_superuser_calm) (auto simp: split_beta Let_def split: sum.splits intro!: calm_events dest: add [OF _ calm_events(8) [OF calm_events(7) [OF calm_refl]]])
  show "calm db (snd (update_organization rq org name db))" unfolding update_organization_def
    by (rule as_superuser_calm) (auto simp: split_beta Let_def split: option.splits intro!: calm_events)
  show "calm db (snd (delete_organization rq org db))" unfolding delete_organization_def
    by (rule as_superuser_calm) (auto simp: split_beta Let_def split: option.splits intro!: calm_events)
qed

section \<open>Sessions and bootstrap\<close>

lemma make_token_frame: "gov_of (snd (make_token jwt sub sid ty delta db)) = gov_of db" "audit_events (snd (make_token jwt sub sid ty delta db)) = audit_events db"
  by (simp_all add: make_token_def split_beta Let_def gov_simps)

lemma login_calm: "calm db (snd (login verify_password jwt cfg email password ip db))"
proof -
  have tok: "calm db (snd (make_token jwt sub sid ty delta db1))" if "calm db db1" for sub sid ty delta db1
    using that by (rule calm_after) (simp_all add: make_token_frame grows_refl)
  have lost: "calm db (rollback db db1)" for db1 by (simp add: calm_same gov_simps grows_refl)
  show ?thesis
    by (auto simp: login_def create_access_token_def create_refresh_token_def split_beta Let_def split: option.splits sum.splits
        intro!: calm_events tok lost)
qed

lemma logout_calm: "calm db (fst (snd (logout cfg time rq db bl)))"
  by (auto simp: logout_def Let_def split: sum.splits option.splits intro!: calm_events)

lemma record_org_choice_calm: "calm db (snd (record_org_choice event org rq db))"
  by (auto simp: record_org_choice_def split: sum.splits option.splits intro!: calm_events)

lemma invite_failure_frame: "gov_of (snd (invite_failure u token db)) = gov_of db" "audit_events (snd (invite_failure u token db)) = audit_events db"
  by (simp_all add: invite_failure_def split_beta Let_def gov_simps split: option.splits)

lemma verify_invite_calm: "calm db (snd (verify_invite cfg in_cidrs token cn header rq db))"
proof -
  have look: "calm db (snd (invite_failure u token db))" for u by (simp add: calm_same grows_refl invite_failure_frame)
  show ?thesis
    by (auto simp: verify_invite_def split_beta Let_def gov_simps invite_failure_frame split: sum.splits option.splits prod.splits dest!: user_ofD
        intro!: calm_events put_user_after look)
qed

lemma ensure_superuser_calm: "calm db (snd (ensure_superuser hash_password renew db))"
proof -
  have new: "calm db db2" if "add_user u db1 = Inr db2" "gov_of db1 = gov_of db" "audit_events db1 = audit_events db" for u db1 db2
    using add_user_Inr [OF that(1)] that(2,3) by (auto intro: calm_one grows_refl)
  show ?thesis unfolding ensure_superuser_def
    by (rule transact_calm) (auto simp: split_beta Let_def gov_simps split: option.splits sum.splits dest!: find_SomeD
        intro!: calm_events put_user_after intro: new)
qed

section \<open>Every step is a move\<close>

lemmas superuser_calms = superuser_resets_calm recover_organization_admin_calm request_org_access_calm list_my_access_requests_calm
  cancel_my_access_request_calm organizations_calm

lemmas session_calms = login_calm logout_calm record_org_choice_calm verify_invite_calm ensure_superuser_calm

lemma grant_role: "role_has_capability r SUPERUSER_MEMBERSHIP_GRANT \<Longrightarrow> r = ''admin''"
  by (auto simp: role_has_capability_def ROLE_CAPABILITIES_def MEMBER_BASELINE_def split: option.splits if_splits)

lemma approve_access_request_cases:
  assumes ok: "gov_ok (gov_of db)"
    and member: "role_has_capability (oc_role ctx) SUPERUSER_MEMBERSHIP_GRANT \<Longrightarrow> admin_in (users db) (user_organizations db) (oc_organization_id ctx) (oc_user_id ctx)"
  shows "calm db (snd (approve_access_request ctx rid body ip db)) \<or> grants db (snd (approve_access_request ctx rid body ip db))"
proof (cases "fst (approve_access_request ctx rid body ip db)")
  case (Inl e)
  then have "calm db (snd (approve_access_request ctx rid body ip db))" unfolding approve_access_request_def
    by (cases rule: transact_cases) (auto intro!: calm_same grows_refl)
  then show ?thesis ..
next
  case (Inr x)
  have "role_has_capability (oc_role ctx) SUPERUSER_MEMBERSHIP_GRANT"
  proof (rule ccontr)
    assume "\<not> ?thesis"
    then have "\<exists>e. require_capability SUPERUSER_MEMBERSHIP_GRANT ctx = Inl e" by (simp add: require_capability_def)
    with Inr show False by (auto simp: approve_access_request_def transact_def io_bind_def io_return_def)
  qed
  from approve_access_request_grants [OF ok member [OF this], of rid body ip] Inr show ?thesis
    by (cases "approve_access_request ctx rid body ip db") simp
qed

lemma org_call_moves:
  assumes "org_call hash_password ctx db db'" "gov_ok (gov_of db)"
    and "oc_role ctx = ''admin'' \<Longrightarrow> admin_in (users db) (user_organizations db) (oc_organization_id ctx) (oc_user_id ctx)"
  shows "calm db db' \<or> grants db db'"
  using assms
proof (induction rule: org_call.induct)
  case (6 ctx db rid decision ip)
  then show ?case using approve_access_request_cases grant_role by blast
qed (auto intro: create_member_calm regenerate_invite_link_calm change_member_role_calm remove_member_calm reset_member_password_calm
    reject_access_request_calm get_superuser_access_calm revoke_superuser_membership_calm)

lemma context_moves:
  assumes "require_organization_context rq db = (r, db')" "gov_ok (gov_of db)"
  shows "calm db db'"
proof (cases "\<exists>m \<in> set (user_organizations db). db' = snd (expire_if_past db m)")
  case True
  then obtain m e where m: "m \<in> set (user_organizations db)" "expire_if_past db m = (e, db')" by (metis prod.collapse)
  note mv = expire_if_past_moves [OF assms(2) m]
  show ?thesis by (rule lapse_calm [OF _ mv(1)]) (use mv(2,3) in \<open>cases e; simp\<close>)
next
  case False
  with assms(1) have "db' = db"
    by (auto simp: require_organization_context_def split_beta Let_def split: sum.splits option.splits if_splits prod.splits
        dest!: binding_of_Inr)
  then show ?thesis by simp
qed

lemma gov_step_moves:
  assumes "gov_step hash_password db db'" "gov_ok (gov_of db)"
  shows "calm db db' \<or> grants db db'"
  using assms
proof (induction rule: gov_step.induct)
  case (context_only rq db r db1)
  then show ?case using context_moves by blast
next
  case (member rq db ctx db1 db2)
  note m = context_membership [OF member(1)]
  then have rows: "gov_of db1 = gov_of db" "audit_events db1 = audit_events db" by (auto simp: same_tables_def gov_of_def)
  have "admin_in (users db1) (user_organizations db1) (oc_organization_id ctx) (oc_user_id ctx)" if "oc_role ctx = ''admin''"
    using m that users_gov [OF rows(1)] by (auto simp: admin_in_def)
  with org_call_moves [OF member(2)] rows member(3) have "calm db1 db2 \<or> grants db1 db2" by simp
  moreover have "calm db db1" using rows by (simp add: calm_same grows_refl)
  ultimately show ?case using rows calm_trans unfolding grants_def grows_def by metis
next
  case (superuser db db1)
  then show ?case by (induction rule: superuser_call.induct) (simp_all add: superuser_calms)
next
  case (session db db1)
  then show ?case by (induction rule: session_call.induct) (simp_all add: session_calms)
qed

lemma grants_moves: "grants db db' \<Longrightarrow> gov_move\<^sup>*\<^sup>* (gov_of db) (gov_of db')"
proof -
  assume "grants db db'"
  then obtain g where g: "lapse\<^sup>=\<^sup>= (gov_of db) g" "grant g (gov_of db')" by (auto simp: grants_def)
  have "gov_move (gov_of db) g \<or> gov_of db = g" using g(1) quiet.lapse unfolding gov_move_def by blast
  then have "gov_move\<^sup>*\<^sup>* (gov_of db) g" by (metis rtranclp.rtrancl_refl r_into_rtranclp)
  also have "gov_move g (gov_of db')" using g(2) by (simp add: gov_move_def)
  finally show ?thesis by (simp add: rtranclp.rtrancl_into_rtrancl)
qed

lemma gov_step_refines:
  assumes "gov_step hash_password db db'" "gov_ok (gov_of db)"
  shows "gov_move\<^sup>*\<^sup>* (gov_of db) (gov_of db')" "grows db db'"
proof -
  from gov_step_moves [OF assms] consider "calm db db'" | "grants db db'" by blast
  then have "gov_move\<^sup>*\<^sup>* (gov_of db) (gov_of db') \<and> grows db db'"
  proof cases
    case 1
    then show ?thesis using quiets_moves unfolding calm_def by blast
  next
    case 2
    with grants_moves [OF 2] show ?thesis by (simp add: grants_def)
  qed
  then show "gov_move\<^sup>*\<^sup>* (gov_of db) (gov_of db')" "grows db db'" by simp_all
qed

text \<open>The governance as a system: its invariant, and its audit trail.\<close>

interpretation governed: preserved "gov_step hash_password" "\<lambda>db. gov_ok (gov_of db)" for hash_password
  by unfold_locales (rule moves.run_keeps [OF gov_step_refines(1)])

interpretation governed_log: append_only audit_events "\<lambda>db db'. gov_step hash_password db db' \<and> gov_ok (gov_of db)" for hash_password
  by unfold_locales (use gov_step_refines(2) in \<open>auto simp: grows_def\<close>)

lemma gov_run_refines:
  assumes "(gov_step hash_password)\<^sup>*\<^sup>* db db'" "gov_ok (gov_of db)"
  shows "gov_move\<^sup>*\<^sup>* (gov_of db) (gov_of db') \<and> grows db db'"
  using assms
proof (induction rule: rtranclp_induct)
  case (step y z)
  have "gov_ok (gov_of y)" by (rule governed.run_keeps [OF step.hyps(1) step.prems])
  note one = gov_step_refines [OF step.hyps(2) this]
  from step.IH [OF step.prems] have "gov_move\<^sup>*\<^sup>* (gov_of db) (gov_of y)" "grows db y" by simp_all
  with one show ?case by (auto intro: rtranclp_trans grows_trans)
qed (simp add: grows_refl)

section \<open>Properties\<close>

text \<open>C23: In every state the governance reaches from empty membership tables, by any sequence of member, Superuser,
  session and bootstrap requests: ids, e-mail addresses and memberships (user, organization) are unique; a
  binding with the Superuser's role belongs to a Superuser and is backed by an approved request that some
  admin decided, with the expiry that was granted; every other binding belongs to an ordinary user, has
  an assignable role and no expiry; an organization has at most one Superuser binding; and an approved
  request always has its binding.\<close>

theorem reachable_governance_is_consistent:
  assumes "(gov_step hash_password)\<^sup>*\<^sup>* db0 db" and "users db0 = []" "user_organizations db0 = []" "access_requests db0 = []"
  shows "distinct (map u_id (users db)) \<and> distinct (map u_email (users db))
    \<and> distinct (map (\<lambda>m. (uo_user_id m, uo_organization_id m)) (user_organizations db))
    \<and> (\<forall>m \<in> set (user_organizations db). \<exists>u \<in> set (users db). u_id u = uo_user_id m
        \<and> (if uo_role m = ''superuser''
           then u_is_superuser u \<and> (\<exists>r \<in> set (access_requests db). sar_status r = ''approved'' \<and> sar_organization_id r = uo_organization_id m
             \<and> sar_superuser_user_id r = uo_user_id m \<and> sar_granted_expires_at r = uo_expires_at m \<and> sar_decided_by_user_id r \<noteq> None)
           else \<not> u_is_superuser u \<and> uo_role m \<in> set ASSIGNABLE_ROLES \<and> uo_expires_at m = None))
    \<and> (\<forall>m \<in> set (user_organizations db). \<forall>m' \<in> set (user_organizations db). uo_role m = ''superuser'' \<and> uo_role m' = ''superuser''
        \<and> uo_organization_id m = uo_organization_id m' \<longrightarrow> m = m')
    \<and> (\<forall>r \<in> set (access_requests db). sar_status r = ''approved'' \<longrightarrow>
        (\<exists>m \<in> set (user_organizations db). uo_role m = ''superuser'' \<and> uo_user_id m = sar_superuser_user_id r \<and> uo_organization_id m = sar_organization_id r))"
proof -
  have "gov_ok (gov_of db0)" using assms(2-4) by (simp add: gov_of_def gov_inv_def)
  with governed.run_keeps [OF assms(1)] have ok: "gov_ok (gov_of db)" by simp
  then have inv: "gov_inv (set (users db)) (set (user_organizations db)) (set (access_requests db))" by (simp add: gov_of_def)
  have "\<exists>u \<in> set (users db). u_id u = uo_user_id m \<and> (if uo_role m = ''superuser''
       then u_is_superuser u \<and> (\<exists>r \<in> set (access_requests db). sar_status r = ''approved'' \<and> sar_organization_id r = uo_organization_id m
             \<and> sar_superuser_user_id r = uo_user_id m \<and> sar_granted_expires_at r = uo_expires_at m \<and> sar_decided_by_user_id r \<noteq> None)
       else \<not> u_is_superuser u \<and> uo_role m \<in> set ASSIGNABLE_ROLES \<and> uo_expires_at m = None)" if "m \<in> set (user_organizations db)" for m
    using gov_invD(1) [OF inv that] unfolding binding_ok_def backs_def by (cases "uo_role m = ''superuser''") auto
  moreover have "\<exists>m \<in> set (user_organizations db). uo_role m = ''superuser'' \<and> uo_user_id m = sar_superuser_user_id r \<and> uo_organization_id m = sar_organization_id r"
    if "r \<in> set (access_requests db)" "sar_status r = ''approved''" for r
    using gov_invD(2) [OF inv that(1)] that(2) unfolding request_ok_def backs_def by auto
  moreover have "distinct (map (\<lambda>m. (uo_user_id m, uo_organization_id m)) (user_organizations db))"
    using ok by (simp add: gov_of_def pair_of_def [abs_def])
  ultimately show ?thesis using ok gov_invD(3) [OF inv] by (simp add: gov_of_def)
qed

text \<open>C22: An organization that has an active admin keeps one: no sequence of requests, with whatever outcomes, leaves
  it without.\<close>

theorem organization_keeps_an_admin:
  assumes "(gov_step hash_password)\<^sup>*\<^sup>* db db'" and "gov_ok (gov_of db)" and "active_admin db org a"
  shows "\<exists>a'. active_admin db' org a'"
proof -
  have "has_admin org (gov_of db)" using assms(3) by (auto simp: has_admin_def gov_of_def active_admin_def admin_in_def)
  with assms(2) admins.run_keeps [OF conjunct1 [OF gov_run_refines [OF assms(1,2)]]] have "has_admin org (gov_of db')" by simp
  then show ?thesis by (auto simp: has_admin_def gov_of_def active_admin_def admin_in_def)
qed

text \<open>C21: The Superuser enters an organization only by its consent: a request after which the Superuser has a binding
  that was not there before found a pending access request of that Superuser to that organization, and marked it
  approved, with the same expiry, in the name of an active admin of the organization, who is not the Superuser.\<close>

theorem superuser_enters_by_consent:
  assumes "gov_step hash_password db db'" and "gov_ok (gov_of db)"
    and "m \<in> set (user_organizations db')" "uo_role m = ''superuser''" "m \<notin> set (user_organizations db)"
  shows "\<exists>a. \<exists>r \<in> set (access_requests db). \<exists>r' \<in> set (access_requests db').
    active_admin db (uo_organization_id m) a \<and> a \<noteq> uo_user_id m
    \<and> sar_status r = ''pending'' \<and> sar_organization_id r = uo_organization_id m \<and> sar_superuser_user_id r = uo_user_id m
    \<and> sar_id r' = sar_id r \<and> sar_status r' = ''approved'' \<and> sar_decided_by_user_id r' = Some a \<and> sar_granted_expires_at r' = uo_expires_at m"
proof -
  have "\<not> calm db db'" using quiets_no_grant [of "gov_of db" "gov_of db'" m] assms by (auto simp: calm_def gov_of_def)
  with gov_step_moves [OF assms(1,2)] have "grants db db'" by blast
  then obtain g where g: "lapse\<^sup>=\<^sup>= (gov_of db) g" "grant g (gov_of db')" by (auto simp: grants_def)
  have okg: "gov_ok g" using g(1) assms(2) lapse_keeps by blast
  obtain us bs rs where gt: "g = (us, bs, rs)" by (cases g)
  from g(2) show ?thesis unfolding gt
  proof (cases rule: grant.cases)
    case (1 r a b t)
    have sub: "set bs \<subseteq> set (user_organizations db)" and usr: "us = users db"
      using g(1) gt by (auto simp: gov_of_def elim!: lapse.cases)
    have m: "m = b" using 1 assms(3,5) sub by (auto simp: gov_of_def)
    have r: "r \<in> set (access_requests db)"
      using g(1) gt 1 by (auto simp: gov_of_def elim!: lapse.cases dest!: set_replace_byD)
    have adm: "active_admin db (sar_organization_id r) a"
      using 1(4) sub usr by (auto simp: admin_in_def active_admin_def)
    have inv: "gov_inv (set us) (set bs) (set rs)" and d: "distinct (map u_id us)" and dr: "distinct (map sar_id rs)" using okg gt by simp_all
    have "a \<noteq> sar_superuser_user_id r"
    proof
      assume "a = sar_superuser_user_id r"
      with 1(4) obtain x where x: "x \<in> set bs" "uo_user_id x = sar_superuser_user_id r" "uo_role x = ''admin''" by (auto simp: admin_in_def)
      from gov_invD(1) [OF inv x(1)] x obtain u where "u \<in> set us" "u_id u = sar_superuser_user_id r" "\<not> u_is_superuser u" by (auto simp: binding_ok_def)
      moreover from gov_invD(2) [OF inv 1(2)] obtain v where "v \<in> set us" "u_id v = sar_superuser_user_id r" "u_is_superuser v" by (auto simp: request_ok_def)
      ultimately show False using d by (auto simp: distinct_map inj_on_def)
    qed
    moreover have "r\<lparr>sar_status := ''approved'', sar_decided_at := Some t, sar_decided_by_user_id := Some a,
        sar_granted_expires_at := uo_expires_at b\<rparr> \<in> set (access_requests db')"
      using 1 set_replace_by [OF dr 1(2)] by (simp add: gov_of_def)
    ultimately show ?thesis using adm r 1 m by (intro exI [of _ a] bexI [of _ r] bexI) simp_all
  qed
qed

text \<open>C24: Access requests follow their life cycle: whatever happens, a request stays on record with the organization, the
  Superuser, the reason and the duration that were asked for, its status moves only from pending to
  approved, rejected or cancelled and from approved to revoked or expired, and once ended it never changes
  status again; and every audit event stays in place.\<close>

theorem access_requests_follow_lifecycle:
  assumes "(gov_step hash_password)\<^sup>*\<^sup>* db db'" and "gov_ok (gov_of db)" and "r \<in> set (access_requests db)"
  shows "(\<exists>q \<in> set (access_requests db'). sar_id q = sar_id r \<and> sar_organization_id q = sar_organization_id r
      \<and> sar_superuser_user_id q = sar_superuser_user_id r \<and> sar_reason q = sar_reason r
      \<and> sar_requested_duration_hours q = sar_requested_duration_hours r
      \<and> (sar_status r, sar_status q) \<in> status_edges\<^sup>*
      \<and> (sar_status r \<in> {''rejected'', ''cancelled'', ''revoked'', ''expired''} \<longrightarrow> sar_status q = sar_status r))
    \<and> prefix (audit_events db) (audit_events db')"
proof -
  note run = gov_run_refines [OF assms(1,2)]
  from run_later [OF conjunct1 [OF run] assms(2), of r] assms(3) obtain q where "q \<in> set (access_requests db')" "later r q"
    by (auto simp: gov_of_def)
  moreover from this terminal_status [of "sar_status r" "sar_status q"]
  have "sar_status r \<in> {''rejected'', ''cancelled'', ''revoked'', ''expired''} \<longrightarrow> sar_status q = sar_status r" by (auto simp: later_def)
  ultimately show ?thesis using run unfolding later_def grows_def by blast
qed

section \<open>Witnesses\<close>

definition account :: "uuid \<Rightarrow> string \<Rightarrow> bool \<Rightarrow> user" where
  "account i email su = \<lparr>u_id = i, u_email = email, u_display_name = email, u_hashed_password = None, u_oidc_sub = None, u_is_active = True,
     u_is_superuser = su, u_verification_status = ''verified'', u_verification_token_hash = None, u_verification_token_expires_at = None,
     u_created_at = Aware 0\<rparr>"

definition consent_db :: org_db where
  "consent_db = \<lparr>audit_events = [], clock = int, uuid_source = (\<lambda>n. word_of_nat (n + 100)),
     organizations = [\<lparr>o_id = 1, o_name = ''Acme'', o_slug = ''acme'', o_is_active = True, o_created_at = Aware 0\<rparr>],
     users = [account 2 ''wolf@wolf.local'' True, account 4 ''ada@acme'' False],
     user_organizations = [\<lparr>uo_id = 3, uo_user_id = 4, uo_organization_id = 1, uo_role = ''admin'', uo_created_at = Aware 0, uo_expires_at = None\<rparr>],
     access_requests = [\<lparr>sar_id = 9, sar_organization_id = 1, sar_superuser_user_id = 2, sar_status = ''pending'', sar_reason = None,
       sar_requested_duration_hours = Some 24, sar_granted_expires_at = None, sar_requested_at = Aware 0, sar_decided_at = None,
       sar_decided_by_user_id = None, sar_ended_at = None\<rparr>],
     token_source = (\<lambda>_. ''token'')\<rparr>"

definition admin_request :: web_request where
  "admin_request = \<lparr>wr_session = [(''user_id'', PStr (uuid_str 4))], wr_org_header = Some (uuid_str 1), wr_source_ip = None\<rparr>"

definition admin_ctx :: organization_context where
  "admin_ctx = \<lparr>oc_organization_id = 1, oc_organization_slug = ''acme'', oc_user_id = 4, oc_user_email = ''ada@acme'', oc_role = ''admin'', oc_session_id = []\<rparr>"

lemma consent_db_ok: "gov_ok (gov_of consent_db)" "active_admin consent_db 1 4"
  by (auto simp: consent_db_def account_def gov_of_def gov_inv_def binding_ok_def request_ok_def statuses_def ASSIGNABLE_ROLES_def active_admin_def)

lemma admin_context: "require_organization_context admin_request consent_db = (Inr admin_ctx, consent_db)"
proof -
  have "request_identity admin_request = Inr (4, 1)" by (simp add: request_identity_def admin_request_def dget_def)
  then show ?thesis
    by (simp add: require_organization_context_def consent_db_def account_def binding_of_def user_of_def organization_of_def expire_if_past_def
        organization_context_init_def VALID_ROLES_def admin_ctx_def admin_request_def session_text_def dget_or_def)
qed

lemmas admin_step = gov_step.member [OF admin_context]

theorem reachable_governance_is_consistent_witness:
  "\<exists>db u. (gov_step (\<lambda>p. p))\<^sup>*\<^sup>* (consent_db\<lparr>users := [], user_organizations := [], access_requests := []\<rparr>) db \<and> users db = [u]
     \<and> u_is_superuser u \<and> distinct (map u_email (users db))"
proof -
  let ?db = "consent_db\<lparr>users := [], user_organizations := [], access_requests := []\<rparr>"
  let ?out = "snd (ensure_superuser (\<lambda>p. p) False ?db)"
  have run: "(gov_step (\<lambda>p. p))\<^sup>*\<^sup>* ?db ?out" by (rule r_into_rtranclp, rule gov_step.session, rule session_call.intros)
  have "map u_is_superuser (users ?out) = [True]"
    by (simp add: ensure_superuser_def transact_def consent_db_def add_user_def token_urlsafe_def uuid4_def utcnow_def write_event_def Let_def)
  then obtain u where "users ?out = [u]" "u_is_superuser u" by (cases "users ?out") auto
  with reachable_governance_is_consistent [OF run] run show ?thesis by auto
qed

theorem organization_keeps_an_admin_witness:
  "\<exists>a. active_admin (snd (remove_member admin_ctx 4 None consent_db)) 1 a"
proof -
  have "(gov_step (\<lambda>p. p))\<^sup>*\<^sup>* consent_db (snd (remove_member admin_ctx 4 None consent_db))"
    by (rule r_into_rtranclp, rule admin_step, rule org_call.intros)
  from organization_keeps_an_admin [OF this consent_db_ok] show ?thesis .
qed

lemma consent_granted:
  "\<exists>m \<in> set (user_organizations (snd (approve_access_request admin_ctx 9 \<lparr>aa_mode = RequestedMode, aa_duration_hours = None\<rparr> None consent_db))).
     uo_role m = ''superuser'' \<and> uo_id m = 100"
  by (simp add: approve_access_request_def transact_def io_bind_def io_return_def require_capability_def admin_ctx_def
      role_has_capability_def ROLE_CAPABILITIES_def MEMBER_BASELINE_def load_org_request_def consent_db_def account_def
      active_superuser_binding_def resolve_grant_expiry_def grant_access_def utcnow_def uuid4_def add_binding_def put_request_def
      write_dual_audit_def write_dual_event_def write_event_def Let_def)

theorem superuser_enters_by_consent_witness:
  "\<exists>a. active_admin consent_db 1 a \<and> a \<noteq> 2"
proof -
  let ?db = "snd (approve_access_request admin_ctx 9 \<lparr>aa_mode = RequestedMode, aa_duration_hours = None\<rparr> None consent_db)"
  have st: "gov_step (\<lambda>p. p) consent_db ?db" by (rule admin_step, rule org_call.intros)
  obtain m where m: "m \<in> set (user_organizations ?db)" "uo_role m = ''superuser''" "uo_id m = 100" using consent_granted by blast
  have "m \<notin> set (user_organizations consent_db)" using m(3) by (auto simp: consent_db_def)
  from superuser_enters_by_consent [OF st consent_db_ok(1) m(1,2) this] show ?thesis by (auto simp: consent_db_def)
qed

theorem access_requests_follow_lifecycle_witness:
  "\<exists>q \<in> set (access_requests (snd (reject_access_request admin_ctx 9 None None consent_db))). sar_id q = 9 \<and> (''pending'', sar_status q) \<in> status_edges\<^sup>*"
proof -
  let ?db = "snd (reject_access_request admin_ctx 9 None None consent_db)"
  have "(gov_step (\<lambda>p. p))\<^sup>*\<^sup>* consent_db ?db" by (rule r_into_rtranclp, rule admin_step, rule org_call.intros)
  note all = access_requests_follow_lifecycle [OF this consent_db_ok(1), of "hd (access_requests consent_db)"]
  have hd: "hd (access_requests consent_db) \<in> set (access_requests consent_db)" "sar_id (hd (access_requests consent_db)) = 9"
      "sar_status (hd (access_requests consent_db)) = ''pending''" by (simp_all add: consent_db_def)
  from all [OF hd(1)] hd(2,3) show ?thesis by auto
qed

end
