(* ===== verification/Guardrails.thy ===== *)
theory Guardrails
  imports Audit_Log Py_Time Complex_Main
begin

text \<open>
  Resource guardrails: the limits of \<open>guardrails/limits.py\<close> and the token bucket of
  \<open>guardrails/rate_limit.py\<close>.

  The bucket's floating point numbers are rationals here, so what is shown of it holds up to the
  rounding of the machine.  The readings of \<open>time.monotonic()\<close> are an arbitrary sequence in the state;
  that the clock does not run backwards is a hypothesis where it is needed.
\<close>

section \<open>Limits\<close>

definition guardrail :: "string \<Rightarrow> exn" where
  "guardrail m = Wolf GuardrailViolation m"

text \<open>Durations are in microseconds.\<close>

record resource_limits =
  max_time_range :: int
  max_results_per_query :: int
  max_context_bytes :: nat

definition DEFAULT_LIMITS :: resource_limits where
  "DEFAULT_LIMITS = \<lparr>max_time_range = 365 * 86400000000, max_results_per_query = 1000, max_context_bytes = 100000\<rparr>"

definition TIME_RANGE_GRACE :: int where "TIME_RANGE_GRACE = 1000000"

text \<open>\<open>str\<close> of a \<open>timedelta\<close>.\<close>

definition timedelta_str :: "int \<Rightarrow> string" where
  "timedelta_str us = (let days = us div 86400000000; (hh, mm, ss, frac) = time_of_day us
     in (if days = 0 then [] else show_int days @ '' day'' @ (if \<bar>days\<bar> = 1 then [] else ''s'') @ '', '')
        @ show_int hh @ '':'' @ pad_int 2 mm @ '':'' @ pad_int 2 ss @ (if frac = 0 then [] else ''.'' @ pad_int 6 frac))"

fun same_awareness :: "datetime \<Rightarrow> datetime \<Rightarrow> bool" where
  "same_awareness (Naive _) (Naive _) = True"
| "same_awareness (Aware _) (Aware _) = True"
| "same_awareness _ _ = False"

definition check_window :: "datetime option \<Rightarrow> datetime option \<Rightarrow> resource_limits \<Rightarrow> bool \<Rightarrow> unit result" where
  "check_window time_from time_to limits enforce_time_window =
    (case (time_from, time_to) of
       (Some t0, Some t1) \<Rightarrow>
         if \<not> same_awareness t0 t1 then Inl (PyError ''TypeError'' ''can't compare offset-naive and offset-aware datetimes'')
         else if instant t1 < instant t0 then Inl (guardrail ''time_to is before time_from'')
         else let span = instant t1 - instant t0
           in if enforce_time_window \<and> span > max_time_range limits + TIME_RANGE_GRACE
              then Inl (guardrail (''Query spans '' @ timedelta_str span @ '' > maximum '' @ timedelta_str (max_time_range limits)))
              else Inr ()
     | _ \<Rightarrow> Inr ())"

definition check_size :: "int option \<Rightarrow> resource_limits \<Rightarrow> unit result" where
  "check_size requested_size limits = (case requested_size of None \<Rightarrow> Inr ()
     | Some n \<Rightarrow> if n > max_results_per_query limits
         then Inl (guardrail (''Requested '' @ show_int n @ '' results > max '' @ show_int (max_results_per_query limits) @ ''; paginate''))
         else Inr ())"

definition enforce_limits ::
  "datetime option \<Rightarrow> datetime option \<Rightarrow> int option \<Rightarrow> resource_limits \<Rightarrow> bool \<Rightarrow> unit result" where
  "enforce_limits time_from time_to requested_size limits enforce_time_window =
    rbind (check_window time_from time_to limits enforce_time_window) (\<lambda>_. check_size requested_size limits)"

text \<open>UTF-8 on the Latin-1 characters, and \<open>bytes.decode("utf-8", errors="ignore")\<close>: a byte that does not start or
  continue a character is dropped.\<close>

fun utf8_encode :: "string \<Rightarrow> nat list" where
  "utf8_encode [] = []"
| "utf8_encode (c # cs) = (let n = cp c in if n < 128 then [n] else [192 + n div 64, 128 + n mod 64]) @ utf8_encode cs"

fun utf8_decode_ignore :: "nat list \<Rightarrow> string" where
  "utf8_decode_ignore [] = []"
| "utf8_decode_ignore [b] = (if b < 128 then [char_of b] else [])"
| "utf8_decode_ignore (b # c # bs) =
    (if b < 128 then char_of b # utf8_decode_ignore (c # bs)
     else if 194 \<le> b \<and> b \<le> 195 \<and> 128 \<le> c \<and> c < 192 then char_of ((b - 192) * 64 + (c - 128)) # utf8_decode_ignore bs
     else utf8_decode_ignore (c # bs))"

definition TRUNCATION_MARKER :: string where
  "TRUNCATION_MARKER = [CHR 0x0A, CHR 0x0A] @ ''[... truncated by resource guardrail; narrow your query ...]''"

definition truncate_for_context :: "string \<Rightarrow> resource_limits \<Rightarrow> string" where
  "truncate_for_context payload limits =
    (if length (utf8_encode payload) \<le> max_context_bytes limits then payload
     else utf8_decode_ignore (take (max_context_bytes limits) (utf8_encode payload)) @ TRUNCATION_MARKER)"

section \<open>Rate limiting\<close>

record bucket =
  bk_tokens :: rat
  bk_last_refill :: rat

record rate_limiter =
  rate_per_sec :: rat
  rl_burst :: rat
  buckets :: "uuid \<Rightarrow> bucket option"
  monotonic :: "nat \<Rightarrow> rat"

definition new_rate_limiter :: "rat \<Rightarrow> int \<Rightarrow> (nat \<Rightarrow> rat) \<Rightarrow> rate_limiter" where
  "new_rate_limiter rate_per_minute burst readings =
    \<lparr>rate_per_sec = rate_per_minute / 60, rl_burst = of_int burst, buckets = (\<lambda>_. None), monotonic = readings\<rparr>"

text \<open>The format \<open>:.0f\<close> rounds half to even.\<close>

definition fmt_0f :: "rat \<Rightarrow> string" where
  "fmt_0f x = (let f = floor x; d = x - of_int f
     in show_int (if d < 1 / 2 then f else if d > 1 / 2 then f + 1 else if even f then f else f + 1))"

text \<open>The bucket after the refill that every call of \<open>take\<close> starts with.\<close>

definition refilled :: "rate_limiter \<Rightarrow> rat \<Rightarrow> bucket option \<Rightarrow> bucket" where
  "refilled rl now b = (case b of None \<Rightarrow> \<lparr>bk_tokens = rl_burst rl, bk_last_refill = now\<rparr>
     | Some b \<Rightarrow> \<lparr>bk_tokens = min (rl_burst rl) (bk_tokens b + (now - bk_last_refill b) * rate_per_sec rl), bk_last_refill = now\<rparr>)"

definition take_token :: "uuid \<Rightarrow> rat \<Rightarrow> rate_limiter \<Rightarrow> unit result \<times> rate_limiter" where
  "take_token organization_id cost rl =
    (let now = monotonic rl 0;
         b = refilled rl now (buckets rl organization_id);
         rl = rl\<lparr>monotonic := \<lambda>n. monotonic rl (Suc n)\<rparr>
     in if bk_tokens b < cost
        then (Inl (guardrail (''Rate limit exceeded for organization '' @ uuid_str organization_id @ '' ('' @ fmt_0f (rate_per_sec rl * 60) @ ''/min)'')),
              rl\<lparr>buckets := (buckets rl)(organization_id \<mapsto> b)\<rparr>)
        else (Inr (), rl\<lparr>buckets := (buckets rl)(organization_id \<mapsto> b\<lparr>bk_tokens := bk_tokens b - cost\<rparr>)\<rparr>))"

definition default_rate_limiter :: "(nat \<Rightarrow> rat) \<Rightarrow> rate_limiter" where
  "default_rate_limiter readings = new_rate_limiter 60 60 readings"

section \<open>Truncation keeps a prefix\<close>

lemma cp_bound: "cp c < 256"
  by (simp add: cp_def)

text \<open>A cut after any number of bytes decodes to the longest prefix whose encoding fits.\<close>

fun fitting :: "nat \<Rightarrow> string \<Rightarrow> string" where
  "fitting n [] = []"
| "fitting n (c # cs) = (let k = length (utf8_encode [c]) in if k \<le> n then c # fitting (n - k) cs else [])"

lemma wide_char:
  assumes "\<not> cp c < 128"
  shows "194 \<le> 192 + cp c div 64" "192 + cp c div 64 \<le> 195" "char_of (cp c div 64 * 64 + cp c mod 64) = c"
proof -
  have "cp c div 64 < 4" using cp_bound [of c] by (simp add: less_mult_imp_div_less)
  then show "192 + cp c div 64 \<le> 195" by simp
  show "194 \<le> 192 + cp c div 64" using div_le_mono [of 128 "cp c" 64] assms by simp
  show "char_of (cp c div 64 * 64 + cp c mod 64) = c" by (simp add: cp_def)
qed

lemma decode_ascii: "b < 128 \<Longrightarrow> utf8_decode_ignore (b # bs) = char_of b # utf8_decode_ignore bs"
  by (cases bs) simp_all

lemma utf8_decode_take: "utf8_decode_ignore (take n (utf8_encode s)) = fitting n s"
proof (induction s arbitrary: n)
  case (Cons c cs)
  show ?case
  proof (cases "cp c < 128")
    case True
    then show ?thesis using Cons [of "n - 1"] by (cases n) (simp_all add: Let_def decode_ascii cp_def)
  next
    case False
    note w = wide_char [OF this]
    consider "n = 0" | "n = 1" | k where "n = Suc (Suc k)" by (metis One_nat_def not0_implies_Suc)
    then show ?thesis using False w Cons by cases (simp_all add: Let_def)
  qed
qed simp

lemma fitting_prefix: "\<exists>rest. s = fitting n s @ rest \<and> length (utf8_encode (fitting n s)) \<le> n
    \<and> (rest \<noteq> [] \<longrightarrow> n < length (utf8_encode (fitting n s @ [hd rest])))"
proof (induction s arbitrary: n)
  case (Cons c cs)
  define k where "k = length (utf8_encode [c])"
  have len: "length (utf8_encode (c # t)) = k + length (utf8_encode t)" for t by (simp add: k_def Let_def)
  show ?case
  proof (cases "k \<le> n")
    case True
    then have fit: "fitting n (c # cs) = c # fitting (n - k) cs" by (simp add: k_def)
    from Cons [of "n - k"] obtain rest where r: "cs = fitting (n - k) cs @ rest" "length (utf8_encode (fitting (n - k) cs)) \<le> n - k"
      "rest \<noteq> [] \<longrightarrow> n - k < length (utf8_encode (fitting (n - k) cs @ [hd rest]))" by blast
    from r True have "c # cs = fitting n (c # cs) @ rest" "length (utf8_encode (fitting n (c # cs))) \<le> n"
        "rest \<noteq> [] \<longrightarrow> n < length (utf8_encode (fitting n (c # cs) @ [hd rest]))"
      unfolding fit append_Cons len by auto
    then show ?thesis by blast
  next
    case False
    then have "fitting n (c # cs) = []" "n < length (utf8_encode [c])" by (simp_all add: k_def)
    then show ?thesis by (intro exI [of _ "c # cs"]) simp
  qed
qed simp

section \<open>The bucket\<close>

text \<open>What a bucket can hold, and the calls an organization makes in a row.\<close>

definition bucket_ok :: "rate_limiter \<Rightarrow> bool" where
  "bucket_ok rl \<longleftrightarrow> 0 \<le> rate_per_sec rl \<and> 0 \<le> rl_burst rl
     \<and> (\<forall>i b. buckets rl i = Some b \<longrightarrow> 0 \<le> bk_tokens b \<and> bk_tokens b \<le> rl_burst rl \<and> bk_last_refill b \<le> monotonic rl 0)
     \<and> mono (monotonic rl)"

fun takes :: "uuid list \<Rightarrow> rate_limiter \<Rightarrow> bool list \<times> rate_limiter" where
  "takes [] rl = ([], rl)"
| "takes (i # is) rl = (let (r, rl) = take_token i 1 rl; (rs, rl) = takes is rl in ((\<not> isl r) # rs, rl))"

definition granted :: "uuid \<Rightarrow> uuid list \<Rightarrow> bool list \<Rightarrow> nat" where
  "granted org is rs = length (filter (\<lambda>(i, ok). i = org \<and> ok) (zip is rs))"

definition tokens_at :: "rate_limiter \<Rightarrow> uuid \<Rightarrow> rat \<Rightarrow> rat" where
  "tokens_at rl org now = bk_tokens (refilled rl now (buckets rl org))"

lemma take_token_frame:
  assumes "take_token i c rl = (r, rl')"
  shows "rate_per_sec rl' = rate_per_sec rl" "rl_burst rl' = rl_burst rl" "monotonic rl' = (\<lambda>n. monotonic rl (Suc n))"
    "j \<noteq> i \<Longrightarrow> buckets rl' j = buckets rl j"
    "buckets rl' i = Some \<lparr>bk_tokens = tokens_at rl i (monotonic rl 0) - (if isl r then 0 else c), bk_last_refill = monotonic rl 0\<rparr>"
    "isl r \<longleftrightarrow> tokens_at rl i (monotonic rl 0) < c"
  using assms by (auto simp: take_token_def tokens_at_def refilled_def Let_def split: if_splits option.splits)

lemma tokens_at_bounds:
  assumes "bucket_ok rl"
  shows "0 \<le> tokens_at rl org (monotonic rl 0)" "tokens_at rl org now \<le> rl_burst rl"
  using assms by (auto simp: bucket_ok_def tokens_at_def refilled_def split: option.splits)

lemma tokens_at_later:
  assumes "bucket_ok rl" "t \<le> t'"
  shows "tokens_at rl org t' \<le> tokens_at rl org t + rate_per_sec rl * (t' - t)"
proof -
  have "0 \<le> rate_per_sec rl * (t' - t)" using assms by (simp add: bucket_ok_def)
  then show ?thesis by (auto simp: tokens_at_def refilled_def algebra_simps split: option.splits)
qed

lemma take_token_ok:
  assumes "bucket_ok rl" "take_token i c rl = (r, rl')" "0 \<le> c"
  shows "bucket_ok rl'"
proof -
  note f = take_token_frame [OF assms(2)] and b = tokens_at_bounds(1) [OF assms(1), of i] tokens_at_bounds(2) [OF assms(1), of i "monotonic rl 0"]
  have m: "monotonic rl 0 \<le> monotonic rl (Suc 0)" "mono (\<lambda>n. monotonic rl (Suc n))"
    using assms(1) by (auto simp: bucket_ok_def mono_def)
  have "0 \<le> bk_tokens b \<and> bk_tokens b \<le> rl_burst rl \<and> bk_last_refill b \<le> monotonic rl (Suc 0)" if "buckets rl' j = Some b" for j b
  proof (cases "j = i")
    case True
    with f(5,6) that b m(1) assms(3) show ?thesis by (auto split: if_splits)
  next
    case False
    with f(4) that have "buckets rl j = Some b" by simp
    then have "0 \<le> bk_tokens b \<and> bk_tokens b \<le> rl_burst rl \<and> bk_last_refill b \<le> monotonic rl 0"
      using assms(1) unfolding bucket_ok_def by blast
    with m(1) show ?thesis by linarith
  qed
  with m(2) f(1-3) assms(1) show ?thesis by (simp add: bucket_ok_def)
qed

lemma take_token_spends:
  assumes "bucket_ok rl" "take_token i 1 rl = (r, rl')" "monotonic rl 0 \<le> t"
  shows "tokens_at rl' org t + (if i = org \<and> \<not> isl r then 1 else 0) \<le> tokens_at rl org (monotonic rl 0) + rate_per_sec rl * (t - monotonic rl 0)"
proof (cases "i = org")
  case True
  then show ?thesis using take_token_frame(1,2,5) [OF assms(2)]
    by (auto simp: tokens_at_def [of rl'] refilled_def mult.commute)
next
  case False
  then have "tokens_at rl' org t = tokens_at rl org t"
    using take_token_frame(1,2,4) [OF assms(2)] by (simp add: tokens_at_def refilled_def cong: option.case_cong)
  with tokens_at_later [OF assms(1,3)] False show ?thesis by simp
qed

lemma takes_spend:
  assumes "bucket_ok rl" "takes (i # is) rl = (rs, rl')"
  shows "of_nat (granted org (i # is) rs) \<le> tokens_at rl org (monotonic rl 0) + rate_per_sec rl * (monotonic rl (length is) - monotonic rl 0)"
  using assms
proof (induction "is" arbitrary: i rl rs)
  case Nil
  then obtain r where "take_token i 1 rl = (r, rl')" "rs = [\<not> isl r]" by (auto split: prod.splits)
  with Nil.prems(1) show ?case
    using take_token_frame(6) [of i 1 rl r rl'] tokens_at_bounds(1) [OF Nil.prems(1)] by (auto simp: granted_def)
next
  case (Cons j js)
  obtain r rl1 rs1 where t: "take_token i 1 rl = (r, rl1)" "takes (j # js) rl1 = (rs1, rl')" "rs = (\<not> isl r) # rs1"
    using Cons.prems(2) by (auto simp del: takes.simps(2) simp: takes.simps(2) [of i] split: prod.splits)
  have m: "monotonic rl 0 \<le> monotonic rl (Suc 0)" using Cons.prems(1) by (simp add: bucket_ok_def mono_def)
  from Cons.IH [OF take_token_ok [OF Cons.prems(1) t(1)] t(2)] take_token_frame(1,3) [OF t(1)]
  have "of_nat (granted org (j # js) rs1) \<le> tokens_at rl1 org (monotonic rl (Suc 0))
      + rate_per_sec rl * (monotonic rl (Suc (length js)) - monotonic rl (Suc 0))" by simp
  moreover have "granted org (i # j # js) rs = granted org (j # js) rs1 + (if i = org \<and> \<not> isl r then 1 else 0)"
    by (simp add: granted_def t(3))
  ultimately show ?case using take_token_spends [OF Cons.prems(1) t(1) m, of org] by (auto simp: algebra_simps)
qed

section \<open>Properties\<close>

text \<open>C33: In any run of tool calls, whatever the other organizations do in between, the limiter grants an organization
  at most its burst plus the rate times the time the run took; a call touches the bucket of its own
  organization only, and the first call of an organization is granted.\<close>

theorem rate_limit_bounds_every_window:
  assumes "bucket_ok rl" "takes (i # is) rl = (rs, rl')"
  shows "of_nat (granted org (i # is) rs) \<le> rl_burst rl + rate_per_sec rl * (monotonic rl (length is) - monotonic rl 0)
    \<and> (\<forall>j. j \<noteq> i \<longrightarrow> buckets (snd (take_token i cost rl)) j = buckets rl j)
    \<and> (buckets rl i = None \<and> cost \<le> rl_burst rl \<longrightarrow> fst (take_token i cost rl) = Inr ())"
proof (intro conjI allI impI)
  show "of_nat (granted org (i # is) rs) \<le> rl_burst rl + rate_per_sec rl * (monotonic rl (length is) - monotonic rl 0)"
    using takes_spend [OF assms] tokens_at_bounds(2) [OF assms(1)] by (meson add_right_mono order_trans)
  show "buckets (snd (take_token i cost rl)) j = buckets rl j" if "j \<noteq> i" for j
    using that by (metis take_token_frame(4) prod.collapse)
  show "fst (take_token i cost rl) = Inr ()" if "buckets rl i = None \<and> cost \<le> rl_burst rl"
    using that by (simp add: take_token_def refilled_def Let_def)
qed

text \<open>With a burst of two and one token per second, of four calls within one second two are granted.\<close>

definition tiny_limiter :: rate_limiter where
  "tiny_limiter = new_rate_limiter 60 2 (\<lambda>n. of_nat n / 4)"

theorem rate_limit_bounds_every_window_witness:
  "fst (takes [7, 7, 7, 7] tiny_limiter) = [True, True, False, False]
   \<and> granted 7 [7, 7, 7, 7] [True, True, False, False] = 2
   \<and> (2 :: rat) \<le> rl_burst tiny_limiter + rate_per_sec tiny_limiter * (monotonic tiny_limiter 3 - monotonic tiny_limiter 0)
   \<and> buckets (snd (take_token 7 1 tiny_limiter)) 8 = None \<and> fst (take_token 7 1 tiny_limiter) = Inr ()"
proof -
  have ok: "bucket_ok tiny_limiter"
    by (simp add: bucket_ok_def tiny_limiter_def new_rate_limiter_def mono_def divide_right_mono)
  have run: "fst (takes [7, 7, 7, 7] tiny_limiter) = [True, True, False, False]"
    by (simp add: tiny_limiter_def new_rate_limiter_def take_token_def refilled_def Let_def)
  obtain rl' where t: "takes [7, 7, 7, 7] tiny_limiter = ([True, True, False, False], rl')"
    using run by (metis prod.collapse)
  have g: "granted 7 [7, 7, 7, 7] [True, True, False, False] = 2" by (simp add: granted_def)
  have b: "buckets tiny_limiter 8 = None" "buckets tiny_limiter 7 = None" "1 \<le> rl_burst tiny_limiter"
    by (simp_all add: tiny_limiter_def new_rate_limiter_def)
  show ?thesis
    using rate_limit_bounds_every_window [OF ok t, where org = 7 and cost = 1] run g b
    by (simp del: takes.simps add: numeral_3_eq_3)
qed

text \<open>The payload that enters the model's context is the original, or its longest prefix within the byte budget
  followed by the marker.\<close>

theorem truncation_keeps_longest_prefix:
  assumes "max_context_bytes limits < length (utf8_encode payload)"
  shows "\<exists>pre rest. payload = pre @ rest \<and> rest \<noteq> [] \<and> truncate_for_context payload limits = pre @ TRUNCATION_MARKER
    \<and> length (utf8_encode pre) \<le> max_context_bytes limits
    \<and> max_context_bytes limits < length (utf8_encode (pre @ [hd rest]))"
proof -
  let ?n = "max_context_bytes limits"
  obtain rest where r: "payload = fitting ?n payload @ rest" "length (utf8_encode (fitting ?n payload)) \<le> ?n"
    "rest \<noteq> [] \<longrightarrow> ?n < length (utf8_encode (fitting ?n payload @ [hd rest]))" using fitting_prefix by blast
  from r(1,2) assms have "rest \<noteq> []" by (metis append_Nil2 not_le)
  with r assms show ?thesis
    by (intro exI [of _ "fitting ?n payload"] exI [of _ rest]) (simp add: truncate_for_context_def utf8_decode_take)
qed

theorem truncation_keeps_longest_prefix_witness:
  "\<exists>pre rest. ''abc'' = pre @ rest \<and> rest \<noteq> []
    \<and> truncate_for_context ''abc'' (DEFAULT_LIMITS\<lparr>max_context_bytes := 2\<rparr>) = pre @ TRUNCATION_MARKER
    \<and> length (utf8_encode pre) \<le> 2 \<and> 2 < length (utf8_encode (pre @ [hd rest]))"
  using truncation_keeps_longest_prefix [of "DEFAULT_LIMITS\<lparr>max_context_bytes := 2\<rparr>" "''abc''"] by (simp add: cp_def)

end
