(* ===== verification/Org_Cache.thy ===== *)
theory Org_Cache
  imports Py_Uuid Guardrails
begin

text \<open>
  The organization-scoped cache (\<open>caching/cache.py\<close>): a dict from composed keys \<open>t:<uuid>:<namespace>:<key>\<close> to a value
  with an optional expiry.  The readings of \<open>time.monotonic\<close> are a sequence in the state, as in \<open>Guardrails\<close>; only a
  call that has an expiry to look at takes one.  The composed keys are shown to be as good as the triples they are
  made of, so that the dict behaves as a map over organizations and no organization reaches another's entries.
\<close>

section \<open>The cache\<close>

record 'v org_cache =
  ca_store :: "(string \<times> 'v \<times> rat option) list"
  ca_clock :: "nat \<Rightarrow> rat"

definition compose_storage_key :: "uuid \<Rightarrow> string \<Rightarrow> string \<Rightarrow> string result" where
  "compose_storage_key organization_id namespace key =
    (if namespace = [] \<or> CHR '':'' \<in> set namespace
     then Inl (PyError ''ValueError'' (''namespace must be a non-empty string without colons; got '' @ repr_str namespace))
     else Inr (''t:'' @ uuid_str organization_id @ '':'' @ namespace @ '':'' @ key))"

definition cache_monotonic :: "'v org_cache \<Rightarrow> rat \<times> 'v org_cache" where
  "cache_monotonic c = (ca_clock c 0, c\<lparr>ca_clock := \<lambda>n. ca_clock c (Suc n)\<rparr>)"

definition cache_get :: "uuid \<Rightarrow> string \<Rightarrow> string \<Rightarrow> 'v org_cache \<Rightarrow> 'v option result \<times> 'v org_cache" where
  "cache_get organization_id namespace key c = (case compose_storage_key organization_id namespace key of
     Inl e \<Rightarrow> (Inl e, c)
   | Inr k \<Rightarrow> (case map_of (ca_store c) k of
       None \<Rightarrow> (Inr None, c)
     | Some (v, None) \<Rightarrow> (Inr (Some v), c)
     | Some (v, Some expiry) \<Rightarrow> (case cache_monotonic c of (now, c) \<Rightarrow>
         if now \<ge> expiry then (Inr None, c\<lparr>ca_store := AList.delete k (ca_store c)\<rparr>) else (Inr (Some v), c))))"

definition cache_set :: "uuid \<Rightarrow> string \<Rightarrow> string \<Rightarrow> 'v \<Rightarrow> rat option \<Rightarrow> 'v org_cache \<Rightarrow> unit result \<times> 'v org_cache" where
  "cache_set organization_id namespace key v ttl_seconds c = (case compose_storage_key organization_id namespace key of
     Inl e \<Rightarrow> (Inl e, c)
   | Inr k \<Rightarrow> (case ttl_seconds of
       None \<Rightarrow> (Inr (), c\<lparr>ca_store := AList.update k (v, None) (ca_store c)\<rparr>)
     | Some ttl \<Rightarrow> (case cache_monotonic c of (now, c) \<Rightarrow>
         (Inr (), c\<lparr>ca_store := AList.update k (v, Some (now + ttl)) (ca_store c)\<rparr>))))"

definition cache_invalidate :: "uuid \<Rightarrow> string \<Rightarrow> string \<Rightarrow> 'v org_cache \<Rightarrow> unit result \<times> 'v org_cache" where
  "cache_invalidate organization_id namespace key c = (case compose_storage_key organization_id namespace key of
     Inl e \<Rightarrow> (Inl e, c) | Inr k \<Rightarrow> (Inr (), c\<lparr>ca_store := AList.delete k (ca_store c)\<rparr>))"

definition cache_invalidate_organization :: "uuid \<Rightarrow> 'v org_cache \<Rightarrow> nat \<times> 'v org_cache" where
  "cache_invalidate_organization organization_id c =
    (let drops = (\<lambda>k. startswith k (''t:'' @ uuid_str organization_id @ '':''))
     in (length (filter (\<lambda>(k, _). drops k) (ca_store c)), c\<lparr>ca_store := filter (\<lambda>(k, _). \<not> drops k) (ca_store c)\<rparr>))"

section \<open>Composed keys\<close>

lemma length_uuid_str [simp]: "length (uuid_str u) = 36"
  by (simp add: uuid_str_def Let_def hex_digits_def)

lemma uuid_str_eq [simp]: "uuid_str u = uuid_str v \<longleftrightarrow> u = v"
  by (metis option.inject py_uuid_str)

definition scope_ok :: "string \<Rightarrow> bool" where
  "scope_ok namespace \<longleftrightarrow> namespace \<noteq> [] \<and> CHR '':'' \<notin> set namespace"

definition composed :: "uuid \<Rightarrow> string \<Rightarrow> string \<Rightarrow> string" where
  "composed u n k = ''t:'' @ uuid_str u @ '':'' @ n @ '':'' @ k"

lemma compose_cases:
  "compose_storage_key u n k = (if scope_ok n then Inr (composed u n k)
     else Inl (PyError ''ValueError'' (''namespace must be a non-empty string without colons; got '' @ repr_str n)))"
  by (auto simp: compose_storage_key_def scope_ok_def composed_def)

lemma append_delim_eq:
  assumes "d \<notin> set xs" "d \<notin> set ys" "xs @ d # us = ys @ d # vs"
  shows "xs = ys \<and> us = vs"
  using assms
proof (induction xs arbitrary: ys)
  case Nil
  then show ?case by (cases ys) auto
next
  case (Cons x xs)
  then show ?case by (cases ys) auto
qed

lemma composed_inject:
  assumes "scope_ok n" "scope_ok n'"
  shows "composed u n k = composed u' n' k' \<longleftrightarrow> u = u' \<and> n = n' \<and> k = k'"
proof
  assume "composed u n k = composed u' n' k'"
  then have "uuid_str u @ '':'' @ n @ '':'' @ k = uuid_str u' @ '':'' @ n' @ '':'' @ k'" by (simp add: composed_def)
  then have "uuid_str u = uuid_str u'" "n @ CHR '':'' # k = n' @ CHR '':'' # k'" by (simp_all add: append_eq_append_conv)
  then show "u = u' \<and> n = n' \<and> k = k'" using append_delim_eq [of "CHR '':''" n n' k k'] assms by (simp add: scope_ok_def)
qed simp

lemma composed_prefix: "startswith (composed u n k) (''t:'' @ uuid_str u' @ '':'') \<longleftrightarrow> u = u'"
  by (auto simp: composed_def startswith_def)

section \<open>The map behind it\<close>

text \<open>Every key was composed, and no key twice.\<close>

definition cache_ok :: "'v org_cache \<Rightarrow> bool" where
  "cache_ok c \<longleftrightarrow> distinct (map fst (ca_store c)) \<and> (\<forall>s \<in> fst ` set (ca_store c). \<exists>u n k. scope_ok n \<and> s = composed u n k)"

definition entries :: "'v org_cache \<Rightarrow> uuid \<times> string \<times> string \<Rightarrow> ('v \<times> rat option) option" where
  "entries c = (\<lambda>(u, n, k). if scope_ok n then map_of (ca_store c) (composed u n k) else None)"

lemma entries_clock [simp]: "entries (c\<lparr>ca_clock := f\<rparr>) = entries c" "cache_ok (c\<lparr>ca_clock := f\<rparr>) = cache_ok c"
  by (auto simp: entries_def cache_ok_def fun_eq_iff)

lemma entries_update:
  "scope_ok n \<Longrightarrow> entries (c\<lparr>ca_store := AList.update (composed u n k) e (ca_store c)\<rparr>) = (entries c)((u, n, k) \<mapsto> e)"
  by (rule ext) (auto simp: entries_def update_conv' composed_inject split: prod.splits)

lemma entries_delete:
  "scope_ok n \<Longrightarrow> entries (c\<lparr>ca_store := AList.delete (composed u n k) (ca_store c)\<rparr>) = (entries c)((u, n, k) := None)"
  by (rule ext) (auto simp: entries_def delete_conv' composed_inject split: prod.splits)

lemma cache_ok_update: "cache_ok c \<Longrightarrow> scope_ok n \<Longrightarrow> cache_ok (c\<lparr>ca_store := AList.update (composed u n k) e (ca_store c)\<rparr>)"
  by (auto simp: cache_ok_def distinct_update dom_update [symmetric] simp flip: dom_map_of_conv_image_fst simp: update_conv')

lemma cache_ok_delete: "cache_ok c \<Longrightarrow> cache_ok (c\<lparr>ca_store := AList.delete s (ca_store c)\<rparr>)"
  by (auto simp: cache_ok_def AList.delete_eq distinct_map_filter)

definition ticked :: "'v org_cache \<Rightarrow> 'v org_cache" where
  "ticked c = c\<lparr>ca_clock := \<lambda>n. ca_clock c (Suc n)\<rparr>"

lemma ticked_simps [simp]: "entries (ticked c) = entries c" "cache_ok (ticked c) = cache_ok c" "ca_store (ticked c) = ca_store c"
  by (simp_all add: ticked_def)

lemma monotonic_ticked: "cache_monotonic c = (ca_clock c 0, ticked c)"
  by (simp add: cache_monotonic_def ticked_def)

lemmas cache_defs = cache_get_def cache_set_def cache_invalidate_def compose_cases monotonic_ticked
lemmas cache_keeps = cache_ok_update cache_ok_delete [where c = "ticked c" for c, simplified] cache_ok_update [where c = "ticked c" for c, simplified]
  cache_ok_delete
lemmas entries_after = entries_update entries_delete entries_update [where c = "ticked c" for c, simplified]
  entries_delete [where c = "ticked c" for c, simplified]

lemma entries_scoped: "scope_ok n \<Longrightarrow> entries c (u, n, k) = map_of (ca_store c) (composed u n k)"
  by (simp add: entries_def)

text \<open>A lookup answers what the map holds unless it has expired; the expired entry is removed.\<close>

definition looked_up :: "rat \<Rightarrow> uuid \<times> string \<times> string \<Rightarrow> (uuid \<times> string \<times> string \<Rightarrow> ('v \<times> rat option) option)
    \<Rightarrow> 'v option \<times> (uuid \<times> string \<times> string \<Rightarrow> ('v \<times> rat option) option)" where
  "looked_up now x m = (case m x of None \<Rightarrow> (None, m) | Some (v, None) \<Rightarrow> (Some v, m)
     | Some (v, Some expiry) \<Rightarrow> if now \<ge> expiry then (None, m(x := None)) else (Some v, m))"

lemma get_refines:
  assumes "cache_get u n k c = (r, c')" "cache_ok c"
  shows "cache_ok c'" and "scope_ok n \<Longrightarrow> r = Inr (fst (looked_up (ca_clock c 0) (u, n, k) (entries c)))
      \<and> entries c' = snd (looked_up (ca_clock c 0) (u, n, k) (entries c))"
    and "\<not> scope_ok n \<Longrightarrow> isl r \<and> c' = c"
  using assms by (auto simp: cache_defs cache_keeps looked_up_def entries_scoped entries_after split: if_splits option.splits)

lemma set_refines:
  assumes "cache_set u n k v ttl c = (r, c')" "cache_ok c"
  shows "cache_ok c'" and "scope_ok n \<Longrightarrow> r = Inr () \<and> entries c' = (entries c)((u, n, k) \<mapsto> (v, map_option ((+) (ca_clock c 0)) ttl))"
    and "\<not> scope_ok n \<Longrightarrow> isl r \<and> c' = c"
  using assms by (auto simp: cache_defs cache_keeps entries_after split: if_splits option.splits)

lemma invalidate_refines:
  assumes "cache_invalidate u n k c = (r, c')" "cache_ok c"
  shows "cache_ok c'" and "scope_ok n \<Longrightarrow> r = Inr () \<and> entries c' = (entries c)((u, n, k) := None)"
    and "\<not> scope_ok n \<Longrightarrow> isl r \<and> c' = c"
  using assms by (auto simp: cache_invalidate_def compose_cases cache_ok_delete entries_delete split: if_splits)

lemma map_of_filter_key: "map_of (filter (\<lambda>(k, _). P k) xs) s = (if P s then map_of xs s else None)"
  by (induction xs) auto

lemma invalidate_organization_refines:
  assumes "cache_invalidate_organization u c = (count, c')" "cache_ok c"
  shows "cache_ok c'" and "entries c' = (\<lambda>(u', n, k). if u' = u then None else entries c (u', n, k))"
    and "count = card {(n, k). entries c (u, n, k) \<noteq> None}"
proof -
  let ?drops = "\<lambda>k. startswith k (''t:'' @ uuid_str u @ '':'')"
  have c': "count = length (filter (\<lambda>(k, _). ?drops k) (ca_store c))" "c' = c\<lparr>ca_store := filter (\<lambda>(k, _). \<not> ?drops k) (ca_store c)\<rparr>"
    using assms(1) by (simp_all add: cache_invalidate_organization_def Let_def)
  show "cache_ok c'" using assms(2) unfolding c' cache_ok_def by (auto simp: distinct_map_filter)
  show "entries c' = (\<lambda>(u', n, k). if u' = u then None else entries c (u', n, k))"
    unfolding c' by (rule ext) (auto simp: entries_def map_of_filter_key composed_prefix simp del: append_Cons append_Nil)
  let ?ks = "map fst (filter (\<lambda>(k, _). ?drops k) (ca_store c))"
  have "set ?ks = (\<lambda>(n, k). composed u n k) ` {(n, k). entries c (u, n, k) \<noteq> None}"
  proof (intro set_eqI iffI)
    fix s assume "s \<in> set ?ks"
    then have s: "s \<in> fst ` set (ca_store c)" "?drops s" by auto
    then obtain u' n k where "scope_ok n" "s = composed u' n k" using assms(2) unfolding cache_ok_def by blast
    with s composed_prefix have "s = composed u n k" "entries c (u, n, k) \<noteq> None" by (auto simp: entries_def map_of_eq_None_iff)
    then show "s \<in> (\<lambda>(n, k). composed u n k) ` {(n, k). entries c (u, n, k) \<noteq> None}" by auto
  next
    fix s assume "s \<in> (\<lambda>(n, k). composed u n k) ` {(n, k). entries c (u, n, k) \<noteq> None}"
    then obtain n k e where "s = composed u n k" "map_of (ca_store c) (composed u n k) = Some e" by (auto simp: entries_def split: if_splits)
    then have "(s, e) \<in> set (ca_store c)" "?drops s" using composed_prefix [of u n k u] by (auto dest: map_of_SomeD)
    then have "(s, e) \<in> set (filter (\<lambda>(k, _). ?drops k) (ca_store c))" by (simp del: append_Cons append_Nil)
    then show "s \<in> set ?ks" unfolding set_map by (rule image_eqI [rotated]) simp
  qed
  moreover have "inj_on (\<lambda>(n, k). composed u n k) {(n, k). entries c (u, n, k) \<noteq> None}"
    by (auto simp: inj_on_def entries_def composed_inject split: if_splits)
  ultimately have "card (set ?ks) = card {(n, k). entries c (u, n, k) \<noteq> None}" by (simp only: card_image)
  moreover have "distinct ?ks" using assms(2) by (simp only: cache_ok_def distinct_map_filter)
  ultimately show "count = card {(n, k). entries c (u, n, k) \<noteq> None}" unfolding c'(1) by (simp only: distinct_card length_map)
qed

section \<open>Isolation\<close>

text \<open>
  A store whose operations are each made on behalf of one owner, and a view of what an owner sees.  If an operation
  leaves the view of everybody but its owner alone, then so does any sequence of operations of other owners.
\<close>

locale scoped_store =
  fixes ok :: "'s \<Rightarrow> bool" and view :: "'s \<Rightarrow> 'o \<Rightarrow> 'w" and owner :: "'c \<Rightarrow> 'o" and exec :: "'c \<Rightarrow> 's \<Rightarrow> 's"
  assumes exec_ok: "ok s \<Longrightarrow> ok (exec c s)"
    and exec_other: "ok s \<Longrightarrow> owner c \<noteq> o' \<Longrightarrow> view (exec c s) o' = view s o'"
begin

lemma runs_ok: "ok s \<Longrightarrow> ok (fold exec cs s)"
  by (induction cs arbitrary: s) (simp_all add: exec_ok)

lemma runs_other: "ok s \<Longrightarrow> o' \<notin> owner ` set cs \<Longrightarrow> view (fold exec cs s) o' = view s o'"
  by (induction cs arbitrary: s) (auto simp: exec_ok exec_other)

end

datatype 'v cache_call =
    Get uuid string string
  | Put uuid string string 'v "rat option"
  | Invalidate uuid string string
  | Invalidate_Organization uuid

fun call_owner :: "'v cache_call \<Rightarrow> uuid" where
  "call_owner (Get u n k) = u"
| "call_owner (Put u n k v ttl) = u"
| "call_owner (Invalidate u n k) = u"
| "call_owner (Invalidate_Organization u) = u"

fun call :: "'v cache_call \<Rightarrow> 'v org_cache \<Rightarrow> 'v org_cache" where
  "call (Get u n k) c = snd (cache_get u n k c)"
| "call (Put u n k v ttl) c = snd (cache_set u n k v ttl c)"
| "call (Invalidate u n k) c = snd (cache_invalidate u n k c)"
| "call (Invalidate_Organization u) c = snd (cache_invalidate_organization u c)"

definition organization_view :: "'v org_cache \<Rightarrow> uuid \<Rightarrow> string \<times> string \<Rightarrow> ('v \<times> rat option) option" where
  "organization_view c u = (\<lambda>(n, k). entries c (u, n, k))"

lemma call_keeps_ok: "cache_ok c \<Longrightarrow> cache_ok (call x c)"
  by (cases x) (simp_all add: get_refines(1) [OF surjective_pairing] set_refines(1) [OF surjective_pairing]
      invalidate_refines(1) [OF surjective_pairing] invalidate_organization_refines(1) [OF surjective_pairing])

lemma looked_up_other: "x \<noteq> y \<Longrightarrow> snd (looked_up now x m) y = m y"
  by (auto simp: looked_up_def split: option.splits)

lemma looked_up_local: "m x = m' x \<Longrightarrow> fst (looked_up now x m) = fst (looked_up now x m')"
  by (simp add: looked_up_def split: option.splits)

lemma call_other: "cache_ok c \<Longrightarrow> call_owner x \<noteq> u \<Longrightarrow> entries (call x c) (u, n, k) = entries c (u, n, k)"
proof (cases x)
  case (Get u' n' k')
  assume "cache_ok c" "call_owner x \<noteq> u"
  with Get get_refines(2,3) [OF surjective_pairing, where c = c and u = u' and n = n' and k = k'] show ?thesis by (cases "scope_ok n'") (auto simp: looked_up_other)
next
  case (Put u' n' k' v ttl)
  assume "cache_ok c" "call_owner x \<noteq> u"
  with Put set_refines(2,3) [OF surjective_pairing, where c = c and u = u' and n = n' and k = k' and v = v and ttl = ttl] show ?thesis by (cases "scope_ok n'") auto
next
  case (Invalidate u' n' k')
  assume "cache_ok c" "call_owner x \<noteq> u"
  with Invalidate invalidate_refines(2,3) [OF surjective_pairing, where c = c and u = u' and n = n' and k = k'] show ?thesis by (cases "scope_ok n'") auto
next
  case (Invalidate_Organization u')
  assume "cache_ok c" "call_owner x \<noteq> u"
  with Invalidate_Organization invalidate_organization_refines(2) [OF surjective_pairing, where c = c and u = u'] show ?thesis by auto
qed

interpretation org: scoped_store cache_ok organization_view call_owner call
  by unfold_locales (auto simp: call_keeps_ok call_other organization_view_def fun_eq_iff)

definition fresh_cache :: "(nat \<Rightarrow> rat) \<Rightarrow> 'v org_cache" where
  "fresh_cache readings = \<lparr>ca_store = [], ca_clock = readings\<rparr>"

lemma fresh_cache_ok [simp]: "cache_ok (fresh_cache readings)"
  by (simp add: cache_ok_def fresh_cache_def)

text \<open>organization isolation of the cache: whatever calls the process makes on it from its creation on, a lookup
  of one organization made afterwards is answered from what the calls before it left in that organization's part of the
  map, and any calls other organizations make in between leave that part as it was; after the organization's own entries
  are dropped, no lookup of it finds anything, whatever the others do.\<close>

theorem cache_is_isolated:
  assumes "\<forall>x \<in> set others. call_owner x \<noteq> u" "scope_ok n"
  shows "let c = fold call before (fresh_cache readings); d = fold call others c; now = ca_clock d 0 in
      fst (cache_get u n k d) = Inr (fst (looked_up now (u, n, k) (entries c)))
      \<and> (\<forall>n k. entries d (u, n, k) = entries c (u, n, k))
      \<and> fst (cache_get u n k (fold call others (call (Invalidate_Organization u) c))) = Inr None"
proof -
  let ?c = "fold call before (fresh_cache readings)" let ?d = "fold call others ?c"
  let ?i = "call (Invalidate_Organization u) ?c" let ?e = "fold call others ?i"
  have ok: "cache_ok ?c" "cache_ok ?d" "cache_ok ?i" "cache_ok ?e" by (intro org.runs_ok call_keeps_ok fresh_cache_ok)+
  have o': "u \<notin> call_owner ` set others" using assms(1) by auto
  have d: "entries ?d (u, n', k') = entries ?c (u, n', k')" for n' k'
    using org.runs_other [OF ok(1) o'] by (simp add: organization_view_def fun_eq_iff)
  have e: "entries ?e (u, n', k') = None" for n' k'
    using org.runs_other [OF ok(3) o'] invalidate_organization_refines(2) [OF surjective_pairing ok(1), of u]
    by (simp add: organization_view_def fun_eq_iff)
  have get: "fst (cache_get u n k x) = Inr (fst (looked_up (ca_clock x 0) (u, n, k) (entries x)))" if "cache_ok x" for x :: "'a org_cache"
    using get_refines(2) [OF surjective_pairing that assms(2), where u = u and k = k] by simp
  have "fst (looked_up now (u, n, k) (entries ?e)) = None" for now using e by (simp add: looked_up_def)
  then show ?thesis using get [OF ok(2)] get [OF ok(4)] d looked_up_local [of "entries ?d" "(u, n, k)" "entries ?c"] by (simp add: Let_def)
qed

text \<open>C36: the cache refines a map over (organization, namespace, key): with a namespace it accepts, get looks the
  triple up and evicts it if it has expired, set updates it with the expiry counted from the clock, invalidate
  removes it and invalidate_organization removes every entry of the organization and answers their number; with a
  namespace that is empty or holds a colon the call raises and changes nothing; and every call keeps the dict's keys
  composed and distinct.\<close>

theorem cache_refines_map:
  assumes "cache_ok c"
  shows "cache_ok (call x c)
    \<and> (scope_ok n \<longrightarrow> (case cache_get u n k c of (r, c') \<Rightarrow>
         case looked_up (ca_clock c 0) (u, n, k) (entries c) of (v, m) \<Rightarrow> r = Inr v \<and> entries c' = m))
    \<and> (scope_ok n \<longrightarrow> (case cache_set u n k v ttl c of (r, c') \<Rightarrow>
         r = Inr () \<and> entries c' = (entries c)((u, n, k) \<mapsto> (v, map_option ((+) (ca_clock c 0)) ttl))))
    \<and> (scope_ok n \<longrightarrow> (case cache_invalidate u n k c of (r, c') \<Rightarrow> r = Inr () \<and> entries c' = (entries c)((u, n, k) := None)))
    \<and> (\<not> scope_ok n \<longrightarrow> isl (fst (cache_get u n k c)) \<and> isl (fst (cache_set u n k v ttl c)) \<and> isl (fst (cache_invalidate u n k c))
         \<and> snd (cache_get u n k c) = c \<and> snd (cache_set u n k v ttl c) = c \<and> snd (cache_invalidate u n k c) = c)
    \<and> (case cache_invalidate_organization u c of (count, c') \<Rightarrow> count = card {(n, k). entries c (u, n, k) \<noteq> None}
         \<and> entries c' = (\<lambda>(u', n, k). if u' = u then None else entries c (u', n, k)))"
  using call_keeps_ok [OF assms] get_refines(2,3) [OF surjective_pairing assms, where u = u and n = n and k = k]
    set_refines(2,3) [OF surjective_pairing assms, where u = u and n = n and k = k and v = v and ttl = ttl]
    invalidate_refines(2,3) [OF surjective_pairing assms, where u = u and n = n and k = k] invalidate_organization_refines(2,3) [OF surjective_pairing assms, of u]
  by (intro conjI) (auto simp: split_beta)

section \<open>Witnesses\<close>

definition readings10 :: "nat \<Rightarrow> rat" where
  "readings10 n = of_nat (10 * n)"

theorem cache_is_isolated_witness:
  "let c = fold call [Put 1 ''kb'' ''q'' ''one'' None] (fresh_cache readings10);
       others = [Put 2 ''kb'' ''q'' ''two'' None, Invalidate_Organization 2, Get 3 ''kb'' ''q''] in
     fst (cache_get 1 ''kb'' ''q'' (fold call others c)) = Inr (Some ''one'')
     \<and> fst (cache_get 1 ''kb'' ''q'' (fold call others (call (Invalidate_Organization 1) c))) = Inr None"
proof -
  let ?others = "[Put 2 ''kb'' ''q'' ''two'' None, Invalidate_Organization 2, Get 3 ''kb'' ''q'']"
  let ?c = "fold call [Put 1 ''kb'' ''q'' ''one'' None] (fresh_cache readings10)"
  have o': "\<forall>x \<in> set ?others. call_owner x \<noteq> 1" and s: "scope_ok ''kb''" by (simp_all add: scope_ok_def)
  have "entries ?c (1, ''kb'', ''q'') = Some (''one'', None)" using set_refines(2) [OF surjective_pairing fresh_cache_ok [of readings10] s, where u = 1 and k = "''q''" and v = "''one''" and ttl = None] by simp
  then have "fst (looked_up (ca_clock (fold call ?others ?c) 0) (1, ''kb'', ''q'') (entries ?c)) = Some ''one''" by (simp add: looked_up_def)
  then show ?thesis
    using cache_is_isolated [OF o' s, where before = "[Put 1 ''kb'' ''q'' ''one'' None]" and readings = readings10 and k = "''q''"]
    by (simp add: Let_def)
qed

theorem cache_refines_map_witness:
  "let c = call (Put 1 ''kb'' ''q'' ''one'' None) (fresh_cache readings10) in
     entries (call (Put 2 ''kb'' ''q'' ''two'' (Some 5)) c) (2, ''kb'', ''q'') = Some (''two'', Some 5)
     \<and> cache_ok (call (Get 1 ''kb'' ''q'') c) \<and> isl (fst (cache_get 1 ''a:b'' ''q'' c))"
proof -
  let ?c = "call (Put 1 ''kb'' ''q'' ''one'' None) (fresh_cache readings10)"
  have ok: "cache_ok ?c" by (rule call_keeps_ok) simp
  have s: "scope_ok ''kb''" "\<not> scope_ok ''a:b''" by (simp_all add: scope_ok_def)
  have "ca_clock ?c 0 = 0" using s by (simp add: cache_defs fresh_cache_def readings10_def)
  then show ?thesis
    using cache_refines_map [OF ok, where n = "''kb''" and u = 2 and k = "''q''" and v = "''two''" and ttl = "Some 5" and x = "Get 1 ''kb'' ''q''"]
      cache_refines_map [OF ok, where n = "''a:b''" and u = 1 and k = "''q''"] s
    by (simp add: Let_def split_beta)
qed

end
