(* ===== verification/Py_Values.thy ===== *)
theory Py_Values
  imports Wolf_Errors
begin

text \<open>
  Operations of Python on values that come out of a JSON document and need not have the shape the caller expects:
  iteration, length, subscripting, \<open>int()\<close>, truth of a set comparison, and \<open>str.split()\<close>.  Where Python raises, so does
  the model.
\<close>

text \<open>\<open>for x in v\<close>.\<close>

fun iterate :: "pyval \<Rightarrow> pyval list result" where
  "iterate (PList xs) = Inr xs"
| "iterate (PStr s) = Inr (map (\<lambda>c. PStr [c]) s)"
| "iterate (PDict d) = Inr (map (PStr \<circ> fst) d)"
| "iterate v = Inl (PyError ''TypeError'' ''object is not iterable'')"

text \<open>\<open>len(v)\<close>.\<close>

fun py_len :: "pyval \<Rightarrow> nat result" where
  "py_len (PList xs) = Inr (length xs)"
| "py_len (PStr s) = Inr (length s)"
| "py_len (PDict d) = Inr (length d)"
| "py_len v = Inl (PyError ''TypeError'' ''object has no len()'')"

text \<open>\<open>v[0]\<close>, and \<open>v[k]\<close> with a text \<open>k\<close>.\<close>

fun py_first :: "pyval \<Rightarrow> pyval result" where
  "py_first (PList (x # xs)) = Inr x"
| "py_first (PList []) = Inl (PyError ''IndexError'' ''list index out of range'')"
| "py_first (PStr (c # s)) = Inr (PStr [c])"
| "py_first (PStr []) = Inl (PyError ''IndexError'' ''string index out of range'')"
| "py_first (PDict d) = Inl (PyError ''KeyError'' ''0'')"
| "py_first v = Inl (PyError ''TypeError'' ''object is not subscriptable'')"

definition py_item :: "pyval \<Rightarrow> string \<Rightarrow> pyval result" where
  "py_item v k = (case v of
     PDict d \<Rightarrow> (case map_of d k of Some x \<Rightarrow> Inr x | None \<Rightarrow> Inl (PyError ''KeyError'' (repr_str k)))
   | PList _ \<Rightarrow> Inl (PyError ''TypeError'' ''list indices must be integers or slices, not str'')
   | PStr _ \<Rightarrow> Inl (PyError ''TypeError'' (''string indices must be integers, not '' @ repr_str ''str''))
   | _ \<Rightarrow> Inl (PyError ''TypeError'' ''object is not subscriptable''))"

text \<open>\<open>int(v)\<close>.  A text may have surrounding white space, a sign, and single underscores between its digits.\<close>

definition int_of_text :: "string \<Rightarrow> int result" where
  "int_of_text text = (let s = py_strip text;
       (negative, body) = (case s of c # t \<Rightarrow> if c = CHR ''-'' then (True, t) else if c = CHR ''+'' then (False, t) else (False, s) | [] \<Rightarrow> (False, s));
       parts = split_on (CHR ''_'') body;
       digits = concat parts
     in if list_all (\<lambda>p. p \<noteq> [] \<and> list_all is_decimal p) parts
        then if length digits \<le> 4300 then Inr ((if negative then - 1 else 1) * int (digits_value digits))
          else Inl (PyError ''ValueError'' (''Exceeds the limit (4300 digits) for integer string conversion: value has ''
            @ show_nat (length digits) @ '' digits; use sys.set_int_max_str_digits() to increase the limit''))
        else Inl (PyError ''ValueError'' (''invalid literal for int() with base 10: '' @ repr_str text)))"

fun int_of :: "pyval \<Rightarrow> int result" where
  "int_of (PInt i) = Inr i"
| "int_of (PBool b) = Inr (if b then 1 else 0)"
| "int_of (PStr s) = int_of_text s"
| "int_of PNone = Inl (PyError ''TypeError'' (''int() argument must be a string, a bytes-like object or a real number, not '' @ repr_str ''NoneType''))"
| "int_of (PList xs) = Inl (PyError ''TypeError'' (''int() argument must be a string, a bytes-like object or a real number, not '' @ repr_str ''list''))"
| "int_of (PDict d) = Inl (PyError ''TypeError'' (''int() argument must be a string, a bytes-like object or a real number, not '' @ repr_str ''dict''))"

text \<open>\<open>set(values) == set(texts)\<close>: a list or dict among the values cannot be hashed.\<close>

fun hashable :: "pyval \<Rightarrow> bool" where
  "hashable (PList xs) = False"
| "hashable (PDict d) = False"
| "hashable v = True"

definition same_texts :: "pyval list \<Rightarrow> string list \<Rightarrow> bool result" where
  "same_texts values texts = (if list_all hashable values then Inr (set values = PStr ` set texts)
     else Inl (PyError ''TypeError'' ''unhashable type''))"

text \<open>\<open>s.split()\<close>.\<close>

fun split_by :: "(char \<Rightarrow> bool) \<Rightarrow> string \<Rightarrow> string list" where
  "split_by P [] = [[]]"
| "split_by P (c # s) = (if P c then [] # split_by P s else (case split_by P s of [] \<Rightarrow> [[c]] | w # ws \<Rightarrow> (c # w) # ws))"

definition py_words :: "string \<Rightarrow> string list" where
  "py_words s = filter (\<lambda>w. w \<noteq> []) (split_by is_space s)"

text \<open>\<open>[f(x) for x in xs]\<close> where \<open>f\<close> may raise.\<close>

fun rmap :: "('a \<Rightarrow> 'b result) \<Rightarrow> 'a list \<Rightarrow> 'b list result" where
  "rmap f [] = Inr []"
| "rmap f (x # xs) = rbind (f x) (\<lambda>y. rbind (rmap f xs) (\<lambda>ys. Inr (y # ys)))"

lemma rbind_Inr_iff: "rbind r f = Inr y \<longleftrightarrow> (\<exists>x. r = Inr x \<and> f x = Inr y)"
  by (cases r) (auto simp: rbind_def)

lemma rmap_Inr_iff: "rmap f xs = Inr ys \<longleftrightarrow> list_all2 (\<lambda>x y. f x = Inr y) xs ys"
proof (induction xs arbitrary: ys)
  case (Cons x xs)
  then show ?case by (cases ys) (auto simp: rbind_Inr_iff)
qed auto

lemma rmap_total: "(\<And>x. x \<in> set xs \<Longrightarrow> f x = Inr (g x)) \<Longrightarrow> rmap f xs = Inr (map g xs)"
  by (induction xs) (auto simp: rbind_def)

end
