(* ===== verification/Time_Fields.thy ===== *)
theory Time_Fields
  imports Audit_Log Py_Json Config_Change Py_Values
begin

text \<open>
  The time fields of the tool inputs (\<open>tools/timefmt.py\<close>): an ISO datetime or \<open>now\<close>, \<open>now-<n><unit>\<close>.
  \<open>datetime.fromisoformat\<close> is an argument (\<open>None\<close> where it raises \<open>ValueError\<close>).  The two regular expressions have no
  choice points, so they are read off directly.  A \<open>timedelta\<close> holds at most 999999999 days and a \<open>datetime\<close> the years
  1 to 9999; beyond them Python raises \<open>OverflowError\<close>.
\<close>

section \<open>Units\<close>

definition SECOND :: int where "SECOND = 1000000"
definition MINUTE :: int where "MINUTE = 60 * SECOND"
definition HOUR :: int where "HOUR = 3600 * SECOND"
definition DAY :: int where "DAY = 86400 * SECOND"
definition WEEK :: int where "WEEK = 7 * DAY"
definition MONTH :: int where "MONTH = 30 * DAY"
definition YEAR :: int where "YEAR = 365 * DAY"

definition UNIT_ALIASES :: "(string \<times> int) list" where
  "UNIT_ALIASES = map (\<lambda>u. (u, SECOND)) [''s'', ''sec'', ''secs'', ''second'', ''seconds'']
     @ map (\<lambda>u. (u, MINUTE)) [''min'', ''mins'', ''minute'', ''minutes'']
     @ map (\<lambda>u. (u, HOUR)) [''h'', ''hr'', ''hrs'', ''hour'', ''hours'']
     @ map (\<lambda>u. (u, DAY)) [''d'', ''day'', ''days'']
     @ map (\<lambda>u. (u, WEEK)) [''w'', ''wk'', ''wks'', ''week'', ''weeks'']
     @ map (\<lambda>u. (u, MONTH)) [''mo'', ''mon'', ''mos'', ''month'', ''months'']
     @ map (\<lambda>u. (u, YEAR)) [''y'', ''yr'', ''yrs'', ''year'', ''years'']"

definition resolve_unit :: "string \<Rightarrow> int option" where
  "resolve_unit u = (if u = ''m'' then Some MINUTE else if u = ''M'' then Some MONTH else map_of UNIT_ALIASES (py_lower u))"

section \<open>Parsing\<close>

datatype time_value = Moment datetime | Other pyval

definition letter :: "char \<Rightarrow> bool" where
  "letter c \<longleftrightarrow> (65 \<le> cp c \<and> cp c \<le> 90) \<or> (97 \<le> cp c \<and> cp c \<le> 122)"

text \<open>\<open>^now\<close>, white space, \<open>-\<close>, white space, digits, white space, letters to the end.\<close>

definition relative_delta :: "string \<Rightarrow> (string \<times> string) option" where
  "relative_delta s = (if py_lower (take 3 s) \<noteq> ''now'' then None
     else case dropWhile is_space (drop 3 s) of
       [] \<Rightarrow> None
     | c # r \<Rightarrow> if c \<noteq> CHR ''-'' then None
         else let r = dropWhile is_space r; digits = takeWhile is_decimal r; u = dropWhile is_space (dropWhile is_decimal r)
           in if digits \<noteq> [] \<and> u \<noteq> [] \<and> list_all letter u then Some (digits, u) else None)"

definition MIN_INSTANT :: int where "MIN_INSTANT = - 62135596800000000"

definition overflow :: "'a result" where
  "overflow = Inl (PyError ''OverflowError'' ''date value out of range'')"

definition go_back :: "int \<Rightarrow> int \<Rightarrow> int \<Rightarrow> datetime result" where
  "go_back now amount delta = (if amount * delta > 999999999 * DAY + (DAY - 1) then overflow
     else if now - amount * delta < MIN_INSTANT then overflow
     else Inr (Aware (now - amount * delta)))"

definition absolute :: "(string \<Rightarrow> datetime option) \<Rightarrow> string \<Rightarrow> string \<Rightarrow> time_value" where
  "absolute fromisoformat original stripped =
    (case fromisoformat (concat (map (\<lambda>c. if c = CHR ''Z'' then ''+00:00'' else [c]) stripped)) of
       None \<Rightarrow> Other (PStr original) | Some d \<Rightarrow> Moment (as_utc d))"

definition parse_time_field ::
  "(string \<Rightarrow> datetime option) \<Rightarrow> time_value \<Rightarrow> 'z audit_db_scheme \<Rightarrow> time_value result \<times> 'z audit_db_scheme" where
  "parse_time_field fromisoformat v db = (case v of
     Moment d \<Rightarrow> (Inr (Moment (as_utc d)), db)
   | Other (PStr original) \<Rightarrow>
       (let stripped = py_strip original in
        if stripped = [] then (Inr v, db)
        else if py_lower stripped = ''now'' then (case utcnow db of (now, db) \<Rightarrow> (Inr (Moment now), db))
        else case relative_delta stripped of
          Some (digits, u) \<Rightarrow> (case resolve_unit u of
              Some delta \<Rightarrow> (case utcnow db of (now, db) \<Rightarrow> (rbind (int_of_text digits) (\<lambda>amount.
                rbind (go_back (instant now) amount delta) (\<lambda>d. Inr (Moment d))), db))
            | None \<Rightarrow> (Inr (absolute fromisoformat original stripped), db))
        | None \<Rightarrow> (Inr (absolute fromisoformat original stripped), db))
   | Other w \<Rightarrow> (Inr (Other w), db))"

definition default_time_to :: "'z audit_db_scheme \<Rightarrow> datetime \<times> 'z audit_db_scheme" where
  "default_time_to db = utcnow db"

section \<open>Relative times\<close>

lemma letter_facts: "letter c \<Longrightarrow> \<not> is_space c" "letter c \<Longrightarrow> \<not> is_decimal c"
  by (auto simp: letter_def is_space_def is_decimal_def)

lemma decimal_facts: "is_decimal c \<Longrightarrow> \<not> is_space c \<and> c \<noteq> CHR ''-'' \<and> c \<noteq> CHR ''+'' \<and> c \<noteq> CHR ''_''"
  by (auto simp: is_decimal_def is_space_def cp_def)

lemma int_of_text_show:
  assumes "length (show_nat n) \<le> 4300"
  shows "int_of_text (show_nat n) = Inr (int n)"
proof -
  have d: "list_all is_decimal (show_nat n)" "show_nat n \<noteq> []" by (simp_all add: show_nat_decimal show_nat_not_Nil)
  then obtain c t where s: "show_nat n = c # t" "is_decimal c" by (cases "show_nat n") auto
  have "\<not> is_space (last (show_nat n))" using d decimal_facts last_in_set [OF d(2)] by (auto simp: list_all_iff)
  then have strip: "py_strip (show_nat n) = show_nat n" using d s decimal_facts [OF s(2)] by (intro py_strip_id) auto
  have "CHR ''_'' \<notin> set (show_nat n)" using d(1) decimal_facts by (auto simp: list_all_iff)
  then have "split_on (CHR ''_'') (show_nat n) = [show_nat n]" by (rule split_on_no_sep)
  with assms d strip s decimal_facts [OF s(2)] digits_value_show_nat [of n] show ?thesis
    by (simp add: int_of_text_def Let_def)
qed

lemma relative_delta_now:
  assumes "u \<noteq> []" "list_all letter u"
  shows "relative_delta (''now-'' @ show_nat n @ u) = Some (show_nat n, u)"
proof -
  have d: "list_all is_decimal (show_nat n)" "show_nat n \<noteq> []" by (simp_all add: show_nat_decimal show_nat_not_Nil)
  obtain c t where u: "u = c # t" "letter c" using assms by (cases u) auto
  have tw: "takeWhile is_decimal (show_nat n @ u) = show_nat n" "dropWhile is_decimal (show_nat n @ u) = u"
    using d u letter_facts by (auto simp: list_all_iff takeWhile_append2 dropWhile_append2)
  have "dropWhile is_space (show_nat n @ u) = show_nat n @ u" using d decimal_facts by (cases "show_nat n") auto
  moreover have "dropWhile is_space u = u" using u letter_facts by simp
  moreover have "\<exists>x \<in> set u. \<not> is_space x" using u letter_facts by auto
  moreover have "\<not> is_space (CHR ''-'')" by (simp add: is_space_def cp_def)
  moreover have "py_lower ''now'' = ''now''" by code_simp
  ultimately show ?thesis using tw d assms by (simp add: relative_delta_def Let_def)
qed

text \<open>a relative time is read as written: \<open>now-<n><unit>\<close> with a unit the table knows is the clock's reading less
  n units, which is never later than that reading, or an overflow when that leaves Python's range.\<close>

theorem relative_time_is_read_as_written:
  assumes "resolve_unit u = Some delta" "u \<noteq> []" "list_all letter u" "length (show_nat n) \<le> 4300"
  shows "fst (parse_time_field fromiso (Other (PStr (''now-'' @ show_nat n @ u))) db) =
      (if int n * delta \<le> 999999999 * DAY + (DAY - 1) \<and> MIN_INSTANT \<le> clock db 0 - int n * delta
       then Inr (Moment (Aware (clock db 0 - int n * delta))) else overflow)
    \<and> delta > 0"
proof -
  let ?s = "''now-'' @ show_nat n @ u"
  have "\<not> is_space (last ?s)" using assms(2,3) letter_facts last_in_set [OF assms(2)] by (auto simp: list_all_iff)
  moreover have "\<not> is_space (CHR ''n'')" by (simp add: is_space_def cp_def)
  ultimately have strip: "py_strip ?s = ?s" by (intro py_strip_id) simp_all
  have "py_lower ?s \<noteq> ''now''" using assms(2) by (auto simp: py_lower_def dest: arg_cong [where f = length])
  then have "fst (parse_time_field fromiso (Other (PStr ?s)) db) = rbind (go_back (clock db 0) (int n) delta) (\<lambda>d. Inr (Moment d))"
    using assms strip relative_delta_now [OF assms(2,3), of n] int_of_text_show [OF assms(4)]
    by (simp add: parse_time_field_def utcnow_def Let_def del: append_Cons)
  moreover have "delta > 0" using assms(1)
    by (auto simp: resolve_unit_def UNIT_ALIASES_def SECOND_def MINUTE_def HOUR_def DAY_def WEEK_def MONTH_def YEAR_def split: if_splits)
  ultimately show ?thesis by (auto simp: go_back_def overflow_def)
qed

theorem relative_time_is_read_as_written_witness:
  "fst (parse_time_field (\<lambda>_. None) (Other (PStr ''now-15m'')) \<lparr>audit_events = [], clock = (\<lambda>_. 1000 * 60000000), uuid_source = (\<lambda>_. 0)\<rparr>)
    = Inr (Moment (Aware (985 * 60000000)))"
proof -
  let ?db = "\<lparr>audit_events = [], clock = (\<lambda>_. 1000 * 60000000), uuid_source = (\<lambda>_. 0)\<rparr> :: audit_db"
  have "resolve_unit ''m'' = Some MINUTE" "list_all letter ''m''" "length (show_nat 15) \<le> 4300" "show_nat 15 = ''15''" by code_simp+
  from relative_time_is_read_as_written [OF this(1) _ this(2,3), where fromiso = "\<lambda>_. None" and db = ?db] this(4)
  show ?thesis by (simp add: MINUTE_def SECOND_def DAY_def MIN_INSTANT_def)
qed

text \<open>The overflow is no \<open>ValueError\<close>, so the input model does not turn it into a validation error.\<close>

lemma far_past_overflows:
  "fst (parse_time_field fromiso (Other (PStr ''now-9999y'')) \<lparr>audit_events = [], clock = (\<lambda>_. 1000), uuid_source = (\<lambda>_. 0)\<rparr>) = overflow"
proof -
  let ?db = "\<lparr>audit_events = [], clock = (\<lambda>_. 1000), uuid_source = (\<lambda>_. 0)\<rparr> :: audit_db"
  have "resolve_unit ''y'' = Some YEAR" "list_all letter ''y''" "int_of_text ''9999'' = Inr 9999" "relative_delta ''now-9999y'' = Some (''9999'', ''y'')"
    "py_strip ''now-9999y'' = ''now-9999y''" "py_lower ''now-9999y'' = ''now-9999y''" by code_simp+
  then show ?thesis
    by (simp add: parse_time_field_def utcnow_def go_back_def YEAR_def SECOND_def DAY_def MIN_INSTANT_def overflow_def)
qed

end
