(* ===== verification/Tool_Dispatch.thy ===== *)
theory Tool_Dispatch
  imports Guardrails Py_Json
begin

text \<open>
  The chokepoint of every tool call a model makes: the canonical tool types
  (\<open>wolf_schema/tools.py\<close>), the two registries (\<open>models/registry.py\<close>, \<open>tools/registry.py\<close>), the argument
  sanitizers of \<open>tools/base.py\<close> and \<open>tools/dispatcher.py\<close>.

  A registered tool is a \<open>tool_runner\<close>: its schema, what Pydantic makes of an argument dict (the
  validated model with its defaults, or the list of errors), the body, and what Pydantic finds wrong
  with a result.  A body acts on the database and on a world \<open>'x\<close> that stands for everything else it may
  touch, and returns the JSON dump of its output model.  The registries are dicts in insertion order.
  The milliseconds measured around a call are an argument.
\<close>

section \<open>Tool types\<close>

datatype tool_tier = ReadTier | ProposeTier | ExecuteTier

fun tier_value :: "tool_tier \<Rightarrow> string" where
  "tier_value ReadTier = ''read''"
| "tier_value ProposeTier = ''propose''"
| "tier_value ExecuteTier = ''execute''"

record tool_schema =
  ts_name :: string
  ts_description :: string
  ts_tier :: tool_tier
  ts_input_schema :: dict
  ts_output_schema :: dict

record tool_call =
  tc_id :: string
  tc_name :: string
  tc_arguments :: dict

record 's tool_runner =
  tr_schema :: tool_schema
  tr_input :: "dict \<Rightarrow> dict list + dict"
  tr_run :: "dict \<Rightarrow> 's \<Rightarrow> dict result \<times> 's"
  tr_output :: "dict \<Rightarrow> dict list"

section \<open>Registries\<close>

type_synonym schema_registry = "(string \<times> tool_schema) list"
type_synonym 's runner_registry = "(string \<times> 's tool_runner) list"

definition register_schema :: "tool_schema \<Rightarrow> schema_registry \<Rightarrow> schema_registry result" where
  "register_schema tool tools = (if map_of tools (ts_name tool) \<noteq> None
     then Inl (PyError ''ValueError'' (''Tool already registered: '' @ repr_str (ts_name tool)))
     else Inr (tools @ [(ts_name tool, tool)]))"

definition lookup_schema :: "schema_registry \<Rightarrow> string \<Rightarrow> tool_schema result" where
  "lookup_schema tools name = (case map_of tools name of
     None \<Rightarrow> Inl (Wolf ToolNotFoundError (''Unknown tool: '' @ repr_str name)) | Some t \<Rightarrow> Inr t)"

definition model_tools :: "schema_registry \<Rightarrow> tool_schema list" where
  "model_tools tools = filter (\<lambda>t. ts_tier t \<noteq> ExecuteTier) (map snd tools)"

definition validate_model_call :: "schema_registry \<Rightarrow> string \<Rightarrow> tool_schema result" where
  "validate_model_call tools name = rbind (lookup_schema tools name) (\<lambda>tool.
     if ts_tier tool = ExecuteTier
     then Inl (Wolf ToolCapabilityError (''Model attempted to call execute-tier tool '' @ repr_str name @ '' - rejected''))
     else Inr tool)"

definition register_runner ::
  "'s tool_runner \<Rightarrow> 's runner_registry \<times> schema_registry \<Rightarrow> unit result \<times> 's runner_registry \<times> schema_registry" where
  "register_runner tool regs = (case regs of (runners, schemas) \<Rightarrow>
     let name = ts_name (tr_schema tool) in
     if map_of runners name \<noteq> None
     then (Inl (PyError ''ValueError'' (''Tool runner already registered: '' @ repr_str name)), runners, schemas)
     else let runners = runners @ [(name, tool)] in
       (case register_schema (tr_schema tool) schemas of
          Inl e \<Rightarrow> (Inl e, runners, schemas)
        | Inr schemas \<Rightarrow> (Inr (), runners, schemas)))"

definition get_runner :: "'s runner_registry \<Rightarrow> string \<Rightarrow> 's tool_runner result" where
  "get_runner runners name = (case map_of runners name of
     None \<Rightarrow> Inl (Wolf ToolNotFoundError (''No runner for tool: '' @ repr_str name)) | Some t \<Rightarrow> Inr t)"

text \<open>The loop that registers a list of tools at startup.\<close>

fun register_all :: "'s tool_runner list \<Rightarrow> 's runner_registry \<times> schema_registry \<Rightarrow> unit result \<times> 's runner_registry \<times> schema_registry" where
  "register_all [] regs = (Inr (), regs)"
| "register_all (tool # tools) regs = (case register_runner tool regs of
     (Inl e, regs) \<Rightarrow> (Inl e, regs) | (Inr _, regs) \<Rightarrow> register_all tools regs)"

section \<open>Arguments\<close>

definition sanitize_organization_id_from_args :: "dict \<Rightarrow> dict" where
  "sanitize_organization_id_from_args args =
    (if map_of args ''organization_id'' \<noteq> None then filter (\<lambda>(k, v). k \<noteq> ''organization_id'') args else args)"

definition strip_explicit_nulls :: "dict \<Rightarrow> dict" where
  "strip_explicit_nulls args = filter (\<lambda>(k, v). v \<noteq> PNone) args"

definition format_input_validation_error :: "string \<Rightarrow> dict list \<Rightarrow> string" where
  "format_input_validation_error tool_name errs =
    (let problem = (\<lambda>err.
           let path = join ''.'' (map py_str (case dget_or err ''loc'' (PList []) of PList ps \<Rightarrow> ps | _ \<Rightarrow> []));
               loc = (if path = [] then ''(arguments)'' else path)
           in if dget err ''type'' = PStr ''missing'' then [CHR 0x27] @ loc @ [CHR 0x27] @ '' is required but was not provided''
              else [CHR 0x27] @ loc @ [CHR 0x27] @ '': '' @ py_str (dget_or err ''msg'' (PStr ''invalid value'')));
         problems = map problem errs;
         detail = (if problems \<noteq> [] then join ''; '' problems else ''arguments did not match the schema'')
     in ''Invalid arguments for '' @ tool_name @ '': '' @ detail @ ''. Call the tool again with corrected arguments.'')"

definition summarize_args :: "dict \<Rightarrow> dict" where
  "summarize_args args = map (\<lambda>(k, v). (k, case v of
     PStr s \<Rightarrow> if length s > 200 then PStr (''<str, '' @ show_nat (length s) @ '' chars>'') else v | _ \<Rightarrow> v)) args"

definition summarize_result :: "dict \<Rightarrow> dict" where
  "summarize_result result = foldl (\<lambda>summary (k, v). (case v of
       PList xs \<Rightarrow> dset (k @ ''_count'') (PInt (int (length xs))) summary
     | PDict d \<Rightarrow> dset (k @ ''_keys'') (PList (map (PStr \<circ> fst) d)) summary
     | _ \<Rightarrow> dset k v summary)) [] result"

section \<open>Dispatch\<close>

record tool_dispatch_result =
  td_tool_call_id :: string
  td_tool_name :: string
  td_success :: bool
  td_result :: "dict option"
  td_error :: "string option"
  td_elapsed_ms :: int

definition audit_failure ::
  "'z audit_db_scheme \<Rightarrow> organization_context \<Rightarrow> tool_call \<Rightarrow> string \<Rightarrow> string \<Rightarrow> int \<Rightarrow> tool_dispatch_result \<times> 'z audit_db_scheme" where
  "audit_failure db ctx call event_type detail elapsed_ms =
    (let (_, db) = write_event_from_context db ctx event_type
           (Some [(''tool_name'', PStr (tc_name call)), (''tool_call_id'', PStr (tc_id call)),
             (''detail'', PStr (take 1000 detail)), (''elapsed_ms'', PInt elapsed_ms)]) None None
     in (\<lparr>td_tool_call_id = tc_id call, td_tool_name = tc_name call, td_success = False, td_result = None,
          td_error = Some detail, td_elapsed_ms = elapsed_ms\<rparr>, db))"

definition audit_success ::
  "'z audit_db_scheme \<Rightarrow> organization_context \<Rightarrow> tool_call \<Rightarrow> dict \<Rightarrow> dict \<Rightarrow> tool_schema \<Rightarrow> int \<Rightarrow> tool_dispatch_result \<times> 'z audit_db_scheme" where
  "audit_success db ctx call sanitized_args result_dict schema elapsed_ms =
    (let (_, db) = write_event_from_context db ctx ''tool.call.success''
           (Some [(''tool_name'', PStr (tc_name call)), (''tool_call_id'', PStr (tc_id call)),
             (''arguments_summary'', PDict (summarize_args sanitized_args)), (''result_summary'', PDict (summarize_result result_dict)),
             (''elapsed_ms'', PInt elapsed_ms), (''tier'', PStr (tier_value (ts_tier schema)))]) None None
     in (\<lparr>td_tool_call_id = tc_id call, td_tool_name = tc_name call, td_success = True, td_result = Some result_dict,
          td_error = None, td_elapsed_ms = elapsed_ms\<rparr>, db))"

text \<open>The \<open>except\<close> clauses around the body: the event type under which a failure is audited, \<open>None\<close> where the
  exception is raised again.\<close>

fun failure_event :: "exn \<Rightarrow> string option" where
  "failure_event (Wolf GuardrailViolation m) = Some ''tool.call.guardrail''"
| "failure_event (Wolf c m) = None"
| "failure_event (PyError c m) = Some (if c = ''ToolDegradedError'' then ''tool.call.degraded'' else ''tool.call.runtime_error'')"
| "failure_event (HTTPException n m) = Some ''tool.call.runtime_error''"

text \<open>Steps 1 to 3: what the registries and the input model make of a call, or the event of its refusal.\<close>

definition admit_call ::
  "schema_registry \<Rightarrow> 's runner_registry \<Rightarrow> tool_call \<Rightarrow> dict \<Rightarrow> (string \<times> string) + tool_schema \<times> 's tool_runner \<times> dict" where
  "admit_call schemas runners call sanitized_args =
    (case validate_model_call schemas (tc_name call) of
       Inl e \<Rightarrow> Inl (if (case e of Wolf ToolNotFoundError _ \<Rightarrow> True | _ \<Rightarrow> False) then ''tool.call.unknown'' else ''tool.call.anomaly'', exn_str e)
     | Inr schema \<Rightarrow>
        (case get_runner runners (tc_name call) of
           Inl e \<Rightarrow> Inl (''tool.call.runner_missing'', exn_str e)
         | Inr runner \<Rightarrow>
            (case tr_input runner sanitized_args of
               Inl errs \<Rightarrow> Inl (''tool.call.schema_invalid'', format_input_validation_error (tc_name call) errs)
             | Inr args \<Rightarrow> Inr (schema, runner, args))))"

definition sanitized :: "tool_call \<Rightarrow> dict" where
  "sanitized call = strip_explicit_nulls (sanitize_organization_id_from_args (tc_arguments call))"

text \<open>Steps 5 and 6, once the call is admitted and the rate limit has let it pass.\<close>

definition run_admitted ::
  "tool_schema \<Rightarrow> ('z audit_db_scheme \<times> 'x) tool_runner \<Rightarrow> dict \<Rightarrow> tool_call \<Rightarrow> organization_context \<Rightarrow> int
    \<Rightarrow> 'z audit_db_scheme \<Rightarrow> 'x \<Rightarrow> tool_dispatch_result result \<times> 'z audit_db_scheme \<times> 'x" where
  "run_admitted schema runner args call ctx elapsed_ms db x =
    (case tr_run runner args (db, x) of
       (Inl e, db, x) \<Rightarrow>
         (case failure_event e of
            None \<Rightarrow> (Inl e, db, x)
          | Some event_type \<Rightarrow> (case audit_failure db ctx call event_type (exn_str e) elapsed_ms of (res, db) \<Rightarrow> (Inr res, db, x)))
     | (Inr result, db, x) \<Rightarrow>
         (case tr_output runner result of
            [] \<Rightarrow> (case audit_success db ctx call (sanitized call) result schema elapsed_ms of (res, db) \<Rightarrow> (Inr res, db, x))
          | errs \<Rightarrow> (case audit_failure db ctx call ''tool.call.output_invalid''
               (''Output validation failed: '' @ py_repr (PList (map PDict errs))) elapsed_ms of (res, db) \<Rightarrow> (Inr res, db, x))))"

definition dispatch_tool_call ::
  "schema_registry \<Rightarrow> ('z audit_db_scheme \<times> 'x) runner_registry \<Rightarrow> tool_call \<Rightarrow> organization_context \<Rightarrow> int
    \<Rightarrow> 'z audit_db_scheme \<Rightarrow> rate_limiter \<Rightarrow> 'x \<Rightarrow> tool_dispatch_result result \<times> 'z audit_db_scheme \<times> rate_limiter \<times> 'x" where
  "dispatch_tool_call schemas runners call ctx elapsed_ms db rl x =
    (case admit_call schemas runners call (sanitized call) of
       Inl (event_type, detail) \<Rightarrow>
         (case audit_failure db ctx call event_type detail elapsed_ms of (res, db) \<Rightarrow> (Inr res, db, rl, x))
     | Inr (schema, runner, args) \<Rightarrow>
         (case take_token (oc_organization_id ctx) 1 rl of
            (Inl e, rl) \<Rightarrow>
              (case audit_failure db ctx call ''tool.call.rate_limited'' (exn_str e) elapsed_ms of (res, db) \<Rightarrow> (Inr res, db, rl, x))
          | (Inr _, rl) \<Rightarrow>
              (case run_admitted schema runner args call ctx elapsed_ms db x of (r, db, x) \<Rightarrow> (r, db, rl, x))))"

section \<open>What a dispatch leaves behind\<close>

text \<open>The event the dispatcher writes about a call, and the condition under which it runs a body.\<close>

definition noted :: "organization_context \<Rightarrow> tool_call \<Rightarrow> string \<Rightarrow> 'z audit_db_scheme \<Rightarrow> 'z audit_db_scheme \<Rightarrow> bool" where
  "noted ctx call event_type db db' \<longleftrightarrow> (\<exists>d. db' = snd (write_event_from_context db ctx event_type (Some d) None None)
     \<and> dget d ''tool_name'' = PStr (tc_name call) \<and> dget d ''tool_call_id'' = PStr (tc_id call))"

definition may_run :: "schema_registry \<Rightarrow> 's runner_registry \<Rightarrow> tool_call \<Rightarrow> 's tool_runner \<Rightarrow> dict \<Rightarrow> bool" where
  "may_run schemas runners call runner args \<longleftrightarrow> map_of runners (tc_name call) = Some runner
     \<and> (\<exists>schema. map_of schemas (tc_name call) = Some schema \<and> ts_tier schema \<noteq> ExecuteTier)
     \<and> tr_input runner (sanitized call) = Inr args"

lemma audit_failure_noted:
  assumes "audit_failure db ctx call ty detail ms = (res, db')"
  shows "noted ctx call ty db db'" "\<not> td_success res" "td_tool_call_id res = tc_id call" "td_error res = Some detail"
  using assms by (auto simp: audit_failure_def noted_def split_beta Let_def intro!: exI)

lemma audit_success_noted:
  assumes "audit_success db ctx call args result schema ms = (res, db')"
  shows "noted ctx call ''tool.call.success'' db db'" "td_success res" "td_tool_call_id res = tc_id call" "td_result res = Some result"
  using assms by (auto simp: audit_success_def noted_def split_beta Let_def intro!: exI)

lemma notedD:
  assumes "noted ctx call ty db db'"
  obtains ev where "audit_events db' = audit_events db @ [ev]" "ae_event_type ev = ty" "ae_organization_id ev = Some (oc_organization_id ctx)"
    "ae_user_id ev = Some (oc_user_id ctx)" "audit_db.more db' = audit_db.more db"
  using assms by (auto simp: noted_def write_event_from_context_def audit_simps)

lemma admit_call_Inr: "admit_call schemas runners call (sanitized call) = Inr (schema, runner, args) \<Longrightarrow> may_run schemas runners call runner args"
  by (auto simp: admit_call_def may_run_def validate_model_call_def lookup_schema_def get_runner_def rbind_def
      split: sum.splits option.splits if_splits)

lemma admit_call_Inl: "admit_call schemas runners call args = Inl (ty, detail) \<Longrightarrow> ty \<noteq> ''tool.call.success''"
  by (auto simp: admit_call_def split: sum.splits if_splits)

lemma failure_event_simps:
  "failure_event e \<noteq> Some ''tool.call.success''"
  "failure_event e = None \<longleftrightarrow> is_wolf e \<and> (\<forall>m. e \<noteq> Wolf GuardrailViolation m)"
  by (induction e rule: failure_event.induct) auto

lemma run_admitted_cases:
  assumes "run_admitted schema runner args call ctx ms db x = (r, db', x')"
  obtains (ran) res ran out ty where "r = Inr res" "tr_run runner args (db, x) = (out, ran, x')" "noted ctx call ty ran db'"
      "td_success res \<longleftrightarrow> ty = ''tool.call.success''" "td_success res \<Longrightarrow> out = Inr (the (td_result res)) \<and> tr_output runner (the (td_result res)) = []"
      "td_tool_call_id res = tc_id call"
  | (raised) e where "r = Inl e" "tr_run runner args (db, x) = (Inl e, db', x')" "failure_event e = None"
proof -
  obtain out ran xr where o: "tr_run runner args (db, x) = (out, ran, xr)" by (metis surj_pair)
  note d = assms [unfolded run_admitted_def o]
  show thesis
  proof (cases out)
    case (Inl e)
    show thesis
    proof (cases "failure_event e")
      case None
      with d o Inl that(2) show thesis by auto
    next
      case (Some ty)
      then obtain res where a: "audit_failure ran ctx call ty (exn_str e) ms = (res, db')" "r = Inr res" "x' = xr"
        using d Inl by (auto split: prod.splits)
      from that(1) [OF a(2) o [folded a(3)] audit_failure_noted(1) [OF a(1)]] audit_failure_noted [OF a(1)]
        failure_event_simps(1) [of e] Some show thesis by simp
    qed
  next
    case (Inr result)
    show thesis
    proof (cases "tr_output runner result")
      case Nil
      then obtain res where a: "audit_success ran ctx call (sanitized call) result schema ms = (res, db')" "r = Inr res" "x' = xr"
        using d Inr by (auto split: prod.splits)
      from that(1) [OF a(2) o [folded a(3)] audit_success_noted(1) [OF a(1)]] audit_success_noted [OF a(1)] Inr Nil
      show thesis by simp
    next
      case (Cons er ers)
      then obtain res where a: "audit_failure ran ctx call ''tool.call.output_invalid''
          (''Output validation failed: '' @ py_repr (PList (map PDict (er # ers)))) ms = (res, db')" "r = Inr res" "x' = xr"
        using d Inr by (auto split: prod.splits)
      from that(1) [OF a(2) o [folded a(3)] audit_failure_noted(1) [OF a(1)]] audit_failure_noted [OF a(1)] show thesis by simp
    qed
  qed
qed

lemma dispatch_cases:
  assumes "dispatch_tool_call schemas runners call ctx ms db rl x = (r, db', rl', x')"
  obtains (refused) res ty where "r = Inr res" "x' = x" "noted ctx call ty db db'" "\<not> td_success res" "ty \<noteq> ''tool.call.success''"
      "td_tool_call_id res = tc_id call"
  | (ran) res runner args ran out ty where "r = Inr res" "may_run schemas runners call runner args" "tr_run runner args (db, x) = (out, ran, x')"
      "noted ctx call ty ran db'" "td_success res \<longleftrightarrow> ty = ''tool.call.success''"
      "td_success res \<Longrightarrow> out = Inr (the (td_result res)) \<and> tr_output runner (the (td_result res)) = []"
      "fst (take_token (oc_organization_id ctx) 1 rl) = Inr ()" "td_tool_call_id res = tc_id call"
  | (raised) e runner args where "r = Inl e" "may_run schemas runners call runner args" "tr_run runner args (db, x) = (Inl e, db', x')"
      "failure_event e = None" "fst (take_token (oc_organization_id ctx) 1 rl) = Inr ()"
proof (cases "admit_call schemas runners call (sanitized call)")
  case (Inl a)
  obtain ty detail where "a = (ty, detail)" by (cases a)
  with Inl assms obtain res where a: "audit_failure db ctx call ty detail ms = (res, db')" "r = Inr res" "x' = x" "ty \<noteq> ''tool.call.success''"
    by (auto simp: dispatch_tool_call_def dest: admit_call_Inl split: prod.splits)
  with that(1) audit_failure_noted [OF a(1)] show thesis by simp
next
  case (Inr a)
  obtain schema runner args where adm: "admit_call schemas runners call (sanitized call) = Inr (schema, runner, args)"
    using Inr by (cases a) auto
  note m = admit_call_Inr [OF adm]
  obtain t rl1 where t: "take_token (oc_organization_id ctx) 1 rl = (t, rl1)" by (metis surj_pair)
  show thesis
  proof (cases t)
    case (Inl e)
    with adm t assms obtain res where a: "audit_failure db ctx call ''tool.call.rate_limited'' (exn_str e) ms = (res, db')" "r = Inr res" "x' = x"
      by (auto simp: dispatch_tool_call_def split: prod.splits)
    with that(1) audit_failure_noted [OF a(1)] show thesis by simp
  next
    case (Inr u)
    with t have granted: "fst (take_token (oc_organization_id ctx) 1 rl) = Inr ()" by simp
    from Inr adm t assms have run: "run_admitted schema runner args call ctx ms db x = (r, db', x')"
      by (auto simp: dispatch_tool_call_def split: prod.splits)
    from run show thesis
    proof (cases rule: run_admitted_cases)
      case (ran res rn out ty)
      with that(2) m granted show thesis by blast
    next
      case (raised e)
      with that(3) m granted show thesis by blast
    qed
  qed
qed

lemma sanitized_clean: "(k, v) \<in> set (sanitized call) \<Longrightarrow> k \<noteq> ''organization_id'' \<and> v \<noteq> PNone \<and> (k, v) \<in> set (tc_arguments call)"
  by (auto simp: sanitized_def strip_explicit_nulls_def sanitize_organization_id_from_args_def map_of_eq_None_iff image_iff
      split: if_splits)

section \<open>Registration keeps the registries together\<close>

definition in_step :: "'s runner_registry \<times> schema_registry \<Rightarrow> bool" where
  "in_step regs \<longleftrightarrow> snd regs = map (\<lambda>(name, tool). (name, tr_schema tool)) (fst regs) \<and> distinct (map fst (fst regs))"

lemma map_of_in_step: "in_step (runners, schemas) \<Longrightarrow> map_of schemas name = map_option tr_schema (map_of runners name)"
  by (simp add: in_step_def map_of_map)

lemma register_runner_in_step:
  assumes "in_step regs" "register_runner tool regs = (r, regs')"
  shows "in_step regs'" "r = Inr () \<Longrightarrow> map fst (fst regs') = map fst (fst regs) @ [ts_name (tr_schema tool)]"
proof -
  obtain runners schemas where regs: "regs = (runners, schemas)" by (cases regs)
  note m = map_of_in_step [OF assms(1) [unfolded regs], of "ts_name (tr_schema tool)"]
  show "in_step regs'" "r = Inr () \<Longrightarrow> map fst (fst regs') = map fst (fst regs) @ [ts_name (tr_schema tool)]"
    using assms m by (auto simp: regs register_runner_def register_schema_def in_step_def Let_def map_of_eq_None_iff split: if_splits sum.splits)
qed

lemma register_all_in_step: "in_step regs \<Longrightarrow> in_step (snd (register_all tools regs))"
  by (induction tools regs rule: register_all.induct)
    (auto dest: register_runner_in_step(1) split: prod.splits sum.splits)

section \<open>What tools keep, dispatch keeps\<close>

text \<open>A relation between states that audit events do not disturb.  If the bodies a model may call stay within
  it, so does every dispatch, and with it everything built on dispatching.\<close>

definition keeps :: "('s \<Rightarrow> 's \<Rightarrow> bool) \<Rightarrow> 's tool_runner \<Rightarrow> bool" where
  "keeps R runner \<longleftrightarrow> (\<forall>args s. R s (snd (tr_run runner args s)))"

locale tool_contract =
  fixes R :: "'z audit_db_scheme \<times> 'x \<Rightarrow> 'z audit_db_scheme \<times> 'x \<Rightarrow> bool"
  assumes R_refl: "R s s"
    and R_trans: "R s t \<Longrightarrow> R t u \<Longrightarrow> R s u"
    and R_event: "R (db, x) (snd (write_event db ty dat org usr ses ip rel), x)"
begin

lemma R_noted: "noted ctx call ty db db' \<Longrightarrow> R (db, x) (db', x)"
  unfolding noted_def write_event_from_context_def using R_event by blast

lemma dispatch_keeps:
  assumes d: "dispatch_tool_call schemas runners call ctx ms db rl x = (r, db', rl', x')"
    and tools: "\<And>name runner schema. map_of runners name = Some runner \<Longrightarrow> map_of schemas name = Some schema \<Longrightarrow>
      ts_tier schema \<noteq> ExecuteTier \<Longrightarrow> keeps R runner"
  shows "R (db, x) (db', x')"
proof -
  have run: "R (db, x) (db1, x1)" if m: "may_run schemas runners call runner args" and e: "tr_run runner args (db, x) = (out, db1, x1)"
    for runner args out db1 x1
  proof -
    have "keeps R runner" using m tools unfolding may_run_def by blast
    then have "R (db, x) (snd (tr_run runner args (db, x)))" unfolding keeps_def by blast
    with e show ?thesis by simp
  qed
  from d show ?thesis
  proof (cases rule: dispatch_cases)
    case (refused res ty)
    with R_noted show ?thesis by simp
  next
    case (ran res runner args rn out ty)
    with run R_noted R_trans show ?thesis by blast
  next
    case (raised e runner args)
    with run show ?thesis by blast
  qed
qed

end

text \<open>The trail only grows, with the world ignored.\<close>

interpretation trail: tool_contract "\<lambda>s t. prefix (audit_events (fst s)) (audit_events (fst t))"
  by unfold_locales (auto simp: audit_simps intro: prefix_order.trans)

section \<open>Properties\<close>


text \<open>An echo tool, and a call that smuggles an organization id.\<close>

definition echo_schema :: tool_schema where
  "echo_schema = \<lparr>ts_name = ''echo'', ts_description = [], ts_tier = ReadTier, ts_input_schema = [], ts_output_schema = []\<rparr>"

definition echo_tool :: "'s tool_runner" where
  "echo_tool = \<lparr>tr_schema = echo_schema, tr_input = Inr, tr_run = (\<lambda>args s. (Inr args, s)), tr_output = (\<lambda>_. [])\<rparr>"

lemma echo_tool_simps [simp]: "tr_run echo_tool args s = (Inr args, s)" "tr_output echo_tool out = []"
  by (simp_all add: echo_tool_def)

definition echo_call :: tool_call where
  "echo_call = \<lparr>tc_id = ''1'', tc_name = ''echo'', tc_arguments = [(''organization_id'', PStr ''other''), (''limit'', PNone), (''q'', PStr ''x'')]\<rparr>"

definition echo_ctx :: organization_context where
  "echo_ctx = \<lparr>oc_organization_id = 1, oc_organization_slug = [], oc_user_id = 2, oc_user_email = [], oc_role = ''analyst'', oc_session_id = []\<rparr>"

definition empty_audit :: audit_db where
  "empty_audit = \<lparr>audit_events = [], clock = (\<lambda>_. 0), uuid_source = (\<lambda>n. of_nat n)\<rparr>"


text \<open>Of tools registered one after the other from empty registries, a call the schema registry lets through always
  finds its runner, and the catalogue the model sees holds no execute-tier tool.\<close>

theorem admitted_calls_have_runners:
  assumes "register_all tools ([], []) = (r, runners, schemas)" "validate_model_call schemas name = Inr schema"
  shows "\<exists>runner. get_runner runners name = Inr runner \<and> tr_schema runner = schema \<and> schema \<in> set (model_tools schemas)"
proof -
  have "in_step (runners, schemas)" using register_all_in_step [of "([], [])" tools] assms(1) by (simp add: in_step_def)
  then have "map_of schemas name = map_option tr_schema (map_of runners name)" by (rule map_of_in_step)
  moreover have "map_of schemas name = Some schema" "ts_tier schema \<noteq> ExecuteTier"
    using assms(2) by (auto simp: validate_model_call_def lookup_schema_def rbind_def split: option.splits sum.splits if_splits)
  moreover from this have "schema \<in> set (model_tools schemas)" by (force simp: model_tools_def dest: map_of_SomeD)
  ultimately show ?thesis by (cases "map_of runners name") (auto simp: get_runner_def)
qed

text \<open>A Wolf error raised by a body leaves no event about the call: \<open>WazuhServerApiError\<close>, raised when the Server API
  is down or answers 4xx, is one.\<close>

definition failing_tool :: "'s tool_runner" where
  "failing_tool = echo_tool\<lparr>tr_run := \<lambda>args s. (Inl (Wolf WazuhServerApiError ''Server API returned 500''), s)\<rparr>"

theorem tool_error_escapes_unaudited:
  "dispatch_tool_call [(''echo'', echo_schema)] [(''echo'', failing_tool)] echo_call echo_ctx 5 empty_audit (default_rate_limiter (\<lambda>_. 0)) ()
     = (Inl (Wolf WazuhServerApiError ''Server API returned 500''), empty_audit, snd (take_token 1 1 (default_rate_limiter (\<lambda>_. 0))), ())"
  by (simp add: dispatch_tool_call_def admit_call_def echo_call_def validate_model_call_def lookup_schema_def get_runner_def
      echo_schema_def echo_tool_def failing_tool_def echo_ctx_def run_admitted_def take_token_def default_rate_limiter_def
      new_rate_limiter_def refilled_def Let_def)

end
