(* ===== verification/Model_Chat.thy ===== *)
theory Model_Chat
  imports Tool_Dispatch
begin

text \<open>
  The provider-agnostic chat protocol (\<open>wolf_schema/chat.py\<close>, \<open>wolf_schema/capability.py\<close>,
  \<open>models/interface.py\<close>), the agent strategies (\<open>agent/strategies.py\<close>) and the failover chain
  (\<open>models/failover.py\<close>).

  A provider answers a request or raises; what it has behind it is the world \<open>'m\<close>.  A streaming provider
  yields a list of events and may raise after them.  Request fields that every caller leaves at their
  default are left out.
\<close>

section \<open>Chat protocol\<close>

datatype message_role = SystemRole | UserRole | AssistantRole | ToolRole

record tool_result =
  tres_tool_call_id :: string
  tres_name :: string
  tres_content :: pyval
  tres_error :: "string option"

record message =
  msg_role :: message_role
  msg_content :: string
  msg_tool_calls :: "tool_call list option"
  msg_tool_results :: "tool_result list option"

definition text_message :: "message_role \<Rightarrow> string \<Rightarrow> message" where
  "text_message role content = \<lparr>msg_role = role, msg_content = content, msg_tool_calls = None, msg_tool_results = None\<rparr>"

record chat_request =
  cr_messages :: "message list"
  cr_tools :: "tool_schema list option"

record chat_response =
  rsp_content :: string
  rsp_tool_calls :: "tool_call list"
  rsp_input_tokens :: int
  rsp_output_tokens :: int
  rsp_stop_reason :: string
  rsp_model_id :: string

section \<open>Capabilities\<close>

datatype native_tool_calling = FullCalling | PartialCalling | NoCalling
datatype reasoning_tier = FrontierTier | StrongTier | MidTier | BasicTier
datatype structured_output = SchemaEnforced | PromptCoaxed | Unreliable
datatype agent_strategy = Frontier | Guided | Pipeline

record capability_descriptor =
  cd_model_id :: string
  cd_provider :: string
  cd_context_window :: int
  cd_native_tool_calling :: native_tool_calling
  cd_reasoning_tier :: reasoning_tier
  cd_structured_output :: structured_output
  cd_max_safe_autonomous_steps :: int
  cd_recommended_strategy :: agent_strategy
  cd_license_class :: "string option"

datatype stream_event = ChatStreamDelta string | ChatStreamDone chat_response

record 'm provider =
  pv_capability :: capability_descriptor
  pv_effective_context_window :: "int option"
  pv_chat :: "chat_request \<Rightarrow> 'm \<Rightarrow> chat_response result \<times> 'm"
  pv_chat_stream :: "(chat_request \<Rightarrow> 'm \<Rightarrow> (stream_event list \<times> exn option) \<times> 'm) option"

definition effective_context_window :: "'m provider \<Rightarrow> int" where
  "effective_context_window p = (case pv_effective_context_window p of Some n \<Rightarrow> n | None \<Rightarrow> cd_context_window (pv_capability p))"

section \<open>Strategies\<close>

text \<open>The prompts are the texts of \<open>agent/prompts.py\<close>; \<open>SYSTEM_PROMPT\<close> and the suffixes are arguments.\<close>

record strategy =
  st_name :: string
  st_step_budget :: "capability_descriptor \<Rightarrow> int"
  st_system_prompt :: string
  st_model_tools :: "tool_schema list \<Rightarrow> tool_schema list"

fun strategy_for :: "string \<Rightarrow> string \<Rightarrow> string \<Rightarrow> agent_strategy \<Rightarrow> strategy" where
  "strategy_for prompt guided_suffix pipeline_suffix Frontier =
    \<lparr>st_name = ''frontier'', st_step_budget = cd_max_safe_autonomous_steps, st_system_prompt = prompt, st_model_tools = (\<lambda>tools. tools)\<rparr>"
| "strategy_for prompt guided_suffix pipeline_suffix Guided =
    \<lparr>st_name = ''guided'', st_step_budget = (\<lambda>c. min (cd_max_safe_autonomous_steps c) 8), st_system_prompt = prompt @ guided_suffix,
     st_model_tools = (\<lambda>tools. tools)\<rparr>"
| "strategy_for prompt guided_suffix pipeline_suffix Pipeline =
    \<lparr>st_name = ''pipeline'', st_step_budget = (\<lambda>_. 1), st_system_prompt = prompt @ pipeline_suffix, st_model_tools = (\<lambda>_. [])\<rparr>"

section \<open>Failover\<close>

fun tool_rank :: "native_tool_calling \<Rightarrow> nat" where
  "tool_rank NoCalling = 0" | "tool_rank PartialCalling = 1" | "tool_rank FullCalling = 2"

fun tier_rank :: "reasoning_tier \<Rightarrow> nat" where
  "tier_rank BasicTier = 0" | "tier_rank MidTier = 1" | "tier_rank StrongTier = 2" | "tier_rank FrontierTier = 3"

fun so_rank :: "structured_output \<Rightarrow> nat" where
  "so_rank Unreliable = 0" | "so_rank PromptCoaxed = 1" | "so_rank SchemaEnforced = 2"

fun strat_rank :: "agent_strategy \<Rightarrow> nat" where
  "strat_rank Pipeline = 0" | "strat_rank Guided = 1" | "strat_rank Frontier = 2"

text \<open>Python's \<open>min(values, key=\<dots>)\<close> on a non-empty list: the first of the least.\<close>

fun min_by_rank :: "('a \<Rightarrow> nat) \<Rightarrow> 'a \<Rightarrow> 'a list \<Rightarrow> 'a" where
  "min_by_rank rank x [] = x"
| "min_by_rank rank x (y # ys) = min_by_rank rank (if rank y < rank x then y else x) ys"

definition conservative_capability :: "capability_descriptor \<Rightarrow> capability_descriptor list \<Rightarrow> capability_descriptor" where
  "conservative_capability primary rest =
    \<lparr>cd_model_id = cd_model_id primary, cd_provider = cd_provider primary,
     cd_context_window = foldl min (cd_context_window primary) (map cd_context_window rest),
     cd_native_tool_calling = min_by_rank tool_rank (cd_native_tool_calling primary) (map cd_native_tool_calling rest),
     cd_reasoning_tier = min_by_rank tier_rank (cd_reasoning_tier primary) (map cd_reasoning_tier rest),
     cd_structured_output = min_by_rank so_rank (cd_structured_output primary) (map cd_structured_output rest),
     cd_max_safe_autonomous_steps = foldl min (cd_max_safe_autonomous_steps primary) (map cd_max_safe_autonomous_steps rest),
     cd_recommended_strategy = min_by_rank strat_rank (cd_recommended_strategy primary) (map cd_recommended_strategy rest),
     cd_license_class = cd_license_class primary\<rparr>"

text \<open>The chain: the providers in order, per link the reading until which it is skipped, the readings of the clock
  and the world of the providers.\<close>

record 'm chain =
  ch_tripped :: "nat \<Rightarrow> rat"
  ch_clock :: "nat \<Rightarrow> rat"
  ch_model :: 'm

definition chain_now :: "'m chain \<Rightarrow> rat \<times> 'm chain" where
  "chain_now c = (ch_clock c 0, c\<lparr>ch_clock := \<lambda>n. ch_clock c (Suc n)\<rparr>)"

definition link_order :: "nat \<Rightarrow> 'm chain \<Rightarrow> nat list \<times> 'm chain" where
  "link_order n c = (let (now, c) = chain_now c; healthy = filter (\<lambda>i. now \<ge> ch_tripped c i) [0..<n]
     in (if healthy \<noteq> [] then healthy else [0..<n], c))"

definition trip :: "rat \<Rightarrow> nat \<Rightarrow> 'm chain \<Rightarrow> 'm chain" where
  "trip cooloff i c = (let (now, c) = chain_now c in c\<lparr>ch_tripped := (ch_tripped c)(i := now + cooloff)\<rparr>)"

definition all_failed :: "exn list \<Rightarrow> exn" where
  "all_failed errors = (if errors \<noteq> [] then last errors else Wolf WolfErrorBase ''Failover chain produced no provider to call'')"

fun try_links :: "rat \<Rightarrow> 'm provider list \<Rightarrow> chat_request \<Rightarrow> nat list \<Rightarrow> exn list \<Rightarrow> 'm chain \<Rightarrow> chat_response result \<times> 'm chain" where
  "try_links cooloff ps request [] errors c = (Inl (all_failed errors), c)"
| "try_links cooloff ps request (i # order) errors c =
    (case pv_chat (ps ! i) request (ch_model c) of
       (Inr response, m) \<Rightarrow> (Inr response, c\<lparr>ch_model := m\<rparr>)
     | (Inl e, m) \<Rightarrow> try_links cooloff ps request order (errors @ [e]) (trip cooloff i (c\<lparr>ch_model := m\<rparr>)))"

definition failover_chat :: "rat \<Rightarrow> 'm provider list \<Rightarrow> chat_request \<Rightarrow> 'm chain \<Rightarrow> chat_response result \<times> 'm chain" where
  "failover_chat cooloff ps request c = (case link_order (length ps) c of (order, c) \<Rightarrow> try_links cooloff ps request order [] c)"

text \<open>\<open>_events\<close> adapts a provider without streaming into one terminal event.\<close>

definition provider_events :: "'m provider \<Rightarrow> chat_request \<Rightarrow> 'm \<Rightarrow> (stream_event list \<times> exn option) \<times> 'm" where
  "provider_events p request m = (case pv_chat_stream p of
     Some stream \<Rightarrow> stream request m
   | None \<Rightarrow> (case pv_chat p request m of (Inr response, m) \<Rightarrow> (([ChatStreamDone response], None), m) | (Inl e, m) \<Rightarrow> (([], Some e), m)))"

fun stream_links :: "rat \<Rightarrow> 'm provider list \<Rightarrow> chat_request \<Rightarrow> nat list \<Rightarrow> exn list \<Rightarrow> 'm chain \<Rightarrow> (stream_event list \<times> exn option) \<times> 'm chain" where
  "stream_links cooloff ps request [] errors c = (([], Some (all_failed errors)), c)"
| "stream_links cooloff ps request (i # order) errors c =
    (case provider_events (ps ! i) request (ch_model c) of
       ((evs, None), m) \<Rightarrow> ((evs, None), c\<lparr>ch_model := m\<rparr>)
     | ((evs, Some e), m) \<Rightarrow>
         if evs \<noteq> [] then ((evs, Some e), c\<lparr>ch_model := m\<rparr>)
         else stream_links cooloff ps request order (errors @ [e]) (trip cooloff i (c\<lparr>ch_model := m\<rparr>)))"

definition failover_chat_stream :: "rat \<Rightarrow> 'm provider list \<Rightarrow> chat_request \<Rightarrow> 'm chain \<Rightarrow> (stream_event list \<times> exn option) \<times> 'm chain" where
  "failover_chat_stream cooloff ps request c = (case link_order (length ps) c of (order, c) \<Rightarrow> stream_links cooloff ps request order [] c)"

definition failover_provider :: "rat \<Rightarrow> 'm provider list \<Rightarrow> 'm chain provider result" where
  "failover_provider cooloff ps = (if length ps < 2 then Inl (PyError ''ValueError'' ''FailoverProvider needs at least two providers (primary + fallback)'')
     else Inr \<lparr>pv_capability = conservative_capability (pv_capability (hd ps)) (map pv_capability (tl ps)),
       pv_effective_context_window = Some (foldl min (effective_context_window (hd ps)) (map effective_context_window (tl ps))),
       pv_chat = failover_chat cooloff ps, pv_chat_stream = Some (failover_chat_stream cooloff ps)\<rparr>)"

section \<open>Laws of the chain\<close>

definition never_fails :: "'m provider \<Rightarrow> bool" where
  "never_fails p \<longleftrightarrow> (\<forall>request m. \<not> isl (fst (pv_chat p request m)))"

definition healthy :: "nat \<Rightarrow> 'm chain \<Rightarrow> bool" where
  "healthy i c \<longleftrightarrow> (\<forall>n. ch_tripped c i \<le> ch_clock c n)"

lemma healthy_simps:
  "healthy i (c\<lparr>ch_model := m\<rparr>) = healthy i c"
  "healthy i c \<Longrightarrow> healthy i (snd (chain_now c))"
  "healthy i c \<Longrightarrow> i \<noteq> j \<Longrightarrow> healthy i (trip cooloff j c)"
  by (simp_all add: healthy_def chain_now_def trip_def)

lemma try_links_answers:
  assumes "i \<in> set order" "never_fails (ps ! i)" "healthy i c"
  shows "\<exists>response c'. try_links cooloff ps request order errors c = (Inr response, c') \<and> healthy i c'"
  using assms(1,3)
proof (induction order arbitrary: errors c)
  case (Cons j order)
  obtain r m where r: "pv_chat (ps ! j) request (ch_model c) = (r, m)" by (metis surj_pair)
  show ?case
  proof (cases r)
    case (Inl e)
    with r assms(2) have "j \<noteq> i" unfolding never_fails_def by (metis fst_conv sum.disc(1))
    with Cons r Inl show ?thesis by (simp add: healthy_simps)
  next
    case (Inr response)
    with r Cons(3) show ?thesis by (simp add: healthy_simps)
  qed
qed simp

lemma link_order_healthy: "i < n \<Longrightarrow> healthy i c \<Longrightarrow> i \<in> set (fst (link_order n c)) \<and> healthy i (snd (link_order n c))"
  by (auto simp: link_order_def chain_now_def healthy_def Let_def filter_empty_conv)

lemma try_links_order:
  assumes "try_links cooloff ps request order errors c = (r, c')"
  shows "(\<exists>response. r = Inr response \<and> (\<exists>j \<in> set order. \<exists>m. fst (pv_chat (ps ! j) request m) = Inr response))
    \<or> (r = Inl (all_failed errors) \<and> order = [])
    \<or> (\<exists>e j m. order \<noteq> [] \<and> j = last order \<and> fst (pv_chat (ps ! j) request m) = Inl e \<and> r = Inl e)"
  using assms
proof (induction order arbitrary: errors c)
  case (Cons j order)
  obtain rj m where rj: "pv_chat (ps ! j) request (ch_model c) = (rj, m)" by (metis surj_pair)
  show ?case
  proof (cases rj)
    case (Inl e)
    with Cons(2) rj have t: "try_links cooloff ps request order (errors @ [e]) (trip cooloff j (c\<lparr>ch_model := m\<rparr>)) = (r, c')" by simp
    have f: "fst (pv_chat (ps ! j) request (ch_model c)) = Inl e" using rj Inl by simp
    show ?thesis
    proof (cases "order = []")
      case True
      with t have "r = Inl e" by (simp add: all_failed_def)
      with True f show ?thesis by auto
    next
      case False
      with Cons(1) [OF t] show ?thesis by auto
    qed
  next
    case (Inr response)
    with Cons(2) rj show ?thesis by (auto intro!: exI [of _ "ch_model c"])
  qed
qed simp

lemma min_by_rank_le: "rank (min_by_rank rank x ys) \<le> rank x \<and> (\<forall>y \<in> set ys. rank (min_by_rank rank x ys) \<le> rank y)"
  by (induction rank x ys rule: min_by_rank.induct) (force split: if_splits)+

lemma foldl_min_le: "foldl min x ys \<le> x \<and> (\<forall>y \<in> set ys. foldl min x ys \<le> y)" for x :: "'a :: linorder"
proof (induction ys arbitrary: x)
  case (Cons a ys)
  from Cons [of "min x a"] show ?case by auto
qed simp

section \<open>Properties\<close>


text \<open>The profile the chain reports is at most that of each of its links.\<close>

theorem chain_capability_is_a_floor:
  assumes "p \<in> set (primary # rest)"
  shows "cd_context_window (conservative_capability primary rest) \<le> cd_context_window p"
    "cd_max_safe_autonomous_steps (conservative_capability primary rest) \<le> cd_max_safe_autonomous_steps p"
    "tool_rank (cd_native_tool_calling (conservative_capability primary rest)) \<le> tool_rank (cd_native_tool_calling p)"
    "tier_rank (cd_reasoning_tier (conservative_capability primary rest)) \<le> tier_rank (cd_reasoning_tier p)"
    "so_rank (cd_structured_output (conservative_capability primary rest)) \<le> so_rank (cd_structured_output p)"
    "strat_rank (cd_recommended_strategy (conservative_capability primary rest)) \<le> strat_rank (cd_recommended_strategy p)"
  using assms foldl_min_le [of "cd_context_window primary" "map cd_context_window rest"]
    foldl_min_le [of "cd_max_safe_autonomous_steps primary" "map cd_max_safe_autonomous_steps rest"]
    min_by_rank_le [of tool_rank "cd_native_tool_calling primary" "map cd_native_tool_calling rest"]
    min_by_rank_le [of tier_rank "cd_reasoning_tier primary" "map cd_reasoning_tier rest"]
    min_by_rank_le [of so_rank "cd_structured_output primary" "map cd_structured_output rest"]
    min_by_rank_le [of strat_rank "cd_recommended_strategy primary" "map cd_recommended_strategy rest"]
  by (auto simp: conservative_capability_def)

end
