(* ===== verification/Grounding.thy ===== *)
theory Grounding
  imports Model_Chat Py_Json_Reader Py_Regex "HOL-Library.Sublist"
begin

text \<open>
  The grounding validator (\<open>grounding/validator.py\<close>): a second model labels the claims of a draft answer
  against the evidence, and the labels are spliced into the text.

  The judge is a provider as in \<open>Model_Chat\<close>; what it writes is parsed here.  In incremental mode the batches run
  concurrently; the order in which they complete is an argument, and a judge call is one step.  The dash of
  a provenance tag is written \<open>-\<close>.
\<close>

section \<open>Data\<close>

record claim_verdict =
  cv_claim :: string
  cv_verdict :: string
  cv_reason :: string

record grounding_result =
  gr_claims :: "claim_verdict list"
  gr_annotated_answer :: string
  gr_ran :: bool
  gr_supported_count :: nat
  gr_unsupported_count :: nat
  gr_uncertain_count :: nat
  gr_unverifiable_count :: nat

definition VALID_VERDICTS :: "string list" where
  "VALID_VERDICTS = [''supported'', ''unsupported'', ''uncertain'', ''unverifiable'']"

definition VERDICT_MARKER :: "(string \<times> string) list" where
  "VERDICT_MARKER = [(''supported'', ''[verified]''), (''uncertain'', ''[unverified]''), (''unsupported'', ''[unsupported]''),
     (''unverifiable'', ''[non-factual]'')]"

definition EVIDENCE_PER_SOURCE_LIMIT :: nat where "EVIDENCE_PER_SOURCE_LIMIT = 5000"

definition INCREMENTAL_BATCH_SIZE :: nat where "INCREMENTAL_BATCH_SIZE = 4"

definition newline :: char where "newline = CHR 0x0A"

section \<open>Claims\<close>

definition ascii_letter :: "char \<Rightarrow> bool" where
  "ascii_letter c \<longleftrightarrow> cp c \<in> {65..90} \<or> cp c \<in> {97..122}"

text \<open>Splitting at \<open>(?<=[a-zA-Z][.!?])\s+(?=[A-Z\d])\<close>: the two characters before, the sentence so far in reverse, the rest.
  A run of whitespace can only match from its start and as a whole.\<close>

function split_sentences :: "char \<Rightarrow> char \<Rightarrow> string \<Rightarrow> string \<Rightarrow> string list" where
  "split_sentences p q sofar [] = [rev sofar]"
| "split_sentences p q sofar (c # s) =
    (let after = dropWhile is_space (c # s) in
     if ascii_letter p \<and> q \<in> set ''.!?'' \<and> is_space c \<and> after \<noteq> [] \<and> (cp (hd after) \<in> {65..90} \<or> is_digit_char (hd after))
     then rev sofar # split_sentences c c [hd after] (tl after)
     else split_sentences q c (c # sofar) s)"
  by pat_completeness auto
termination
proof (relation "measure (\<lambda>(p, q, sofar, s). length s)")
  fix c :: char and s x :: string
  assume "x = dropWhile is_space (c # s)"
  then show "((c, c, [hd x], tl x), p, q, sofar, c # s) \<in> measure (\<lambda>(p, q, sofar, s). length s)" for p q sofar
    using length_dropWhile_le [of is_space "c # s"] by (cases x) auto
qed simp_all

definition split_claims :: "string \<Rightarrow> string list" where
  "split_claims answer = (if py_strip answer = [] then []
     else filter (\<lambda>p. p \<noteq> []) (map py_strip (split_sentences (CHR '' '') (CHR '' '') [] (py_strip answer))))"

section \<open>Evidence\<close>

definition tool_section :: "nat \<Rightarrow> dict \<Rightarrow> string list" where
  "tool_section i tr = (if \<not> truthy (dget tr ''content'') then []
     else [''[TOOL_RESULT '' @ show_nat i @ '': '' @ py_str (dget_or tr ''name'' (PStr ''<unknown>'')) @ '']'' @ [newline]
       @ take EVIDENCE_PER_SOURCE_LIMIT (json_dumps_default (dget tr ''content''))])"

fun py_slice :: "nat \<Rightarrow> pyval \<Rightarrow> pyval result" where
  "py_slice n (PStr s) = Inr (PStr (take n s))"
| "py_slice n (PList xs) = Inr (PList (take n xs))"
| "py_slice n v = Inl (PyError ''TypeError'' ''object is not subscriptable'')"

definition attribute_error :: exn where
  "attribute_error = PyError ''AttributeError'' ''object has no attribute get''"

definition knowledge_section :: "nat \<Rightarrow> dict \<Rightarrow> string result" where
  "knowledge_section i chunk = (case dget_or chunk ''chunk_metadata'' (PDict []) of
     PDict meta \<Rightarrow>
       rbind (py_slice EVIDENCE_PER_SOURCE_LIMIT (dget_or chunk ''content'' (PStr []))) (\<lambda>content.
         Inr (''[KNOWLEDGE '' @ show_nat i @ '': '' @ py_str (dget_or chunk ''source_type'' (PStr ''<unknown>'')) @ '' - ''
           @ py_str (dget_or meta ''title'' (PStr ''<no title>'')) @ '']'' @ [newline] @ py_str content))
   | _ \<Rightarrow> Inl attribute_error)"

definition failure_section :: "nat \<Rightarrow> dict \<Rightarrow> string" where
  "failure_section i tf = ''[TOOL_FAILED '' @ show_nat i @ '': '' @ py_str (dget_or tf ''name'' (PStr ''<unknown>'')) @ '']'' @ [newline]
     @ ''This tool returned NO data (error: '' @ take 300 (py_str (dget_or tf ''error'' (PStr ''tool call failed'')))
     @ ''). Any specific fact that would have come from it is UNSUPPORTED.''"

fun knowledge_sections :: "nat \<Rightarrow> dict list \<Rightarrow> string list result" where
  "knowledge_sections i [] = Inr []"
| "knowledge_sections i (chunk # chunks) = rbind (knowledge_section i chunk) (\<lambda>t. rbind (knowledge_sections (i + 1) chunks) (\<lambda>ts. Inr (t # ts)))"

definition build_evidence :: "dict list \<Rightarrow> dict list \<Rightarrow> dict list \<Rightarrow> string result" where
  "build_evidence tool_results retrieved_chunks tool_failures =
    rbind (knowledge_sections 1 retrieved_chunks) (\<lambda>known.
      Inr (join [newline, newline] (concat (map (\<lambda>(i, tr). tool_section i tr) (enumerate 1 tool_results)) @ known
        @ map (\<lambda>(i, tf). failure_section i tf) (enumerate 1 tool_failures))))"

definition prepare :: "nat \<Rightarrow> string \<Rightarrow> dict list \<Rightarrow> dict list \<Rightarrow> dict list \<Rightarrow> (string list \<times> string) option result" where
  "prepare max_claims answer tool_results retrieved_chunks tool_failures =
    (let claims = split_claims answer in
     if claims = [] then Inr None
     else rbind (build_evidence tool_results retrieved_chunks tool_failures) (\<lambda>evidence.
       Inr (if py_strip evidence = [] then None else Some (take max_claims claims, evidence))))"

section \<open>The judge\<close>

definition judge_request :: "string \<Rightarrow> string \<Rightarrow> string list \<Rightarrow> chat_request" where
  "judge_request prompt evidence claims = \<lparr>cr_messages = [text_message SystemRole prompt, text_message UserRole
      (''EVIDENCE:'' @ [newline] @ evidence @ [newline, newline] @ ''CLAIMS:'' @ [newline]
       @ join [newline] (map (\<lambda>(i, c). show_nat i @ ''. '' @ c) (enumerate 0 claims)) @ [newline, newline]
       @ ''Respond with a JSON array of objects: [{\"index\": 0, \"verdict\": \"supported|unsupported|unverifiable\", \"reason\": \"...\"}, ...]'')],
     cr_tools = None\<rparr>"

definition spaces :: regex where "spaces = Star True (Cls is_space)"

definition fence_re :: regex where
  "fence_re = Alt (seqs [line_start, lit ''```'', opt (lit ''json''), spaces]) (seqs [spaces, lit ''```'', line_end])"

definition think_re :: regex where
  "think_re = seqs [lit ''<think>'', Star False (Cls any_char), lit ''</think>'']"

definition array_re :: regex where
  "array_re = seqs [lit ''['', spaces, lit ''{'', Star False (Cls any_char), lit ''}'', spaces, lit '']'']"

definition value_error :: "string \<Rightarrow> exn" where
  "value_error msg = PyError ''ValueError'' msg"

definition parse_verdicts :: "string \<Rightarrow> pyval list result" where
  "parse_verdicts content =
    (let text = py_strip content in
     if text = [] then Inl (value_error ''judge model returned empty content'')
     else let text = py_strip (re_sub think_re [] (re_sub fence_re [] text));
              text = (case re_search array_re text of Some (before, found, groups, behind) \<Rightarrow> found | None \<Rightarrow> text)
       in if py_strip text = [] then Inl (value_error ''judge response contained no JSON array'')
          else case json_loads text of
              None \<Rightarrow> Inl (PyError ''JSONDecodeError'' ''Expecting value'')
            | Some (PList vs) \<Rightarrow> Inr vs
            | Some v \<Rightarrow> Inl (value_error ''Expected JSON array''))"

definition judge :: "string \<Rightarrow> 'm provider \<Rightarrow> string \<Rightarrow> string list \<Rightarrow> 'm \<Rightarrow> pyval list result \<times> 'm" where
  "judge prompt p evidence claims m = (case pv_chat p (judge_request prompt evidence claims) m of
     (Inl e, m) \<Rightarrow> (Inl e, m) | (Inr response, m) \<Rightarrow> (parse_verdicts (rsp_content response), m))"

section \<open>Verdicts\<close>

type_synonym verdict_map = "(nat \<times> claim_verdict) list"

definition verdict_of :: "string \<Rightarrow> dict \<Rightarrow> claim_verdict" where
  "verdict_of claim v = (let verdict = py_lower (py_str (dget_or v ''verdict'' (PStr ''unverifiable''))) in
     \<lparr>cv_claim = claim, cv_verdict = (if verdict \<in> set VALID_VERDICTS then verdict else ''unverifiable''),
      cv_reason = take 200 (py_str (dget_or v ''reason'' (PStr [])))\<rparr>)"

fun merge_verdicts :: "pyval list \<Rightarrow> string list \<Rightarrow> nat \<Rightarrow> verdict_map \<Rightarrow> verdict_map result" where
  "merge_verdicts [] claims offset into = Inr into"
| "merge_verdicts (PDict v # raw) claims offset into =
    (case as_int (dget v ''index'') of
       None \<Rightarrow> merge_verdicts raw claims offset into
     | Some idx \<Rightarrow>
        if idx < 0 \<or> idx \<ge> int (length claims) \<or> map_of into (offset + nat idx) \<noteq> None
        then merge_verdicts raw claims offset into
        else merge_verdicts raw claims offset (into @ [(offset + nat idx, verdict_of (claims ! nat idx) v)]))"
| "merge_verdicts (_ # raw) claims offset into = Inl attribute_error"

fun find_at :: "string \<Rightarrow> string \<Rightarrow> nat option" where
  "find_at s w = (if startswith s w then Some 0 else case s of [] \<Rightarrow> None | c # t \<Rightarrow> map_option Suc (find_at t w))"

declare find_at.simps [simp del]

definition insert_after :: "string \<Rightarrow> string \<Rightarrow> string \<Rightarrow> string option" where
  "insert_after marker text candidate = map_option (\<lambda>idx.
     let i = idx + length candidate in take i text @ CHR '' '' # marker @ drop i text) (find_at text candidate)"

definition annotate_claim :: "claim_verdict \<Rightarrow> string \<Rightarrow> string" where
  "annotate_claim v text = (case map_of VERDICT_MARKER (cv_verdict v) of None \<Rightarrow> text
     | Some marker \<Rightarrow> (case List.map_filter (insert_after marker text) [cv_claim v, cv_claim v @ ''.'', cv_claim v @ ''!'', cv_claim v @ ''?''] of
         text' # _ \<Rightarrow> text' | [] \<Rightarrow> text))"

definition annotate :: "string \<Rightarrow> claim_verdict list \<Rightarrow> string" where
  "annotate answer verdicts = fold annotate_claim verdicts answer"

definition count_verdict :: "string \<Rightarrow> claim_verdict list \<Rightarrow> nat" where
  "count_verdict verdict vs = length (filter (\<lambda>v. cv_verdict v = verdict) vs)"

definition assemble :: "string \<Rightarrow> string list \<Rightarrow> verdict_map \<Rightarrow> bool \<Rightarrow> grounding_result" where
  "assemble answer claims per_claim did_run =
    (let vs = List.map_filter (map_of per_claim) [0..<length claims] in
     \<lparr>gr_claims = vs, gr_annotated_answer = annotate answer vs, gr_ran = did_run, gr_supported_count = count_verdict ''supported'' vs,
      gr_unsupported_count = count_verdict ''unsupported'' vs, gr_uncertain_count = count_verdict ''uncertain'' vs,
      gr_unverifiable_count = length (filter (\<lambda>v. cv_verdict v \<notin> {''supported'', ''unsupported'', ''uncertain''}) vs)\<rparr>)"

definition no_verdict :: "string \<Rightarrow> claim_verdict" where
  "no_verdict claim = \<lparr>cv_claim = claim, cv_verdict = ''uncertain'', cv_reason = ''judge returned no verdict for this claim''\<rparr>"

definition fill_missing :: "string list \<Rightarrow> verdict_map \<Rightarrow> verdict_map" where
  "fill_missing claims per_claim = per_claim @ [(i, no_verdict (claims ! i)). i \<leftarrow> [0..<length claims], map_of per_claim i = None]"

definition skipped :: "string \<Rightarrow> grounding_result" where
  "skipped answer = \<lparr>gr_claims = [], gr_annotated_answer = answer, gr_ran = False, gr_supported_count = 0, gr_unsupported_count = 0,
     gr_uncertain_count = 0, gr_unverifiable_count = 0\<rparr>"

section \<open>The validator\<close>

text \<open>The judge, tried a second time when the first call fails.\<close>

definition judge_twice :: "string \<Rightarrow> 'm provider \<Rightarrow> string \<Rightarrow> string list \<Rightarrow> 'm \<Rightarrow> pyval list option \<times> 'm" where
  "judge_twice prompt p evidence claims m = (case judge prompt p evidence claims m of
     (Inr vs, m) \<Rightarrow> (Some vs, m)
   | (Inl e, m) \<Rightarrow> (case judge prompt p evidence claims m of (Inr vs, m) \<Rightarrow> (Some vs, m) | (Inl e, m) \<Rightarrow> (None, m)))"

text \<open>The one retry that may fill the claims the judge left out.\<close>

definition retry_missing :: "string \<Rightarrow> 'm provider \<Rightarrow> string \<Rightarrow> string list \<Rightarrow> verdict_map \<Rightarrow> 'm \<Rightarrow> verdict_map result \<times> 'm" where
  "retry_missing prompt p evidence claims per_claim m =
    (if \<forall>i < length claims. map_of per_claim i \<noteq> None then (Inr per_claim, m)
     else case judge prompt p evidence claims m of
         (Inl e, m) \<Rightarrow> (Inr per_claim, m)
       | (Inr vs, m) \<Rightarrow> (merge_verdicts vs claims 0 per_claim, m))"

definition validate ::
  "string \<Rightarrow> 'm provider \<Rightarrow> nat \<Rightarrow> string \<Rightarrow> dict list \<Rightarrow> dict list \<Rightarrow> dict list \<Rightarrow> 'm \<Rightarrow> grounding_result result \<times> 'm" where
  "validate prompt p max_claims answer tool_results retrieved_chunks tool_failures m =
    (case prepare max_claims answer tool_results retrieved_chunks tool_failures of
       Inl e \<Rightarrow> (Inl e, m)
     | Inr None \<Rightarrow> (Inr (skipped answer), m)
     | Inr (Some (claims, evidence)) \<Rightarrow>
        (case judge_twice prompt p evidence claims m of
           (None, m) \<Rightarrow> (Inr (skipped answer), m)
         | (Some vs, m) \<Rightarrow>
            (case merge_verdicts vs claims 0 [] of
               Inl e \<Rightarrow> (Inl e, m)
             | Inr per_claim \<Rightarrow>
                (case retry_missing prompt p evidence claims per_claim m of
                   (Inl e, m) \<Rightarrow> (Inl e, m)
                 | (Inr per_claim, m) \<Rightarrow> (Inr (assemble answer claims (fill_missing claims per_claim) True), m)))))"

text \<open>Incremental mode: \<open>as_completed n\<close> is the order in which the \<open>n\<close> batches come back.  The result lists the snapshots
  handed out, and the exception that ended the generator, if any.\<close>

definition batches :: "string list \<Rightarrow> (nat \<times> string list) list" where
  "batches claims = [(off, take INCREMENTAL_BATCH_SIZE (drop off claims)).
     off \<leftarrow> map ((*) INCREMENTAL_BATCH_SIZE) [0..<(length claims + INCREMENTAL_BATCH_SIZE - 1) div INCREMENTAL_BATCH_SIZE]]"

fun judge_batches ::
  "string \<Rightarrow> 'm provider \<Rightarrow> string \<Rightarrow> string \<Rightarrow> string list \<Rightarrow> (nat \<times> string list) list \<Rightarrow> verdict_map \<Rightarrow> grounding_result list \<Rightarrow> 'm
    \<Rightarrow> (grounding_result list \<times> exn option \<times> verdict_map) \<times> 'm" where
  "judge_batches prompt p evidence answer claims [] per_claim snaps m = ((snaps, None, per_claim), m)"
| "judge_batches prompt p evidence answer claims ((offset, part) # bs) per_claim snaps m =
    (case judge prompt p evidence part m of (r, m) \<Rightarrow>
      (case (case r of Inl e \<Rightarrow> Inr per_claim | Inr vs \<Rightarrow> merge_verdicts vs part offset per_claim) of
         Inl e \<Rightarrow> ((snaps, Some e, per_claim), m)
       | Inr per_claim \<Rightarrow> judge_batches prompt p evidence answer claims bs per_claim (snaps @ [assemble answer claims per_claim True]) m))"

definition validate_streaming ::
  "(nat \<Rightarrow> nat list) \<Rightarrow> string \<Rightarrow> 'm provider \<Rightarrow> nat \<Rightarrow> string \<Rightarrow> dict list \<Rightarrow> dict list \<Rightarrow> dict list \<Rightarrow> 'm
    \<Rightarrow> (grounding_result list \<times> exn option) \<times> 'm" where
  "validate_streaming as_completed prompt p max_claims answer tool_results retrieved_chunks tool_failures m =
    (case prepare max_claims answer tool_results retrieved_chunks tool_failures of
       Inl e \<Rightarrow> (([], Some e), m)
     | Inr None \<Rightarrow> (([], None), m)
     | Inr (Some (claims, evidence)) \<Rightarrow>
        (case judge_batches prompt p evidence answer claims (map ((!) (batches claims)) (as_completed (length (batches claims)))) [] [] m of
           ((snaps, Some e, per_claim), m) \<Rightarrow> ((snaps, Some e), m)
         | ((snaps, None, per_claim), m) \<Rightarrow> ((snaps @ [assemble answer claims (fill_missing claims per_claim) True], None), m)))"

section \<open>Annotation only adds\<close>

lemma subseq_insert: "subseq text (take i text @ x @ drop i text)"
proof -
  have "subseq (take i text @ drop i text) (take i text @ x @ drop i text)"
    by (rule list_emb_append_mono [OF subseq_order.refl]) (rule list_emb_append2, rule subseq_order.refl)
  then show ?thesis by simp
qed

lemma annotate_claim_adds: "subseq text (annotate_claim v text)"
proof -
  have i: "subseq text t" if "t \<in> set (List.map_filter (insert_after mk text) cs)" for t mk cs
    using that subseq_insert [of "text" _ "CHR '' '' # mk"] by (auto simp: insert_after_def map_filter_def Let_def)
  show ?thesis
  proof (cases "map_of VERDICT_MARKER (cv_verdict v)")
    case (Some mk)
    obtain cs where cs: "cs = [cv_claim v, cv_claim v @ ''.'', cv_claim v @ ''!'', cv_claim v @ ''?'']" by simp
    have "annotate_claim v text = (case List.map_filter (insert_after mk text) cs of t # _ \<Rightarrow> t | [] \<Rightarrow> text)"
      by (simp only: annotate_claim_def Some cs option.case)
    then show ?thesis using i [of _ mk cs] by (cases "List.map_filter (insert_after mk text) cs") simp_all
  qed (simp add: annotate_claim_def)
qed

lemma annotate_adds: "subseq answer (annotate answer verdicts)"
  unfolding annotate_def
proof (induction verdicts arbitrary: answer)
  case (Cons v vs)
  from annotate_claim_adds [of answer v] Cons [of "annotate_claim v answer"] show ?case by (simp add: subseq_order.trans)
qed simp

section \<open>Verdicts of claims\<close>

text \<open>Every entry is a valid verdict on the claim at its place.\<close>

definition judged :: "string list \<Rightarrow> verdict_map \<Rightarrow> bool" where
  "judged claims pm \<longleftrightarrow> (\<forall>i v. map_of pm i = Some v \<longrightarrow> i < length claims \<and> cv_claim v = claims ! i \<and> cv_verdict v \<in> set VALID_VERDICTS)"

definition part_at :: "string list \<Rightarrow> nat \<Rightarrow> string list \<Rightarrow> bool" where
  "part_at claims offset part \<longleftrightarrow> (\<forall>j < length part. offset + j < length claims \<and> part ! j = claims ! (offset + j))"

lemma verdict_of_valid: "cv_verdict (verdict_of claim v) \<in> set VALID_VERDICTS \<and> cv_claim (verdict_of claim v) = claim"
  by (simp add: verdict_of_def Let_def VALID_VERDICTS_def)

lemma map_of_snoc: "map_of (xs @ [(k, v)]) i = (case map_of xs i of Some w \<Rightarrow> Some w | None \<Rightarrow> if i = k then Some v else None)"
  by (simp add: map_add_def split: option.split)

lemma merge_verdicts_keeps:
  assumes "judged claims into" "part_at claims offset part"
  shows "merge_verdicts raw part offset into = Inr pm \<Longrightarrow> judged claims pm \<and> (\<forall>i v. map_of into i = Some v \<longrightarrow> map_of pm i = Some v)"
  using assms
proof (induction raw part offset into rule: merge_verdicts.induct)
  case (2 v raw part offset into)
  show ?case
  proof (cases "as_int (dget v ''index'')")
    case None
    with 2 show ?thesis by simp
  next
    case (Some idx)
    show ?thesis
    proof (cases "idx < 0 \<or> idx \<ge> int (length part) \<or> map_of into (offset + nat idx) \<noteq> None")
      case True
      with 2 Some show ?thesis by auto
    next
      case False
      let ?into = "into @ [(offset + nat idx, verdict_of (part ! nat idx) v)]"
      have "nat idx < length part" using False by auto
      with "2.prems" have n: "offset + nat idx < length claims" "part ! nat idx = claims ! (offset + nat idx)" unfolding part_at_def by auto
      have j: "judged claims ?into"
        using n "2.prems" verdict_of_valid unfolding judged_def map_of_snoc by (auto split: option.splits if_splits)
      have k: "merge_verdicts raw part offset ?into = Inr pm" using "2.prems" Some False by auto
      have "judged claims pm \<and> (\<forall>i v. map_of ?into i = Some v \<longrightarrow> map_of pm i = Some v)"
        using "2.IH"(3) [OF Some False] j k "2.prems" by blast
      then show ?thesis by (simp add: map_of_snoc)
    qed
  qed
qed auto

lemma map_of_indexed: "map_of [(i, f i). i \<leftarrow> ks, P i] j = (if j \<in> set ks \<and> P j then Some (f j) else None)"
  by (induction ks) auto

lemma fill_missing_map:
  "map_of (fill_missing claims pm) i = (case map_of pm i of Some v \<Rightarrow> Some v | None \<Rightarrow> if i < length claims then Some (no_verdict (claims ! i)) else None)"
  using map_of_indexed [where f = "\<lambda>i. no_verdict (claims ! i)" and P = "\<lambda>i. map_of pm i = None" and ks = "[0..<length claims]" and j = i]
  by (simp add: fill_missing_def map_add_def split: option.split)

lemma assemble_total:
  assumes "\<And>i. i < length claims \<Longrightarrow> map_of pm i = Some (f i)"
  shows "assemble answer claims pm b = assemble answer claims (map (\<lambda>i. (i, f i)) [0..<length claims]) b"
    and "gr_claims (assemble answer claims pm b) = map f [0..<length claims]"
proof -
  have m: "List.map_filter (map_of q) [0..<length claims] = map f [0..<length claims]" if "\<And>i. i < length claims \<Longrightarrow> map_of q i = Some (f i)" for q
    using that by (auto simp: map_filter_def intro!: map_cong filter_True)
  have "map_of (map (\<lambda>i. (i, f i)) [0..<length claims]) i = Some (f i)" if "i < length claims" for i
    using that by (simp add: map_of_map_restrict)
  then show "assemble answer claims pm b = assemble answer claims (map (\<lambda>i. (i, f i)) [0..<length claims]) b"
    unfolding assemble_def using m [of pm] m [of "map (\<lambda>i. (i, f i)) [0..<length claims]"] assms by simp
  show "gr_claims (assemble answer claims pm b) = map f [0..<length claims]"
    using m [of pm] assms by (simp add: assemble_def Let_def)
qed

text \<open>What a completed validation shows.\<close>

definition labelled :: "string \<Rightarrow> string list \<Rightarrow> grounding_result \<Rightarrow> bool" where
  "labelled answer claims r \<longleftrightarrow> gr_ran r \<and> map cv_claim (gr_claims r) = claims \<and> (\<forall>v \<in> set (gr_claims r). cv_verdict v \<in> set VALID_VERDICTS)
     \<and> gr_supported_count r + gr_unsupported_count r + gr_uncertain_count r + gr_unverifiable_count r = length claims
     \<and> gr_annotated_answer r = annotate answer (gr_claims r)"

lemma counts_add_up:
  "gr_supported_count (assemble answer claims pm b) + gr_unsupported_count (assemble answer claims pm b) + gr_uncertain_count (assemble answer claims pm b)
     + gr_unverifiable_count (assemble answer claims pm b) = length (gr_claims (assemble answer claims pm b))"
proof -
  have "count_verdict ''supported'' vs + count_verdict ''unsupported'' vs + count_verdict ''uncertain'' vs
      + length (filter (\<lambda>v. cv_verdict v \<notin> {''supported'', ''unsupported'', ''uncertain''}) vs) = length vs" for vs
    by (induction vs) (auto simp: count_verdict_def)
  then show ?thesis by (simp add: assemble_def Let_def)
qed

lemma assemble_labelled:
  assumes "judged claims pm"
  shows "labelled answer claims (assemble answer claims (fill_missing claims pm) True)"
proof -
  let ?pm = "fill_missing claims pm"
  define f where "f i = the (map_of ?pm i)" for i
  have f: "map_of ?pm i = Some (f i) \<and> cv_claim (f i) = claims ! i \<and> cv_verdict (f i) \<in> set VALID_VERDICTS" if "i < length claims" for i
    using assms that unfolding f_def judged_def by (auto simp: fill_missing_map no_verdict_def VALID_VERDICTS_def split: option.split)
  let ?r = "assemble answer claims ?pm True"
  have c: "gr_claims ?r = map f [0..<length claims]" using assemble_total(2) f by blast
  have "map cv_claim (gr_claims ?r) = claims" unfolding c using f by (auto intro: nth_equalityI)
  moreover have "\<forall>v \<in> set (gr_claims ?r). cv_verdict v \<in> set VALID_VERDICTS" unfolding c using f by auto
  moreover have "length (gr_claims ?r) = length claims" by (simp add: c)
  moreover have "gr_annotated_answer ?r = annotate answer (gr_claims ?r)" "gr_ran ?r" by (simp_all add: assemble_def Let_def)
  ultimately show ?thesis unfolding labelled_def using counts_add_up [of answer claims ?pm True] by simp
qed

lemma judged_Nil [simp]: "judged claims []"
  by (simp add: judged_def)

lemma part_at_self [simp]: "part_at claims 0 claims"
  by (simp add: part_at_def)

lemma prepare_Some: "prepare n answer trs chunks tfs = Inr (Some (claims, evidence)) \<Longrightarrow> claims = take n (split_claims answer)"
  unfolding prepare_def rbind_def by (auto simp: Let_def split: if_splits sum.splits)

lemma retry_missing_judged:
  "retry_missing prompt p evidence claims pm m = (Inr pm', m') \<Longrightarrow> judged claims pm \<Longrightarrow> judged claims pm'"
  unfolding retry_missing_def using merge_verdicts_keeps [of claims pm 0 claims] by (auto split: if_splits prod.splits sum.splits)

section \<open>Batches\<close>

lemma set_map_nth: "set ks \<subseteq> {..<length xs} \<Longrightarrow> set (map ((!) xs) ks) \<subseteq> set xs"
  using nth_mem by fastforce

lemma set_map_nth_eq: "set ks = {..<length xs} \<Longrightarrow> set (map ((!) xs) ks) = set xs"
  using nth_image [of "length xs" xs] by (simp add: atLeast0LessThan)

lemma batches_part: "(offset, part) \<in> set (batches claims) \<Longrightarrow> part_at claims offset part"
  unfolding batches_def part_at_def by auto

lemma batches_cover:
  assumes "i < length claims"
  shows "\<exists>offset part. (offset, part) \<in> set (batches claims) \<and> offset \<le> i \<and> i < offset + length part"
proof -
  let ?o = "4 * (i div 4)"
  have "i div 4 < (length claims + 3) div 4" using assms by auto
  then have "(?o, take 4 (drop ?o claims)) \<in> set (batches claims)" unfolding batches_def INCREMENTAL_BATCH_SIZE_def by auto
  moreover have "?o \<le> i" "i < ?o + 4" by auto
  ultimately show ?thesis using assms by (intro exI [of _ ?o] exI [of _ "take 4 (drop ?o claims)"]) auto
qed

lemma judge_batches_judged:
  assumes "\<forall>(offset, part) \<in> set bs. part_at claims offset part" "judged claims pm"
    "judge_batches prompt p evidence answer claims bs pm snaps m = ((snaps', err, pm'), m')"
  shows "judged claims pm' \<and> (\<forall>i v. map_of pm i = Some v \<longrightarrow> map_of pm' i = Some v)"
  using assms
proof (induction bs arbitrary: pm snaps m)
  case (Cons b bs)
  obtain offset part where b: "b = (offset, part)" by (cases b)
  obtain r m1 where r: "judge prompt p evidence part m = (r, m1)" by (metis surj_pair)
  have part: "part_at claims offset part" using Cons.prems(1) b by auto
  let ?merged = "case r of Inl e \<Rightarrow> Inr pm | Inr vs \<Rightarrow> merge_verdicts vs part offset pm"
  show ?case
  proof (cases ?merged)
    case (Inl e)
    with Cons.prems b r show ?thesis by auto
  next
    case (Inr pm1)
    then have pm1: "judged claims pm1 \<and> (\<forall>i v. map_of pm i = Some v \<longrightarrow> map_of pm1 i = Some v)"
      using merge_verdicts_keeps [OF Cons.prems(2) part] Cons.prems(2) by (auto split: sum.splits)
    have "judge_batches prompt p evidence answer claims bs pm1 (snaps @ [assemble answer claims pm1 True]) m1 = ((snaps', err, pm'), m')"
      using Cons.prems(3) b r Inr by simp
    from Cons.IH [OF _ _ this] Cons.prems(1) pm1 show ?thesis by auto
  qed
qed simp

text \<open>A judge that answers for each claim, and by the claim alone.\<close>

definition verdict_entry :: "(string \<Rightarrow> string \<times> string) \<Rightarrow> nat \<Rightarrow> string \<Rightarrow> dict" where
  "verdict_entry f i claim = [(''index'', PInt (int i)), (''verdict'', PStr (fst (f claim))), (''reason'', PStr (snd (f claim)))]"

definition steady_judge :: "(string \<Rightarrow> string \<times> string) \<Rightarrow> string \<Rightarrow> 'm provider \<Rightarrow> string list \<Rightarrow> bool" where
  "steady_judge f prompt p claims \<longleftrightarrow> (\<forall>evidence part m. part = claims \<or> part \<in> snd ` set (batches claims) \<longrightarrow>
     (\<exists>m'. judge prompt p evidence part m = (Inr (map (\<lambda>i. PDict (verdict_entry f i (part ! i))) [0..<length part]), m')))"

definition by_claim :: "(string \<Rightarrow> string \<times> string) \<Rightarrow> string \<Rightarrow> claim_verdict" where
  "by_claim f claim = verdict_of claim (verdict_entry f 0 claim)"

lemma verdict_of_entry [simp]: "verdict_of claim (verdict_entry f i claim) = by_claim f claim"
  by (simp add: by_claim_def verdict_of_def verdict_entry_def dget_or_def)

lemma merge_entries:
  assumes "set js \<subseteq> {..<length part}"
  shows "\<exists>pm'. merge_verdicts (map (\<lambda>j. PDict (verdict_entry f j (part ! j))) js) part offset pm = Inr pm'
    \<and> (\<forall>i. map_of pm' i = (case map_of pm i of Some v \<Rightarrow> Some v
         | None \<Rightarrow> if i \<in> (+) offset ` set js then Some (by_claim f (part ! (i - offset))) else None))"
  using assms
proof (induction js arbitrary: pm)
  case (Cons j js)
  have j: "as_int (dget (verdict_entry f j (part ! j)) ''index'') = Some (int j)" "j < length part"
    using Cons.prems by (simp_all add: verdict_entry_def dget_def)
  show ?case
  proof (cases "map_of pm (offset + j)")
    case None
    have "set js \<subseteq> {..<length part}" using Cons.prems by simp
    from Cons.IH [OF this, of "pm @ [(offset + j, by_claim f (part ! j))]"] obtain pm' where pm':
        "merge_verdicts (map (\<lambda>j. PDict (verdict_entry f j (part ! j))) js) part offset (pm @ [(offset + j, by_claim f (part ! j))]) = Inr pm'"
        "\<forall>i. map_of pm' i = (case map_of (pm @ [(offset + j, by_claim f (part ! j))]) i of Some v \<Rightarrow> Some v
          | None \<Rightarrow> if i \<in> (+) offset ` set js then Some (by_claim f (part ! (i - offset))) else None)" by blast
    have "map_of pm' i = (case map_of pm i of Some v \<Rightarrow> Some v
          | None \<Rightarrow> if i \<in> (+) offset ` set (j # js) then Some (by_claim f (part ! (i - offset))) else None)" for i
      using pm'(2) [rule_format, of i] None by (cases "map_of pm i") (auto simp: map_add_def)
    moreover have "merge_verdicts (map (\<lambda>j. PDict (verdict_entry f j (part ! j))) (j # js)) part offset pm = Inr pm'"
      using j None pm'(1) by simp
    ultimately show ?thesis by blast
  next
    case (Some v)
    have "set js \<subseteq> {..<length part}" using Cons.prems by simp
    from Cons.IH [OF this, of pm] obtain pm' where pm':
        "merge_verdicts (map (\<lambda>j. PDict (verdict_entry f j (part ! j))) js) part offset pm = Inr pm'"
        "\<forall>i. map_of pm' i = (case map_of pm i of Some v \<Rightarrow> Some v
          | None \<Rightarrow> if i \<in> (+) offset ` set js then Some (by_claim f (part ! (i - offset))) else None)" by blast
    have "map_of pm' i = (case map_of pm i of Some v \<Rightarrow> Some v
          | None \<Rightarrow> if i \<in> (+) offset ` set (j # js) then Some (by_claim f (part ! (i - offset))) else None)" for i
      using pm'(2) [rule_format, of i] Some by (cases "map_of pm i") auto
    moreover have "merge_verdicts (map (\<lambda>j. PDict (verdict_entry f j (part ! j))) (j # js)) part offset pm = Inr pm'"
      using j Some pm'(1) by simp
    ultimately show ?thesis by blast
  qed
qed (simp split: option.split)

lemma steady_batches:
  assumes judge: "steady_judge f prompt p claims" and bs: "set bs \<subseteq> set (batches claims)"
    and pm: "\<forall>i v. map_of pm i = Some v \<longrightarrow> v = by_claim f (claims ! i)"
  shows "\<exists>snaps' pm' m'. judge_batches prompt p evidence answer claims bs pm snaps m = ((snaps', None, pm'), m')
    \<and> (\<forall>i v. map_of pm' i = Some v \<longrightarrow> v = by_claim f (claims ! i))
    \<and> (\<forall>i. map_of pm i \<noteq> None \<or> (\<exists>(offset, part) \<in> set bs. offset \<le> i \<and> i < offset + length part) \<longrightarrow> map_of pm' i \<noteq> None)"
  using bs pm
proof (induction bs arbitrary: pm snaps m)
  case (Cons b bs)
  obtain offset part where b: "b = (offset, part)" by (cases b)
  have part: "part_at claims offset part" "part \<in> snd ` set (batches claims)" using Cons.prems(1) batches_part b by force+
  from judge part(2) obtain m1 where j: "judge prompt p evidence part m = (Inr (map (\<lambda>i. PDict (verdict_entry f i (part ! i))) [0..<length part]), m1)"
    unfolding steady_judge_def by blast
  have "set [0..<length part] \<subseteq> {..<length part}" by auto
  from merge_entries [OF this, of f offset pm] obtain pm1 where
    pm1: "merge_verdicts (map (\<lambda>i. PDict (verdict_entry f i (part ! i))) [0..<length part]) part offset pm = Inr pm1"
      "\<forall>i. map_of pm1 i = (case map_of pm i of Some v \<Rightarrow> Some v
         | None \<Rightarrow> if i \<in> (+) offset ` set [0..<length part] then Some (by_claim f (part ! (i - offset))) else None)" by blast
  have keep: "\<forall>i v. map_of pm1 i = Some v \<longrightarrow> v = by_claim f (claims ! i)"
    using pm1(2) Cons.prems(2) part(1) unfolding part_at_def by (auto split: option.splits if_splits)
  have new: "map_of pm1 i \<noteq> None" if "map_of pm i \<noteq> None \<or> offset \<le> i \<and> i < offset + length part" for i
    using pm1(2) [rule_format, of i] that by (cases "map_of pm i") (auto simp: image_iff intro: bexI [of _ "i - offset"])
  from Cons.IH [OF _ keep, of "snaps @ [assemble answer claims pm1 True]" m1] Cons.prems(1) obtain snaps' pm' m' where
    rec: "judge_batches prompt p evidence answer claims bs pm1 (snaps @ [assemble answer claims pm1 True]) m1 = ((snaps', None, pm'), m')"
      "\<forall>i v. map_of pm' i = Some v \<longrightarrow> v = by_claim f (claims ! i)"
      "\<forall>i. map_of pm1 i \<noteq> None \<or> (\<exists>(offset, part) \<in> set bs. offset \<le> i \<and> i < offset + length part) \<longrightarrow> map_of pm' i \<noteq> None" by auto
  show ?case using rec new by (auto simp: b j pm1(1))
qed auto

section \<open>Properties\<close>

lemma validation_labels:
  shows "validate prompt p n answer trs chunks tfs m = (Inr r, m') \<Longrightarrow> subseq answer (gr_annotated_answer r)
      \<and> (if gr_ran r then labelled answer (take n (split_claims answer)) r else r = skipped answer)"
    and "validate_streaming ac prompt p n answer trs chunks tfs m = ((snaps @ [r], None), m') \<Longrightarrow>
      set (ac (length (batches (take n (split_claims answer))))) \<subseteq> {..<length (batches (take n (split_claims answer)))} \<Longrightarrow>
      subseq answer (gr_annotated_answer r) \<and> labelled answer (take n (split_claims answer)) r"
proof -
  have lab: "subseq answer (gr_annotated_answer q)" if "labelled answer claims q" for q claims
    using that annotate_adds by (simp add: labelled_def)
  show "subseq answer (gr_annotated_answer r) \<and> (if gr_ran r then labelled answer (take n (split_claims answer)) r else r = skipped answer)"
    if v: "validate prompt p n answer trs chunks tfs m = (Inr r, m')"
  proof -
    consider "r = skipped answer"
      | claims pm where "claims = take n (split_claims answer)" "judged claims pm" "r = assemble answer claims (fill_missing claims pm) True"
      using v unfolding validate_def
      by (auto dest!: prepare_Some split: sum.splits option.splits prod.splits)
        (metis judged_Nil merge_verdicts_keeps part_at_self retry_missing_judged)
    then show ?thesis
    proof cases
      case 1
      then show ?thesis by (simp add: skipped_def)
    next
      case 2
      have l: "labelled answer (take n (split_claims answer)) r" using assemble_labelled [OF 2(2), of answer] unfolding 2(1,3) .
      then have "gr_ran r" by (simp only: labelled_def)
      with l lab [OF l] show ?thesis by simp
    qed
  qed
  assume s: "validate_streaming ac prompt p n answer trs chunks tfs m = ((snaps @ [r], None), m')"
    and ac: "set (ac (length (batches (take n (split_claims answer))))) \<subseteq> {..<length (batches (take n (split_claims answer)))}"
  let ?claims = "take n (split_claims answer)"
  let ?bs = "map ((!) (batches ?claims)) (ac (length (batches ?claims)))"
  obtain evidence sn pm m1 where j: "judge_batches prompt p evidence answer ?claims ?bs [] [] m = ((sn, None, pm), m1)"
      "r = assemble answer ?claims (fill_missing ?claims pm) True"
    using s unfolding validate_streaming_def
    by (auto dest!: prepare_Some split: sum.splits option.splits prod.splits)
  have "\<forall>(offset, part) \<in> set ?bs. part_at ?claims offset part" using set_map_nth [OF ac] batches_part by blast
  from judge_batches_judged [OF this judged_Nil j(1)] have "judged ?claims pm" by simp
  from assemble_labelled [OF this, of answer] lab show "subseq answer (gr_annotated_answer r) \<and> labelled answer ?claims r" unfolding j(2) by blast
qed



text \<open>A judge that always says the same.\<close>

definition small_capability :: capability_descriptor where
  "small_capability = \<lparr>cd_model_id = ''m'', cd_provider = ''p'', cd_context_window = 100, cd_native_tool_calling = FullCalling, cd_reasoning_tier = BasicTier,
     cd_structured_output = Unreliable, cd_max_safe_autonomous_steps = 4, cd_recommended_strategy = Frontier, cd_license_class = None\<rparr>"

definition one_voice :: "string \<Rightarrow> unit provider" where
  "one_voice reply = \<lparr>pv_capability = small_capability, pv_effective_context_window = None,
     pv_chat = (\<lambda>rq m. (Inr \<lparr>rsp_content = reply, rsp_tool_calls = [], rsp_input_tokens = 1, rsp_output_tokens = 1, rsp_stop_reason = ''stop'',
       rsp_model_id = ''m''\<rparr>, m)), pv_chat_stream = None\<rparr>"

definition yes_reply :: string where
  "yes_reply = ''[{'' @ json_str ''index'' @ '': 0, '' @ json_str ''verdict'' @ '': '' @ json_str ''supported'' @ '', '' @ json_str ''reason'' @ '': '' @ json_str [] @ ''}]''"

lemma yes_reply_parses: "parse_verdicts yes_reply = Inr [PDict (verdict_entry (\<lambda>_. (''supported'', [])) 0 c)]"
proof -
  have "parse_verdicts yes_reply = Inr [PDict [(''index'', PInt 0), (''verdict'', PStr ''supported''), (''reason'', PStr [])]]"
    by code_simp
  then show ?thesis by (simp add: verdict_entry_def)
qed

lemma one_claim: "split_claims ''X is up.'' = [''X is up.'']"
  by code_simp

lemma one_claim_prepared:
  "prepare 12 ''X is up.'' [[(''name'', PStr ''t''), (''content'', PStr ''up'')]] [] [] \<noteq> Inr None
    \<and> \<not> isl (prepare 12 ''X is up.'' [[(''name'', PStr ''t''), (''content'', PStr ''up'')]] [] [])"
  unfolding prepare_def one_claim by code_simp

abbreviation up_evidence :: "dict list" where
  "up_evidence \<equiv> [[(''name'', PStr ''t''), (''content'', PStr ''up'')]]"

lemma yes_validates:
  "validate [] (one_voice yes_reply) 12 ''X is up.'' up_evidence [] [] () =
     (Inr \<lparr>gr_claims = [\<lparr>cv_claim = ''X is up.'', cv_verdict = ''supported'', cv_reason = []\<rparr>], gr_annotated_answer = ''X is up. [verified]'', gr_ran = True,
       gr_supported_count = 1, gr_unsupported_count = 0, gr_uncertain_count = 0, gr_unverifiable_count = 0\<rparr>, ())"
  by code_simp

lemma yes_steady: "steady_judge (\<lambda>_. (''supported'', [])) [] (one_voice yes_reply) (take 12 (split_claims ''X is up.''))"
proof -
  have b: "batches [''X is up.''] = [(0, [''X is up.''])]" by code_simp
  show ?thesis
    unfolding one_claim steady_judge_def using yes_reply_parses [of "''X is up.''"] by (auto simp: b judge_def one_voice_def)
qed



section \<open>When the validator raises\<close>

text \<open>A judge whose lists hold objects only, and knowledge hits of the usual shape, let the validator return.\<close>

lemma merge_objects: "\<forall>v \<in> set raw. as_dict v \<noteq> None \<Longrightarrow> \<exists>pm'. merge_verdicts raw part offset pm = Inr pm'"
  by (induction raw part offset pm rule: merge_verdicts.induct) (auto split: option.split)

definition plain_chunk :: "dict \<Rightarrow> bool" where
  "plain_chunk chunk \<longleftrightarrow> as_dict (dget_or chunk ''chunk_metadata'' (PDict [])) \<noteq> None \<and> as_str (dget_or chunk ''content'' (PStr [])) \<noteq> None"

lemma knowledge_sections_plain: "\<forall>chunk \<in> set chunks. plain_chunk chunk \<Longrightarrow> \<exists>ts. knowledge_sections i chunks = Inr ts"
proof (induction chunks arbitrary: i)
  case (Cons chunk chunks)
  then obtain meta t where "dget_or chunk ''chunk_metadata'' (PDict []) = PDict meta" "dget_or chunk ''content'' (PStr []) = PStr t"
    unfolding plain_chunk_def by auto
  moreover obtain ts where "knowledge_sections (i + 1) chunks = Inr ts" using Cons by auto
  ultimately show ?case by (simp add: knowledge_section_def rbind_def)
qed simp

lemma retry_missing_returns:
  assumes "\<And>m vs m'. judge prompt p evidence claims m = (Inr vs, m') \<Longrightarrow> \<forall>v \<in> set vs. as_dict v \<noteq> None"
  shows "\<exists>pm' m2. retry_missing prompt p evidence claims pm m = (Inr pm', m2)"
proof -
  obtain r m2 where r: "judge prompt p evidence claims m = (r, m2)" by (metis surj_pair)
  show ?thesis
  proof (cases r)
    case (Inr vs)
    with r assms obtain pm' where "merge_verdicts vs claims 0 pm = Inr pm'" using merge_objects by blast
    with r Inr show ?thesis by (simp add: retry_missing_def)
  qed (simp add: retry_missing_def r)
qed

lemma validate_returns:
  assumes "\<And>evidence claims m vs m'. judge prompt p evidence claims m = (Inr vs, m') \<Longrightarrow> \<forall>v \<in> set vs. as_dict v \<noteq> None"
    and "\<forall>chunk \<in> set chunks. plain_chunk chunk"
  shows "\<exists>r m'. validate prompt p n answer trs chunks tfs m = (Inr r, m')"
proof -
  obtain ts where "knowledge_sections 1 chunks = Inr ts" using knowledge_sections_plain [OF assms(2)] by blast
  then have "\<exists>pr. prepare n answer trs chunks tfs = Inr pr" by (simp add: prepare_def build_evidence_def rbind_def Let_def)
  then obtain pr where pr: "prepare n answer trs chunks tfs = Inr pr" by blast
  show ?thesis
  proof (cases pr)
    case None
    with pr show ?thesis by (simp add: validate_def)
  next
    case (Some ce)
    obtain claims evidence where ce: "ce = (claims, evidence)" by (cases ce)
    obtain j m1 where j: "judge_twice prompt p evidence claims m = (j, m1)" by (metis surj_pair)
    show ?thesis
    proof (cases j)
      case None
      with pr Some ce j show ?thesis by (simp add: validate_def)
    next
      case vs: (Some vs)
      have "\<forall>v \<in> set vs. as_dict v \<noteq> None"
        using j assms(1) unfolding vs judge_twice_def by (auto split: prod.splits sum.splits)
      then obtain pm where pm: "merge_verdicts vs claims 0 [] = Inr pm" using merge_objects by blast
      obtain pm' m2 where "retry_missing prompt p evidence claims pm m1 = (Inr pm', m2)" using retry_missing_returns [of prompt p evidence claims pm m1] assms(1) by blast
      with pr Some ce j vs pm show ?thesis by (simp add: validate_def)
    qed
  qed
qed

text \<open>But a list of anything else is not a parse failure, and the validator raises although it is documented to return always.\<close>

lemma judge_of_numbers_raises: "fst (validate [] (one_voice ''[1]'') 12 ''X is up.'' up_evidence [] [] ()) = Inl attribute_error"
  by code_simp

text \<open>Two equal sentences with different verdicts: both marks go to the first.\<close>

lemma equal_claims_share_a_mark:
  "annotate ''Up. Up.'' [\<lparr>cv_claim = ''Up.'', cv_verdict = ''supported'', cv_reason = []\<rparr>, \<lparr>cv_claim = ''Up.'', cv_verdict = ''unsupported'', cv_reason = []\<rparr>]
     = ''Up. [unsupported] [verified] Up.''"
  by code_simp

end
