(* ===== verification/Agent_Loop.thy ===== *)
theory Agent_Loop
  imports Grounding Py_Values
begin

text \<open>
  The plan-act-observe loop (\<open>agent/loop.py\<close>, \<open>agent/events.py\<close>).

  The loop is given a provider, a strategy, the tool registries and the caller's context.  Its state is
  the database, the rate limiter, the world of the tools, the world of the models and the events handed
  to the callback (\<open>ac_streaming\<close> says whether there is one).  The grounding validator is an argument,
  which \<open>grounding_validator\<close> instantiates.  Texts that other components produce, the message of a provider's quota and
  a traceback, are arguments too, as are the milliseconds each tool call takes.  A citation stays the
  dict its tool produced, taken to pass the \<open>Citation\<close> model.

  One turn of the \<open>while\<close> is \<open>agent_step\<close>; the loop itself is a partial function, so that running for ever is
  the value \<open>None\<close>.
\<close>

section \<open>Data\<close>

record loop_event =
  le_type :: string
  le_data :: dict

record agent_answer =
  aa_content :: string
  aa_citations :: "dict list"
  aa_step_count :: nat
  aa_tool_call_count :: nat
  aa_input_tokens :: int
  aa_output_tokens :: int
  aa_stop_reason :: string
  aa_loop_id :: string
  aa_grounding_supported :: "nat option"
  aa_grounding_unsupported :: "nat option"
  aa_grounding_uncertain :: "nat option"
  aa_grounding_unverifiable :: "nat option"

record 'm grounding =
  gv_validate :: "string \<Rightarrow> dict list \<Rightarrow> dict list \<Rightarrow> dict list \<Rightarrow> 'm \<Rightarrow> grounding_result result \<times> 'm"
  gv_validate_streaming :: "string \<Rightarrow> dict list \<Rightarrow> dict list \<Rightarrow> dict list \<Rightarrow> 'm \<Rightarrow> (grounding_result list \<times> exn option) \<times> 'm"

text \<open>The validator of \<open>Grounding\<close>; the order in which its batches complete is an argument.\<close>

definition grounding_validator :: "(nat \<Rightarrow> nat list) \<Rightarrow> string \<Rightarrow> 'm provider \<Rightarrow> nat \<Rightarrow> 'm grounding" where
  "grounding_validator as_completed prompt p max_claims =
    \<lparr>gv_validate = validate prompt p max_claims, gv_validate_streaming = validate_streaming as_completed prompt p max_claims\<rparr>"

record ('d, 'x, 'm) agent_config =
  ac_provider :: "'m provider"
  ac_strategy :: strategy
  ac_step_breaker :: int
  ac_context_fit_threshold :: rat
  ac_schemas :: schema_registry
  ac_runners :: "('d \<times> 'x) runner_registry"
  ac_ctx :: organization_context
  ac_streaming :: bool
  ac_validator :: "'m grounding option"
  ac_grounding_mode :: string
  ac_quota_message :: "exn \<Rightarrow> string option"
  ac_traceback :: "exn \<Rightarrow> string"
  ac_elapsed :: "nat \<Rightarrow> int"

record ('d, 'x, 'm) agent_state =
  as_db :: 'd
  as_rate_limiter :: rate_limiter
  as_tools :: 'x
  as_model :: 'm
  as_events :: "loop_event list"

record agent_vars =
  av_messages :: "message list"
  av_citations :: "dict list"
  av_tool_results :: "dict list"
  av_retrieved_chunks :: "dict list"
  av_tool_failures :: "dict list"
  av_input_tokens :: int
  av_output_tokens :: int
  av_tool_call_count :: nat
  av_tool_signatures :: "(string \<times> nat) list"
  av_redundant_streak :: nat

definition SYNTHESIS_NUDGE :: string where
  "SYNTHESIS_NUDGE = ''You already have all the information needed from the tool results above. Now write the final answer for the user in clear prose, based only on those results. Do not call any tools.''"

definition EMPTY_ANSWER_FALLBACK :: string where
  "EMPTY_ANSWER_FALLBACK = ''I gathered the data but wasn't able to compose a summary on this attempt. Please ask again or rephrase your question.''"

definition REDUNDANT_TOOL_NUDGE :: string where
  "REDUNDANT_TOOL_NUDGE = ''You have already run these exact queries and their results are in the transcript above - running them again returns the same data. Stop searching and answer the user's question now using the information you already have. If a specific detail is genuinely missing, say what it is instead of repeating a search.''"

definition MAX_REDUNDANT_STREAK :: nat where "MAX_REDUNDANT_STREAK = 2"

definition CHECKPOINT_NUDGE :: string where
  "CHECKPOINT_NUDGE = ''Checkpoint - you have taken several investigation steps. Take stock: if the evidence gathered above already answers the user's question, write the final answer now. If something specific is still missing, name it to yourself and continue - focused on retrieving exactly that.''"

definition FORCED_SYNTHESIS_NUDGE :: string where
  "FORCED_SYNTHESIS_NUDGE = ''Stop investigating now and write the best possible final answer from the evidence already gathered above. Be direct and complete about what the evidence supports; if something the user asked for could not be established, say plainly what is missing and what you would check next. Do not call any tools.''"

section \<open>Helpers\<close>

definition emit :: "('d, 'x, 'm) agent_config \<Rightarrow> string \<Rightarrow> dict \<Rightarrow> ('d, 'x, 'm) agent_state \<Rightarrow> ('d, 'x, 'm) agent_state" where
  "emit cfg event_type data s = (if ac_streaming cfg then s\<lparr>as_events := as_events s @ [\<lparr>le_type = event_type, le_data = data\<rparr>]\<rparr> else s)"

definition audit :: "('z audit_db_scheme, 'x, 'm) agent_config \<Rightarrow> string \<Rightarrow> dict \<Rightarrow> ('z audit_db_scheme, 'x, 'm) agent_state \<Rightarrow> ('z audit_db_scheme, 'x, 'm) agent_state" where
  "audit cfg event_type data s = s\<lparr>as_db := snd (write_event_from_context (as_db s) (ac_ctx cfg) event_type (Some data) None None)\<rparr>"

definition nat_or_none :: "nat option \<Rightarrow> pyval" where
  "nat_or_none n = (case n of Some k \<Rightarrow> PInt (int k) | None \<Rightarrow> PNone)"

definition answer_dump :: "agent_answer \<Rightarrow> dict" where
  "answer_dump a = [(''content'', PStr (aa_content a)), (''citations'', PList (map PDict (aa_citations a))),
     (''step_count'', PInt (int (aa_step_count a))), (''tool_call_count'', PInt (int (aa_tool_call_count a))),
     (''input_tokens'', PInt (aa_input_tokens a)), (''output_tokens'', PInt (aa_output_tokens a)),
     (''stop_reason'', PStr (aa_stop_reason a)), (''loop_id'', PStr (aa_loop_id a)),
     (''grounding_supported'', nat_or_none (aa_grounding_supported a)), (''grounding_unsupported'', nat_or_none (aa_grounding_unsupported a)),
     (''grounding_uncertain'', nat_or_none (aa_grounding_uncertain a)), (''grounding_unverifiable'', nat_or_none (aa_grounding_unverifiable a))]"

definition model_failure_message :: "(exn \<Rightarrow> string option) \<Rightarrow> exn \<Rightarrow> string" where
  "model_failure_message quota_message e =
    (let intro = ''Wolf couldn't complete this request - '' in
     case e of
       Wolf c m \<Rightarrow>
         (case (if c = ModelProviderRateLimitError \<or> c = ModelProviderPaymentRequiredError then quota_message e else None) of
            Some text \<Rightarrow> intro @ text
          | None \<Rightarrow>
             if c = ModelProviderRateLimitError
             then intro @ ''the model provider is rate-limited right now (HTTP 429). This is common on free-tier models; please try again in a moment, or switch to a local model.''
             else if c = ModelProviderPaymentRequiredError
             then intro @ ''the model provider requires payment (HTTP 402), usually a depleted credit balance. Add credits or switch this organization back to a local model.''
             else let msg = py_strip m; short = (if length msg > 200 then take 200 msg @ ''...'' else msg);
                      tail = (if short \<noteq> [] then '' ('' @ short @ '')'' else [])
               in intro @ ''the model provider returned an error'' @ tail @ ''. Please try again; if it persists, check the model configuration.'')
     | _ \<Rightarrow> intro @ ''the model call failed ('' @ exn_class e @ ''). Please try again.'')"

definition summarize_dispatch_result :: "tool_dispatch_result \<Rightarrow> dict" where
  "summarize_dispatch_result r =
    [(''tool_name'', PStr (td_tool_name r)), (''tool_call_id'', PStr (td_tool_call_id r)), (''success'', PBool (td_success r)),
     (''elapsed_ms'', PInt (td_elapsed_ms r))]
    @ (case td_error r of Some e \<Rightarrow> if e \<noteq> [] then [(''error'', PStr e)] else [] | None \<Rightarrow> [])
    @ (case td_result r of None \<Rightarrow> [] | Some d \<Rightarrow>
        (case dget d ''citation'' of PDict c \<Rightarrow> [(''citation'', PDict c)] | _ \<Rightarrow> [])
        @ (let counts = [(k @ ''_count'', PInt (int (length xs))). (k, PList xs) \<leftarrow> d]
           in if counts \<noteq> [] then [(''counts'', PDict counts)] else []))"

text \<open>\<open>json.dumps(\<dots>, sort_keys=True)\<close> with the default separators.\<close>

definition signature :: "tool_call \<Rightarrow> string" where
  "signature call = tc_name call @ '':'' @ json_dumps_default (canon (PDict (tc_arguments call)))"

definition dicts_of :: "pyval list \<Rightarrow> dict list" where
  "dicts_of xs = [d. PDict d \<leftarrow> xs]"

section \<open>Model calls\<close>

fun relay_events :: "('d, 'x, 'm) agent_config \<Rightarrow> nat \<Rightarrow> stream_event list \<Rightarrow> chat_response option \<Rightarrow> ('d, 'x, 'm) agent_state
    \<Rightarrow> chat_response option \<times> ('d, 'x, 'm) agent_state" where
  "relay_events cfg step [] response s = (response, s)"
| "relay_events cfg step (ChatStreamDelta d # evs) response s =
    relay_events cfg step evs response (if d \<noteq> [] then emit cfg ''model.delta'' [(''step'', PInt (int step)), (''content_delta'', PStr d)] s else s)"
| "relay_events cfg step (ChatStreamDone r # evs) response s = relay_events cfg step evs (Some r) s"

definition chat_or_stream :: "('d, 'x, 'm) agent_config \<Rightarrow> nat \<Rightarrow> chat_request \<Rightarrow> ('d, 'x, 'm) agent_state
    \<Rightarrow> chat_response result \<times> ('d, 'x, 'm) agent_state" where
  "chat_or_stream cfg step request s = (case pv_chat_stream (ac_provider cfg) of
     None \<Rightarrow> (case pv_chat (ac_provider cfg) request (as_model s) of (r, m) \<Rightarrow> (r, s\<lparr>as_model := m\<rparr>))
   | Some stream \<Rightarrow> (case stream request (as_model s) of ((evs, err), m) \<Rightarrow>
       (case relay_events cfg step evs None (s\<lparr>as_model := m\<rparr>) of (response, s) \<Rightarrow>
         ((case err of Some e \<Rightarrow> Inl e
           | None \<Rightarrow> (case response of Some r \<Rightarrow> Inr r
               | None \<Rightarrow> Inl (PyError ''RuntimeError'' ''chat_stream completed without emitting a ChatStreamDone event - provider contract violation''))), s))))"

definition synthesize_final :: "('d, 'x, 'm) agent_config \<Rightarrow> message list \<Rightarrow> string \<Rightarrow> ('d, 'x, 'm) agent_state
    \<Rightarrow> chat_response option \<times> ('d, 'x, 'm) agent_state" where
  "synthesize_final cfg messages nudge s =
    (case pv_chat (ac_provider cfg) \<lparr>cr_messages = messages @ [text_message UserRole nudge], cr_tools = None\<rparr> (as_model s) of
       (Inl _, m) \<Rightarrow> (None, s\<lparr>as_model := m\<rparr>) | (Inr r, m) \<Rightarrow> (Some r, s\<lparr>as_model := m\<rparr>))"

definition audit_model_success ::
  "('z audit_db_scheme, 'x, 'm) agent_config \<Rightarrow> string \<Rightarrow> nat \<Rightarrow> chat_response \<Rightarrow> ('z audit_db_scheme, 'x, 'm) agent_state \<Rightarrow> ('z audit_db_scheme, 'x, 'm) agent_state" where
  "audit_model_success cfg loop_id step r s = audit cfg ''model.call.success''
     [(''loop_id'', PStr loop_id), (''step'', PInt (int step)), (''model_id'', PStr (rsp_model_id r)), (''input_tokens'', PInt (rsp_input_tokens r)),
      (''output_tokens'', PInt (rsp_output_tokens r)), (''stop_reason'', PStr (rsp_stop_reason r)),
      (''tool_call_count'', PInt (int (length (rsp_tool_calls r)))), (''provider'', PStr (cd_provider (pv_capability (ac_provider cfg)))),
      (''strategy'', PStr (st_name (ac_strategy cfg)))] s"

definition audit_model_failure ::
  "('z audit_db_scheme, 'x, 'm) agent_config \<Rightarrow> string \<Rightarrow> nat \<Rightarrow> string \<Rightarrow> string \<Rightarrow> ('z audit_db_scheme, 'x, 'm) agent_state \<Rightarrow> ('z audit_db_scheme, 'x, 'm) agent_state" where
  "audit_model_failure cfg loop_id step detail tb s = audit cfg ''model.call.failure''
     ([(''loop_id'', PStr loop_id), (''step'', PInt (int step)), (''detail'', PStr (take 1000 detail)),
       (''provider'', PStr (cd_provider (pv_capability (ac_provider cfg))))]
      @ (if tb \<noteq> [] then [(''traceback'', PStr (take 4000 tb))] else [])) s"

definition plain_answer :: "agent_vars \<Rightarrow> string \<Rightarrow> nat \<Rightarrow> int \<Rightarrow> int \<Rightarrow> string \<Rightarrow> string \<Rightarrow> agent_answer" where
  "plain_answer v content steps extra_in extra_out stop_reason loop_id =
    \<lparr>aa_content = content, aa_citations = av_citations v, aa_step_count = steps, aa_tool_call_count = av_tool_call_count v,
     aa_input_tokens = av_input_tokens v + extra_in, aa_output_tokens = av_output_tokens v + extra_out, aa_stop_reason = stop_reason,
     aa_loop_id = loop_id, aa_grounding_supported = None, aa_grounding_unsupported = None, aa_grounding_uncertain = None,
     aa_grounding_unverifiable = None\<rparr>"

definition fail_gracefully ::
  "('z audit_db_scheme, 'x, 'm) agent_config \<Rightarrow> string \<Rightarrow> nat \<Rightarrow> exn \<Rightarrow> agent_vars \<Rightarrow> ('z audit_db_scheme, 'x, 'm) agent_state
    \<Rightarrow> agent_answer \<times> ('z audit_db_scheme, 'x, 'm) agent_state" where
  "fail_gracefully cfg loop_id step e v s =
    (let detail = exn_class e @ '': '' @ (if exn_str e \<noteq> [] then exn_str e else ''(no message)'');
         s = audit_model_failure cfg loop_id step detail (ac_traceback cfg e) s;
         s = emit cfg ''model.call.failed'' [(''step'', PInt (int step)), (''detail'', PStr detail)] s;
         answer = plain_answer v (model_failure_message (ac_quota_message cfg) e) step 0 0 ''loop_error'' loop_id;
         s = emit cfg ''answer'' (answer_dump answer) s
     in (answer, s))"

section \<open>Finishing\<close>

definition counts_of :: "grounding_result option \<Rightarrow> dict" where
  "counts_of v = (let n = (\<lambda>f. PInt (int (case v of Some r \<Rightarrow> f r | None \<Rightarrow> 0))) in
     [(''supported'', n gr_supported_count), (''unsupported'', n gr_unsupported_count), (''uncertain'', n gr_uncertain_count),
      (''unverifiable'', n gr_unverifiable_count)])"

definition emit_partials :: "('d, 'x, 'm) agent_config \<Rightarrow> string \<Rightarrow> grounding_result list \<Rightarrow> ('d, 'x, 'm) agent_state \<Rightarrow> ('d, 'x, 'm) agent_state" where
  "emit_partials cfg loop_id snapshots s = foldl (\<lambda>s snap. emit cfg ''grounding.partial''
     ([(''loop_id'', PStr loop_id), (''ran'', PBool (gr_ran snap))] @ counts_of (Some snap) @ [(''annotated_content'', PStr (gr_annotated_answer snap))]) s) s snapshots"

text \<open>The judge: one call, or the batches of incremental mode, of which the last snapshot counts.  What it raises leaves the loop.\<close>

definition run_validator ::
  "('d, 'x, 'm) agent_config \<Rightarrow> 'm grounding \<Rightarrow> string \<Rightarrow> agent_answer \<Rightarrow> agent_vars \<Rightarrow> ('d, 'x, 'm) agent_state
    \<Rightarrow> grounding_result option result \<times> ('d, 'x, 'm) agent_state" where
  "run_validator cfg validator mode answer v s =
    (if mode = ''incremental''
     then case gv_validate_streaming validator (aa_content answer) (av_tool_results v) (av_retrieved_chunks v) (av_tool_failures v) (as_model s) of
         ((snapshots, err), m) \<Rightarrow>
           ((case err of Some e \<Rightarrow> Inl e | None \<Rightarrow> Inr (if snapshots = [] then None else Some (last snapshots))),
            emit_partials cfg (aa_loop_id answer) snapshots (s\<lparr>as_model := m\<rparr>))
     else case gv_validate validator (aa_content answer) (av_tool_results v) (av_retrieved_chunks v) (av_tool_failures v) (as_model s) of
         (Inl e, m) \<Rightarrow> (Inl e, s\<lparr>as_model := m\<rparr>)
       | (Inr r, m) \<Rightarrow> (Inr (Some r), s\<lparr>as_model := m\<rparr>))"

definition annotated :: "agent_answer \<Rightarrow> grounding_result option \<Rightarrow> agent_answer" where
  "annotated answer v = (case v of Some r \<Rightarrow> if gr_ran r
       then answer\<lparr>aa_content := gr_annotated_answer r, aa_grounding_supported := Some (gr_supported_count r),
         aa_grounding_unsupported := Some (gr_unsupported_count r), aa_grounding_uncertain := Some (gr_uncertain_count r),
         aa_grounding_unverifiable := Some (gr_unverifiable_count r)\<rparr>
       else answer | None \<Rightarrow> answer)"

text \<open>After the judge: the audit event, the closing event and, in blocking mode, the answer.\<close>

definition close_grounding ::
  "('z audit_db_scheme, 'x, 'm) agent_config \<Rightarrow> string \<Rightarrow> agent_answer \<Rightarrow> grounding_result option \<Rightarrow> ('z audit_db_scheme, 'x, 'm) agent_state
    \<Rightarrow> agent_answer \<times> ('z audit_db_scheme, 'x, 'm) agent_state" where
  "close_grounding cfg mode answer vr s =
    (let early = (mode \<in> {''deferred'', ''incremental''});
         did_run = (case vr of Some r \<Rightarrow> gr_ran r | None \<Rightarrow> False);
         s = audit cfg ''grounding.validation.completed'' ([(''loop_id'', PStr (aa_loop_id answer)), (''mode'', PStr mode), (''ran'', PBool did_run)]
           @ counts_of vr @ [(''total_claims'', PInt (int (case vr of Some r \<Rightarrow> length (gr_claims r) | None \<Rightarrow> 0)))]) s;
         s = emit cfg ''grounding.completed'' ([(''loop_id'', PStr (aa_loop_id answer)), (''ran'', PBool did_run)] @ counts_of vr
           @ (case vr of Some r \<Rightarrow> if early then [(''annotated_content'', PStr (gr_annotated_answer r))] else [] | None \<Rightarrow> [])) s;
         final = annotated answer vr;
         s = (if mode = ''blocking'' then emit cfg ''answer'' (answer_dump final) s else s)
     in (final, s))"

definition finalize_answer ::
  "('z audit_db_scheme, 'x, 'm) agent_config \<Rightarrow> agent_answer \<Rightarrow> agent_vars \<Rightarrow> ('z audit_db_scheme, 'x, 'm) agent_state
    \<Rightarrow> agent_answer result \<times> ('z audit_db_scheme, 'x, 'm) agent_state" where
  "finalize_answer cfg answer v s =
    (let mode = (if ac_streaming cfg then ac_grounding_mode cfg else ''blocking'');
         grounds = (ac_validator cfg \<noteq> None \<and> py_strip (aa_content answer) \<noteq> [] \<and> (aa_citations answer \<noteq> [] \<or> av_tool_failures v \<noteq> [])) in
     case (if grounds then ac_validator cfg else None) of
       None \<Rightarrow> (Inr answer, emit cfg ''answer'' (answer_dump answer) s)
     | Some validator \<Rightarrow>
        (let s = (if mode \<in> {''deferred'', ''incremental''} then emit cfg ''answer'' (answer_dump answer @ [(''grounding_pending'', PBool True)]) s else s);
             s = emit cfg ''grounding.started'' [(''loop_id'', PStr (aa_loop_id answer)),
               (''claim_count_estimate'', PInt (int (length (split_on (CHR ''.'') (aa_content answer)))))] s in
         case run_validator cfg validator mode answer v s of
           (Inl e, s) \<Rightarrow> (Inl e, s)
         | (Inr vr, s) \<Rightarrow> (case close_grounding cfg mode answer vr s of (final, s) \<Rightarrow> (Inr final, s))))"

definition last_assistant_text :: "message list \<Rightarrow> string" where
  "last_assistant_text messages = (case find (\<lambda>m. msg_role m = AssistantRole \<and> msg_content m \<noteq> []) (rev messages) of
     Some m \<Rightarrow> msg_content m | None \<Rightarrow> [])"

definition synthesized_stop ::
  "('z audit_db_scheme, 'x, 'm) agent_config \<Rightarrow> string \<Rightarrow> nat \<Rightarrow> agent_vars \<Rightarrow> ('z audit_db_scheme, 'x, 'm) agent_state
    \<Rightarrow> agent_answer result \<times> ('z audit_db_scheme, 'x, 'm) agent_state" where
  "synthesized_stop cfg loop_id steps_done v s =
    (case synthesize_final cfg (av_messages v) FORCED_SYNTHESIS_NUDGE s of (forced, s) \<Rightarrow>
      (let content = (case forced of Some r \<Rightarrow> rsp_content r | None \<Rightarrow> []);
           content = (if py_strip content \<noteq> [] then content
             else let text = last_assistant_text (av_messages v) in if text \<noteq> [] then text else EMPTY_ANSWER_FALLBACK);
           answer = plain_answer v content steps_done (case forced of Some r \<Rightarrow> rsp_input_tokens r | None \<Rightarrow> 0)
             (case forced of Some r \<Rightarrow> rsp_output_tokens r | None \<Rightarrow> 0) ''answer'' loop_id
       in finalize_answer cfg answer v s))"

text \<open>The answer the model volunteered, re-prompted once when it is blank.\<close>

definition volunteered ::
  "('z audit_db_scheme, 'x, 'm) agent_config \<Rightarrow> string \<Rightarrow> nat \<Rightarrow> chat_response \<Rightarrow> agent_vars \<Rightarrow> ('z audit_db_scheme, 'x, 'm) agent_state
    \<Rightarrow> agent_answer result \<times> ('z audit_db_scheme, 'x, 'm) agent_state" where
  "volunteered cfg loop_id step response v s =
    (if py_strip (rsp_content response) \<noteq> []
     then finalize_answer cfg (plain_answer v (rsp_content response) (step + 1) 0 0 ''answer'' loop_id) v s
     else case synthesize_final cfg (av_messages v) SYNTHESIS_NUDGE s of (retry, s) \<Rightarrow>
       (let content = (case retry of Some r \<Rightarrow> rsp_content r | None \<Rightarrow> []);
            content = (if py_strip content \<noteq> [] then content else EMPTY_ANSWER_FALLBACK)
        in finalize_answer cfg (plain_answer v content (step + 1) (case retry of Some r \<Rightarrow> rsp_input_tokens r | None \<Rightarrow> 0)
             (case retry of Some r \<Rightarrow> rsp_output_tokens r | None \<Rightarrow> 0) ''answer'' loop_id) v s))"

section \<open>Tool calls\<close>

text \<open>What one dispatch result adds to the evidence, and the message the model sees.\<close>

definition take_result :: "tool_call \<Rightarrow> tool_dispatch_result \<Rightarrow> agent_vars \<Rightarrow> (agent_vars \<times> tool_result) result" where
  "take_result call r v =
    (case (if td_success r then td_result r else None) of
       Some (kv # kvs) \<Rightarrow>
        (let d = kv # kvs;
             cites = (case dget d ''citation'' of PDict c \<Rightarrow> [c] | _ \<Rightarrow> []) in
         rbind (iterate (py_or (dget d ''citations'') (PList []))) (\<lambda>cited.
           (let v = v\<lparr>av_citations := av_citations v @ cites @ dicts_of cited\<rparr>;
                msg = \<lparr>tres_tool_call_id = tc_id call, tres_name = tc_name call, tres_content = PDict d, tres_error = None\<rparr> in
            if tc_name call = ''query_runbook''
            then rbind (iterate (dget_or d ''hits'' (PList []))) (\<lambda>hits. Inr (v\<lparr>av_retrieved_chunks := av_retrieved_chunks v @ dicts_of hits\<rparr>, msg))
            else Inr (v\<lparr>av_tool_results := av_tool_results v @ [[(''name'', PStr (tc_name call)), (''content'', PDict d)]]\<rparr>, msg))))
     | _ \<Rightarrow>
        (let error_msg = (case td_error r of Some e \<Rightarrow> if e \<noteq> [] then e else ''tool call failed'' | None \<Rightarrow> ''tool call failed'')
         in Inr (v\<lparr>av_tool_failures := av_tool_failures v @ [[(''name'', PStr (tc_name call)), (''error'', PStr error_msg)]]\<rparr>,
             \<lparr>tres_tool_call_id = tc_id call, tres_name = tc_name call, tres_content = PStr [], tres_error = Some error_msg\<rparr>)))"

definition note_signature :: "string \<Rightarrow> agent_vars \<Rightarrow> agent_vars" where
  "note_signature sig v = (let n = (case map_of (av_tool_signatures v) sig of Some n \<Rightarrow> n | None \<Rightarrow> 0)
     in v\<lparr>av_tool_call_count := av_tool_call_count v + 1, av_tool_signatures := AList.update sig (n + 1) (av_tool_signatures v)\<rparr>)"

definition seen :: "agent_vars \<Rightarrow> string \<Rightarrow> bool" where
  "seen v sig \<longleftrightarrow> (case map_of (av_tool_signatures v) sig of Some n \<Rightarrow> n \<noteq> 0 | None \<Rightarrow> False)"

definition dispatch_one ::
  "('z audit_db_scheme, 'x, 'm) agent_config \<Rightarrow> tool_call \<Rightarrow> agent_vars \<Rightarrow> ('z audit_db_scheme, 'x, 'm) agent_state
    \<Rightarrow> tool_dispatch_result result \<times> ('z audit_db_scheme, 'x, 'm) agent_state" where
  "dispatch_one cfg call v s =
    (let s = emit cfg ''tool.call.started'' [(''tool_name'', PStr (tc_name call)), (''tool_call_id'', PStr (tc_id call)), (''arguments'', PDict (tc_arguments call))] s in
     case dispatch_tool_call (ac_schemas cfg) (ac_runners cfg) call (ac_ctx cfg) (ac_elapsed cfg (av_tool_call_count v)) (as_db s) (as_rate_limiter s) (as_tools s) of
       (r, db, rl, x) \<Rightarrow> (r, s\<lparr>as_db := db, as_rate_limiter := rl, as_tools := x\<rparr>))"

fun run_calls ::
  "('z audit_db_scheme, 'x, 'm) agent_config \<Rightarrow> tool_call list \<Rightarrow> bool \<Rightarrow> tool_result list \<Rightarrow> agent_vars \<Rightarrow> ('z audit_db_scheme, 'x, 'm) agent_state
    \<Rightarrow> (bool \<times> tool_result list \<times> agent_vars) result \<times> ('z audit_db_scheme, 'x, 'm) agent_state" where
  "run_calls cfg [] had_new results v s = (Inr (had_new, results, v), s)"
| "run_calls cfg (call # calls) had_new results v s =
    (let sig = signature call;
         had_new = (had_new \<or> \<not> seen v sig);
         v = note_signature sig v in
     case dispatch_one cfg call v s of
       (Inl e, s) \<Rightarrow> (Inl e, s)
     | (Inr r, s) \<Rightarrow>
        (let s = emit cfg ''tool.call.completed'' (summarize_dispatch_result r) s in
         case take_result call r v of
           Inl e \<Rightarrow> (Inl e, s)
         | Inr (v, res) \<Rightarrow> run_calls cfg calls had_new (results @ [res]) v s))"

section \<open>The loop\<close>

datatype ('v, 's, 'a) outcome = Finished "'a result" 's | Again 'v 's

definition context_fit_limit :: "('d, 'x, 'm) agent_config \<Rightarrow> int" where
  "context_fit_limit cfg = (let q = of_int (effective_context_window (ac_provider cfg)) * ac_context_fit_threshold cfg
     in if q \<ge> 0 then floor q else ceiling q)"

definition checkpoint_every :: "('d, 'x, 'm) agent_config \<Rightarrow> nat" where
  "checkpoint_every cfg = nat (max 1 (st_step_budget (ac_strategy cfg) (pv_capability (ac_provider cfg))))"

definition catalog :: "('d, 'x, 'm) agent_config \<Rightarrow> tool_schema list" where
  "catalog cfg = st_model_tools (ac_strategy cfg) (model_tools (ac_schemas cfg))"

text \<open>The guards after a step of tool calls: no progress, the operator's breaker, the context window; otherwise on to
  the next step, at a checkpoint with a nudge.\<close>

definition guards ::
  "('z audit_db_scheme, 'x, 'm) agent_config \<Rightarrow> string \<Rightarrow> nat \<Rightarrow> chat_response \<Rightarrow> bool \<Rightarrow> agent_vars \<Rightarrow> ('z audit_db_scheme, 'x, 'm) agent_state
    \<Rightarrow> (agent_vars, ('z audit_db_scheme, 'x, 'm) agent_state, agent_answer) outcome" where
  "guards cfg loop_id step response had_new v s =
    (let stop = (\<lambda>v. case synthesized_stop cfg loop_id (step + 1) v s of (r, s) \<Rightarrow> Finished r s);
         v = v\<lparr>av_redundant_streak := (if had_new then 0 else av_redundant_streak v + 1)\<rparr> in
     if \<not> had_new \<and> av_redundant_streak v \<ge> MAX_REDUNDANT_STREAK then stop v
     else let v = (if had_new then v else v\<lparr>av_messages := av_messages v @ [text_message UserRole REDUNDANT_TOOL_NUDGE]\<rparr>) in
       if ac_step_breaker cfg > 0 \<and> int (step + 1) \<ge> ac_step_breaker cfg then stop v
       else if rsp_input_tokens response \<ge> context_fit_limit cfg then stop v
       else Again (if (step + 1) mod checkpoint_every cfg = 0 then v\<lparr>av_messages := av_messages v @ [text_message UserRole CHECKPOINT_NUDGE]\<rparr> else v) s)"

definition agent_step ::
  "('z audit_db_scheme, 'x, 'm) agent_config \<Rightarrow> string \<Rightarrow> nat \<Rightarrow> agent_vars \<Rightarrow> ('z audit_db_scheme, 'x, 'm) agent_state
    \<Rightarrow> (agent_vars, ('z audit_db_scheme, 'x, 'm) agent_state, agent_answer) outcome" where
  "agent_step cfg loop_id step v s =
    (let s = emit cfg ''step.started'' [(''step'', PInt (int step))] s;
         request = \<lparr>cr_messages = av_messages v, cr_tools = (if catalog cfg \<noteq> [] then Some (catalog cfg) else None)\<rparr> in
     case chat_or_stream cfg step request s of
       (Inl e, s) \<Rightarrow>
         if is_wolf e \<and> \<not> ac_streaming cfg then Finished (Inl e) s
         else (case fail_gracefully cfg loop_id step e v s of (a, s) \<Rightarrow> Finished (Inr a) s)
     | (Inr response, s) \<Rightarrow>
        (let v = v\<lparr>av_input_tokens := av_input_tokens v + rsp_input_tokens response, av_output_tokens := av_output_tokens v + rsp_output_tokens response\<rparr>;
             s = audit_model_success cfg loop_id step response s;
             s = emit cfg ''model.call.completed'' [(''step'', PInt (int step)), (''input_tokens'', PInt (rsp_input_tokens response)),
               (''output_tokens'', PInt (rsp_output_tokens response)), (''stop_reason'', PStr (rsp_stop_reason response)),
               (''tool_call_count'', PInt (int (length (rsp_tool_calls response))))] s;
             v = v\<lparr>av_messages := av_messages v @ [\<lparr>msg_role = AssistantRole, msg_content = rsp_content response,
               msg_tool_calls = (if rsp_tool_calls response \<noteq> [] then Some (rsp_tool_calls response) else None), msg_tool_results = None\<rparr>]\<rparr> in
         if rsp_tool_calls response = [] then (case volunteered cfg loop_id step response v s of (r, s) \<Rightarrow> Finished r s)
         else case run_calls cfg (rsp_tool_calls response) False [] v s of
             (Inl e, s) \<Rightarrow> Finished (Inl e) s
           | (Inr (had_new, results, v), s) \<Rightarrow>
               guards cfg loop_id step response had_new
                 (v\<lparr>av_messages := av_messages v @ [\<lparr>msg_role = ToolRole, msg_content = [], msg_tool_calls = None, msg_tool_results = Some results\<rparr>]\<rparr>) s))"

partial_function (option) agent_loop ::
  "('z audit_db_scheme, 'x, 'm) agent_config \<Rightarrow> string \<Rightarrow> nat \<Rightarrow> agent_vars \<Rightarrow> ('z audit_db_scheme, 'x, 'm) agent_state
    \<Rightarrow> (agent_answer result \<times> ('z audit_db_scheme, 'x, 'm) agent_state) option" where
  "agent_loop cfg loop_id step v s = (case agent_step cfg loop_id step v s of
     Finished r s \<Rightarrow> Some (r, s) | Again v s \<Rightarrow> agent_loop cfg loop_id (step + 1) v s)"

text \<open>The transcript a run starts from: the prompt, the turns of the history that are not blank, the question.\<close>

definition first_messages :: "string \<Rightarrow> (string \<times> string) list \<Rightarrow> string \<Rightarrow> message list" where
  "first_messages system_prompt history question =
    text_message SystemRole system_prompt
    # [text_message (if role = ''user'' then UserRole else AssistantRole) content. (role, content) \<leftarrow> history, py_strip content \<noteq> []]
    @ [text_message UserRole question]"

definition uuid_hex :: "uuid \<Rightarrow> string" where
  "uuid_hex u = hex_digits 32 (unat u)"

definition start_vars :: "message list \<Rightarrow> agent_vars" where
  "start_vars messages = \<lparr>av_messages = messages, av_citations = [], av_tool_results = [], av_retrieved_chunks = [], av_tool_failures = [],
     av_input_tokens = 0, av_output_tokens = 0, av_tool_call_count = 0, av_tool_signatures = [], av_redundant_streak = 0\<rparr>"

definition agent_run ::
  "('z audit_db_scheme, 'x, 'm) agent_config \<Rightarrow> string option \<Rightarrow> string option \<Rightarrow> string \<Rightarrow> (string \<times> string) list \<Rightarrow> ('z audit_db_scheme, 'x, 'm) agent_state
    \<Rightarrow> (agent_answer result \<times> ('z audit_db_scheme, 'x, 'm) agent_state) option" where
  "agent_run cfg research_suffix retry_nudge question history s =
    (let (i, db) = uuid4 (as_db s);
         loop_id = uuid_hex i;
         prompt = st_system_prompt (ac_strategy cfg) @ (case research_suffix of Some t \<Rightarrow> t | None \<Rightarrow> []);
         asked = (case retry_nudge of Some t \<Rightarrow> question @ [CHR 0x0A, CHR 0x0A] @ t | None \<Rightarrow> question);
         s = emit cfg ''loop.started'' [(''loop_id'', PStr loop_id), (''strategy'', PStr (st_name (ac_strategy cfg))),
           (''model_id'', PStr (cd_model_id (pv_capability (ac_provider cfg)))), (''provider'', PStr (cd_provider (pv_capability (ac_provider cfg))))]
           (s\<lparr>as_db := db\<rparr>)
     in agent_loop cfg loop_id 0 (start_vars (first_messages prompt history asked)) s)"

end
