(* ===== verification/Propose_Tools.thy ===== *)
theory Propose_Tools
  imports Tool_Dispatch Proposal_Api Validator
begin

text \<open>
  The propose-tier tools (\<open>tools/propose_active_response.py\<close>, \<open>tools/propose_agent_action.py\<close>,
  \<open>tools/propose_rule_tuning.py\<close>, \<open>tools/propose_config_change.py\<close>) and the ledger read
  (\<open>tools/active_blocks.py\<close>).

  A tool takes its validated input model and acts on the database and on the manager behind the
  read client.  A guided refusal is an output with \<open>permitted=False\<close>; the pure parts of a tool return it
  as the pair of its detail and summary.  Every output carries a citation, whose timestamp draws a
  reading of the clock.
\<close>

section \<open>Outputs\<close>

record citation =
  ct_tool :: string
  ct_query :: dict
  ct_timestamp :: datetime
  ct_result_count :: "int option"
  ct_url :: "string option"
  ct_title :: "string option"
  ct_source :: "string option"

definition make_citation :: "string \<Rightarrow> dict \<Rightarrow> int option \<Rightarrow> 'z audit_db_scheme \<Rightarrow> citation \<times> 'z audit_db_scheme" where
  "make_citation tool query result_count db = (let (now, db) = utcnow db
     in (\<lparr>ct_tool = tool, ct_query = query, ct_timestamp = now, ct_result_count = result_count,
          ct_url = None, ct_title = None, ct_source = None\<rparr>, db))"

text \<open>The output models of the four tools; \<open>po_current_content\<close> is a field of \<open>ProposeConfigChangeOutput\<close> only.\<close>

record propose_output =
  po_permitted :: bool
  po_state :: string
  po_proposal_id :: string
  po_summary :: string
  po_detail :: string
  po_current_content :: string
  po_citation :: citation

type_synonym refusal = "string \<times> string"

definition refused :: "string \<Rightarrow> dict \<Rightarrow> refusal \<Rightarrow> 'z audit_db_scheme \<Rightarrow> propose_output \<times> 'z audit_db_scheme" where
  "refused tool query r db = (let (c, db) = make_citation tool query (Some 0) db
     in (\<lparr>po_permitted = False, po_state = ''rejected'', po_proposal_id = [], po_summary = snd r, po_detail = fst r,
          po_current_content = [], po_citation = c\<rparr>, db))"

definition queued_output :: "string \<Rightarrow> dict \<Rightarrow> action_proposal \<Rightarrow> string \<Rightarrow> string \<Rightarrow> 'z audit_db_scheme \<Rightarrow> propose_output \<times> 'z audit_db_scheme" where
  "queued_output tool query proposal summary current db = (let (c, db) = make_citation tool query (Some 1) db
     in (\<lparr>po_permitted = True, po_state = ''pending'', po_proposal_id = uuid_str (ap_id proposal), po_summary = summary, po_detail = [],
          po_current_content = current, po_citation = c\<rparr>, db))"

definition or_text :: "string \<Rightarrow> string \<Rightarrow> string" where
  "or_text a b = (if a \<noteq> [] then a else b)"

definition NO_RATIONALE :: string where
  "NO_RATIONALE = ''Requested via chat - no explicit rationale was given.''"

definition VALIDATOR_REFUSAL :: string where
  "VALIDATOR_REFUSAL = ''Proposal rejected by the action validator.''"

definition NOT_AUTHORIZED :: string where
  "NOT_AUTHORIZED = ''Not proposed - the Wazuh credential is not authorized for this action.''"

definition underscores_to_spaces :: "string \<Rightarrow> string" where
  "underscores_to_spaces s = map (\<lambda>c. if c = CHR ''_'' then CHR '' '' else c) s"

definition when_of :: "action_proposal \<Rightarrow> datetime" where
  "when_of p = (case ap_executed_at p of Some t \<Rightarrow> t | None \<Rightarrow> ap_created_at p)"

text \<open>\<open>_recall\<close> of the agent action, rule tuning and configuration tools.\<close>

definition recall :: "action_proposal \<Rightarrow> string" where
  "recall prior = ''It was '' @ underscores_to_spaces (ap_action prior) @ '' on '' @ strftime_minute (when_of prior)
     @ '' - reason: '' @ ap_rationale prior @ ''.''"

section \<open>Active response\<close>

definition REVERSE_INTENTS :: "string list" where "REVERSE_INTENTS = map fst REVERSE_TO_FORWARD"

definition AR_INTENTS :: "string list" where "AR_INTENTS = map fst INTENT_COMMANDS"

definition INTENT_LABELS :: "(string \<times> string) list" where
  "INTENT_LABELS = [(''block_ip'', ''Block source IP''), (''disable_user'', ''Disable account''), (''restart'', ''Restart the Wazuh agent''),
     (''unblock_ip'', ''Unblock source IP''), (''enable_user'', ''Re-enable account'')]"

definition label_of :: "(string \<times> string) list \<Rightarrow> string \<Rightarrow> string" where
  "label_of labels k = (case map_of labels k of Some l \<Rightarrow> l | None \<Rightarrow> k)"

text \<open>The text of \<open>IntentResolution.reason\<close>.\<close>

fun resolution_reason :: "intent_refusal \<Rightarrow> string" where
  "resolution_reason (UnknownIntent intent) = ''Unknown action intent '' @ repr_str intent @ ''. Supported intents: ''
     @ join '', '' (sort AR_INTENTS) @ ''.''"
| "resolution_reason (OsUndetermined intent) = ''Cannot select a platform-correct command for intent '' @ repr_str intent
     @ '': the agent's operating system could not be determined. Resolve the agent's OS (get_agent_detail) and retry.''"
| "resolution_reason (NotSupportedOn intent os) = ''Intent '' @ repr_str intent @ '' is not supported on '' @ os
     @ '' via the default active-response catalog (supported: ''
     @ (case map_of INTENT_COMMANDS intent of Some (PerOs entry) \<Rightarrow> or_text (join '', '' (sort (map fst entry))) ''none'' | _ \<Rightarrow> ''none'') @ '').''"
| "resolution_reason (UnknownMethod meth) = ''Unknown active-response command '' @ repr_str meth @ ''. Choose one of ''
     @ join '', '' (sort (map fst AR_COMMANDS)) @ '', or omit `method` to let Wolf select automatically.''"
| "resolution_reason (MethodTargetMismatch meth intent) = ''Method '' @ repr_str meth @ '' does not match intent '' @ repr_str intent
     @ '': it acts on '' @ repr_str (case get_ar_command meth of Some c \<Rightarrow> ar_target c | None \<Rightarrow> []) @ '', but '' @ repr_str intent
     @ '' needs a '' @ repr_str (case map_of INTENT_TARGETS intent of Some t \<Rightarrow> t | None \<Rightarrow> []) @ '' command.''"
| "resolution_reason (MethodPlatformMismatch meth os) = ''Method '' @ repr_str meth @ '' runs on ''
     @ (case get_ar_command meth of Some c \<Rightarrow> join ''/'' (sort (ar_platforms c)) | None \<Rightarrow> [])
     @ '', but the agent is '' @ os @ ''. Pick a '' @ os @ ''-compatible command.''"

record ar_input =
  ai_agent_id :: string
  ai_intent :: string
  ai_srcip :: string
  ai_username :: string
  ai_method :: string
  ai_block_duration :: string
  ai_rationale :: string
  ai_expected_effect :: string
  ai_alert_ids :: "string list"

definition ar_query :: "ar_input \<Rightarrow> dict" where
  "ar_query args = [(''agent_id'', PStr (ai_agent_id args)), (''intent'', PStr (ai_intent args)), (''srcip'', PStr (ai_srcip args)),
     (''username'', PStr (ai_username args)), (''method'', PStr (ai_method args)), (''block_duration'', PStr (ai_block_duration args)),
     (''rationale'', PStr (ai_rationale args)), (''expected_effect'', PStr (ai_expected_effect args)),
     (''alert_ids'', PList (map PStr (ai_alert_ids args)))]"

definition capability_ok ::
  "('w, 'y) endpoint_scheme \<Rightarrow> string \<Rightarrow> 'w wazuh \<Rightarrow> (bool \<times> string list) result \<times> 'w wazuh" where
  "capability_ok ep agent_id w = (case fetch_credential_capabilities ep w of (caps, w) \<Rightarrow>
     (case resolve_agent_groups ep agent_id w of
        (Inl e, w) \<Rightarrow> (Inl e, w)
      | (Inr agent_groups, w) \<Rightarrow> (Inr (can_on_agent caps ACTION_ACTIVE_RESPONSE agent_id agent_groups, agent_groups), w)))"

definition block_recall :: "action_proposal \<Rightarrow> string" where
  "block_recall block =
    (let alert_ids = (case dget (ap_evidence block) ''alert_ids'' of PList xs \<Rightarrow> xs | _ \<Rightarrow> []);
         ev_s = (if alert_ids \<noteq> [] then '' (evidence: alert(s) '' @ join '', '' (map py_str alert_ids) @ '')'' else [])
     in ''It was blocked on '' @ strftime_minute (when_of block) @ '' - reason: '' @ ap_rationale block @ ev_s @ ''.'')"

record ar_plan =
  pl_command :: string
  pl_parameters :: dict
  pl_method_source :: string
  pl_os_class :: "string option"
  pl_duration_note :: string

text \<open>From the resolved OS to a validated draft, the part of \<open>_propose_forward\<close> before the capability pre-flight.\<close>

definition select_command :: "ar_input \<Rightarrow> string option \<Rightarrow> (intent_refusal + string) \<times> string" where
  "select_command args agent_os =
    (let os_class = classify_os [agent_os]; meth = py_strip (ai_method args)
     in if meth \<noteq> [] then (resolve_method_command (ai_intent args) meth os_class, if os_class \<noteq> None then ''override'' else ''user_asserted'')
        else (resolve_intent_command (ai_intent args) os_class agent_os, ''auto''))"

definition forward_parameters :: "ar_input \<Rightarrow> string option \<Rightarrow> string \<Rightarrow> dict" where
  "forward_parameters args agent_os method_source =
    [(''intent'', PStr (ai_intent args)), (''method_source'', PStr method_source)]
    @ (if py_strip (ai_srcip args) \<noteq> [] then [(''srcip'', PStr (py_strip (ai_srcip args)))] else [])
    @ (if py_strip (ai_username args) \<noteq> [] then [(''username'', PStr (py_strip (ai_username args)))] else [])
    @ (case agent_os of Some os \<Rightarrow> if os \<noteq> [] then [(''agent_os'', PStr os)] else [] | None \<Rightarrow> [])"

definition timed_block :: "ar_input \<Rightarrow> string \<Rightarrow> dict \<Rightarrow> refusal + dict \<times> string" where
  "timed_block args command parameters =
    (if py_strip (ai_block_duration args) = [] then Inr (parameters, [])
     else if (case get_ar_command command of None \<Rightarrow> True | Some cmd \<Rightarrow> \<not> ar_reversible cmd)
     then Inl (''Intent '' @ repr_str (ai_intent args) @ '' (command '' @ repr_str command
        @ '') is not reversible, so a block duration can't be honoured - omit block_duration.'',
        ''Not proposed - a duration was given for a non-reversible action.'')
     else case parse_duration (ai_block_duration args) of
         Inl e \<Rightarrow> Inl (exn_str e, ''Not proposed - invalid block duration.'')
       | Inr seconds \<Rightarrow> Inr (dset ''block_duration_seconds'' (PInt seconds) parameters,
           '' for '' @ py_strip (ai_block_duration args) @ '' (Wolf auto-reverses it on expiry)''))"

definition forward_plan :: "ar_input \<Rightarrow> string option \<Rightarrow> (refusal + ar_plan) result" where
  "forward_plan args agent_os = (case select_command args agent_os of (resolution, method_source) \<Rightarrow>
     (case resolution of
        Inl why \<Rightarrow> Inr (Inl (resolution_reason why, ''Not proposed - could not select a command for this intent.''))
      | Inr command \<Rightarrow>
         (case timed_block args command (forward_parameters args agent_os method_source) of
            Inl r \<Rightarrow> Inr (Inl r)
          | Inr (parameters, duration_note) \<Rightarrow>
             (case validate_proposal ''active_response'' [(''agent_id'', PStr (ai_agent_id args))] command parameters of
                Inl e \<Rightarrow> Inl e
              | Inr verdict \<Rightarrow> if \<not> vr_ok verdict then Inr (Inl (vr_reason verdict, VALIDATOR_REFUSAL))
                  else Inr (Inr \<lparr>pl_command = command, pl_parameters = parameters, pl_method_source = method_source,
                    pl_os_class = classify_os [agent_os], pl_duration_note = duration_note\<rparr>)))))"

definition text_param :: "dict \<Rightarrow> string \<Rightarrow> string option" where
  "text_param d k = as_str (dget d k)"

definition target_phrase :: "dict \<Rightarrow> string" where
  "target_phrase parameters = (case text_param parameters ''srcip'' of Some ip \<Rightarrow> '' (block '' @ ip @ '')''
     | None \<Rightarrow> (case text_param parameters ''username'' of Some u \<Rightarrow> '' (disable '' @ u @ '')'' | None \<Rightarrow> []))"

definition os_phrase :: "ar_plan \<Rightarrow> string" where
  "os_phrase plan = (let os = (case pl_os_class plan of Some os \<Rightarrow> os | None \<Rightarrow> ''None'') in
     if pl_method_source plan = ''user_asserted'' then '' (OS not auto-detected - proceeding on the requester's asserted platform)''
     else if pl_method_source plan = ''override'' then '' on a '' @ os @ '' agent (operator-chosen method)''
     else if pl_os_class plan \<noteq> None then '' on a '' @ os @ '' agent'' else [])"

definition dedup_note :: "ar_input \<Rightarrow> dict \<Rightarrow> action_proposal option \<Rightarrow> string" where
  "dedup_note args parameters existing = (case existing of None \<Rightarrow> []
     | Some p \<Rightarrow> (let tgt = (case text_param parameters ''srcip'' of Some ip \<Rightarrow> ip
           | None \<Rightarrow> (case text_param parameters ''username'' of Some u \<Rightarrow> u | None \<Rightarrow> ''None''))
         in '' Note: '' @ tgt @ '' already has an active block on agent '' @ ai_agent_id args @ '' (proposal '' @ uuid_str (ap_id p) @ ''). ''
            @ block_recall p))"

text \<open>Queueing the validated draft, the part of \<open>_propose_forward\<close> after the pre-flight.\<close>

definition queue_forward ::
  "int \<Rightarrow> organization_context \<Rightarrow> ar_input \<Rightarrow> ar_plan \<Rightarrow> 'z database_scheme \<Rightarrow> propose_output \<times> 'z database_scheme" where
  "queue_forward ttl ctx args plan db =
    (let parameters = pl_parameters plan; command = pl_command plan;
         existing = find_active_block db (oc_organization_id ctx) ''active_response'' (ai_agent_id args)
           (text_param parameters ''srcip'') (text_param parameters ''username'');
         intent_label = label_of INTENT_LABELS (ai_intent args);
         expected = or_text (ai_expected_effect args) (intent_label @ '' on agent '' @ ai_agent_id args @ target_phrase parameters
           @ os_phrase plan @ '' via active-response '' @ [CHR 0x27] @ command @ [CHR 0x27] @ pl_duration_note plan @ ''.'');
         rationale = or_text (py_strip (ai_rationale args)) NO_RATIONALE;
         (proposal, db) = create_proposal ttl db (oc_organization_id ctx) (oc_user_id ctx) ''active_response''
           [(''agent_id'', PStr (ai_agent_id args))] command rationale expected
           (Some [(''alert_ids'', PList (map PStr (ai_alert_ids args)))]) (Some parameters) None None None (Some (oc_session_id ctx))
     in queued_output ''propose_active_response'' (ar_query args) proposal
          (''Proposed '' @ py_lower intent_label @ '' on agent '' @ ai_agent_id args @ target_phrase parameters @ '' via '' @ [CHR 0x27] @ command
            @ [CHR 0x27] @ pl_duration_note plan @ ''; awaiting approval before it runs.'' @ dedup_note args parameters existing) [] db)"

definition missing_permission :: "string \<Rightarrow> string list \<Rightarrow> string" where
  "missing_permission agent_id agent_groups = ''Credential lacks active-response permission on agent '' @ agent_id
     @ '' (groups: '' @ groups_text agent_groups @ '').''"

definition propose_forward ::
  "int \<Rightarrow> ('w, 'y) endpoint_scheme \<Rightarrow> organization_context \<Rightarrow> ar_input \<Rightarrow> 'z database_scheme \<Rightarrow> 'w wazuh
    \<Rightarrow> propose_output result \<times> 'z database_scheme \<times> 'w wazuh" where
  "propose_forward ttl ep ctx args db w =
    (let refuse = (\<lambda>r w. case refused ''propose_active_response'' (ar_query args) r db of (out, db) \<Rightarrow> (Inr out, db, w)) in
     case resolve_agent_os ep (ai_agent_id args) w of
       (Inl e, w) \<Rightarrow> (Inl e, db, w)
     | (Inr agent_os, w) \<Rightarrow>
        (case forward_plan args agent_os of
           Inl e \<Rightarrow> (Inl e, db, w)
         | Inr (Inl r) \<Rightarrow> refuse r w
         | Inr (Inr plan) \<Rightarrow>
            (case capability_ok ep (ai_agent_id args) w of
               (Inl e, w) \<Rightarrow> (Inl e, db, w)
             | (Inr (ok, agent_groups), w) \<Rightarrow>
                if \<not> ok then refuse (missing_permission (ai_agent_id args) agent_groups
                    @ '' Wolf only offers actions the credential's Wazuh RBAC permits.'', NOT_AUTHORIZED) w
                else (case queue_forward ttl ctx args plan db of (out, db) \<Rightarrow> (Inr out, db, w)))))"

text \<open>The undo: the active block is recalled and its own command reversed.\<close>

definition undo_target :: "ar_input \<Rightarrow> refusal + string \<times> string" where
  "undo_target args =
    (if py_strip (ai_method args) \<noteq> [] then Inl (''An undo reverses the exact command the original block used - don't pass a `method`. Give just the agent + the IP/username to undo.'',
        ''Not proposed - `method` is not used for an undo.'')
     else let intent_target = map_of INTENT_TARGETS (ai_intent args);
         srcip = (if intent_target = Some ''srcip'' then py_strip (ai_srcip args) else []);
         username = (if intent_target = Some ''username'' then py_strip (ai_username args) else [])
       in if intent_target = Some ''srcip'' \<and> srcip = []
          then Inl (''To undo an IP block, give the IP to unblock (srcip).'', ''Not proposed - no IP given to unblock.'')
          else if intent_target = Some ''username'' \<and> username = []
          then Inl (''To re-enable an account, give the username.'', ''Not proposed - no username given to re-enable.'')
          else Inr (srcip, username))"

definition undo_parameters :: "ar_input \<Rightarrow> string \<Rightarrow> string \<Rightarrow> action_proposal \<Rightarrow> dict" where
  "undo_parameters args srcip username block =
    [(''intent'', PStr (ai_intent args)), (''method_source'', PStr ''reversal''), (''reversal'', PBool True)]
    @ (if srcip \<noteq> [] then [(''srcip'', PStr srcip)] else [])
    @ (if username \<noteq> [] then [(''username'', PStr username)] else [])
    @ (case as_str (dget (ap_parameters block) ''agent_os'') of Some os \<Rightarrow> [(''agent_os'', PStr os)] | None \<Rightarrow> [])"

definition queue_undo ::
  "int \<Rightarrow> organization_context \<Rightarrow> ar_input \<Rightarrow> string \<Rightarrow> action_proposal \<Rightarrow> dict \<Rightarrow> 'z database_scheme \<Rightarrow> propose_output \<times> 'z database_scheme" where
  "queue_undo ttl ctx args tgt block parameters db =
    (let intent_label = label_of INTENT_LABELS (ai_intent args);
         reverses_via = (case get_ar_command (ap_action block) of Some cmd \<Rightarrow> ar_reverses_via cmd | None \<Rightarrow> []);
         rationale = or_text (py_strip (ai_rationale args)) (''Undo of the earlier block. '' @ block_recall block);
         expected = or_text (ai_expected_effect args) (intent_label @ '' on agent '' @ ai_agent_id args @ '' ('' @ tgt @ '') - reverses '' @ [CHR 0x27]
           @ ap_action block @ [CHR 0x27] @ ''. '' @ reverses_via
           @ '' Physical removal is performed by wolf-pack (Phase 12); the block stays in effect until then.'');
         evidence = [(''reverses_proposal_id'', PStr (uuid_str (ap_id block))), (''original_rationale'', PStr (ap_rationale block)),
           (''original_alert_ids'', dget_or (ap_evidence block) ''alert_ids'' (PList []))];
         (proposal, db) = create_reversal_proposal ttl db block (oc_user_id ctx) (ap_action block) parameters rationale expected
           (Some evidence) None (Some (oc_session_id ctx))
     in queued_output ''propose_active_response'' (ar_query args) proposal
          (''Proposed '' @ py_lower intent_label @ '' on agent '' @ ai_agent_id args @ '' ('' @ tgt @ ''). '' @ block_recall block
            @ '' Awaiting approval; the physical removal runs via wolf-pack.'') [] db)"

definition opt_text :: "string \<Rightarrow> string option" where
  "opt_text s = (if s \<noteq> [] then Some s else None)"

definition propose_reversal ::
  "int \<Rightarrow> ('w, 'y) endpoint_scheme \<Rightarrow> organization_context \<Rightarrow> ar_input \<Rightarrow> 'z database_scheme \<Rightarrow> 'w wazuh
    \<Rightarrow> propose_output result \<times> 'z database_scheme \<times> 'w wazuh" where
  "propose_reversal ttl ep ctx args db w =
    (let refuse = (\<lambda>r w. case refused ''propose_active_response'' (ar_query args) r db of (out, db) \<Rightarrow> (Inr out, db, w)) in
     case undo_target args of
       Inl r \<Rightarrow> refuse r w
     | Inr (srcip, username) \<Rightarrow>
        (let tgt = or_text srcip username in
         case find_active_block db (oc_organization_id ctx) ''active_response'' (ai_agent_id args) (opt_text srcip) (opt_text username) of
           None \<Rightarrow> refuse (''I have no record of an active block on '' @ repr_str tgt @ '' for agent '' @ ai_agent_id args
             @ ''. Wolf only tracks blocks it dispatched, and it can't verify live host state until wolf-pack - check `list_active_blocks`. If it was blocked outside Wolf, there's nothing here to reverse.'',
             ''Not proposed - no matching active block on record.'') w
         | Some block \<Rightarrow>
            (case capability_ok ep (ai_agent_id args) w of
               (Inl e, w) \<Rightarrow> (Inl e, db, w)
             | (Inr (ok, agent_groups), w) \<Rightarrow>
                if \<not> ok then refuse (missing_permission (ai_agent_id args) agent_groups, NOT_AUTHORIZED) w
                else let parameters = undo_parameters args srcip username block in
                  (case validate_proposal ''active_response'' (ap_target block) (ap_action block) parameters of
                     Inl e \<Rightarrow> (Inl e, db, w)
                   | Inr verdict \<Rightarrow> if \<not> vr_ok verdict then refuse (vr_reason verdict, VALIDATOR_REFUSAL) w
                       else (case queue_undo ttl ctx args tgt block parameters db of (out, db) \<Rightarrow> (Inr out, db, w))))))"

definition run_propose_active_response ::
  "int \<Rightarrow> ('w, 'y) endpoint_scheme \<Rightarrow> organization_context \<Rightarrow> ar_input \<Rightarrow> 'z database_scheme \<Rightarrow> 'w wazuh
    \<Rightarrow> propose_output result \<times> 'z database_scheme \<times> 'w wazuh" where
  "run_propose_active_response ttl ep ctx args db w =
    (if ai_intent args \<in> set REVERSE_INTENTS then propose_reversal ttl ep ctx args db w
     else propose_forward ttl ep ctx args db w)"

section \<open>Agent groups\<close>

record agent_action_input =
  gi_agent_id :: string
  gi_operation :: string
  gi_group :: string
  gi_rationale :: string
  gi_expected_effect :: string
  gi_alert_ids :: "string list"

definition agent_action_query :: "agent_action_input \<Rightarrow> dict" where
  "agent_action_query args = [(''agent_id'', PStr (gi_agent_id args)), (''operation'', PStr (gi_operation args)), (''group'', PStr (gi_group args)),
     (''rationale'', PStr (gi_rationale args)), (''expected_effect'', PStr (gi_expected_effect args)),
     (''alert_ids'', PList (map PStr (gi_alert_ids args)))]"

definition GROUP_OP_LABELS :: "(string \<times> string) list" where
  "GROUP_OP_LABELS = [(OP_ASSIGN_GROUP, ''Assign agent to group''), (OP_REMOVE_GROUP, ''Remove agent from group'')]"

definition quote :: "string \<Rightarrow> string" where
  "quote s = [CHR 0x27] @ s @ [CHR 0x27]"

text \<open>The matcher \<open>_inverts\<close>; \<open>inverse_op\<close> is looked up only where it exists.\<close>

definition inverts :: "string option \<Rightarrow> string \<Rightarrow> string \<Rightarrow> action_proposal \<Rightarrow> bool" where
  "inverts inverse_op agent_id grp p \<longleftrightarrow> Some (ap_action p) = inverse_op
     \<and> py_str (dget_or (ap_target p) ''agent_id'' (PStr [])) = agent_id \<and> dget (ap_parameters p) ''group'' = PStr grp"

definition queue_agent_action ::
  "int \<Rightarrow> organization_context \<Rightarrow> agent_action_input \<Rightarrow> 'z database_scheme \<Rightarrow> propose_output \<times> 'z database_scheme" where
  "queue_agent_action ttl ctx args db =
    (let operation = py_strip (gi_operation args); grp = py_strip (gi_group args); agent_id = gi_agent_id args;
         label = label_of GROUP_OP_LABELS operation;
         inverse_op = map_of INVERSE_OP operation;
         prior = (if inverse_op \<noteq> None
           then find_active_action db (oc_organization_id ctx) ''agent_action'' (inverts inverse_op agent_id grp) else None)
     in case prior of
        Some p \<Rightarrow>
          (let expected = or_text (gi_expected_effect args) (label @ '' '' @ quote grp @ '' on agent '' @ agent_id @ '' - undoes the earlier ''
                 @ underscores_to_spaces (ap_action p) @ '' (proposal '' @ uuid_str (ap_id p) @ '').'');
               rationale = or_text (py_strip (gi_rationale args)) (''Undo of the earlier group change. '' @ recall p);
               (proposal, db) = create_reversal_proposal ttl db p (oc_user_id ctx) operation [(''group'', PStr grp)] rationale expected
                 (Some [(''reverses_proposal_id'', PStr (uuid_str (ap_id p))), (''original_rationale'', PStr (ap_rationale p))])
                 None (Some (oc_session_id ctx))
           in queued_output ''propose_agent_action'' (agent_action_query args) proposal
             (''Proposed '' @ py_lower label @ '' '' @ quote grp @ '' on agent '' @ agent_id @ '' (undoes proposal '' @ uuid_str (ap_id p)
               @ ''). '' @ recall p @ '' Awaiting approval.'') [] db)
      | None \<Rightarrow>
          (let rationale = or_text (py_strip (gi_rationale args)) NO_RATIONALE;
               expected = or_text (gi_expected_effect args) (label @ '' '' @ quote grp @ '' on agent '' @ agent_id @ ''.'');
               (proposal, db) = create_proposal ttl db (oc_organization_id ctx) (oc_user_id ctx) ''agent_action''
                 [(''agent_id'', PStr agent_id)] operation rationale expected
                 (Some [(''alert_ids'', PList (map PStr (gi_alert_ids args)))]) (Some [(''group'', PStr grp)]) None None None (Some (oc_session_id ctx))
           in queued_output ''propose_agent_action'' (agent_action_query args) proposal
             (''Proposed '' @ py_lower label @ '' '' @ quote grp @ '' on agent '' @ agent_id @ ''; awaiting approval before it runs.'') [] db))"

definition run_propose_agent_action ::
  "int \<Rightarrow> ('w, 'y) endpoint_scheme \<Rightarrow> organization_context \<Rightarrow> agent_action_input \<Rightarrow> 'z database_scheme \<Rightarrow> 'w wazuh
    \<Rightarrow> propose_output result \<times> 'z database_scheme \<times> 'w wazuh" where
  "run_propose_agent_action ttl ep ctx args db w =
    (let refuse = (\<lambda>r w. case refused ''propose_agent_action'' (agent_action_query args) r db of (out, db) \<Rightarrow> (Inr out, db, w)) in
     case validate_proposal ''agent_action'' [(''agent_id'', PStr (gi_agent_id args))] (py_strip (gi_operation args))
        [(''group'', PStr (py_strip (gi_group args)))] of
       Inl e \<Rightarrow> (Inl e, db, w)
     | Inr verdict \<Rightarrow>
        if \<not> vr_ok verdict then refuse (vr_reason verdict, VALIDATOR_REFUSAL) w
        else (case fetch_credential_capabilities ep w of (caps, w) \<Rightarrow>
          (case resolve_agent_groups ep (gi_agent_id args) w of
             (Inl e, w) \<Rightarrow> (Inl e, db, w)
           | (Inr agent_groups, w) \<Rightarrow>
              if \<not> can_on_agent caps ACTION_MODIFY_GROUP (gi_agent_id args) agent_groups
              then refuse (''Credential lacks agent:modify_group on agent '' @ gi_agent_id args @ '' (groups: '' @ groups_text agent_groups
                @ ''). Group management is typically Superuser-scoped; Wolf only offers actions the credential's Wazuh RBAC permits.'', NOT_AUTHORIZED) w
              else (case queue_agent_action ttl ctx args db of (out, db) \<Rightarrow> (Inr out, db, w)))))"

section \<open>Rule tuning\<close>

record rule_tuning_input =
  ri_rule_id :: string
  ri_operation :: string
  ri_level :: "int option"
  ri_rationale :: string
  ri_expected_effect :: string
  ri_alert_ids :: "string list"

definition OP_RESTORE_RULES :: string where "OP_RESTORE_RULES = ''restore_rules''"

definition RULE_OP_LABELS :: "(string \<times> string) list" where
  "RULE_OP_LABELS = [(OP_DISABLE_RULE, ''Disable rule''), (OP_ADJUST_LEVEL, ''Adjust rule level''), (OP_RESTORE_RULES, ''Restore rules file'')]"

definition rule_tuning_query :: "rule_tuning_input \<Rightarrow> dict" where
  "rule_tuning_query args = [(''rule_id'', PStr (ri_rule_id args)), (''operation'', PStr (ri_operation args)),
     (''level'', case ri_level args of Some n \<Rightarrow> PInt n | None \<Rightarrow> PNone),
     (''rationale'', PStr (ri_rationale args)), (''expected_effect'', PStr (ri_expected_effect args)),
     (''alert_ids'', PList (map PStr (ri_alert_ids args)))]"

definition propose_rule_restore ::
  "int \<Rightarrow> organization_context \<Rightarrow> rule_tuning_input \<Rightarrow> 'z database_scheme \<Rightarrow> propose_output \<times> 'z database_scheme" where
  "propose_rule_restore ttl ctx args db =
    (let rule_id = py_strip (ri_rule_id args) in
     case find_active_action db (oc_organization_id ctx) ''rule_tuning'' (\<lambda>p. py_str (dget_or (ap_target p) ''rule_id'' (PStr [])) = rule_id) of
       None \<Rightarrow> refused ''propose_rule_tuning'' (rule_tuning_query args)
         (''No active Wolf rule change on rule '' @ rule_id @ '' to restore.'',
          ''Nothing to undo - Wolf has no active tuning recorded for this rule.'') db
     | Some prior \<Rightarrow>
        (let expected = or_text (ri_expected_effect args) (''Restore rule '' @ rule_id @ '' to its prior state - undoes the earlier ''
               @ underscores_to_spaces (ap_action prior) @ '' (proposal '' @ uuid_str (ap_id prior) @ '').'');
             (proposal, db) = create_reversal_proposal ttl db prior (oc_user_id ctx) OP_RESTORE_RULES []
               (or_text (py_strip (ri_rationale args)) (''Undo of the earlier rule change. '' @ recall prior)) expected
               (Some [(''reverses_proposal_id'', PStr (uuid_str (ap_id prior))), (''original_rationale'', PStr (ap_rationale prior))])
               None (Some (oc_session_id ctx))
         in queued_output ''propose_rule_tuning'' (rule_tuning_query args) proposal
           (''Proposed restoring rule '' @ rule_id @ '' (undoes proposal '' @ uuid_str (ap_id prior) @ ''). '' @ recall prior @ '' Awaiting approval.'') [] db))"

definition rule_level :: "rule_tuning_input \<Rightarrow> pyval" where
  "rule_level args = (if py_strip (ri_operation args) = OP_DISABLE_RULE then PInt DISABLE_LEVEL
     else case ri_level args of Some n \<Rightarrow> PInt n | None \<Rightarrow> PNone)"

definition queue_rule_tuning ::
  "int \<Rightarrow> organization_context \<Rightarrow> rule_tuning_input \<Rightarrow> 'z database_scheme \<Rightarrow> propose_output \<times> 'z database_scheme" where
  "queue_rule_tuning ttl ctx args db =
    (let operation = py_strip (ri_operation args); rule_id = py_strip (ri_rule_id args); level = rule_level args;
         label = label_of RULE_OP_LABELS operation;
         descr = ''rule '' @ rule_id @ (if operation = OP_ADJUST_LEVEL then '' -> level '' @ py_str level else []);
         rationale = or_text (py_strip (ri_rationale args)) NO_RATIONALE;
         expected = or_text (ri_expected_effect args) (label @ '': '' @ descr @ '' (override in local_rules.xml).'');
         (proposal, db) = create_proposal ttl db (oc_organization_id ctx) (oc_user_id ctx) ''rule_tuning'' [(''rule_id'', PStr rule_id)]
           operation rationale expected (Some [(''alert_ids'', PList (map PStr (ri_alert_ids args)))]) (Some [(''level'', level)])
           None None None (Some (oc_session_id ctx))
     in queued_output ''propose_rule_tuning'' (rule_tuning_query args) proposal
          (''Proposed '' @ py_lower label @ '': '' @ descr
            @ ''; awaiting approval before it is applied (manager-global change, applied via a cluster restart).'') [] db)"

definition run_propose_rule_tuning ::
  "int \<Rightarrow> ('w, 'y) endpoint_scheme \<Rightarrow> organization_context \<Rightarrow> rule_tuning_input \<Rightarrow> 'z database_scheme \<Rightarrow> 'w wazuh
    \<Rightarrow> propose_output result \<times> 'z database_scheme \<times> 'w wazuh" where
  "run_propose_rule_tuning ttl ep ctx args db w =
    (let refuse = (\<lambda>r w. case refused ''propose_rule_tuning'' (rule_tuning_query args) r db of (out, db) \<Rightarrow> (Inr out, db, w)) in
     case fetch_credential_capabilities ep w of (caps, w) \<Rightarrow>
       if \<not> can caps ACTION_UPDATE_RULES RESOURCE_LOCAL_RULES
       then refuse (''Credential lacks rules:update on local_rules.xml. Rule tuning is manager-global / Superuser-scoped; Wolf only offers actions the credential's Wazuh RBAC permits.'',
          ''Not proposed - the Wazuh credential is not authorized for rule tuning.'') w
       else if py_strip (ri_operation args) = OP_RESTORE_RULES
       then (case propose_rule_restore ttl ctx args db of (out, db) \<Rightarrow> (Inr out, db, w))
       else (case validate_proposal ''rule_tuning'' [(''rule_id'', PStr (py_strip (ri_rule_id args)))] (py_strip (ri_operation args))
              [(''level'', rule_level args)] of
           Inl e \<Rightarrow> (Inl e, db, w)
         | Inr verdict \<Rightarrow> if \<not> vr_ok verdict then refuse (vr_reason verdict, VALIDATOR_REFUSAL) w
             else (case queue_rule_tuning ttl ctx args db of (out, db) \<Rightarrow> (Inr out, db, w))))"

section \<open>Configuration changes\<close>

record config_change_input =
  ci_section :: string
  ci_operation :: string
  ci_section_content :: string
  ci_block_key :: string
  ci_user_confirmed :: bool
  ci_rationale :: string
  ci_expected_effect :: string
  ci_alert_ids :: "string list"

definition OP_RESTORE_CONFIG :: string where "OP_RESTORE_CONFIG = ''restore_config''"

definition CONFIG_OP_LABELS :: "(string \<times> string) list" where
  "CONFIG_OP_LABELS = [(OP_UPDATE_SECTION, ''Update configuration section''), (OP_UPSERT_BLOCK, ''Add/update configuration block''),
     (OP_REMOVE_BLOCK, ''Remove configuration block''), (OP_RESTORE_CONFIG, ''Restore configuration'')]"

definition config_change_query :: "config_change_input \<Rightarrow> dict" where
  "config_change_query args = [(''section'', PStr (ci_section args)), (''operation'', PStr (ci_operation args)),
     (''section_content'', PStr (ci_section_content args)), (''block_key'', PStr (ci_block_key args)), (''user_confirmed'', PBool (ci_user_confirmed args)),
     (''rationale'', PStr (ci_rationale args)), (''expected_effect'', PStr (ci_expected_effect args)),
     (''alert_ids'', PList (map PStr (ci_alert_ids args)))]"

definition describe_change :: "string \<Rightarrow> string \<Rightarrow> string \<Rightarrow> bool \<Rightarrow> string" where
  "describe_change operation section block_key adding =
    (if operation = OP_UPDATE_SECTION
     then if adding then ''add <'' @ section @ ''> to ossec.conf'' else ''update <'' @ section @ ''>''
     else let inst = ''<'' @ section @ ''> block '' @ quote block_key
       in if operation = OP_REMOVE_BLOCK then ''remove the '' @ inst
          else if adding then ''add the '' @ inst else ''update the '' @ inst)"

definition key_suffix :: "string \<Rightarrow> string" where
  "key_suffix block_key = (if block_key \<noteq> [] then '' '' @ quote block_key else [])"

definition capture_current :: "string \<Rightarrow> string \<Rightarrow> string \<Rightarrow> string \<Rightarrow> refusal + string" where
  "capture_current raw operation section block_key =
    (if operation = OP_UPDATE_SECTION
     then let blocks = find_section_blocks raw section in
       if length blocks > 1
       then let discriminators = describe_instances blocks;
            hint = (if discriminators \<noteq> []
              then '' Use 'upsert_block' with 'block_key' set to a value unique to ONE instance ('' @ discriminators @ '').''
              else '' The instances are indistinguishable (no field value is unique to one of them) - the file needs a hand fix first.'')
         in Inl (''Section <'' @ section @ ''> appears '' @ show_nat (length blocks)
              @ '' times in ossec.conf; replacing 'the' block is ambiguous under Wazuh's merge semantics.'' @ hint,
              ''Not proposed - <'' @ section @ ''> appears more than once.'')
       else Inr (case blocks of b # _ \<Rightarrow> normalize_block_indent b | [] \<Rightarrow> [])
     else let matches = find_identified_blocks raw section block_key in
       if length matches > 1
       then let discriminators = describe_instances matches;
            guidance = (if discriminators \<noteq> []
              then '' Each instance differs by: '' @ discriminators @ ''. Re-call with 'block_key' set to one of these uniquely-identifying values (e.g. the instance's <hook_url> or other distinguishing field).''
              else '' The matching instances are truly indistinguishable (no field value is unique to one of them) - the file needs a hand fix before Wolf can address that instance.'')
         in Inl (show_nat (length matches) @ '' <'' @ section @ ''> blocks match the key '' @ repr_str block_key @ '' - ambiguous.'' @ guidance,
              ''Not proposed - multiple <'' @ section @ ''> blocks match '' @ quote block_key @ ''.'')
       else if operation = OP_REMOVE_BLOCK \<and> matches = []
       then Inl (''No <'' @ section @ ''> block with key '' @ repr_str block_key @ '' exists in ossec.conf - nothing to remove.'',
              ''Not proposed - no <'' @ section @ ''> block matches '' @ quote block_key @ ''.'')
       else Inr (case matches of b # _ \<Rightarrow> normalize_block_indent b | [] \<Rightarrow> []))"

definition capture_query :: "string \<Rightarrow> string \<Rightarrow> string \<Rightarrow> dict" where
  "capture_query operation section block_key = [(''section'', PStr section), (''operation'', PStr operation), (''block_key'', PStr block_key)]"

text \<open>The per-node reads of \<open>_capture_cluster\<close>, and the two loops that find each node's target.\<close>

fun read_nodes :: "('w, 'y) endpoint_scheme \<Rightarrow> manager_node list \<Rightarrow> (string \<times> string) list \<Rightarrow> 'w wazuh \<Rightarrow> (refusal + (string \<times> string) list) \<times> 'w wazuh" where
  "read_nodes ep [] node_raw w = (Inr node_raw, w)"
| "read_nodes ep (node # nodes) node_raw w =
    (case (case node_configuration_path (mn_name node) of Inl e \<Rightarrow> (Inl e, w) | Inr path \<Rightarrow> get_raw ep path [(''raw'', ''true'')] w) of
       (Inl e, w) \<Rightarrow> (Inl (''Could not read the configuration of cluster node '' @ repr_str (mn_name node) @ '' ('' @ exn_str e
           @ ''); a distributed config change needs every node's current content.'',
           ''Not proposed - node '' @ repr_str (mn_name node) @ '' configuration unreadable.''), w)
     | (Inr raw, w) \<Rightarrow> read_nodes ep nodes (AList.update (mn_name node) raw node_raw) w)"

fun section_targets :: "string \<Rightarrow> (string \<times> string) list \<Rightarrow> refusal + (string \<times> string) list" where
  "section_targets section [] = Inr []"
| "section_targets section ((name, raw) # rest) =
    (let blocks = find_section_blocks raw section in
     if length blocks > 1
     then Inl (''Section <'' @ section @ ''> appears '' @ show_nat (length blocks) @ '' times on cluster node '' @ repr_str name
        @ ''; replacing 'the' block is ambiguous. Use 'upsert_block' with a unique field value.'',
        ''Not proposed - <'' @ section @ ''> appears more than once on '' @ repr_str name @ ''.'')
     else case section_targets section rest of Inl r \<Rightarrow> Inl r
       | Inr targets \<Rightarrow> Inr ((name, case blocks of b # _ \<Rightarrow> normalize_block_indent b | [] \<Rightarrow> []) # targets))"

fun node_matches :: "string \<Rightarrow> string \<Rightarrow> (string \<times> string) list \<Rightarrow> refusal + (string \<times> string list) list" where
  "node_matches section block_key [] = Inr []"
| "node_matches section block_key ((name, raw) # rest) =
    (let matches = find_identified_blocks raw section block_key in
     if length matches > 1
     then let discriminators = describe_instances matches;
          guidance = (if discriminators \<noteq> [] then '' Each differs by: '' @ discriminators @ ''. Re-call with a unique value.''
            else '' They are indistinguishable - hand-fix node '' @ repr_str name @ '' first.'')
       in Inl (show_nat (length matches) @ '' <'' @ section @ ''> blocks match '' @ repr_str block_key @ '' on cluster node '' @ repr_str name
           @ '' - ambiguous.'' @ guidance,
           ''Not proposed - multiple <'' @ section @ ''> blocks match '' @ quote block_key @ '' on '' @ repr_str name @ ''.'')
     else case node_matches section block_key rest of Inl r \<Rightarrow> Inl r | Inr per_node \<Rightarrow> Inr ((name, matches) # per_node))"

definition cluster_targets :: "string \<Rightarrow> string \<Rightarrow> string \<Rightarrow> (string \<times> string) list \<Rightarrow> refusal + (string \<times> string) list" where
  "cluster_targets operation section block_key node_raw =
    (if operation = OP_UPDATE_SECTION then section_targets section node_raw
     else case node_matches section block_key node_raw of
         Inl r \<Rightarrow> Inl r
       | Inr per_node \<Rightarrow>
          (let total = sum_list (map (length \<circ> snd) per_node) in
           if operation = OP_REMOVE_BLOCK \<and> total = 0
           then Inl (''No <'' @ section @ ''> block with key '' @ repr_str block_key @ '' exists on any cluster node - nothing to remove.'',
              ''Not proposed - no <'' @ section @ ''> block matches '' @ quote block_key @ ''.'')
           else if operation = OP_UPSERT_BLOCK \<and> total = 0 then Inr (map (\<lambda>(name, _). (name, [])) node_raw)
           else Inr [(name, normalize_block_indent b). (name, b # _) \<leftarrow> per_node]))"

definition dry_run_refusal :: "string \<Rightarrow> string \<Rightarrow> string \<Rightarrow> string \<Rightarrow> (string \<times> string) list \<Rightarrow> (string \<times> string) list \<Rightarrow> refusal option" where
  "dry_run_refusal operation section block_key new_block node_raw targets =
    (case find (\<lambda>(name, _). build_candidate (the (map_of node_raw name)) operation section block_key new_block = None) targets of
       None \<Rightarrow> None
     | Some (name, _) \<Rightarrow> Some (''The change does not apply cleanly to cluster node '' @ repr_str name @ '' (''
         @ repr_str (label_of CONFIG_OP_LABELS operation) @ '' on <'' @ section @ ''>'' @ key_suffix block_key
         @ ''); that node's file may be malformed or the target ambiguous.'',
         ''Not proposed - the change does not apply cleanly on '' @ repr_str name @ ''.''))"

definition capture_cluster ::
  "('w, 'y) endpoint_scheme \<Rightarrow> manager_node list \<Rightarrow> string \<Rightarrow> string \<Rightarrow> string \<Rightarrow> string \<Rightarrow> 'w wazuh
    \<Rightarrow> (refusal + string \<times> (string \<times> string) list) result \<times> 'w wazuh" where
  "capture_cluster ep nodes operation section block_key new_block w =
    (case read_nodes ep nodes [] w of
       (Inl r, w) \<Rightarrow> (Inr (Inl r), w)
     | (Inr node_raw, w) \<Rightarrow>
        ((case cluster_targets operation section block_key node_raw of
            Inl r \<Rightarrow> Inr (Inl r)
          | Inr targets \<Rightarrow>
             (case dry_run_refusal operation section block_key new_block node_raw targets of
                Some r \<Rightarrow> Inr (Inl r)
              | None \<Rightarrow> (case targets of
                   [] \<Rightarrow> Inl (PyError ''RuntimeError'' ''coroutine raised StopIteration'')
                 | (_, first) # _ \<Rightarrow>
                     Inr (Inr (case map_of targets (mn_name (hd nodes)) of Some c \<Rightarrow> c | None \<Rightarrow> first, targets))))), w))"

definition on_target :: "string \<Rightarrow> string \<Rightarrow> action_proposal \<Rightarrow> bool" where
  "on_target section block_key p \<longleftrightarrow> py_str (dget_or (ap_target p) ''section'' (PStr [])) = section
     \<and> (block_key \<noteq> [] \<longrightarrow> py_str (dget_or (ap_target p) ''block_key'' (PStr [])) = block_key)"

definition propose_config_restore ::
  "int \<Rightarrow> organization_context \<Rightarrow> config_change_input \<Rightarrow> 'z database_scheme \<Rightarrow> propose_output \<times> 'z database_scheme" where
  "propose_config_restore ttl ctx args db =
    (let section = py_strip (ci_section args); block_key = py_strip (ci_block_key args);
         described = ''<'' @ section @ ''>'' @ key_suffix block_key in
     case find_active_action db (oc_organization_id ctx) ''config_change'' (on_target section block_key) of
       None \<Rightarrow> refused ''propose_config_change'' (config_change_query args)
         (''No active Wolf configuration change on '' @ described @ '' to restore.'',
          ''Nothing to undo - Wolf has no active config change recorded for this target.'') db
     | Some prior \<Rightarrow>
        (let expected = or_text (ci_expected_effect args) (''Restore ossec.conf to its prior state - undoes the earlier ''
               @ underscores_to_spaces (ap_action prior) @ '' on '' @ described @ '' (proposal '' @ uuid_str (ap_id prior) @ '').'');
             (proposal, db) = create_reversal_proposal ttl db prior (oc_user_id ctx) OP_RESTORE_CONFIG []
               (or_text (py_strip (ci_rationale args)) (''Undo of the earlier config change. '' @ recall prior)) expected
               (Some [(''reverses_proposal_id'', PStr (uuid_str (ap_id prior))), (''original_rationale'', PStr (ap_rationale prior))])
               None (Some (oc_session_id ctx))
         in queued_output ''propose_config_change'' (config_change_query args) proposal
           (''Proposed restoring ossec.conf (undoes proposal '' @ uuid_str (ap_id prior) @ '' on '' @ described @ ''). '' @ recall prior
             @ '' Awaiting approval.'') [] db))"

text \<open>Steps 4 and 5 of \<open>run\<close>: the captured content with the parameters the deployment adds and the two notes on the
  scope, or a refusal with the query its citation carries.\<close>

record captured =
  cp_current :: string
  cp_parameters :: dict
  cp_scope_note :: string
  cp_scope_detail :: string

definition capture_distributed ::
  "('w, 'y) endpoint_scheme \<Rightarrow> capabilities \<Rightarrow> manager_node list \<Rightarrow> dict \<Rightarrow> string \<Rightarrow> string \<Rightarrow> string \<Rightarrow> dict \<Rightarrow> 'w wazuh
    \<Rightarrow> (dict \<times> refusal + captured) result \<times> 'w wazuh" where
  "capture_distributed ep caps nodes query operation section block_key parameters w =
    (if \<not> can caps ACTION_UPDATE_CLUSTER_CONFIG RESOURCE_NODE_ANY
     then (Inr (Inl (query, (''This is a distributed Wazuh deployment; applying a config change per node needs cluster:update_config, which this credential lacks. Distributed configuration changes are Superuser-scoped.'',
        ''Not proposed - the credential cannot write per-node cluster configuration.''))), w)
     else case capture_cluster ep nodes operation section block_key (py_str (dget_or parameters ''section_content'' (PStr []))) w of
         (Inl e, w) \<Rightarrow> (Inl e, w)
       | (Inr (Inl r), w) \<Rightarrow> (Inr (Inl (query, r)), w)
       | (Inr (Inr (current, node_current)), w) \<Rightarrow>
          (let in_scope = map fst node_current;
               skipped = filter (\<lambda>n. n \<notin> set in_scope) (map mn_name nodes)
           in (Inr (Inr \<lparr>cp_current = current,
                cp_parameters = dset ''node_current_contents'' (PDict (map (\<lambda>(n, c). (n, PStr c)) node_current))
                  (dset ''deployment'' (PStr ''cluster'') parameters),
                cp_scope_note = '' on '' @ show_nat (length in_scope) @ '' of the '' @ show_nat (length nodes) @ '' manager cluster nodes ('' @ join '', '' in_scope @ '')'',
                cp_scope_detail = (if skipped \<noteq> [] then '' Nodes not touched (the target is not present on them, so they are already in the desired state): ''
                  @ join '', '' skipped @ ''.'' else [])\<rparr>), w)))"

definition capture_single ::
  "('w, 'y) endpoint_scheme \<Rightarrow> dict \<Rightarrow> string \<Rightarrow> string \<Rightarrow> string \<Rightarrow> dict \<Rightarrow> 'w wazuh \<Rightarrow> (dict \<times> refusal + captured) result \<times> 'w wazuh" where
  "capture_single ep query operation section block_key parameters w =
    (case get_raw ep ''/manager/configuration'' [(''raw'', ''true'')] w of
       (Inl e, w) \<Rightarrow> (Inr (Inl (query, (''Could not read the current manager configuration ('' @ exn_str e
          @ ''); a config change cannot be proposed without its current content.'',
          ''Not proposed - the current configuration could not be read.''))), w)
     | (Inr raw, w) \<Rightarrow>
        (Inr (case capture_current raw operation section block_key of
           Inl r \<Rightarrow> Inl (capture_query operation section block_key, r)
         | Inr current \<Rightarrow>
            if build_candidate raw operation section block_key (py_str (dget_or parameters ''section_content'' (PStr []))) = None
            then Inl (query, (''The change could not be applied to the current ossec.conf (dry-run failed for ''
               @ repr_str (label_of CONFIG_OP_LABELS operation) @ '' on <'' @ section @ ''>'' @ key_suffix block_key
               @ ''); the file may be malformed or the target ambiguous.'',
               ''Not proposed - the change does not apply cleanly to the current configuration.''))
            else Inr \<lparr>cp_current = current, cp_parameters = parameters, cp_scope_note = [], cp_scope_detail = []\<rparr>), w))"

definition config_target :: "config_change_input \<Rightarrow> dict" where
  "config_target args = (''section'', PStr (py_strip (ci_section args))) #
     (if py_strip (ci_operation args) \<in> {OP_UPSERT_BLOCK, OP_REMOVE_BLOCK} then [(''block_key'', PStr (py_strip (ci_block_key args)))] else [])"

definition config_parameters :: "config_change_input \<Rightarrow> dict" where
  "config_parameters args = (if py_strip (ci_operation args) \<noteq> OP_REMOVE_BLOCK
     then [(''section_content'', PStr (py_strip (ci_section_content args)))] else [])"

text \<open>Step 6: without the analyst's confirmation a preview, else the queued proposal.\<close>

definition preview_or_queue ::
  "int \<Rightarrow> organization_context \<Rightarrow> config_change_input \<Rightarrow> captured \<Rightarrow> 'z database_scheme \<Rightarrow> propose_output \<times> 'z database_scheme" where
  "preview_or_queue ttl ctx args cap db =
    (let operation = py_strip (ci_operation args); section = py_strip (ci_section args); block_key = py_strip (ci_block_key args);
         current = cp_current cap;
         describe = describe_change operation section block_key (current = [])
     in if \<not> ci_user_confirmed args
        then let (c, db) = make_citation ''propose_config_change'' (config_change_query args) (Some 1) db
          in (\<lparr>po_permitted = False, po_state = ''needs_confirmation'', po_proposal_id = [],
               po_summary = ''PREVIEW ONLY - nothing was proposed yet. The change would '' @ describe @ cp_scope_note cap
                 @ ''. Show the analyst the exact current vs proposed content, ask them to confirm, then re-call with user_confirmed=true.'',
               po_detail = ''Awaiting the analyst's explicit confirmation of the exact change (current_content holds the live content it replaces).''
                 @ cp_scope_detail cap,
               po_current_content = current, po_citation = c\<rparr>, db)
        else let rationale = or_text (py_strip (ci_rationale args)) NO_RATIONALE;
            expected = or_text (ci_expected_effect args) (label_of CONFIG_OP_LABELS operation @ '': '' @ describe @ cp_scope_note cap
              @ '' (manager-global; applied via a cluster restart).'');
            (proposal, db) = create_proposal ttl db (oc_organization_id ctx) (oc_user_id ctx) ''config_change'' (config_target args) operation
              rationale expected (Some [(''alert_ids'', PList (map PStr (ci_alert_ids args)))])
              (Some (dset ''current_content'' (PStr current) (cp_parameters cap))) None None None (Some (oc_session_id ctx))
          in queued_output ''propose_config_change'' (config_change_query args) proposal
               (''Proposed: '' @ describe @ cp_scope_note cap
                 @ '' in ossec.conf; awaiting approval before it is applied (manager-global change, applied via a cluster restart). The approver sees the exact current vs proposed content.'')
               current db)"

definition config_capture ::
  "('w, 'y) endpoint_scheme \<Rightarrow> capabilities \<Rightarrow> config_change_input \<Rightarrow> 'w wazuh \<Rightarrow> (dict \<times> refusal + captured) result \<times> 'w wazuh" where
  "config_capture ep caps args w =
    (let operation = py_strip (ci_operation args); section = py_strip (ci_section args); block_key = py_strip (ci_block_key args);
         query = config_change_query args; parameters = config_parameters args in
     case get_cluster_nodes ep w of
       (Inl e, w) \<Rightarrow> (Inr (Inl (query, (''Could not determine the Wazuh deployment type ('' @ exn_str e
          @ ''); a config change is applied per deployment (all-in-one directly, distributed per cluster node) and cannot proceed blind.'',
          ''Not proposed - the deployment type could not be determined.''))), w)
     | (Inr nodes, w) \<Rightarrow>
        if nodes \<noteq> [] then capture_distributed ep caps nodes query operation section block_key parameters w
        else capture_single ep query operation section block_key parameters w)"

definition run_propose_config_change ::
  "int \<Rightarrow> ('w, 'y) endpoint_scheme \<Rightarrow> organization_context \<Rightarrow> config_change_input \<Rightarrow> 'z database_scheme \<Rightarrow> 'w wazuh
    \<Rightarrow> propose_output result \<times> 'z database_scheme \<times> 'w wazuh" where
  "run_propose_config_change ttl ep ctx args db w =
    (let refuse = (\<lambda>query r w. case refused ''propose_config_change'' query r db of (out, db) \<Rightarrow> (Inr out, db, w)) in
     case fetch_credential_capabilities ep w of (caps, w) \<Rightarrow>
       if \<not> can caps ACTION_UPDATE_MANAGER_CONFIG RESOURCE_ANY
       then refuse (config_change_query args) (''Credential lacks manager:update_config. Configuration changes are manager-global / Superuser-scoped; Wolf only offers actions the credential's Wazuh RBAC permits.'',
          ''Not proposed - the Wazuh credential is not authorized for configuration changes.'') w
       else if py_strip (ci_operation args) = OP_RESTORE_CONFIG
       then (case propose_config_restore ttl ctx args db of (out, db) \<Rightarrow> (Inr out, db, w))
       else (case validate_proposal ''config_change'' (config_target args) (py_strip (ci_operation args)) (config_parameters args) of
           Inl e \<Rightarrow> (Inl e, db, w)
         | Inr verdict \<Rightarrow>
            if \<not> vr_ok verdict then refuse (config_change_query args) (vr_reason verdict, VALIDATOR_REFUSAL) w
            else (case config_capture ep caps args w of
                (Inl e, w) \<Rightarrow> (Inl e, db, w)
              | (Inr (Inl (query, r)), w) \<Rightarrow> refuse query r w
              | (Inr (Inr cap), w) \<Rightarrow> (case preview_or_queue ttl ctx args cap db of (out, db) \<Rightarrow> (Inr out, db, w)))))"

section \<open>The ledger read\<close>

record active_block =
  ab_proposal_id :: string
  ab_agent_id :: string
  ab_target :: string
  ab_target_kind :: string
  ab_command :: string
  ab_reason :: string
  ab_blocked_at :: string
  ab_auto_unblock_at :: "string option"

definition active_block_of :: "action_proposal \<Rightarrow> active_block" where
  "active_block_of p =
    (let srcip = dget (ap_parameters p) ''srcip''; username = dget (ap_parameters p) ''username''
     in \<lparr>ab_proposal_id = uuid_str (ap_id p), ab_agent_id = py_str (dget_or (ap_target p) ''agent_id'' (PStr [])),
         ab_target = py_str (py_or srcip (py_or username (PStr []))),
         ab_target_kind = (if truthy srcip then ''srcip'' else if truthy username then ''username'' else ''none''),
         ab_command = ap_action p, ab_reason = ap_rationale p, ab_blocked_at = isoformat (when_of p),
         ab_auto_unblock_at = map_option isoformat (ap_auto_unblock_at p)\<rparr>)"

definition run_list_active_blocks ::
  "organization_context \<Rightarrow> nat \<Rightarrow> 'z database_scheme \<Rightarrow> (active_block list \<times> citation) \<times> 'z database_scheme" where
  "run_list_active_blocks ctx limit db =
    (let rows = list_active_blocks db (oc_organization_id ctx) ''active_response'' limit;
         (c, db) = make_citation ''list_active_blocks'' [(''limit'', PInt (int limit))] (Some (int (length rows))) db
     in ((map active_block_of rows, c), db))"

section \<open>The four tools\<close>

datatype propose_call =
    ProposeActiveResponse ar_input
  | ProposeAgentAction agent_action_input
  | ProposeRuleTuning rule_tuning_input
  | ProposeConfigChange config_change_input

fun run_propose ::
  "int \<Rightarrow> ('w, 'y) endpoint_scheme \<Rightarrow> organization_context \<Rightarrow> propose_call \<Rightarrow> 'z database_scheme \<Rightarrow> 'w wazuh
    \<Rightarrow> propose_output result \<times> 'z database_scheme \<times> 'w wazuh" where
  "run_propose ttl ep ctx (ProposeActiveResponse args) db w = run_propose_active_response ttl ep ctx args db w"
| "run_propose ttl ep ctx (ProposeAgentAction args) db w = run_propose_agent_action ttl ep ctx args db w"
| "run_propose ttl ep ctx (ProposeRuleTuning args) db w = run_propose_rule_tuning ttl ep ctx args db w"
| "run_propose ttl ep ctx (ProposeConfigChange args) db w = run_propose_config_change ttl ep ctx args db w"

end
