(* ===== verification/Propose_Gate.thy ===== *)
theory Propose_Gate
  imports Propose_Tools
begin

text \<open>
  What the propose tools do to the ledger and to the manager: an accepted call adds one pending row of
  the caller, past the validator and the capability pre-flight, everything else leaves the tables
  alone, and the manager only ever sees reads.
\<close>

section \<open>Reads of the manager\<close>

definition reads :: "'u endpoint \<Rightarrow> ('u \<times> http_request list) wazuh \<Rightarrow> ('u \<times> http_request list) wazuh \<Rightarrow> bool" where
  "reads ep w w' \<longleftrightarrow> action_token w' = action_token w \<and> (\<exists>rqs. snd (remote w') = snd (remote w) @ rqs
     \<and> (\<forall>q \<in> set rqs. q = auth_request ep \<or> rq_method q = ''GET'' \<and> rq_body q = NoBody))"

lemma reads_refl [simp]: "reads ep w w"
  by (simp add: reads_def)

lemma reads_trans: "reads ep w w' \<Longrightarrow> reads ep w' w'' \<Longrightarrow> reads ep w w''"
  unfolding reads_def by (metis (no_types, lifting) Un_iff append.assoc set_append)

lemma read_request_reads: "reads ep w (snd (read_request (logged ep) ''GET'' path params w))"
proof -
  obtain r w' where r: "read_request (logged ep) ''GET'' path params w = (r, w')" by (metis surj_pair)
  then have "action_token w' = action_token w" by (auto simp: read_request_def split: prod.splits)
  with read_request_logged [OF r] show ?thesis unfolding r reads_def sent_def by auto
qed

lemma api_get_reads: "reads ep w (snd (api_get (logged ep) path params w))"
  using read_request_reads [of ep w path params] by (auto simp: api_get_def request_def split: prod.splits sum.splits)

lemma get_raw_reads: "reads ep w (snd (get_raw (logged ep) path params w))"
  using read_request_reads [of ep w path params] by (auto simp: get_raw_def split: prod.splits sum.splits)

lemma reader_reads:
  "reads ep w (snd (fetch_credential_capabilities (logged ep) w))"
  "reads ep w (snd (resolve_agent_groups (logged ep) i w))"
  "reads ep w (snd (resolve_agent_os (logged ep) i w))"
  using api_get_reads [of ep w]
  by (auto simp: fetch_credential_capabilities_def resolve_agent_groups_def resolve_agent_os_def split: prod.splits sum.splits)
    (metis snd_conv)+

lemma get_cluster_nodes_reads: "reads ep w (snd (get_cluster_nodes (logged ep) w))"
proof -
  obtain r1 w1 where 1: "api_get (logged ep) ''/cluster/status'' [] w = (r1, w1)" by (metis surj_pair)
  obtain r2 w2 where 2: "api_get (logged ep) ''/cluster/nodes'' [] w1 = (r2, w2)" by (metis surj_pair)
  have "reads ep w w1" "reads ep w1 w2" using api_get_reads 1 2 by (metis snd_conv)+
  then have "reads ep w w1" "reads ep w w2" by (auto intro: reads_trans)
  then show ?thesis unfolding get_cluster_nodes_def 1 by (auto simp: 2 split: sum.splits pyval.splits)
qed

lemma readersD:
  "fetch_credential_capabilities (logged ep) w = (caps, w') \<Longrightarrow> reads ep w w'"
  "resolve_agent_groups (logged ep) i w = (g, w') \<Longrightarrow> reads ep w w'"
  "resolve_agent_os (logged ep) i w = (os, w') \<Longrightarrow> reads ep w w'"
  "get_cluster_nodes (logged ep) w = (n, w') \<Longrightarrow> reads ep w w'"
  "get_raw (logged ep) path params w = (t, w') \<Longrightarrow> reads ep w w'"
  using reader_reads [of ep w] get_cluster_nodes_reads [of ep w] get_raw_reads [of ep w] by (metis snd_conv)+

lemma capability_ok_reads: "capability_ok (logged ep) i w = (r, w') \<Longrightarrow> reads ep w w'"
  by (auto simp: capability_ok_def split: prod.splits sum.splits dest!: readersD intro: reads_trans)

lemma read_nodes_reads: "read_nodes (logged ep) nodes acc w = (r, w') \<Longrightarrow> reads ep w w'"
proof (induction "logged ep" nodes acc w arbitrary: r rule: read_nodes.induct)
  case (2 node nodes acc w)
  then show ?case by (auto split: prod.splits sum.splits dest!: readersD intro: reads_trans)
qed simp

lemma config_capture_reads: "config_capture (logged ep) caps args w = (r, w') \<Longrightarrow> reads ep w w'"
  by (auto simp: config_capture_def capture_distributed_def capture_cluster_def capture_single_def Let_def
      split: prod.splits sum.splits if_splits option.splits list.splits dest!: readersD read_nodes_reads intro: reads_trans)

lemma run_propose_reads:
  assumes "run_propose ttl (logged ep) ctx call db w = (r, db', w')"
  shows "reads ep w w'"
proof (cases call)
  case (ProposeActiveResponse args)
  with assms show ?thesis
    by (auto simp: run_propose_active_response_def propose_forward_def propose_reversal_def Let_def
        split: if_splits prod.splits sum.splits option.splits dest!: readersD capability_ok_reads intro: reads_trans)
next
  case (ProposeAgentAction args)
  with assms show ?thesis
    by (auto simp: run_propose_agent_action_def Let_def
        split: if_splits prod.splits sum.splits dest!: readersD intro: reads_trans)
next
  case (ProposeRuleTuning args)
  with assms show ?thesis
    by (auto simp: run_propose_rule_tuning_def Let_def
        split: if_splits prod.splits sum.splits dest!: readersD intro: reads_trans)
next
  case (ProposeConfigChange args)
  with assms show ?thesis
    by (auto simp: run_propose_config_change_def Let_def
        split: if_splits prod.splits sum.splits dest!: readersD config_capture_reads intro: reads_trans)
qed

section \<open>Effects on the ledger\<close>

text \<open>A call that queues nothing draws readings of the clock and changes no table.\<close>

definition quiet_call :: "'z database_scheme \<Rightarrow> propose_output result \<Rightarrow> 'z database_scheme \<Rightarrow> bool" where
  "quiet_call db r db' \<longleftrightarrow> (\<forall>out. r = Inr out \<longrightarrow> \<not> po_permitted out \<and> po_proposal_id out = [])
     \<and> (\<exists>c. db' = db\<lparr>clock := c\<rparr>)"

text \<open>A call that queues adds one pending row of the caller; an undo also links the active row it reverses.\<close>

definition enqueued :: "organization_context \<Rightarrow> 'z database_scheme \<Rightarrow> action_proposal \<Rightarrow> 'z database_scheme \<Rightarrow> bool" where
  "enqueued ctx db p db' \<longleftrightarrow> ap_state p = Pending \<and> ap_organization_id p = oc_organization_id ctx \<and> ap_requested_by p = oc_user_id ctx
     \<and> ap_approved_by p = None \<and> ap_content_hash p = recompute_content_hash p \<and> ap_id p = uuid_source db 0
     \<and> uuid_source db' = (\<lambda>n. uuid_source db (n + 2))
     \<and> (\<exists>ev. audit_events db' = audit_events db @ [ev] \<and> ae_event_type ev = ''action.proposal.created'')
     \<and> (ap_reverses_proposal_id p = None \<and> proposals db' = proposals db @ [p]
      \<or> (\<exists>block \<in> set (proposals db). active_row (oc_organization_id ctx) (ap_action_class p) block
          \<and> ap_reverses_proposal_id p = Some (ap_id block) \<and> ap_target p = ap_target block
          \<and> proposals db' = replace_by ap_id (block\<lparr>ap_reversal_proposal_id := Some (ap_id p)\<rparr>) (proposals db @ [p])))"

definition settled ::
  "organization_context \<Rightarrow> (action_proposal \<Rightarrow> bool) \<Rightarrow> 'z database_scheme \<Rightarrow> propose_output result \<Rightarrow> 'z database_scheme \<Rightarrow> bool" where
  "settled ctx ok db r db' \<longleftrightarrow> quiet_call db r db'
     \<or> (\<exists>out p. r = Inr out \<and> po_permitted out \<and> po_proposal_id out = uuid_str (ap_id p) \<and> enqueued ctx db p db' \<and> ok p)"

lemma settled_raise [simp]: "settled ctx ok db (Inl e) db"
proof -
  have "db = db\<lparr>clock := clock db\<rparr>" by simp
  then show ?thesis unfolding settled_def quiet_call_def by blast
qed

lemma refused_settled: "refused tool query why db = (out, db') \<Longrightarrow> settled ctx ok db (Inr out) db'"
  by (auto simp: settled_def quiet_call_def refused_def make_citation_def utcnow_def)

lemma citation_db: "snd (make_citation tool query n db) = db\<lparr>clock := \<lambda>n. clock db (Suc n)\<rparr>"
  by (simp add: make_citation_def utcnow_def)

lemma queued_outputD:
  assumes "queued_output tool query p summary current db1 = (out, db')"
  shows "po_permitted out" "po_proposal_id out = uuid_str (ap_id p)" "db' = db1\<lparr>clock := \<lambda>n. clock db1 (Suc n)\<rparr>"
  using assms by (auto simp: queued_output_def make_citation_def utcnow_def)

lemma enqueued_clock: "enqueued ctx db p (db1\<lparr>clock := c\<rparr>) = enqueued ctx db p db1"
  by (simp add: enqueued_def)

lemma create_settled:
  assumes "create_proposal ttl db (oc_organization_id ctx) (oc_user_id ctx) cls tgt act rat eff ev (Some pa) None None ts ses = (p, db1)"
    "queued_output tool query p summary current db1 = (out, db')"
    and "ap_action_class p = cls \<Longrightarrow> ap_target p = tgt \<Longrightarrow> ap_action p = act \<Longrightarrow> ap_parameters p = pa \<Longrightarrow> ap_reverses_proposal_id p = None \<Longrightarrow> ok p"
  shows "settled ctx ok db (Inr out) db'"
proof -
  note row = create_proposal_row [OF assms(1)] and d = create_proposal_db [OF assms(1)]
  have "enqueued ctx db p db1"
    using row d create_proposal_sources(1) [OF assms(1)] unfolding enqueued_def by auto
  moreover have "ok p" using assms(3) row by simp
  ultimately show ?thesis using queued_outputD [OF assms(2)] by (auto simp: settled_def enqueued_clock)
qed

lemma reversal_settled:
  assumes "find_active_action db (oc_organization_id ctx) cls m = Some block"
    "create_reversal_proposal ttl db block (oc_user_id ctx) act pa rat eff ev ts ses = (p, db1)"
    "queued_output tool query p summary current db1 = (out, db')"
    and "ap_action_class p = cls \<Longrightarrow> ap_target p = ap_target block \<Longrightarrow> ap_action p = act \<Longrightarrow> ap_parameters p = pa
      \<Longrightarrow> ap_reverses_proposal_id p \<noteq> None \<Longrightarrow> ok p"
  shows "settled ctx ok db (Inr out) db'"
proof -
  obtain dbc where c: "create_proposal ttl db (ap_organization_id block) (oc_user_id ctx) (ap_action_class block) (ap_target block)
      act rat eff ev (Some pa) None (Some (ap_id block)) ts ses = (p, dbc)"
    using assms(2) by (auto simp: create_reversal_proposal_def split: prod.splits)
  note row = create_proposal_row [OF c] and b = find_active_action_SomeD [OF assms(1)] and d = create_reversal_proposal_db [OF assms(2)]
  have cls: "ap_action_class block = cls" "ap_organization_id block = oc_organization_id ctx" using b by (auto simp: active_row_def)
  have "enqueued ctx db p db1"
    using row b d cls unfolding enqueued_def by auto
  moreover have "ok p" using assms(4) row cls by simp
  ultimately show ?thesis using queued_outputD [OF assms(3)] by (auto simp: settled_def enqueued_clock)
qed

section \<open>What an accepted call has passed\<close>

definition validated :: "action_proposal \<Rightarrow> bool" where
  "validated p \<longleftrightarrow> (\<exists>v. validate_proposal (ap_action_class p) (ap_target p) (ap_action p) (ap_parameters p) = Inr v \<and> vr_ok v)"

text \<open>The permission each tool asks the credential for.\<close>

fun permission :: "propose_call \<Rightarrow> capabilities \<Rightarrow> string list \<Rightarrow> bool" where
  "permission (ProposeActiveResponse args) caps gs = can_on_agent caps ACTION_ACTIVE_RESPONSE (ai_agent_id args) gs"
| "permission (ProposeAgentAction args) caps gs = can_on_agent caps ACTION_MODIFY_GROUP (gi_agent_id args) gs"
| "permission (ProposeRuleTuning args) caps gs = can caps ACTION_UPDATE_RULES RESOURCE_LOCAL_RULES"
| "permission (ProposeConfigChange args) caps gs = can caps ACTION_UPDATE_MANAGER_CONFIG RESOURCE_ANY"

fun agent_of :: "propose_call \<Rightarrow> string option" where
  "agent_of (ProposeActiveResponse args) = Some (ai_agent_id args)"
| "agent_of (ProposeAgentAction args) = Some (gi_agent_id args)"
| "agent_of _ = None"

fun class_of :: "propose_call \<Rightarrow> string" where
  "class_of (ProposeActiveResponse args) = ''active_response''"
| "class_of (ProposeAgentAction args) = ''agent_action''"
| "class_of (ProposeRuleTuning args) = ''rule_tuning''"
| "class_of (ProposeConfigChange args) = ''config_change''"

text \<open>The manager has reported, when asked, policies and groups that permit the call.\<close>

definition preflight :: "('w, 'y) endpoint_scheme \<Rightarrow> propose_call \<Rightarrow> bool" where
  "preflight ep call \<longleftrightarrow> (\<exists>w1 w2 gs. permission call (fst (fetch_credential_capabilities ep w1)) gs
     \<and> (\<forall>i. agent_of call = Some i \<longrightarrow> fst (resolve_agent_groups ep i w2) = Inr gs))"

fun confirmed :: "propose_call \<Rightarrow> bool" where
  "confirmed (ProposeConfigChange args) = ci_user_confirmed args"
| "confirmed _ = True"

definition past_gates :: "('w, 'y) endpoint_scheme \<Rightarrow> propose_call \<Rightarrow> action_proposal \<Rightarrow> bool" where
  "past_gates ep call p \<longleftrightarrow> ap_action_class p = class_of call \<and> preflight ep call
     \<and> (ap_reverses_proposal_id p = None \<longrightarrow> confirmed call)
     \<and> (ap_reverses_proposal_id p = None \<or> class_of call = ''active_response'' \<longrightarrow> validated p)"

lemma capability_ok_preflight:
  assumes "capability_ok ep i w = (Inr (True, gs), w')"
  shows "preflight ep (ProposeActiveResponse args) \<or> ai_agent_id args \<noteq> i"
proof -
  obtain caps w1 where c: "fetch_credential_capabilities ep w = (caps, w1)" by (metis surj_pair)
  with assms have "resolve_agent_groups ep i w1 = (Inr gs, w')" "can_on_agent caps ACTION_ACTIVE_RESPONSE i gs"
    by (auto simp: capability_ok_def split: prod.splits sum.splits)
  with c have "permission (ProposeActiveResponse args) (fst (fetch_credential_capabilities ep w)) gs
      \<and> fst (resolve_agent_groups ep i w1) = Inr gs" if "ai_agent_id args = i" using that by simp
  then show ?thesis unfolding preflight_def by force
qed

lemma forward_plan_validated:
  assumes "forward_plan args os = Inr (Inr plan)"
  shows "\<exists>v. validate_proposal ''active_response'' [(''agent_id'', PStr (ai_agent_id args))] (pl_command plan) (pl_parameters plan) = Inr v \<and> vr_ok v"
  using assms by (auto simp: forward_plan_def split: prod.splits sum.splits if_splits)

lemma queue_forward_settled:
  assumes "queue_forward ttl ctx args plan db = (out, db')" "forward_plan args os = Inr (Inr plan)" "preflight ep (ProposeActiveResponse args)"
  shows "settled ctx (past_gates ep (ProposeActiveResponse args)) db (Inr out) db'"
proof -
  obtain rat eff p db1 summary where
    "create_proposal ttl db (oc_organization_id ctx) (oc_user_id ctx) ''active_response'' [(''agent_id'', PStr (ai_agent_id args))]
       (pl_command plan) rat eff (Some [(''alert_ids'', PList (map PStr (ai_alert_ids args)))]) (Some (pl_parameters plan)) None None None (Some (oc_session_id ctx)) = (p, db1)"
    "queued_output ''propose_active_response'' (ar_query args) p summary [] db1 = (out, db')"
    using assms(1) unfolding queue_forward_def Let_def by (auto split: prod.splits)
  then show ?thesis
    using forward_plan_validated [OF assms(2)] assms(3) by (rule_tac create_settled) (auto simp: past_gates_def validated_def)
qed

lemma queue_undo_settled:
  assumes "queue_undo ttl ctx args tgt block pa db = (out, db')" "find_active_action db (oc_organization_id ctx) ''active_response'' m = Some block"
    "preflight ep (ProposeActiveResponse args)" "validate_proposal ''active_response'' (ap_target block) (ap_action block) pa = Inr v" "vr_ok v"
  shows "settled ctx (past_gates ep (ProposeActiveResponse args)) db (Inr out) db'"
proof -
  obtain rat eff ev p db1 summary where
    "create_reversal_proposal ttl db block (oc_user_id ctx) (ap_action block) pa rat eff ev None (Some (oc_session_id ctx)) = (p, db1)"
    "queued_output ''propose_active_response'' (ar_query args) p summary [] db1 = (out, db')"
    using assms(1) unfolding queue_undo_def Let_def by (auto split: prod.splits)
  then show ?thesis
    using assms(3-) by (rule_tac reversal_settled [OF assms(2)]) (auto simp: past_gates_def validated_def)
qed

lemma active_response_settled:
  assumes "run_propose_active_response ttl ep ctx args db w = (r, db', w')"
  shows "settled ctx (past_gates ep (ProposeActiveResponse args)) db r db'"
proof (cases "ai_intent args \<in> set REVERSE_INTENTS")
  case True
  with assms have "propose_reversal ttl ep ctx args db w = (r, db', w')" by (simp add: run_propose_active_response_def)
  then consider (refusal) why out where "r = Inr out" "refused ''propose_active_response'' (ar_query args) why db = (out, db')"
    | (raise) e where "r = Inl e" "db' = db"
    | (queue) block tgt pa v gs w1 w2 m out where "r = Inr out" "find_active_action db (oc_organization_id ctx) ''active_response'' m = Some block"
        "capability_ok ep (ai_agent_id args) w1 = (Inr (True, gs), w2)"
        "validate_proposal ''active_response'' (ap_target block) (ap_action block) pa = Inr v" "vr_ok v"
        "queue_undo ttl ctx args tgt block pa db = (out, db')"
    unfolding propose_reversal_def Let_def find_active_block_def
    by (auto split: sum.splits prod.splits option.splits if_splits)
  then show ?thesis
  proof cases
    case refusal
    then show ?thesis using refused_settled by blast
  next
    case raise
    then show ?thesis by simp
  next
    case queue
    then show ?thesis using queue_undo_settled capability_ok_preflight [OF queue(3), of args] by blast
  qed
next
  case False
  with assms have "propose_forward ttl ep ctx args db w = (r, db', w')" by (simp add: run_propose_active_response_def)
  then consider (refusal) why out where "r = Inr out" "refused ''propose_active_response'' (ar_query args) why db = (out, db')"
    | (raise) e where "r = Inl e" "db' = db"
    | (queue) os plan gs w1 w2 out where "r = Inr out" "forward_plan args os = Inr (Inr plan)"
        "capability_ok ep (ai_agent_id args) w1 = (Inr (True, gs), w2)" "queue_forward ttl ctx args plan db = (out, db')"
    unfolding propose_forward_def Let_def by (auto split: sum.splits prod.splits if_splits)
  then show ?thesis
  proof cases
    case refusal
    then show ?thesis using refused_settled by blast
  next
    case raise
    then show ?thesis by simp
  next
    case queue
    then show ?thesis using queue_forward_settled capability_ok_preflight [OF queue(3), of args] by blast
  qed
qed

lemma agent_action_settled:
  assumes "run_propose_agent_action ttl ep ctx args db w = (r, db', w')"
  shows "settled ctx (past_gates ep (ProposeAgentAction args)) db r db'"
proof -
  let ?op = "py_strip (gi_operation args)" and ?pa = "[(''group'', PStr (py_strip (gi_group args)))]"
  from assms consider (refusal) why out where "r = Inr out" "refused ''propose_agent_action'' (agent_action_query args) why db = (out, db')"
    | (raise) e where "r = Inl e" "db' = db"
    | (queue) v caps gs w1 out where "r = Inr out" "validate_proposal ''agent_action'' [(''agent_id'', PStr (gi_agent_id args))] ?op ?pa = Inr v" "vr_ok v"
        "fetch_credential_capabilities ep w = (caps, w1)" "resolve_agent_groups ep (gi_agent_id args) w1 = (Inr gs, w')"
        "can_on_agent caps ACTION_MODIFY_GROUP (gi_agent_id args) gs" "queue_agent_action ttl ctx args db = (out, db')"
    unfolding run_propose_agent_action_def Let_def by (auto split: sum.splits prod.splits if_splits)
  then show ?thesis
  proof cases
    case refusal
    then show ?thesis using refused_settled by blast
  next
    case raise
    then show ?thesis by simp
  next
    case queue
    have pre: "preflight ep (ProposeAgentAction args)"
      unfolding preflight_def by (rule exI [of _ w], rule exI [of _ w1], rule exI [of _ gs]) (use queue in simp)
    consider (undo) m prior rat eff ev p db1 summary where "find_active_action db (oc_organization_id ctx) ''agent_action'' m = Some prior"
        "create_reversal_proposal ttl db prior (oc_user_id ctx) ?op ?pa rat eff ev None (Some (oc_session_id ctx)) = (p, db1)"
        "queued_output ''propose_agent_action'' (agent_action_query args) p summary [] db1 = (out, db')"
      | (forward) rat eff ev p db1 summary where "create_proposal ttl db (oc_organization_id ctx) (oc_user_id ctx) ''agent_action''
          [(''agent_id'', PStr (gi_agent_id args))] ?op rat eff ev (Some ?pa) None None None (Some (oc_session_id ctx)) = (p, db1)"
        "queued_output ''propose_agent_action'' (agent_action_query args) p summary [] db1 = (out, db')"
      using queue(7) unfolding queue_agent_action_def Let_def by (auto split: prod.splits option.splits if_splits)
    then show ?thesis
    proof cases
      case undo
      show ?thesis unfolding queue(1) by (rule reversal_settled [OF undo]) (use pre in \<open>auto simp: past_gates_def\<close>)
    next
      case forward
      show ?thesis unfolding queue(1) by (rule create_settled [OF forward]) (use pre queue(2,3) in \<open>auto simp: past_gates_def validated_def\<close>)
    qed
  qed
qed

lemma rule_tuning_settled:
  assumes "run_propose_rule_tuning ttl ep ctx args db w = (r, db', w')"
  shows "settled ctx (past_gates ep (ProposeRuleTuning args)) db r db'"
proof -
  let ?op = "py_strip (ri_operation args)" and ?pa = "[(''level'', rule_level args)]" and ?tgt = "[(''rule_id'', PStr (py_strip (ri_rule_id args)))]"
  have pre: "preflight ep (ProposeRuleTuning args)" if "can (fst (fetch_credential_capabilities ep w)) ACTION_UPDATE_RULES RESOURCE_LOCAL_RULES"
    using that unfolding preflight_def by auto
  from assms consider (refusal) why out where "r = Inr out" "refused ''propose_rule_tuning'' (rule_tuning_query args) why db = (out, db')"
    | (raise) e where "r = Inl e" "db' = db"
    | (restore) out where "r = Inr out" "can (fst (fetch_credential_capabilities ep w)) ACTION_UPDATE_RULES RESOURCE_LOCAL_RULES"
        "propose_rule_restore ttl ctx args db = (out, db')"
    | (queue) v out where "r = Inr out" "can (fst (fetch_credential_capabilities ep w)) ACTION_UPDATE_RULES RESOURCE_LOCAL_RULES"
        "validate_proposal ''rule_tuning'' ?tgt ?op ?pa = Inr v" "vr_ok v" "queue_rule_tuning ttl ctx args db = (out, db')"
    unfolding run_propose_rule_tuning_def Let_def by (auto split: sum.splits prod.splits if_splits)
  then show ?thesis
  proof cases
    case refusal
    then show ?thesis using refused_settled by blast
  next
    case raise
    then show ?thesis by simp
  next
    case restore
    consider (refusal) why where "refused ''propose_rule_tuning'' (rule_tuning_query args) why db = (out, db')"
      | (undo) m prior rat eff ev p db1 summary where "find_active_action db (oc_organization_id ctx) ''rule_tuning'' m = Some prior"
        "create_reversal_proposal ttl db prior (oc_user_id ctx) OP_RESTORE_RULES [] rat eff ev None (Some (oc_session_id ctx)) = (p, db1)"
        "queued_output ''propose_rule_tuning'' (rule_tuning_query args) p summary [] db1 = (out, db')"
      using restore(3) unfolding propose_rule_restore_def Let_def by (auto split: prod.splits option.splits)
    then show ?thesis unfolding restore(1)
      by cases (auto intro: refused_settled reversal_settled simp: past_gates_def pre [OF restore(2)])
  next
    case queue
    obtain rat eff ev p db1 summary where "create_proposal ttl db (oc_organization_id ctx) (oc_user_id ctx) ''rule_tuning''
          ?tgt ?op rat eff ev (Some ?pa) None None None (Some (oc_session_id ctx)) = (p, db1)"
        "queued_output ''propose_rule_tuning'' (rule_tuning_query args) p summary [] db1 = (out, db')"
      using queue(5) unfolding queue_rule_tuning_def Let_def by (auto split: prod.splits)
    then show ?thesis unfolding queue(1)
      using pre [OF queue(2)] queue(3,4) by (rule_tac create_settled) (auto simp: past_gates_def validated_def)
  qed
qed

text \<open>The configuration validator reads one parameter, so the captured content it has not seen does not matter.\<close>

lemma config_validator_parameters:
  "dget pa ''section_content'' = dget pa' ''section_content'' \<Longrightarrow>
     validate_proposal ''config_change'' tgt act pa = validate_proposal ''config_change'' tgt act pa'"
  by (simp add: validate_proposal_def VALIDATORS_eq validate_config_change_def Let_def)

lemma captured_parameters:
  "config_capture ep caps args w = (Inr (Inr cap), w') \<Longrightarrow> dget (cp_parameters cap) ''section_content'' = dget (config_parameters args) ''section_content''"
  by (auto simp: config_capture_def capture_distributed_def capture_single_def Let_def split: prod.splits sum.splits if_splits)

lemma config_change_settled:
  assumes "run_propose_config_change ttl ep ctx args db w = (r, db', w')"
  shows "settled ctx (past_gates ep (ProposeConfigChange args)) db r db'"
proof -
  let ?op = "py_strip (ci_operation args)"
  have pre: "preflight ep (ProposeConfigChange args)" if "can (fst (fetch_credential_capabilities ep w)) ACTION_UPDATE_MANAGER_CONFIG RESOURCE_ANY"
    using that unfolding preflight_def by auto
  from assms consider (refusal) query why out where "r = Inr out" "refused ''propose_config_change'' query why db = (out, db')"
    | (raise) e where "r = Inl e" "db' = db"
    | (restore) out where "r = Inr out" "can (fst (fetch_credential_capabilities ep w)) ACTION_UPDATE_MANAGER_CONFIG RESOURCE_ANY"
        "propose_config_restore ttl ctx args db = (out, db')"
    | (queue) v caps w1 cap out where "r = Inr out" "can (fst (fetch_credential_capabilities ep w)) ACTION_UPDATE_MANAGER_CONFIG RESOURCE_ANY"
        "validate_proposal ''config_change'' (config_target args) ?op (config_parameters args) = Inr v" "vr_ok v"
        "config_capture ep caps args w1 = (Inr (Inr cap), w')" "preview_or_queue ttl ctx args cap db = (out, db')"
    unfolding run_propose_config_change_def Let_def by (auto split: sum.splits prod.splits if_splits)
  then show ?thesis
  proof cases
    case refusal
    then show ?thesis using refused_settled by blast
  next
    case raise
    then show ?thesis by simp
  next
    case restore
    consider (refusal) why where "refused ''propose_config_change'' (config_change_query args) why db = (out, db')"
      | (undo) m prior rat eff ev p db1 summary where "find_active_action db (oc_organization_id ctx) ''config_change'' m = Some prior"
        "create_reversal_proposal ttl db prior (oc_user_id ctx) OP_RESTORE_CONFIG [] rat eff ev None (Some (oc_session_id ctx)) = (p, db1)"
        "queued_output ''propose_config_change'' (config_change_query args) p summary [] db1 = (out, db')"
      using restore(3) unfolding propose_config_restore_def Let_def by (auto split: prod.splits option.splits)
    then show ?thesis unfolding restore(1)
      by cases (auto intro: refused_settled reversal_settled simp: past_gates_def pre [OF restore(2)])
  next
    case queue
    let ?pa = "dset ''current_content'' (PStr (cp_current cap)) (cp_parameters cap)"
    have v: "validate_proposal ''config_change'' (config_target args) ?op ?pa = Inr v"
      using queue(3) config_validator_parameters [of ?pa "config_parameters args"] captured_parameters [OF queue(5)] by simp
    show ?thesis
    proof (cases "ci_user_confirmed args")
      case True
      obtain rat eff ev p db1 summary where "create_proposal ttl db (oc_organization_id ctx) (oc_user_id ctx) ''config_change''
            (config_target args) ?op rat eff ev (Some ?pa) None None None (Some (oc_session_id ctx)) = (p, db1)"
          "queued_output ''propose_config_change'' (config_change_query args) p summary (cp_current cap) db1 = (out, db')"
        using queue(6) True unfolding preview_or_queue_def Let_def by (auto split: prod.splits)
      then show ?thesis unfolding queue(1)
        using pre [OF queue(2)] v queue(4) True by (rule_tac create_settled) (auto simp: past_gates_def validated_def)
    next
      case False
      then show ?thesis using queue(6) unfolding queue(1)
        by (auto simp: preview_or_queue_def settled_def quiet_call_def make_citation_def utcnow_def Let_def)
    qed
  qed
qed

lemma run_propose_settled:
  assumes "run_propose ttl ep ctx call db w = (r, db', w')"
  shows "settled ctx (past_gates ep call) db r db'"
  using assms active_response_settled agent_action_settled rule_tuning_settled config_change_settled
  by (cases call) auto

end
