(* ===== verification/Proposing.thy ===== *)
theory Proposing
  imports Propose_Gate
begin

text \<open>
  The propose tools as registered tools, and the contract they keep: whatever the model asks for, the
  ledger only gains pending rows of the caller and links to them, the trail only grows, and the manager
  only sees reads.
\<close>

section \<open>The tools as registered\<close>

text \<open>The validated input model as the dict the dispatcher hands over, and the JSON dump of the output.  How Pydantic
  writes a timestamp is the argument \<open>stamp\<close>.\<close>

definition text_of :: "dict \<Rightarrow> string \<Rightarrow> string" where
  "text_of d k = (case dget d k of PStr s \<Rightarrow> s | _ \<Rightarrow> [])"

definition texts_of :: "dict \<Rightarrow> string \<Rightarrow> string list" where
  "texts_of d k = (case dget d k of PList xs \<Rightarrow> [s. PStr s \<leftarrow> xs] | _ \<Rightarrow> [])"

definition ar_input_of :: "dict \<Rightarrow> ar_input" where
  "ar_input_of d = \<lparr>ai_agent_id = text_of d ''agent_id'', ai_intent = text_of d ''intent'', ai_srcip = text_of d ''srcip'',
     ai_username = text_of d ''username'', ai_method = text_of d ''method'', ai_block_duration = text_of d ''block_duration'',
     ai_rationale = text_of d ''rationale'', ai_expected_effect = text_of d ''expected_effect'', ai_alert_ids = texts_of d ''alert_ids''\<rparr>"

definition agent_action_input_of :: "dict \<Rightarrow> agent_action_input" where
  "agent_action_input_of d = \<lparr>gi_agent_id = text_of d ''agent_id'', gi_operation = text_of d ''operation'', gi_group = text_of d ''group'',
     gi_rationale = text_of d ''rationale'', gi_expected_effect = text_of d ''expected_effect'', gi_alert_ids = texts_of d ''alert_ids''\<rparr>"

definition rule_tuning_input_of :: "dict \<Rightarrow> rule_tuning_input" where
  "rule_tuning_input_of d = \<lparr>ri_rule_id = text_of d ''rule_id'', ri_operation = text_of d ''operation'', ri_level = as_int (dget d ''level''),
     ri_rationale = text_of d ''rationale'', ri_expected_effect = text_of d ''expected_effect'', ri_alert_ids = texts_of d ''alert_ids''\<rparr>"

definition config_change_input_of :: "dict \<Rightarrow> config_change_input" where
  "config_change_input_of d = \<lparr>ci_section = text_of d ''section'', ci_operation = text_of d ''operation'',
     ci_section_content = text_of d ''section_content'', ci_block_key = text_of d ''block_key'',
     ci_user_confirmed = (dget d ''user_confirmed'' = PBool True), ci_rationale = text_of d ''rationale'',
     ci_expected_effect = text_of d ''expected_effect'', ci_alert_ids = texts_of d ''alert_ids''\<rparr>"

definition citation_dump :: "(datetime \<Rightarrow> string) \<Rightarrow> citation \<Rightarrow> dict" where
  "citation_dump stamp c = [(''tool'', PStr (ct_tool c)), (''query'', PDict (ct_query c)), (''timestamp'', PStr (stamp (ct_timestamp c))),
     (''result_count'', case ct_result_count c of Some n \<Rightarrow> PInt n | None \<Rightarrow> PNone), (''url'', str_or_none (ct_url c)),
     (''title'', str_or_none (ct_title c)), (''source'', str_or_none (ct_source c))]"

definition output_dump :: "(datetime \<Rightarrow> string) \<Rightarrow> bool \<Rightarrow> propose_output \<Rightarrow> dict" where
  "output_dump stamp with_content out = [(''permitted'', PBool (po_permitted out)), (''state'', PStr (po_state out)),
     (''proposal_id'', PStr (po_proposal_id out)), (''summary'', PStr (po_summary out)), (''detail'', PStr (po_detail out))]
     @ (if with_content then [(''current_content'', PStr (po_current_content out))] else [])
     @ [(''citation'', PDict (citation_dump stamp (po_citation out)))]"

fun is_config_change :: "propose_call \<Rightarrow> bool" where
  "is_config_change (ProposeConfigChange args) = True"
| "is_config_change _ = False"

definition propose_runner ::
  "(datetime \<Rightarrow> string) \<Rightarrow> (dict \<Rightarrow> propose_call) \<Rightarrow> tool_schema \<Rightarrow> (dict \<Rightarrow> dict list + dict) \<Rightarrow> (dict \<Rightarrow> dict list)
    \<Rightarrow> int \<Rightarrow> ('w, 'y) endpoint_scheme \<Rightarrow> organization_context \<Rightarrow> ('z database_scheme \<times> 'w wazuh) tool_runner" where
  "propose_runner stamp call_of schema parse check ttl ep ctx =
    \<lparr>tr_schema = schema, tr_input = parse,
     tr_run = (\<lambda>args (db, w). case run_propose ttl ep ctx (call_of args) db w of
         (Inl e, db, w) \<Rightarrow> (Inl e, (db, w))
       | (Inr out, db, w) \<Rightarrow> (Inr (output_dump stamp (is_config_change (call_of args)) out), (db, w))),
     tr_output = check\<rparr>"

section \<open>Proposing and nothing else\<close>

text \<open>The identifiers in the table are distinct, and the next \<open>k\<close> readings of \<open>uuid4\<close> repeat neither one of them nor
  each other.\<close>

definition unique_ids :: "nat \<Rightarrow> 'z database_scheme \<Rightarrow> bool" where
  "unique_ids k db \<longleftrightarrow> (\<forall>i < k. \<forall>j < k. uuid_source db i = uuid_source db j \<longrightarrow> i = j)
     \<and> (\<forall>i < k. uuid_source db i \<notin> ap_id ` set (proposals db)) \<and> distinct (map ap_id (proposals db))"

definition drawn :: "nat \<Rightarrow> 'z database_scheme \<Rightarrow> 'z database_scheme \<Rightarrow> bool" where
  "drawn n db db' \<longleftrightarrow> uuid_source db' = (\<lambda>i. uuid_source db (n + i))"

definition own_pending :: "organization_context \<Rightarrow> action_proposal \<Rightarrow> bool" where
  "own_pending ctx p \<longleftrightarrow> ap_state p = Pending \<and> ap_organization_id p = oc_organization_id ctx \<and> ap_requested_by p = oc_user_id ctx
     \<and> ap_approved_by p = None \<and> ap_content_hash p = recompute_content_hash p"

definition linked_row :: "organization_context \<Rightarrow> action_proposal \<Rightarrow> action_proposal \<Rightarrow> bool" where
  "linked_row ctx p p' \<longleftrightarrow> p' = p \<or> ap_organization_id p = oc_organization_id ctx \<and> (\<exists>x. p' = p\<lparr>ap_reversal_proposal_id := x\<rparr>)"

definition proposes :: "organization_context \<Rightarrow> action_proposal list \<Rightarrow> action_proposal list \<Rightarrow> bool" where
  "proposes ctx ps ps' \<longleftrightarrow> (\<forall>p \<in> set ps. \<exists>p' \<in> set ps'. linked_row ctx p p')
     \<and> (\<forall>p' \<in> set ps'. (\<exists>p \<in> set ps. linked_row ctx p p') \<or> own_pending ctx p')"

definition only_proposes ::
  "'u endpoint \<Rightarrow> organization_context \<Rightarrow> 'z database_scheme \<times> ('u \<times> http_request list) wazuh
    \<Rightarrow> 'z database_scheme \<times> ('u \<times> http_request list) wazuh \<Rightarrow> bool" where
  "only_proposes ep ctx s t \<longleftrightarrow> reads ep (snd s) (snd t) \<and> prefix (audit_events (fst s)) (audit_events (fst t))
     \<and> (\<exists>n. drawn n (fst s) (fst t) \<and> (\<forall>k. unique_ids (n + k) (fst s) \<longrightarrow>
          unique_ids k (fst t) \<and> proposes ctx (proposals (fst s)) (proposals (fst t))))"

lemma linked_row_trans: "linked_row ctx p q \<Longrightarrow> linked_row ctx q r \<Longrightarrow> linked_row ctx p r"
proof -
  assume pq: "linked_row ctx p q" and qr: "linked_row ctx q r"
  consider "q = p" | x where "ap_organization_id p = oc_organization_id ctx" "q = p\<lparr>ap_reversal_proposal_id := x\<rparr>"
    using pq unfolding linked_row_def by blast
  then show "linked_row ctx p r"
  proof cases
    case 2
    from qr consider "r = q" | y where "r = q\<lparr>ap_reversal_proposal_id := y\<rparr>" unfolding linked_row_def by blast
    then show ?thesis
    proof cases
      case 2
      then have "r = p\<lparr>ap_reversal_proposal_id := y\<rparr>" unfolding \<open>q = _\<close> by simp
      with \<open>ap_organization_id p = _\<close> show ?thesis unfolding linked_row_def by blast
    qed (use pq in simp)
  qed (use qr in simp)
qed

lemma linked_row_pending: "linked_row ctx p q \<Longrightarrow> own_pending ctx p \<Longrightarrow> own_pending ctx q"
  unfolding linked_row_def own_pending_def by (auto simp: recompute_content_hash_def)

lemma proposes_refl: "proposes ctx ps ps"
  unfolding proposes_def linked_row_def by blast

lemma proposes_trans: "proposes ctx ps qs \<Longrightarrow> proposes ctx qs rs \<Longrightarrow> proposes ctx ps rs"
  unfolding proposes_def by (meson linked_row_pending linked_row_trans)

lemma unique_ids_shift:
  assumes "unique_ids (n + k) db" "drawn n db db'" "distinct (map ap_id (proposals db'))"
    "ap_id ` set (proposals db') \<subseteq> ap_id ` set (proposals db) \<union> uuid_source db ` {..<n}"
  shows "unique_ids k db'"
proof -
  have u: "i < n + k \<Longrightarrow> j < n + k \<Longrightarrow> uuid_source db i = uuid_source db j \<Longrightarrow> i = j"
      "i < n + k \<Longrightarrow> uuid_source db i \<notin> ap_id ` set (proposals db)" for i j using assms(1) by (auto simp: unique_ids_def)
  have "uuid_source db (n + i) \<notin> ap_id ` set (proposals db')" if "i < k" for i
  proof
    assume "uuid_source db (n + i) \<in> ap_id ` set (proposals db')"
    then consider "uuid_source db (n + i) \<in> ap_id ` set (proposals db)" | j where "j < n" "uuid_source db (n + i) = uuid_source db j"
      using assms(4) by blast
    then show False
    proof cases
      case 1
      with u(2) [of "n + i"] that show False by simp
    next
      case (2 j)
      with u(1) [of "n + i" j] that show False by simp
    qed
  qed
  moreover have "i = j" if "i < k" "j < k" "uuid_source db (n + i) = uuid_source db (n + j)" for i j
    using u(1) [of "n + i" "n + j"] that by simp
  ultimately show ?thesis using assms(2,3) by (simp add: unique_ids_def drawn_def)
qed

lemma only_proposes_trans:
  assumes st: "only_proposes ep ctx s t" and tu: "only_proposes ep ctx t u"
  shows "only_proposes ep ctx s u"
proof -
  obtain n where n: "drawn n (fst s) (fst t)"
      "\<And>k. unique_ids (n + k) (fst s) \<Longrightarrow> unique_ids k (fst t) \<and> proposes ctx (proposals (fst s)) (proposals (fst t))"
    using st unfolding only_proposes_def by blast
  obtain m where m: "drawn m (fst t) (fst u)"
      "\<And>k. unique_ids (m + k) (fst t) \<Longrightarrow> unique_ids k (fst u) \<and> proposes ctx (proposals (fst t)) (proposals (fst u))"
    using tu unfolding only_proposes_def by blast
  have "drawn (n + m) (fst s) (fst u)" using n(1) m(1) by (simp add: drawn_def add.assoc)
  moreover have "unique_ids k (fst u) \<and> proposes ctx (proposals (fst s)) (proposals (fst u))" if "unique_ids (n + m + k) (fst s)" for k
    using n(2) [of "m + k"] m(2) [of k] that proposes_trans by (auto simp: add.assoc)
  moreover have "reads ep (snd s) (snd u)" using st tu reads_trans unfolding only_proposes_def by blast
  moreover have "prefix (audit_events (fst s)) (audit_events (fst u))"
    using st tu unfolding only_proposes_def by (meson prefix_order.trans)
  ultimately show ?thesis unfolding only_proposes_def by blast
qed

lemma only_proposesI:
  assumes "reads ep w w'" "prefix (audit_events db) (audit_events db')" "drawn n db db'"
    "\<And>k. unique_ids (n + k) db \<Longrightarrow> unique_ids k db' \<and> proposes ctx (proposals db) (proposals db')"
  shows "only_proposes ep ctx (db, w) (db', w')"
  using assms unfolding only_proposes_def fst_conv snd_conv by blast

lemma only_proposes_refl: "only_proposes ep ctx s s"
  by (cases s) (auto intro!: only_proposesI [of _ _ _ _ _ 0] proposes_refl simp: drawn_def)

lemma only_proposes_event: "only_proposes ep ctx (db, x) (snd (write_event db ty dat org usr ses ip rel), x)"
proof (rule only_proposesI [of _ _ _ _ _ 1])
  show "drawn 1 db (snd (write_event db ty dat org usr ses ip rel))" by (simp add: drawn_def audit_simps)
  note d = this
  fix k assume u: "unique_ids (1 + k) db"
  have p: "proposals (snd (write_event db ty dat org usr ses ip rel)) = proposals db" by (simp add: row_simps)
  show "unique_ids k (snd (write_event db ty dat org usr ses ip rel))
      \<and> proposes ctx (proposals db) (proposals (snd (write_event db ty dat org usr ses ip rel)))"
    using unique_ids_shift [OF u d] u unfolding p by (simp add: proposes_refl unique_ids_def [of "Suc k" db])
qed (simp_all add: audit_simps)

interpretation proposing: tool_contract "only_proposes ep ctx" for ep ctx
  by unfold_locales (rule only_proposes_refl, rule only_proposes_trans, assumption+, rule only_proposes_event)

lemma quiet_call_proposes:
  assumes "quiet_call db r db'" "reads ep w w'"
  shows "only_proposes ep ctx (db, w) (db', w')"
proof -
  from assms(1) obtain c where c: "db' = db\<lparr>clock := c\<rparr>" by (auto simp: quiet_call_def)
  have "drawn 0 db db'" "proposals db' = proposals db" "audit_events db' = audit_events db" "unique_ids k db' = unique_ids k db" for k
    by (simp_all add: c drawn_def unique_ids_def)
  then show ?thesis by (intro only_proposesI [OF assms(2), where n = 0]) (simp_all add: proposes_refl)
qed

lemma unique_linked:
  assumes "distinct (map ap_id (proposals db))" "block \<in> set (proposals db)" "p \<in> set (proposals db)" "ap_id p = ap_id block"
  shows "p = block"
  using assms by (metis distinct_map inj_onD)

lemma enqueued_cases:
  assumes "enqueued ctx db p db'"
  obtains (plain) "proposals db' = proposals db @ [p]" "ap_reverses_proposal_id p = None"
    | (undo) block where "block \<in> set (proposals db)" "ap_organization_id block = oc_organization_id ctx"
        "proposals db' = replace_by ap_id (block\<lparr>ap_reversal_proposal_id := Some (ap_id p)\<rparr>) (proposals db @ [p])"
        "ap_reverses_proposal_id p = Some (ap_id block)" "active_row (oc_organization_id ctx) (ap_action_class p) block"
  using assms by (auto simp: enqueued_def active_row_def)

lemma enqueued_ids:
  assumes "enqueued ctx db p db'"
  shows "map ap_id (proposals db') = map ap_id (proposals db) @ [uuid_source db 0]" "drawn 2 db db'"
  using assms by (cases rule: enqueued_cases, simp_all add: enqueued_def drawn_def add.commute)

lemma enqueued_in:
  assumes "enqueued ctx db p db'" "uuid_source db 0 \<notin> ap_id ` set (proposals db)"
  shows "p \<in> set (proposals db')"
proof -
  have fresh: "ap_id p \<notin> ap_id ` set (proposals db)" using assms by (simp add: enqueued_def)
  from assms(1) show ?thesis
  proof (cases rule: enqueued_cases)
    case (undo block)
    then have "ap_id p \<noteq> ap_id block" using fresh by auto
    then show ?thesis unfolding undo(3) replace_by_def by simp
  qed simp
qed

lemma enqueued_unique:
  assumes "enqueued ctx db p db'" "unique_ids (2 + k) db"
  shows "unique_ids k db'" "proposes ctx (proposals db) (proposals db')"
proof -
  have own: "own_pending ctx p" and id: "ap_id p = uuid_source db 0" using assms(1) by (auto simp: enqueued_def own_pending_def)
  have dist: "distinct (map ap_id (proposals db))" and fresh: "ap_id p \<notin> ap_id ` set (proposals db)"
    using assms(2) id by (simp_all add: unique_ids_def)
  note ids = enqueued_ids [OF assms(1)]
  have "ap_id ` set (proposals db') = insert (uuid_source db 0) (ap_id ` set (proposals db))" using arg_cong [OF ids(1), of set] by simp
  with unique_ids_shift [OF assms(2) ids(2)] ids(1) dist fresh id show "unique_ids k db'" by simp
  show "proposes ctx (proposals db) (proposals db')"
    using assms(1)
  proof (cases rule: enqueued_cases)
    case plain
    then show ?thesis using own by (auto simp: proposes_def linked_row_def)
  next
    case (undo block)
    let ?b = "block\<lparr>ap_reversal_proposal_id := Some (ap_id p)\<rparr>"
    have row: "linked_row ctx q (if ap_id q = ap_id ?b then ?b else q)" if "q \<in> set (proposals db)" for q
      using unique_linked [OF dist undo(1) that] undo(2) by (auto simp: linked_row_def)
    have p: "ap_id p \<noteq> ap_id ?b" using fresh undo(1) by auto
    have set: "set (proposals db') = (\<lambda>q. if ap_id q = ap_id ?b then ?b else q) ` set (proposals db) \<union> {p}"
      using p unfolding undo(3) replace_by_def by auto
    show ?thesis unfolding proposes_def set using row own by blast
  qed
qed

lemma enqueued_proposes:
  assumes "enqueued ctx db p db'" "reads ep w w'"
  shows "only_proposes ep ctx (db, w) (db', w')"
proof (rule only_proposesI [OF assms(2) _ enqueued_ids(2) [OF assms(1)]])
  show "prefix (audit_events db) (audit_events db')" using assms(1) by (auto simp: enqueued_def)
qed (use enqueued_unique [OF assms(1)] in blast)

lemma run_propose_proposes:
  assumes "run_propose ttl (logged ep) ctx call db w = (r, db', w')"
  shows "only_proposes ep ctx (db, w) (db', w')"
  using run_propose_settled [OF assms] run_propose_reads [OF assms] quiet_call_proposes enqueued_proposes
  unfolding settled_def by blast

lemma propose_runner_keeps: "keeps (only_proposes ep ctx) (propose_runner stamp call_of schema parse check ttl (logged ep) ctx)"
  unfolding keeps_def
proof (intro allI)
  fix args and s :: "'a database_scheme \<times> ('b \<times> http_request list) wazuh"
  obtain db w where s: "s = (db, w)" by (cases s)
  obtain r db' w' where r: "run_propose ttl (logged ep) ctx (call_of args) db w = (r, db', w')" by (metis surj_pair)
  have "snd (tr_run (propose_runner stamp call_of schema parse check ttl (logged ep) ctx) args s) = (db', w')"
    by (simp add: propose_runner_def s r split: sum.splits)
  with run_propose_proposes [OF r] show "only_proposes ep ctx s (snd (tr_run (propose_runner stamp call_of schema parse check ttl (logged ep) ctx) args s))"
    by (simp add: s)
qed

section \<open>Properties\<close>

text \<open>C9: A call a propose tool accepts has queued exactly the proposal it names, pending, in the caller's organization
  and name, with a content hash that matches; the policies and groups the manager reports permit the
  action to the credential; a forward proposal passed the validator as it stands in the table, and a
  configuration change was confirmed by the analyst; an undo reverses an active row of the same
  organization and class, and an active-response undo passed the validator too.\<close>

theorem queued_proposals_are_past_the_gates:
  assumes run: "run_propose ttl ep ctx call db w = (Inr out, db', w')" "po_permitted out"
    and ids: "uuid_source db 0 \<notin> ap_id ` set (proposals db)"
    and caps: "\<And>w. fst (fetch_credential_capabilities ep w) = caps"
    and groups: "\<And>i w. agent_of call = Some i \<Longrightarrow> fst (resolve_agent_groups ep i w) = Inr gs"
  shows "\<exists>p \<in> set (proposals db'). po_proposal_id out = uuid_str (ap_id p) \<and> ap_state p = Pending
      \<and> ap_organization_id p = oc_organization_id ctx \<and> ap_requested_by p = oc_user_id ctx \<and> ap_action_class p = class_of call
      \<and> ap_content_hash p = recompute_content_hash p \<and> ap_id p \<notin> ap_id ` set (proposals db)
      \<and> permission call caps gs
      \<and> (ap_reverses_proposal_id p = None \<longrightarrow> confirmed call)
      \<and> (ap_reverses_proposal_id p = None \<or> class_of call = ''active_response'' \<longrightarrow> validated p)
      \<and> (\<forall>b. ap_reverses_proposal_id p = Some b \<longrightarrow> (\<exists>block \<in> set (proposals db). ap_id block = b \<and> ap_target p = ap_target block
            \<and> active_row (oc_organization_id ctx) (class_of call) block))"
proof -
  from run_propose_settled [OF run(1)] run(2) obtain p where p: "po_proposal_id out = uuid_str (ap_id p)" "enqueued ctx db p db'" "past_gates ep call p"
    unfolding settled_def quiet_call_def by auto
  from p(3) obtain w1 w2 gs' where pre: "permission call (fst (fetch_credential_capabilities ep w1)) gs'"
      "\<forall>i. agent_of call = Some i \<longrightarrow> fst (resolve_agent_groups ep i w2) = Inr gs'"
    unfolding past_gates_def preflight_def by blast
  have e: "ap_state p = Pending" "ap_organization_id p = oc_organization_id ctx" "ap_requested_by p = oc_user_id ctx"
      "ap_content_hash p = recompute_content_hash p" using p(2) by (simp_all add: enqueued_def)
  have g: "ap_action_class p = class_of call" "ap_reverses_proposal_id p = None \<longrightarrow> confirmed call"
      "ap_reverses_proposal_id p = None \<or> class_of call = ''active_response'' \<longrightarrow> validated p" using p(3) by (simp_all add: past_gates_def)
  have perm: "permission call caps gs"
  proof (cases "agent_of call")
    case None
    with pre(1) caps show ?thesis by (cases call) auto
  next
    case (Some i)
    then have "gs' = gs" using pre(2) groups [of i w2] by simp
    with pre(1) caps show ?thesis by simp
  qed
  have fresh: "ap_id p \<notin> ap_id ` set (proposals db)" using p(2) ids by (simp add: enqueued_def)
  have undo: "\<exists>block \<in> set (proposals db). ap_id block = b \<and> ap_target p = ap_target block \<and> active_row (oc_organization_id ctx) (class_of call) block"
    if "ap_reverses_proposal_id p = Some b" for b
    using p(2,3) that by (auto simp: enqueued_def past_gates_def)
  show ?thesis
    by (rule bexI [OF _ enqueued_in [OF p(2) ids]], intro conjI allI impI) (use p(1) e g perm fresh undo in simp_all)
qed

text \<open>Whatever a propose tool is asked, it only logs in to the manager and sends GETs, on the read client; a call
  that is refused, is a preview or raises leaves the ledger and the trail as they were; an accepted one
  adds one event and one row, and changes no other row but for the link of the one it reverses.\<close>

theorem propose_tools_never_act:
  assumes "run_propose ttl (logged ep) ctx call db w = (r, db', w')"
  shows "reads ep w w'"
    and "(\<forall>out. r = Inr out \<longrightarrow> \<not> po_permitted out) \<Longrightarrow> proposals db' = proposals db \<and> audit_events db' = audit_events db"
    and "unique_ids 2 db \<Longrightarrow> proposes ctx (proposals db) (proposals db')"
    and "length (proposals db') \<le> Suc (length (proposals db)) \<and> length (audit_events db') \<le> Suc (length (audit_events db))"
proof -
  note st = run_propose_settled [OF assms]
  show "reads ep w w'" by (rule run_propose_reads [OF assms])
  show "(\<forall>out. r = Inr out \<longrightarrow> \<not> po_permitted out) \<Longrightarrow> proposals db' = proposals db \<and> audit_events db' = audit_events db"
    using st unfolding settled_def quiet_call_def by auto
  show "proposes ctx (proposals db) (proposals db')" if "unique_ids 2 db"
    using st enqueued_unique(2) [of ctx db _ db' 0] that proposes_refl unfolding settled_def quiet_call_def by auto
  show "length (proposals db') \<le> Suc (length (proposals db)) \<and> length (audit_events db') \<le> Suc (length (audit_events db))"
    using st unfolding settled_def quiet_call_def enqueued_def by auto
qed

text \<open>A manager that reports one policy, and the disabling of a noisy rule.\<close>

definition rules_manager :: "unit endpoint" where
  "rules_manager = \<lparr>ep_send = (\<lambda>rq w. (Inr \<lparr>rs_status = 200, rs_text = [], rs_json = Some (PDict [(''data'',
        if rq_path rq = ''/security/user/authenticate'' then PDict [(''token'', PStr ''t'')]
        else PDict [(''rules:update'', PDict [(''rule:file:local_rules.xml'', PStr ''allow'')])])])\<rparr>, w)),
     ep_username = ''wolf'', ep_password = ''pw''\<rparr>"

definition noisy_rule :: propose_call where
  "noisy_rule = ProposeRuleTuning \<lparr>ri_rule_id = ''5710'', ri_operation = ''disable_rule'', ri_level = None, ri_rationale = [],
     ri_expected_effect = [], ri_alert_ids = []\<rparr>"

definition empty_ledger :: database where
  "empty_ledger = \<lparr>audit_events = [], clock = (\<lambda>_. 0), uuid_source = (\<lambda>n. of_nat n), organizations = [], users = [],
     user_organizations = [], access_requests = [], token_source = (\<lambda>_. []), proposals = []\<rparr>"

definition rules_caps :: capabilities where
  "rules_caps = [(''rules:update'', [(''rule:file:local_rules.xml'', ''allow'')])]"

lemma manager_reports: "fst (fetch_credential_capabilities rules_manager w) = rules_caps"
  by (cases "read_token w")
    (simp_all add: fetch_credential_capabilities_def api_get_def request_def read_request_def authed_request_def authenticate_def
      rules_manager_def decode_json_def pget_def dget_or_def parse_policies_def dget_def rules_caps_def)

lemma logged_manager_reports: "fst (fetch_credential_capabilities (logged rules_manager) w) = rules_caps"
  by (cases "read_token w"; cases "remote w")
    (simp_all add: fetch_credential_capabilities_def api_get_def request_def read_request_def authed_request_def authenticate_def
      logged_def rules_manager_def decode_json_def pget_def dget_or_def parse_policies_def dget_def rules_caps_def)

lemma noisy_rule_permitted: "permission noisy_rule rules_caps []"
  by (simp add: noisy_rule_def rules_caps_def) code_simp

lemma noisy_rule_validates:
  "validate_proposal ''rule_tuning'' [(''rule_id'', PStr ''5710'')] ''disable_rule'' [(''level'', PInt 0)] = Inr accept"
proof -
  have i: "is_valid_rule_id ''5710'' = Inr True"
    by (simp add: is_valid_rule_id_def py_strip_def rstrip_by_def is_space_def py_isdigit_def is_digit_char_def is_decimal_def
      py_int_def digits_value_def cp_def Let_def)
  have s: "py_strip ''5710'' = ''5710''" "py_lower ''5710'' = ''5710''" by code_simp+
  show ?thesis
    by (simp add: validate_proposal_def VALIDATORS_eq validate_rule_tuning_def i s Let_def unresolved_def is_blast_def BLAST_TOKENS_def
      RULE_TUNING_FORWARD_OPS_def OP_DISABLE_RULE_def OP_ADJUST_LEVEL_def dget_def)
qed

lemma noisy_rule_accepted:
  assumes "\<And>w. fst (fetch_credential_capabilities ep w) = rules_caps"
  shows "\<exists>out db' w'. run_propose 3600 ep echo_ctx noisy_rule empty_ledger w = (Inr out, db', w') \<and> po_permitted out"
proof -
  let ?args = "\<lparr>ri_rule_id = ''5710'', ri_operation = ''disable_rule'', ri_level = None, ri_rationale = [], ri_expected_effect = [], ri_alert_ids = []\<rparr>"
  have t: "py_strip ''disable_rule'' = ''disable_rule''" "py_strip ''5710'' = ''5710''" by code_simp+
  have l: "rule_level ?args = PInt 0" by (simp add: rule_level_def t OP_DISABLE_RULE_def DISABLE_LEVEL_def)
  obtain caps w1 where f: "fetch_credential_capabilities ep w = (caps, w1)" by (metis surj_pair)
  then have caps: "caps = rules_caps" using assms [of w] by simp
  obtain out db' where q: "queue_rule_tuning 3600 echo_ctx ?args empty_ledger = (out, db')" by (metis surj_pair)
  have "po_permitted out"
    using q unfolding queue_rule_tuning_def Let_def by (auto split: prod.splits dest: queued_outputD(1))
  moreover have "run_propose 3600 ep echo_ctx noisy_rule empty_ledger w = (Inr out, db', w1)"
    using noisy_rule_permitted q noisy_rule_validates
    by (simp add: noisy_rule_def run_propose_rule_tuning_def f caps t l OP_RESTORE_RULES_def)
  ultimately show ?thesis by blast
qed

theorem queued_proposals_are_past_the_gates_witness:
  "\<exists>out db' w'. run_propose 3600 rules_manager echo_ctx noisy_rule empty_ledger \<lparr>read_token = None, action_token = None, remote = ()\<rparr> = (Inr out, db', w')
     \<and> po_permitted out \<and> (\<exists>p \<in> set (proposals db'). po_proposal_id out = uuid_str (ap_id p) \<and> ap_state p = Pending
        \<and> ap_action_class p = ''rule_tuning'' \<and> validated p)"
proof -
  obtain out db' w' where r: "run_propose 3600 rules_manager echo_ctx noisy_rule empty_ledger \<lparr>read_token = None, action_token = None, remote = ()\<rparr> = (Inr out, db', w')"
      "po_permitted out" using noisy_rule_accepted [OF manager_reports] by blast
  have e: "uuid_source empty_ledger 0 \<notin> ap_id ` set (proposals empty_ledger)" "proposals empty_ledger = []" by (simp_all add: empty_ledger_def)
  have a: "agent_of noisy_rule = None" "class_of noisy_rule = ''rule_tuning''" by (simp_all add: noisy_rule_def)
  from queued_proposals_are_past_the_gates [OF r e(1) manager_reports, of "[]"] a e(2) r show ?thesis by fastforce
qed

theorem propose_tools_never_act_witness:
  "\<exists>out db' w'. run_propose 3600 (logged rules_manager) echo_ctx noisy_rule empty_ledger \<lparr>read_token = None, action_token = None, remote = ((), [])\<rparr> = (Inr out, db', w')
     \<and> po_permitted out \<and> reads rules_manager \<lparr>read_token = None, action_token = None, remote = ((), [])\<rparr> w'
     \<and> proposes echo_ctx [] (proposals db') \<and> length (proposals db') \<le> 1"
proof -
  obtain out db' w' where r: "run_propose 3600 (logged rules_manager) echo_ctx noisy_rule empty_ledger \<lparr>read_token = None, action_token = None, remote = ((), [])\<rparr> = (Inr out, db', w')"
      "po_permitted out" using noisy_rule_accepted [OF logged_manager_reports] by blast
  have e: "unique_ids 2 empty_ledger" "proposals empty_ledger = []"
    by (auto simp: empty_ledger_def unique_ids_def less_2_cases_iff)
  from propose_tools_never_act(1,4) [OF r(1)] propose_tools_never_act(3) [OF r(1) e(1)] e(2) r show ?thesis by auto
qed

end
