(* ===== verification/Agent_Runs.thy ===== *)
theory Agent_Runs
  imports Agent_Loop Proposing
begin

text \<open>
  Runs of the agent loop: that they end, what they emit, and what they can change.

  A step either finishes the run or goes on; \<open>agent_step_cases\<close> says how, in terms of what the step left of
  the database, of the tools' world and of the events.  On it rest a termination argument (the operator's
  breaker, or finitely many different tool calls), the single \<open>answer\<close> event of a streamed run, and
  the rule that carries the contract of the tools over a whole run.
\<close>

section \<open>What a step leaves\<close>

definition held :: "('d, 'x, 'm) agent_state \<Rightarrow> 'd \<times> 'x" where
  "held s = (as_db s, as_tools s)"

definition answers :: "('d, 'x, 'm) agent_state \<Rightarrow> nat" where
  "answers s = length (filter (\<lambda>e. le_type e = ''answer'') (as_events s))"

definition known :: "agent_vars \<Rightarrow> string set" where
  "known v = {sig. seen v sig}"

definition quiet :: "('d, 'x, 'm) agent_state \<Rightarrow> ('d, 'x, 'm) agent_state \<Rightarrow> bool" where
  "quiet s s' \<longleftrightarrow> held s' = held s \<and> answers s' = answers s"

text \<open>At most one event was written to the trail.\<close>

definition trailed :: "('z audit_db_scheme, 'x, 'm) agent_config \<Rightarrow> ('z audit_db_scheme, 'x, 'm) agent_state \<Rightarrow> ('z audit_db_scheme, 'x, 'm) agent_state \<Rightarrow> bool" where
  "trailed cfg s s' \<longleftrightarrow> as_tools s' = as_tools s \<and>
     (as_db s' = as_db s \<or> (\<exists>ty dat. as_db s' = snd (write_event_from_context (as_db s) (ac_ctx cfg) ty (Some dat) None None)))"

definition modes_known :: "('d, 'x, 'm) agent_config \<Rightarrow> bool" where
  "modes_known cfg \<longleftrightarrow> ac_grounding_mode cfg \<in> {''blocking'', ''deferred'', ''incremental''}"

text \<open>What the judge can raise.\<close>

definition judge_raises :: "('d, 'x, 'm) agent_config \<Rightarrow> exn \<Rightarrow> bool" where
  "judge_raises cfg e \<longleftrightarrow> (\<exists>validator text trs chunks tfs m. ac_validator cfg = Some validator
     \<and> (fst (gv_validate validator text trs chunks tfs m) = Inl e \<or> snd (fst (gv_validate_streaming validator text trs chunks tfs m)) = Some e))"

definition concluded ::
  "('z audit_db_scheme, 'x, 'm) agent_config \<Rightarrow> nat \<Rightarrow> ('z audit_db_scheme, 'x, 'm) agent_state \<Rightarrow> agent_answer result \<Rightarrow> ('z audit_db_scheme, 'x, 'm) agent_state \<Rightarrow> bool" where
  "concluded cfg steps s r s' \<longleftrightarrow> trailed cfg s s' \<and> (case r of
       Inr a \<Rightarrow> aa_step_count a \<le> steps \<and> (ac_streaming cfg \<and> modes_known cfg \<longrightarrow> answers s' = answers s + 1)
     | Inl e \<Rightarrow> judge_raises cfg e \<and> answers s' \<le> answers s + 1)"

lemma emit_frame [simp]:
  "as_db (emit cfg ty dat s) = as_db s" "as_tools (emit cfg ty dat s) = as_tools s" "as_model (emit cfg ty dat s) = as_model s"
  "as_rate_limiter (emit cfg ty dat s) = as_rate_limiter s" "held (emit cfg ty dat s) = held s"
  by (simp_all add: emit_def held_def)

lemma emit_answers [simp]: "answers (emit cfg ty dat s) = answers s + (if ac_streaming cfg \<and> ty = ''answer'' then 1 else 0)"
  by (simp add: emit_def answers_def)

lemma answers_frame [simp]:
  "answers (s\<lparr>as_model := m\<rparr>) = answers s" "answers (s\<lparr>as_db := d\<rparr>) = answers s"
  "answers (s\<lparr>as_db := d, as_rate_limiter := rl, as_tools := x\<rparr>) = answers s"
  by (simp_all add: answers_def)

lemma held_model [simp]: "held (s\<lparr>as_model := m\<rparr>) = held s"
  by (simp add: held_def)

lemma audit_frame [simp]:
  "as_tools (audit cfg ty dat s) = as_tools s" "answers (audit cfg ty dat s) = answers s"
  "as_db (audit cfg ty dat s) = snd (write_event_from_context (as_db s) (ac_ctx cfg) ty (Some dat) None None)"
  by (simp_all add: audit_def)

lemma trailed_emit [simp]: "trailed cfg s (emit cfg ty dat t) \<longleftrightarrow> trailed cfg s t"
  by (simp add: trailed_def)

lemma trailed_audit [simp]: "trailed cfg s (audit cfg ty dat s)"
  unfolding trailed_def audit_frame by blast

lemma quiet_refl: "quiet s s"
  by (simp add: quiet_def)

lemma quiet_trans: "quiet s t \<Longrightarrow> quiet t u \<Longrightarrow> quiet s u"
  by (simp add: quiet_def)

lemma quiet_emit: "ty \<noteq> ''answer'' \<Longrightarrow> quiet s (emit cfg ty dat s)"
  by (simp add: quiet_def)

lemma trailed_quiet: "quiet s t \<Longrightarrow> trailed cfg t u \<Longrightarrow> trailed cfg s u"
  by (auto simp: quiet_def trailed_def held_def)

lemma concluded_quiet: "quiet s t \<Longrightarrow> concluded cfg n t a u \<Longrightarrow> concluded cfg n s a u"
  by (auto simp: concluded_def quiet_def intro: trailed_quiet [unfolded quiet_def] split: sum.splits)

lemma concluded_mono: "concluded cfg n s a u \<Longrightarrow> n \<le> k \<Longrightarrow> concluded cfg k s a u"
  by (auto simp: concluded_def split: sum.splits)

lemma relay_events_quiet: "relay_events cfg step evs response s = (r, s') \<Longrightarrow> quiet s s'"
proof (induction cfg step evs response s rule: relay_events.induct)
  case (2 cfg step d evs response s)
  then have "quiet (if d \<noteq> [] then emit cfg ''model.delta'' [(''step'', PInt (int step)), (''content_delta'', PStr d)] s else s) s'" by simp
  then show ?case by (auto simp: quiet_def split: if_splits)
qed (auto simp: quiet_refl)

lemma relay_events_done: "relay_events cfg step evs response s = (Some r, s') \<Longrightarrow> response = Some r \<or> ChatStreamDone r \<in> set evs"
  by (induction cfg step evs response s rule: relay_events.induct) auto

lemma chat_or_stream_quiet: "chat_or_stream cfg step rq s = (r, s') \<Longrightarrow> quiet s s'"
  unfolding chat_or_stream_def
  by (auto simp: quiet_def split: option.splits prod.splits dest!: relay_events_quiet)

lemma synthesize_final_quiet: "synthesize_final cfg messages nudge s = (r, s') \<Longrightarrow> quiet s s'"
  unfolding synthesize_final_def by (auto simp: quiet_def split: prod.splits sum.splits)

lemma emit_partials_quiet: "quiet s (emit_partials cfg loop_id snapshots s)"
  unfolding emit_partials_def
proof (induction snapshots arbitrary: s)
  case (Cons snap snapshots)
  show ?case by (simp only: foldl_Cons) (rule quiet_trans [OF quiet_emit Cons], simp)
qed (simp add: quiet_refl)

lemma run_validator_quiet: "run_validator cfg validator mode answer v s = (r, s') \<Longrightarrow> quiet s s'"
  unfolding run_validator_def
  by (auto simp: quiet_def emit_partials_quiet [unfolded quiet_def] split: if_splits prod.splits sum.splits)

lemma run_validator_raises:
  assumes "run_validator cfg validator mode answer v s = (Inl e, s')" "ac_validator cfg = Some validator"
  shows "judge_raises cfg e"
proof -
  have "snd (fst (gv_validate_streaming validator (aa_content answer) (av_tool_results v) (av_retrieved_chunks v) (av_tool_failures v) (as_model s))) = Some e
      \<or> fst (gv_validate validator (aa_content answer) (av_tool_results v) (av_retrieved_chunks v) (av_tool_failures v) (as_model s)) = Inl e"
    using assms(1) unfolding run_validator_def by (auto split: if_splits prod.splits option.splits sum.splits)
  with assms(2) show ?thesis unfolding judge_raises_def by blast
qed

lemma close_grounding_concluded:
  assumes "close_grounding cfg mode answer vr s = (a, s')"
  shows "trailed cfg s s'" "aa_step_count a = aa_step_count answer" "answers s' = answers s + (if ac_streaming cfg \<and> mode = ''blocking'' then 1 else 0)"
proof -
  have "trailed cfg s (snd (close_grounding cfg mode answer vr s))" by (simp add: close_grounding_def Let_def)
  moreover have "aa_step_count (fst (close_grounding cfg mode answer vr s)) = aa_step_count answer"
    by (simp add: close_grounding_def Let_def annotated_def split: option.split)
  moreover have "answers (snd (close_grounding cfg mode answer vr s)) = answers s + (if ac_streaming cfg \<and> mode = ''blocking'' then 1 else 0)"
    by (simp add: close_grounding_def Let_def)
  ultimately show "trailed cfg s s'" "aa_step_count a = aa_step_count answer" "answers s' = answers s + (if ac_streaming cfg \<and> mode = ''blocking'' then 1 else 0)"
    unfolding assms by simp_all
qed

lemma finalize_answer_concluded:
  assumes "finalize_answer cfg answer v s = (a, s')"
  shows "concluded cfg (aa_step_count answer) s a s'"
proof (cases "if ac_validator cfg \<noteq> None \<and> py_strip (aa_content answer) \<noteq> [] \<and> (aa_citations answer \<noteq> [] \<or> av_tool_failures v \<noteq> [])
    then ac_validator cfg else None")
  case None
  then show ?thesis using assms by (auto simp: finalize_answer_def concluded_def trailed_def)
next
  case (Some validator)
  let ?mode = "if ac_streaming cfg then ac_grounding_mode cfg else ''blocking''"
  let ?early = "?mode \<in> {''deferred'', ''incremental''}"
  let ?s0 = "if ?early then emit cfg ''answer'' (answer_dump answer @ [(''grounding_pending'', PBool True)]) s else s"
  let ?s1 = "emit cfg ''grounding.started'' [(''loop_id'', PStr (aa_loop_id answer)),
               (''claim_count_estimate'', PInt (int (length (split_on (CHR ''.'') (aa_content answer)))))] ?s0"
  obtain vr s2 where r: "run_validator cfg validator ?mode answer v ?s1 = (vr, s2)" by (metis surj_pair)
  have "quiet ?s1 s2" using r by (rule run_validator_quiet)
  then have h: "held s2 = held s" "answers s2 = answers s + (if ac_streaming cfg \<and> ?early then 1 else 0)" by (auto simp: quiet_def)
  have val: "ac_validator cfg = Some validator" using Some by (auto split: if_splits)
  have f: "finalize_answer cfg answer v s = (case (vr, s2) of (Inl e, s) \<Rightarrow> (Inl e, s)
      | (Inr vr, s) \<Rightarrow> (case close_grounding cfg ?mode answer vr s of (final, s) \<Rightarrow> (Inr final, s)))"
    unfolding finalize_answer_def Let_def Some by (simp only: r option.case)
  show ?thesis
  proof (cases vr)
    case (Inl e)
    with f assms have "a = Inl e" "s' = s2" by simp_all
    with h run_validator_raises [OF r [unfolded Inl] val] show ?thesis by (simp add: concluded_def trailed_def held_def)
  next
    case (Inr q)
    obtain b t where c: "close_grounding cfg ?mode answer q s2 = (b, t)" by (metis surj_pair)
    with f assms Inr have a: "a = Inr b" "s' = t" by simp_all
    have "trailed cfg s t" using close_grounding_concluded(1) [OF c] h(1) by (simp add: trailed_def held_def)
    then show ?thesis using close_grounding_concluded(2,3) [OF c] h(2) unfolding a concluded_def modes_known_def by auto
  qed
qed

lemma fail_gracefully_concluded: "fail_gracefully cfg loop_id step e v s = (a, s') \<Longrightarrow> concluded cfg step s (Inr a) s'"
  unfolding fail_gracefully_def audit_model_failure_def by (auto simp: Let_def concluded_def plain_answer_def)

lemma plain_answer_steps [simp]: "aa_step_count (plain_answer v content steps i j reason loop_id) = steps"
  by (simp add: plain_answer_def)

lemma synthesized_stop_concluded:
  assumes "synthesized_stop cfg loop_id steps v s = (a, s')"
  shows "concluded cfg steps s a s'"
proof -
  obtain forced s1 where f: "synthesize_final cfg (av_messages v) FORCED_SYNTHESIS_NUDGE s = (forced, s1)" by (metis surj_pair)
  show ?thesis
    using assms unfolding synthesized_stop_def f
    by (auto simp: Let_def intro: concluded_quiet [OF synthesize_final_quiet [OF f]] dest!: finalize_answer_concluded)
qed

lemma volunteered_concluded:
  assumes "volunteered cfg loop_id step response v s = (a, s')"
  shows "concluded cfg (step + 1) s a s'"
proof -
  obtain retry s1 where f: "synthesize_final cfg (av_messages v) SYNTHESIS_NUDGE s = (retry, s1)" by (metis surj_pair)
  show ?thesis
    using assms unfolding volunteered_def f
    by (auto simp: Let_def intro: concluded_quiet [OF synthesize_final_quiet [OF f]] dest!: finalize_answer_concluded split: if_splits)
qed

section \<open>Steps of tool calls\<close>

lemma take_result_frame:
  "take_result call r v = Inr (v', res) \<Longrightarrow> av_tool_signatures v' = av_tool_signatures v \<and> av_redundant_streak v' = av_redundant_streak v
     \<and> av_messages v' = av_messages v"
  unfolding take_result_def rbind_def by (auto simp: Let_def split: option.splits list.splits sum.splits if_splits)

lemma known_note [simp]: "known (note_signature sig v) = insert sig (known v)"
  by (auto simp: known_def seen_def note_signature_def Let_def update_conv' split: option.splits)

lemma note_frame [simp]:
  "av_redundant_streak (note_signature sig v) = av_redundant_streak v" "av_messages (note_signature sig v) = av_messages v"
  by (simp_all add: note_signature_def Let_def)

lemma known_cong: "av_tool_signatures v = av_tool_signatures w \<Longrightarrow> known v = known w"
  by (simp add: known_def seen_def)

lemma dispatch_one_answers: "dispatch_one cfg call v s = (r, s') \<Longrightarrow> answers s' = answers s"
  unfolding dispatch_one_def by (auto simp: Let_def split: prod.splits)

text \<open>A step asks for something new exactly when one of its calls was not known before.\<close>

lemma run_calls_known:
  "run_calls cfg calls had_new results v s = (Inr (h, rs, v'), s') \<Longrightarrow>
     known v' = known v \<union> signature ` set calls \<and> av_redundant_streak v' = av_redundant_streak v \<and> av_messages v' = av_messages v
     \<and> (h \<longleftrightarrow> had_new \<or> \<not> signature ` set calls \<subseteq> known v)"
proof (induction calls arbitrary: had_new results v s)
  case (Cons call calls)
  let ?sig = "signature call"
  from Cons.prems obtain r s1 v1 res where d: "dispatch_one cfg call (note_signature ?sig v) s = (Inr r, s1)"
      "take_result call r (note_signature ?sig v) = Inr (v1, res)"
      "run_calls cfg calls (had_new \<or> \<not> seen v ?sig) (results @ [res]) v1 (emit cfg ''tool.call.completed'' (summarize_dispatch_result r) s1) = (Inr (h, rs, v'), s')"
    by (auto simp: Let_def split: prod.splits sum.splits)
  have k: "known v1 = insert ?sig (known v)" "av_redundant_streak v1 = av_redundant_streak v" "av_messages v1 = av_messages v"
    using take_result_frame [OF d(2)] known_cong [of v1 "note_signature ?sig v"] by simp_all
  have "seen v ?sig \<longleftrightarrow> ?sig \<in> known v" by (simp add: known_def)
  with Cons.IH [OF d(3)] k show ?case by auto
qed simp

lemma run_calls_answers: "run_calls cfg calls had_new results v s = (r, s') \<Longrightarrow> answers s' = answers s"
proof (induction calls arbitrary: had_new results v s)
  case (Cons call calls)
  obtain d s1 where d: "dispatch_one cfg call (note_signature (signature call) v) s = (d, s1)" by (metis surj_pair)
  show ?case using Cons dispatch_one_answers [OF d] by (auto simp: Let_def d split: sum.splits prod.splits)
qed simp

lemma guards_cases:
  assumes "guards cfg loop_id step response had_new v s = out"
  obtains (stopped) r s' where "out = Finished r s'" "concluded cfg (step + 1) s r s'"
  | (goes_on) v' where "out = Again v' s" "known v' = known v" "av_redundant_streak v' = (if had_new then 0 else av_redundant_streak v + 1)"
      "av_redundant_streak v' < MAX_REDUNDANT_STREAK" "ac_step_breaker cfg > 0 \<Longrightarrow> int (step + 1) < ac_step_breaker cfg"
      "rsp_input_tokens response < context_fit_limit cfg" "length (av_messages v) \<le> length (av_messages v')"
proof -
  let ?w = "v\<lparr>av_redundant_streak := (if had_new then 0 else av_redundant_streak v + 1)\<rparr>"
  let ?w2 = "if had_new then ?w else ?w\<lparr>av_messages := av_messages ?w @ [text_message UserRole REDUNDANT_TOOL_NUDGE]\<rparr>"
  let ?w3 = "if (step + 1) mod checkpoint_every cfg = 0 then ?w2\<lparr>av_messages := av_messages ?w2 @ [text_message UserRole CHECKPOINT_NUDGE]\<rparr> else ?w2"
  let ?stop = "\<lambda>u. case synthesized_stop cfg loop_id (step + 1) u s of (r, s) \<Rightarrow> Finished r s"
  have stop: thesis if "out = ?stop u" for u
  proof -
    obtain a s' where f: "synthesized_stop cfg loop_id (step + 1) u s = (a, s')" by (metis surj_pair)
    show thesis by (rule stopped [OF _ synthesized_stop_concluded [OF f]]) (simp add: that f [simplified])
  qed
  have g: "out = (if \<not> had_new \<and> av_redundant_streak ?w \<ge> MAX_REDUNDANT_STREAK then ?stop ?w
     else if ac_step_breaker cfg > 0 \<and> int (step + 1) \<ge> ac_step_breaker cfg then ?stop ?w2
     else if rsp_input_tokens response \<ge> context_fit_limit cfg then ?stop ?w2 else Again ?w3 s)"
    using assms unfolding guards_def Let_def by (rule sym)
  have w3: "av_tool_signatures ?w3 = av_tool_signatures v" "av_redundant_streak ?w3 = (if had_new then 0 else av_redundant_streak v + 1)"
      "length (av_messages v) \<le> length (av_messages ?w3)" by simp_all
  show thesis
  proof (cases "\<not> had_new \<and> av_redundant_streak ?w \<ge> MAX_REDUNDANT_STREAK \<or> ac_step_breaker cfg > 0 \<and> int (step + 1) \<ge> ac_step_breaker cfg
      \<or> rsp_input_tokens response \<ge> context_fit_limit cfg")
    case True
    with g stop show thesis by metis
  next
    case False
    with g have "out = Again ?w3 s" by metis
    then show thesis
      by (rule goes_on) (use False w3 known_cong [OF w3(1)] in \<open>auto simp: MAX_REDUNDANT_STREAK_def\<close>)
  qed
qed

text \<open>The responses a provider can give to a transcript.\<close>

definition may_answer :: "'m provider \<Rightarrow> message list \<Rightarrow> chat_response \<Rightarrow> bool" where
  "may_answer p messages r \<longleftrightarrow> (\<exists>rq m. cr_messages rq = messages \<and> (fst (pv_chat p rq m) = Inr r
     \<or> (\<exists>stream. pv_chat_stream p = Some stream \<and> ChatStreamDone r \<in> set (fst (fst (stream rq m))))))"

lemma chat_or_stream_may_answer:
  assumes "chat_or_stream cfg step rq s = (Inr r, s')"
  shows "may_answer (ac_provider cfg) (cr_messages rq) r"
proof (cases "pv_chat_stream (ac_provider cfg)")
  case None
  with assms have "fst (pv_chat (ac_provider cfg) rq (as_model s)) = Inr r" by (auto simp: chat_or_stream_def split: prod.splits)
  then show ?thesis unfolding may_answer_def by blast
next
  case (Some stream)
  obtain evs err m where e: "stream rq (as_model s) = ((evs, err), m)" by (metis surj_pair)
  obtain resp s1 where q: "relay_events cfg step evs None (s\<lparr>as_model := m\<rparr>) = (resp, s1)" by (metis surj_pair)
  from assms have "resp = Some r" by (simp add: chat_or_stream_def Some e q split: option.splits)
  with relay_events_done q have "ChatStreamDone r \<in> set evs" by fastforce
  then have "ChatStreamDone r \<in> set (fst (fst (stream rq (as_model s))))" by (simp add: e)
  with Some show ?thesis unfolding may_answer_def by blast
qed

text \<open>A step: the model failed (and a blocking run re-raises a Wolf error), it answered, a tool call raised, or the guards
  stopped the run or let it go on.\<close>

lemma agent_step_cases:
  assumes "agent_step cfg loop_id step v s = out"
  obtains (model_raised) e s' where "out = Finished (Inl e) s'" "is_wolf e" "\<not> ac_streaming cfg" "quiet s s'"
  | (answered) r s1 s' where "out = Finished r s'" "trailed cfg s s1" "answers s1 = answers s" "concluded cfg (step + 1) s1 r s'"
  | (called) response s1 v1 r s2 where "may_answer (ac_provider cfg) (av_messages v) response" "trailed cfg s s1" "answers s1 = answers s"
      "known v1 = known v" "av_redundant_streak v1 = av_redundant_streak v" "length (av_messages v1) = length (av_messages v) + 1"
      "run_calls cfg (rsp_tool_calls response) False [] v1 s1 = (r, s2)"
      "case r of Inl e \<Rightarrow> out = Finished (Inl e) s2
        | Inr (had_new, results, v2) \<Rightarrow> \<exists>v3. known v3 = known v2 \<and> av_redundant_streak v3 = av_redundant_streak v2
            \<and> length (av_messages v2) \<le> length (av_messages v3)
            \<and> guards cfg loop_id step response had_new v3 s2 = out"
proof -
  let ?s0 = "emit cfg ''step.started'' [(''step'', PInt (int step))] s"
  let ?rq = "\<lparr>cr_messages = av_messages v, cr_tools = (if catalog cfg \<noteq> [] then Some (catalog cfg) else None)\<rparr>"
  obtain c s1 where c: "chat_or_stream cfg step ?rq ?s0 = (c, s1)" by (metis surj_pair)
  have "quiet s ?s0" by (simp add: quiet_emit)
  with chat_or_stream_quiet [OF c] have q: "quiet s s1" by (blast intro: quiet_trans)
  show thesis
  proof (cases c)
    case (Inl e)
    show thesis
    proof (cases "is_wolf e \<and> \<not> ac_streaming cfg")
      case True
      with Inl c assms have "out = Finished (Inl e) s1" by (simp add: agent_step_def)
      with True q model_raised show thesis by blast
    next
      case False
      obtain a s' where f: "fail_gracefully cfg loop_id step e v s1 = (a, s')" by (metis surj_pair)
      have "out = Finished (Inr a) s'" using assms Inl False by (simp add: agent_step_def c f)
      moreover have "trailed cfg s s" "answers s = answers s" by (simp_all add: trailed_def)
      moreover have "concluded cfg (step + 1) s (Inr a) s'"
        using concluded_mono [OF concluded_quiet [OF q fail_gracefully_concluded [OF f]]] by simp
      ultimately show thesis using answered by blast
    qed
  next
    case (Inr response)
    let ?v0 = "v\<lparr>av_input_tokens := av_input_tokens v + rsp_input_tokens response, av_output_tokens := av_output_tokens v + rsp_output_tokens response\<rparr>"
    let ?v1 = "?v0\<lparr>av_messages := av_messages v @ [\<lparr>msg_role = AssistantRole, msg_content = rsp_content response,
         msg_tool_calls = (if rsp_tool_calls response \<noteq> [] then Some (rsp_tool_calls response) else None), msg_tool_results = None\<rparr>]\<rparr>"
    let ?s2 = "emit cfg ''model.call.completed'' [(''step'', PInt (int step)), (''input_tokens'', PInt (rsp_input_tokens response)),
         (''output_tokens'', PInt (rsp_output_tokens response)), (''stop_reason'', PStr (rsp_stop_reason response)),
         (''tool_call_count'', PInt (int (length (rsp_tool_calls response))))] (audit_model_success cfg loop_id step response s1)"
    have s2: "trailed cfg s ?s2" "answers ?s2 = answers s"
      using trailed_quiet [OF q] q by (simp_all add: audit_model_success_def quiet_def)
    have k: "known ?v1 = known v" "av_redundant_streak ?v1 = av_redundant_streak v"
        "length (av_messages ?v1) = length (av_messages v) + 1" by (simp_all add: known_def seen_def)
    show thesis
    proof (cases "rsp_tool_calls response = []")
      case True
      obtain a s' where f: "volunteered cfg loop_id step response ?v1 ?s2 = (a, s')" by (metis surj_pair)
      have "out = Finished a s'" using assms Inr True f by (simp add: agent_step_def c Let_def)
      with answered s2 volunteered_concluded [OF f] show thesis by blast
    next
      case False
      obtain r s3 where f: "run_calls cfg (rsp_tool_calls response) False [] ?v1 ?s2 = (r, s3)" by (metis surj_pair)
      have m: "may_answer (ac_provider cfg) (av_messages v) response" using c Inr chat_or_stream_may_answer [of cfg step ?rq] by simp
      have "case r of Inl e \<Rightarrow> out = Finished (Inl e) s3
        | Inr (had_new, results, v2) \<Rightarrow> \<exists>v3. known v3 = known v2 \<and> av_redundant_streak v3 = av_redundant_streak v2
            \<and> length (av_messages v2) \<le> length (av_messages v3)
            \<and> guards cfg loop_id step response had_new v3 s3 = out"
      proof (cases r)
        case (Inr r2)
        obtain had_new results v2 where r2: "r2 = (had_new, results, v2)" by (cases r2)
        let ?v3 = "v2\<lparr>av_messages := av_messages v2 @ [\<lparr>msg_role = ToolRole, msg_content = [], msg_tool_calls = None, msg_tool_results = Some results\<rparr>]\<rparr>"
        have "guards cfg loop_id step response had_new ?v3 s3 = out"
          using assms \<open>c = Inr response\<close> False f Inr r2 by (simp add: agent_step_def c Let_def)
        moreover have "known ?v3 = known v2" "av_redundant_streak ?v3 = av_redundant_streak v2"
          "length (av_messages v2) \<le> length (av_messages ?v3)" by (simp_all add: known_def seen_def)
        ultimately show ?thesis unfolding Inr r2 by auto
      qed (use assms Inr False f in \<open>simp add: agent_step_def c Let_def\<close>)
      with called m s2 k f show thesis by blast
    qed
  qed
qed

lemma agent_step_Again:
  assumes "agent_step cfg loop_id step v s = Again v' s'"
  obtains response where "may_answer (ac_provider cfg) (av_messages v) response"
    "known v' = known v \<union> signature ` set (rsp_tool_calls response)"
    "av_redundant_streak v' = (if signature ` set (rsp_tool_calls response) \<subseteq> known v then av_redundant_streak v + 1 else 0)"
    "av_redundant_streak v' < MAX_REDUNDANT_STREAK" "ac_step_breaker cfg > 0 \<Longrightarrow> int (step + 1) < ac_step_breaker cfg"
    "rsp_input_tokens response < context_fit_limit cfg" "length (av_messages v) < length (av_messages v')"
proof -
  from assms show thesis
  proof (cases rule: agent_step_cases)
    case (called response s1 v1 r s2)
    then obtain had_new results v2 v3 where r: "r = Inr (had_new, results, v2)" "known v3 = known v2" "av_redundant_streak v3 = av_redundant_streak v2"
        "length (av_messages v2) \<le> length (av_messages v3)" "guards cfg loop_id step response had_new v3 s2 = Again v' s'"
      by (cases r) auto
    note k = run_calls_known [OF called(7) [unfolded r(1)]]
    from r(5) show thesis
    proof (cases rule: guards_cases)
      case (goes_on w)
      then show thesis using that [OF called(1)] k called(4-6) r(2-4) by auto
    qed simp
  qed simp_all
qed

lemma agent_step_Finished_steps:
  assumes "agent_step cfg loop_id step v s = Finished (Inr a) s'"
  shows "aa_step_count a \<le> step + 1"
  using assms
proof (cases rule: agent_step_cases)
  case (called response s1 v1 r s2)
  then show ?thesis by (cases r) (auto elim!: guards_cases simp: concluded_def)
qed (auto simp: concluded_def)

section \<open>Termination\<close>

text \<open>A number that falls with every step that goes on bounds the steps of a run.\<close>

lemma agent_loop_ends:
  assumes falls: "\<And>step v s v' s'. agent_step cfg loop_id step v s = Again v' s' \<Longrightarrow> \<mu> (step + 1) v' < (\<mu> step v :: nat)"
  shows "\<exists>r s'. agent_loop cfg loop_id step v s = Some (r, s') \<and> (\<forall>a. r = Inr a \<longrightarrow> aa_step_count a \<le> step + \<mu> step v + 1)"
proof (induction "\<mu> step v" arbitrary: step v s rule: less_induct)
  case less
  show ?case
  proof (cases "agent_step cfg loop_id step v s")
    case (Finished r s')
    then show ?thesis using agent_step_Finished_steps [of cfg loop_id step v s] by (subst agent_loop.simps) (fastforce simp: Finished)
  next
    case (Again v' s1)
    then have n: "\<mu> (step + 1) v' < \<mu> step v" by (rule falls)
    from less.hyps [OF n, of s1] obtain r s' where "agent_loop cfg loop_id (step + 1) v' s1 = Some (r, s')"
        "\<forall>a. r = Inr a \<longrightarrow> aa_step_count a \<le> step + 1 + \<mu> (step + 1) v' + 1" by blast
    then show ?thesis using n by (subst agent_loop.simps) (fastforce simp: Again)
  qed
qed

text \<open>How much is left: new calls count twice, since two steps without one end the run.\<close>

definition calls_left :: "string set \<Rightarrow> agent_vars \<Rightarrow> nat" where
  "calls_left S v = 2 * card (S - known v) + (1 - av_redundant_streak v)"

lemma calls_left_falls:
  assumes S: "finite S" "sigs \<subseteq> S" and k: "known v' = known v \<union> sigs"
    and streak: "av_redundant_streak v' = (if sigs \<subseteq> known v then av_redundant_streak v + 1 else 0)" "av_redundant_streak v' < 2"
  shows "calls_left S v' < calls_left S v"
proof (cases "sigs \<subseteq> known v")
  case True
  then have "known v' = known v" using k by blast
  with True streak show ?thesis by (simp add: calls_left_def)
next
  case False
  with S k have "S - known v' \<subset> S - known v" by blast
  then have "card (S - known v') < card (S - known v)" using S by (intro psubset_card_mono) simp_all
  with False streak show ?thesis by (simp add: calls_left_def)
qed

lemma start_vars_facts [simp]:
  "known (start_vars ms) = {}" "av_redundant_streak (start_vars ms) = 0" "av_messages (start_vars ms) = ms"
  by (simp_all add: start_vars_def known_def seen_def)

lemma agent_run_loop:
  obtains loop_id ms s0 where "agent_run cfg research nudge question history s = agent_loop cfg loop_id 0 (start_vars ms) s0"
    "as_db s0 = snd (uuid4 (as_db s))" "as_tools s0 = as_tools s" "answers s0 = answers s" "ms \<noteq> []"
proof -
  obtain i db where u: "uuid4 (as_db s) = (i, db)" by (metis surj_pair)
  show thesis
    by (rule that, simp only: agent_run_def u Let_def prod.case) (simp_all add: u first_messages_def)
qed

lemma agent_run_breaker:
  assumes b: "ac_step_breaker cfg > 0"
  shows "\<exists>r s'. agent_run cfg research nudge question history s = Some (r, s') \<and> (\<forall>a. r = Inr a \<longrightarrow> int (aa_step_count a) \<le> ac_step_breaker cfg)"
proof -
  obtain loop_id ms s0 where run: "agent_run cfg research nudge question history s = agent_loop cfg loop_id 0 (start_vars ms) s0"
    by (rule agent_run_loop)
  have "step + 1 < nat (ac_step_breaker cfg)" if "agent_step cfg loop_id step v s = Again v' s'" for step v s v' s'
    using that b by (elim agent_step_Again) simp
  then have "\<exists>r s'. agent_loop cfg loop_id 0 (start_vars ms) s0 = Some (r, s') \<and> (\<forall>a. r = Inr a \<longrightarrow> aa_step_count a \<le> 0 + (nat (ac_step_breaker cfg) - 1 - 0) + 1)"
    by (intro agent_loop_ends [where \<mu> = "\<lambda>step v. nat (ac_step_breaker cfg) - 1 - step"]) fastforce
  with b show ?thesis unfolding run by (fastforce simp: nat_le_iff le_nat_iff)
qed

lemma agent_run_ends_by:
  shows "ac_step_breaker cfg > 0 \<Longrightarrow> \<exists>r s'. agent_run cfg research nudge question history s = Some (r, s')
      \<and> (\<forall>a. r = Inr a \<longrightarrow> int (aa_step_count a) \<le> ac_step_breaker cfg)"
    and "finite S \<Longrightarrow> (\<And>ms r. may_answer (ac_provider cfg) ms r \<Longrightarrow> signature ` set (rsp_tool_calls r) \<subseteq> S) \<Longrightarrow>
      \<exists>r s'. agent_run cfg research nudge question history s = Some (r, s') \<and> (\<forall>a. r = Inr a \<longrightarrow> aa_step_count a \<le> 2 * card S + 2)"
    and "(\<And>ms r. may_answer (ac_provider cfg) ms r \<Longrightarrow> rsp_input_tokens r \<ge> int (length ms)) \<Longrightarrow>
      \<exists>r s'. agent_run cfg research nudge question history s = Some (r, s') \<and> (\<forall>a. r = Inr a \<longrightarrow> int (aa_step_count a) \<le> max 0 (context_fit_limit cfg) + 1)"
proof -
  obtain loop_id ms s0 where run: "agent_run cfg research nudge question history s = agent_loop cfg loop_id 0 (start_vars ms) s0" "ms \<noteq> []"
    by (rule agent_run_loop)
  show "\<exists>r s'. agent_run cfg research nudge question history s = Some (r, s') \<and> (\<forall>a. r = Inr a \<longrightarrow> int (aa_step_count a) \<le> ac_step_breaker cfg)"
    if "ac_step_breaker cfg > 0"
    by (rule agent_run_breaker [OF that])
  show "\<exists>r s'. agent_run cfg research nudge question history s = Some (r, s') \<and> (\<forall>a. r = Inr a \<longrightarrow> aa_step_count a \<le> 2 * card S + 2)"
    if S: "finite S" "\<And>ms r. may_answer (ac_provider cfg) ms r \<Longrightarrow> signature ` set (rsp_tool_calls r) \<subseteq> S"
  proof -
    have "calls_left S v' < calls_left S v" if "agent_step cfg loop_id step v s = Again v' s'" for step v s v' s'
      using that by (elim agent_step_Again) (rule calls_left_falls [OF S(1) S(2)], assumption, simp_all add: MAX_REDUNDANT_STREAK_def)
    then have "\<exists>r s'. agent_loop cfg loop_id 0 (start_vars ms) s0 = Some (r, s') \<and> (\<forall>a. r = Inr a \<longrightarrow> aa_step_count a \<le> 0 + calls_left S (start_vars ms) + 1)"
      by (intro agent_loop_ends [where \<mu> = "\<lambda>step. calls_left S"])
    then show ?thesis unfolding run by (simp add: calls_left_def)
  qed
  show "\<exists>r s'. agent_run cfg research nudge question history s = Some (r, s') \<and> (\<forall>a. r = Inr a \<longrightarrow> int (aa_step_count a) \<le> max 0 (context_fit_limit cfg) + 1)"
    if tokens: "\<And>ms r. may_answer (ac_provider cfg) ms r \<Longrightarrow> rsp_input_tokens r \<ge> int (length ms)"
  proof -
    let ?left = "\<lambda>step v. nat (context_fit_limit cfg - int (length (av_messages v)))"
    have "?left (step + 1) v' < ?left step v" if "agent_step cfg loop_id step v s = Again v' s'" for step v s v' s'
      using that by (elim agent_step_Again) (fastforce dest: tokens)
    then have "\<exists>r s'. agent_loop cfg loop_id 0 (start_vars ms) s0 = Some (r, s') \<and> (\<forall>a. r = Inr a \<longrightarrow> aa_step_count a \<le> 0 + ?left 0 (start_vars ms) + 1)"
      by (intro agent_loop_ends [where \<mu> = ?left]) blast
    then show ?thesis unfolding run by fastforce
  qed
qed

text \<open>C10: A run of the agent loop ends.  With an operator's breaker of \<open>n > 0\<close> it ends within \<open>n\<close> steps.  Without one it ends
  within \<open>2 k + 2\<close> steps when the calls the model can make have \<open>k\<close> different signatures (the no-progress
  guard), and within the context-fit limit plus one when the provider counts at least one input token for each
  message it was sent (the context-fit guard).\<close>

theorem agent_runs_end:
  "(ac_step_breaker cfg > 0 \<longrightarrow> (\<exists>r s'. agent_run cfg research nudge question history s = Some (r, s')
      \<and> (\<forall>a. r = Inr a \<longrightarrow> int (aa_step_count a) \<le> ac_step_breaker cfg)))
    \<and> (finite S \<and> (\<forall>ms r. may_answer (ac_provider cfg) ms r \<longrightarrow> signature ` set (rsp_tool_calls r) \<subseteq> S) \<longrightarrow>
      (\<exists>r s'. agent_run cfg research nudge question history s = Some (r, s') \<and> (\<forall>a. r = Inr a \<longrightarrow> aa_step_count a \<le> 2 * card S + 2)))
    \<and> ((\<forall>ms r. may_answer (ac_provider cfg) ms r \<longrightarrow> rsp_input_tokens r \<ge> int (length ms)) \<longrightarrow>
      (\<exists>r s'. agent_run cfg research nudge question history s = Some (r, s') \<and> (\<forall>a. r = Inr a \<longrightarrow> int (aa_step_count a) \<le> max 0 (context_fit_limit cfg) + 1)))"
  by (intro conjI impI; (elim conjE)?) (rule agent_run_ends_by; simp)+

section \<open>Events\<close>

lemma agent_loop_rel:
  assumes "agent_loop cfg loop_id step v s = Some (r, s')"
    and "\<And>step v s r s'. agent_step cfg loop_id step v s = Finished r s' \<Longrightarrow> P s r s'"
    and "\<And>step v s v1 s1 r s'. agent_step cfg loop_id step v s = Again v1 s1 \<Longrightarrow> P s1 r s' \<Longrightarrow> P s r s'"
  shows "P s r s'"
proof -
  have "P s (fst out) (snd out)" if "agent_loop c i step v s = Some out" "c = cfg" "i = loop_id" for c i step v s out
    using that
  proof (induction c i step v s out rule: agent_loop.raw_induct [rotated, consumes 1, case_names loop])
    case (loop agent_loop c i step v s out)
    show ?case
    proof (cases "agent_step c i step v s")
      case (Finished r s')
      then show ?thesis using loop.hyps loop.prems assms(2) [of step v s] by auto
    next
      case (Again v1 s1)
      then have "P s1 (fst out) (snd out)" using loop by simp
      then show ?thesis using Again loop.prems assms(3) by blast
    qed
  qed
  from this [OF assms(1) refl refl] show ?thesis by simp
qed

definition raised_by_tool :: "('d, 'x, 'm) agent_config \<Rightarrow> exn \<Rightarrow> bool" where
  "raised_by_tool cfg e \<longleftrightarrow> is_wolf e \<and> (\<exists>name runner args st. map_of (ac_runners cfg) name = Some runner \<and> fst (tr_run runner args st) = Inl e)"

lemma take_result_Inl: "take_result call r v = Inl e \<Longrightarrow> e = PyError ''TypeError'' ''object is not iterable''"
proof -
  have "iterate x = Inl e \<Longrightarrow> e = PyError ''TypeError'' ''object is not iterable''" for x by (cases x) auto
  then show "take_result call r v = Inl e \<Longrightarrow> ?thesis"
    unfolding take_result_def rbind_def by (auto simp: Let_def split: option.splits list.splits sum.splits if_splits)
qed

lemma dispatch_one_raises:
  assumes "dispatch_one cfg call v s = (Inl e, s')"
  shows "raised_by_tool cfg e"
proof -
  let ?s = "emit cfg ''tool.call.started'' [(''tool_name'', PStr (tc_name call)), (''tool_call_id'', PStr (tc_id call)), (''arguments'', PDict (tc_arguments call))] s"
  obtain db rl x where d: "dispatch_tool_call (ac_schemas cfg) (ac_runners cfg) call (ac_ctx cfg) (ac_elapsed cfg (av_tool_call_count v)) (as_db ?s)
      (as_rate_limiter ?s) (as_tools ?s) = (Inl e, db, rl, x)"
    using assms unfolding dispatch_one_def Let_def by (auto split: prod.splits)
  then show ?thesis
  proof (cases rule: dispatch_cases)
    case (raised e' runner args)
    then have "fst (tr_run runner args (as_db ?s, as_tools ?s)) = Inl e" "is_wolf e" "\<exists>name. map_of (ac_runners cfg) name = Some runner"
      unfolding may_run_def by (auto simp: failure_event_simps(2))
    then show ?thesis unfolding raised_by_tool_def by blast
  qed simp_all
qed

lemma run_calls_raises:
  "run_calls cfg calls had_new results v s = (Inl e, s') \<Longrightarrow> raised_by_tool cfg e \<or> e = PyError ''TypeError'' ''object is not iterable''"
proof (induction calls arbitrary: had_new results v s)
  case (Cons call calls)
  obtain d s1 where d: "dispatch_one cfg call (note_signature (signature call) v) s = (d, s1)" by (metis surj_pair)
  show ?case
  proof (cases d)
    case (Inl e')
    with Cons.prems d dispatch_one_raises show ?thesis by (auto simp: Let_def)
  next
    case (Inr r)
    with Cons d take_result_Inl show ?thesis by (fastforce simp: Let_def split: sum.splits)
  qed
qed simp

lemma streamed_run_settles:
  assumes run: "agent_run cfg research nudge question history s = Some (r, s')" and mode: "modes_known cfg" "ac_streaming cfg"
  shows "r = Inr a \<Longrightarrow> answers s' = answers s + 1"
    and "r = Inl e \<Longrightarrow> answers s' = answers s \<and> (raised_by_tool cfg e \<or> e = PyError ''TypeError'' ''object is not iterable'')
      \<or> judge_raises cfg e \<and> answers s' \<le> answers s + 1"
proof -
  obtain loop_id ms s0 where l: "agent_loop cfg loop_id 0 (start_vars ms) s0 = Some (r, s')" "answers s0 = answers s"
    using run agent_run_loop by metis
  let ?P = "\<lambda>s r s'. case r of Inr a \<Rightarrow> answers s' = answers s + 1
    | Inl e \<Rightarrow> answers s' = answers s \<and> (raised_by_tool cfg e \<or> e = PyError ''TypeError'' ''object is not iterable'')
        \<or> judge_raises cfg e \<and> answers s' \<le> answers s + 1"
  have ended: "?P s r s'" if "concluded cfg n s1 r s'" "answers s1 = answers s" for n s s1 r s'
    using that mode unfolding concluded_def by (auto split: sum.splits)
  have "?P s0 r s'"
    using l(1)
  proof (rule agent_loop_rel)
    fix step v s r s'
    assume "agent_step cfg loop_id step v s = Finished r s'"
    then show "?P s r s'"
    proof (cases rule: agent_step_cases)
      case (called response s1 v1 d s2)
      note n = run_calls_answers [OF called(7)]
      show ?thesis
      proof (cases d)
        case (Inl e)
        with called n run_calls_raises [OF called(7) [unfolded Inl]] show ?thesis by auto
      next
        case (Inr d2)
        obtain had_new results v2 where d2: "d2 = (had_new, results, v2)" by (cases d2)
        with called(8) Inr obtain v3 where "guards cfg loop_id step response had_new v3 s2 = Finished r s'" by auto
        then show ?thesis
        proof (cases rule: guards_cases)
          case (stopped r' t)
          with ended [of "step + 1" s2 r' t s] n called(3) show ?thesis by auto
        qed simp
      qed
    next
      case (answered r' s1 t)
      with ended [of "step + 1" s1 r' t s] show ?thesis by auto
    qed (use mode in simp)
  next
    fix step v s v1 s1 r s'
    assume "agent_step cfg loop_id step v s = Again v1 s1" "?P s1 r s'"
    moreover from this(1) have "answers s1 = answers s"
    proof (cases rule: agent_step_cases)
      case (called response s2 v2 d s3)
      then show ?thesis using run_calls_answers [OF called(7)] by (cases d) (auto elim!: guards_cases)
    qed simp_all
    ultimately show "?P s r s'" by (auto split: sum.splits)
  qed
  with l(2) show "r = Inr a \<Longrightarrow> answers s' = answers s + 1"
    and "r = Inl e \<Longrightarrow> answers s' = answers s \<and> (raised_by_tool cfg e \<or> e = PyError ''TypeError'' ''object is not iterable'')
      \<or> judge_raises cfg e \<and> answers s' \<le> answers s + 1" by auto
qed


section \<open>What a run can change\<close>

locale agent_contract = tool_contract R for R :: "'z audit_db_scheme \<times> 'x \<Rightarrow> 'z audit_db_scheme \<times> 'x \<Rightarrow> bool" +
  assumes R_uuid: "R (db, x) (snd (uuid4 db), x)"
begin

lemma trailed_keeps: "trailed cfg s s' \<Longrightarrow> R (held s) (held s')"
  unfolding trailed_def held_def write_event_from_context_def using R_refl R_event by auto

lemma run_calls_keeps:
  assumes tools: "\<And>name runner schema. map_of (ac_runners cfg) name = Some runner \<Longrightarrow> map_of (ac_schemas cfg) name = Some schema \<Longrightarrow>
      ts_tier schema \<noteq> ExecuteTier \<Longrightarrow> keeps R runner"
  shows "run_calls cfg calls had_new results v s = (r, s') \<Longrightarrow> R (held s) (held s')"
proof (induction calls arbitrary: had_new results v s)
  case (Cons call calls)
  obtain d s1 where d: "dispatch_one cfg call (note_signature (signature call) v) s = (d, s1)" by (metis surj_pair)
  have "R (held s) (held s1)"
    using d unfolding dispatch_one_def Let_def held_def by (auto split: prod.splits dest!: dispatch_keeps [OF _ tools])
  then show ?case using Cons by (fastforce simp: Let_def d intro: R_trans split: sum.splits prod.splits)
qed (simp add: R_refl)

lemma agent_run_keeps:
  assumes run: "agent_run cfg research nudge question history s = Some (r, s')"
    and tools: "\<And>name runner schema. map_of (ac_runners cfg) name = Some runner \<Longrightarrow> map_of (ac_schemas cfg) name = Some schema \<Longrightarrow>
      ts_tier schema \<noteq> ExecuteTier \<Longrightarrow> keeps R runner"
  shows "R (held s) (held s')"
proof -
  obtain loop_id ms s0 where l: "agent_loop cfg loop_id 0 (start_vars ms) s0 = Some (r, s')" "as_db s0 = snd (uuid4 (as_db s))" "as_tools s0 = as_tools s"
    using run agent_run_loop by metis
  have calls: "R (held s) (held s2)" if "trailed cfg s s1" "run_calls cfg cs h rs v s1 = (d, s2)" for s s1 s2 cs h rs v d
    by (rule R_trans [OF trailed_keeps [OF that(1)] run_calls_keeps [OF _ that(2)]]) (rule tools)
  have "R (held s) (held s0)" using R_uuid l by (simp add: held_def)
  moreover have "R (held s0) (held s')"
    using l(1)
  proof (rule agent_loop_rel)
    fix step v s r s'
    assume "agent_step cfg loop_id step v s = Finished r s'"
    then show "R (held s) (held s')"
    proof (cases rule: agent_step_cases)
      case (called response s1 v1 d s2)
      note k = calls [OF called(2,7)]
      show ?thesis
      proof (cases d)
        case (Inr d2)
        with called k show ?thesis by (auto elim!: guards_cases simp: concluded_def dest!: trailed_keeps intro: R_trans)
      qed (use called k in simp)
    qed (auto simp: concluded_def quiet_def R_refl dest!: trailed_keeps intro: R_trans)
  next
    fix step v s v1 s1 r s'
    assume "agent_step cfg loop_id step v s = Again v1 s1" "R (held s1) (held s')"
    moreover from this(1) have "R (held s) (held s1)"
    proof (cases rule: agent_step_cases)
      case (called response s2 v2 d s3)
      note k = calls [OF called(2,7)]
      then show ?thesis using called by (cases d) (auto elim!: guards_cases)
    qed simp_all
    ultimately show "R (held s) (held s')" by (blast intro: R_trans)
  qed
  ultimately show ?thesis by (rule R_trans)
qed

end

lemma only_proposes_uuid4: "only_proposes ep ctx (db, x) (snd (uuid4 db), x)"
proof (rule only_proposesI [of _ _ _ _ _ 1])
  show "drawn 1 db (snd (uuid4 db))" by (simp add: drawn_def uuid4_def)
  note d = this
  fix k assume u: "unique_ids (1 + k) db"
  have p: "proposals (snd (uuid4 db)) = proposals db" by (simp add: uuid4_def)
  show "unique_ids k (snd (uuid4 db)) \<and> proposes ctx (proposals db) (proposals (snd (uuid4 db)))"
    using unique_ids_shift [OF u d] u unfolding p by (simp add: proposes_refl unique_ids_def [of "Suc k" db])
qed simp_all

interpretation turn: agent_contract "only_proposes ep ctx" for ep ctx
  by unfold_locales (rule only_proposes_uuid4)

text \<open>A tool that reads: the database stays as it is and the manager sees only logins and GETs.\<close>

definition reads_only :: "'u endpoint \<Rightarrow> ('z database_scheme \<times> ('u \<times> http_request list) wazuh) tool_runner \<Rightarrow> bool" where
  "reads_only ep runner \<longleftrightarrow> keeps (\<lambda>s t. fst t = fst s \<and> reads ep (snd s) (snd t)) runner"

lemma reads_only_keeps:
  fixes ep :: "'u endpoint" and runner :: "('z database_scheme \<times> ('u \<times> http_request list) wazuh) tool_runner"
  shows "reads_only ep runner \<Longrightarrow> keeps (only_proposes ep ctx) runner"
  unfolding reads_only_def keeps_def
proof (intro allI)
  fix args and s :: "'z database_scheme \<times> ('u \<times> http_request list) wazuh"
  assume k: "\<forall>args s. fst (snd (tr_run runner args s)) = fst s \<and> reads ep (snd s) (snd (snd (tr_run runner args s)))"
  obtain db w where s: "s = (db, w)" by (cases s)
  obtain w' where t: "snd (tr_run runner args s) = (db, w')" using k s by (metis fst_conv prod.collapse)
  have "reads ep w w'" using k s t by (metis snd_conv)
  then show "only_proposes ep ctx s (snd (tr_run runner args s))" unfolding t unfolding s
    by (intro only_proposesI [of _ _ _ _ _ 0]) (simp_all add: drawn_def proposes_refl)
qed

text \<open>When every registered tool that is not execute-tier is a propose tool or only reads, a whole chat turn only proposes,
  whatever the model asks for and for as many steps as it runs: the manager sees nothing but logins and GETs on
  the read client, the trail keeps every event, and the ledger keeps every row (but for the link of a row of the
  caller's organization to its reversal) and gains only pending rows of the caller's own, with a content hash that
  matches.\<close>

theorem chat_turn_only_proposes:
  assumes run: "agent_run cfg research nudge question history s = Some (r, s')"
    and tools: "\<And>name runner schema. map_of (ac_runners cfg) name = Some runner \<Longrightarrow> map_of (ac_schemas cfg) name = Some schema \<Longrightarrow>
      ts_tier schema \<noteq> ExecuteTier \<Longrightarrow>
      reads_only ep runner \<or> (\<exists>stamp call_of parse check ttl. runner = propose_runner stamp call_of schema parse check ttl (logged ep) (ac_ctx cfg))"
  shows "reads ep (as_tools s) (as_tools s') \<and> prefix (audit_events (as_db s)) (audit_events (as_db s'))
    \<and> (\<exists>n. drawn n (as_db s) (as_db s') \<and> (unique_ids n (as_db s) \<longrightarrow> proposes (ac_ctx cfg) (proposals (as_db s)) (proposals (as_db s'))))"
proof -
  have "only_proposes ep (ac_ctx cfg) (held s) (held s')"
    using run
  proof (rule turn.agent_run_keeps)
    fix name runner schema
    assume "map_of (ac_runners cfg) name = Some runner" "map_of (ac_schemas cfg) name = Some schema" "ts_tier schema \<noteq> ExecuteTier"
    from tools [OF this] show "keeps (only_proposes ep (ac_ctx cfg)) runner" using reads_only_keeps propose_runner_keeps by blast
  qed
  then obtain n where "reads ep (as_tools s) (as_tools s')" "prefix (audit_events (as_db s)) (audit_events (as_db s'))"
      "drawn n (as_db s) (as_db s')" "\<forall>k. unique_ids (n + k) (as_db s) \<longrightarrow> proposes (ac_ctx cfg) (proposals (as_db s)) (proposals (as_db s'))"
    unfolding only_proposes_def held_def by auto
  moreover from this(4) have "unique_ids n (as_db s) \<longrightarrow> proposes (ac_ctx cfg) (proposals (as_db s)) (proposals (as_db s'))"
    by (metis add_0_right)
  ultimately show ?thesis by blast
qed

section \<open>Runs\<close>

text \<open>A model that makes the same call on every step, and one that is always down.\<close>

definition stuck_model :: "tool_call \<Rightarrow> unit provider" where
  "stuck_model call = \<lparr>pv_capability = small_capability, pv_effective_context_window = None,
     pv_chat = (\<lambda>rq m. (Inr \<lparr>rsp_content = [], rsp_tool_calls = [call], rsp_input_tokens = int (length (cr_messages rq)), rsp_output_tokens = 1,
       rsp_stop_reason = ''tool_use'', rsp_model_id = ''m''\<rparr>, m)), pv_chat_stream = None\<rparr>"

definition down_model :: "unit provider" where
  "down_model = (stuck_model echo_call)\<lparr>pv_chat := \<lambda>rq m. (Inl (Wolf ModelProviderRateLimitError ''429''), m)\<rparr>"

definition demo_config :: "unit provider \<Rightarrow> int \<Rightarrow> schema_registry \<Rightarrow> ('d \<times> 'x) runner_registry \<Rightarrow> ('d, 'x, unit) agent_config" where
  "demo_config p breaker schemas runners = \<lparr>ac_provider = p, ac_strategy = strategy_for [] [] [] Frontier, ac_step_breaker = breaker,
     ac_context_fit_threshold = 4/5, ac_schemas = schemas, ac_runners = runners, ac_ctx = echo_ctx, ac_streaming = True, ac_validator = None,
     ac_grounding_mode = ''blocking'', ac_quota_message = (\<lambda>_. None), ac_traceback = (\<lambda>_. []), ac_elapsed = (\<lambda>_. 5)\<rparr>"

definition demo_state :: "'d \<Rightarrow> 'x \<Rightarrow> ('d, 'x, unit) agent_state" where
  "demo_state db x = \<lparr>as_db = db, as_rate_limiter = default_rate_limiter (\<lambda>_. 0), as_tools = x, as_model = (), as_events = []\<rparr>"

lemma stuck_model_answers: "may_answer (stuck_model call) ms r \<Longrightarrow> rsp_tool_calls r = [call] \<and> rsp_input_tokens r = int (length ms)"
  unfolding may_answer_def stuck_model_def by auto

lemma context_fit_demo: "context_fit_limit (demo_config (stuck_model call) breaker schemas runners) = 80"
  by (simp add: context_fit_limit_def demo_config_def effective_context_window_def stuck_model_def small_capability_def Let_def)

theorem agent_runs_end_witness:
  "(\<exists>r s'. agent_run (demo_config (stuck_model echo_call) 3 [(''echo'', echo_schema)] [(''echo'', echo_tool)]) None None ''q'' [] (demo_state empty_audit ()) = Some (r, s')
      \<and> (\<forall>a. r = Inr a \<longrightarrow> aa_step_count a \<le> 3))
   \<and> (\<exists>r s'. agent_run (demo_config (stuck_model echo_call) 0 [(''echo'', echo_schema)] [(''echo'', echo_tool)]) None None ''q'' [] (demo_state empty_audit ()) = Some (r, s')
      \<and> (\<forall>a. r = Inr a \<longrightarrow> aa_step_count a \<le> 4 \<and> aa_step_count a \<le> 81))"
proof -
  let ?cfg = "\<lambda>b. demo_config (stuck_model echo_call) b [(''echo'', echo_schema)] [(''echo'', echo_tool)] :: (audit_db, unit, unit) agent_config"
  have p: "ac_provider (?cfg b) = stuck_model echo_call" "ac_step_breaker (?cfg b) = b" for b by (simp_all add: demo_config_def)
  have m: "may_answer (ac_provider (?cfg b)) ms r \<Longrightarrow> signature ` set (rsp_tool_calls r) \<subseteq> {signature echo_call}"
      "may_answer (ac_provider (?cfg b)) ms r \<Longrightarrow> rsp_input_tokens r \<ge> int (length ms)" for b ms r
    using stuck_model_answers unfolding p by auto
  have "(\<exists>r s'. agent_run (?cfg 3) None None ''q'' [] (demo_state empty_audit ()) = Some (r, s') \<and> (\<forall>a. r = Inr a \<longrightarrow> int (aa_step_count a) \<le> 3))"
    using agent_runs_end [where cfg = "?cfg 3" and s = "demo_state empty_audit ()" and research = None and nudge = None and question = "''q''" and history = "[]"] p by simp
  moreover have "(\<exists>r s'. agent_run (?cfg 0) None None ''q'' [] (demo_state empty_audit ()) = Some (r, s') \<and> (\<forall>a. r = Inr a \<longrightarrow> aa_step_count a \<le> 4))"
    using agent_runs_end [where S = "{signature echo_call}" and cfg = "?cfg 0" and s = "demo_state empty_audit ()" and research = None and nudge = None and question = "''q''" and history = "[]"] m(1) by auto
  moreover have "(\<exists>r s'. agent_run (?cfg 0) None None ''q'' [] (demo_state empty_audit ()) = Some (r, s') \<and> (\<forall>a. r = Inr a \<longrightarrow> int (aa_step_count a) \<le> 81))"
    using agent_runs_end [where cfg = "?cfg 0" and s = "demo_state empty_audit ()" and research = None and nudge = None and question = "''q''" and history = "[]"] m(2) by (simp add: context_fit_demo)
  ultimately show ?thesis by fastforce
qed


theorem chat_turn_only_proposes_witness:
  "\<exists>runner r s'. runner = propose_runner (\<lambda>_. []) (\<lambda>_. noisy_rule) echo_schema Inr (\<lambda>_. []) 3600 (logged rules_manager) echo_ctx
     \<and> agent_run (demo_config (stuck_model echo_call) 2 [(''echo'', echo_schema)] [(''echo'', runner)]) None None ''q'' []
         (demo_state empty_ledger \<lparr>read_token = None, action_token = None, remote = ((), [])\<rparr>) = Some (r, s')
     \<and> reads rules_manager \<lparr>read_token = None, action_token = None, remote = ((), [])\<rparr> (as_tools s')
     \<and> (\<exists>n. unique_ids n empty_ledger \<longrightarrow> proposes echo_ctx [] (proposals (as_db s')))"
proof -
  let ?runner = "propose_runner (\<lambda>_. []) (\<lambda>_. noisy_rule) echo_schema Inr (\<lambda>_. []) 3600 (logged rules_manager) echo_ctx"
  let ?cfg = "demo_config (stuck_model echo_call) 2 [(''echo'', echo_schema)] [(''echo'', ?runner)]
    :: (database, (unit \<times> http_request list) wazuh, unit) agent_config"
  let ?s = "demo_state empty_ledger \<lparr>read_token = None, action_token = None, remote = ((), [])\<rparr>
    :: (database, (unit \<times> http_request list) wazuh, unit) agent_state"
  have d: "ac_step_breaker ?cfg > 0" "ac_runners ?cfg = [(''echo'', ?runner)]" "ac_schemas ?cfg = [(''echo'', echo_schema)]" "ac_ctx ?cfg = echo_ctx"
    by (simp_all add: demo_config_def)
  obtain r s' where run: "agent_run ?cfg None None ''q'' [] ?s = Some (r, s')" using agent_run_breaker [OF d(1)] by blast
  have "reads rules_manager (as_tools ?s) (as_tools s') \<and> prefix (audit_events (as_db ?s)) (audit_events (as_db s'))
    \<and> (\<exists>n. drawn n (as_db ?s) (as_db s') \<and> (unique_ids n (as_db ?s) \<longrightarrow> proposes (ac_ctx ?cfg) (proposals (as_db ?s)) (proposals (as_db s'))))"
    by (rule chat_turn_only_proposes [OF run]) (rule disjI2, simp add: d split: if_splits, blast)
  then have "reads rules_manager \<lparr>read_token = None, action_token = None, remote = ((), [])\<rparr> (as_tools s')"
      "\<exists>n. unique_ids n empty_ledger \<longrightarrow> proposes echo_ctx [] (proposals (as_db s'))"
    by (auto simp: demo_state_def d(4)) (auto simp: empty_ledger_def)
  with run show ?thesis by blast
qed


end
