(* ===== verification/Alert_Search.thy ===== *)
theory Alert_Search
  imports Wazuh_Connection Propose_Tools Guardrails Org_Cache Py_Values "HOL-Library.Multiset"
begin

text \<open>
  The alert-tier read path: the organization-scoped query builder (\<open>wazuh/query_builder.py\<close>), the OpenSearch client
  (\<open>wazuh/opensearch.py\<close>) and the tools on top of them (\<open>tools/alerts.py\<close>).

  The HTTP client behind \<open>WazuhOpenSearchClient\<close> is a parameter: it maps a URL, a JSON query and the state of the
  indexer to a reply, to an \<open>httpx.RequestError\<close> (class and text), or to any other exception.  What Pydantic makes of
  a text for an \<open>int\<close> field and how it writes a datetime are parameters too; the text of its validation errors is
  abbreviated.  A tool acts on the database (only for the clock of its citation) and on what it can reach: the
  manager, the indexer and the cache.
\<close>

section \<open>The query builder\<close>

record query_builder =
  qb_organization_id :: string
  qb_inject_group_label_filter :: bool
  qb_agent_group_labels :: "string list"

definition mandatory_filters :: "query_builder \<Rightarrow> pyval list" where
  "mandatory_filters qb = (if \<not> qb_inject_group_label_filter qb \<or> qb_agent_group_labels qb = [] then []
     else [PDict [(''terms'', PDict [(''agent.labels.group'', PList (map PStr (qb_agent_group_labels qb)))])]])"

definition timestamp_range :: "datetime \<Rightarrow> datetime \<Rightarrow> pyval" where
  "timestamp_range time_from time_to = PDict [(''range'', PDict [(''timestamp'', PDict
     [(''gte'', PStr (isoformat time_from)), (''lte'', PStr (isoformat time_to))])])]"

definition term_clause :: "string \<Rightarrow> string \<Rightarrow> pyval" where
  "term_clause field value = PDict [(''term'', PDict [(field, PStr value)])]"

definition free_text_clause :: "string \<Rightarrow> pyval" where
  "free_text_clause free_text =
    (let normalized = map (\<lambda>c. if c = CHR ''-'' then CHR '' '' else c) (py_lower free_text);
         tokens = py_words normalized;
         should = PDict [(''match'', PDict [(''full_log'', PDict [(''query'', PStr free_text), (''operator'', PStr ''or'')])])]
           # map (\<lambda>token. PDict [(''wildcard'', PDict [(''rule.description'', PDict
               [(''value'', PStr (''*'' @ token @ ''*'')), (''case_insensitive'', PBool True)])])]) tokens
     in PDict [(''bool'', PDict [(''should'', PList should), (''minimum_should_match'', PInt 1)])])"

definition optional :: "'a option \<Rightarrow> ('a \<Rightarrow> 'b) \<Rightarrow> 'b list" where
  "optional x f = (case x of None \<Rightarrow> [] | Some v \<Rightarrow> [f v])"

definition qb_search_alerts ::
  "query_builder \<Rightarrow> datetime \<Rightarrow> datetime \<Rightarrow> string option \<Rightarrow> int option \<Rightarrow> int option \<Rightarrow> string option \<Rightarrow> string option \<Rightarrow> int \<Rightarrow> bool
    \<Rightarrow> pyval list option \<Rightarrow> dict" where
  "qb_search_alerts qb time_from time_to agent_id rule_id min_level attack_technique free_text page_size descending search_after =
    (let filters = mandatory_filters qb @ [timestamp_range time_from time_to]
           @ optional agent_id (term_clause ''agent.id'')
           @ optional rule_id (\<lambda>r. term_clause ''rule.id'' (show_int r))
           @ optional min_level (\<lambda>l. PDict [(''range'', PDict [(''rule.level'', PDict [(''gte'', PInt l)])])])
           @ optional attack_technique (term_clause ''rule.mitre.id'');
         must = (case free_text of Some t \<Rightarrow> if t \<noteq> [] then [free_text_clause t] else [] | None \<Rightarrow> []);
         order = PDict [(''order'', PStr (if descending then ''desc'' else ''asc''))]
     in [(''size'', PInt page_size), (''sort'', PList [PDict [(''timestamp'', order)], PDict [(''_id'', order)]]),
         (''query'', PDict [(''bool'', PDict [(''filter'', PList filters), (''must'', PList must)])])]
        @ optional search_after (\<lambda>c. (''search_after'', PList c)))"

definition qb_aggregate_alerts :: "query_builder \<Rightarrow> datetime \<Rightarrow> datetime \<Rightarrow> string \<Rightarrow> string option \<Rightarrow> int \<Rightarrow> dict" where
  "qb_aggregate_alerts qb time_from time_to group_by agent_id page_size =
    (let filters = mandatory_filters qb @ [timestamp_range time_from time_to] @ optional agent_id (term_clause ''agent.id'')
     in [(''size'', PInt 0), (''query'', PDict [(''bool'', PDict [(''filter'', PList filters)])]),
         (''aggs'', PDict [(''buckets'', PDict [(''terms'', PDict [(''field'', PStr group_by), (''size'', PInt page_size)])])])])"

definition qb_event_timeline :: "query_builder \<Rightarrow> datetime \<Rightarrow> datetime \<Rightarrow> string \<Rightarrow> int \<Rightarrow> dict" where
  "qb_event_timeline qb time_from time_to agent_id page_size =
    (let filters = mandatory_filters qb @ [timestamp_range time_from time_to, term_clause ''agent.id'' agent_id]
     in [(''size'', PInt page_size), (''sort'', PList [PDict [(''timestamp'', PDict [(''order'', PStr ''asc'')])]]),
         (''query'', PDict [(''bool'', PDict [(''filter'', PList filters)])])])"

definition qb_agent_alert_history :: "query_builder \<Rightarrow> datetime \<Rightarrow> datetime \<Rightarrow> string \<Rightarrow> int \<Rightarrow> dict" where
  "qb_agent_alert_history qb time_from time_to agent_id page_size =
    qb_search_alerts qb time_from time_to (Some agent_id) None None None None page_size True None"

section \<open>The OpenSearch client\<close>

datatype os_reply = Reply http_response | Unreachable string string | Raised exn

type_synonym 'i indexer = "string \<Rightarrow> dict \<Rightarrow> 'i \<Rightarrow> os_reply \<times> 'i"

definition query_builder_of :: "wazuh_connection \<Rightarrow> query_builder" where
  "query_builder_of cn = \<lparr>qb_organization_id = uuid_str (cn_organization_id cn),
     qb_inject_group_label_filter = cn_inject_group_label_filter cn, qb_agent_group_labels = cn_agent_group_labels cn\<rparr>"

definition group_filter_active :: "wazuh_connection \<Rightarrow> bool" where
  "group_filter_active cn \<longleftrightarrow> cn_inject_group_label_filter cn \<and> cn_agent_group_labels cn \<noteq> []"

definition os_error :: "string \<Rightarrow> exn" where
  "os_error m = Wolf WazuhOpenSearchError m"

definition no_get :: "'a result" where
  "no_get = Inl (PyError ''AttributeError'' ''object has no attribute get'')"

definition clause_values :: "pyval \<Rightarrow> pyval result" where
  "clause_values clause = rbind (case clause of PDict c \<Rightarrow> Inr (dget_or c ''terms'' (PDict [])) | _ \<Rightarrow> Inr (PDict []))
     (\<lambda>terms. pget terms ''agent.labels.group'' PNone)"

fun scoped_clause :: "string list \<Rightarrow> pyval list \<Rightarrow> unit result" where
  "scoped_clause expected [] =
    Inl (Wolf OrganizationMismatchError ''OpenSearch query missing mandatory agent.labels.group filter - rejected'')"
| "scoped_clause expected (clause # clauses) = rbind (clause_values clause) (\<lambda>values.
     case values of
       PList vs \<Rightarrow> rbind (same_texts vs expected) (\<lambda>same. if same then Inr () else scoped_clause expected clauses)
     | _ \<Rightarrow> scoped_clause expected clauses)"

definition assert_group_label_filter_present :: "wazuh_connection \<Rightarrow> dict \<Rightarrow> unit result" where
  "assert_group_label_filter_present cn query = (if \<not> group_filter_active cn then Inr ()
     else rbind (pget (dget_or query ''query'' (PDict [])) ''bool'' (PDict [])) (\<lambda>b.
       rbind (pget b ''filter'' (PList [])) (\<lambda>filters. rbind (iterate filters) (scoped_clause (cn_agent_group_labels cn)))))"

definition nested_group_label :: "pyval \<Rightarrow> string option result" where
  "nested_group_label source = rbind (pget source ''agent'' PNone) (\<lambda>agent. Inr (case agent of
     PDict a \<Rightarrow> (case dget a ''labels'' of PDict l \<Rightarrow> as_str (dget l ''group'') | _ \<Rightarrow> None)
   | _ \<Rightarrow> None))"

definition sorted_repr :: "string list \<Rightarrow> string" where
  "sorted_repr xs = py_repr (PList (map PStr (sort (remdups xs))))"

fun labels_match :: "string list \<Rightarrow> pyval list \<Rightarrow> unit result" where
  "labels_match allowed [] = Inr ()"
| "labels_match allowed (hit # hits) =
    rbind (nested_group_label (case hit of PDict h \<Rightarrow> dget_or h ''_source'' (PDict []) | _ \<Rightarrow> PDict [])) (\<lambda>label.
      case label of
        Some l \<Rightarrow> if l \<notin> set allowed then Inl (Wolf OrganizationMismatchError (''OpenSearch returned doc with agent.labels.group ''
            @ repr_str l @ '', expected one of '' @ sorted_repr allowed)) else labels_match allowed hits
      | None \<Rightarrow> labels_match allowed hits)"

definition body_hits :: "pyval \<Rightarrow> pyval result" where
  "body_hits body = rbind (pget body ''hits'' (PDict [])) (\<lambda>h. pget h ''hits'' (PList []))"

definition assert_group_label_match :: "wazuh_connection \<Rightarrow> pyval \<Rightarrow> unit result" where
  "assert_group_label_match cn body = (if \<not> group_filter_active cn then Inr ()
     else rbind (body_hits body) (\<lambda>hits. rbind (iterate hits) (labels_match (cn_agent_group_labels cn))))"

definition search_url :: "wazuh_connection \<Rightarrow> string \<Rightarrow> string" where
  "search_url cn base = rstrip_by (\<lambda>c. c = CHR ''/'') base @ ''/'' @ cn_opensearch_index_pattern cn @ ''/_search''"

definition candidates :: "wazuh_connection \<Rightarrow> string list" where
  "candidates cn = cn_opensearch_url cn # cn_opensearch_fallback_urls cn"

fun try_nodes :: "wazuh_connection \<Rightarrow> 'i indexer \<Rightarrow> dict \<Rightarrow> string list \<Rightarrow> string \<Rightarrow> 'i \<Rightarrow> pyval result \<times> 'i" where
  "try_nodes cn post query [] last_error i =
    (Inl (os_error (''All '' @ show_nat (length (candidates cn)) @ '' indexer node(s) failed; last error: '' @ last_error)), i)"
| "try_nodes cn post query (base # bases) last_error i = (case post (search_url cn base) query i of
     (Unreachable c m, i) \<Rightarrow> try_nodes cn post query bases (c @ '': '' @ m) i
   | (Raised e, i) \<Rightarrow> (Inl e, i)
   | (Reply rs, i) \<Rightarrow>
       if rs_status rs \<ge> 500 \<and> bases \<noteq> [] then try_nodes cn post query bases (''HTTP '' @ show_nat (rs_status rs)) i
       else if rs_status rs \<ge> 400
       then (Inl (os_error (''OpenSearch returned '' @ show_nat (rs_status rs) @ '': '' @ take 200 (rs_text rs))), i)
       else (rbind (decode_json (Inr rs)) (\<lambda>body. rbind (assert_group_label_match cn body) (\<lambda>_. Inr body)), i))"

definition os_execute :: "wazuh_connection \<Rightarrow> 'i indexer \<Rightarrow> dict \<Rightarrow> 'i \<Rightarrow> pyval result \<times> 'i" where
  "os_execute cn post query i = (case assert_group_label_filter_present cn query of
     Inl e \<Rightarrow> (Inl e, i) | Inr _ \<Rightarrow> try_nodes cn post query (candidates cn) ''None'' i)"

section \<open>What the tools work with\<close>

record ('w, 'i) exec_context =
  ec_organization :: organization_context
  ec_limits :: resource_limits
  ec_connection :: wazuh_connection
  ec_indexer :: "'i indexer"
  ec_server_api :: "'w endpoint"
  ec_lax_int :: "string \<Rightarrow> int option"
  ec_stamp :: "datetime \<Rightarrow> string"

record ('w, 'i) reach =
  re_manager :: "'w wazuh"
  re_indexer :: 'i
  re_cache :: "pyval org_cache option"

definition execute_query :: "('w, 'i) exec_context \<Rightarrow> dict \<Rightarrow> ('w, 'i) reach \<Rightarrow> pyval result \<times> ('w, 'i) reach" where
  "execute_query ec query w = (case os_execute (ec_connection ec) (ec_indexer ec) query (re_indexer w) of
     (r, i) \<Rightarrow> (r, w\<lparr>re_indexer := i\<rparr>))"

definition server_api_get :: "('w, 'i) exec_context \<Rightarrow> string \<Rightarrow> (string \<times> string) list \<Rightarrow> ('w, 'i) reach \<Rightarrow> pyval result \<times> ('w, 'i) reach" where
  "server_api_get ec path params w = (case api_get (ec_server_api ec) path params (re_manager w) of
     (r, m) \<Rightarrow> (r, w\<lparr>re_manager := m\<rparr>))"

text \<open>Fields of an output model: \<open>str | None\<close>, \<open>int | None\<close>, \<open>list[str]\<close>.\<close>

definition invalid :: "'a result" where
  "invalid = Inl (PyError ''ValidationError'' ''validation error'')"

fun opt_text :: "pyval \<Rightarrow> string option result" where
  "opt_text PNone = Inr None"
| "opt_text (PStr s) = Inr (Some s)"
| "opt_text v = invalid"

fun opt_int :: "(string \<Rightarrow> int option) \<Rightarrow> pyval \<Rightarrow> int option result" where
  "opt_int lax PNone = Inr None"
| "opt_int lax (PInt i) = Inr (Some i)"
| "opt_int lax (PBool b) = Inr (Some (if b then 1 else 0))"
| "opt_int lax (PStr s) = (case lax s of Some i \<Rightarrow> Inr (Some i) | None \<Rightarrow> invalid)"
| "opt_int lax v = invalid"

fun text_item :: "pyval \<Rightarrow> string result" where
  "text_item (PStr s) = Inr s"
| "text_item v = invalid"

text \<open>\<open>list(x)\<close> where a single text \<open>x\<close> has been wrapped in a list first.\<close>

definition listed :: "pyval \<Rightarrow> pyval list result" where
  "listed x = (case x of PStr s \<Rightarrow> Inr [PStr s] | _ \<Rightarrow> iterate x)"

section \<open>Hits and their summary\<close>

record alert_hit =
  ah_id :: string
  ah_timestamp :: string
  ah_agent_id :: "string option"
  ah_agent_name :: "string option"
  ah_rule_id :: "string option"
  ah_rule_level :: "int option"
  ah_rule_description :: "string option"
  ah_mitre_techniques :: "string list"
  ah_full_log :: "string option"

definition hit_to_alert :: "(string \<Rightarrow> int option) \<Rightarrow> pyval \<Rightarrow> alert_hit result" where
  "hit_to_alert lax hit =
    rbind (pget hit ''_source'' (PDict [])) (\<lambda>source.
    rbind (pget source ''agent'' (PDict [])) (\<lambda>agent.
    rbind (pget source ''rule'' (PDict [])) (\<lambda>rule.
    rbind (pget rule ''mitre'' (PDict [])) (\<lambda>mitre.
    rbind (pget (py_or mitre (PDict [])) ''id'' PNone) (\<lambda>ids.
    rbind (pget hit ''_id'' (PStr [])) (\<lambda>doc_id.
    rbind (pget source ''timestamp'' (PStr [])) (\<lambda>timestamp.
    rbind (pget agent ''id'' PNone) (\<lambda>agent_id.
    rbind (pget agent ''name'' PNone) (\<lambda>agent_name.
    rbind (pget rule ''id'' PNone) (\<lambda>rule_id.
    rbind (pget rule ''level'' PNone) (\<lambda>level.
    rbind (pget rule ''description'' PNone) (\<lambda>description.
    rbind (listed (py_or ids (PList []))) (\<lambda>techniques.
    rbind (pget source ''full_log'' PNone) (\<lambda>full_log.
    rbind (opt_text agent_id) (\<lambda>agent_id.
    rbind (opt_text agent_name) (\<lambda>agent_name.
    rbind (opt_int lax level) (\<lambda>level.
    rbind (opt_text description) (\<lambda>description.
    rbind (rmap text_item techniques) (\<lambda>techniques.
    rbind (opt_text full_log) (\<lambda>full_log.
      Inr \<lparr>ah_id = py_str doc_id, ah_timestamp = py_str timestamp, ah_agent_id = agent_id, ah_agent_name = agent_name,
        ah_rule_id = (if rule_id = PNone then None else Some (py_str rule_id)), ah_rule_level = level,
        ah_rule_description = description, ah_mitre_techniques = techniques, ah_full_log = full_log\<rparr>))))))))))))))))))))"

record alert_rule_summary =
  ru_rule_id :: string
  ru_description :: "string option"
  ru_count :: int

record alert_agent_summary =
  gs_agent_id :: string
  gs_agent_name :: "string option"
  gs_count :: int

record search_alerts_summary =
  sm_per_rule :: "alert_rule_summary list"
  sm_per_agent :: "alert_agent_summary list"
  sm_earliest_timestamp :: "string option"
  sm_latest_timestamp :: "string option"

text \<open>\<open>d[k] = d.get(k, 0) + 1\<close>, and \<open>if k not in d: d[k] = v\<close>.\<close>

definition count_up :: "string \<Rightarrow> (string \<times> int) list \<Rightarrow> (string \<times> int) list" where
  "count_up k d = AList.update k ((case map_of d k of None \<Rightarrow> 0 | Some n \<Rightarrow> n) + 1) d"

definition keep_first :: "string \<Rightarrow> 'v \<Rightarrow> (string \<times> 'v) list \<Rightarrow> (string \<times> 'v) list" where
  "keep_first k v d = (if map_of d k = None then AList.update k v d else d)"

definition tally :: "('a \<Rightarrow> string option) \<Rightarrow> 'a list \<Rightarrow> (string \<times> int) list" where
  "tally key hits = fold (\<lambda>h d. case key h of None \<Rightarrow> d | Some k \<Rightarrow> count_up k d) hits []"

definition firsts :: "('a \<Rightarrow> string option) \<Rightarrow> ('a \<Rightarrow> 'v) \<Rightarrow> 'a list \<Rightarrow> (string \<times> 'v) list" where
  "firsts key val hits = fold (\<lambda>h d. case key h of None \<Rightarrow> d | Some k \<Rightarrow> keep_first k (val h) d) hits []"

definition compute_alert_summary :: "alert_hit list \<Rightarrow> search_alerts_summary" where
  "compute_alert_summary hits =
    (let rule_desc = firsts ah_rule_id ah_rule_description hits;
         agent_names = firsts ah_agent_id ah_agent_name hits;
         timestamps = filter (\<lambda>t. t \<noteq> []) (map ah_timestamp hits)
     in \<lparr>sm_per_rule = sort_desc ru_count (map (\<lambda>(rid, c). \<lparr>ru_rule_id = rid, ru_description = the (map_of rule_desc rid), ru_count = c\<rparr>)
            (tally ah_rule_id hits)),
         sm_per_agent = sort_desc gs_count (map (\<lambda>(aid, c). \<lparr>gs_agent_id = aid, gs_agent_name = the (map_of agent_names aid), gs_count = c\<rparr>)
            (tally ah_agent_id hits)),
         sm_earliest_timestamp = (case timestamps of [] \<Rightarrow> None | t # ts \<Rightarrow> Some (fold min ts t)),
         sm_latest_timestamp = (case timestamps of [] \<Rightarrow> None | t # ts \<Rightarrow> Some (fold max ts t))\<rparr>)"

section \<open>Agent names\<close>

definition AGENT_NAME_CACHE_NS :: string where "AGENT_NAME_CACHE_NS = ''agent_name_lookup''"

definition AGENT_NAME_CACHE_TTL :: rat where "AGENT_NAME_CACHE_TTL = 60"

definition affected_items :: "pyval \<Rightarrow> pyval result" where
  "affected_items body = rbind (pget body ''data'' (PDict [])) (\<lambda>dat. rbind (pget dat ''affected_items'' (PList [])) (\<lambda>items.
     Inr (py_or items (PList []))))"

definition first_agent_id :: "pyval \<Rightarrow> string option result" where
  "first_agent_id body = rbind (affected_items body) (\<lambda>items.
     if \<not> truthy items then Inr None
     else rbind (py_first items) (\<lambda>item. rbind (pget item ''id'' PNone) (\<lambda>v. Inr (if v = PNone then None else Some (py_str v)))))"

definition cached_agent_id :: "('w, 'i) exec_context \<Rightarrow> string \<Rightarrow> ('w, 'i) reach \<Rightarrow> pyval option result \<times> ('w, 'i) reach" where
  "cached_agent_id ec agent_name w = (case re_cache w of None \<Rightarrow> (Inr None, w)
     | Some c \<Rightarrow> (case cache_get (oc_organization_id (ec_organization ec)) AGENT_NAME_CACHE_NS agent_name c of
         (r, c) \<Rightarrow> (r, w\<lparr>re_cache := Some c\<rparr>)))"

definition remember_agent_id :: "('w, 'i) exec_context \<Rightarrow> string \<Rightarrow> string option \<Rightarrow> ('w, 'i) reach \<Rightarrow> unit result \<times> ('w, 'i) reach" where
  "remember_agent_id ec agent_name resolved w = (case re_cache w of None \<Rightarrow> (Inr (), w)
     | Some c \<Rightarrow> (case cache_set (oc_organization_id (ec_organization ec)) AGENT_NAME_CACHE_NS agent_name
           (PStr (case resolved of Some i \<Rightarrow> i | None \<Rightarrow> ''__NOT_FOUND__'')) (Some AGENT_NAME_CACHE_TTL) c of
         (r, c) \<Rightarrow> (r, w\<lparr>re_cache := Some c\<rparr>)))"

definition resolve_agent_name_to_id ::
  "('w, 'i) exec_context \<Rightarrow> string \<Rightarrow> ('w, 'i) reach \<Rightarrow> string option result \<times> ('w, 'i) reach" where
  "resolve_agent_name_to_id ec agent_name = io_bind (cached_agent_id ec agent_name) (\<lambda>cached.
     case (if cached = Some PNone then None else cached) of
       Some v \<Rightarrow> io_return (Inr (if v = PStr ''__NOT_FOUND__'' then None else Some (py_str v)))
     | None \<Rightarrow> io_bind (server_api_get ec ''/agents'' [(''name'', agent_name)]) (\<lambda>body.
         io_bind (io_return (first_agent_id body)) (\<lambda>resolved.
           io_bind (remember_agent_id ec agent_name resolved) (\<lambda>_. io_return (Inr resolved)))))"

section \<open>The tools\<close>

text \<open>A tool ends by citing itself, which reads the clock of the database.\<close>

type_synonym ('z, 'w, 'i, 'a) read_body = "'z audit_db_scheme \<times> ('w, 'i) reach \<Rightarrow> 'a result \<times> 'z audit_db_scheme \<times> ('w, 'i) reach"

definition reaching :: "(('w, 'i) reach \<Rightarrow> 'a result \<times> ('w, 'i) reach) \<Rightarrow> ('z, 'w, 'i, 'a) read_body" where
  "reaching m s = (case m (snd s) of (r, w) \<Rightarrow> (r, fst s, w))"

definition cite :: "string \<Rightarrow> dict \<Rightarrow> int \<Rightarrow> ('z, 'w, 'i, citation) read_body" where
  "cite tool query n s = (case make_citation tool query (Some n) (fst s) of (c, db) \<Rightarrow> (Inr c, db, snd s))"

definition int_or_none :: "int option \<Rightarrow> pyval" where
  "int_or_none n = (case n of Some i \<Rightarrow> PInt i | None \<Rightarrow> PNone)"

record search_alerts_input =
  si_time_from :: datetime
  si_time_to :: datetime
  si_agent_id :: "string option"
  si_agent_name :: "string option"
  si_rule_id :: "int option"
  si_min_level :: "int option"
  si_attack_technique :: "string option"
  si_free_text :: "string option"
  si_size :: int
  si_cursor :: "pyval list option"

text \<open>The validator of \<open>min_level\<close>: a list of levels stands for the least of them.\<close>

definition coerce_min_level :: "pyval \<Rightarrow> pyval" where
  "coerce_min_level v = (case v of
     PList (x # xs) \<Rightarrow> (case rmap int_of (x # xs) of Inr levels \<Rightarrow> PInt (fold min (tl levels) (hd levels)) | Inl _ \<Rightarrow> v)
   | _ \<Rightarrow> v)"

definition search_alerts_dump :: "(datetime \<Rightarrow> string) \<Rightarrow> search_alerts_input \<Rightarrow> dict" where
  "search_alerts_dump stamp args = [(''time_from'', PStr (stamp (si_time_from args))), (''time_to'', PStr (stamp (si_time_to args))),
     (''agent_id'', str_or_none (si_agent_id args)), (''agent_name'', str_or_none (si_agent_name args)),
     (''rule_id'', int_or_none (si_rule_id args)), (''min_level'', int_or_none (si_min_level args)),
     (''attack_technique'', str_or_none (si_attack_technique args)), (''free_text'', str_or_none (si_free_text args)),
     (''size'', PInt (si_size args)), (''cursor'', case si_cursor args of Some c \<Rightarrow> PList c | None \<Rightarrow> PNone)]"

record search_alerts_output =
  so_hits :: "alert_hit list"
  so_summary :: search_alerts_summary
  so_total :: int
  so_has_more :: bool
  so_next_cursor :: "pyval list option"
  so_citation :: citation

text \<open>\<open>not resolved_agent_id and args.agent_name\<close>: an empty id counts as none, an empty name is not looked up.\<close>

definition search_agent :: "('w, 'i) exec_context \<Rightarrow> search_alerts_input \<Rightarrow> ('w, 'i) reach \<Rightarrow> string option result \<times> ('w, 'i) reach" where
  "search_agent ec args = (case si_agent_name args of
     Some name \<Rightarrow> if (si_agent_id args = None \<or> si_agent_id args = Some []) \<and> name \<noteq> [] then resolve_agent_name_to_id ec name
       else io_return (Inr (si_agent_id args))
   | None \<Rightarrow> io_return (Inr (si_agent_id args)))"

definition total_value :: "pyval \<Rightarrow> pyval \<Rightarrow> pyval result" where
  "total_value body hits_raw = rbind (pget body ''hits'' (PDict [])) (\<lambda>h. rbind (pget h ''total'' (PDict [])) (\<lambda>total.
     case total of
       PDict t \<Rightarrow> rbind (py_len hits_raw) (\<lambda>n. Inr (dget_or t ''value'' (PInt (int n))))
     | _ \<Rightarrow> rbind (int_of total) (\<lambda>i. Inr (PInt i))))"

text \<open>The page: the alerts, the total, and the cursor of the next page when this one is full.\<close>

definition page_of :: "(string \<Rightarrow> int option) \<Rightarrow> int \<Rightarrow> pyval \<Rightarrow> (alert_hit list \<times> pyval \<times> pyval) result" where
  "page_of lax page_size body =
    rbind (body_hits body) (\<lambda>hits_raw.
    rbind (total_value body hits_raw) (\<lambda>total.
    rbind (iterate hits_raw) (\<lambda>hs.
    rbind (rmap (hit_to_alert lax) hs) (\<lambda>alerts.
    rbind (py_len hits_raw) (\<lambda>n.
    rbind (if int n = page_size \<and> hs \<noteq> [] then pget (last hs) ''sort'' PNone else Inr PNone) (\<lambda>next_cursor.
      Inr (alerts, total, next_cursor)))))))"

definition opt_list :: "pyval \<Rightarrow> pyval list option result" where
  "opt_list v = (case v of PNone \<Rightarrow> Inr None | PList xs \<Rightarrow> Inr (Some xs) | _ \<Rightarrow> invalid)"

definition run_search_alerts :: "('w, 'i) exec_context \<Rightarrow> search_alerts_input \<Rightarrow> ('z, 'w, 'i, search_alerts_output) read_body" where
  "run_search_alerts ec args =
    io_bind (io_return (enforce_limits (Some (si_time_from args)) (Some (si_time_to args)) (Some (si_size args)) (ec_limits ec) True)) (\<lambda>_.
    io_bind (reaching (search_agent ec args)) (\<lambda>resolved_agent_id.
    let query = qb_search_alerts (query_builder_of (ec_connection ec)) (si_time_from args) (si_time_to args) resolved_agent_id (si_rule_id args)
        (si_min_level args) (si_attack_technique args) (si_free_text args) (si_size args) True (si_cursor args) in
    io_bind (reaching (execute_query ec query)) (\<lambda>body.
    io_bind (io_return (page_of (ec_lax_int ec) (si_size args) body)) (\<lambda>(alerts, total_value, next_cursor).
    io_bind (io_return (int_of total_value)) (\<lambda>total.
    io_bind (cite ''search_alerts'' (search_alerts_dump (ec_stamp ec) args) (int (length alerts))) (\<lambda>c.
    io_bind (io_return (opt_list next_cursor)) (\<lambda>cursor.
    io_return (Inr \<lparr>so_hits = alerts, so_summary = compute_alert_summary alerts, so_total = total, so_has_more = (cursor \<noteq> None),
        so_next_cursor = cursor, so_citation = c\<rparr>))))))))"

record window_input =
  wi_time_from :: datetime
  wi_time_to :: datetime

record aggregate_alerts_input = window_input +
  qi_group_by :: string
  qi_agent :: "string option"
  qi_size :: int

definition aggregate_alerts_dump :: "(datetime \<Rightarrow> string) \<Rightarrow> aggregate_alerts_input \<Rightarrow> dict" where
  "aggregate_alerts_dump stamp args = [(''time_from'', PStr (stamp (wi_time_from args))), (''time_to'', PStr (stamp (wi_time_to args))),
     (''group_by'', PStr (qi_group_by args)), (''agent_id'', str_or_none (qi_agent args)), (''size'', PInt (qi_size args))]"

record aggregate_bucket =
  bu_key :: string
  bu_count :: int

record aggregate_alerts_output =
  go_buckets :: "aggregate_bucket list"
  go_total :: int
  go_citation :: citation

definition raw_buckets :: "pyval \<Rightarrow> pyval result" where
  "raw_buckets body = rbind (pget body ''aggregations'' (PDict [])) (\<lambda>a. rbind (pget a ''buckets'' (PDict [])) (\<lambda>b. pget b ''buckets'' (PList [])))"

definition bucket_of :: "pyval \<Rightarrow> aggregate_bucket result" where
  "bucket_of b = rbind (py_item b ''key'') (\<lambda>k. rbind (pget b ''doc_count'' (PInt 0)) (\<lambda>n. rbind (int_of n) (\<lambda>c.
     Inr \<lparr>bu_key = py_str k, bu_count = c\<rparr>)))"

definition run_aggregate_alerts :: "('w, 'i) exec_context \<Rightarrow> aggregate_alerts_input \<Rightarrow> ('z, 'w, 'i, aggregate_alerts_output) read_body" where
  "run_aggregate_alerts ec args =
    io_bind (io_return (enforce_limits (Some (wi_time_from args)) (Some (wi_time_to args)) (Some (qi_size args)) (ec_limits ec) False)) (\<lambda>_.
    io_bind (reaching (execute_query ec (qb_aggregate_alerts (query_builder_of (ec_connection ec)) (wi_time_from args) (wi_time_to args)
        (qi_group_by args) (qi_agent args) (qi_size args)))) (\<lambda>body.
    io_bind (io_return (rbind (raw_buckets body) (\<lambda>raw. rbind (iterate raw) (rmap bucket_of)))) (\<lambda>buckets.
    io_bind (cite ''aggregate_alerts'' (aggregate_alerts_dump (ec_stamp ec) args) (int (length buckets))) (\<lambda>c.
    io_return (Inr \<lparr>go_buckets = buckets, go_total = sum_list (map bu_count buckets), go_citation = c\<rparr>)))))"

record agent_window_input = window_input +
  ei_agent_id :: string
  ei_size :: int

definition agent_window_dump :: "(datetime \<Rightarrow> string) \<Rightarrow> agent_window_input \<Rightarrow> dict" where
  "agent_window_dump stamp args = [(''time_from'', PStr (stamp (wi_time_from args))), (''time_to'', PStr (stamp (wi_time_to args))),
     (''agent_id'', PStr (ei_agent_id args)), (''size'', PInt (ei_size args))]"

record agent_alerts_output =
  eo_alerts :: "alert_hit list"
  eo_summary :: search_alerts_summary
  eo_citation :: citation

definition alerts_of :: "(string \<Rightarrow> int option) \<Rightarrow> pyval \<Rightarrow> alert_hit list result" where
  "alerts_of lax body = rbind (body_hits body) (\<lambda>hits_raw. rbind (iterate hits_raw) (rmap (hit_to_alert lax)))"

definition run_get_event_timeline :: "('w, 'i) exec_context \<Rightarrow> agent_window_input \<Rightarrow> ('z, 'w, 'i, agent_alerts_output) read_body" where
  "run_get_event_timeline ec args =
    io_bind (io_return (enforce_limits (Some (wi_time_from args)) (Some (wi_time_to args)) (Some (ei_size args)) (ec_limits ec) True)) (\<lambda>_.
    io_bind (reaching (execute_query ec (qb_event_timeline (query_builder_of (ec_connection ec)) (wi_time_from args) (wi_time_to args)
        (ei_agent_id args) (ei_size args)))) (\<lambda>body.
    io_bind (io_return (alerts_of (ec_lax_int ec) body)) (\<lambda>events.
    io_bind (cite ''get_event_timeline'' (agent_window_dump (ec_stamp ec) args) (int (length events))) (\<lambda>c.
    io_return (Inr \<lparr>eo_alerts = events, eo_summary = compute_alert_summary events, eo_citation = c\<rparr>)))))"

definition run_get_agent_alert_history :: "('w, 'i) exec_context \<Rightarrow> agent_window_input \<Rightarrow> ('z, 'w, 'i, agent_alerts_output) read_body" where
  "run_get_agent_alert_history ec args =
    io_bind (io_return (enforce_limits (Some (wi_time_from args)) (Some (wi_time_to args)) (Some (ei_size args)) (ec_limits ec) True)) (\<lambda>_.
    io_bind (reaching (execute_query ec (qb_agent_alert_history (query_builder_of (ec_connection ec)) (wi_time_from args) (wi_time_to args)
        (ei_agent_id args) (ei_size args)))) (\<lambda>body.
    io_bind (io_return (alerts_of (ec_lax_int ec) body)) (\<lambda>alerts.
    io_bind (cite ''get_agent_alert_history'' (agent_window_dump (ec_stamp ec) args) (int (length alerts))) (\<lambda>c.
    io_return (Inr \<lparr>eo_alerts = alerts, eo_summary = compute_alert_summary alerts, eo_citation = c\<rparr>)))))"

record severity_counts =
  sv_critical :: int
  sv_high :: int
  sv_medium :: int
  sv_low :: int
  sv_total :: int

record severity_input = window_input +
  vi_agent_id :: "string option"

definition severity_dump :: "(datetime \<Rightarrow> string) \<Rightarrow> severity_input \<Rightarrow> dict" where
  "severity_dump stamp args = [(''time_from'', PStr (stamp (wi_time_from args))), (''time_to'', PStr (stamp (wi_time_to args))),
     (''agent_id'', str_or_none (vi_agent_id args))]"

type_synonym tallies = "int \<times> int \<times> int \<times> int"

definition add_level :: "int \<Rightarrow> int \<Rightarrow> tallies \<Rightarrow> tallies" where
  "add_level level n t = (case t of (critical, high, medium, low) \<Rightarrow>
     if level \<ge> 15 then (critical + n, high, medium, low)
     else if level \<ge> 12 then (critical, high + n, medium, low)
     else if level \<ge> 7 then (critical, high, medium + n, low)
     else if level \<ge> 0 then (critical, high, medium, low + n)
     else t)"

text \<open>A key that is no number is skipped; any other fault of a bucket is raised.\<close>

fun add_buckets :: "pyval list \<Rightarrow> tallies \<Rightarrow> tallies result" where
  "add_buckets [] t = Inr t"
| "add_buckets (b # bs) t = rbind (pget b ''key'' (PInt (- 1))) (\<lambda>key. case int_of key of
     Inl _ \<Rightarrow> add_buckets bs t
   | Inr level \<Rightarrow> rbind (pget b ''doc_count'' (PInt 0)) (\<lambda>v. rbind (int_of v) (\<lambda>n. add_buckets bs (add_level level n t))))"

definition severity_of :: "tallies \<Rightarrow> severity_counts" where
  "severity_of t = (case t of (critical, high, medium, low) \<Rightarrow>
     \<lparr>sv_critical = critical, sv_high = high, sv_medium = medium, sv_low = low, sv_total = critical + high + medium + low\<rparr>)"

definition run_count_alerts_by_severity :: "('w, 'i) exec_context \<Rightarrow> severity_input \<Rightarrow> ('z, 'w, 'i, severity_counts \<times> citation) read_body" where
  "run_count_alerts_by_severity ec args =
    io_bind (io_return (enforce_limits (Some (wi_time_from args)) (Some (wi_time_to args)) None (ec_limits ec) False)) (\<lambda>_.
    io_bind (reaching (execute_query ec (qb_aggregate_alerts (query_builder_of (ec_connection ec)) (wi_time_from args) (wi_time_to args)
        ''rule.level'' (vi_agent_id args) 20))) (\<lambda>body.
    io_bind (io_return (rbind (raw_buckets body) (\<lambda>raw. rbind (iterate raw) (\<lambda>bs. add_buckets bs (0, 0, 0, 0))))) (\<lambda>t.
    io_bind (cite ''count_alerts_by_severity'' (severity_dump (ec_stamp ec) args) (sv_total (severity_of t))) (\<lambda>c.
    io_return (Inr (severity_of t, c))))))"

section \<open>Queries that carry the filter\<close>

definition label_clause :: "string list \<Rightarrow> pyval \<Rightarrow> bool" where
  "label_clause labels f \<longleftrightarrow> (\<exists>vs. clause_values f = Inr (PList vs) \<and> set vs = PStr ` set labels)"

definition query_filters :: "dict \<Rightarrow> pyval list result" where
  "query_filters q = rbind (pget (dget_or q ''query'' (PDict [])) ''bool'' (PDict [])) (\<lambda>b. rbind (pget b ''filter'' (PList [])) iterate)"

text \<open>With the filter active, one of the clauses every hit has to satisfy restricts the group label to the organization's.\<close>

definition scoped :: "wazuh_connection \<Rightarrow> dict \<Rightarrow> bool" where
  "scoped cn q \<longleftrightarrow> (group_filter_active cn \<longrightarrow> (\<exists>fs. query_filters q = Inr fs \<and> (\<exists>f \<in> set fs. label_clause (cn_agent_group_labels cn) f)))"

lemma scoped_clause_Inr: "scoped_clause labels fs = Inr () \<Longrightarrow> \<exists>f \<in> set fs. label_clause labels f"
proof (induction labels fs rule: scoped_clause.induct)
  case (2 labels f fs)
  from "2.prems" obtain v where v: "clause_values f = Inr v" by (auto simp: rbind_Inr_iff)
  show ?case
  proof (cases "\<exists>vs. v = PList vs \<and> same_texts vs labels = Inr True")
    case True
    then have "label_clause labels f" using v by (auto simp: label_clause_def same_texts_def split: if_splits)
    then show ?thesis by simp
  next
    case False
    with "2.prems" v have "scoped_clause labels fs = Inr ()" by (auto simp: rbind_Inr_iff split: pyval.splits if_splits)
    then have "\<exists>f \<in> set fs. label_clause labels f"
      using "2.IH" v False "2.prems" by (cases v) (auto simp: rbind_Inr_iff)
    then show ?thesis by simp
  qed
qed simp

lemma present_scoped: "assert_group_label_filter_present cn q = Inr () \<Longrightarrow> scoped cn q"
  unfolding assert_group_label_filter_present_def scoped_def query_filters_def
  by (auto simp: rbind_Inr_iff split: if_splits dest!: scoped_clause_Inr)

lemma scoped_clause_found: "scoped_clause labels (PDict [(''terms'', PDict [(''agent.labels.group'', PList (map PStr labels))])] # fs) = Inr ()"
  by (simp add: clause_values_def dget_or_def pget_def rbind_def same_texts_def list_all_iff)

text \<open>Every query the builder makes passes the check of the client.\<close>

lemma built_queries_pass:
  "assert_group_label_filter_present cn (qb_search_alerts (query_builder_of cn) t0 t1 a r l m f n d c) = Inr ()"
  "assert_group_label_filter_present cn (qb_aggregate_alerts (query_builder_of cn) t0 t1 g a n) = Inr ()"
  "assert_group_label_filter_present cn (qb_event_timeline (query_builder_of cn) t0 t1 i n) = Inr ()"
  "assert_group_label_filter_present cn (qb_agent_alert_history (query_builder_of cn) t0 t1 i n) = Inr ()"
  by (auto simp: assert_group_label_filter_present_def group_filter_active_def qb_search_alerts_def qb_aggregate_alerts_def
      qb_event_timeline_def qb_agent_alert_history_def mandatory_filters_def query_builder_of_def Let_def dget_or_def pget_def
      scoped_clause_found simp del: scoped_clause.simps)

text \<open>Hits whose label is outside the organization's.\<close>

definition hit_label :: "pyval \<Rightarrow> string option" where
  "hit_label hit = (case nested_group_label (case hit of PDict h \<Rightarrow> dget_or h ''_source'' (PDict []) | _ \<Rightarrow> PDict []) of
     Inr l \<Rightarrow> l | Inl _ \<Rightarrow> None)"

definition within_labels :: "wazuh_connection \<Rightarrow> pyval \<Rightarrow> bool" where
  "within_labels cn body \<longleftrightarrow> (group_filter_active cn \<longrightarrow> (\<exists>v hs. body_hits body = Inr v \<and> iterate v = Inr hs
     \<and> (\<forall>h \<in> set hs. \<forall>l. hit_label h = Some l \<longrightarrow> l \<in> set (cn_agent_group_labels cn))))"

lemma labels_match_Inr: "labels_match labels hs = Inr () \<Longrightarrow> h \<in> set hs \<Longrightarrow> hit_label h = Some l \<Longrightarrow> l \<in> set labels"
  by (induction labels hs rule: labels_match.induct) (auto simp: rbind_Inr_iff hit_label_def split: option.splits if_splits)

lemma match_within: "assert_group_label_match cn body = Inr () \<Longrightarrow> within_labels cn body"
  unfolding assert_group_label_match_def within_labels_def
  by (auto simp: rbind_Inr_iff split: if_splits dest: labels_match_Inr)

section \<open>What the indexer sees\<close>

definition logged_post :: "'i indexer \<Rightarrow> ('i \<times> (string \<times> dict) list) indexer" where
  "logged_post post = (\<lambda>url q (i, qs). case post url q i of (r, i) \<Rightarrow> (r, (i, qs @ [(url, q)])))"

definition posted :: "wazuh_connection \<Rightarrow> (string \<times> dict) list \<Rightarrow> (string \<times> dict) list \<Rightarrow> bool" where
  "posted cn xs xs' \<longleftrightarrow> (\<exists>new. xs' = xs @ new \<and> (\<forall>(url, q) \<in> set new. url \<in> search_url cn ` set (candidates cn) \<and> scoped cn q))"

lemma posted_refl [simp]: "posted cn xs xs"
  by (simp add: posted_def)

lemma posted_trans: "posted cn a b \<Longrightarrow> posted cn b c \<Longrightarrow> posted cn a c"
  unfolding posted_def by (metis (no_types, lifting) Un_iff append.assoc set_append)

lemma logged_post_eq: "logged_post post url q i = (fst (post url q (fst i)), (snd (post url q (fst i)), snd i @ [(url, q)]))"
  by (simp add: logged_post_def split_beta)

lemma try_nodes_posts:
  "try_nodes cn (logged_post post) q bases e i = (r, i') \<Longrightarrow> set bases \<subseteq> set (candidates cn) \<Longrightarrow> scoped cn q \<Longrightarrow> posted cn (snd i) (snd i')"
proof (induction bases arbitrary: e i)
  case (Cons base bases)
  have one: "posted cn (snd i) (snd i @ [(search_url cn base, q)])" using Cons.prems by (simp add: posted_def)
  then show ?case
    using Cons.prems Cons.IH by (auto simp: logged_post_eq split: os_reply.splits if_splits intro: posted_trans [OF one])
qed simp

lemma try_nodes_within: "try_nodes cn post q bases e i = (Inr body, i') \<Longrightarrow> within_labels cn body"
  by (induction cn post q bases e i rule: try_nodes.induct)
    (auto simp: rbind_Inr_iff split: prod.splits os_reply.splits if_splits dest: match_within)

lemma os_execute_scoped:
  assumes "os_execute cn (logged_post post) q i = (r, i')"
  shows "posted cn (snd i) (snd i')" and "\<And>body. r = Inr body \<Longrightarrow> within_labels cn body" and "\<not> scoped cn q \<Longrightarrow> isl r \<and> i' = i"
proof -
  show "posted cn (snd i) (snd i')"
    using assms try_nodes_posts [OF _ subset_refl, of cn post q "''None''" i] present_scoped [of cn q]
    by (auto simp: os_execute_def split: sum.splits)
  show "within_labels cn body" if "r = Inr body" for body
    using assms that try_nodes_within by (auto simp: os_execute_def split: sum.splits)
  show "isl r \<and> i' = i" if "\<not> scoped cn q"
    using assms that present_scoped [of cn q] by (auto simp: os_execute_def split: sum.splits)
qed

section \<open>Breakdowns\<close>

definition having :: "('a \<Rightarrow> string option) \<Rightarrow> string \<Rightarrow> 'a list \<Rightarrow> 'a list" where
  "having key k hs = filter (\<lambda>h. key h = Some k) hs"

lemma tally_snoc: "tally key (hs @ [h]) = (case key h of None \<Rightarrow> tally key hs | Some k \<Rightarrow> count_up k (tally key hs))"
  by (cases "key h") (simp_all add: tally_def)

lemma firsts_snoc: "firsts key val (hs @ [h]) = (case key h of None \<Rightarrow> firsts key val hs | Some k \<Rightarrow> keep_first k (val h) (firsts key val hs))"
  by (cases "key h") (simp_all add: firsts_def)

lemma map_of_tally: "map_of (tally key hs) k = (if having key k hs = [] then None else Some (int (length (having key k hs))))"
proof (induction hs rule: rev_induct)
  case (snoc h hs)
  then show ?case by (cases "key h") (auto simp: tally_snoc count_up_def update_conv' having_def)
qed (simp add: tally_def having_def)

lemma distinct_tally: "distinct (map fst (tally key hs))"
proof (induction hs rule: rev_induct)
  case (snoc h hs)
  then show ?case by (cases "key h") (simp_all add: tally_snoc count_up_def distinct_update)
qed (simp add: tally_def)

lemma map_of_firsts: "map_of (firsts key val hs) k = map_option val (find (\<lambda>h. key h = Some k) hs)"
proof (induction hs rule: rev_induct)
  case (snoc h hs)
  then show ?case by (cases "key h") (auto simp: firsts_snoc keep_first_def update_conv' find_append split: option.splits)
qed (simp add: firsts_def)

lemma in_tally_iff: "(k, n) \<in> set (tally key hs) \<longleftrightarrow> having key k hs \<noteq> [] \<and> n = int (length (having key k hs))"
  unfolding map_of_eq_Some_iff [OF distinct_tally, symmetric] map_of_tally by auto

lemma sum_count_up: "distinct (map fst d) \<Longrightarrow> sum_list (map snd (count_up k d)) = sum_list (map snd d) + 1"
  unfolding count_up_def by (induction d) auto

lemma sum_tally: "sum_list (map snd (tally key hs)) = int (length (filter (\<lambda>h. key h \<noteq> None) hs))"
proof (induction hs rule: rev_induct)
  case (snoc h hs)
  then show ?case by (cases "key h") (simp_all add: tally_snoc sum_count_up distinct_tally)
qed (simp add: tally_def)

text \<open>What a breakdown has to be: one line for every key that occurs, with the number of its hits and what the first of
  them says, the most frequent first.\<close>

definition breakdown :: "('a \<Rightarrow> string option) \<Rightarrow> ('a \<Rightarrow> 'v) \<Rightarrow> 'a list \<Rightarrow> (string \<times> 'v \<times> int) list \<Rightarrow> bool" where
  "breakdown key val hs rows \<longleftrightarrow> distinct (map fst rows) \<and> sorted_wrt (\<lambda>x y. snd (snd y) \<le> snd (snd x)) rows
     \<and> (\<forall>k v n. (k, v, n) \<in> set rows \<longleftrightarrow> (\<exists>h rest. having key k hs = h # rest \<and> v = val h \<and> n = int (Suc (length rest))))
     \<and> sum_list (map (snd \<circ> snd) rows) = int (length (filter (\<lambda>h. key h \<noteq> None) hs))"

lemma sort_desc_props:
  "mset (sort_desc f xs) = mset xs" "distinct (map g (sort_desc f xs)) = distinct (map g xs)"
  "sum_list (map h (sort_desc f xs)) = (sum_list (map h xs) :: int)"
proof -
  show m: "mset (sort_desc f xs) = mset xs" by (simp add: sort_desc_def)
  then show "distinct (map g (sort_desc f xs)) = distinct (map g xs)" by (metis mset_eq_imp_distinct_iff mset_map)
  from m show "sum_list (map h (sort_desc f xs)) = sum_list (map h xs)" by (metis mset_map sum_mset_sum_list)
qed

lemma find_having: "find (\<lambda>h. key h = Some k) hs = (case having key k hs of [] \<Rightarrow> None | h # _ \<Rightarrow> Some h)"
  unfolding having_def by (induction hs) auto

lemma breakdown_sorted:
  assumes "\<And>k n. proj (row (k, n)) = (k, the (map_of (firsts key val hs) k), n)" "\<And>k n. f (row (k, n)) = n"
  shows "breakdown key val hs (map proj (sort_desc f (map row (tally key hs))))"
proof -
  let ?rows = "map proj (sort_desc f (map row (tally key hs)))"
  have row: "fst (proj (row x)) = fst x" "snd (snd (proj (row x))) = snd x" "f (row x) = snd x" for x
    using assms by (cases x; simp)+
  have "distinct (map fst ?rows)" using distinct_tally [of key hs] by (simp add: sort_desc_props row comp_def)
  moreover have "sorted_wrt (\<lambda>x y. snd (snd y) \<le> snd (snd x)) ?rows"
    using sort_desc_sorted [of f "map row (tally key hs)"] by (auto simp: sorted_wrt_map row elim!: sorted_wrt_mono_rel [rotated])
  moreover have "(k, v, n) \<in> set ?rows \<longleftrightarrow> (\<exists>h rest. having key k hs = h # rest \<and> v = val h \<and> n = int (Suc (length rest)))" for k v n
  proof -
    have "(k, v, n) \<in> set ?rows \<longleftrightarrow> (k, n) \<in> set (tally key hs) \<and> v = the (map_of (firsts key val hs) k)"
      using assms(1) by (auto simp: image_iff intro!: bexI [of _ "(k, n)"])
    also have "\<dots> \<longleftrightarrow> (\<exists>h rest. having key k hs = h # rest \<and> v = val h \<and> n = int (Suc (length rest)))"
      by (cases "having key k hs") (auto simp: in_tally_iff map_of_firsts find_having)
    finally show ?thesis .
  qed
  moreover have "sum_list (map (snd \<circ> snd) ?rows) = int (length (filter (\<lambda>h. key h \<noteq> None) hs))"
    using sum_tally [of key hs] by (simp add: sort_desc_props row comp_def)
  ultimately show ?thesis unfolding breakdown_def by blast
qed

lemma fold_min_max:
  fixes x :: "'a :: linorder"
  shows "fold min xs x = Min (set (x # xs))" "fold max xs x = Max (set (x # xs))"
  by (simp_all only: Min.set_eq_fold Max.set_eq_fold)

lemma empty_or_bounds:
  fixes ts :: "string list"
  shows "(case ts of [] \<Rightarrow> None | t # ts \<Rightarrow> Some (fold min ts t)) = (if ts = [] then None else Some (Min (set ts)))"
    "(case ts of [] \<Rightarrow> None | t # ts \<Rightarrow> Some (fold max ts t)) = (if ts = [] then None else Some (Max (set ts)))"
  by (cases ts; simp only: fold_min_max list.case list.distinct if_False if_True)+

text \<open>C39: the summary that goes to the model with a page of alerts is exact: it has one line for every rule that occurs in the
  page, with the number of its alerts and the description the first of them has, the most frequent first, and the
  lines add up to the alerts that name a rule; the same for agents; and the two timestamps are the least and the
  greatest in the page.\<close>

theorem page_breakdown_is_exact:
  "let sm = compute_alert_summary hits; stamps = {t. t \<noteq> [] \<and> t \<in> ah_timestamp ` set hits} in
     breakdown ah_rule_id ah_rule_description hits (map (\<lambda>r. (ru_rule_id r, ru_description r, ru_count r)) (sm_per_rule sm))
     \<and> breakdown ah_agent_id ah_agent_name hits (map (\<lambda>a. (gs_agent_id a, gs_agent_name a, gs_count a)) (sm_per_agent sm))
     \<and> sm_earliest_timestamp sm = (if stamps = {} then None else Some (Min stamps))
     \<and> sm_latest_timestamp sm = (if stamps = {} then None else Some (Max stamps))"
proof -
  let ?ts = "filter (\<lambda>t. t \<noteq> []) (map ah_timestamp hits)"
  have ts: "{t. t \<noteq> [] \<and> t \<in> ah_timestamp ` set hits} = set ?ts" by auto
  have "breakdown ah_rule_id ah_rule_description hits (map (\<lambda>r. (ru_rule_id r, ru_description r, ru_count r)) (sm_per_rule (compute_alert_summary hits)))"
    unfolding compute_alert_summary_def Let_def search_alerts_summary.simps by (rule breakdown_sorted) simp_all
  moreover have "breakdown ah_agent_id ah_agent_name hits (map (\<lambda>a. (gs_agent_id a, gs_agent_name a, gs_count a)) (sm_per_agent (compute_alert_summary hits)))"
    unfolding compute_alert_summary_def Let_def search_alerts_summary.simps by (rule breakdown_sorted) simp_all
  ultimately show ?thesis
    unfolding Let_def ts set_empty by (simp add: compute_alert_summary_def Let_def empty_or_bounds del: set_filter set_map)
qed

text \<open>The four severities share the alerts of the window out among themselves.\<close>

definition level_bucket :: "int \<times> int \<Rightarrow> pyval" where
  "level_bucket b = PDict [(''key'', PInt (fst b)), (''doc_count'', PInt (snd b))]"

definition docs_between :: "int \<Rightarrow> int \<Rightarrow> (int \<times> int) list \<Rightarrow> int" where
  "docs_between lo hi bs = sum_list (map snd (filter (\<lambda>(level, n). lo \<le> level \<and> level \<le> hi) bs))"

lemma add_level_buckets:
  "add_buckets (map level_bucket bs) t = Inr (fold (\<lambda>(level, n). add_level level n) bs t)"
  by (induction bs arbitrary: t) (auto simp: level_bucket_def pget_def dget_or_def)

lemma add_level_simps:
  "level \<ge> 15 \<Longrightarrow> add_level level n (c, h, m, l) = (c + n, h, m, l)"
  "12 \<le> level \<Longrightarrow> level \<le> 14 \<Longrightarrow> add_level level n (c, h, m, l) = (c, h + n, m, l)"
  "7 \<le> level \<Longrightarrow> level \<le> 11 \<Longrightarrow> add_level level n (c, h, m, l) = (c, h, m + n, l)"
  "0 \<le> level \<Longrightarrow> level \<le> 6 \<Longrightarrow> add_level level n (c, h, m, l) = (c, h, m, l + n)"
  "level < 0 \<Longrightarrow> add_level level n (c, h, m, l) = (c, h, m, l)"
  by (simp_all add: add_level_def)

lemma severity_counts_share_out:
  "severity_of (fold (\<lambda>(level, n). add_level level n) bs (c, h, m, l)) =
    (let crit = c + sum_list (map snd (filter (\<lambda>(level, n). level \<ge> 15) bs)); high = h + docs_between 12 14 bs;
         med = m + docs_between 7 11 bs; low = l + docs_between 0 6 bs
     in \<lparr>sv_critical = crit, sv_high = high, sv_medium = med, sv_low = low, sv_total = crit + high + med + low\<rparr>)"
proof (induction bs arbitrary: c h m l)
  case (Cons b bs)
  obtain level n where b: "b = (level, n)" by (cases b)
  consider "level \<ge> 15" | "12 \<le> level" "level \<le> 14" | "7 \<le> level" "level \<le> 11" | "0 \<le> level" "level \<le> 6" | "level < 0" by linarith
  then show ?case by cases (simp_all add: b Cons.IH add_level_simps docs_between_def Let_def)
qed (simp add: severity_of_def docs_between_def)

section \<open>Paging\<close>

text \<open>The walk the tool's description asks of the model: call again with the cursor of the last page until there is none.\<close>

fun walk :: "nat \<Rightarrow> ('w, 'i) exec_context \<Rightarrow> search_alerts_input \<Rightarrow> 'z audit_db_scheme \<times> ('w, 'i) reach \<Rightarrow> alert_hit list option" where
  "walk 0 ec args s = None"
| "walk (Suc n) ec args s = (case run_search_alerts ec args s of
     (Inl e, s) \<Rightarrow> None
   | (Inr out, s) \<Rightarrow> if so_has_more out then map_option ((@) (so_hits out)) (walk n ec (args\<lparr>si_cursor := so_next_cursor out\<rparr>) s)
       else Some (so_hits out))"

text \<open>What OpenSearch documents of \<open>search_after\<close>: the documents that match are in one order by their sort values, no two
  have the same, and a query returns the first \<open>size\<close> of those after the given values.\<close>

definition sort_values :: "pyval \<Rightarrow> pyval list option" where
  "sort_values d = (case d of PDict h \<Rightarrow> as_list (dget h ''sort'') | _ \<Rightarrow> None)"

definition page_after :: "pyval list \<Rightarrow> nat \<Rightarrow> pyval list option \<Rightarrow> pyval list" where
  "page_after docs n cursor = take n (case cursor of None \<Rightarrow> docs | Some k \<Rightarrow> tl (dropWhile (\<lambda>d. sort_values d \<noteq> Some k) docs))"

definition search_body :: "pyval list \<Rightarrow> nat \<Rightarrow> pyval" where
  "search_body hits n = PDict [(''hits'', PDict [(''total'', PDict [(''value'', PInt (int n))]), (''hits'', PList hits)])]"

definition search_query :: "('w, 'i) exec_context \<Rightarrow> search_alerts_input \<Rightarrow> pyval list option \<Rightarrow> dict" where
  "search_query ec args cursor = qb_search_alerts (query_builder_of (ec_connection ec)) (si_time_from args) (si_time_to args) (si_agent_id args)
     (si_rule_id args) (si_min_level args) (si_attack_technique args) (si_free_text args) (si_size args) True cursor"

definition serves :: "('w, 'i) exec_context \<Rightarrow> search_alerts_input \<Rightarrow> pyval list \<Rightarrow> bool" where
  "serves ec args docs \<longleftrightarrow> distinct (map sort_values docs) \<and> None \<notin> sort_values ` set docs
     \<and> (\<forall>cursor i. \<exists>shown i'. ec_indexer ec (search_url (ec_connection ec) (cn_opensearch_url (ec_connection ec))) (search_query ec args cursor) i
          = (Reply \<lparr>rs_status = 200, rs_text = shown, rs_json = Some (search_body (page_after docs (nat (si_size args)) cursor) (length docs))\<rparr>, i'))"

definition readable :: "('w, 'i) exec_context \<Rightarrow> pyval \<Rightarrow> alert_hit \<Rightarrow> bool" where
  "readable ec d a \<longleftrightarrow> hit_to_alert (ec_lax_int ec) d = Inr a
     \<and> (group_filter_active (ec_connection ec) \<longrightarrow> labels_match (cn_agent_group_labels (ec_connection ec)) [d] = Inr ())"

lemma labels_match_Cons: "labels_match labels (d # ds) = rbind (labels_match labels [d]) (\<lambda>_. labels_match labels ds)"
  by (simp add: rbind_def split: sum.splits option.splits)

lemma labels_match_all: "(\<And>d. d \<in> set ds \<Longrightarrow> labels_match labels [d] = Inr ()) \<Longrightarrow> labels_match labels ds = Inr ()"
proof (induction ds)
  case (Cons d ds)
  then show ?case unfolding labels_match_Cons [of labels d ds] by (simp del: labels_match.simps)
qed simp

lemma page_after_subset: "set (page_after docs n cursor) \<subseteq> set docs"
proof -
  have "set (tl xs) \<subseteq> set xs" for xs :: "pyval list" by (cases xs) auto
  then show ?thesis unfolding page_after_def by (auto dest!: in_set_takeD set_dropWhileD split: option.splits)
qed

lemma search_body_simps [simp]:
  "body_hits (search_body ds n) = Inr (PList ds)" "total_value (search_body ds n) v = rbind (py_len v) (\<lambda>_. Inr (PInt (int n)))"
  by (simp_all add: body_hits_def total_value_def search_body_def pget_def dget_or_def)

lemma query_answered:
  assumes "serves ec args docs" "\<And>d. d \<in> set docs \<Longrightarrow> readable ec d (alert d)"
  shows "\<exists>w'. execute_query ec (search_query ec args cursor) w = (Inr (search_body (page_after docs (nat (si_size args)) cursor) (length docs)), w')"
proof -
  let ?cn = "ec_connection ec" and ?page = "page_after docs (nat (si_size args)) cursor"
  obtain shown i' where p: "ec_indexer ec (search_url ?cn (cn_opensearch_url ?cn)) (search_query ec args cursor) (re_indexer w)
      = (Reply \<lparr>rs_status = 200, rs_text = shown, rs_json = Some (search_body ?page (length docs))\<rparr>, i')"
    using assms(1) unfolding serves_def by blast
  have "labels_match (cn_agent_group_labels ?cn) ?page = Inr ()" if "group_filter_active ?cn"
    by (rule labels_match_all) (use that assms(2) page_after_subset [of docs] in \<open>auto simp: readable_def simp del: labels_match.simps\<close>)
  then have "assert_group_label_match ?cn (search_body ?page (length docs)) = Inr ()"
    by (simp add: assert_group_label_match_def del: labels_match.simps)
  then show ?thesis
    unfolding execute_query_def os_execute_def candidates_def using p
    by (simp add: search_query_def built_queries_pass decode_json_def)
qed

lemma sort_values_cursor: "sort_values d = Some k \<Longrightarrow> pget d ''sort'' PNone = Inr (PList k)"
  by (auto simp: sort_values_def pget_def dget_def dget_or_def split: pyval.splits option.splits)

lemma page_of_search_body:
  assumes "\<And>d. d \<in> set page \<Longrightarrow> hit_to_alert lax d = Inr (alert d)" "None \<notin> sort_values ` set page"
  shows "page_of lax n (search_body page total_count) = Inr (map alert page, PInt (int total_count),
    if int (length page) = n \<and> page \<noteq> [] then PList (the (sort_values (last page))) else PNone)"
proof -
  have "pget (last page) ''sort'' PNone = Inr (PList (the (sort_values (last page))))" if "page \<noteq> []"
  proof -
    have "last page \<in> set page" using that by simp
    then obtain k where "sort_values (last page) = Some k" using assms(2) by (metis image_eqI not_None_eq)
    with sort_values_cursor show ?thesis by simp
  qed
  then show ?thesis using rmap_total [of page "hit_to_alert lax" alert] assms(1) by (simp add: page_of_def)
qed

lemma one_page:
  assumes sv: "serves ec args docs" and rd: "\<And>d. d \<in> set docs \<Longrightarrow> readable ec d (alert d)"
    and lim: "enforce_limits (Some (si_time_from args)) (Some (si_time_to args)) (Some (si_size args)) (ec_limits ec) True = Inr ()"
    and name: "si_agent_name args = None"
  shows "\<exists>out s'. run_search_alerts ec (args\<lparr>si_cursor := cursor\<rparr>) s = (Inr out, s')
    \<and> so_hits out = map alert (page_after docs (nat (si_size args)) cursor) \<and> so_total out = int (length docs)
    \<and> so_has_more out = (so_next_cursor out \<noteq> None)
    \<and> so_next_cursor out = (let page = page_after docs (nat (si_size args)) cursor in
        if int (length page) = si_size args \<and> page \<noteq> [] then sort_values (last page) else None)"
proof -
  let ?page = "page_after docs (nat (si_size args)) cursor"
  obtain w' where q: "execute_query ec (search_query ec args cursor) (snd s) = (Inr (search_body ?page (length docs)), w')"
    using query_answered [OF sv rd] by blast
  have sub: "set ?page \<subseteq> set docs" by (rule page_after_subset)
  then have pg: "page_of (ec_lax_int ec) (si_size args) (search_body ?page (length docs)) = Inr (map alert ?page, PInt (int (length docs)),
      if int (length ?page) = si_size args \<and> ?page \<noteq> [] then PList (the (sort_values (last ?page))) else PNone)"
    using rd sv by (intro page_of_search_body) (auto simp: readable_def serves_def)
  have last: "Some (the (sort_values (last ?page))) = sort_values (last ?page)" if "?page \<noteq> []"
    using sv sub last_in_set [OF that] unfolding serves_def by (metis image_eqI option.collapse subsetD)
  show ?thesis
    using q lim unfolding search_query_def
    by (simp add: run_search_alerts_def io_bind_def io_return_def reaching_def search_agent_def name pg cite_def make_citation_def opt_list_def
        last Let_def split: prod.splits) blast
qed

lemma page_after_done:
  assumes "serves ec args docs" "docs = pre @ rest"
  shows "page_after docs n (if pre = [] then None else sort_values (last pre)) = take n rest"
proof (cases "pre = []")
  case False
  then obtain init x where pre: "pre = init @ [x]" by (metis rev_exhaust)
  have "distinct (map sort_values docs)" and some: "sort_values x \<noteq> None" using assms pre by (auto simp: serves_def)
  then have "sort_values y \<noteq> sort_values x" if "y \<in> set init" for y using that assms(2) pre by (auto simp: image_iff)
  then have "dropWhile (\<lambda>d. sort_values d \<noteq> sort_values x) docs = x # rest" using assms(2) pre by (simp add: dropWhile_append2)
  then show ?thesis using some by (auto simp: page_after_def pre)
qed (use assms(2) in \<open>simp add: page_after_def\<close>)


section \<open>Witnesses\<close>

definition demo_connection :: wazuh_connection where
  "demo_connection = \<lparr>cn_organization_id = 1, cn_opensearch_url = ''https://i1'', cn_opensearch_index_pattern = ''wazuh-alerts-*'',
     cn_opensearch_username = ''u'', cn_opensearch_password = ''p'', cn_server_api_url = ''https://m'', cn_server_api_username = ''u'',
     cn_server_api_password = ''p'', cn_verify_tls = True, cn_inject_group_label_filter = True, cn_agent_group_labels = [''acme''],
     cn_opensearch_fallback_urls = [''https://i2'']\<rparr>"

definition demo_indexer :: "pyval list \<Rightarrow> nat \<Rightarrow> 'i indexer" where
  "demo_indexer docs n = (\<lambda>url q i. (Reply \<lparr>rs_status = 200, rs_text = [],
     rs_json = Some (search_body (page_after docs n (as_list (dget q ''search_after''))) (length docs))\<rparr>, i))"

definition demo_reader :: "'i indexer \<Rightarrow> 'w endpoint \<Rightarrow> ('w, 'i) exec_context" where
  "demo_reader post ep = \<lparr>ec_organization = \<lparr>oc_organization_id = 1, oc_organization_slug = ''acme'', oc_user_id = 2, oc_user_email = ''a@b'',
       oc_role = ''analyst'', oc_session_id = ''s''\<rparr>, ec_limits = DEFAULT_LIMITS, ec_connection = demo_connection, ec_indexer = post,
     ec_server_api = ep, ec_lax_int = (\<lambda>_. None), ec_stamp = isoformat\<rparr>"

definition demo_doc :: "int \<Rightarrow> pyval" where
  "demo_doc i = PDict [(''_id'', PStr (show_int i)), (''sort'', PList [PInt i, PStr (show_int i)]),
     (''_source'', PDict [(''agent'', PDict [(''id'', PStr ''001''), (''labels'', PDict [(''group'', PStr ''acme'')])]),
       (''rule'', PDict [(''id'', PStr ''5710''), (''level'', PInt i)])])]"

definition demo_alert :: "int \<Rightarrow> alert_hit" where
  "demo_alert i = \<lparr>ah_id = show_int i, ah_timestamp = [], ah_agent_id = Some ''001'', ah_agent_name = None, ah_rule_id = Some ''5710'',
     ah_rule_level = Some i, ah_rule_description = None, ah_mitre_techniques = [], ah_full_log = None\<rparr>"

definition demo_search :: search_alerts_input where
  "demo_search = \<lparr>si_time_from = Aware 0, si_time_to = Aware 1000000, si_agent_id = None, si_agent_name = None, si_rule_id = None,
     si_min_level = None, si_attack_technique = None, si_free_text = None, si_size = 2, si_cursor = None\<rparr>"

lemma search_query_cursor: "as_list (dget (search_query ec args c) ''search_after'') = c"
  by (cases c) (simp_all add: search_query_def qb_search_alerts_def Let_def optional_def dget_def)

lemma demo_serves: "serves (demo_reader (demo_indexer (map demo_doc [9, 8, 7]) 2) ep) demo_search (map demo_doc [9, 8, 7])"
  by (auto simp: serves_def demo_indexer_def demo_search_def sort_values_def demo_doc_def search_query_cursor demo_reader_def)

lemma demo_readable: "readable (demo_reader post ep) (demo_doc i) (demo_alert i)"
  by (simp add: readable_def demo_reader_def demo_connection_def demo_doc_def demo_alert_def hit_to_alert_def pget_def dget_or_def dget_def py_or_def
      listed_def nested_group_label_def)


text \<open>A label that is a list is not compared: the check at the return skips the document.\<close>

lemma listed_label_escapes_the_recheck:
  "assert_group_label_match demo_connection (search_body [PDict [(''_source'', PDict [(''agent'', PDict [(''labels'', PDict
     [(''group'', PList [PStr ''rival''])])])])]] 1) = Inr ()"
  by (simp add: assert_group_label_match_def nested_group_label_def pget_def dget_or_def dget_def)

text \<open>A name no agent has gives a search over all agents.\<close>

lemma unknown_name_searches_everywhere:
  assumes "si_agent_name args = Some name" "name \<noteq> []" "si_agent_id args = None" "re_cache w = None"
    "api_get (ec_server_api ec) ''/agents'' [(''name'', name)] (re_manager w) = (Inr (PDict [(''data'', PDict [(''affected_items'', PList [])])]), m)"
  shows "search_agent ec args w = (Inr None, w\<lparr>re_manager := m\<rparr>)"
  using assms by (simp add: search_agent_def resolve_agent_name_to_id_def io_bind_def io_return_def cached_agent_id_def server_api_get_def
      first_agent_id_def affected_items_def pget_def dget_or_def py_or_def remember_agent_id_def)

end
