(* ===== verification/Read_Tools.thy ===== *)
theory Read_Tools
  imports Alert_Search Proposing
begin

text \<open>
  The fleet, rule and cluster read tools (\<open>tools/agents.py\<close>, \<open>tools/rules.py\<close>, \<open>tools/cluster.py\<close>), the dumps of the
  output models, and the read tools as the registry holds them.  \<open>Alert_Search\<close> has the alert-tier tools.
\<close>

section \<open>Agents\<close>

record agent_summary =
  au_id :: string
  au_name :: string
  au_status :: string
  au_os_platform :: "string option"
  au_os_version :: "string option"
  au_group :: "string list"
  au_last_keep_alive :: "string option"
  au_ip :: "string option"

record agent_detail =
  ad_id :: string
  ad_name :: string
  ad_status :: string
  ad_os :: dict
  ad_group :: "string list"
  ad_last_keep_alive :: "string option"
  ad_date_add :: "string option"
  ad_version :: "string option"
  ad_config_sum :: "string option"
  ad_merged_sum :: "string option"
  ad_sync_status :: "string option"
  ad_raw :: dict

definition summarize_agent :: "pyval \<Rightarrow> agent_summary result" where
  "summarize_agent dat =
    rbind (pget dat ''os'' PNone) (\<lambda>os.
    rbind (pget dat ''group'' PNone) (\<lambda>groups.
    rbind (pget dat ''id'' (PStr [])) (\<lambda>agent_id.
    rbind (pget dat ''name'' (PStr [])) (\<lambda>name.
    rbind (pget dat ''status'' (PStr [])) (\<lambda>status.
    rbind (pget (py_or os (PDict [])) ''platform'' PNone) (\<lambda>platform.
    rbind (pget (py_or os (PDict [])) ''version'' PNone) (\<lambda>version.
    rbind (listed (py_or groups (PList []))) (\<lambda>groups.
    rbind (pget dat ''lastKeepAlive'' PNone) (\<lambda>keep_alive.
    rbind (pget dat ''ip'' PNone) (\<lambda>ip.
    rbind (opt_text platform) (\<lambda>platform.
    rbind (opt_text version) (\<lambda>version.
    rbind (rmap text_item groups) (\<lambda>groups.
    rbind (opt_text keep_alive) (\<lambda>keep_alive.
    rbind (opt_text ip) (\<lambda>ip.
      Inr \<lparr>au_id = py_str agent_id, au_name = py_str name, au_status = py_str status, au_os_platform = platform, au_os_version = version,
        au_group = groups, au_last_keep_alive = keep_alive, au_ip = ip\<rparr>)))))))))))))))"

record list_agents_input =
  li_status :: "string option"
  li_group :: "string option"
  li_limit :: int
  li_offset :: int

definition list_agents_dump :: "list_agents_input \<Rightarrow> dict" where
  "list_agents_dump args = [(''status'', str_or_none (li_status args)), (''group'', str_or_none (li_group args)),
     (''limit'', PInt (li_limit args)), (''offset'', PInt (li_offset args))]"

record agent_fleet_summary =
  fs_by_status :: "(string \<times> int) list"
  fs_by_os :: "(string \<times> int) list"

definition compute_agent_fleet_summary :: "agent_summary list \<Rightarrow> agent_fleet_summary" where
  "compute_agent_fleet_summary agents = \<lparr>fs_by_status = tally (\<lambda>a. Some (au_status a)) agents,
     fs_by_os = tally (\<lambda>a. Some (case au_os_platform a of Some p \<Rightarrow> or_text p ''unknown'' | None \<Rightarrow> ''unknown'')) agents\<rparr>"

record list_agents_output =
  lo_agents :: "agent_summary list"
  lo_summary :: agent_fleet_summary
  lo_total :: int
  lo_citation :: citation

definition list_agents_params :: "list_agents_input \<Rightarrow> (string \<times> string) list" where
  "list_agents_params args = [(''limit'', show_int (li_limit args)), (''offset'', show_int (li_offset args))]
     @ (case li_status args of Some s \<Rightarrow> if s \<noteq> [] then [(''status'', s)] else [] | None \<Rightarrow> [])
     @ (case li_group args of Some g \<Rightarrow> if g \<noteq> [] then [(''group'', g)] else [] | None \<Rightarrow> [])"

definition agents_page :: "pyval \<Rightarrow> (int \<times> agent_summary list) result" where
  "agents_page body =
    rbind (pget body ''data'' (PDict [])) (\<lambda>dat.
    rbind (pget dat ''affected_items'' (PList [])) (\<lambda>items.
    let items = py_or items (PList []) in
    rbind (py_len items) (\<lambda>n.
    rbind (pget dat ''total_affected_items'' (PInt (int n))) (\<lambda>total.
    rbind (int_of total) (\<lambda>total.
    rbind (iterate items) (\<lambda>items.
    rbind (rmap summarize_agent items) (\<lambda>agents. Inr (total, agents))))))))"

definition run_list_agents :: "('w, 'i) exec_context \<Rightarrow> list_agents_input \<Rightarrow> ('z, 'w, 'i, list_agents_output) read_body" where
  "run_list_agents ec args =
    io_bind (reaching (server_api_get ec ''/agents'' (list_agents_params args))) (\<lambda>body.
    io_bind (io_return (agents_page body)) (\<lambda>(total, agents).
    io_bind (cite ''list_agents'' (list_agents_dump args) (int (length agents))) (\<lambda>c.
    io_return (Inr \<lparr>lo_agents = agents, lo_summary = compute_agent_fleet_summary agents, lo_total = total, lo_citation = c\<rparr>))))"

definition not_found_agent :: "string \<Rightarrow> agent_detail" where
  "not_found_agent agent_id = \<lparr>ad_id = agent_id, ad_name = [], ad_status = ''not_found'', ad_os = [], ad_group = [], ad_last_keep_alive = None,
     ad_date_add = None, ad_version = None, ad_config_sum = None, ad_merged_sum = None, ad_sync_status = None, ad_raw = []\<rparr>"

definition dict_field :: "pyval \<Rightarrow> dict result" where
  "dict_field v = (case v of PDict d \<Rightarrow> Inr d | _ \<Rightarrow> invalid)"

definition agent_detail_of :: "string \<Rightarrow> pyval \<Rightarrow> agent_detail result" where
  "agent_detail_of agent_id item =
    rbind (pget item ''group'' PNone) (\<lambda>groups.
    rbind (listed (py_or groups (PList []))) (\<lambda>groups.
    rbind (dict_field item) (\<lambda>raw.
    rbind (dict_field (py_or (dget raw ''os'') (PDict []))) (\<lambda>os.
    rbind (rmap text_item groups) (\<lambda>groups.
    rbind (opt_text (dget raw ''lastKeepAlive'')) (\<lambda>keep_alive.
    rbind (opt_text (dget raw ''dateAdd'')) (\<lambda>date_add.
    rbind (opt_text (dget raw ''version'')) (\<lambda>version.
    rbind (opt_text (dget raw ''configSum'')) (\<lambda>config_sum.
    rbind (opt_text (dget raw ''mergedSum'')) (\<lambda>merged_sum.
    rbind (opt_text (dget raw ''syncStatus'')) (\<lambda>sync_status.
      Inr \<lparr>ad_id = py_str (dget_or raw ''id'' (PStr agent_id)), ad_name = py_str (dget_or raw ''name'' (PStr [])),
        ad_status = py_str (dget_or raw ''status'' (PStr [])), ad_os = os, ad_group = groups, ad_last_keep_alive = keep_alive,
        ad_date_add = date_add, ad_version = version, ad_config_sum = config_sum, ad_merged_sum = merged_sum,
        ad_sync_status = sync_status, ad_raw = raw\<rparr>)))))))))))"

text \<open>The detail of the first item, and how many there are to cite (none or one).\<close>

definition detail_page :: "string \<Rightarrow> pyval \<Rightarrow> (int \<times> agent_detail) result" where
  "detail_page agent_id body = rbind (affected_items body) (\<lambda>items.
     if \<not> truthy items then Inr (0, not_found_agent agent_id)
     else rbind (py_first items) (\<lambda>item. rbind (agent_detail_of agent_id item) (\<lambda>d. Inr (1, d))))"

definition run_get_agent_detail :: "('w, 'i) exec_context \<Rightarrow> string \<Rightarrow> ('z, 'w, 'i, agent_detail \<times> citation) read_body" where
  "run_get_agent_detail ec agent_id =
    io_bind (reaching (server_api_get ec ''/agents'' [(''agents_list'', agent_id)])) (\<lambda>body.
    io_bind (io_return (detail_page agent_id body)) (\<lambda>(n, agent).
    io_bind (cite ''get_agent_detail'' [(''agent_id'', PStr agent_id)] n) (\<lambda>c. io_return (Inr (agent, c)))))"

section \<open>Rules\<close>

record rule_definition =
  rd_id :: int
  rd_level :: "int option"
  rd_description :: "string option"
  rd_groups :: "string list"
  rd_file :: "string option"
  rd_mitre :: "string list"
  rd_raw :: dict

definition rule_of :: "(string \<Rightarrow> int option) \<Rightarrow> int \<Rightarrow> pyval \<Rightarrow> rule_definition result" where
  "rule_of lax rule_id item =
    rbind (pget item ''mitre'' (PDict [])) (\<lambda>mitre.
    rbind (pget item ''groups'' PNone) (\<lambda>groups.
    rbind (pget item ''id'' (PInt rule_id)) (\<lambda>v. rbind (int_of v) (\<lambda>number.
    rbind (listed (py_or groups (PList []))) (\<lambda>groups.
    rbind (listed (case mitre of PDict m \<Rightarrow> py_or (dget m ''id'') (PList []) | _ \<Rightarrow> PList [])) (\<lambda>mitre_ids.
    rbind (dict_field item) (\<lambda>raw.
    rbind (opt_int lax (dget raw ''level'')) (\<lambda>level.
    rbind (opt_text (dget raw ''description'')) (\<lambda>description.
    rbind (rmap text_item groups) (\<lambda>groups.
    rbind (opt_text (dget raw ''filename'')) (\<lambda>file_name.
    rbind (rmap text_item mitre_ids) (\<lambda>mitre_ids.
      Inr \<lparr>rd_id = number, rd_level = level, rd_description = description, rd_groups = groups, rd_file = file_name,
        rd_mitre = mitre_ids, rd_raw = raw\<rparr>))))))))))))"

definition rule_page :: "(string \<Rightarrow> int option) \<Rightarrow> int \<Rightarrow> pyval \<Rightarrow> (int \<times> rule_definition) result" where
  "rule_page lax rule_id body = rbind (affected_items body) (\<lambda>items.
     if \<not> truthy items then Inr (0, \<lparr>rd_id = rule_id, rd_level = None, rd_description = None, rd_groups = [], rd_file = None, rd_mitre = [], rd_raw = []\<rparr>)
     else rbind (py_first items) (\<lambda>item. rbind (rule_of lax rule_id item) (\<lambda>r. Inr (1, r))))"

definition run_get_rule_definition :: "('w, 'i) exec_context \<Rightarrow> int \<Rightarrow> ('z, 'w, 'i, rule_definition \<times> citation) read_body" where
  "run_get_rule_definition ec rule_id =
    io_bind (reaching (server_api_get ec ''/rules'' [(''rule_ids'', show_int rule_id)])) (\<lambda>body.
    io_bind (io_return (rule_page (ec_lax_int ec) rule_id body)) (\<lambda>(n, rule).
    io_bind (cite ''get_rule_definition'' [(''rule_id'', PInt rule_id)] n) (\<lambda>c. io_return (Inr (rule, c)))))"

section \<open>Cluster health\<close>

record node_health =
  nh_name :: string
  nh_type :: "string option"
  nh_version :: "string option"
  nh_ip :: "string option"
  nh_status :: "string option"

record cluster_health =
  cl_manager_healthy :: bool
  cl_cluster_enabled :: bool
  cl_cluster_running :: bool
  cl_summary :: string
  cl_nodes :: "node_health list"
  cl_indexer_status :: "string option"
  cl_raw :: dict

definition node_health_of :: "pyval \<Rightarrow> node_health result" where
  "node_health_of n =
    rbind (pget n ''name'' (PStr [])) (\<lambda>name.
    rbind (dict_field n) (\<lambda>d.
    rbind (opt_text (dget d ''type'')) (\<lambda>ty.
    rbind (opt_text (dget d ''version'')) (\<lambda>version.
    rbind (opt_text (dget d ''ip'')) (\<lambda>ip.
    rbind (opt_text (dget d ''status'')) (\<lambda>status.
      Inr \<lparr>nh_name = py_str name, nh_type = ty, nh_version = version, nh_ip = ip, nh_status = status\<rparr>))))))"

definition health_summary :: "bool \<Rightarrow> bool \<Rightarrow> bool \<Rightarrow> node_health list \<Rightarrow> string" where
  "health_summary healthy enabled running nodes =
    (if \<not> healthy then ''Wazuh manager API did not respond.''
     else if \<not> enabled then ''Wazuh manager is running. Clustering is not enabled - this is a standalone deployment with no other server or indexer nodes joined.''
     else if running \<and> nodes \<noteq> [] then ''Wazuh manager is running. Clustering is enabled with '' @ show_nat (length nodes) @ '' node(s) joined.''
     else ''Wazuh manager is running, but clustering is enabled and the cluster daemon is not running.'')"

definition cluster_status :: "('w, 'i) exec_context \<Rightarrow> ('w, 'i) reach \<Rightarrow> (bool \<times> pyval) result \<times> ('w, 'i) reach" where
  "cluster_status ec w = (case server_api_get ec ''/cluster/status'' [] w of
     (Inl _, w) \<Rightarrow> (Inr (False, PDict []), w) | (Inr body, w) \<Rightarrow> (Inr (True, body), w))"

definition cluster_nodes :: "('w, 'i) exec_context \<Rightarrow> bool \<Rightarrow> ('w, 'i) reach \<Rightarrow> node_health list result \<times> ('w, 'i) reach" where
  "cluster_nodes ec enabled = (if \<not> enabled then io_return (Inr [])
     else io_bind (server_api_get ec ''/cluster/nodes'' []) (\<lambda>body. io_return (rbind (affected_items body) (\<lambda>items.
       rbind (iterate items) (rmap node_health_of)))))"

definition run_get_cluster_health :: "('w, 'i) exec_context \<Rightarrow> ('z, 'w, 'i, cluster_health \<times> citation) read_body" where
  "run_get_cluster_health ec =
    io_bind (reaching (cluster_status ec)) (\<lambda>(healthy, status_body).
    io_bind (io_return (pget status_body ''data'' (PDict []))) (\<lambda>status_data.
    io_bind (io_return (pget status_data ''enabled'' PNone)) (\<lambda>enabled.
    io_bind (io_return (pget status_data ''running'' PNone)) (\<lambda>running.
    let enabled = (enabled = PStr ''yes''); running = (running = PStr ''yes'') in
    io_bind (reaching (cluster_nodes ec enabled)) (\<lambda>nodes.
    io_bind (io_return (pget status_data ''indexer'' PNone)) (\<lambda>indexer.
    io_bind (cite ''get_cluster_health'' [] (int (length nodes))) (\<lambda>c.
    io_bind (io_return (opt_text indexer)) (\<lambda>indexer.
    io_bind (io_return (dict_field status_body)) (\<lambda>raw.
    io_return (Inr (\<lparr>cl_manager_healthy = healthy, cl_cluster_enabled = enabled, cl_cluster_running = running,
        cl_summary = health_summary healthy enabled running nodes, cl_nodes = nodes, cl_indexer_status = indexer, cl_raw = raw\<rparr>, c)))))))))))"

section \<open>The output models as JSON\<close>

definition texts :: "string list \<Rightarrow> pyval" where
  "texts xs = PList (map PStr xs)"

definition hit_dump :: "alert_hit \<Rightarrow> pyval" where
  "hit_dump h = PDict [(''id'', PStr (ah_id h)), (''timestamp'', PStr (ah_timestamp h)), (''agent_id'', str_or_none (ah_agent_id h)),
     (''agent_name'', str_or_none (ah_agent_name h)), (''rule_id'', str_or_none (ah_rule_id h)), (''rule_level'', int_or_none (ah_rule_level h)),
     (''rule_description'', str_or_none (ah_rule_description h)), (''mitre_techniques'', texts (ah_mitre_techniques h)),
     (''full_log'', str_or_none (ah_full_log h))]"

definition summary_dump :: "search_alerts_summary \<Rightarrow> pyval" where
  "summary_dump sm = PDict [
     (''per_rule'', PList (map (\<lambda>r. PDict [(''rule_id'', PStr (ru_rule_id r)), (''description'', str_or_none (ru_description r)),
        (''count'', PInt (ru_count r))]) (sm_per_rule sm))),
     (''per_agent'', PList (map (\<lambda>a. PDict [(''agent_id'', PStr (gs_agent_id a)), (''agent_name'', str_or_none (gs_agent_name a)),
        (''count'', PInt (gs_count a))]) (sm_per_agent sm))),
     (''earliest_timestamp'', str_or_none (sm_earliest_timestamp sm)), (''latest_timestamp'', str_or_none (sm_latest_timestamp sm))]"

definition cited :: "(datetime \<Rightarrow> string) \<Rightarrow> citation \<Rightarrow> string \<times> pyval" where
  "cited stamp c = (''citation'', PDict (citation_dump stamp c))"

definition search_output_dump :: "(datetime \<Rightarrow> string) \<Rightarrow> search_alerts_output \<Rightarrow> dict" where
  "search_output_dump stamp out = [(''hits'', PList (map hit_dump (so_hits out))), (''summary'', summary_dump (so_summary out)),
     (''total'', PInt (so_total out)), (''has_more'', PBool (so_has_more out)),
     (''next_cursor'', case so_next_cursor out of Some c \<Rightarrow> PList c | None \<Rightarrow> PNone), cited stamp (so_citation out)]"

definition aggregate_output_dump :: "(datetime \<Rightarrow> string) \<Rightarrow> aggregate_alerts_output \<Rightarrow> dict" where
  "aggregate_output_dump stamp out = [(''buckets'', PList (map (\<lambda>b. PDict [(''key'', PStr (bu_key b)), (''count'', PInt (bu_count b))]) (go_buckets out))),
     (''total'', PInt (go_total out)), cited stamp (go_citation out)]"

definition severity_output_dump :: "(datetime \<Rightarrow> string) \<Rightarrow> severity_counts \<times> citation \<Rightarrow> dict" where
  "severity_output_dump stamp out = (case out of (v, c) \<Rightarrow>
     [(''counts'', PDict [(''critical'', PInt (sv_critical v)), (''high'', PInt (sv_high v)), (''medium'', PInt (sv_medium v)),
        (''low'', PInt (sv_low v)), (''total'', PInt (sv_total v))]), cited stamp c])"

definition agent_alerts_dump :: "(datetime \<Rightarrow> string) \<Rightarrow> string \<Rightarrow> agent_alerts_output \<Rightarrow> dict" where
  "agent_alerts_dump stamp field out = [(field, PList (map hit_dump (eo_alerts out))), (''summary'', summary_dump (eo_summary out)),
     cited stamp (eo_citation out)]"

definition counts_dump :: "(string \<times> int) list \<Rightarrow> pyval" where
  "counts_dump d = PDict (map (\<lambda>(k, n). (k, PInt n)) d)"

definition list_output_dump :: "(datetime \<Rightarrow> string) \<Rightarrow> list_agents_output \<Rightarrow> dict" where
  "list_output_dump stamp out = [
     (''agents'', PList (map (\<lambda>a. PDict [(''id'', PStr (au_id a)), (''name'', PStr (au_name a)), (''status'', PStr (au_status a)),
        (''os_platform'', str_or_none (au_os_platform a)), (''os_version'', str_or_none (au_os_version a)), (''group'', texts (au_group a)),
        (''last_keep_alive'', str_or_none (au_last_keep_alive a)), (''ip'', str_or_none (au_ip a))]) (lo_agents out))),
     (''summary'', PDict [(''by_status'', counts_dump (fs_by_status (lo_summary out))), (''by_os'', counts_dump (fs_by_os (lo_summary out)))]),
     (''total'', PInt (lo_total out)), cited stamp (lo_citation out)]"

definition detail_output_dump :: "(datetime \<Rightarrow> string) \<Rightarrow> agent_detail \<times> citation \<Rightarrow> dict" where
  "detail_output_dump stamp out = (case out of (a, c) \<Rightarrow> [
     (''agent'', PDict [(''id'', PStr (ad_id a)), (''name'', PStr (ad_name a)), (''status'', PStr (ad_status a)), (''os'', PDict (ad_os a)),
        (''group'', texts (ad_group a)), (''last_keep_alive'', str_or_none (ad_last_keep_alive a)), (''date_add'', str_or_none (ad_date_add a)),
        (''version'', str_or_none (ad_version a)), (''config_sum'', str_or_none (ad_config_sum a)), (''merged_sum'', str_or_none (ad_merged_sum a)),
        (''sync_status'', str_or_none (ad_sync_status a)), (''raw'', PDict (ad_raw a))]), cited stamp c])"

definition rule_output_dump :: "(datetime \<Rightarrow> string) \<Rightarrow> rule_definition \<times> citation \<Rightarrow> dict" where
  "rule_output_dump stamp out = (case out of (r, c) \<Rightarrow> [
     (''rule'', PDict [(''id'', PInt (rd_id r)), (''level'', int_or_none (rd_level r)), (''description'', str_or_none (rd_description r)),
        (''groups'', texts (rd_groups r)), (''file'', str_or_none (rd_file r)), (''mitre'', texts (rd_mitre r)), (''raw'', PDict (rd_raw r))]),
     cited stamp c])"

definition health_output_dump :: "(datetime \<Rightarrow> string) \<Rightarrow> cluster_health \<times> citation \<Rightarrow> dict" where
  "health_output_dump stamp out = (case out of (h, c) \<Rightarrow> [
     (''manager_healthy'', PBool (cl_manager_healthy h)), (''cluster_enabled'', PBool (cl_cluster_enabled h)),
     (''cluster_running'', PBool (cl_cluster_running h)), (''summary'', PStr (cl_summary h)),
     (''nodes'', PList (map (\<lambda>n. PDict [(''name'', PStr (nh_name n)), (''type'', str_or_none (nh_type n)), (''version'', str_or_none (nh_version n)),
        (''ip'', str_or_none (nh_ip n)), (''status'', str_or_none (nh_status n))]) (cl_nodes h))),
     (''indexer_status'', str_or_none (cl_indexer_status h)), cited stamp c, (''raw'', PDict (cl_raw h))])"

section \<open>The registered tools\<close>

datatype read_call =
    SearchAlerts search_alerts_input
  | AggregateAlerts aggregate_alerts_input
  | CountAlertsBySeverity severity_input
  | GetEventTimeline agent_window_input
  | GetAgentAlertHistory agent_window_input
  | ListAgents list_agents_input
  | GetAgentDetail string
  | GetRuleDefinition int
  | GetClusterHealth

definition dumped :: "('a \<Rightarrow> dict) \<Rightarrow> ('z, 'w, 'i, 'a) read_body \<Rightarrow> ('z, 'w, 'i, dict) read_body" where
  "dumped dump m = io_bind m (\<lambda>out. io_return (Inr (dump out)))"

fun run_read :: "('w, 'i) exec_context \<Rightarrow> read_call \<Rightarrow> ('z, 'w, 'i, dict) read_body" where
  "run_read ec (SearchAlerts args) = dumped (search_output_dump (ec_stamp ec)) (run_search_alerts ec args)"
| "run_read ec (AggregateAlerts args) = dumped (aggregate_output_dump (ec_stamp ec)) (run_aggregate_alerts ec args)"
| "run_read ec (CountAlertsBySeverity args) = dumped (severity_output_dump (ec_stamp ec)) (run_count_alerts_by_severity ec args)"
| "run_read ec (GetEventTimeline args) = dumped (agent_alerts_dump (ec_stamp ec) ''events'') (run_get_event_timeline ec args)"
| "run_read ec (GetAgentAlertHistory args) = dumped (agent_alerts_dump (ec_stamp ec) ''alerts'') (run_get_agent_alert_history ec args)"
| "run_read ec (ListAgents args) = dumped (list_output_dump (ec_stamp ec)) (run_list_agents ec args)"
| "run_read ec (GetAgentDetail agent_id) = dumped (detail_output_dump (ec_stamp ec)) (run_get_agent_detail ec agent_id)"
| "run_read ec (GetRuleDefinition rule_id) = dumped (rule_output_dump (ec_stamp ec)) (run_get_rule_definition ec rule_id)"
| "run_read ec GetClusterHealth = dumped (health_output_dump (ec_stamp ec)) (run_get_cluster_health ec)"

definition read_runner ::
  "(dict \<Rightarrow> read_call) \<Rightarrow> tool_schema \<Rightarrow> (dict \<Rightarrow> dict list + dict) \<Rightarrow> (dict \<Rightarrow> dict list) \<Rightarrow> ('w, 'i) exec_context
    \<Rightarrow> ('z audit_db_scheme \<times> ('w, 'i) reach) tool_runner" where
  "read_runner call_of schema parse check ec =
    \<lparr>tr_schema = schema, tr_input = parse, tr_run = (\<lambda>args. run_read ec (call_of args)), tr_output = check\<rparr>"

section \<open>What a read tool touches\<close>

text \<open>Bodies whose steps stay within a relation.\<close>

definition stays :: "('s \<Rightarrow> 's \<Rightarrow> bool) \<Rightarrow> ('s \<Rightarrow> 'a result \<times> 's) \<Rightarrow> bool" where
  "stays R m \<longleftrightarrow> (\<forall>s. R s (snd (m s)))"

locale step_relation =
  fixes R :: "'s \<Rightarrow> 's \<Rightarrow> bool"
  assumes step_refl: "R s s" and step_trans: "R s t \<Longrightarrow> R t u \<Longrightarrow> R s u"
begin

lemma stays_return: "stays R (io_return r)"
  by (simp add: stays_def io_return_def step_refl)

lemma stays_bind: "stays R m \<Longrightarrow> (\<And>x. stays R (f x)) \<Longrightarrow> stays R (io_bind m f)"
  unfolding stays_def io_bind_def by (auto split: prod.splits sum.splits) (metis snd_conv, metis snd_conv step_trans)

lemma stays_pair: "(\<And>x y. stays R (f x y)) \<Longrightarrow> stays R (case p of (x, y) \<Rightarrow> f x y)"
  by (cases p) simp

end

definition cache_kept :: "uuid \<Rightarrow> 'v org_cache option \<Rightarrow> 'v org_cache option \<Rightarrow> bool" where
  "cache_kept org a b \<longleftrightarrow> (case a of
     None \<Rightarrow> b = None
   | Some c \<Rightarrow> (\<exists>d. b = Some d \<and> (cache_ok c \<longrightarrow> cache_ok d \<and> (\<forall>u n k. u \<noteq> org \<longrightarrow> entries d (u, n, k) = entries c (u, n, k)))))"

text \<open>The database but for its clock stays, the manager sees logins and GETs, the indexer sees scoped searches on the nodes of
  the connection, and the cache changes for the caller's organization only.\<close>

definition in_scope ::
  "'u endpoint \<Rightarrow> wazuh_connection \<Rightarrow> uuid \<Rightarrow> 'z audit_db_scheme \<times> ('u \<times> http_request list, 'i \<times> (string \<times> dict) list) reach
    \<Rightarrow> 'z audit_db_scheme \<times> ('u \<times> http_request list, 'i \<times> (string \<times> dict) list) reach \<Rightarrow> bool" where
  "in_scope ep cn org s t \<longleftrightarrow> (\<exists>c. fst t = fst s\<lparr>clock := c\<rparr>) \<and> reads ep (re_manager (snd s)) (re_manager (snd t))
     \<and> posted cn (snd (re_indexer (snd s))) (snd (re_indexer (snd t))) \<and> cache_kept org (re_cache (snd s)) (re_cache (snd t))"

lemma cache_kept_refl [simp]: "cache_kept org c c"
  by (simp add: cache_kept_def split: option.splits)

lemma cache_kept_trans: "cache_kept org a b \<Longrightarrow> cache_kept org b c \<Longrightarrow> cache_kept org a c"
  unfolding cache_kept_def by (auto split: option.splits)

lemma cache_kept_call: "call_owner x = org \<Longrightarrow> cache_kept org (Some c) (Some (call x c))"
  unfolding cache_kept_def by (auto simp: call_keeps_ok call_other)

lemma in_scope_refl: "in_scope ep cn org s s"
  unfolding in_scope_def by (auto intro!: exI [of _ "clock (fst s)"])

lemma in_scope_trans: "in_scope ep cn org s t \<Longrightarrow> in_scope ep cn org t u \<Longrightarrow> in_scope ep cn org s u"
  unfolding in_scope_def by (auto intro: reads_trans posted_trans cache_kept_trans)

interpretation scope: step_relation "in_scope ep cn org" for ep cn org
  by unfold_locales (rule in_scope_refl, rule in_scope_trans)

text \<open>An execution context over a manager and an indexer that keep a record of what they are sent.\<close>

definition recording :: "'u endpoint \<Rightarrow> 'i indexer \<Rightarrow> ('u \<times> http_request list, 'i \<times> (string \<times> dict) list) exec_context \<Rightarrow> bool" where
  "recording ep post ec \<longleftrightarrow> ec_server_api ec = logged ep \<and> ec_indexer ec = logged_post post"

lemma reaching_bind: "reaching (io_bind m f) = io_bind (reaching m) (\<lambda>x. reaching (f x))"
  by (auto simp: reaching_def io_bind_def fun_eq_iff split: prod.splits sum.splits)

lemma reaching_return: "reaching (io_return r) = io_return r"
  by (simp add: reaching_def io_return_def fun_eq_iff)

lemma in_scope_reach:
  assumes "reads ep (re_manager w) (re_manager w')" "posted cn (snd (re_indexer w)) (snd (re_indexer w'))" "cache_kept org (re_cache w) (re_cache w')"
  shows "in_scope ep cn org (db, w) (db, w')"
  using assms unfolding in_scope_def by (auto intro!: exI [of _ "clock db"])

abbreviation scope_of :: "'u endpoint \<Rightarrow> ('u \<times> http_request list, 'i \<times> (string \<times> dict) list) exec_context
    \<Rightarrow> 'z audit_db_scheme \<times> ('u \<times> http_request list, 'i \<times> (string \<times> dict) list) reach
    \<Rightarrow> 'z audit_db_scheme \<times> ('u \<times> http_request list, 'i \<times> (string \<times> dict) list) reach \<Rightarrow> bool" where
  "scope_of ep ec \<equiv> in_scope ep (ec_connection ec) (oc_organization_id (ec_organization ec))"

lemma stays_execute:
  fixes ep :: "'u endpoint" and post :: "'i indexer"
  assumes "recording ep post ec"
  shows "stays (scope_of ep ec :: 'z audit_db_scheme \<times> _ \<Rightarrow> _) (reaching (execute_query ec q))"
  unfolding stays_def
proof
  fix s :: "'z audit_db_scheme \<times> ('u \<times> http_request list, 'i \<times> (string \<times> dict) list) reach"
  obtain r i where e: "os_execute (ec_connection ec) (ec_indexer ec) q (re_indexer (snd s)) = (r, i)" by (metis surj_pair)
  with os_execute_scoped(1) assms have "posted (ec_connection ec) (snd (re_indexer (snd s))) (snd i)" unfolding recording_def by metis
  then show "scope_of ep ec s (snd (reaching (execute_query ec q) s))"
    using e by (cases s) (auto simp: reaching_def execute_query_def intro!: in_scope_reach)
qed

lemma stays_get:
  fixes ep :: "'u endpoint" and post :: "'i indexer"
  assumes "recording ep post ec"
  shows "stays (scope_of ep ec :: 'z audit_db_scheme \<times> _ \<Rightarrow> _) (reaching (server_api_get ec path params))"
  unfolding stays_def
proof
  fix s :: "'z audit_db_scheme \<times> ('u \<times> http_request list, 'i \<times> (string \<times> dict) list) reach"
  obtain r m where g: "api_get (ec_server_api ec) path params (re_manager (snd s)) = (r, m)" by (metis surj_pair)
  with api_get_reads assms have "reads ep (re_manager (snd s)) m" unfolding recording_def by (metis snd_conv)
  then show "scope_of ep ec s (snd (reaching (server_api_get ec path params) s))"
    using g by (cases s) (auto simp: reaching_def server_api_get_def intro!: in_scope_reach)
qed

lemma stays_cite: "stays (in_scope ep cn org) (cite tool query n)"
  unfolding stays_def cite_def make_citation_def utcnow_def in_scope_def by auto

lemma cached_kept: "cache_get org n k c = (r, d) \<Longrightarrow> cache_kept org (Some c) (Some d)"
  using cache_kept_call [of "Get org n k" org c] by simp

lemma remembered_kept: "cache_set org n k v ttl c = (r, d) \<Longrightarrow> cache_kept org (Some c) (Some d)"
  using cache_kept_call [of "Put org n k v ttl" org c] by simp

lemma stays_cached: "stays (scope_of ep ec) (reaching (cached_agent_id ec name))"
  unfolding stays_def reaching_def cached_agent_id_def
  by (auto split: option.splits prod.splits intro!: in_scope_reach simp: in_scope_refl dest: cached_kept)

lemma stays_remembered: "stays (scope_of ep ec) (reaching (remember_agent_id ec name v))"
  unfolding stays_def reaching_def remember_agent_id_def
  by (auto split: option.splits prod.splits intro!: in_scope_reach simp: in_scope_refl dest: remembered_kept)

lemma stays_cluster_status:
  assumes "recording ep post ec"
  shows "stays (scope_of ep ec) (reaching (cluster_status ec))"
  using stays_get [OF assms, of "''/cluster/status''" "[]"] unfolding stays_def reaching_def cluster_status_def
  by (auto split: prod.splits sum.splits)

lemmas stays_intros = scope.stays_bind scope.stays_return scope.stays_pair stays_cite stays_cached stays_remembered

lemma stays_resolve:
  assumes "recording ep post ec"
  shows "stays (scope_of ep ec) (reaching (resolve_agent_name_to_id ec name))"
  unfolding resolve_agent_name_to_id_def
  by (auto simp: reaching_bind reaching_return split: option.splits intro!: stays_intros stays_get [OF assms])

lemma stays_search_agent: "recording ep post ec \<Longrightarrow> stays (scope_of ep ec) (reaching (search_agent ec args))"
  unfolding search_agent_def by (auto simp: reaching_return intro!: stays_intros stays_resolve split: option.splits)

lemma stays_cluster_nodes: "recording ep post ec \<Longrightarrow> stays (scope_of ep ec) (reaching (cluster_nodes ec enabled))"
  unfolding cluster_nodes_def by (auto simp: reaching_return reaching_bind intro!: stays_intros stays_get)

lemma stays_read: "recording ep post ec \<Longrightarrow> stays (scope_of ep ec) (run_read ec x)"
proof (induction ec x rule: run_read.induct)
  case (1 ec args)
  then show ?case unfolding run_read.simps dumped_def run_search_alerts_def Let_def
    by (intro stays_intros stays_search_agent stays_execute)
next
  case (2 ec args)
  then show ?case unfolding run_read.simps dumped_def run_aggregate_alerts_def by (intro stays_intros stays_execute)
next
  case (3 ec args)
  then show ?case unfolding run_read.simps dumped_def run_count_alerts_by_severity_def by (intro stays_intros stays_execute)
next
  case (4 ec args)
  then show ?case unfolding run_read.simps dumped_def run_get_event_timeline_def by (intro stays_intros stays_execute)
next
  case (5 ec args)
  then show ?case unfolding run_read.simps dumped_def run_get_agent_alert_history_def by (intro stays_intros stays_execute)
next
  case (6 ec args)
  then show ?case unfolding run_read.simps dumped_def run_list_agents_def by (intro stays_intros stays_get)
next
  case (7 ec agent_id)
  then show ?case unfolding run_read.simps dumped_def run_get_agent_detail_def by (intro stays_intros stays_get)
next
  case (8 ec rule_id)
  then show ?case unfolding run_read.simps dumped_def run_get_rule_definition_def by (intro stays_intros stays_get)
next
  case (9 ec)
  then show ?case unfolding run_read.simps dumped_def run_get_cluster_health_def Let_def
    by (intro stays_intros stays_cluster_status stays_cluster_nodes)
qed

section \<open>Properties\<close>


text \<open>Any refusal of the status call, a missing permission included, is reported as a manager that did not respond.\<close>

lemma refused_status_reads_as_silence:
  assumes "api_get (ec_server_api ec) ''/cluster/status'' [] (re_manager w) = (Inl (api_error ''Server API returned 403: Permission denied''), m)"
  shows "\<exists>h c db' w'. run_get_cluster_health ec (db, w) = (Inr (h, c), db', w') \<and> cl_summary h = ''Wazuh manager API did not respond.''"
  using assms by (simp add: run_get_cluster_health_def io_bind_def io_return_def reaching_def cluster_status_def server_api_get_def pget_def dget_or_def
      cluster_nodes_def cite_def make_citation_def dict_field_def health_summary_def Let_def split: prod.splits)


end
