(* ===== verification/Chat_Turns.thy ===== *)
theory Chat_Turns
  imports Agent_Runs Read_Tools
begin

text \<open>
  A chat turn over the tools as \<open>tools/registration.py\<close> registers them: the read tools of \<open>Alert_Search\<close> and \<open>Read_Tools\<close>,
  \<open>list_active_blocks\<close>, and the propose tools, which reach the manager only.  The knowledge and web tools are not
  modelled; they enter as tools that leave the database, the manager, the indexer and the cache alone.
\<close>

section \<open>The registry\<close>

definition active_block_dump :: "active_block \<Rightarrow> pyval" where
  "active_block_dump b = PDict [(''proposal_id'', PStr (ab_proposal_id b)), (''agent_id'', PStr (ab_agent_id b)), (''target'', PStr (ab_target b)),
     (''target_kind'', PStr (ab_target_kind b)), (''command'', PStr (ab_command b)), (''reason'', PStr (ab_reason b)),
     (''blocked_at'', PStr (ab_blocked_at b)), (''auto_unblock_at'', str_or_none (ab_auto_unblock_at b))]"

definition BLOCKS_NOTE :: string where
  "BLOCKS_NOTE = ''Wolf's record of blocks it dispatched and has not reversed - NOT a live host check. Confirming an IP is still blocked on the host needs wolf-pack.''"

definition blocks_dump :: "(datetime \<Rightarrow> string) \<Rightarrow> active_block list \<times> citation \<Rightarrow> dict" where
  "blocks_dump stamp out = [(''blocks'', PList (map active_block_dump (fst out))), (''note'', PStr BLOCKS_NOTE), cited stamp (snd out)]"

definition active_blocks_runner ::
  "(dict \<Rightarrow> nat) \<Rightarrow> tool_schema \<Rightarrow> (dict \<Rightarrow> dict list + dict) \<Rightarrow> (dict \<Rightarrow> dict list) \<Rightarrow> (datetime \<Rightarrow> string) \<Rightarrow> organization_context
    \<Rightarrow> ('z database_scheme \<times> 'x) tool_runner" where
  "active_blocks_runner limit_of schema parse check stamp ctx =
    \<lparr>tr_schema = schema, tr_input = parse,
     tr_run = (\<lambda>args (db, x). case run_list_active_blocks ctx (limit_of args) db of (out, db) \<Rightarrow> (Inr (blocks_dump stamp out), (db, x))),
     tr_output = check\<rparr>"

text \<open>A tool of the manager alone, in the wider world of a turn.\<close>

definition manager_tool :: "('d \<times> 'w wazuh) tool_runner \<Rightarrow> ('d \<times> ('w, 'i) reach) tool_runner" where
  "manager_tool t = \<lparr>tr_schema = tr_schema t, tr_input = tr_input t,
     tr_run = (\<lambda>args (db, x). case tr_run t args (db, re_manager x) of (r, (db, m)) \<Rightarrow> (r, (db, x\<lparr>re_manager := m\<rparr>))),
     tr_output = tr_output t\<rparr>"

definition elsewhere :: "('z audit_db_scheme \<times> ('w, 'i) reach) tool_runner \<Rightarrow> bool" where
  "elsewhere t \<longleftrightarrow> keeps (\<lambda>s s'. (\<exists>c. fst s' = fst s\<lparr>clock := c\<rparr>) \<and> re_manager (snd s') = re_manager (snd s)
     \<and> re_indexer (snd s') = re_indexer (snd s) \<and> re_cache (snd s') = re_cache (snd s)) t"

definition registered ::
  "'u endpoint \<Rightarrow> ('u \<times> http_request list, 'i \<times> (string \<times> dict) list) exec_context \<Rightarrow> organization_context \<Rightarrow> tool_schema
    \<Rightarrow> ('z database_scheme \<times> ('u \<times> http_request list, 'i \<times> (string \<times> dict) list) reach) tool_runner \<Rightarrow> bool" where
  "registered ep ec ctx schema t \<longleftrightarrow>
     (\<exists>call_of parse check. t = read_runner call_of schema parse check ec)
   \<or> (\<exists>limit_of parse check stamp. t = active_blocks_runner limit_of schema parse check stamp ctx)
   \<or> (\<exists>stamp call_of parse check ttl. t = manager_tool (propose_runner stamp call_of schema parse check ttl (logged ep) ctx))
   \<or> elsewhere t"

section \<open>The scope of a turn\<close>

definition turn_scope ::
  "'u endpoint \<Rightarrow> wazuh_connection \<Rightarrow> organization_context \<Rightarrow> 'z database_scheme \<times> ('u \<times> http_request list, 'i \<times> (string \<times> dict) list) reach
    \<Rightarrow> 'z database_scheme \<times> ('u \<times> http_request list, 'i \<times> (string \<times> dict) list) reach \<Rightarrow> bool" where
  "turn_scope ep cn ctx s t \<longleftrightarrow> only_proposes ep ctx (fst s, re_manager (snd s)) (fst t, re_manager (snd t))
     \<and> posted cn (snd (re_indexer (snd s))) (snd (re_indexer (snd t)))
     \<and> cache_kept (oc_organization_id ctx) (re_cache (snd s)) (re_cache (snd t))"

lemma turn_scope_refl: "turn_scope ep cn ctx s s"
  by (simp add: turn_scope_def only_proposes_refl)

lemma turn_scope_trans: "turn_scope ep cn ctx s t \<Longrightarrow> turn_scope ep cn ctx t u \<Longrightarrow> turn_scope ep cn ctx s u"
  unfolding turn_scope_def by (blast intro: only_proposes_trans posted_trans cache_kept_trans)

interpretation scoped_turn: agent_contract "turn_scope ep cn ctx" for ep cn ctx
  by unfold_locales (rule turn_scope_refl, rule turn_scope_trans, assumption+, simp_all add: turn_scope_def only_proposes_event only_proposes_uuid4)

lemma clock_only_proposes: "reads ep m m' \<Longrightarrow> only_proposes ep ctx (db, m) (db\<lparr>clock := c\<rparr>, m')"
  by (intro only_proposesI [of _ _ _ _ _ 0]) (simp_all add: drawn_def proposes_refl unique_ids_def)

lemma in_scope_turn:
  assumes "in_scope ep cn (oc_organization_id ctx) s t"
  shows "turn_scope ep cn ctx s t"
proof -
  from assms obtain c where "fst t = fst s\<lparr>clock := c\<rparr>" "reads ep (re_manager (snd s)) (re_manager (snd t))" unfolding in_scope_def by blast
  with assms clock_only_proposes [of ep _ _ ctx "fst s" c] show ?thesis unfolding turn_scope_def in_scope_def by simp
qed

lemma manager_tool_keeps:
  assumes "keeps (only_proposes ep ctx) t"
  shows "keeps (turn_scope ep cn ctx) (manager_tool t)"
  using assms unfolding keeps_def turn_scope_def manager_tool_def
  by (auto split: prod.splits) (metis snd_conv)

lemma registered_keeps:
  assumes "recording ep post ec" "ec_organization ec = ctx" "registered ep ec ctx schema t"
  shows "keeps (turn_scope ep (ec_connection ec) ctx) t"
  using assms(3) unfolding registered_def
proof (elim disjE exE)
  fix call_of parse check
  assume t: "t = read_runner call_of schema parse check ec"
  show ?thesis using stays_read [OF assms(1)] assms(2) unfolding t keeps_def stays_def read_runner_def by (auto intro!: in_scope_turn)
next
  fix limit_of parse check stamp
  assume t: "t = active_blocks_runner limit_of schema parse check stamp ctx"
  show ?thesis unfolding t keeps_def turn_scope_def active_blocks_runner_def
    by (auto simp: run_list_active_blocks_def make_citation_def utcnow_def Let_def intro!: clock_only_proposes)
next
  fix stamp call_of parse check ttl
  assume t: "t = manager_tool (propose_runner stamp call_of schema parse check ttl (logged ep) ctx)"
  show ?thesis unfolding t by (rule manager_tool_keeps [OF propose_runner_keeps])
next
  assume e: "elsewhere t"
  show ?thesis unfolding keeps_def
  proof (intro allI)
    fix args s
    have "in_scope ep (ec_connection ec) (oc_organization_id ctx) s (snd (tr_run t args s))"
      using e unfolding elsewhere_def keeps_def in_scope_def by (cases s) simp
    then show "turn_scope ep (ec_connection ec) ctx s (snd (tr_run t args s))" by (rule in_scope_turn)
  qed
qed

section \<open>Properties\<close>

text \<open>C8: a whole chat turn over the registered tools, whatever the model asks for and for as many steps as it runs, acts
  within its organization and only proposes: the manager sees nothing but logins and GETs on the read client; the
  indexer sees only searches on the connection's nodes that carry the group-label filter when there is one; the cache
  changes for no other organization; the trail keeps every event; and the ledger keeps every row (but for the link
  of a row of the caller's organization to its reversal) and gains only pending rows of the caller's own, with a
  content hash that matches.\<close>

theorem chat_turn_stays_in_scope:
  assumes run: "agent_run cfg research nudge question history s = Some (r, s')"
    and ec: "recording ep post ec" "ec_organization ec = ac_ctx cfg"
    and tools: "\<And>name t schema. map_of (ac_runners cfg) name = Some t \<Longrightarrow> map_of (ac_schemas cfg) name = Some schema \<Longrightarrow>
      ts_tier schema \<noteq> ExecuteTier \<Longrightarrow> registered ep ec (ac_ctx cfg) schema t"
  shows "reads ep (re_manager (as_tools s)) (re_manager (as_tools s'))
    \<and> posted (ec_connection ec) (snd (re_indexer (as_tools s))) (snd (re_indexer (as_tools s')))
    \<and> cache_kept (oc_organization_id (ac_ctx cfg)) (re_cache (as_tools s)) (re_cache (as_tools s'))
    \<and> prefix (audit_events (as_db s)) (audit_events (as_db s'))
    \<and> (\<exists>n. drawn n (as_db s) (as_db s') \<and> (unique_ids n (as_db s) \<longrightarrow> proposes (ac_ctx cfg) (proposals (as_db s)) (proposals (as_db s'))))"
proof -
  have "turn_scope ep (ec_connection ec) (ac_ctx cfg) (held s) (held s')"
    using run by (rule scoped_turn.agent_run_keeps) (rule registered_keeps [OF ec tools])
  then have o: "only_proposes ep (ac_ctx cfg) (as_db s, re_manager (as_tools s)) (as_db s', re_manager (as_tools s'))"
      "posted (ec_connection ec) (snd (re_indexer (as_tools s))) (snd (re_indexer (as_tools s')))"
      "cache_kept (oc_organization_id (ac_ctx cfg)) (re_cache (as_tools s)) (re_cache (as_tools s'))"
    unfolding turn_scope_def held_def by simp_all
  from o(1) obtain n where "drawn n (as_db s) (as_db s')"
      "\<forall>k. unique_ids (n + k) (as_db s) \<longrightarrow> proposes (ac_ctx cfg) (proposals (as_db s)) (proposals (as_db s'))"
    unfolding only_proposes_def by auto
  then have "\<exists>n. drawn n (as_db s) (as_db s') \<and> (unique_ids n (as_db s) \<longrightarrow> proposes (ac_ctx cfg) (proposals (as_db s)) (proposals (as_db s')))"
    by (metis add_0_right)
  with o show ?thesis unfolding only_proposes_def by simp
qed

theorem chat_turn_stays_in_scope_witness:
  "\<exists>ec t r s'. recording rules_manager (demo_indexer [] 2) ec \<and> t = read_runner (\<lambda>_. SearchAlerts demo_search) echo_schema Inr (\<lambda>_. []) ec
     \<and> agent_run (demo_config (stuck_model echo_call) 2 [(''echo'', echo_schema)] [(''echo'', t)]) None None ''q'' []
         (demo_state empty_ledger \<lparr>re_manager = \<lparr>read_token = None, action_token = None, remote = ((), [])\<rparr>, re_indexer = ((), []), re_cache = None\<rparr>)
         = Some (r, s')
     \<and> posted demo_connection [] (snd (re_indexer (as_tools s')))"
proof -
  let ?ec = "(demo_reader (logged_post (demo_indexer [] 2 :: unit indexer)) (logged rules_manager))\<lparr>ec_organization := echo_ctx\<rparr>"
  let ?t = "read_runner (\<lambda>_. SearchAlerts demo_search) echo_schema Inr (\<lambda>_. []) ?ec"
  let ?cfg = "demo_config (stuck_model echo_call) 2 [(''echo'', echo_schema)] [(''echo'', ?t)]
    :: (database, (unit \<times> http_request list, unit \<times> (string \<times> dict) list) reach, unit) agent_config"
  let ?s = "demo_state empty_ledger \<lparr>re_manager = \<lparr>read_token = None, action_token = None, remote = ((), [])\<rparr>, re_indexer = ((), []), re_cache = None\<rparr>
    :: (database, (unit \<times> http_request list, unit \<times> (string \<times> dict) list) reach, unit) agent_state"
  have d: "ac_step_breaker ?cfg > 0" "ac_runners ?cfg = [(''echo'', ?t)]" "ac_schemas ?cfg = [(''echo'', echo_schema)]" "ac_ctx ?cfg = echo_ctx"
    by (simp_all add: demo_config_def)
  obtain r s' where run: "agent_run ?cfg None None ''q'' [] ?s = Some (r, s')" using agent_run_breaker [OF d(1)] by blast
  have rec: "recording rules_manager (demo_indexer [] 2) ?ec" "ec_organization ?ec = ac_ctx ?cfg"
    by (simp_all add: recording_def demo_reader_def demo_config_def)
  have "posted (ec_connection ?ec) (snd (re_indexer (as_tools ?s))) (snd (re_indexer (as_tools s')))"
    by (rule chat_turn_stays_in_scope [OF run rec, THEN conjunct2, THEN conjunct1]) (simp add: d registered_def split: if_splits, blast)
  then have "posted demo_connection [] (snd (re_indexer (as_tools s')))" by (simp add: demo_state_def demo_reader_def)
  with run rec show ?thesis by blast
qed

end
