(* ===== verification/Spec2Isabelle.thy ===== *)
theory Spec2Isabelle
  imports Ledger Validator File_Edits Governance Org_Cache Time_Fields Chat_Turns
begin

text \<open>
  Project Wolf: the agent that proposes, the write gateway, and the governance around them.

  Wolf is a server that lets a language model investigate a Wazuh installation and propose changes to it.  The
  model never writes: a change is a proposal row, a human of the same organization approves it, an executor
  performs it under the organization's own Wazuh credential, and a scheduler undoes timed blocks.  Around that
  stand organizations with members and roles, the install Superuser, who enters an organization only by its
  consent, sessions, and an audit trail.  The development models these parts of \<open>src/services/server/wolf_server\<close>
  and \<open>src/packages\<close> and proves what keeps them safe.

  \<^bold>\<open>Shape of the model.\<close>  A table is a list of records, the database a record of tables that components extend
  (\<open>audit_db\<close>, \<open>org_db\<close>, \<open>database\<close>, \<open>wolf_db\<close>).  A function that may raise returns a \<open>result\<close> (\<open>Inl\<close> the
  exception with its class, HTTP status and text); one that changes state returns the new state too.  What
  the code reads from outside is a sequence of readings in the state (\<open>datetime.now\<close>, \<open>uuid4\<close>,
  \<open>token_urlsafe\<close>) or a parameter: the HTTP transport to the manager, bcrypt, PyJWT, Fernet, the disk,
  \<open>random.shuffle\<close>.  A request that raises before its commit is rolled back.  Requests are atomic: two requests
  that interleave between their database statements are not modelled.  Strings are lists of Latin-1
  characters; times count microseconds.

  \<^bold>\<open>Python underneath.\<close>  \<open>Wolf_Prelude\<close> (values, rows, sorting), \<open>Py_Text\<close> (string methods), \<open>Py_Time\<close> (dates),
  \<open>Py_Uuid\<close> (\<open>uuid.UUID\<close> parsing, with its round trip), \<open>Py_Json\<close> (canonical JSON and SHA-256), \<open>Py_Json_Reader\<close>
  (\<open>json.loads\<close>, with its round trip), \<open>Py_Values\<close> (operations on values of unexpected shape), \<open>Py_Regex\<close> (a backtracking matcher for the regular expressions the code
  uses), \<open>Wolf_Errors\<close> (\<open>wolf_common/errors.py\<close>).

  \<^bold>\<open>The gateway.\<close>
  \<^item> \<open>Proposal_Models\<close>: \<open>gateway/models.py\<close>, \<open>gateway/state_machine.py\<close>.  Paths of the state machine go forward and
    reach execution only through approval.
  \<^item> \<open>Proposals\<close>: \<open>gateway/proposals.py\<close>.  The content hash pins the substance up to a SHA-256 collision.
  \<^item> \<open>Approval\<close>, \<open>Execution\<close>, \<open>Reversal\<close>, \<open>Scheduler\<close>: the modules of those names.  When a signature is given, what
    an execution needs and leaves, when a reversal rolls its original back, and that a sweep reverses each due
    block once.
  \<^item> \<open>Active_Response\<close>, \<open>Agent_Actions\<close>, \<open>Rule_Tuning\<close>, \<open>Config_Change\<close>: the action classes in \<open>wazuh/\<close>, as text and
    catalogue functions; \<open>Validator\<close>: \<open>gateway/validator.py\<close>, what a draft that passes is bounded by.
  \<^item> \<open>Capabilities\<close>, \<open>Server_Api\<close>: \<open>wazuh/capabilities.py\<close>, \<open>wazuh/server_api.py\<close>, \<open>wazuh/cluster.py\<close>.  Deny wins;
    every write is checked before any request; the read client only reads.
  \<^item> \<open>Executors\<close>, \<open>File_Edits\<close>: \<open>gateway/executors.py\<close>, and its file edits against a manager that stores files:
    an edit is applied as approved or rolled back, on a cluster on every node or on none, and an undo restores
    the recorded file.
  \<^item> \<open>Secrets\<close>, \<open>Wazuh_Connection\<close>: \<open>wolf_secrets/file_backend.py\<close> as a refinement of a finite map; topology and
    credential resolution.
  \<^item> \<open>Proposal_Api\<close>: \<open>api/action_proposals.py\<close>, the routes that join all of this.
  \<^item> \<open>Ledger\<close>: the abstract append-only ledger, the step relation \<open>wolf_step\<close> of the whole gateway, and the proof that
    each step is a sequence of ledger moves.

  \<^bold>\<open>Governance.\<close>
  \<^item> \<open>Audit_Log\<close>, \<open>Rbac\<close>: \<open>audit/\<close>, \<open>organization/rbac.py\<close>, \<open>organization/models.py\<close>.
  \<^item> \<open>Org_Context\<close>: \<open>organization/context.py\<close>, \<open>organization/superuser_access.py\<close>.  No context without a living membership.
  \<^item> \<open>Session_Blacklist\<close>: \<open>auth/blacklist.py\<close>.  A revocation outlives the tokens it is meant for.
  \<^item> \<open>Org_Management\<close>, \<open>Superuser_Api\<close>, \<open>Auth_Api\<close>: the routes of \<open>api/org_management.py\<close>, \<open>api/superuser.py\<close>,
    \<open>api/organizations.py\<close>, \<open>api/auth.py\<close>, the tokens and middleware of \<open>auth/\<close>.  A login opens the session of its
    user; logout ends it.
  \<^item> \<open>Consent\<close>: the membership tables as an abstract machine with its invariant; \<open>Governance\<close>: every request is a
    sequence of its moves, so the tables stay consistent, an organization keeps an active admin, the Superuser
    enters by consent, and access requests follow their life cycle.

  \<^bold>\<open>The agent.\<close>
  \<^item> \<open>Guardrails\<close>: \<open>guardrails/limits.py\<close>, \<open>guardrails/rate_limit.py\<close>.  A token bucket bounds every stretch of time; a
    payload is cut at a character.
  \<^item> \<open>Tool_Dispatch\<close>: \<open>wolf_schema/tools.py\<close>, \<open>models/registry.py\<close>, \<open>tools/registry.py\<close>, \<open>tools/base.py\<close>,
    \<open>tools/dispatcher.py\<close>.  What stands between the model and a tool body, and that calls are audited.
  \<^item> \<open>Propose_Tools\<close>: the bodies of \<open>tools/propose_*.py\<close> and \<open>tools/active_blocks.py\<close>; \<open>Propose_Gate\<close>: what they
    read, and what holds of a proposal they queue; \<open>Proposing\<close>: the tools as registered, and that they only propose.
  \<^item> \<open>Model_Chat\<close>: \<open>wolf_schema/chat.py\<close>, \<open>wolf_schema/capability.py\<close>, \<open>models/interface.py\<close>, \<open>agent/strategies.py\<close>,
    \<open>models/failover.py\<close>.  The chain answers when a link does.
  \<^item> \<open>Grounding\<close>: \<open>grounding/validator.py\<close>.  The judge labels every claim, and judging in batches ends as judging at once.
  \<^item> \<open>Org_Cache\<close>: \<open>caching/cache.py\<close> as a refinement of a map, isolated by organization.
  \<^item> \<open>Agent_Loop\<close>: \<open>agent/loop.py\<close>, \<open>agent/events.py\<close>; \<open>Agent_Runs\<close>: that a run ends, what it emits, and that a run
    of tools that only read or propose changes nothing but its own pending proposals.
  \<^item> \<open>Alert_Search\<close>: \<open>wazuh/query_builder.py\<close>, \<open>wazuh/opensearch.py\<close>, \<open>tools/alerts.py\<close>.  Every search carries the
    organization's filter, paging misses nothing, and the breakdowns are exact.
  \<^item> \<open>Read_Tools\<close>: \<open>tools/agents.py\<close>, \<open>tools/rules.py\<close>, \<open>tools/cluster.py\<close>, and what any read tool can touch;
    \<open>Time_Fields\<close>: \<open>tools/timefmt.py\<close>.
  \<^item> \<open>Chat_Turns\<close>: the registered tools together: a whole chat turn, whatever the model asks, stays in its organization
    and only proposes.

  \<^bold>\<open>Interfaces.\<close>  Locales state what one part relies on of another and are interpreted on the model: \<open>append_only\<close>
  (audit trail), \<open>ledger_system\<close> (the gateway), \<open>secrets_backend\<close> and \<open>durable_store\<close>, \<open>preserved\<close> (invariants
  along runs, for the abstract moves, for admins and for the governance), \<open>scoped_store\<close> (the cache), \<open>step_relation\<close> (bodies of read tools),
  \<open>tool_contract\<close> and \<open>agent_contract\<close>
  (what the tools keep, a dispatch and a whole run keep), and those of the row store and the file edits.

  \<^bold>\<open>Bounds.\<close>  The regular expression matcher and the JSON reader run on fuel that the length of the text bounds,
  and the theorems show that it suffices where they claim a result; the walk through the pages of a search has
  fuel that the theorem shows to suffice when it exceeds the number of full pages.  No other definition uses
  fuel: the loop of the agent is a partial function, whose runs are shown to end, and all other loops of the
  modelled code are recursions over their lists.

  \<^bold>\<open>Not modelled.\<close>  The prompts and the adapters of single model providers, which the loop takes as parameters; the
  knowledge and web tools, which enter a chat turn as tools that leave the modelled state alone; retrieval and
  embeddings, which are floating point; the setup forms for credentials and topology; the dashboard;
  certificates and process management; migrations, settings and wiring.  Of the modelled parts: timeouts and
  retries inside the HTTP library, cookie attributes, log lines, the \<open>updated_at\<close> columns, the Redis backend of
  the blacklist, the schema validation of request bodies, and concurrency between requests.
\<close>

section \<open>The gateway as a whole\<close>

text \<open>C1: In every state the gateway can reach from an empty ledger, by any interleaving of proposals, reversal
  proposals, approvals, rejections and sweeps, against any manager: row ids are distinct; every row's
  stored hash is the hash of its columns; no committed row is in draft or executing; a row that was
  executed has an approver, who is not its requester unless the system actor signed it; and the
  original of every reversal is on record in the same organization.\<close>

theorem reachable_ledger_is_sound:
  assumes "(wolf_step transport shuffle secrets ttl)\<^sup>*\<^sup>* (db0, w0) (db, w)" and "proposals db0 = []"
  shows "distinct (map ap_id (proposals db))
    \<and> (\<forall>p \<in> set (proposals db). ap_content_hash p = recompute_content_hash p
        \<and> ap_state p \<notin> {Draft, Executing}
        \<and> (ap_executed_at p \<noteq> None \<longrightarrow> (\<exists>u. ap_approved_by p = Some u \<and> (u \<noteq> ap_requested_by p \<or> u = WOLF_SYSTEM_ACTOR)))
        \<and> (\<forall>b. ap_reverses_proposal_id p = Some b \<longrightarrow>
            (\<exists>q \<in> set (proposals db). ap_id q = b \<and> ap_organization_id q = ap_organization_id p)))"
proof -
  have "ledger_ok (proposals db0)" using assms(2) by (simp add: ledger_ok_def)
  with gateway.run_ok [OF assms(1)] have ok: "ledger_ok (proposals db)" by simp
  have signed: "\<exists>u. ap_approved_by p = Some u \<and> (u \<noteq> ap_requested_by p \<or> u = WOLF_SYSTEM_ACTOR)"
    if "sound_row p" "ap_executed_at p \<noteq> None" for p
    using that by (auto simp: sound_row_def)
  have reversal: "\<exists>q \<in> set (proposals db). ap_id q = b \<and> ap_organization_id q = ap_organization_id p"
    if "linked (proposals db) p" "ap_reverses_proposal_id p = Some b" for p b
    using that by (simp add: linked_def)
  show ?thesis
  proof (intro conjI ballI)
    show "distinct (map ap_id (proposals db))" using ok by (simp add: ledger_ok_def)
    fix p assume "p \<in> set (proposals db)"
    then have row: "sound_row p" "linked (proposals db) p" using ok by (simp_all add: ledger_ok_def)
    then show "ap_content_hash p = recompute_content_hash p" "ap_state p \<notin> {Draft, Executing}" by (simp_all add: sound_row_def)
  qed (use ok signed reversal in \<open>auto simp: ledger_ok_def\<close>)
qed

text \<open>C27: History is kept: along any run, a row of the ledger is there in every later state with the same id, the
  same frozen columns (organization, class, target, action, parameters, evidence, requester, hash,
  expiry and the rest of \<open>core\<close>), the same signature once it is signed, and a state the lifecycle can reach;
  one that was executed is never pending, approved or executing again.\<close>

theorem ledger_history_is_kept:
  assumes "(wolf_step transport shuffle secrets ttl)\<^sup>*\<^sup>* (db, w) (db', w')" and "ledger_ok (proposals db)"
    and "p \<in> set (proposals db)"
  shows "\<exists>q \<in> set (proposals db'). ap_id q = ap_id p \<and> core q = core p \<and> can_transition\<^sup>*\<^sup>* (ap_state p) (ap_state q)
    \<and> (\<forall>u. ap_approved_by p = Some u \<longrightarrow> ap_approved_by q = Some u)
    \<and> (ap_state p \<in> {Succeeded, Failed, RolledBack} \<longrightarrow> ap_state q \<in> {Succeeded, Failed, RolledBack})"
proof -
  obtain q where q: "q \<in> set (proposals db')" "evolves p q" using gateway.run_row [OF assms(1)] assms(2,3) by auto
  moreover have "ap_state p \<in> {Succeeded, Failed, RolledBack} \<longrightarrow> ap_state q \<in> {Succeeded, Failed, RolledBack}"
    using gateway.executed_once [OF assms(1), of p q] assms(2,3) q evolves_columns(1) [OF q(2)] by auto
  ultimately show ?thesis using evolves_columns(1) [OF q(2)] by (auto simp: evolves_def)
qed

text \<open>C28: The audit trail is append-only for the whole gateway: an event written at some point is in every later
  state, at the same position and unchanged.\<close>

theorem audit_trail_is_append_only:
  assumes "(wolf_step transport shuffle secrets ttl)\<^sup>*\<^sup>* (db, w) (db', w')" and "i < length (audit_events db)"
  shows "i < length (audit_events db') \<and> audit_events db' ! i = audit_events db ! i"
  using gateway.run_nth [OF assms(1), of i] assms(2) by simp

text \<open>C2: The gateway implements the abstract ledger: each of its steps is a sequence of ledger moves, that is, of
  amendments that keep a row's frozen columns and its signature and move its state forward, and of
  additions of sound rows with unused ids whose reversal link stays in the organization.\<close>

theorem gateway_refines_ledger:
  assumes "wolf_step transport shuffle secrets ttl (db, w) (db', w')" and "ledger_ok (proposals db)"
  shows "ledger_move\<^sup>*\<^sup>* (proposals db) (proposals db') \<and> ledger_ok (proposals db')"
  using gateway.step_moves [OF assms(1)] assms(2) ledger_moves_ok by auto

text \<open>C4: Organizations are isolated.  Whatever a member of one organization asks the approval API, with whatever
  outcome: an approval or a rejection leaves every row of every other organization as it was and
  writes audit events for the caller's organization only; reading shows rows of that organization only.\<close>

theorem approval_api_is_isolated:
  assumes "ledger_ok (proposals db)"
  shows "confined (oc_organization_id ctx) db (fst (snd (approve transport shuffle secrets db ctx i w)))
    \<and> confined (oc_organization_id ctx) db (snd (reject db ctx i why))
    \<and> (\<forall>rows. list_proposals db ctx state = Inr rows \<longrightarrow>
        set rows \<subseteq> from_row ` {p \<in> set (proposals db). ap_organization_id p = oc_organization_id ctx})
    \<and> (\<forall>out. get_proposal db ctx i = Inr out \<longrightarrow>
        (\<exists>p \<in> set (proposals db). ap_organization_id p = oc_organization_id ctx \<and> ap_id p = i \<and> out = from_row p))"
proof (intro conjI)
  show "confined (oc_organization_id ctx) db (fst (snd (approve transport shuffle secrets db ctx i w)))"
    using approve_confined [OF assms] by (metis prod.collapse)
  show "confined (oc_organization_id ctx) db (snd (reject db ctx i why))"
    using reject_confined [OF assms] by (metis prod.collapse)
  show "\<forall>rows. list_proposals db ctx state = Inr rows \<longrightarrow>
        set rows \<subseteq> from_row ` {p \<in> set (proposals db). ap_organization_id p = oc_organization_id ctx}"
    by (auto simp: list_proposals_def rbind_def require_capability_def Let_def dest!: in_set_takeD split: if_splits sum.splits)
  show "\<forall>out. get_proposal db ctx i = Inr out \<longrightarrow>
        (\<exists>p \<in> set (proposals db). ap_organization_id p = oc_organization_id ctx \<and> ap_id p = i \<and> out = from_row p)"
    by (auto simp: get_proposal_def rbind_def require_capability_def dest!: load_proposal_Inr split: if_splits sum.splits)
qed

text \<open>C3: No signature, no contact: an approval request changes the remote world only if it signed a pending,
  unexpired proposal of the caller's organization, by a caller with an approving role who is not its
  requester.\<close>

theorem approve_touches_world_only_when_signed:
  assumes "approve transport shuffle secrets db ctx i w = (r, db', w')" and "w' \<noteq> w"
  shows "\<exists>p \<in> set (proposals db). ap_id p = i \<and> ap_organization_id p = oc_organization_id ctx
    \<and> oc_role ctx \<in> {''admin'', ''engineer'', ''responder''} \<and> oc_user_id ctx \<noteq> ap_requested_by p
    \<and> ap_state p = Pending \<and> clock db 0 < instant (ap_expires_at p)"
proof -
  from assms obtain p where l: "load_proposal db ctx i = Inr p"
    by (auto simp: approve_def require_capability_def split: sum.splits if_splits)
  have "\<exists>p1. fst (approve_proposal db p (oc_user_id ctx) (oc_role ctx) (Some (oc_session_id ctx))) = Inr p1"
    using assms l by (auto simp: approve_def require_capability_def raise_after_eq split: sum.splits if_splits prod.splits)
  then show ?thesis
  proof (cases rule: approve_proposal_cases [of db p "oc_user_id ctx" "oc_role ctx" "Some (oc_session_id ctx)"])
    case (approved p1 db1)
    with load_proposal_Inr [OF l] show ?thesis by (auto simp: approver_roles)
  qed auto
qed

section \<open>Witnesses\<close>

definition sample_row :: action_proposal where
  "sample_row = sample_proposal\<lparr>ap_content_hash := recompute_content_hash sample_proposal\<rparr>"

definition sample_db :: wolf_db where
  "sample_db = \<lparr>audit_events = [], clock = int, uuid_source = (\<lambda>n. word_of_nat (n + 100)), organizations = [],
     users = [], user_organizations = [], access_requests = [], token_source = (\<lambda>_. ''token''), proposals = [sample_row],
     wazuh_configs = [], wazuh_topologies = []\<rparr>"

lemma sample_simps [simp]:
  "proposals sample_db = [sample_row]" "audit_events sample_db = []" "uuid_source sample_db 0 = 100" "ap_id sample_row = 7"
  "ap_state sample_row = Succeeded" "ap_organization_id sample_row = 1" "clock sample_db n = int n"
  by (simp_all add: sample_db_def sample_row_def sample_proposal_def)

lemma sample_ledger_ok: "ledger_ok (proposals sample_db)"
proof -
  have "recompute_content_hash sample_row = recompute_content_hash sample_proposal"
    by (simp add: sample_row_def recompute_content_hash_def)
  then show ?thesis by (simp add: ledger_ok_def sound_row_def linked_def sample_row_def sample_proposal_def)
qed

lemma sample_step:
  assumes "uuid_source db 0 \<notin> ap_id ` set (proposals db)"
  obtains p db' where "wolf_step transport shuffle secrets 900 (db, w) (db', w)" "proposals db' = proposals db @ [p]"
    "ap_requested_by p = 2" "length (audit_events db') = Suc (length (audit_events db))"
proof -
  obtain p db' where c: "create_proposal 900 db 1 2 ''active_response'' [(''agent_id'', PStr ''001'')] ''firewall-drop''
      ''scan'' ''block'' None None None None None None = (p, db')" by (metis surj_pair)
  from create_proposal_db(3) [OF c] have "length (audit_events db') = Suc (length (audit_events db))" by auto
  then show thesis by (rule that [OF wolf_step.propose [OF assms c] create_proposal_db(1) [OF c] create_proposal_row(4) [OF c]])
qed

theorem reachable_ledger_is_sound_witness:
  "\<exists>db p. (wolf_step (\<lambda>_ _ _ w. (Inl (PyError [] []), w)) (\<lambda>xs. xs) (\<lambda>_. Inr PNone) 900)\<^sup>*\<^sup>* (sample_db\<lparr>proposals := []\<rparr>, ()) (db, ())
     \<and> proposals db = [p] \<and> ap_content_hash p = recompute_content_hash p"
proof -
  let ?s = "wolf_step (\<lambda>_ _ _ w. (Inl (PyError [] []), w)) (\<lambda>xs. xs) (\<lambda>_. Inr PNone) 900"
  obtain p db where st: "?s (sample_db\<lparr>proposals := []\<rparr>, ()) (db, ())" and p: "proposals db = [p]"
    by (rule sample_step [of "sample_db\<lparr>proposals := []\<rparr>"]) auto
  have run: "?s\<^sup>*\<^sup>* (sample_db\<lparr>proposals := []\<rparr>, ()) (db, ())" using st by (rule r_into_rtranclp)
  from reachable_ledger_is_sound [OF run] run p show ?thesis by auto
qed

theorem ledger_history_is_kept_witness:
  "\<exists>db p. (wolf_step (\<lambda>_ _ _ w. (Inl (PyError [] []), w)) (\<lambda>xs. xs) (\<lambda>_. Inr PNone) 900)\<^sup>*\<^sup>* (sample_db, ()) (db, ())
     \<and> length (proposals db) = 2 \<and> p \<in> set (proposals db) \<and> core p = core sample_row \<and> ap_state p \<in> {Succeeded, Failed, RolledBack}"
proof -
  let ?s = "wolf_step (\<lambda>_ _ _ w. (Inl (PyError [] []), w)) (\<lambda>xs. xs) (\<lambda>_. Inr PNone) 900"
  obtain p db where st: "?s (sample_db, ()) (db, ())" and p: "proposals db = proposals sample_db @ [p]"
    by (rule sample_step [of sample_db]) auto
  have run: "?s\<^sup>*\<^sup>* (sample_db, ()) (db, ())" using st by (rule r_into_rtranclp)
  from ledger_history_is_kept [OF run sample_ledger_ok, of sample_row] obtain q where "q \<in> set (proposals db)"
      "core q = core sample_row" "ap_state q \<in> {Succeeded, Failed, RolledBack}" by auto
  with run p show ?thesis by (intro exI [of _ db] exI [of _ q]) simp
qed

theorem audit_trail_is_append_only_witness:
  "\<exists>db1 db2. (wolf_step (\<lambda>_ _ _ w. (Inl (PyError [] []), w)) (\<lambda>xs. xs) (\<lambda>_. Inr PNone) 900)\<^sup>*\<^sup>* (db1, ()) (db2, ())
     \<and> audit_events db1 \<noteq> [] \<and> audit_events db2 ! 0 = audit_events db1 ! 0"
proof -
  let ?s = "wolf_step (\<lambda>_ _ _ w. (Inl (PyError [] []), w)) (\<lambda>xs. xs) (\<lambda>_. Inr PNone) 900"
  obtain p db1 where st: "?s (sample_db, ()) (db1, ())" and ev: "length (audit_events db1) = Suc 0"
    by (rule sample_step [of sample_db]) auto
  obtain db2 where st2: "?s (db1, ()) (db2, ())" using wolf_step.decline [of db1 ctx i why] by (metis prod.collapse)
  have run: "?s\<^sup>*\<^sup>* (db1, ()) (db2, ())" using st2 by (rule r_into_rtranclp)
  from audit_trail_is_append_only [OF run, of 0] ev run show ?thesis by (cases "audit_events db1") auto
qed

theorem gateway_refines_ledger_witness:
  "\<exists>db. wolf_step (\<lambda>_ _ _ w. (Inl (PyError [] []), w)) (\<lambda>xs. xs) (\<lambda>_. Inr PNone) 900 (sample_db, ()) (db, ())
     \<and> length (proposals db) = 2 \<and> ledger_ok (proposals db)"
proof -
  let ?s = "wolf_step (\<lambda>_ _ _ w. (Inl (PyError [] []), w)) (\<lambda>xs. xs) (\<lambda>_. Inr PNone) 900"
  obtain p db where st: "?s (sample_db, ()) (db, ())" and p: "proposals db = proposals sample_db @ [p]"
    by (rule sample_step [of sample_db]) auto
  from gateway_refines_ledger [OF st sample_ledger_ok] st p show ?thesis by auto
qed

definition other_ctx :: organization_context where
  "other_ctx = \<lparr>oc_organization_id = 9, oc_organization_slug = ''other'', oc_user_id = 4, oc_user_email = ''x'',
     oc_role = ''admin'', oc_session_id = ''s''\<rparr>"

theorem approval_api_is_isolated_witness:
  "confined 9 sample_db (snd (reject sample_db other_ctx 7 []))"
proof -
  have "confined (oc_organization_id other_ctx) sample_db (snd (reject sample_db other_ctx 7 []))"
    using approval_api_is_isolated [OF sample_ledger_ok, of other_ctx "\<lambda>_ _ _ w. (Inl (PyError [] []), w)" "\<lambda>xs. xs" "\<lambda>_. Inr PNone" 7 "()"] by blast
  then show ?thesis by (simp add: other_ctx_def)
qed

text \<open>A manager that refuses every connection and counts the attempts.\<close>

definition counting :: "string \<Rightarrow> bool \<Rightarrow> http_request \<Rightarrow> nat \<Rightarrow> http_response result \<times> nat" where
  "counting url tls rq n = (Inl (PyError ''ConnectError'' ''refused''), Suc n)"

definition stored_login :: secrets_reader where
  "stored_login key = Inr (PStr (json_dumps_default (PDict [(''username'', PStr ''wolf''), (''password'', PStr ''pw'')])))"

definition configured_db :: wolf_db where
  "configured_db = sample_db\<lparr>proposals := [pending_proposal],
     wazuh_configs := [\<lparr>wc_id = 50, wc_organization_id = 1, wc_opensearch_index_pattern = ''wazuh-alerts-*'',
       wc_opensearch_credential_key = ''a'', wc_server_api_credential_key = ''b'', wc_inject_group_label_filter = False,
       wc_agent_group_labels = None, wc_validated_at = None, wc_created_at = Aware 0, wc_updated_at = Aware 0\<rparr>],
     wazuh_topologies := [\<lparr>wt_id = 51, wt_is_singleton = True, wt_kind = ''single'',
       wt_topology = [(''kind'', PStr ''single''), (''indexer_url'', PStr ''https://i''), (''manager_url'', PStr ''https://m''),
         (''dashboard_url'', PStr ''https://d'')],
       wt_indexer_credential_key = ''c'', wt_manager_credential_key = ''d'', wt_verify_tls = True, wt_validated_at = None,
       wt_created_at = Aware 0, wt_updated_at = Aware 0\<rparr>]\<rparr>"

definition reviewer_ctx :: organization_context where
  "reviewer_ctx = \<lparr>oc_organization_id = 1, oc_organization_slug = ''acme'', oc_user_id = 3, oc_user_email = ''x'',
     oc_role = ''engineer'', oc_session_id = ''s''\<rparr>"

lemma stored_login_loads: "load_credential_blob stored_login key = Inr (''wolf'', ''pw'')"
proof -
  have "json_loads (json_dumps_default (PDict [(''username'', PStr ''wolf''), (''password'', PStr ''pw'')])) =
      Some (PDict [(''username'', PStr ''wolf''), (''password'', PStr ''pw'')])"
    by (rule json_loads_dumps) simp
  then show ?thesis by (simp add: load_credential_blob_def stored_login_def del: json_dumps_default.simps)
qed

lemma sample_urls: "validate_http_url ''https://i'' = Inr ''https://i''" "validate_http_url ''https://m'' = Inr ''https://m''"
  "validate_http_url ''https://d'' = Inr ''https://d''"
  by (code_simp)+

lemma counting_reads: "fetch_credential_capabilities (server_endpoint counting conn) \<lparr>read_token = None, action_token = None, remote = n\<rparr> =
   ([], \<lparr>read_token = None, action_token = None, remote = Suc n\<rparr>)"
  by (simp add: fetch_credential_capabilities_def api_get_def request_def read_request_def authed_request_def authenticate_def
      server_endpoint_def counting_def decode_json_def)

lemma counting_freshness: "agent_freshness \<lparr>ctx_api = server_endpoint counting conn, ctx_capabilities = caps\<rparr> db p
    \<lparr>read_token = None, action_token = None, remote = n\<rparr> = (Inl (PyError ''ConnectError'' ''refused''), \<lparr>read_token = None, action_token = None, remote = Suc n\<rparr>)"
  by (simp add: agent_freshness_def io_bind_def api_get_def request_def read_request_def authed_request_def authenticate_def
      server_endpoint_def counting_def decode_json_def Let_def)

lemma counting_run:
  assumes "ap_action_class p = ''active_response''" "\<not> is_reversal p"
  shows "n < snd (snd (run_executor (server_endpoint counting conn) db p ctx n))"
proof -
  let ?c = "\<lparr>ctx_api = server_endpoint counting conn, ctx_capabilities = []\<rparr>"
  let ?w = "\<lparr>read_token = None, action_token = None, remote = Suc n\<rparr>"
  let ?x = "execute_proposal (agent_freshness ?c) (ar_perform ?c) ar_verify db p (oc_user_id ctx) (Some (oc_session_id ctx)) ?w"
  have run: "snd (snd (run_executor (server_endpoint counting conn) db p ctx n)) = remote (snd (snd ?x))"
    using assms by (simp add: run_executor_def counting_reads get_executor_eq ar_forward_def split_beta Let_def)
  then show ?thesis by (simp add: execute_proposal_def counting_freshness)
qed

theorem approve_touches_world_only_when_signed_witness:
  "0 < snd (snd (approve counting (\<lambda>xs. xs) stored_login configured_db reviewer_ctx 7 0))
   \<and> (\<exists>p \<in> set (proposals configured_db). ap_id p = 7 \<and> ap_state p = Pending)"
proof -
  obtain p1 db1 where ap: "approve_proposal configured_db pending_proposal 3 ''engineer'' (Some ''s'') = (Inr p1, db1)"
    and p1: "ap_action_class p1 = ''active_response''" "\<not> is_reversal p1"
    and db1: "wazuh_configs db1 = wazuh_configs configured_db" "wazuh_topologies db1 = wazuh_topologies configured_db"
    by (simp add: approve_proposal_def is_expired_def utcnow_def configured_db_def sample_db_def assert_transition_def Let_def
        approval_audit_def write_event_def uuid4_def put_row_def is_reversal_def pending_proposal_def sample_proposal_def)
  have l: "load_proposal configured_db reviewer_ctx 7 = Inr pending_proposal"
    by (simp add: load_proposal_def configured_db_def reviewer_ctx_def pending_proposal_def sample_proposal_def)
  obtain conn where conn: "get_wazuh_connection (\<lambda>xs. xs) stored_login reviewer_ctx db1 = Inr conn"
    by (simp add: get_wazuh_connection_def wazuh_config_of_def the_topology_def db1 configured_db_def reviewer_ctx_def
        resolve_runtime_endpoints_def validate_topology_def url_field_def str_field_def sample_urls stored_login_loads)
  have ctx: "oc_user_id reviewer_ctx = 3" "oc_role reviewer_ctx = ''engineer''" "oc_session_id reviewer_ctx = ''s''"
      "require_capability ACTION_APPROVE reviewer_ctx = Inr reviewer_ctx"
    by (simp_all add: reviewer_ctx_def require_capability_def)
  have "snd (snd (approve counting (\<lambda>xs. xs) stored_login configured_db reviewer_ctx 7 0)) =
      snd (snd (execute_signed (server_endpoint counting conn) configured_db db1 p1 reviewer_ctx 0))"
    by (simp add: approve_def ctx l ap conn)
  also have "\<dots> = snd (snd (run_executor (server_endpoint counting conn) db1 p1 reviewer_ctx 0))"
    by (auto simp: execute_signed_def raise_after_eq split: prod.splits sum.splits)
  finally have pos: "0 < snd (snd (approve counting (\<lambda>xs. xs) stored_login configured_db reviewer_ctx 7 0))"
    using counting_run [OF p1] by simp
  obtain r db' w' where r: "approve counting (\<lambda>xs. xs) stored_login configured_db reviewer_ctx 7 0 = (r, db', w')" by (metis prod_cases3)
  from approve_touches_world_only_when_signed [OF r] pos r show ?thesis by auto
qed

end
